(* ===== verification/Prelude.thy ===== *)
theory Prelude
  imports Main "HOL-Library.AList" "HOL-Library.List_Lexorder" "HOL-Library.Char_ord"
begin

text \<open>
  Shared vocabulary of the development: Python results (a raised exception is \<open>Inl\<close>, a
  returned value \<open>Inr\<close>), the fragment of Python's \<open>str\<close> the components use, Python
  dictionaries as association lists in insertion order, and the lemmas about them that carry
  the component proofs.

  A Python string is a \<open>string\<close> whose characters are the code points below 256.  Every
  string below that bound is in Unicode normal form C, so \<open>unicodedata.normalize\<close> is the
  identity on the modelled strings, and UTF-8 spends two bytes on a code point from 128 on.
\<close>

named_theorems py_simps \<open>equations of the Python operations the components share\<close>
named_theorems dict_simps \<open>facts about dictionaries kept in insertion order\<close>

section \<open>Results: a raised exception or a returned value\<close>

definition bindR :: "'e + 'a \<Rightarrow> ('a \<Rightarrow> 'e + 'b) \<Rightarrow> 'e + 'b" where
  "bindR m f = (case m of Inl e \<Rightarrow> Inl e | Inr a \<Rightarrow> f a)"

definition raise_if :: "bool \<Rightarrow> 'e \<Rightarrow> 'e + unit" where
  "raise_if c e = (if c then Inl e else Inr ())"

lemma bindR_Inl [simp]: "bindR (Inl e) f = Inl e"
  by (simp add: bindR_def)

lemma bindR_Inr [simp]: "bindR (Inr a) f = f a"
  by (simp add: bindR_def)

lemma bindR_eq_Inr_iff: "bindR m f = Inr b \<longleftrightarrow> (\<exists>a. m = Inr a \<and> f a = Inr b)"
  by (cases m) auto

lemma raise_if_eq_Inr_iff [simp]: "raise_if c e = Inr u \<longleftrightarrow> \<not> c"
  by (simp add: raise_if_def)

lemma raise_if_False [simp]: "raise_if False e = Inr ()"
  by (simp add: raise_if_def)

lemma raise_if_True [simp]: "raise_if True e = Inl e"
  by (simp add: raise_if_def)

lemma raise_if_eq_Inl_iff: "raise_if c e = Inl e' \<longleftrightarrow> c \<and> e' = e"
  by (auto simp: raise_if_def)

lemma bindR_raise_if: "bindR (raise_if c e) f = (if c then Inl e else f ())"
  by (simp add: raise_if_def)

lemma if_Inl_eq_Inr: "(if c then Inl e else r) = Inr a \<longleftrightarrow> \<not> c \<and> r = Inr a"
  by simp

lemmas result_iffs = bindR_eq_Inr_iff

fun mapR :: "('a \<Rightarrow> 'e + 'b) \<Rightarrow> 'a list \<Rightarrow> 'e + 'b list" where
  "mapR f [] = Inr []"
| "mapR f (x # xs) = bindR (f x) (\<lambda>y. bindR (mapR f xs) (\<lambda>ys. Inr (y # ys)))"

lemma mapR_eq_Inr_iff: "mapR f xs = Inr ys \<longleftrightarrow> list_all2 (\<lambda>x y. f x = Inr y) xs ys"
  by (induction xs arbitrary: ys) (auto simp: bindR_eq_Inr_iff list_all2_Cons1)

lemma mapR_set: "mapR f xs = Inr ys \<Longrightarrow> y \<in> set ys \<Longrightarrow> \<exists>x \<in> set xs. f x = Inr y"
  by (induction xs arbitrary: ys) (auto simp: bindR_eq_Inr_iff)

lemma mapR_id: "(\<And>x y. f x = Inr y \<Longrightarrow> y = x) \<Longrightarrow> mapR f xs = Inr ys \<Longrightarrow> ys = xs"
  by (induction xs arbitrary: ys) (auto simp: bindR_eq_Inr_iff)

lemma mapR_total: "(\<And>x. x \<in> set xs \<Longrightarrow> \<exists>y. f x = Inr y) \<Longrightarrow> \<exists>ys. mapR f xs = Inr ys"
  by (induction xs) (fastforce simp: bindR_eq_Inr_iff)+

section \<open>Python strings\<close>

definition space_char :: "char \<Rightarrow> bool" where
  \<comment> \<open>\<open>str.strip\<close>, \<open>str.split\<close>: the white space of Python below 256\<close>
  "space_char c \<longleftrightarrow> (let n = (of_char c :: nat) in
     (9 \<le> n \<and> n \<le> 13) \<or> (28 \<le> n \<and> n \<le> 32) \<or> n = 133 \<or> n = 160)"

definition strip_by :: "(char \<Rightarrow> bool) \<Rightarrow> string \<Rightarrow> string" where
  "strip_by p s = rev (dropWhile p (rev (dropWhile p s)))"

definition strip :: "string \<Rightarrow> string" where
  "strip s = strip_by space_char s"

definition trimmed_by :: "(char \<Rightarrow> bool) \<Rightarrow> string \<Rightarrow> bool" where
  \<comment> \<open>there is nothing for \<open>strip_by\<close> to remove\<close>
  "trimmed_by p s \<longleftrightarrow> s = [] \<or> (\<not> p (hd s) \<and> \<not> p (last s))"

lemma dropWhile_trimmed: "dropWhile p s = [] \<or> \<not> p (hd (dropWhile p s))"
  by (induction s) auto

lemma strip_by_trimmed: "trimmed_by p (strip_by p s)"
proof -
  define u where "u = dropWhile p s"
  define v where "v = dropWhile p (rev u)"
  have v: "v = [] \<or> \<not> p (hd v)" and u: "u = [] \<or> \<not> p (hd u)"
    unfolding u_def v_def by (rule dropWhile_trimmed)+
  obtain w where w: "rev u = w @ v" unfolding v_def by (metis takeWhile_dropWhile_id)
  then have "u = rev v @ rev w" by (metis rev_append rev_rev_ident)
  then have "v \<noteq> [] \<Longrightarrow> hd (rev v) = hd u \<and> u \<noteq> []" by simp
  moreover have "strip_by p s = rev v" by (simp add: strip_by_def u_def v_def)
  ultimately show ?thesis using u v by (auto simp: trimmed_by_def last_rev)
qed

lemma dropWhile_same: "s = [] \<or> \<not> p (hd s) \<Longrightarrow> dropWhile p s = s"
  by (cases s) auto

lemma strip_by_same: "trimmed_by p s \<Longrightarrow> strip_by p s = s"
  unfolding strip_by_def trimmed_by_def by (auto simp: dropWhile_same hd_rev)

lemma strip_by_idem [simp]: "strip_by p (strip_by p s) = strip_by p s"
  by (rule strip_by_same [OF strip_by_trimmed])

lemma length_strip_by: "length (strip_by p s) \<le> length s"
  unfolding strip_by_def by (metis length_dropWhile_le length_rev order_trans)

lemma trimmed_by_mono: "trimmed_by p s \<Longrightarrow> (\<And>c. q c \<Longrightarrow> p c) \<Longrightarrow> trimmed_by q s"
  by (auto simp: trimmed_by_def)

definition fold_char :: "char \<Rightarrow> string" where
  \<comment> \<open>\<open>str.casefold\<close> on one code point below 256; the sharp s folds to two letters\<close>
  "fold_char c = (let n = (of_char c :: nat) in
     if (65 \<le> n \<and> n \<le> 90) \<or> (192 \<le> n \<and> n \<le> 222 \<and> n \<noteq> 215) then [char_of (n + 32)]
     else if n = 223 then ''ss'' else [c])"

definition casefold :: "string \<Rightarrow> string" where
  "casefold s = concat (map fold_char s)"

definition lower_char :: "char \<Rightarrow> char" where
  "lower_char c = (let n = (of_char c :: nat) in
     if (65 \<le> n \<and> n \<le> 90) \<or> (192 \<le> n \<and> n \<le> 222 \<and> n \<noteq> 215) then char_of (n + 32) else c)"

definition lower :: "string \<Rightarrow> string" where
  "lower s = map lower_char s"

definition upper_char :: "char \<Rightarrow> string" where
  \<comment> \<open>\<open>str.upper\<close> below 256; the two letters whose capital lies above 255 stay distinct\<close>
  "upper_char c = (let n = (of_char c :: nat) in
     if (97 \<le> n \<and> n \<le> 122) \<or> (224 \<le> n \<and> n \<le> 254 \<and> n \<noteq> 247) then [char_of (n - 32)]
     else if n = 223 then ''SS'' else [c])"

definition upper :: "string \<Rightarrow> string" where
  "upper s = concat (map upper_char s)"

definition alnum_char :: "char \<Rightarrow> bool" where
  \<comment> \<open>\<open>str.isalnum\<close> below 256; with the underscore, what \<open>\w\<close> matches\<close>
  "alnum_char c = (let n = (of_char c :: nat) in (48 \<le> n \<and> n \<le> 57) \<or> (65 \<le> n \<and> n \<le> 90) \<or> (97 \<le> n \<and> n \<le> 122) \<or>
     n \<in> {170, 178, 179, 181, 185, 186, 188, 189, 190} \<or> (192 \<le> n \<and> n \<le> 255 \<and> n \<noteq> 215 \<and> n \<noteq> 247))"

fun split_on :: "char \<Rightarrow> string \<Rightarrow> string list" where
  "split_on c [] = [[]]"
| "split_on c (x # xs) =
     (if x = c then [] # split_on c xs
      else (case split_on c xs of [] \<Rightarrow> [[x]] | y # ys \<Rightarrow> (x # y) # ys))"

fun split_by :: "(char \<Rightarrow> bool) \<Rightarrow> string \<Rightarrow> string list" where
  "split_by p [] = [[]]"
| "split_by p (x # xs) =
     (if p x then [] # split_by p xs
      else (case split_by p xs of [] \<Rightarrow> [[x]] | y # ys \<Rightarrow> (x # y) # ys))"

definition words :: "string \<Rightarrow> string list" where
  \<comment> \<open>\<open>str.split()\<close>\<close>
  "words s = filter (\<lambda>w. w \<noteq> []) (split_by space_char s)"

fun join :: "string \<Rightarrow> string list \<Rightarrow> string" where
  "join sep [] = []"
| "join sep [x] = x"
| "join sep (x # y # ys) = x @ sep @ join sep (y # ys)"

definition starts_with :: "string \<Rightarrow> string \<Rightarrow> bool" where
  "starts_with p s \<longleftrightarrow> take (length p) s = p"

definition ends_with :: "string \<Rightarrow> string \<Rightarrow> bool" where
  "ends_with p s \<longleftrightarrow> starts_with (rev p) (rev s)"

fun has_infix :: "string \<Rightarrow> string \<Rightarrow> bool" where
  "has_infix p [] \<longleftrightarrow> p = []"
| "has_infix p (x # xs) \<longleftrightarrow> starts_with p (x # xs) \<or> has_infix p xs"

definition is_ascii :: "string \<Rightarrow> bool" where
  "is_ascii s \<longleftrightarrow> list_all (\<lambda>c. (of_char c :: nat) < 128) s"

definition utf8_length :: "string \<Rightarrow> nat" where
  "utf8_length s = sum_list (map (\<lambda>c. if (of_char c :: nat) < 128 then 1 else 2) s)"

definition truthy :: "string option \<Rightarrow> bool" where
  \<comment> \<open>truth value of a \<open>str | None\<close>: neither \<open>None\<close> nor empty\<close>
  "truthy v \<longleftrightarrow> (case v of None \<Rightarrow> False | Some s \<Rightarrow> s \<noteq> [])"

definition sorted_set :: "'a::linorder list \<Rightarrow> 'a list" where
  \<comment> \<open>\<open>sorted(set(xs))\<close>\<close>
  "sorted_set xs = sort (remdups xs)"

lemma truthy_simps [simp]: "\<not> truthy None" "truthy (Some s) \<longleftrightarrow> s \<noteq> []"
  by (simp_all add: truthy_def)

lemma set_sorted_set [simp]: "set (sorted_set xs) = set xs"
  by (simp add: sorted_set_def)

lemma distinct_sorted_set [simp]: "distinct (sorted_set xs)"
  by (simp add: sorted_set_def)

lemma sorted_sorted_set [simp]: "sorted (sorted_set xs)"
  by (simp add: sorted_set_def)

lemma sorted_set_idem [simp]: "sorted_set (sorted_set xs) = sorted_set xs"
  by (simp add: sorted_set_def distinct_remdups_id sorted_sort_id)

lemma sorted_set_eq_Nil [simp]: "sorted_set xs = [] \<longleftrightarrow> xs = []"
  by (metis set_empty set_sorted_set)

lemma sorted_set_cong: "set xs = set ys \<Longrightarrow> sorted_set xs = sorted_set ys"
  by (metis distinct_sorted_set set_sorted_set sorted_distinct_set_unique sorted_sorted_set)

lemma split_on_nonempty [simp]: "split_on c s \<noteq> []"
  by (induction s) (auto split: list.splits)

lemma split_on_no_sep: "p \<in> set (split_on c s) \<Longrightarrow> c \<notin> set p"
  by (induction s arbitrary: p) (auto split: if_splits list.splits)

section \<open>Dictionaries in insertion order\<close>

text \<open>
  A Python dictionary is an association list with distinct keys: assigning to a present key
  keeps its place, assigning to a new key appends it, which is what \<open>AList.update\<close> does.
  \<open>len(d)\<close> is \<open>length\<close>, \<open>d.get(k)\<close> is \<open>map_of\<close>, \<open>d.pop(k, None)\<close> is
  \<open>AList.delete\<close>, and a dictionary comprehension with a condition is \<open>filter\<close>.
\<close>

definition dict_ok :: "('k \<times> 'v) list \<Rightarrow> bool" where
  "dict_ok d \<longleftrightarrow> distinct (map fst d)"

definition dict_filter :: "('v \<Rightarrow> bool) \<Rightarrow> ('k \<times> 'v) list \<Rightarrow> ('k \<times> 'v) list" where
  "dict_filter p d = filter (\<lambda>kv. p (snd kv)) d"

lemma dict_ok_empty [dict_simps]: "dict_ok []"
  by (simp add: dict_ok_def)

lemma dict_ok_update [dict_simps]: "dict_ok d \<Longrightarrow> dict_ok (AList.update k v d)"
  by (simp add: dict_ok_def distinct_update)

lemma dict_ok_delete [dict_simps]: "dict_ok d \<Longrightarrow> dict_ok (AList.delete k d)"
  by (simp add: dict_ok_def distinct_delete)

lemma dict_ok_filter [dict_simps]: "dict_ok d \<Longrightarrow> dict_ok (dict_filter p d)"
  unfolding dict_ok_def dict_filter_def by (induction d) auto

lemma map_of_dict_update [dict_simps]:
  "map_of (AList.update k v d) k' = (if k' = k then Some v else map_of d k')"
  by (simp add: update_conv)

lemma map_of_dict_delete [dict_simps]:
  "map_of (AList.delete k d) k' = (if k' = k then None else map_of d k')"
  by (simp add: delete_conv)

lemma map_of_dict_filter [dict_simps]:
  "dict_ok d \<Longrightarrow> map_of (dict_filter p d) k =
     (case map_of d k of None \<Rightarrow> None | Some v \<Rightarrow> if p v then Some v else None)"
  unfolding dict_ok_def dict_filter_def
  by (induction d) (auto split: option.splits dest: map_of_SomeD intro: rev_image_eqI)

lemma length_dict_update [dict_simps]:
  "length (AList.update k v d) = (if map_of d k = None then Suc (length d) else length d)"
  by (induction d) auto

lemma length_dict_filter_le: "length (dict_filter p d) \<le> length d"
  by (simp add: dict_filter_def)

lemma set_dict_filter: "set (dict_filter p d) = {kv \<in> set d. p (snd kv)}"
  by (simp add: dict_filter_def)

lemma set_dict_delete: "set (AList.delete k d) = {kv \<in> set d. fst kv \<noteq> k}"
  by (auto simp: AList.delete_eq)

lemma length_delete_bound: "length d \<le> n \<Longrightarrow> length (AList.delete k d) \<le> n"
  by (rule order_trans [OF length_delete_le])

lemma dict_filter_bound: "length d \<le> n \<Longrightarrow> length (dict_filter q d) \<le> n"
  by (rule order_trans [OF length_dict_filter_le])

lemma dict_values_iff: "dict_ok d \<Longrightarrow> (k, v) \<in> set d \<longleftrightarrow> map_of d k = Some v"
  by (auto simp: dict_ok_def)

lemma dict_update_set:
  "(k', v') \<in> set (AList.update k v d) \<Longrightarrow> (k', v') = (k, v) \<or> (k', v') \<in> set d"
  by (induction d) (auto split: if_splits)


lemma dict_update_all:
  assumes "\<forall>kv \<in> set d. P (snd kv)" and "P v"
  shows "\<forall>kv \<in> set (AList.update k v d). P (snd kv)"
  using assms dict_update_set [of _ _ k v d] by fastforce

end
