(* ===== verification/Machines.thy ===== *)
theory Machines
  imports Prelude
begin

text \<open>
  The contracts several components share, as locales: a machine whose operations keep an
  invariant, a ledger whose versions never fall, and an authority that a token can be drawn
  from at most once.  Each is interpreted by the components on their own step functions; the
  lemmas proved here are what their trace properties rest on.
\<close>

definition run :: "('op \<Rightarrow> 's \<Rightarrow> 's) \<Rightarrow> 'op list \<Rightarrow> 's \<Rightarrow> 's" where
  "run step ops s = fold step ops s"

lemma run_simps [simp]:
  "run step [] s = s"
  "run step (op # ops) s = run step ops (step op s)"
  by (simp_all add: run_def)

lemma run_append [simp]: "run step (xs @ ys) s = run step ys (run step xs s)"
  by (simp add: run_def)

fun retired_in ::
  "('op \<Rightarrow> 's \<Rightarrow> 's) \<Rightarrow> ('op \<Rightarrow> 'k \<Rightarrow> 's \<Rightarrow> bool) \<Rightarrow> 'op list \<Rightarrow> 'k \<Rightarrow> 's \<Rightarrow> bool" where
  \<comment> \<open>some operation of the run may remove the entry under \<open>k\<close>\<close>
  "retired_in step retires [] k s \<longleftrightarrow> False"
| "retired_in step retires (op # ops) k s \<longleftrightarrow>
     retires op k s \<or> retired_in step retires ops k (step op s)"

fun draws ::
  "('op \<Rightarrow> 's \<Rightarrow> 's) \<Rightarrow> ('op \<Rightarrow> 's \<Rightarrow> 'i option) \<Rightarrow> 'i \<Rightarrow> 'op list \<Rightarrow> 's \<Rightarrow> nat" where
  \<comment> \<open>how often the run uses up the authority \<open>i\<close>\<close>
  "draws step spends i [] s = 0"
| "draws step spends i (op # ops) s =
     (if spends op s = Some i then Suc (draws step spends i ops (step op s))
      else draws step spends i ops (step op s))"

section \<open>Machines with an invariant\<close>

locale invariant_machine =
  fixes step :: "'op \<Rightarrow> 's \<Rightarrow> 's"
    and inv :: "'s \<Rightarrow> bool"
  assumes inv_step: "inv s \<Longrightarrow> inv (step op s)"
begin

lemma inv_run: "inv s \<Longrightarrow> inv (run step ops s)"
  by (induction ops arbitrary: s) (simp_all add: inv_step)

end

section \<open>Invariants that only some operations may end\<close>

text \<open>
  \<open>ends op s\<close> says that \<open>op\<close>, run in \<open>s\<close>, is one of the operations entitled to end the
  invariant; every other operation keeps it.
\<close>

fun ended_in :: "('op \<Rightarrow> 's \<Rightarrow> 's) \<Rightarrow> ('op \<Rightarrow> 's \<Rightarrow> bool) \<Rightarrow> 'op list \<Rightarrow> 's \<Rightarrow> bool" where
  "ended_in step ends [] s \<longleftrightarrow> False"
| "ended_in step ends (op # ops) s \<longleftrightarrow> ends op s \<or> ended_in step ends ops (step op s)"

locale guarded_machine =
  fixes step :: "'op \<Rightarrow> 's \<Rightarrow> 's"
    and inv :: "'s \<Rightarrow> bool"
    and ends :: "'op \<Rightarrow> 's \<Rightarrow> bool"
  assumes guarded_step: "inv s \<Longrightarrow> \<not> ends op s \<Longrightarrow> inv (step op s)"
begin

lemma guarded_run: "inv s \<Longrightarrow> \<not> ended_in step ends ops s \<Longrightarrow> inv (run step ops s)"
  by (induction ops arbitrary: s) (simp_all add: guarded_step)

lemma ended_by: "inv s \<Longrightarrow> \<not> inv (run step ops s) \<Longrightarrow>
    \<exists>pre op post. ops = pre @ op # post \<and> ends op (run step pre s)"
proof (induction ops arbitrary: s)
  case (Cons op ops)
  show ?case
  proof (cases "ends op s")
    case True
    then have "op # ops = [] @ op # ops \<and> ends op (run step [] s)" by simp
    then show ?thesis by blast
  next
    case False
    with Cons.prems have "inv (step op s)" by (simp add: guarded_step)
    with Cons obtain pre op' post where "ops = pre @ op' # post" "ends op' (run step pre (step op s))"
      by (metis run_simps(2))
    then have "op # ops = (op # pre) @ op' # post \<and> ends op' (run step (op # pre) s)" by simp
    then show ?thesis by blast
  qed
qed simp

end

section \<open>Ledgers whose versions never fall\<close>

text \<open>
  \<open>version s k\<close> is the version of the entry under \<open>k\<close>; \<open>retires op k s\<close> says that
  \<open>op\<close> may remove that entry.  Every other operation keeps the entry at its version or a
  later one.
\<close>

locale versioned_ledger = invariant_machine step inv
  for step :: "'op \<Rightarrow> 's \<Rightarrow> 's" and inv :: "'s \<Rightarrow> bool" +
  fixes version :: "'s \<Rightarrow> 'k \<Rightarrow> int option"
    and retires :: "'op \<Rightarrow> 'k \<Rightarrow> 's \<Rightarrow> bool"
  assumes version_step:
    "inv s \<Longrightarrow> version s k = Some v \<Longrightarrow> \<not> retires op k s \<Longrightarrow>
       \<exists>v' \<ge> v. version (step op s) k = Some v'"
begin

lemma version_run:
  "inv s \<Longrightarrow> version s k = Some v \<Longrightarrow> \<not> retired_in step retires ops k s \<Longrightarrow>
     \<exists>v' \<ge> v. version (run step ops s) k = Some v'"
proof (induction ops arbitrary: s v)
  case Nil
  then show ?case by simp
next
  case (Cons op ops)
  then obtain v1 where "v \<le> v1" "version (step op s) k = Some v1"
    using version_step [of s k v op] by auto
  with Cons.IH [of "step op s" v1] Cons.prems show ?case
    by (auto simp: inv_step intro: order_trans)
qed

end

section \<open>Authority that is drawn at most once\<close>

text \<open>
  \<open>spends op s = Some i\<close> says that \<open>op\<close>, run in \<open>s\<close>, succeeds in using up the
  authority \<open>i\<close>; \<open>mints op = Some i\<close> says that \<open>op\<close> may create an authority under
  the fresh identifier \<open>i\<close>.
\<close>

locale single_use = invariant_machine step inv
  for step :: "'op \<Rightarrow> 's \<Rightarrow> 's" and inv :: "'s \<Rightarrow> bool" +
  fixes spends :: "'op \<Rightarrow> 's \<Rightarrow> 'i option"
    and spent :: "'i \<Rightarrow> 's \<Rightarrow> bool"
    and mints :: "'op \<Rightarrow> 'i option"
  assumes spends_spent: "inv s \<Longrightarrow> spends op s = Some i \<Longrightarrow> spent i (step op s)"
    and spent_stays: "inv s \<Longrightarrow> spent i s \<Longrightarrow> mints op \<noteq> Some i \<Longrightarrow> spent i (step op s)"
    and spent_blocks: "inv s \<Longrightarrow> spent i s \<Longrightarrow> spends op s \<noteq> Some i"
begin

lemma draws_spent:
  "inv s \<Longrightarrow> spent i s \<Longrightarrow> \<forall>op \<in> set ops. mints op \<noteq> Some i \<Longrightarrow> draws step spends i ops s = 0"
proof (induction ops arbitrary: s)
  case Nil
  then show ?case by simp
next
  case (Cons op ops)
  then show ?case
    using spent_blocks [of s i op] spent_stays [of s i op] by (simp add: inv_step)
qed

lemma draws_at_most_once:
  "inv s \<Longrightarrow> \<forall>op \<in> set ops. mints op \<noteq> Some i \<Longrightarrow> draws step spends i ops s \<le> 1"
proof (induction ops arbitrary: s)
  case Nil
  then show ?case by simp
next
  case (Cons op ops)
  show ?case
  proof (cases "spends op s = Some i")
    case True
    with Cons.prems have "spent i (step op s)" by (simp add: spends_spent)
    with Cons.prems have "draws step spends i ops (step op s) = 0"
      by (intro draws_spent) (simp_all add: inv_step)
    with True show ?thesis by simp
  next
    case False
    with Cons show ?thesis by (simp add: inv_step)
  qed
qed

text \<open>An identifier minted once, by a fresh name, is drawn at most once in a whole history.\<close>

lemma draws_of_fresh:
  "inv s \<Longrightarrow> spent i s \<Longrightarrow> length (filter (\<lambda>op. mints op = Some i) ops) \<le> 1 \<Longrightarrow>
     draws step spends i ops s \<le> 1"
proof (induction ops arbitrary: s)
  case Nil
  then show ?case by simp
next
  case (Cons op ops)
  then have blocked: "spends op s \<noteq> Some i" by (simp add: spent_blocks)
  show ?case
  proof (cases "mints op = Some i")
    case True
    with Cons.prems have "\<forall>op \<in> set ops. mints op \<noteq> Some i"
      by (auto simp: filter_empty_conv)
    with Cons.prems have "draws step spends i ops (step op s) \<le> 1"
      by (intro draws_at_most_once) (simp_all add: inv_step)
    with blocked show ?thesis by simp
  next
    case False
    with Cons blocked show ?thesis by (simp add: inv_step spent_stays)
  qed
qed

end

end
