(* ===== verification/CodevContracts.thy ===== *)
theory CodevContracts
  imports Prelude
begin

text \<open>
  The data of the Codev authority (\<open>core/codev/contracts.py\<close>) and its canonical workspace
  paths (\<open>core/codev/revisions.py\<close>).  A time is the number of microseconds since the epoch:
  \<open>isoformat\<close> and \<open>fromisoformat\<close> are inverse on the aware UTC times the code stores.
\<close>

type_synonym time = int

definition seconds :: "int \<Rightarrow> time" where
  "seconds n = n * 1000000"

datatype codev_error =
    GrantDenied string | ValueError string | TypeError string | AccountAuthError string | OSError string

datatype client_kind = Native | Browser | VscodeCompatibility

datatype surface = Local | Marketplace | Forge

record actor =
  local_profile_id :: string
  client_id :: string
  client_kind :: client_kind
  online_account_id :: "string option"
  origin :: "string option"
  surface :: surface

definition site_origins :: "string list" where
  "site_origins = [''https://elysiaecobotics.com'', ''https://www.elysiaecobotics.com'']"

definition validate_client_binding :: "actor \<Rightarrow> codev_error + actor" where
  "validate_client_binding a =
     (if client_kind a = Browser then
        (if \<not> truthy (online_account_id a) \<or> origin a \<notin> Some ` set site_origins \<or> surface a = Local
         then Inl (ValueError ''browser_actor_requires_exact_site_account_and_surface'')
         else Inr a)
      else if surface a \<noteq> Local \<or> origin a \<noteq> None
      then Inl (ValueError ''native_actor_binding_mismatch'')
      else Inr a)"

record workspace_grant =
  grant_id :: string
  g_workspace_id :: string
  g_actor :: actor
  epoch :: int
  scopes :: "string list"
  g_files :: "string list"
  command_ids :: "string list"
  network_destinations :: "string list"
  g_expires_at :: time
  revoked :: bool

section \<open>Canonical relative paths\<close>

definition reserved_name :: "string \<Rightarrow> bool" where
  \<comment> \<open>\<open>(?i)(con|prn|aux|nul|com[1-9]|lpt[1-9])(?:\..*)?\<close>, matched in full\<close>
  "reserved_name part =
     (let base = lower (takeWhile (\<lambda>c. c \<noteq> CHR ''.'') part) in
      base \<in> {''con'', ''prn'', ''aux'', ''nul''} \<or>
      (length base = 4 \<and> take 3 base \<in> {''com'', ''lpt''} \<and> base ! 3 \<in> set ''123456789''))"

definition check_part :: "string \<Rightarrow> codev_error + string" where
  "check_part part =
     (if part \<in> {[], ''.'', ''..''} \<or> ends_with ''.'' part \<or> ends_with '' '' part
      then Inl (ValueError ''unsafe_workspace_path'')
      else if reserved_name part then Inl (ValueError ''reserved_workspace_path'')
      else Inr part)"

definition relative_path :: "string \<Rightarrow> codev_error + string" where
  "relative_path value =
     (if value = [] \<or> length value > 512 then Inl (ValueError ''noncanonical_workspace_path'')
      else if starts_with ''/'' value \<or> CHR 0x5C \<in> set value \<or> CHR '':'' \<in> set value \<or>
              list_ex (\<lambda>c. (of_char c :: nat) < 32 \<or> (of_char c :: nat) = 127) value
      then Inl (ValueError ''unsafe_workspace_path'')
      else bindR (mapR check_part (split_on CHR ''/'' value)) (\<lambda>_. Inr value))"

definition denied_parts :: "string list" where
  "denied_parts = [''.git'', ''.ssh'', ''.gnupg'', ''.aws'', ''.azure'', ''.local_secrets'',
     ''vault'', ''sealed'', ''.elysia_backups'', ''node_modules'', ''.venv'', ''__pycache__'']"

definition denied_part :: "string \<Rightarrow> bool" where
  "denied_part part \<longleftrightarrow>
     part \<in> set denied_parts \<or> part = ''.env'' \<or> starts_with ''.env.'' part \<or>
     list_ex (\<lambda>suffix. ends_with suffix part) [''.pem'', ''.key'', ''.p12'', ''.pfx'']"

definition denied_path :: "string \<Rightarrow> codev_error + bool" where
  "denied_path value =
     bindR (relative_path value)
       (\<lambda>path. Inr (list_ex denied_part (split_on CHR ''/'' (casefold path))))"

lemma relative_path_same: "relative_path v = Inr p \<Longrightarrow> p = v"
  by (auto simp: relative_path_def bindR_eq_Inr_iff split: if_splits)

lemma denied_path_total: "relative_path v = Inr p \<Longrightarrow> \<exists>b. denied_path v = Inr b"
  by (simp add: denied_path_def)

definition safe_file :: "string \<Rightarrow> bool" where
  "safe_file p \<longleftrightarrow> relative_path p = Inr p \<and> denied_path p = Inr False"

text \<open>What a path accepted by the guard cannot be: absolute, empty-component or traversing.\<close>

lemma relative_path_parts:
  assumes "relative_path v = Inr p"
  shows "p \<noteq> []" and "\<not> starts_with ''/'' p"
    and "set (split_on CHR ''/'' p) \<inter> {[], ''.'', ''..''} = {}"
proof -
  from assms have p: "p = v" by (rule relative_path_same)
  from assms show "p \<noteq> []" "\<not> starts_with ''/'' p"
    unfolding p by (auto simp: relative_path_def split: if_splits)
  from assms obtain qs where "mapR check_part (split_on CHR ''/'' v) = Inr qs"
    by (auto simp: relative_path_def bindR_eq_Inr_iff split: if_splits)
  then have "\<forall>q \<in> set (split_on CHR ''/'' v). \<exists>r. check_part q = Inr r"
    by (auto simp: mapR_eq_Inr_iff list_all2_conv_all_nth in_set_conv_nth)
  then show "set (split_on CHR ''/'' p) \<inter> {[], ''.'', ''..''} = {}"
    unfolding p by (auto simp: check_part_def)
qed

end
