(* ===== verification/CodevGrants.thy ===== *)
theory CodevGrants
  imports CodevContracts Machines
begin

text \<open>
  \<open>GrantAuthority\<close> of \<open>core/codev/grants.py\<close>: actor and workspace grants with explicit
  revocation and rising epochs.  The dictionary \<open>_grants\<close> is the state; each method runs
  under the authority's lock and is one function here.  The clock and the fresh identifier
  (\<open>uuid4\<close>) are arguments.
\<close>

section \<open>State and operations\<close>

type_synonym grant_key = "string \<times> string \<times> string"
type_synonym grant_store = "(grant_key \<times> workspace_grant) list"

definition grant_key :: "actor \<Rightarrow> string \<Rightarrow> grant_key" where
  "grant_key a w = (local_profile_id a, client_id a, w)"

record issue_request =
  ir_actor :: actor
  ir_workspace_id :: string
  ir_scopes :: "string list"
  ir_files :: "string list"
  ir_command_ids :: "string list"
  ir_expected_epoch :: int
  ir_explicitly_approved :: bool
  ir_ttl_seconds :: int

definition browser_scopes :: "string list" where
  "browser_scopes = [''metadata'', ''read'', ''propose'']"

definition all_scopes :: "string list" where
  "all_scopes = [''metadata'', ''read'', ''propose'', ''apply'', ''command'']"

definition any_denied :: "string list \<Rightarrow> codev_error + bool" where
  "any_denied paths = bindR (mapR denied_path paths) (\<lambda>bs. Inr (list_ex id bs))"

definition issue_request_files :: "issue_request \<Rightarrow> codev_error + string list" where
  \<comment> \<open>the checks before the lock; returns \<open>selected\<close>\<close>
  "issue_request_files r =
     bindR (raise_if (\<not> ir_explicitly_approved r)
              (GrantDenied ''explicit_workspace_approval_required'')) (\<lambda>_.
     bindR (raise_if (client_kind (ir_actor r) = Browser \<and>
                (\<not> set (ir_scopes r) \<subseteq> set browser_scopes \<or> ir_command_ids r \<noteq> []))
              (GrantDenied ''browser_cannot_grant_native_mutation_or_commands'')) (\<lambda>_.
     bindR (raise_if (\<not> set (ir_scopes r) \<subseteq> set all_scopes)
              (GrantDenied ''unsupported_workspace_scope'')) (\<lambda>_.
     bindR (mapR relative_path (ir_files r)) (\<lambda>paths.
     let selected = sorted_set paths in
     bindR (any_denied selected) (\<lambda>denied.
     bindR (raise_if (length selected > 40 \<or> denied) (GrantDenied ''file_scope_denied'')) (\<lambda>_.
     bindR (raise_if (\<not> set (ir_command_ids r) \<subseteq> {''git_diff_check''})
              (GrantDenied ''command_scope_not_qualified'')) (\<lambda>_.
     Inr selected)))))))"

definition issue_grant :: "time \<Rightarrow> string \<Rightarrow> issue_request \<Rightarrow> string list \<Rightarrow> workspace_grant" where
  "issue_grant now fresh r selected =
     \<lparr> grant_id = ''grant_'' @ fresh, g_workspace_id = ir_workspace_id r, g_actor = ir_actor r,
       epoch = ir_expected_epoch r + 1, scopes = sorted_set (ir_scopes r), g_files = selected,
       command_ids = sorted_set (ir_command_ids r), network_destinations = [],
       g_expires_at = now + seconds (max 1 (min (ir_ttl_seconds r) 3600)), revoked = False \<rparr>"

definition issue_check :: "issue_request \<Rightarrow> grant_store \<Rightarrow> codev_error + string list" where
  "issue_check r gs =
     bindR (issue_request_files r) (\<lambda>selected.
     let key = grant_key (ir_actor r) (ir_workspace_id r); previous = map_of gs key in
     bindR (raise_if (case previous of Some g \<Rightarrow> g_actor g \<noteq> ir_actor r | None \<Rightarrow> False)
              (GrantDenied ''workspace_actor_mismatch'')) (\<lambda>_.
     bindR (raise_if ((case previous of Some g \<Rightarrow> epoch g | None \<Rightarrow> 0) \<noteq> ir_expected_epoch r)
              (GrantDenied ''grant_epoch_conflict'')) (\<lambda>_.
     bindR (raise_if (previous = None \<and> length gs \<ge> 256)
              (GrantDenied ''workspace_grant_capacity_reached'')) (\<lambda>_.
     Inr selected))))"

definition issue ::
  "time \<Rightarrow> string \<Rightarrow> issue_request \<Rightarrow> grant_store \<Rightarrow> (codev_error + workspace_grant) \<times> grant_store" where
  "issue now fresh r gs =
     (case issue_check r gs of
        Inl e \<Rightarrow> (Inl e, gs)
      | Inr selected \<Rightarrow>
          let grant = issue_grant now fresh r selected in
          (Inr grant, AList.update (grant_key (ir_actor r) (ir_workspace_id r)) grant gs))"

definition get_grant :: "actor \<Rightarrow> string \<Rightarrow> grant_store \<Rightarrow> workspace_grant option" where
  "get_grant a w gs =
     (case map_of gs (grant_key a w) of
        Some g \<Rightarrow> if g_actor g = a then Some g else None
      | None \<Rightarrow> None)"

definition require ::
  "time \<Rightarrow> actor \<Rightarrow> string \<Rightarrow> string \<Rightarrow> string list \<Rightarrow> int option \<Rightarrow> string option \<Rightarrow> grant_store
     \<Rightarrow> codev_error + workspace_grant" where
  "require now a w scope files ep command gs =
     (case get_grant a w gs of
        None \<Rightarrow> Inl (GrantDenied ''workspace_grant_missing_expired_or_revoked'')
      | Some g \<Rightarrow>
          if revoked g \<or> now \<ge> g_expires_at g
          then Inl (GrantDenied ''workspace_grant_missing_expired_or_revoked'')
          else if ep \<noteq> None \<and> Some (epoch g) \<noteq> ep
          then Inl (GrantDenied ''grant_epoch_conflict'')
          else if scope \<notin> set (scopes g) \<or> \<not> set files \<subseteq> set (g_files g)
          then Inl (GrantDenied ''workspace_scope_not_granted'')
          else if truthy command \<and> the command \<notin> set (command_ids g)
          then Inl (GrantDenied ''command_scope_not_granted'')
          else Inr g)"

definition revoked_grant :: "workspace_grant \<Rightarrow> workspace_grant" where
  "revoked_grant g = g\<lparr>epoch := epoch g + 1, revoked := True, scopes := [], g_files := [],
     command_ids := []\<rparr>"

definition revoke :: "actor \<Rightarrow> string \<Rightarrow> grant_store \<Rightarrow> workspace_grant option \<times> grant_store" where
  "revoke a w gs =
     (case get_grant a w gs of
        None \<Rightarrow> (None, gs)
      | Some g \<Rightarrow> (Some (revoked_grant g), AList.update (grant_key a w) (revoked_grant g) gs))"

definition epochs :: "actor \<Rightarrow> grant_store \<Rightarrow> (string \<times> int) list" where
  "epochs a gs =
     fold (\<lambda>(_, g) d. if g_actor g = a then AList.update (g_workspace_id g) (epoch g) d else d) gs []"

definition retire_actor :: "actor \<Rightarrow> grant_store \<Rightarrow> grant_store" where
  "retire_actor a gs = dict_filter (\<lambda>g. g_actor g \<noteq> a) gs"

section \<open>The authority as a machine\<close>

text \<open>The operations that change the state; \<open>get\<close>, \<open>require\<close> and \<open>epochs\<close> only read it.\<close>

datatype grant_op =
    Issue time string issue_request
  | Revoke actor string
  | RetireActor actor

primrec grant_step :: "grant_op \<Rightarrow> grant_store \<Rightarrow> grant_store" where
  "grant_step (Issue now fresh r) gs = snd (issue now fresh r gs)"
| "grant_step (Revoke a w) gs = snd (revoke a w gs)"
| "grant_step (RetireActor a) gs = retire_actor a gs"

definition grant_ok :: "workspace_grant \<Rightarrow> bool" where
  "grant_ok g \<longleftrightarrow>
     epoch g \<ge> 1 \<and> set (scopes g) \<subseteq> set all_scopes \<and>
     set (command_ids g) \<subseteq> {''git_diff_check''} \<and>
     (client_kind (g_actor g) = Browser \<longrightarrow> set (scopes g) \<subseteq> set browser_scopes \<and> command_ids g = []) \<and>
     length (g_files g) \<le> 40 \<and> list_all safe_file (g_files g) \<and>
     (revoked g \<longrightarrow> scopes g = [] \<and> g_files g = [] \<and> command_ids g = [])"

definition grants_ok :: "grant_store \<Rightarrow> bool" where
  "grants_ok gs \<longleftrightarrow> dict_ok gs \<and> length gs \<le> 256 \<and>
     (\<forall>(k, g) \<in> set gs. k = grant_key (g_actor g) (g_workspace_id g) \<and> grant_ok g)"

lemma grants_ok_lookup:
  assumes "grants_ok gs" "map_of gs k = Some g"
  shows "k = grant_key (g_actor g) (g_workspace_id g)" "grant_ok g"
  using assms map_of_SomeD [of gs k g] by (auto simp: grants_ok_def)

lemma grants_ok_update:
  assumes "grants_ok gs" and "grant_ok g" and "k = grant_key (g_actor g) (g_workspace_id g)"
    and "map_of gs k = None \<Longrightarrow> length gs < 256"
  shows "grants_ok (AList.update k g gs)"
  unfolding grants_ok_def
proof (intro conjI)
  show "dict_ok (AList.update k g gs)"
    using assms(1) by (simp add: grants_ok_def dict_simps)
  show "length (AList.update k g gs) \<le> 256"
    using assms(1,4) by (auto simp: grants_ok_def dict_simps)
  show "\<forall>(k', g') \<in> set (AList.update k g gs). k' = grant_key (g_actor g') (g_workspace_id g') \<and> grant_ok g'"
    using assms(1-3) dict_update_set [of _ _ k g gs] by (fastforce simp: grants_ok_def)
qed

section \<open>Issuing\<close>

lemma any_denied_False: "any_denied ps = Inr False \<Longrightarrow> p \<in> set ps \<Longrightarrow> denied_path p = Inr False"
  unfolding any_denied_def
  by (induction ps) (auto simp: bindR_eq_Inr_iff)

lemma issue_request_files_ok:
  assumes "issue_request_files r = Inr fs"
  shows "ir_explicitly_approved r" "set (ir_scopes r) \<subseteq> set all_scopes"
    "set (ir_command_ids r) \<subseteq> {''git_diff_check''}"
    "client_kind (ir_actor r) = Browser \<Longrightarrow> set (ir_scopes r) \<subseteq> set browser_scopes \<and> ir_command_ids r = []"
    "length fs \<le> 40" "list_all safe_file fs" "fs = sorted_set (ir_files r)"
proof -
  from assms obtain paths where paths: "mapR relative_path (ir_files r) = Inr paths"
    and fs: "fs = sorted_set paths" and denied: "any_denied fs = Inr False"
    by (auto simp: issue_request_files_def Let_def result_iffs)
  from paths have "\<forall>p \<in> set paths. relative_path p = Inr p"
    by (auto dest: mapR_set relative_path_same)
  with fs denied show "list_all safe_file fs"
    by (auto simp: list_all_iff safe_file_def dest: any_denied_False)
  from mapR_id [OF relative_path_same paths] have "paths = ir_files r" .
  with fs show "fs = sorted_set (ir_files r)" by simp
  from assms show "ir_explicitly_approved r" "set (ir_scopes r) \<subseteq> set all_scopes"
    "set (ir_command_ids r) \<subseteq> {''git_diff_check''}"
    "client_kind (ir_actor r) = Browser \<Longrightarrow> set (ir_scopes r) \<subseteq> set browser_scopes \<and> ir_command_ids r = []"
    "length fs \<le> 40"
    by (auto simp: issue_request_files_def Let_def result_iffs)
qed


lemma issue_cases:
  obtains (denied) e where "issue_check r gs = Inl e" "issue now fresh r gs = (Inl e, gs)"
  | (granted) fs where "issue_check r gs = Inr fs"
      "issue now fresh r gs = (Inr (issue_grant now fresh r fs),
         AList.update (grant_key (ir_actor r) (ir_workspace_id r)) (issue_grant now fresh r fs) gs)"
  by (cases "issue_check r gs") (auto simp: issue_def Let_def)

lemma issue_check_ok:
  assumes "issue_check r gs = Inr fs"
  shows "issue_request_files r = Inr fs"
    "map_of gs (grant_key (ir_actor r) (ir_workspace_id r)) = None \<Longrightarrow>
       ir_expected_epoch r = 0 \<and> length gs < 256"
    "map_of gs (grant_key (ir_actor r) (ir_workspace_id r)) = Some g \<Longrightarrow>
       ir_expected_epoch r = epoch g \<and> g_actor g = ir_actor r"
  using assms by (auto simp: issue_check_def Let_def result_iffs split: option.splits)

lemma issue_grant_simps [simp]:
  "g_actor (issue_grant now fresh r fs) = ir_actor r"
  "g_workspace_id (issue_grant now fresh r fs) = ir_workspace_id r"
  "epoch (issue_grant now fresh r fs) = ir_expected_epoch r + 1"
  "set (scopes (issue_grant now fresh r fs)) = set (ir_scopes r)"
  "set (command_ids (issue_grant now fresh r fs)) = set (ir_command_ids r)"
  "command_ids (issue_grant now fresh r fs) = [] \<longleftrightarrow> ir_command_ids r = []"
  "g_files (issue_grant now fresh r fs) = fs"
  "\<not> revoked (issue_grant now fresh r fs)"
  "g_expires_at (issue_grant now fresh r fs) = now + seconds (max 1 (min (ir_ttl_seconds r) 3600))"
  by (simp_all add: issue_grant_def)

lemma issue_grant_ok:
  assumes "grants_ok gs" "issue_check r gs = Inr fs"
  shows "grant_ok (issue_grant now fresh r fs)"
proof -
  let ?k = "grant_key (ir_actor r) (ir_workspace_id r)"
  note files = issue_request_files_ok [OF issue_check_ok(1) [OF assms(2)]]
  have "ir_expected_epoch r \<ge> 0"
  proof (cases "map_of gs ?k")
    case None
    then show ?thesis using issue_check_ok(2) [OF assms(2)] by simp
  next
    case (Some g)
    with assms(1) have "epoch g \<ge> 1" by (auto dest: grants_ok_lookup(2) simp: grant_ok_def)
    with Some show ?thesis using issue_check_ok(3) [OF assms(2)] by simp
  qed
  then show ?thesis
    using files by (auto simp: grant_ok_def)
qed

lemma issue_ok: "grants_ok gs \<Longrightarrow> grants_ok (snd (issue now fresh r gs))"
  by (rule issue_cases [of r gs now fresh])
     (auto intro!: grants_ok_update issue_grant_ok dest: issue_check_ok(2))

section \<open>Reading and revoking\<close>

lemma get_grant_Some:
  "get_grant a w gs = Some g \<longleftrightarrow> map_of gs (grant_key a w) = Some g \<and> g_actor g = a"
  by (auto simp: get_grant_def split: option.splits)

lemma require_eq_Inr:
  "require now a w scope files ep command gs = Inr g \<longleftrightarrow>
     get_grant a w gs = Some g \<and> \<not> revoked g \<and> now < g_expires_at g \<and>
     (ep = None \<or> ep = Some (epoch g)) \<and> scope \<in> set (scopes g) \<and> set files \<subseteq> set (g_files g) \<and>
     (truthy command \<longrightarrow> the command \<in> set (command_ids g))"
  by (auto simp: require_def split: option.splits if_splits)

lemma revoked_grant_simps [simp]:
  "epoch (revoked_grant g) = epoch g + 1" "revoked (revoked_grant g)"
  "g_actor (revoked_grant g) = g_actor g" "g_workspace_id (revoked_grant g) = g_workspace_id g"
  "scopes (revoked_grant g) = []" "g_files (revoked_grant g) = []"
  "command_ids (revoked_grant g) = []"
  by (simp_all add: revoked_grant_def)

lemma revoke_ok: "grants_ok gs \<Longrightarrow> grants_ok (snd (revoke a w gs))"
proof (cases "get_grant a w gs")
  case None
  then show "grants_ok gs \<Longrightarrow> ?thesis" by (simp add: revoke_def)
next
  case (Some g)
  assume ok: "grants_ok gs"
  from Some have "map_of gs (grant_key a w) = Some g" by (simp add: get_grant_Some)
  with ok Some show ?thesis
    by (auto simp: revoke_def grant_ok_def intro!: grants_ok_update
        dest: grants_ok_lookup [of gs "grant_key a w" g])
qed

lemma retire_ok: "grants_ok gs \<Longrightarrow> grants_ok (retire_actor a gs)"
  unfolding grants_ok_def retire_actor_def
  by (auto simp: dict_simps set_dict_filter intro: order_trans [OF length_dict_filter_le])

definition grant_version :: "grant_store \<Rightarrow> grant_key \<Rightarrow> int option" where
  "grant_version gs k = map_option epoch (map_of gs k)"

primrec grant_retires :: "grant_op \<Rightarrow> grant_key \<Rightarrow> grant_store \<Rightarrow> bool" where
  "grant_retires (Issue now fresh r) k gs \<longleftrightarrow> False"
| "grant_retires (Revoke a w) k gs \<longleftrightarrow> False"
| "grant_retires (RetireActor a) k gs \<longleftrightarrow> map_option g_actor (map_of gs k) = Some a"

lemma grant_step_ok: "grants_ok gs \<Longrightarrow> grants_ok (grant_step op gs)"
  by (cases op) (simp_all add: issue_ok revoke_ok retire_ok)

lemma issue_version:
  assumes "map_of gs k = Some g"
  shows "\<exists>v' \<ge> epoch g. grant_version (snd (issue now fresh r gs)) k = Some v'"
  using assms
  by (cases rule: issue_cases [of r gs now fresh])
     (auto simp: grant_version_def dict_simps dest: issue_check_ok(3))

lemma revoke_version:
  assumes "map_of gs k = Some g"
  shows "\<exists>v' \<ge> epoch g. grant_version (snd (revoke a w gs)) k = Some v'"
  using assms
  by (auto simp: grant_version_def revoke_def dict_simps get_grant_Some split: option.splits)

lemma grant_step_version:
  assumes "grants_ok gs" "grant_version gs k = Some v" "\<not> grant_retires op k gs"
  shows "\<exists>v' \<ge> v. grant_version (grant_step op gs) k = Some v'"
proof -
  from assms(2) obtain g where g: "map_of gs k = Some g" "v = epoch g"
    by (auto simp: grant_version_def)
  show ?thesis
  proof (cases op)
    case (Issue now fresh r)
    with issue_version [OF g(1)] g(2) show ?thesis by simp
  next
    case (Revoke a w)
    with revoke_version [OF g(1)] g(2) show ?thesis by simp
  next
    case (RetireActor a)
    with assms g show ?thesis
      by (simp add: retire_actor_def grant_version_def dict_simps grants_ok_def)
  qed
qed

interpretation grants: versioned_ledger grant_step grants_ok grant_version grant_retires
  by unfold_locales (simp_all add: grant_step_ok grant_step_version)

lemma grants_ok_empty [simp]: "grants_ok []"
  by (simp add: grants_ok_def dict_simps)


section \<open>Properties\<close>

text \<open>
  Whatever sequence of issue, revoke and retire operations is run from the empty
  authority, a browser client never holds native authority: no grant lets it apply a change,
  run a command, or use a command identifier.
\<close>

theorem browser_never_native:
  assumes "client_kind a = Browser"
    and "scope \<in> {''apply'', ''command''} \<or> truthy command"
  shows "\<exists>e. require now a w scope files ep command (run grant_step ops []) = Inl e"
proof (cases "require now a w scope files ep command (run grant_step ops [])")
  case (Inr g)
  let ?gs = "run grant_step ops []"
  from Inr have g: "map_of ?gs (grant_key a w) = Some g" "g_actor g = a"
    "scope \<in> set (scopes g)" "truthy command \<longrightarrow> the command \<in> set (command_ids g)"
    by (simp_all add: require_eq_Inr get_grant_Some)
  have "grants_ok ?gs" by (rule grants.inv_run) simp
  from grants_ok_lookup(2) [OF this g(1)] g assms show ?thesis
    by (auto simp: grant_ok_def browser_scopes_def)
qed simp

lemma browser_never_native_witness:
  defines "b \<equiv> \<lparr>local_profile_id = ''u'', client_id = ''c'', client_kind = Browser,
     online_account_id = Some ''o'', origin = Some ''https://elysiaecobotics.com'', surface = Forge\<rparr>"
  shows "\<exists>e. require 0 b ''w'' ''apply'' [] None None
     (run grant_step [Issue 0 ''f'' \<lparr>ir_actor = b, ir_workspace_id = ''w'', ir_scopes = [''read''],
        ir_files = [''a.py''], ir_command_ids = [], ir_expected_epoch = 0,
        ir_explicitly_approved = True, ir_ttl_seconds = 60\<rparr>] []) = Inl e"
  by (rule browser_never_native) (simp_all add: b_def)

text \<open>
  Revocation is final for the epoch it ends: after a grant is revoked, no later
  sequence of operations that leaves the client registered, re-issuing included, makes an epoch
  up to the revoked one usable again, for any scope, file set, command or clock.
\<close>

theorem revoked_epoch_never_returns:
  assumes ok: "grants_ok gs" and g: "get_grant a w gs = Some g"
    and "\<not> retired_in grant_step grant_retires ops (grant_key a w) (snd (revoke a w gs))"
    and e: "e \<le> epoch g"
  shows "\<exists>err. require now a w scope files (Some e) command
                (run grant_step ops (snd (revoke a w gs))) = Inl err"
proof -
  let ?gs = "snd (revoke a w gs)"
  from ok have "grants_ok ?gs" by (rule revoke_ok)
  moreover from g have "grant_version ?gs (grant_key a w) = Some (epoch g + 1)"
    by (simp add: grant_version_def revoke_def dict_simps)
  ultimately obtain v where v: "epoch g + 1 \<le> v"
      "grant_version (run grant_step ops ?gs) (grant_key a w) = Some v"
    using grants.version_run assms(3) by blast
  show ?thesis
  proof (cases "require now a w scope files (Some e) command (run grant_step ops ?gs)")
    case (Inr g')
    then have "grant_version (run grant_step ops ?gs) (grant_key a w) = Some e"
      by (auto simp: require_eq_Inr get_grant_Some grant_version_def)
    with v e show ?thesis by simp
  qed simp
qed

text \<open>A grant is one client's, issued with its scopes and files; the example of the witnesses.\<close>

definition sample_actor :: actor where
  "sample_actor = \<lparr>local_profile_id = ''user'', client_id = ''native_1'', client_kind = Native,
     online_account_id = None, origin = None, surface = Local\<rparr>"

definition sample_request :: "int \<Rightarrow> issue_request" where
  "sample_request ep = \<lparr>ir_actor = sample_actor, ir_workspace_id = ''w'',
     ir_scopes = [''read'', ''propose'', ''apply''], ir_files = [''a.py''], ir_command_ids = [],
     ir_expected_epoch = ep, ir_explicitly_approved = True, ir_ttl_seconds = 60\<rparr>"

lemma sample_files: "issue_request_files (sample_request ep) = Inr [''a.py'']"
  by (simp add: sample_request_def sample_actor_def issue_request_files_def any_denied_def
      denied_path_def relative_path_def check_part_def reserved_name_def denied_part_def
      denied_parts_def casefold_def fold_char_def lower_def lower_char_def starts_with_def
      ends_with_def sorted_set_def all_scopes_def browser_scopes_def Let_def)

lemma sample_issue:
  "issue now ''f'' (sample_request 0) [] =
     (Inr (issue_grant now ''f'' (sample_request 0) [''a.py'']),
      [(grant_key sample_actor ''w'', issue_grant now ''f'' (sample_request 0) [''a.py''])])"
  by (simp add: issue_def issue_check_def sample_files Let_def) (simp add: sample_request_def Let_def)

lemma revoked_epoch_never_returns_witness:
  "\<exists>err. require 5 sample_actor ''w'' ''read'' [] (Some 1) None
     (run grant_step [Issue 3 ''h'' (sample_request 2)]
        (snd (revoke sample_actor ''w'' (snd (issue 0 ''f'' (sample_request 0) []))))) = Inl err"
proof (rule revoked_epoch_never_returns)
  show "grants_ok (snd (issue 0 ''f'' (sample_request 0) []))"
    by (rule issue_ok) simp
  show "get_grant sample_actor ''w'' (snd (issue 0 ''f'' (sample_request 0) [])) =
      Some (issue_grant 0 ''f'' (sample_request 0) [''a.py''])"
    by (simp add: sample_issue get_grant_def) (simp add: sample_request_def)
  show "(1::int) \<le> epoch (issue_grant 0 ''f'' (sample_request 0) [''a.py''])"
    by (simp add: sample_request_def)
qed simp


text \<open>
  The provenance of authority: what the operations so far have explicitly approved for an actor
  and a workspace.
\<close>

definition approved_by :: "grant_op list \<Rightarrow> workspace_grant \<Rightarrow> bool" where
  "approved_by ops g \<longleftrightarrow> (\<exists>t f r. Issue t f r \<in> set ops \<and> ir_explicitly_approved r \<and>
     ir_actor r = g_actor g \<and> ir_workspace_id r = g_workspace_id g \<and>
     set (scopes g) \<subseteq> set (ir_scopes r) \<and> set (g_files g) \<subseteq> set (ir_files r) \<and>
     set (command_ids g) \<subseteq> set (ir_command_ids r) \<and> g_expires_at g \<le> t + seconds 3600)"

lemma approved_by_mono: "approved_by ops g \<Longrightarrow> set ops \<subseteq> set ops' \<Longrightarrow> approved_by ops' g"
  unfolding approved_by_def by blast

lemma approved_by_revoked: "approved_by ops g \<Longrightarrow> approved_by ops (revoked_grant g)"
  unfolding approved_by_def by (auto simp: revoked_grant_def)

lemma issue_approved:
  assumes "issue_check r gs = Inr fs"
  shows "approved_by [Issue now fresh r] (issue_grant now fresh r fs)"
  using issue_request_files_ok [OF issue_check_ok(1) [OF assms]]
  by (auto simp: approved_by_def seconds_def)

lemma grants_approved:
  "\<forall>kg \<in> set (run grant_step ops []). approved_by ops (snd kg)"
proof (induction ops rule: rev_induct)
  case Nil
  show ?case by simp
next
  case (snoc op ops)
  let ?gs = "run grant_step ops []"
  have old: "\<forall>kg \<in> set ?gs. approved_by (ops @ [op]) (snd kg)"
    using snoc by (auto intro: approved_by_mono [of ops])
  show ?case
  proof (cases op)
    case (Issue now fresh r)
    show ?thesis
    proof (cases "issue_check r ?gs")
      case (Inl e)
      with old Issue show ?thesis by (simp add: issue_def)
    next
      case (Inr fs)
      then have "approved_by (ops @ [op]) (issue_grant now fresh r fs)"
        using Issue by (intro approved_by_mono [OF issue_approved]) auto
      with dict_update_all [OF old, of "issue_grant now fresh r fs"] Inr Issue show ?thesis
        by (simp add: issue_def Let_def)
    qed
  next
    case (Revoke a w)
    show ?thesis
    proof (cases "get_grant a w ?gs")
      case None
      with old Revoke show ?thesis by (simp add: revoke_def)
    next
      case (Some g)
      then have "(grant_key a w, g) \<in> set ?gs" by (auto simp: get_grant_Some dest: map_of_SomeD)
      with old have "approved_by (ops @ [op]) (revoked_grant g)"
        by (metis approved_by_revoked snd_conv)
      with dict_update_all [OF old, of "revoked_grant g"] Revoke Some show ?thesis
        by (simp add: revoke_def)
    qed
  next
    case (RetireActor a)
    with old show ?thesis by (auto simp: retire_actor_def set_dict_filter)
  qed
qed

text \<open>
  No authority without explicit approval: whenever \<open>require\<close> succeeds, some
  earlier \<open>issue\<close> for this very actor and workspace was explicitly approved, asked for that
  scope, for every one of the files and for the command, and lies less than an hour back.
\<close>

theorem authority_is_approved:
  assumes "require now a w scope files ep command (run grant_step ops []) = Inr g"
  shows "\<exists>t f r. Issue t f r \<in> set ops \<and> ir_explicitly_approved r \<and> ir_actor r = a \<and>
    ir_workspace_id r = w \<and> scope \<in> set (ir_scopes r) \<and> set files \<subseteq> set (ir_files r) \<and>
    (truthy command \<longrightarrow> the command \<in> set (ir_command_ids r)) \<and> now < t + seconds 3600"
proof -
  let ?gs = "run grant_step ops []"
  from assms have g: "map_of ?gs (grant_key a w) = Some g" "g_actor g = a" "now < g_expires_at g"
    "scope \<in> set (scopes g)" "set files \<subseteq> set (g_files g)"
    "truthy command \<longrightarrow> the command \<in> set (command_ids g)"
    by (simp_all add: require_eq_Inr get_grant_Some)
  have "grants_ok ?gs" by (rule grants.inv_run) simp
  from grants_ok_lookup(1) [OF this g(1)] g(2) have w: "g_workspace_id g = w"
    by (simp add: grant_key_def)
  from g(1) grants_approved [of ops] have "approved_by ops g"
    by (force dest: map_of_SomeD)
  then obtain t f r where r: "Issue t f r \<in> set ops" "ir_explicitly_approved r" "ir_actor r = a"
    "ir_workspace_id r = w" "set (scopes g) \<subseteq> set (ir_scopes r)" "set (g_files g) \<subseteq> set (ir_files r)"
    "set (command_ids g) \<subseteq> set (ir_command_ids r)" "g_expires_at g \<le> t + seconds 3600"
    using w g(2) by (auto simp: approved_by_def)
  show ?thesis
    by (rule exI [of _ t], rule exI [of _ f], rule exI [of _ r]) (use r g in auto)
qed

lemma sample_require:
  "require 5 sample_actor ''w'' ''read'' [''a.py''] (Some 1) None
     (run grant_step [Issue 0 ''f'' (sample_request 0)] []) =
   Inr (issue_grant 0 ''f'' (sample_request 0) [''a.py''])"
  by (simp add: sample_issue require_eq_Inr get_grant_def)
     (simp add: sample_request_def seconds_def)

lemma authority_is_approved_witness:
  "\<exists>t f r. Issue t f r \<in> set [Issue 0 ''f'' (sample_request 0)] \<and> ir_explicitly_approved r \<and>
    ir_actor r = sample_actor \<and> ir_workspace_id r = ''w'' \<and> ''read'' \<in> set (ir_scopes r) \<and>
    set [''a.py''] \<subseteq> set (ir_files r) \<and>
    (truthy None \<longrightarrow> the None \<in> set (ir_command_ids r)) \<and> 5 < t + seconds 3600"
  by (rule authority_is_approved [OF sample_require])

end
