(* ===== verification/CodevPlans.thy ===== *)
theory CodevPlans
  imports CodevGrants Json
begin

text \<open>
  \<open>PlanAuthority\<close> of \<open>core/codev/approvals.py\<close>: exact, actor-bound plans and single-use
  approvals on top of the grant authority.  The environment holds the SHA-256 hex digest of a
  text's UTF-8 encoding and the ISO text of a time; clock, \<open>uuid4\<close> and
  \<open>secrets.token_urlsafe\<close> values are arguments.
\<close>

section \<open>Plans, approvals and their state\<close>

record codev_env =
  sha256 :: "string \<Rightarrow> string"
  isoformat :: "time \<Rightarrow> string"

record file_change =
  c_path :: string
  base_hash :: string
  new_text :: string
  new_hash :: string
  diff :: string

record change_plan =
  plan_id :: string
  p_workspace_id :: string
  p_actor :: actor
  base_revision :: int
  p_workspace_hash :: string
  p_grant_epoch :: int
  plan_hash :: string
  p_summary :: string
  changes :: "file_change list"
  command_id :: "string option"
  command_argv :: "string list"
  cwd_label :: string
  network_policy :: string
  expected_checks :: "string list"
  risks :: "string list"
  p_expires_at :: time
  recovery_note :: string

record exact_approval =
  approval_id :: string
  ap_actor :: actor
  ap_workspace_id :: string
  revision :: int
  ap_workspace_hash :: string
  ap_grant_epoch :: int
  operation :: string
  ap_files :: "string list"
  ap_plan_hash :: string
  ap_command_argv :: "string list"
  ap_cwd_label :: string
  ap_network_policy :: string
  ap_expires_at :: time
  one_time :: bool
  consumed :: bool

record approval_record =
  approval :: exact_approval
  token_hash :: string

record authority =
  a_grants :: grant_store
  a_plans :: "(string \<times> change_plan) list"
  a_approvals :: "(string \<times> approval_record) list"

definition empty_authority :: authority where
  "empty_authority = \<lparr>a_grants = [], a_plans = [], a_approvals = []\<rparr>"

section \<open>The digest of a plan\<close>

definition kind_value :: "client_kind \<Rightarrow> string" where
  "kind_value k = (case k of Native \<Rightarrow> ''native'' | Browser \<Rightarrow> ''browser''
     | VscodeCompatibility \<Rightarrow> ''vscode_compatibility'')"

definition surface_value :: "surface \<Rightarrow> string" where
  "surface_value s = (case s of Local \<Rightarrow> ''local'' | Marketplace \<Rightarrow> ''marketplace'' | Forge \<Rightarrow> ''forge'')"

definition actor_dump :: "actor \<Rightarrow> json" where
  "actor_dump a = JObj [(''local_profile_id'', JStr (local_profile_id a)),
     (''client_id'', JStr (client_id a)), (''client_kind'', JStr (kind_value (client_kind a))),
     (''online_account_id'', json_opt (online_account_id a)), (''origin'', json_opt (origin a)),
     (''surface'', JStr (surface_value (surface a)))]"

definition change_dump :: "file_change \<Rightarrow> json" where
  "change_dump c = JObj [(''path'', JStr (c_path c)), (''base_hash'', JStr (base_hash c)),
     (''new_text'', JStr (new_text c)), (''new_hash'', JStr (new_hash c)), (''diff'', JStr (diff c))]"

definition plan_dump :: "codev_env \<Rightarrow> change_plan \<Rightarrow> json" where
  \<comment> \<open>\<open>plan.model_dump(exclude={"plan_hash"})\<close>\<close>
  "plan_dump env p = JObj [(''plan_id'', JStr (plan_id p)),
     (''workspace_id'', JStr (p_workspace_id p)), (''actor'', actor_dump (p_actor p)),
     (''base_revision'', JInt (base_revision p)), (''workspace_hash'', JStr (p_workspace_hash p)),
     (''grant_epoch'', JInt (p_grant_epoch p)), (''summary'', JStr (p_summary p)),
     (''changes'', JList (map change_dump (changes p))), (''command_id'', json_opt (command_id p)),
     (''command_argv'', json_strs (command_argv p)), (''cwd_label'', JStr (cwd_label p)),
     (''network_policy'', JStr (network_policy p)), (''expected_checks'', json_strs (expected_checks p)),
     (''risks'', json_strs (risks p)), (''expires_at'', JStr (isoformat env (p_expires_at p))),
     (''recovery_note'', JStr (recovery_note p))]"

definition plan_digest :: "codev_env \<Rightarrow> change_plan \<Rightarrow> string" where
  "plan_digest env p = sha256 env (json_dumps (plan_dump env p))"

definition compare_digest :: "string \<Rightarrow> string \<Rightarrow> codev_error + bool" where
  \<comment> \<open>\<open>hmac.compare_digest\<close> on text refuses characters outside ASCII\<close>
  "compare_digest x y =
     (if is_ascii x \<and> is_ascii y then Inr (x = y)
      else Inl (TypeError ''comparing strings with non-ASCII characters is not supported''))"

section \<open>Registering and reading plans\<close>

fun any_invalid_change :: "codev_env \<Rightarrow> file_change list \<Rightarrow> codev_error + bool" where
  "any_invalid_change env [] = Inr False"
| "any_invalid_change env (c # cs) =
     bindR (denied_path (c_path c)) (\<lambda>denied.
       if denied \<or> sha256 env (new_text c) \<noteq> new_hash c then Inr True
       else any_invalid_change env cs)"

definition register_check :: "codev_env \<Rightarrow> change_plan \<Rightarrow> codev_error + unit" where
  "register_check env p =
     bindR (raise_if (truthy (command_id p) = (changes p \<noteq> []))
              (GrantDenied ''plan_must_describe_exactly_one_operation_class'')) (\<lambda>_.
     bindR (any_invalid_change env (changes p)) (\<lambda>invalid.
     raise_if invalid (GrantDenied ''invalid_change_plan'')))"

definition live_plans :: "time \<Rightarrow> authority \<Rightarrow> (string \<times> change_plan) list" where
  "live_plans now s = dict_filter (\<lambda>p. p_expires_at p > now) (a_plans s)"

definition register ::
  "codev_env \<Rightarrow> time \<Rightarrow> change_plan \<Rightarrow> authority \<Rightarrow> (codev_error + change_plan) \<times> authority" where
  "register env now p s =
     (case register_check env p of
        Inl e \<Rightarrow> (Inl e, s)
      | Inr _ \<Rightarrow>
          let live = live_plans now s in
          if length live \<ge> 128
          then (Inl (GrantDenied ''plan_capacity_reached''), s\<lparr>a_plans := live\<rparr>)
          else let stored = p\<lparr>plan_hash := plan_digest env p\<rparr> in
            (Inr stored, s\<lparr>a_plans := AList.update (plan_id p) stored live\<rparr>))"

definition get_plan :: "time \<Rightarrow> actor \<Rightarrow> string \<Rightarrow> authority \<Rightarrow> codev_error + change_plan" where
  "get_plan now a pid s =
     (case map_of (a_plans s) pid of
        None \<Rightarrow> Inl (GrantDenied ''plan_missing_expired_or_wrong_actor'')
      | Some p \<Rightarrow>
          if p_actor p \<noteq> a \<or> p_expires_at p \<le> now
          then Inl (GrantDenied ''plan_missing_expired_or_wrong_actor'') else Inr p)"

section \<open>Approving, consuming and discarding\<close>

definition plan_operation :: "actor \<Rightarrow> change_plan \<Rightarrow> string" where
  "plan_operation a p =
     (if truthy (command_id p) then ''command_run''
      else if client_kind a = Browser then ''browser_patch'' else ''patch_apply'')"

definition operation_scope :: "string \<Rightarrow> string" where
  "operation_scope oper =
     (if oper = ''command_run'' then ''command''
      else if oper = ''browser_patch'' then ''propose'' else ''apply'')"

definition approve_check ::
  "time \<Rightarrow> actor \<Rightarrow> string \<Rightarrow> string \<Rightarrow> bool \<Rightarrow> authority \<Rightarrow> codev_error + change_plan" where
  "approve_check now a pid hash approved s =
     bindR (raise_if (\<not> approved) (GrantDenied ''explicit_exact_approval_required'')) (\<lambda>_.
     bindR (get_plan now a pid s) (\<lambda>p.
     bindR (compare_digest (plan_hash p) hash) (\<lambda>same.
     bindR (raise_if (\<not> same) (GrantDenied ''plan_hash_mismatch'')) (\<lambda>_.
     bindR (require now a (p_workspace_id p) (operation_scope (plan_operation a p))
              (map c_path (changes p)) (Some (p_grant_epoch p)) (command_id p) (a_grants s)) (\<lambda>_.
     Inr p)))))"

definition live_approvals :: "time \<Rightarrow> authority \<Rightarrow> (string \<times> approval_record) list" where
  "live_approvals now s =
     dict_filter (\<lambda>r. \<not> consumed (approval r) \<and> ap_expires_at (approval r) > now) (a_approvals s)"

definition exact_approval_of :: "time \<Rightarrow> string \<Rightarrow> actor \<Rightarrow> change_plan \<Rightarrow> exact_approval" where
  "exact_approval_of now fresh a p =
     \<lparr> approval_id = ''approval_'' @ fresh, ap_actor = a, ap_workspace_id = p_workspace_id p,
       revision = base_revision p, ap_workspace_hash = p_workspace_hash p,
       ap_grant_epoch = p_grant_epoch p, operation = plan_operation a p,
       ap_files = map c_path (changes p), ap_plan_hash = plan_hash p,
       ap_command_argv = command_argv p, ap_cwd_label = cwd_label p, ap_network_policy = ''none'',
       ap_expires_at = min (p_expires_at p) (now + seconds 300), one_time = True, consumed = False \<rparr>"

definition approve ::
  "codev_env \<Rightarrow> time \<Rightarrow> string \<Rightarrow> string \<Rightarrow> actor \<Rightarrow> string \<Rightarrow> string \<Rightarrow> bool \<Rightarrow> authority
     \<Rightarrow> (codev_error + exact_approval \<times> string) \<times> authority" where
  "approve env now fresh token a pid hash approved s =
     (case approve_check now a pid hash approved s of
        Inl e \<Rightarrow> (Inl e, s)
      | Inr p \<Rightarrow>
          let live = live_approvals now s in
          if length live \<ge> 128
          then (Inl (GrantDenied ''approval_capacity_reached''), s\<lparr>a_approvals := live\<rparr>)
          else let ap = exact_approval_of now fresh a p in
            (Inr (ap, token),
             s\<lparr>a_approvals := AList.update (approval_id ap)
                 \<lparr>approval = ap, token_hash = sha256 env token\<rparr> live\<rparr>))"

definition consume_check ::
  "codev_env \<Rightarrow> time \<Rightarrow> actor \<Rightarrow> string \<Rightarrow> string \<Rightarrow> string \<Rightarrow> int \<Rightarrow> string \<Rightarrow> authority
     \<Rightarrow> codev_error + approval_record \<times> change_plan" where
  "consume_check env now a aid token pid rv whash s =
     (case map_of (a_approvals s) aid of
        None \<Rightarrow> Inl (GrantDenied ''approval_not_valid_for_actor'')
      | Some r \<Rightarrow>
          let ap = approval r in
          bindR (raise_if (ap_actor ap \<noteq> a \<or> token_hash r \<noteq> sha256 env token)
                   (GrantDenied ''approval_not_valid_for_actor'')) (\<lambda>_.
          bindR (raise_if (consumed ap \<or> ap_expires_at ap \<le> now)
                   (GrantDenied ''approval_expired_or_consumed'')) (\<lambda>_.
          bindR (get_plan now a pid s) (\<lambda>p.
          bindR (raise_if (plan_hash p \<noteq> ap_plan_hash ap \<or> p_workspace_id p \<noteq> ap_workspace_id ap)
                   (GrantDenied ''approval_plan_mismatch'')) (\<lambda>_.
          bindR (raise_if (revision ap \<noteq> rv \<or> ap_workspace_hash ap \<noteq> whash)
                   (GrantDenied ''workspace_revision_conflict'')) (\<lambda>_.
          bindR (require now a (ap_workspace_id ap) (operation_scope (operation ap)) (ap_files ap)
                   (Some (ap_grant_epoch ap)) (command_id p) (a_grants s)) (\<lambda>_.
          Inr (r, p))))))))"

definition consume ::
  "codev_env \<Rightarrow> time \<Rightarrow> actor \<Rightarrow> string \<Rightarrow> string \<Rightarrow> string \<Rightarrow> int \<Rightarrow> string \<Rightarrow> authority
     \<Rightarrow> (codev_error + change_plan) \<times> authority" where
  "consume env now a aid token pid rv whash s =
     (case consume_check env now a aid token pid rv whash s of
        Inl e \<Rightarrow> (Inl e, s)
      | Inr (r, p) \<Rightarrow>
          (Inr p, s\<lparr>a_approvals := AList.update aid
                      (r\<lparr>approval := (approval r)\<lparr>consumed := True\<rparr>\<rparr>) (a_approvals s),
                    a_plans := AList.delete pid (a_plans s)\<rparr>))"

definition discard :: "actor \<Rightarrow> string option \<Rightarrow> authority \<Rightarrow> authority" where
  "discard a w s =
     s\<lparr>a_plans := dict_filter (\<lambda>p. p_actor p \<noteq> a \<or> (w \<noteq> None \<and> Some (p_workspace_id p) \<noteq> w)) (a_plans s),
       a_approvals := dict_filter (\<lambda>r. ap_actor (approval r) \<noteq> a \<or>
         (w \<noteq> None \<and> Some (ap_workspace_id (approval r)) \<noteq> w)) (a_approvals s)\<rparr>"


section \<open>The authority as a machine\<close>

datatype authority_op =
    GrantOp grant_op
  | Register time change_plan
  | Approve time string string actor string string bool
  | Consume time actor string string string int string
  | Discard actor "string option"

primrec authority_step :: "codev_env \<Rightarrow> authority_op \<Rightarrow> authority \<Rightarrow> authority" where
  "authority_step env (GrantOp op) s = s\<lparr>a_grants := grant_step op (a_grants s)\<rparr>"
| "authority_step env (Register now p) s = snd (register env now p s)"
| "authority_step env (Approve now fresh token a pid hash approved) s =
     snd (approve env now fresh token a pid hash approved s)"
| "authority_step env (Consume now a aid token pid rv whash) s =
     snd (consume env now a aid token pid rv whash s)"
| "authority_step env (Discard a w) s = discard a w s"

text \<open>The approval an operation uses up, and the one it may create.\<close>

fun consumes :: "codev_env \<Rightarrow> authority_op \<Rightarrow> authority \<Rightarrow> string option" where
  "consumes env (Consume now a aid token pid rv whash) s =
     (case fst (consume env now a aid token pid rv whash s) of Inl _ \<Rightarrow> None | Inr _ \<Rightarrow> Some aid)"
| "consumes env _ s = None"

fun mints_approval :: "authority_op \<Rightarrow> string option" where
  "mints_approval (Approve now fresh token a pid hash approved) = Some (''approval_'' @ fresh)"
| "mints_approval _ = None"

definition approval_spent :: "string \<Rightarrow> authority \<Rightarrow> bool" where
  "approval_spent i s \<longleftrightarrow>
     (case map_of (a_approvals s) i of None \<Rightarrow> True | Some r \<Rightarrow> consumed (approval r))"

definition plan_ok :: "codev_env \<Rightarrow> change_plan \<Rightarrow> bool" where
  "plan_ok env p \<longleftrightarrow> truthy (command_id p) = (changes p = []) \<and>
     plan_hash p = plan_digest env p \<and>
     (\<forall>c \<in> set (changes p). safe_file (c_path c) \<and> sha256 env (new_text c) = new_hash c)"

definition authority_ok :: "codev_env \<Rightarrow> authority \<Rightarrow> bool" where
  "authority_ok env s \<longleftrightarrow> grants_ok (a_grants s) \<and>
     dict_ok (a_plans s) \<and> length (a_plans s) \<le> 128 \<and> (\<forall>kp \<in> set (a_plans s). plan_ok env (snd kp)) \<and>
     dict_ok (a_approvals s) \<and> length (a_approvals s) \<le> 128"

lemma any_invalid_change_False:
  "any_invalid_change env cs = Inr False \<Longrightarrow> c \<in> set cs \<Longrightarrow>
     safe_file (c_path c) \<and> sha256 env (new_text c) = new_hash c"
  by (induction cs)
     (auto simp: bindR_eq_Inr_iff safe_file_def denied_path_def dest: relative_path_same split: if_splits)

lemma plan_digest_stored [simp]: "plan_digest env (p\<lparr>plan_hash := h\<rparr>) = plan_digest env p"
  by (simp add: plan_digest_def plan_dump_def)

lemma register_check_ok:
  "register_check env p = Inr u \<Longrightarrow> plan_ok env (p\<lparr>plan_hash := plan_digest env p\<rparr>)"
  by (auto simp: register_check_def bindR_eq_Inr_iff plan_ok_def dest: any_invalid_change_False)

lemma register_ok:
  assumes "authority_ok env s"
  shows "authority_ok env (snd (register env now p s))"
proof (cases "register_check env p")
  case (Inl e)
  with assms show ?thesis by (simp add: register_def)
next
  case (Inr u)
  let ?stored = "p\<lparr>plan_hash := plan_digest env p\<rparr>"
  from assms have live: "dict_ok (live_plans now s)" "length (live_plans now s) \<le> 128"
    "\<forall>kp \<in> set (live_plans now s). plan_ok env (snd kp)"
    by (auto simp: authority_ok_def live_plans_def dict_simps dict_filter_bound set_dict_filter)
  from dict_update_all [OF live(3), of ?stored "plan_id p"] register_check_ok [OF Inr]
  have "\<forall>kp \<in> set (AList.update (plan_id p) ?stored (live_plans now s)). plan_ok env (snd kp)" .
  with assms live Inr show ?thesis
    by (auto simp: register_def Let_def authority_ok_def dict_simps)
qed

lemma approve_ok:
  assumes "authority_ok env s"
  shows "authority_ok env (snd (approve env now fresh token a pid hash approved s))"
  using assms
  by (auto simp: approve_def Let_def authority_ok_def live_approvals_def dict_simps dict_filter_bound
      split: sum.splits)

lemma consume_check_ok:
  assumes "consume_check env now a aid token pid rv whash s = Inr (r, p)"
  shows "map_of (a_approvals s) aid = Some r" "get_plan now a pid s = Inr p"
    "ap_actor (approval r) = a" "token_hash r = sha256 env token" "\<not> consumed (approval r)"
    "now < ap_expires_at (approval r)" "plan_hash p = ap_plan_hash (approval r)"
    "p_workspace_id p = ap_workspace_id (approval r)" "revision (approval r) = rv"
    "ap_workspace_hash (approval r) = whash"
    "\<exists>g. require now a (ap_workspace_id (approval r)) (operation_scope (operation (approval r)))
       (ap_files (approval r)) (Some (ap_grant_epoch (approval r))) (command_id p) (a_grants s) = Inr g"
  using assms by (auto simp: consume_check_def Let_def result_iffs split: option.splits)

lemma consume_ok:
  assumes "authority_ok env s"
  shows "authority_ok env (snd (consume env now a aid token pid rv whash s))"
proof (cases "consume_check env now a aid token pid rv whash s")
  case (Inl e)
  with assms show ?thesis by (simp add: consume_def)
next
  case (Inr rp)
  obtain r p where rp: "rp = (r, p)" by (cases rp)
  with Inr assms show ?thesis
    by (simp add: consume_def authority_ok_def dict_simps set_dict_delete length_delete_bound
        consume_check_ok(1) [OF Inr [unfolded rp]])
qed

lemma discard_ok: "authority_ok env s \<Longrightarrow> authority_ok env (discard a w s)"
  by (auto simp: discard_def authority_ok_def dict_simps dict_filter_bound set_dict_filter)

lemma authority_step_ok: "authority_ok env s \<Longrightarrow> authority_ok env (authority_step env op s)"
  by (cases op) (simp_all add: register_ok approve_ok consume_ok discard_ok,
                 simp add: authority_ok_def grant_step_ok)


lemma approve_cases:
  obtains (failed) e where "fst (approve env now fresh token a pid hash approved s) = Inl e"
      "map_of (a_approvals (snd (approve env now fresh token a pid hash approved s))) =
         map_of (a_approvals s) \<or>
       a_approvals (snd (approve env now fresh token a pid hash approved s)) = live_approvals now s"
  | (granted) p where "approve_check now a pid hash approved s = Inr p"
      "length (live_approvals now s) < 128"
      "approve env now fresh token a pid hash approved s =
         (Inr (exact_approval_of now fresh a p, token),
          s\<lparr>a_approvals := AList.update (''approval_'' @ fresh)
             \<lparr>approval = exact_approval_of now fresh a p, token_hash = sha256 env token\<rparr>
             (live_approvals now s)\<rparr>)"
  by (cases "approve_check now a pid hash approved s"; cases "length (live_approvals now s) < 128")
     (auto simp: approve_def Let_def exact_approval_of_def)

lemma live_approval_lookup:
  "dict_ok (a_approvals s) \<Longrightarrow> map_of (live_approvals now s) i =
     (case map_of (a_approvals s) i of None \<Rightarrow> None
      | Some r \<Rightarrow> if \<not> consumed (approval r) \<and> ap_expires_at (approval r) > now then Some r else None)"
  by (simp add: live_approvals_def dict_simps)

lemma approve_spent_stays:
  assumes "dict_ok (a_approvals s)" "approval_spent i s" "''approval_'' @ fresh \<noteq> i"
  shows "approval_spent i (snd (approve env now fresh token a pid hash approved s))"
  using assms
  by (auto simp: approve_def Let_def exact_approval_of_def approval_spent_def live_approval_lookup dict_simps
      split: sum.splits option.splits if_splits)

lemma consume_cases:
  obtains (failed) e where "consume env now a aid token pid rv whash s = (Inl e, s)"
  | (drawn) r p where "consume_check env now a aid token pid rv whash s = Inr (r, p)"
      "consume env now a aid token pid rv whash s =
         (Inr p, s\<lparr>a_approvals := AList.update aid (r\<lparr>approval := (approval r)\<lparr>consumed := True\<rparr>\<rparr>) (a_approvals s),
                   a_plans := AList.delete pid (a_plans s)\<rparr>)"
  by (cases "consume_check env now a aid token pid rv whash s") (auto simp: consume_def)

lemma consume_spent_stays:
  assumes "approval_spent i s"
  shows "approval_spent i (snd (consume env now a aid token pid rv whash s))"
  by (rule consume_cases [of env now a aid token pid rv whash s])
     (use assms in \<open>auto simp: approval_spent_def dict_simps\<close>)

lemma discard_spent_stays:
  "dict_ok (a_approvals s) \<Longrightarrow> approval_spent i s \<Longrightarrow> approval_spent i (discard a w s)"
  by (auto simp: approval_spent_def discard_def dict_simps split: option.splits)

lemma register_approvals [simp]: "a_approvals (snd (register env now p s)) = a_approvals s"
  by (auto simp: register_def Let_def split: sum.splits)

lemma grant_spent_stays:
  "approval_spent i s \<Longrightarrow> approval_spent i (s\<lparr>a_grants := gs\<rparr>)"
  by (simp add: approval_spent_def)

lemma register_spent_stays: "approval_spent i s \<Longrightarrow> approval_spent i (snd (register env now p s))"
  by (simp add: approval_spent_def)

lemma spent_step:
  assumes "authority_ok env s" "approval_spent i s" "mints_approval op \<noteq> Some i"
  shows "approval_spent i (authority_step env op s)"
proof -
  from assms(1) have "dict_ok (a_approvals s)" by (simp add: authority_ok_def)
  with assms(2,3) show ?thesis
    by (cases op) (simp_all add: grant_spent_stays register_spent_stays approve_spent_stays
        consume_spent_stays discard_spent_stays)
qed

lemma consumes_iff:
  "consumes env op s = Some i \<longleftrightarrow> (\<exists>now a token pid rv whash p.
     op = Consume now a i token pid rv whash \<and> fst (consume env now a i token pid rv whash s) = Inr p)"
  by (cases op) (auto split: sum.splits)

lemma consumes_spent:
  assumes "consumes env op s = Some i"
  shows "\<not> approval_spent i s" "approval_spent i (authority_step env op s)"
proof -
  from assms obtain now a token pid rv whash p where op: "op = Consume now a i token pid rv whash"
    and ok: "fst (consume env now a i token pid rv whash s) = Inr p"
    by (auto simp: consumes_iff)
  then obtain r where r: "consume_check env now a i token pid rv whash s = Inr (r, p)"
    by (auto simp: consume_def split: sum.splits)
  show "\<not> approval_spent i s" "approval_spent i (authority_step env op s)"
    using consume_check_ok(1,5) [OF r]
    by (simp_all add: op consume_def r approval_spent_def dict_simps)
qed

interpretation approvals: single_use "authority_step env" "authority_ok env"
    "consumes env" approval_spent mints_approval for env
  by unfold_locales (auto simp: authority_step_ok consumes_spent spent_step)


primrec authority_retires :: "authority_op \<Rightarrow> grant_key \<Rightarrow> authority \<Rightarrow> bool" where
  "authority_retires (GrantOp op) k s \<longleftrightarrow> grant_retires op k (a_grants s)"
| "authority_retires (Register now p) k s \<longleftrightarrow> False"
| "authority_retires (Approve now fresh token a pid hash approved) k s \<longleftrightarrow> False"
| "authority_retires (Consume now a aid token pid rv whash) k s \<longleftrightarrow> False"
| "authority_retires (Discard a w) k s \<longleftrightarrow> False"

definition authority_version :: "authority \<Rightarrow> grant_key \<Rightarrow> int option" where
  "authority_version s k = grant_version (a_grants s) k"

lemma unchanged_grants [simp]:
  "a_grants (snd (register env now p s)) = a_grants s"
  "a_grants (snd (approve env now fresh token a pid hash approved s)) = a_grants s"
  "a_grants (snd (consume env now a aid token pid rv whash s)) = a_grants s"
  "a_grants (discard a w s) = a_grants s"
  by (auto simp: register_def approve_def consume_def discard_def Let_def split: sum.splits)

lemma authority_step_version:
  assumes "authority_ok env s" "authority_version s k = Some v" "\<not> authority_retires op k s"
  shows "\<exists>v' \<ge> v. authority_version (authority_step env op s) k = Some v'"
  using assms grant_step_version [of "a_grants s" k v]
  by (cases op) (auto simp: authority_version_def authority_ok_def)

interpretation authority: versioned_ledger "authority_step env" "authority_ok env"
    authority_version authority_retires for env
  by unfold_locales (auto simp: authority_step_ok authority_step_version)

lemma authority_ok_empty [simp]: "authority_ok env empty_authority"
  by (simp add: authority_ok_def empty_authority_def dict_simps)

text \<open>An approval under one identifier keeps its content until it is dropped or minted again.\<close>

definition approval_terms :: "approval_record \<Rightarrow> exact_approval" where
  "approval_terms r = (approval r)\<lparr>consumed := False\<rparr>"

definition keeps_approval :: "string \<Rightarrow> approval_record \<Rightarrow> authority \<Rightarrow> bool" where
  "keeps_approval i r s \<longleftrightarrow> (\<forall>r'. map_of (a_approvals s) i = Some r' \<longrightarrow>
     token_hash r' = token_hash r \<and> approval_terms r' = approval_terms r)"

lemma approval_terms_consumed [simp]:
  "approval_terms (r\<lparr>approval := (approval r)\<lparr>consumed := b\<rparr>\<rparr>) = approval_terms r"
  by (simp add: approval_terms_def)

lemma approval_terms_eqD:
  assumes "approval_terms r' = approval_terms r"
  shows "ap_actor (approval r') = ap_actor (approval r)"
    "ap_workspace_id (approval r') = ap_workspace_id (approval r)"
    "ap_grant_epoch (approval r') = ap_grant_epoch (approval r)"
    "ap_plan_hash (approval r') = ap_plan_hash (approval r)"
  using arg_cong [OF assms, of ap_actor] arg_cong [OF assms, of ap_workspace_id]
    arg_cong [OF assms, of ap_grant_epoch] arg_cong [OF assms, of ap_plan_hash]
  by (simp_all add: approval_terms_def)

lemma keeps_submap:
  "keeps_approval i r s \<Longrightarrow>
     (\<And>r'. map_of (a_approvals s') i = Some r' \<Longrightarrow> map_of (a_approvals s) i = Some r') \<Longrightarrow>
     keeps_approval i r s'"
  unfolding keeps_approval_def by blast

lemma approve_lookup:
  assumes "dict_ok (a_approvals s)" "''approval_'' @ fresh \<noteq> i"
    and "map_of (a_approvals (snd (approve env now fresh token a pid hash approved s))) i = Some r'"
  shows "map_of (a_approvals s) i = Some r'"
proof (cases "approve_check now a pid hash approved s")
  case (Inl e)
  with assms(3) show ?thesis by (simp add: approve_def)
next
  case (Inr p)
  have "map_of (live_approvals now s) i = Some r'"
    using assms(2,3) Inr
    by (simp add: approve_def Let_def exact_approval_of_def dict_simps split: if_splits)
  with assms(1) show ?thesis
    by (simp add: live_approval_lookup split: option.splits if_splits)
qed

lemma approve_keeps:
  assumes "dict_ok (a_approvals s)" "keeps_approval i r s" "''approval_'' @ fresh \<noteq> i"
  shows "keeps_approval i r (snd (approve env now fresh token a pid hash approved s))"
  using assms by (blast intro: keeps_submap approve_lookup)

lemma consume_keeps:
  assumes "keeps_approval i r s"
  shows "keeps_approval i r (snd (consume env now a aid token pid rv whash s))"
proof (cases rule: consume_cases [of env now a aid token pid rv whash s])
  case (drawn r' p)
  from consume_check_ok(1) [OF drawn(1)] assms show ?thesis
    unfolding drawn(2) by (simp add: keeps_approval_def dict_simps)
qed (use assms in simp)

lemma discard_keeps:
  assumes "dict_ok (a_approvals s)" "keeps_approval i r s"
  shows "keeps_approval i r (discard a w s)"
proof (rule keeps_submap [OF assms(2)])
  show "map_of (a_approvals (discard a w s)) i = Some r' \<Longrightarrow> map_of (a_approvals s) i = Some r'" for r'
    using assms(1) by (simp add: discard_def dict_simps split: option.splits if_splits)
qed

lemma keeps_step:
  assumes "authority_ok env s" "keeps_approval i r s" "mints_approval op \<noteq> Some i"
  shows "keeps_approval i r (authority_step env op s)"
proof -
  from assms(1) have "dict_ok (a_approvals s)" by (simp add: authority_ok_def)
  with assms(2,3) show ?thesis
    by (cases op) (simp_all add: approve_keeps consume_keeps discard_keeps, simp_all add: keeps_approval_def)
qed

lemma keeps_run:
  "authority_ok env s \<Longrightarrow> keeps_approval i r s \<Longrightarrow> \<forall>op \<in> set ops. mints_approval op \<noteq> Some i \<Longrightarrow>
     keeps_approval i r (run (authority_step env) ops s)"
  by (induction ops arbitrary: s) (simp_all add: keeps_step authority_step_ok)

section \<open>Properties\<close>

text \<open>
  Claim C1. In every history of the authority, an approval identifier that was minted once is
  consumed successfully at most once, whatever operations come between, by whichever actors.
\<close>

theorem approval_consumed_at_most_once:
  assumes "length (filter (\<lambda>op. mints_approval op = Some i) ops) \<le> 1"
  shows "draws (authority_step env) (consumes env) i ops empty_authority \<le> 1"
proof -
  have "approval_spent i empty_authority"
    by (simp add: approval_spent_def empty_authority_def)
  with assms show ?thesis by (intro approvals.draws_of_fresh) simp_all
qed

text \<open>
  Claim C16. Every history keeps the authority's invariant: at most 256 grants, 128 plans and 128
  approvals, every stored plan carries the digest of its own content, describes exactly one class
  of operation, and names only canonical, non-denied files with matching content hashes.
\<close>

theorem authority_invariant: "authority_ok env (run (authority_step env) ops empty_authority)"
  by (rule approvals.inv_run) simp

text \<open>
  Claim C8. Revoking a workspace ends the approvals that were given under it: an approval bound
  to an epoch up to the revoked one can never be consumed afterwards, in any continuation that
  neither retires the client nor reuses the approval's fresh identifier, even when the workspace
  is granted again.
\<close>

theorem revocation_ends_approvals:
  assumes ok: "authority_ok env s"
    and r: "map_of (a_approvals s) i = Some r" "ap_actor (approval r) = a" "ap_workspace_id (approval r) = w"
    and g: "get_grant a w (a_grants s) = Some g" "ap_grant_epoch (approval r) \<le> epoch g"
    and later: "\<forall>op \<in> set ops. mints_approval op \<noteq> Some i"
      "\<not> retired_in (authority_step env) authority_retires ops (grant_key a w)
           (authority_step env (GrantOp (Revoke a w)) s)"
  shows "\<exists>e. fst (consume env now a' i token pid rv whash
    (run (authority_step env) (GrantOp (Revoke a w) # ops) s)) = Inl e"
proof -
  let ?revoked = "authority_step env (GrantOp (Revoke a w)) s"
  let ?fin = "run (authority_step env) ops ?revoked"
  have okr: "authority_ok env ?revoked" using ok by (rule authority_step_ok)
  have "authority_version ?revoked (grant_key a w) = Some (epoch g + 1)"
    using g(1) by (simp add: authority_version_def grant_version_def revoke_def dict_simps)
  with authority.version_run [OF okr] later(2) obtain v where
    v: "epoch g + 1 \<le> v" "authority_version ?fin (grant_key a w) = Some v" by blast
  have "keeps_approval i r ?fin"
    using keeps_run [OF okr _ later(1), of r] r(1) by (simp add: keeps_approval_def)
  moreover have "\<nexists>p. fst (consume env now a' i token pid rv whash ?fin) = Inr p"
  proof
    assume "\<exists>p. fst (consume env now a' i token pid rv whash ?fin) = Inr p"
    then obtain r' p where c: "consume_check env now a' i token pid rv whash ?fin = Inr (r', p)"
      by (auto simp: consume_def split: sum.splits)
    have "approval_terms r' = approval_terms r"
      using \<open>keeps_approval i r ?fin\<close> consume_check_ok(1) [OF c] by (simp add: keeps_approval_def)
    from approval_terms_eqD [OF this]
    have same: "ap_actor (approval r') = a" "ap_workspace_id (approval r') = w"
        "ap_grant_epoch (approval r') = ap_grant_epoch (approval r)"
      using r(2,3) by simp_all
    from consume_check_ok(11) [OF c] consume_check_ok(3) [OF c] same
    have "authority_version ?fin (grant_key a w) = Some (ap_grant_epoch (approval r))"
      by (auto simp: require_eq_Inr get_grant_Some authority_version_def grant_version_def)
    with v g(2) show False by simp
  qed
  ultimately show ?thesis
    by (cases "fst (consume env now a' i token pid rv whash ?fin)") simp_all
qed

section \<open>Witnesses\<close>

definition codev_sample_env :: codev_env where
  "codev_sample_env = \<lparr>sha256 = (\<lambda>s. ''h'' @ s), isoformat = (\<lambda>t. string_of_int t)\<rparr>"

lemma approval_consumed_at_most_once_witness:
  "draws (authority_step codev_sample_env) (consumes codev_sample_env) ''approval_x''
     [Approve 0 ''x'' ''tok'' sample_actor ''p'' ''h'' True,
      Consume 1 sample_actor ''approval_x'' ''tok'' ''p'' 1 ''w'',
      Consume 2 sample_actor ''approval_x'' ''tok'' ''p'' 1 ''w''] empty_authority \<le> 1"
  by (rule approval_consumed_at_most_once) simp

definition sample_approval :: approval_record where
  "sample_approval = \<lparr>approval = \<lparr>approval_id = ''approval_x'', ap_actor = sample_actor,
     ap_workspace_id = ''w'', revision = 1, ap_workspace_hash = ''wh'', ap_grant_epoch = 1,
     operation = ''patch_apply'', ap_files = [''a.py''], ap_plan_hash = ''h'', ap_command_argv = [],
     ap_cwd_label = [], ap_network_policy = ''none'', ap_expires_at = 100, one_time = True,
     consumed = False\<rparr>, token_hash = ''htok''\<rparr>"

definition sample_authority :: authority where
  "sample_authority = \<lparr>a_grants = snd (issue 0 ''f'' (sample_request 0) []), a_plans = [],
     a_approvals = [(''approval_x'', sample_approval)]\<rparr>"

lemma sample_authority_ok: "authority_ok env sample_authority"
  by (simp add: authority_ok_def sample_authority_def dict_ok_def issue_ok)

lemma revocation_ends_approvals_witness:
  "\<exists>e. fst (consume codev_sample_env 5 sample_actor ''approval_x'' ''tok'' ''p'' 1 ''wh''
    (run (authority_step codev_sample_env)
       (GrantOp (Revoke sample_actor ''w'') # [GrantOp (Issue 3 ''h'' (sample_request 2))])
       sample_authority)) = Inl e"
proof (rule revocation_ends_approvals [where r = sample_approval
      and g = "issue_grant 0 ''f'' (sample_request 0) [''a.py'']", OF sample_authority_ok])
  show "map_of (a_approvals sample_authority) ''approval_x'' = Some sample_approval"
    by (simp add: sample_authority_def)
  show "ap_actor (approval sample_approval) = sample_actor"
    "ap_workspace_id (approval sample_approval) = ''w''"
    by (simp_all add: sample_approval_def)
  show "get_grant sample_actor ''w'' (a_grants sample_authority) =
      Some (issue_grant 0 ''f'' (sample_request 0) [''a.py''])"
    by (simp add: sample_authority_def sample_issue get_grant_def) (simp add: sample_request_def)
  show "ap_grant_epoch (approval sample_approval) \<le> epoch (issue_grant 0 ''f'' (sample_request 0) [''a.py''])"
    by (simp add: sample_approval_def sample_request_def)
qed simp_all

section \<open>Provenance of a consumed plan\<close>

definition registered_by :: "codev_env \<Rightarrow> authority_op list \<Rightarrow> change_plan \<Rightarrow> bool" where
  "registered_by env ops p \<longleftrightarrow>
     (\<exists>t q. Register t q \<in> set ops \<and> p = q\<lparr>plan_hash := plan_digest env q\<rparr>)"

definition given_by :: "codev_env \<Rightarrow> authority_op list \<Rightarrow> string \<Rightarrow> approval_record \<Rightarrow> bool" where
  "given_by env ops i r \<longleftrightarrow> (\<exists>t f tok pid.
     Approve t f tok (ap_actor (approval r)) pid (ap_plan_hash (approval r)) True \<in> set ops \<and>
     i = ''approval_'' @ f \<and> token_hash r = sha256 env tok \<and>
     ap_expires_at (approval r) \<le> t + seconds 300)"

lemma given_by_terms:
  "given_by env ops i r \<Longrightarrow> given_by env ops i (r\<lparr>approval := (approval r)\<lparr>consumed := b\<rparr>\<rparr>)"
  by (simp add: given_by_def)

lemma given_by_snoc: "given_by env ops i r \<Longrightarrow> given_by env (ops @ [op]) i r"
  unfolding given_by_def by force

lemma registered_by_snoc: "registered_by env ops p \<Longrightarrow> registered_by env (ops @ [op]) p"
  unfolding registered_by_def by force

lemma approve_check_ok:
  assumes "approve_check now a pid hash approved s = Inr p"
  shows "approved" "get_plan now a pid s = Inr p" "plan_hash p = hash"
    "\<exists>g. require now a (p_workspace_id p) (operation_scope (plan_operation a p))
       (map c_path (changes p)) (Some (p_grant_epoch p)) (command_id p) (a_grants s) = Inr g"
  using assms by (auto simp: approve_check_def bindR_eq_Inr_iff compare_digest_def split: if_splits)

lemma approve_given:
  assumes "dict_ok (a_approvals s)"
    and "map_of (a_approvals (snd (approve env now fresh token a pid hash approved s))) i = Some r"
  shows "map_of (a_approvals s) i = Some r \<or>
    given_by env [Approve now fresh token a pid hash approved] i r"
proof (cases rule: approve_cases [of env now fresh token a pid hash approved s])
  case (failed e)
  with assms show ?thesis
    by (auto simp: live_approval_lookup split: option.splits if_splits)
next
  case (granted p)
  show ?thesis
  proof (cases "i = ''approval_'' @ fresh")
    case True
    with assms(2) granted(3) approve_check_ok(1,3) [OF granted(1)] show ?thesis
      by (auto simp: given_by_def exact_approval_of_def dict_simps)
  next
    case False
    with approve_lookup [OF assms(1) _ assms(2)] show ?thesis by simp
  qed
qed

lemma approvals_given:
  "map_of (a_approvals (run (authority_step env) ops empty_authority)) i = Some r \<Longrightarrow>
     given_by env ops i r"
proof (induction ops arbitrary: r rule: rev_induct)
  case Nil
  then show ?case by (simp add: empty_authority_def)
next
  case (snoc op ops)
  let ?fin = "run (authority_step env) ops empty_authority"
  have ok: "dict_ok (a_approvals ?fin)"
    using approvals.inv_run [of env empty_authority ops, OF authority_ok_empty] by (simp add: authority_ok_def)
  have old: "map_of (a_approvals ?fin) i = Some r' \<Longrightarrow> given_by env (ops @ [op]) i r'" for r'
    by (rule given_by_snoc [OF snoc.IH])
  show ?case
  proof (cases op)
    case (Approve now fresh token a pid hash approved)
    have "given_by env [op] i r \<Longrightarrow> given_by env (ops @ [op]) i r"
      unfolding given_by_def by force
    with approve_given [OF ok, of env now fresh token a pid hash approved i r] snoc.prems old
    show ?thesis by (auto simp: Approve)
  next
    case (Consume now a aid token pid rv whash)
    show ?thesis
    proof (cases rule: consume_cases [of env now a aid token pid rv whash ?fin])
      case (drawn r' p)
      from consume_check_ok(1) [OF drawn(1)] snoc.prems old show ?thesis
        by (auto simp: Consume drawn(2) dict_simps given_by_terms split: if_splits)
    qed (use snoc.prems old in \<open>simp add: Consume\<close>)
  next
    case (Discard a w)
    with snoc.prems old ok show ?thesis
      by (simp add: discard_def dict_simps split: option.splits if_splits)
  qed (use snoc.prems old in simp_all)
qed

lemma register_lookup:
  assumes "dict_ok (a_plans s)" "map_of (a_plans (snd (register env now q s))) i = Some p"
  shows "map_of (a_plans s) i = Some p \<or> p = q\<lparr>plan_hash := plan_digest env q\<rparr>"
proof (cases "register_check env q")
  case (Inl e)
  with assms(2) show ?thesis by (simp add: register_def)
next
  case (Inr u)
  with assms show ?thesis
    by (simp add: register_def Let_def live_plans_def dict_simps split: if_splits option.splits)
qed

lemma approve_plans [simp]: "a_plans (snd (approve env now fresh token a pid hash approved s)) = a_plans s"
  by (auto simp: approve_def Let_def split: sum.splits)

lemma plans_registered:
  "map_of (a_plans (run (authority_step env) ops empty_authority)) i = Some p \<Longrightarrow>
     registered_by env ops p"
proof (induction ops arbitrary: p rule: rev_induct)
  case Nil
  then show ?case by (simp add: empty_authority_def)
next
  case (snoc op ops)
  let ?fin = "run (authority_step env) ops empty_authority"
  have ok: "dict_ok (a_plans ?fin)"
    using approvals.inv_run [of env empty_authority ops, OF authority_ok_empty] by (simp add: authority_ok_def)
  have old: "map_of (a_plans ?fin) i = Some p' \<Longrightarrow> registered_by env (ops @ [op]) p'" for p'
    by (rule registered_by_snoc [OF snoc.IH])
  show ?case
  proof (cases op)
    case (Register now q)
    from register_lookup [OF ok, of env now q i p] snoc.prems Register
    consider "map_of (a_plans ?fin) i = Some p" | "p = q\<lparr>plan_hash := plan_digest env q\<rparr>" by auto
    then show ?thesis
    proof cases
      case 2
      with Register show ?thesis unfolding registered_by_def by force
    qed (rule old)
  next
    case (Consume now a aid token pid rv whash)
    show ?thesis
    proof (cases rule: consume_cases [of env now a aid token pid rv whash ?fin])
      case (drawn r' q)
      from snoc.prems old show ?thesis
        by (simp add: Consume drawn(2) dict_simps split: if_splits)
    qed (use snoc.prems old in \<open>simp add: Consume\<close>)
  next
    case (Discard a w)
    with snoc.prems old ok show ?thesis
      by (simp add: discard_def dict_simps split: option.splits if_splits)
  qed (use snoc.prems old in simp_all)
qed

text \<open>
  Claim C3. What is consumed is what was approved: a plan that \<open>consume\<close> hands out was
  registered with this content, and an earlier \<open>approve\<close> call by the same actor, explicitly
  approving, named exactly the digest of this content; the approval lies at most five minutes
  back and its secret hashes to the presented one.
\<close>

theorem consumed_plan_was_approved:
  assumes "fst (consume env now a i token pid rv whash
      (run (authority_step env) ops empty_authority)) = Inr p"
  shows "(\<exists>t q. Register t q \<in> set ops \<and> p = q\<lparr>plan_hash := plan_digest env q\<rparr>) \<and>
    (\<exists>t f tok pid'. Approve t f tok a pid' (plan_digest env p) True \<in> set ops \<and>
      i = ''approval_'' @ f \<and> sha256 env tok = sha256 env token \<and> now < t + seconds 300) \<and>
    p_actor p = a \<and> now < p_expires_at p"
proof -
  let ?fin = "run (authority_step env) ops empty_authority"
  from assms obtain r where c: "consume_check env now a i token pid rv whash ?fin = Inr (r, p)"
    by (auto simp: consume_def split: sum.splits)
  note ok = consume_check_ok [OF c]
  from ok(2) have p: "map_of (a_plans ?fin) pid = Some p" "p_actor p = a" "now < p_expires_at p"
    by (auto simp: get_plan_def split: option.splits if_splits)
  from plans_registered [OF p(1)] have reg: "registered_by env ops p" .
  then have h: "ap_plan_hash (approval r) = plan_digest env p"
    using ok(7) unfolding registered_by_def by auto
  from approvals_given [OF ok(1)] ok(3,4,6)
  have "\<exists>t f tok pid'. Approve t f tok a pid' (plan_digest env p) True \<in> set ops \<and>
      i = ''approval_'' @ f \<and> sha256 env tok = sha256 env token \<and> now < t + seconds 300"
    unfolding given_by_def h by force
  with reg p(2,3) show ?thesis unfolding registered_by_def by blast
qed

definition sample_plan :: change_plan where
  "sample_plan = \<lparr>plan_id = ''p'', p_workspace_id = ''w'', p_actor = sample_actor, base_revision = 1,
     p_workspace_hash = ''wh'', p_grant_epoch = 1, plan_hash = [], p_summary = [],
     changes = [\<lparr>c_path = ''a.py'', base_hash = ''b'', new_text = ''x'', new_hash = ''hx'', diff = ''d''\<rparr>],
     command_id = None, command_argv = [], cwd_label = [], network_policy = ''none'',
     expected_checks = [], risks = [], p_expires_at = 50, recovery_note = []\<rparr>"

definition sample_history :: "authority_op list" where
  "sample_history = [GrantOp (Issue 0 ''f'' (sample_request 0)), Register 1 sample_plan,
     Approve 2 ''x'' ''tok'' sample_actor ''p'' (plan_digest codev_sample_env sample_plan) True]"

lemma sample_consume:
  "fst (consume codev_sample_env 3 sample_actor ''approval_x'' ''tok'' ''p'' 1 ''wh''
      (run (authority_step codev_sample_env) sample_history empty_authority)) =
   Inr (sample_plan\<lparr>plan_hash := plan_digest codev_sample_env sample_plan\<rparr>)"
  by code_simp

lemma consumed_plan_was_approved_witness:
  "(\<exists>t q. Register t q \<in> set sample_history \<and>
      sample_plan\<lparr>plan_hash := plan_digest codev_sample_env sample_plan\<rparr> =
        q\<lparr>plan_hash := plan_digest codev_sample_env q\<rparr>) \<and>
    (\<exists>t f tok pid'. Approve t f tok sample_actor pid'
        (plan_digest codev_sample_env (sample_plan\<lparr>plan_hash := plan_digest codev_sample_env sample_plan\<rparr>)) True
        \<in> set sample_history \<and>
      ''approval_x'' = ''approval_'' @ f \<and> sha256 codev_sample_env tok = sha256 codev_sample_env ''tok'' \<and>
      3 < t + seconds 300) \<and>
    p_actor (sample_plan\<lparr>plan_hash := plan_digest codev_sample_env sample_plan\<rparr>) = sample_actor \<and>
    3 < p_expires_at (sample_plan\<lparr>plan_hash := plan_digest codev_sample_env sample_plan\<rparr>)"
  by (rule consumed_plan_was_approved [OF sample_consume])

end
