(* ===== verification/Actions.thy ===== *)
theory Actions
  imports Machines
begin

text \<open>
  Methods that update state and may raise: an action takes the state and returns the result
  together with the state it leaves behind.  A raised exception keeps the state reached so far,
  as Python does; nothing is rolled back.  The locale \<open>state_relation\<close> is the contract of a
  service whose methods keep an invariant and only move the state along a preorder; its lemmas
  compose over the sequencing of calls.
\<close>

type_synonym ('s, 'e, 'a) action = "'s \<Rightarrow> ('e + 'a) \<times> 's"

definition bindA :: "('s, 'e, 'a) action \<Rightarrow> ('a \<Rightarrow> ('s, 'e, 'b) action) \<Rightarrow> ('s, 'e, 'b) action" where
  "bindA m f s = (case m s of (Inl e, s') \<Rightarrow> (Inl e, s') | (Inr a, s') \<Rightarrow> f a s')"

definition returnA :: "'a \<Rightarrow> ('s, 'e, 'a) action" where
  "returnA a s = (Inr a, s)"

definition liftA :: "'e + 'a \<Rightarrow> ('s, 'e, 'a) action" where
  \<comment> \<open>a call that does not touch the state\<close>
  "liftA r s = (r, s)"

definition readA :: "('s \<Rightarrow> 'e + 'a) \<Rightarrow> ('s, 'e, 'a) action" where
  "readA f s = (f s, s)"

definition updateA :: "('s \<Rightarrow> 's) \<Rightarrow> ('s, 'e, unit) action" where
  "updateA f s = (Inr (), f s)"

fun each :: "('a \<Rightarrow> ('s, 'e, 'b) action) \<Rightarrow> 'a list \<Rightarrow> ('s, 'e, 'b list) action" where
  \<comment> \<open>a loop over a list that stops at the first exception\<close>
  "each f [] = returnA []"
| "each f (x # xs) = bindA (f x) (\<lambda>y. bindA (each f xs) (\<lambda>ys. returnA (y # ys)))"

named_theorems action_simps \<open>evaluation of actions\<close>

lemma bindA_Inl [action_simps]: "m s = (Inl e, s') \<Longrightarrow> bindA m f s = (Inl e, s')"
  by (simp add: bindA_def)

lemma bindA_Inr [action_simps]: "m s = (Inr a, s') \<Longrightarrow> bindA m f s = f a s'"
  by (simp add: bindA_def)

lemma bindA_cases:
  obtains (raises) e s' where "m s = (Inl e, s')" "bindA m f s = (Inl e, s')"
  | (returns) a s' where "m s = (Inr a, s')" "bindA m f s = f a s'"
  by (cases "m s"; cases "fst (m s)") (auto simp: bindA_def)

lemma bindA_eq_Inr:
  "bindA m f s = (Inr b, t) \<longleftrightarrow> (\<exists>a s'. m s = (Inr a, s') \<and> f a s' = (Inr b, t))"
  by (auto simp: bindA_def split: prod.splits sum.splits)

lemma returnA_apply [simp]: "returnA a s = (Inr a, s)"
  by (simp add: returnA_def)

lemma liftA_apply [simp]: "liftA r s = (r, s)"
  by (simp add: liftA_def)

lemma readA_apply [simp]: "readA f s = (f s, s)"
  by (simp add: readA_def)

lemma updateA_apply [simp]: "updateA f s = (Inr (), f s)"
  by (simp add: updateA_def)

section \<open>Actions that leave the state alone\<close>

definition pureA :: "('s, 'e, 'a) action \<Rightarrow> bool" where
  "pureA m \<longleftrightarrow> (\<forall>s. snd (m s) = s)"

named_theorems pure_intros \<open>actions that leave the state alone\<close>

lemma pureA_return [pure_intros]: "pureA (returnA a)"
  by (simp add: pureA_def)

lemma pureA_lift [pure_intros]: "pureA (liftA r)"
  by (simp add: pureA_def)

lemma pureA_read [pure_intros]: "pureA (readA f)"
  by (simp add: pureA_def)

lemma pureA_bind [pure_intros]:
  assumes "pureA m" "\<And>a. pureA (f a)"
  shows "pureA (bindA m f)"
proof -
  have "snd (bindA m f s) = s" for s
    by (cases rule: bindA_cases [of m s f]) (use assms in \<open>auto simp: pureA_def dest: spec [of _ s]\<close>)
  then show ?thesis by (simp add: pureA_def)
qed

lemma pureA_each [pure_intros]: "(\<And>x. pureA (f x)) \<Longrightarrow> pureA (each f xs)"
  by (induction xs) (simp_all add: pure_intros)

section \<open>Services that move their state along a preorder\<close>

definition moves :: "('s \<Rightarrow> bool) \<Rightarrow> ('s \<Rightarrow> 's \<Rightarrow> bool) \<Rightarrow> ('s, 'e, 'a) action \<Rightarrow> ('a \<Rightarrow> bool) \<Rightarrow> bool" where
  \<comment> \<open>from a good state the action reaches a good state further along, and its result satisfies \<open>post\<close>\<close>
  "moves good rel m post \<longleftrightarrow> (\<forall>s. good s \<longrightarrow> good (snd (m s)) \<and> rel s (snd (m s)) \<and>
     (\<forall>a. fst (m s) = Inr a \<longrightarrow> post a))"

lemma movesI:
  "(\<And>s. good s \<Longrightarrow> good (snd (m s)) \<and> rel s (snd (m s)) \<and> (\<forall>a. fst (m s) = Inr a \<longrightarrow> post a)) \<Longrightarrow>
     moves good rel m post"
  by (simp add: moves_def)

lemma movesD:
  assumes "moves good rel m post" "good s"
  shows "good (snd (m s))" "rel s (snd (m s))" "fst (m s) = Inr a \<Longrightarrow> post a"
  using assms by (simp_all add: moves_def)

locale state_relation =
  fixes good :: "'s \<Rightarrow> bool" and rel :: "'s \<Rightarrow> 's \<Rightarrow> bool"
  assumes rel_refl: "good s \<Longrightarrow> rel s s"
    and rel_trans: "rel s t \<Longrightarrow> rel t u \<Longrightarrow> rel s u"
begin

lemma moves_return: "post a \<Longrightarrow> moves good rel (returnA a) post"
  by (simp add: moves_def rel_refl)

lemma moves_pure:
  assumes "pureA m" "\<And>s a. good s \<Longrightarrow> fst (m s) = Inr a \<Longrightarrow> post a"
  shows "moves good rel m post"
  using assms by (auto simp: moves_def pureA_def rel_refl)

lemma moves_pure_any: "pureA m \<Longrightarrow> moves good rel m (\<lambda>_. True)"
  by (rule moves_pure) simp_all

lemma moves_weaken: "moves good rel m post \<Longrightarrow> (\<And>a. post a \<Longrightarrow> post' a) \<Longrightarrow> moves good rel m post'"
  by (simp add: moves_def)

lemma moves_bind:
  assumes "moves good rel m mid" "\<And>a. mid a \<Longrightarrow> moves good rel (f a) post"
  shows "moves good rel (bindA m f) post"
proof (rule movesI)
  fix s assume s: "good s"
  show "good (snd (bindA m f s)) \<and> rel s (snd (bindA m f s)) \<and>
      (\<forall>a. fst (bindA m f s) = Inr a \<longrightarrow> post a)"
  proof (cases rule: bindA_cases [of m s f])
    case (raises e s')
    with movesD [OF assms(1) s] show ?thesis by simp
  next
    case (returns a s')
    with movesD [OF assms(1) s] have "good s'" "rel s s'" "mid a" by simp_all
    with movesD [OF assms(2), of a s'] returns(2) show ?thesis
      by (auto intro: rel_trans)
  qed
qed

lemma moves_each:
  "(\<And>x. x \<in> set xs \<Longrightarrow> moves good rel (f x) (\<lambda>_. True)) \<Longrightarrow> moves good rel (each f xs) (\<lambda>_. True)"
  by (induction xs) (auto intro!: moves_return moves_bind)

end

end
