(* ===== verification/CodevSessions.thy ===== *)
theory CodevSessions
  imports CodevContracts Actions
begin

text \<open>
  Native client sessions, \<open>core/codev/sessions.py\<close>, and the truth about the installation they
  depend on, \<open>core/codev/installation.py\<close>.  What the account service, the managed policy, the
  emergency posture and the inspection of the installed package answer at one moment is the world of
  a call; an answer that is missing stands for an exception.  The dictionary \<open>_SESSIONS\<close> is the state.
\<close>

section \<open>The installation\<close>

record core_identity =
  core_state :: string
  core_installed :: bool
  core_compatible :: bool
  core_version :: "string option"
  core_note :: string
  core_installation_id :: "string option"

record codev_world =
  clock :: time
  signed_in :: "(string \<times> string) option"
  policy_allows :: "bool option"
  emergency_posture :: "bool option"
  core :: core_identity
  runtime_instance_id :: "string option"

record capability =
  cap_id :: string
  cap_available :: bool
  cap_requires :: "string list"
  cap_reason :: "string option"

record installation =
  in_state :: string
  in_installed :: bool
  in_usable :: bool
  in_version :: "string option"
  in_contract_versions :: "string list"
  in_source :: string
  in_installation_state :: string
  in_runtime_state :: string
  in_session_state :: string
  in_runtime_instance_id :: "string option"
  in_installation_id :: "string option"
  in_capabilities :: "capability list"
  in_note :: string

definition runtime_available :: "codev_world \<Rightarrow> bool \<times> string" where
  "runtime_available w = (let unknown = (False, ''Local session policy is temporarily unavailable.'') in
     case signed_in w of
       None \<Rightarrow> (False, ''Sign in to the local Elysia profile to use Codev.'')
     | Some _ \<Rightarrow> (case policy_allows w of
         None \<Rightarrow> unknown
       | Some False \<Rightarrow> (False, ''The installation policy does not permit coding operations.'')
       | Some True \<Rightarrow> (case emergency_posture w of
           None \<Rightarrow> unknown
         | Some True \<Rightarrow> (False, ''Elysia emergency posture is active.'')
         | Some False \<Rightarrow> (True, ''Codev is installed. Every workspace and operation requires its own grant.''))))"

definition live_capabilities :: "(string \<times> string list) list" where
  "live_capabilities = [(''workspace_read'', [''workspace_grant'', ''selected_files'']),
     (''workspace_write_plan'', [''workspace_grant'']),
     (''patch_propose'', [''workspace_grant'', ''selected_files'']),
     (''structured_edit_proposal'', [''workspace_propose_grant'', ''selected_files'', ''local_compute_admission'']),
     (''patch_apply'', [''workspace_write_grant'', ''exact_revision_approval'']),
     (''git_inspect'', [''workspace_grant'']), (''command_catalog'', []),
     (''command_execute'', [''command_grant'', ''exact_command_approval''])]"

definition unavailable_capabilities :: "(string \<times> string) list" where
  "unavailable_capabilities = [(''test_execute'', ''Repository scripts require a qualified isolated worker.''),
     (''build_execute'', ''Repository scripts require a qualified isolated worker.''),
     (''package_install'', ''Package installation is not exposed to Codev clients.''),
     (''network_public_docs'', ''Public network access is not granted.''),
     (''remote_repo_read'', ''Remote repository access is not granted.''),
     (''remote_repo_write'', ''Remote repository writes are not granted.''),
     (''forge_read'', ''Pairing and a separate Forge workspace grant are required.''),
     (''forge_write'', ''A revision-specific remote save requires separate approval.''),
     (''marketplace_workspace_read'', ''Pairing and an explicit browser workspace grant are required.''),
     (''marketplace_workspace_write'', ''A browser patch requires a revision-specific approval.''),
     (''cloud_model'', ''No external model authority is granted.'')]"

definition capability_manifest :: "bool \<Rightarrow> capability list" where
  "capability_manifest usable =
     map (\<lambda>(i, needs). \<lparr>cap_id = i, cap_available = usable, cap_requires = needs,
       cap_reason = (if usable then None else Some ''Codev is unavailable in this local session.'')\<rparr>) live_capabilities @
     map (\<lambda>(i, why). \<lparr>cap_id = i, cap_available = False, cap_requires = [], cap_reason = Some why\<rparr>)
       unavailable_capabilities"

definition absent_installation :: "string \<Rightarrow> installation" where
  "absent_installation note = \<lparr>in_state = ''absent'', in_installed = False, in_usable = False, in_version = None,
     in_contract_versions = [], in_source = ''none'', in_installation_state = ''absent'',
     in_runtime_state = ''disconnected'', in_session_state = ''approval_needed'', in_runtime_instance_id = None,
     in_installation_id = None, in_capabilities = [], in_note = note\<rparr>"

definition resolve_installation :: "codev_world \<Rightarrow> bool \<Rightarrow> installation" where
  "resolve_installation w runtime_ready = (let
       i = core w; mismatch = core_state i = ''incompatible'';
       common = (absent_installation (core_note i))\<lparr>in_installed := True, in_version := core_version i,
         in_source := ''installed_core_manifest'',
         in_installation_state := (if mismatch then ''incompatible'' else ''installed''),
         in_runtime_instance_id := runtime_instance_id w, in_installation_id := core_installation_id i,
         in_contract_versions := [''codev-client-1'', ''codev-core-1'', ''vscode-coding-agent-contract-0.1'']\<rparr>
     in if \<not> core_installed i then absent_installation (core_note i)
     else if \<not> core_compatible i then
       common\<lparr>in_state := (if mismatch then ''incompatible'' else ''degraded''), in_runtime_state := ''degraded''\<rparr>
     else let (session_ready, note) = runtime_available w; usable = runtime_ready \<and> session_ready in
       common\<lparr>in_state := (if runtime_ready then ''installed_ready'' else ''installed_unavailable''),
         in_runtime_state := (if runtime_ready then ''ready'' else ''disconnected''),
         in_session_state := (if session_ready then ''ready'' else ''approval_needed''),
         in_usable := usable, in_capabilities := capability_manifest usable,
         in_note := (if runtime_ready then note
           else ''Codev Core is installed; its local service is unavailable.'')\<rparr>)"

section \<open>Sessions\<close>

record native_session =
  ns_actor :: actor
  local_session_id :: string
  ns_expires_at :: time
  ns_installation_id :: "string option"

type_synonym session_store = "(string \<times> native_session) list"

definition account_principal :: "codev_world \<Rightarrow> codev_error + string \<times> string" where
  "account_principal w = (case signed_in w of None \<Rightarrow> Inl (AccountAuthError ''authentication required'') | Some p \<Rightarrow> Inr p)"

definition installation_id_of :: "codev_world \<Rightarrow> string option" where
  "installation_id_of w = in_installation_id (resolve_installation w True)"

definition ensure_available :: "codev_world \<Rightarrow> codev_error + unit" where
  "ensure_available w = raise_if (\<not> in_usable (resolve_installation w True)) (GrantDenied ''codev_installation_unavailable'')"

definition make_actor :: "actor \<Rightarrow> codev_error + actor" where
  \<comment> \<open>the lengths of the identifiers, then the validator\<close>
  "make_actor a =
     bindR (raise_if (local_profile_id a = [] \<or> 128 < length (local_profile_id a) \<or> client_id a = [] \<or> 128 < length (client_id a))
       (ValueError ''validation error for Actor'')) (\<lambda>_. validate_client_binding a)"

definition native_actor :: "string \<Rightarrow> string \<Rightarrow> actor" where
  "native_actor user fresh = \<lparr>local_profile_id = user, client_id = ''native_'' @ fresh, client_kind = Native,
     online_account_id = None, origin = None, surface = Local\<rparr>"

definition live_sessions :: "time \<Rightarrow> session_store \<Rightarrow> session_store" where
  "live_sessions now = dict_filter (\<lambda>x. now < ns_expires_at x)"

definition open_native_session :: "codev_world \<Rightarrow> string \<Rightarrow> (session_store, codev_error, actor) action" where
  "open_native_session w fresh s =
     (case bindR (ensure_available w) (\<lambda>_. bindR (account_principal w) (\<lambda>(user, sid).
        bindR (make_actor (native_actor user fresh)) (\<lambda>a. Inr (a, sid)))) of
        Inl e \<Rightarrow> (Inl e, s)
      | Inr (a, sid) \<Rightarrow> (let live = live_sessions (clock w) s in
          if 32 \<le> length live then (Inl (GrantDenied ''native_session_capacity_reached''), live)
          else (Inr a, AList.update (client_id a) \<lparr>ns_actor = a, local_session_id = sid,
            ns_expires_at = clock w + seconds (8 * 3600), ns_installation_id = installation_id_of w\<rparr> live)))"

definition require_native_session :: "codev_world \<Rightarrow> string \<Rightarrow> bool \<Rightarrow> session_store \<Rightarrow> codev_error + actor" where
  "require_native_session w client revocation_only s =
     bindR (account_principal w) (\<lambda>(user, sid).
     bindR (if revocation_only then Inr () else ensure_available w) (\<lambda>_.
     case map_of s client of
       None \<Rightarrow> Inl (GrantDenied ''native_session_missing_expired_or_account_changed'')
     | Some x \<Rightarrow>
         if ns_expires_at x \<le> clock w \<or> local_profile_id (ns_actor x) \<noteq> user \<or> local_session_id x \<noteq> sid
         then Inl (GrantDenied ''native_session_missing_expired_or_account_changed'')
         else if \<not> revocation_only \<and> ns_installation_id x \<noteq> installation_id_of w
         then Inl (GrantDenied ''native_session_installation_changed'')
         else Inr (ns_actor x)))"

section \<open>What a session is\<close>

lemma runtime_available_iff: "fst (runtime_available w) \<longleftrightarrow>
    signed_in w \<noteq> None \<and> policy_allows w = Some True \<and> emergency_posture w = Some False"
  by (auto simp: runtime_available_def Let_def split: option.split bool.split)

lemma resolve_usable_iff: "in_usable (resolve_installation w True) \<longleftrightarrow>
    core_installed (core w) \<and> core_compatible (core w) \<and> signed_in w \<noteq> None \<and>
    policy_allows w = Some True \<and> emergency_posture w = Some False"
  using runtime_available_iff [of w]
  by (auto simp: resolve_installation_def Let_def absent_installation_def split: prod.split)

lemma ensure_available_iff: "ensure_available w = Inr () \<longleftrightarrow>
    core_installed (core w) \<and> core_compatible (core w) \<and> signed_in w \<noteq> None \<and>
    policy_allows w = Some True \<and> emergency_posture w = Some False"
  unfolding ensure_available_def resolve_usable_iff raise_if_eq_Inr_iff by blast

lemma make_actor_ok: "make_actor a = Inr b \<Longrightarrow> b = a \<and> validate_client_binding a = Inr a"
  by (auto simp: make_actor_def bindR_eq_Inr_iff validate_client_binding_def split: if_splits)

lemma require_native_iff:
  "require_native_session w client ro s = Inr a \<longleftrightarrow>
     (\<exists>user sid x. signed_in w = Some (user, sid) \<and> (\<not> ro \<longrightarrow> ensure_available w = Inr ()) \<and>
        map_of s client = Some x \<and> ns_actor x = a \<and> clock w < ns_expires_at x \<and> local_profile_id a = user \<and>
        local_session_id x = sid \<and> (\<not> ro \<longrightarrow> ns_installation_id x = installation_id_of w))"
  by (auto simp: require_native_session_def account_principal_def bindR_eq_Inr_iff split: option.splits if_splits)

datatype session_op = Open_session codev_world string

primrec session_step :: "session_op \<Rightarrow> session_store \<Rightarrow> session_store" where
  "session_step (Open_session w fresh) s = snd (open_native_session w fresh s)"

definition opened_by :: "codev_world \<Rightarrow> string \<Rightarrow> string \<Rightarrow> native_session \<Rightarrow> bool" where
  "opened_by w fresh client x \<longleftrightarrow> (\<exists>user sid. signed_in w = Some (user, sid) \<and> ensure_available w = Inr () \<and>
     client = ''native_'' @ fresh \<and> ns_actor x = native_actor user fresh \<and> local_session_id x = sid \<and>
     ns_expires_at x = clock w + seconds (8 * 3600) \<and> ns_installation_id x = installation_id_of w)"

definition session_origin :: "session_op list \<Rightarrow> session_store \<Rightarrow> bool" where
  "session_origin ops s \<longleftrightarrow> (\<forall>(client, x) \<in> set s. \<exists>w fresh. Open_session w fresh \<in> set ops \<and> opened_by w fresh client x)"

lemma open_outcome:
  obtains (refused) "set (snd (open_native_session w fresh s)) \<subseteq> set s"
  | (opened) x client where "opened_by w fresh client x"
      "snd (open_native_session w fresh s) = AList.update client x (live_sessions (clock w) s)"
proof (cases "bindR (ensure_available w) (\<lambda>_. bindR (account_principal w) (\<lambda>(user, sid).
        bindR (make_actor (native_actor user fresh)) (\<lambda>a. Inr (a, sid))))")
  case (Inl e)
  then show thesis by (intro refused) (simp add: open_native_session_def)
next
  case (Inr r)
  then obtain user sid where r: "signed_in w = Some (user, sid)" "ensure_available w = Inr ()"
    "r = (native_actor user fresh, sid)"
    by (auto simp: bindR_eq_Inr_iff account_principal_def split: option.splits dest: make_actor_ok)
  let ?x = "\<lparr>ns_actor = native_actor user fresh, local_session_id = sid,
      ns_expires_at = clock w + seconds (8 * 3600), ns_installation_id = installation_id_of w\<rparr>"
  show thesis
  proof (cases "32 \<le> length (live_sessions (clock w) s)")
    case True
    with Inr r show thesis
      by (intro refused) (auto simp: open_native_session_def Let_def live_sessions_def set_dict_filter)
  next
    case False
    have "opened_by w fresh (''native_'' @ fresh) ?x" using r by (auto simp: opened_by_def)
    moreover have "snd (open_native_session w fresh s) = AList.update (''native_'' @ fresh) ?x (live_sessions (clock w) s)"
      using Inr r(3) False by (simp add: open_native_session_def Let_def) (simp add: native_actor_def)
    ultimately show thesis by (rule opened)
  qed
qed

lemma session_originD:
  "session_origin ops s \<Longrightarrow> (client, x) \<in> set s \<Longrightarrow> \<exists>w fresh. Open_session w fresh \<in> set ops \<and> opened_by w fresh client x"
  by (auto simp: session_origin_def)

lemma session_originI:
  "(\<And>client x. (client, x) \<in> set s \<Longrightarrow> \<exists>w fresh. Open_session w fresh \<in> set ops \<and> opened_by w fresh client x) \<Longrightarrow>
     session_origin ops s"
  by (auto simp: session_origin_def)

lemma session_origin_snoc:
  assumes "session_origin ops s"
  shows "session_origin (ops @ [op]) (session_step op s)"
proof (rule session_originI)
  fix c y assume m: "(c, y) \<in> set (session_step op s)"
  obtain w fresh where op: "op = Open_session w fresh" by (cases op)
  show "\<exists>w f. Open_session w f \<in> set (ops @ [op]) \<and> opened_by w f c y"
  proof (cases "(c, y) \<in> set s")
    case True
    from session_originD [OF assms this] show ?thesis by auto
  next
    case False
    show ?thesis
    proof (cases rule: open_outcome [of w fresh s])
      case refused
      with m False op show ?thesis by auto
    next
      case (opened x client)
      with m op have "(c, y) \<in> set (AList.update client x (live_sessions (clock w) s))" by simp
      from dict_update_set [OF this] False have "(c, y) = (client, x)" by (auto simp: live_sessions_def set_dict_filter)
      with opened(1) op show ?thesis by auto
    qed
  qed
qed

lemma session_origins: "session_origin ops (run session_step ops [])"
proof (induction ops rule: rev_induct)
  case Nil
  then show ?case by (simp add: session_origin_def)
next
  case (snoc op ops)
  from session_origin_snoc [OF this, of op] show ?case by simp
qed

text \<open>
  A native session serves only the login that opened it: whenever a session is accepted
  for more than revocation, it was opened, less than eight hours before, by the account and account
  session that are signed in now, on the installation that is still in place, and the installation
  is usable: signed in, allowed by policy and with no emergency posture.
\<close>

theorem native_session_is_own:
  assumes "require_native_session w client False (run session_step ops []) = Inr a"
  shows "\<exists>w' fresh user sid. Open_session w' fresh \<in> set ops \<and> signed_in w' = Some (user, sid) \<and>
    signed_in w = Some (user, sid) \<and> a = native_actor user fresh \<and> client = client_id a \<and>
    clock w < clock w' + seconds (8 * 3600) \<and> installation_id_of w' = installation_id_of w \<and>
    policy_allows w = Some True \<and> emergency_posture w = Some False"
proof -
  from assms obtain user sid x where x: "signed_in w = Some (user, sid)" "ensure_available w = Inr ()"
    "map_of (run session_step ops []) client = Some x" "ns_actor x = a" "clock w < ns_expires_at x"
    "local_profile_id a = user" "local_session_id x = sid" "ns_installation_id x = installation_id_of w"
    by (auto simp: require_native_iff)
  from session_originD [OF session_origins map_of_SomeD [OF x(3)]] obtain w' fresh where
    o: "Open_session w' fresh \<in> set ops" "opened_by w' fresh client x" by blast
  with x show ?thesis
    by (auto simp: opened_by_def ensure_available_iff native_actor_def)
qed

section \<open>Witnesses\<close>

definition sample_world :: "time \<Rightarrow> codev_world" where
  "sample_world t = \<lparr>clock = t, signed_in = Some (''u'', ''s''), policy_allows = Some True,
     emergency_posture = Some False, core = \<lparr>core_state = ''installed'', core_installed = True,
       core_compatible = True, core_version = Some ''1.1.0'', core_note = ''installed'',
       core_installation_id = Some ''i''\<rparr>, runtime_instance_id = None\<rparr>"

lemma native_session_is_own_witness:
  "\<exists>w' fresh. Open_session w' fresh \<in> set [Open_session (sample_world 0) ''1''] \<and>
     signed_in w' = signed_in (sample_world 5)"
proof -
  have "require_native_session (sample_world 5) ''native_1'' False (run session_step [Open_session (sample_world 0) ''1''] []) =
      Inr (native_actor ''u'' ''1'')"
    by code_simp
  from native_session_is_own [OF this] show ?thesis by auto
qed

end
