(* ===== verification/EmergencyControl.thy ===== *)
theory EmergencyControl
  imports Actions CodevContracts
begin

text \<open>
  The system-wide emergency posture, \<open>app/cognition/emergency_control.py\<close>: the stop flag of the
  process, the cancellable requests with their owners, and the state file that keeps the posture
  over a restart.  What the subsystems answer when they are cancelled, the fresh identifier, the
  clock, the account session and whether the disk accepts a write are the environment of a call.
  The state file is written atomically: a call that fails leaves the previous content.  A read may
  fail: what raises \<open>OSError\<close> or is no JSON object counts as the inactive default, a text that is
  not UTF-8 raises.
\<close>

section \<open>State\<close>

datatype cleanup_value = Count int | Flag bool | Nothing | Degraded string

record emergency_state =
  is_active :: bool
  resume_required :: bool
  trigger_id :: "string option"
  triggered_at_utc :: "time option"
  triggered_by_user_id :: "string option"
  em_reason :: "string option"
  reason_code :: "string option"
  reason_detail_stored :: bool
  internet_effectively_enabled :: bool
  runtime_autonomy_override :: int
  sealed_memory_relocked :: bool
  cleanup :: "(string \<times> cleanup_value) list"
  restart_recovery_performed :: bool
  last_reset_at_utc :: "time option"
  prior_trigger_id :: "string option"
  reset_by_user_id :: "string option"
  idempotent_repeat :: bool
  event_degraded :: bool

record request_registry =
  request_events :: "(string \<times> bool) list"
  request_owners :: "(string \<times> string) list"

record emergency =
  stop_event :: bool
  requests :: request_registry
  cancellers :: "string list"
  emergency_file :: "emergency_state option"

datatype read_outcome = State_readable | State_unreadable | State_undecodable

record emergency_env =
  governance :: "string + string \<times> string"
  now_utc :: time
  fresh_trigger :: string
  callback :: "string \<Rightarrow> string + cleanup_value"
  leases_cancelled :: int
  disk_writable :: bool
  state_read :: read_outcome
  event_recorded :: bool

definition safe_default :: emergency_state where
  "safe_default = \<lparr>is_active = False, resume_required = False, trigger_id = None, triggered_at_utc = None,
     triggered_by_user_id = None, em_reason = None, reason_code = None, reason_detail_stored = False,
     internet_effectively_enabled = False, runtime_autonomy_override = 1, sealed_memory_relocked = True,
     cleanup = [], restart_recovery_performed = False, last_reset_at_utc = None, prior_trigger_id = None,
     reset_by_user_id = None, idempotent_repeat = False, event_degraded = False\<rparr>"

definition no_requests :: request_registry where
  "no_requests = \<lparr>request_events = [], request_owners = []\<rparr>"

definition idle :: emergency where
  "idle = \<lparr>stop_event = False, requests = no_requests, cancellers = [], emergency_file = None\<rparr>"

definition read_state :: "emergency_env \<Rightarrow> emergency \<Rightarrow> codev_error + emergency_state" where
  "read_state env s = (case emergency_file s of None \<Rightarrow> Inr safe_default
     | Some st \<Rightarrow> (case state_read env of State_readable \<Rightarrow> Inr st | State_unreadable \<Rightarrow> Inr safe_default
         | State_undecodable \<Rightarrow> Inl (ValueError ''emergency state is not UTF-8'')))"

definition write_state :: "emergency_env \<Rightarrow> emergency_state \<Rightarrow> (emergency, codev_error, unit) action" where
  "write_state env st s =
     (if disk_writable env then (Inr (), s\<lparr>emergency_file := Some st\<rparr>)
      else (Inl (OSError ''emergency state not written''), s))"

section \<open>The posture\<close>

definition recovered :: "emergency_env \<Rightarrow> emergency_state \<Rightarrow> emergency_state" where
  "recovered env st = st\<lparr>restart_recovery_performed := True, resume_required := True,
     cleanup := AList.update ''gpu_leases_recovered'' (Count (leases_cancelled env))
       (AList.update ''interrupted_runtime_recovered'' (Flag True) (cleanup st))\<rparr>"

definition initialize_emergency_state :: "emergency_env \<Rightarrow> (emergency, codev_error, emergency_state) action" where
  "initialize_emergency_state env s = (case read_state env s of Inl e \<Rightarrow> (Inl e, s)
     | Inr st \<Rightarrow>
         if is_active st then
           (if restart_recovery_performed st then returnA st
            else bindA (write_state env (recovered env st)) (\<lambda>_. returnA (recovered env st)))
             (s\<lparr>stop_event := True\<rparr>)
         else returnA st (s\<lparr>stop_event := False\<rparr>))"

definition emergency_active :: "emergency_env \<Rightarrow> (emergency, codev_error, bool) action" where
  "emergency_active env s =
     (if stop_event s then (Inr True, s)
      else bindA (initialize_emergency_state env) (\<lambda>st. returnA (is_active st)) s)"

section \<open>Cancellable requests\<close>

definition request_cancel_event :: "bool \<Rightarrow> string \<Rightarrow> request_registry \<Rightarrow> request_registry" where
  "request_cancel_event stopped i r =
     (let old = (case map_of (request_events r) i of None \<Rightarrow> False | Some b \<Rightarrow> b)
      in r\<lparr>request_events := AList.update i (old \<or> stopped) (request_events r)\<rparr>)"

definition bind_request_owner :: "string \<Rightarrow> string \<Rightarrow> request_registry \<Rightarrow> request_registry" where
  "bind_request_owner i owner r = r\<lparr>request_owners := AList.update i owner (request_owners r)\<rparr>"

definition cancel_request :: "string \<Rightarrow> string \<Rightarrow> request_registry \<Rightarrow> bool \<times> request_registry" where
  "cancel_request i owner r =
     (if map_of (request_events r) i = None \<or> map_of (request_owners r) i \<noteq> Some owner then (False, r)
      else (True, r\<lparr>request_events := AList.update i True (request_events r)\<rparr>))"

definition release_request :: "string \<Rightarrow> request_registry \<Rightarrow> request_registry" where
  "release_request i r = r\<lparr>request_events := AList.delete i (request_events r),
     request_owners := AList.delete i (request_owners r)\<rparr>"

definition cancel_all :: "request_registry \<Rightarrow> request_registry" where
  "cancel_all r = r\<lparr>request_events := map (\<lambda>(i, _). (i, True)) (request_events r)\<rparr>"

definition cancelled :: "string \<Rightarrow> request_registry \<Rightarrow> bool" where
  "cancelled i r \<longleftrightarrow> map_of (request_events r) i = Some True"

definition active_request_count :: "emergency \<Rightarrow> nat" where
  "active_request_count s = length (request_events (requests s))"

definition register_canceller :: "string \<Rightarrow> emergency \<Rightarrow> emergency" where
  "register_canceller name s =
     s\<lparr>cancellers := (if name \<in> set (cancellers s) then cancellers s else cancellers s @ [name])\<rparr>"

definition unregister_canceller :: "string \<Rightarrow> emergency \<Rightarrow> emergency" where
  "unregister_canceller name s = s\<lparr>cancellers := filter (\<lambda>n. n \<noteq> name) (cancellers s)\<rparr>"

section \<open>Stop and resume\<close>

definition known_subsystems :: "string list" where
  "known_subsystems = [''imageforge'', ''videoforge'', ''archiveforge'', ''engineeringforge'', ''coding_commands'',
     ''operation_approvals_revoked'', ''coding_tasks'', ''sustained_goals'', ''soundcloud_pending_authorizations_closed'',
     ''sealed_unlocks_relocked'']"

definition cleanup_outcome :: "emergency_env \<Rightarrow> string \<Rightarrow> cleanup_value" where
  "cleanup_outcome env name = (case callback env name of Inl kind \<Rightarrow> Degraded (''degraded:'' @ kind) | Inr v \<Rightarrow> v)"

definition cancel_known_subsystems :: "emergency_env \<Rightarrow> emergency \<Rightarrow> (string \<times> cleanup_value) list \<times> emergency" where
  "cancel_known_subsystems env s = (let
       signalled = [(''active_requests_signalled'', Count (int (active_request_count s)))];
       called = fold (\<lambda>n d. AList.update n (cleanup_outcome env n) d) (cancellers s @ known_subsystems) signalled
     in (AList.update ''canonical_user_data_deleted'' (Flag False)
          (AList.update ''external_connector_network_closed'' (Flag True)
          (AList.update ''gpu_leases_cancelled'' (Count (leases_cancelled env)) called)),
         s\<lparr>requests := cancel_all (requests s)\<rparr>))"

definition reason_code_of :: "string \<Rightarrow> string" where
  "reason_code_of text = (let t = casefold (join '' '' (words text)) in
     if has_infix ''keyboard'' t then ''desktop_keyboard_shortcut''
     else if has_infix ''desktop'' t then ''desktop_emergency_control''
     else if has_infix ''cli'' t then ''cli_emergency_control''
     else ''operator_requested'')"

definition stopped_state :: "emergency_env \<Rightarrow> string \<Rightarrow> string \<Rightarrow> (string \<times> cleanup_value) list \<Rightarrow> emergency_state" where
  "stopped_state env user text c = safe_default\<lparr>is_active := True, resume_required := True,
     trigger_id := Some (''emergencystop_'' @ fresh_trigger env), triggered_at_utc := Some (now_utc env),
     triggered_by_user_id := Some user, em_reason := Some ''Operator emergency stop'',
     reason_code := Some (reason_code_of text), reason_detail_stored := False, cleanup := c\<rparr>"

definition activate_emergency_stop ::
  "emergency_env \<Rightarrow> string \<Rightarrow> (emergency, codev_error, emergency_state) action" where
  "activate_emergency_stop env text s =
     (case governance env of
        Inl _ \<Rightarrow> (Inl (AccountAuthError ''A valid local account session is required to trigger emergency stop.''), s)
      | Inr (user, role) \<Rightarrow> (case read_state env s of Inl e \<Rightarrow> (Inl e, s)
          | Inr current \<Rightarrow>
              let stopped = s\<lparr>stop_event := True\<rparr> in
              if is_active current then (Inr (current\<lparr>idempotent_repeat := True\<rparr>), stopped)
              else let (c, s') = cancel_known_subsystems env stopped; st = stopped_state env user text c in
                bindA (write_state env st) (\<lambda>_. returnA (st\<lparr>event_degraded := \<not> event_recorded env\<rparr>)) s'))"

definition may_resume :: "string \<Rightarrow> bool" where
  "may_resume role \<longleftrightarrow> role \<in> {''installation_owner'', ''admin''}"

definition reset_state :: "emergency_env \<Rightarrow> string \<Rightarrow> emergency_state \<Rightarrow> emergency_state" where
  "reset_state env user prior = safe_default\<lparr>last_reset_at_utc := Some (now_utc env),
     prior_trigger_id := trigger_id prior, reset_by_user_id := Some user\<rparr>"

definition reset_emergency_stop :: "emergency_env \<Rightarrow> (emergency, codev_error, emergency_state) action" where
  "reset_emergency_stop env s =
     (case governance env of
        Inl why \<Rightarrow> (Inl (AccountAuthError why), s)
      | Inr (user, role) \<Rightarrow>
          if \<not> may_resume role then
            (Inl (AccountAuthError
               ''Installation Owner or Admin authority is required to resume after emergency stop.''), s)
          else (case read_state env s of Inl e \<Rightarrow> (Inl e, s)
            | Inr prior \<Rightarrow> let st = reset_state env user prior in
                bindA (write_state env st) (\<lambda>_. bindA (updateA (\<lambda>t. t\<lparr>stop_event := False\<rparr>)) (\<lambda>_. returnA st)) s))"

section \<open>The posture as a machine\<close>

text \<open>
  One step is one call; \<open>Restart\<close> is the end of the process and the start of the next one, which
  keeps nothing but the state file.
\<close>

datatype emergency_op =
    Activate emergency_env string
  | Reset emergency_env
  | Status emergency_env
  | Query emergency_env
  | NewRequest string
  | BindOwner string string
  | CancelRequest string string
  | ReleaseRequest string
  | Register_canceller string
  | Unregister_canceller string
  | Restart

definition on_requests :: "(request_registry \<Rightarrow> request_registry) \<Rightarrow> emergency \<Rightarrow> emergency" where
  "on_requests f s = s\<lparr>requests := f (requests s)\<rparr>"

primrec emergency_step :: "emergency_op \<Rightarrow> emergency \<Rightarrow> emergency" where
  "emergency_step (Activate env text) s = snd (activate_emergency_stop env text s)"
| "emergency_step (Reset env) s = snd (reset_emergency_stop env s)"
| "emergency_step (Status env) s = snd (initialize_emergency_state env s)"
| "emergency_step (Query env) s = snd (emergency_active env s)"
| "emergency_step (NewRequest i) s = on_requests (request_cancel_event (stop_event s) i) s"
| "emergency_step (BindOwner i u) s = on_requests (bind_request_owner i u) s"
| "emergency_step (CancelRequest i u) s = on_requests (snd \<circ> cancel_request i u) s"
| "emergency_step (ReleaseRequest i) s = on_requests (release_request i) s"
| "emergency_step (Register_canceller n) s = register_canceller n s"
| "emergency_step (Unregister_canceller n) s = unregister_canceller n s"
| "emergency_step Restart s = s\<lparr>stop_event := False, requests := no_requests, cancellers := []\<rparr>"

text \<open>
  The posture is on when the state file says so; only an authorised reset may end it.  The flag of the
  process is a second record of it, which is lost with the process and with a status call that
  cannot read the file.
\<close>

definition stopped :: "emergency \<Rightarrow> bool" where
  "stopped s \<longleftrightarrow> (case emergency_file s of None \<Rightarrow> False | Some st \<Rightarrow> is_active st)"

definition seen_active :: "emergency_env \<Rightarrow> emergency \<Rightarrow> bool" where
  "seen_active env s \<longleftrightarrow> (case read_state env s of Inl _ \<Rightarrow> False | Inr st \<Rightarrow> is_active st)"

fun resumes :: "emergency_op \<Rightarrow> emergency \<Rightarrow> bool" where
  "resumes (Reset env) s \<longleftrightarrow> disk_writable env \<and> \<not> isl (read_state env s) \<and>
     (\<exists>user role. governance env = Inr (user, role) \<and> may_resume role)"
| "resumes _ s \<longleftrightarrow> False"

fun forgets_flag :: "emergency_op \<Rightarrow> bool" where
  "forgets_flag Restart \<longleftrightarrow> True"
| "forgets_flag (Status env) \<longleftrightarrow> state_read env = State_unreadable"
| "forgets_flag _ \<longleftrightarrow> False"

lemma read_state_simps [simp]:
  "read_state env (s\<lparr>stop_event := b\<rparr>) = read_state env s" "read_state env (s\<lparr>requests := r\<rparr>) = read_state env s"
  "read_state env (s\<lparr>cancellers := c\<rparr>) = read_state env s"
  by (simp_all add: read_state_def)

lemma stopped_simps [simp]:
  "stopped (s\<lparr>emergency_file := Some st\<rparr>) = is_active st" "stopped (s\<lparr>stop_event := b\<rparr>) = stopped s"
  "stopped (s\<lparr>requests := r\<rparr>) = stopped s" "stopped (s\<lparr>cancellers := c\<rparr>) = stopped s"
  by (simp_all add: stopped_def)

lemma safe_default_inactive [simp]: "\<not> is_active safe_default"
  by (simp add: safe_default_def)

lemma read_state_readable: "state_read env = State_readable \<Longrightarrow> read_state env s = Inr (case emergency_file s of None \<Rightarrow> safe_default | Some st \<Rightarrow> st)"
  by (simp add: read_state_def split: option.splits)

lemma seen_when_readable: "state_read env = State_readable \<Longrightarrow> seen_active env s \<longleftrightarrow> stopped s"
  by (simp add: seen_active_def stopped_def read_state_readable split: option.splits)

lemma stopped_read: "stopped s \<Longrightarrow> state_read env \<noteq> State_unreadable \<Longrightarrow> read_state env s = Inr st \<Longrightarrow> is_active st"
  by (auto simp: stopped_def read_state_def split: option.splits read_outcome.splits)

lemma recovered_active [simp]: "is_active (recovered env st) = is_active st"
  by (simp add: recovered_def)

lemma stopped_state_active [simp]: "is_active (stopped_state env user text c)"
  by (simp add: stopped_state_def)

lemma write_cases:
  "write_state env st s = (if disk_writable env then (Inr (), s\<lparr>emergency_file := Some st\<rparr>)
     else (Inl (OSError ''emergency state not written''), s))"
  by (simp add: write_state_def)

lemma initialize_outcome:
  "initialize_emergency_state env s = (case read_state env s of Inl e \<Rightarrow> (Inl e, s)
    | Inr st \<Rightarrow>
        if \<not> is_active st then (Inr st, s\<lparr>stop_event := False\<rparr>)
        else if restart_recovery_performed st then (Inr st, s\<lparr>stop_event := True\<rparr>)
        else if disk_writable env then
          (Inr (recovered env st), s\<lparr>stop_event := True, emergency_file := Some (recovered env st)\<rparr>)
        else (Inl (OSError ''emergency state not written''), s\<lparr>stop_event := True\<rparr>))"
  by (simp add: initialize_emergency_state_def bindA_def write_cases split: sum.splits)

lemma activate_outcome:
  assumes "governance env = Inr (user, role)"
  shows "activate_emergency_stop env text s = (case read_state env s of Inl e \<Rightarrow> (Inl e, s)
    | Inr current \<Rightarrow>
        if is_active current then (Inr (current\<lparr>idempotent_repeat := True\<rparr>), s\<lparr>stop_event := True\<rparr>)
        else let c = fst (cancel_known_subsystems env (s\<lparr>stop_event := True\<rparr>));
             st = stopped_state env user text c;
             s' = s\<lparr>stop_event := True, requests := cancel_all (requests s)\<rparr> in
          if disk_writable env then (Inr (st\<lparr>event_degraded := \<not> event_recorded env\<rparr>), s'\<lparr>emergency_file := Some st\<rparr>)
          else (Inl (OSError ''emergency state not written''), s'))"
  using assms
  by (simp add: activate_emergency_stop_def Let_def bindA_def write_cases cancel_known_subsystems_def split: sum.splits)

lemma reset_outcome:
  "snd (reset_emergency_stop env s) = (if resumes (Reset env) s then
     s\<lparr>stop_event := False, emergency_file := Some (reset_state env (fst (projr (governance env))) (projr (read_state env s)))\<rparr>
     else s)"
  by (cases "governance env") (auto simp: reset_emergency_stop_def Let_def bindA_def write_cases split: sum.splits)

lemma read_stopped:
  assumes "stopped s"
  obtains (active) st where "is_active st" "read_state env s = Inr st" "state_read env = State_readable"
  | (default) "read_state env s = Inr safe_default" "state_read env = State_unreadable"
  | (raises) e where "read_state env s = Inl e" "state_read env = State_undecodable"
  using assms by (cases "state_read env") (auto simp: stopped_def read_state_def split: option.splits)

lemma initialize_stopped:
  assumes "stopped s"
  shows "stopped (snd (initialize_emergency_state env s))"
    "state_read env \<noteq> State_unreadable \<Longrightarrow> fst (initialize_emergency_state env s) = Inr st \<Longrightarrow> is_active st"
    "state_read env \<noteq> State_unreadable \<Longrightarrow> stop_event s \<Longrightarrow> stop_event (snd (initialize_emergency_state env s))"
    "state_read env = State_readable \<Longrightarrow> disk_writable env \<Longrightarrow> \<exists>st. fst (initialize_emergency_state env s) = Inr st \<and> is_active st"
  using assms by (cases rule: read_stopped [OF assms, of env]; auto simp: initialize_outcome split: if_splits)+

lemma query_outcome:
  "emergency_active env s = (if stop_event s then (Inr True, s)
     else (case fst (initialize_emergency_state env s) of Inl e \<Rightarrow> Inl e | Inr st \<Rightarrow> Inr (is_active st),
           snd (initialize_emergency_state env s)))"
  by (cases "initialize_emergency_state env s") (simp add: emergency_active_def bindA_def split: sum.splits)

lemma query_stopped:
  assumes "stopped s"
  shows "stop_event s \<or> state_read env \<noteq> State_unreadable \<Longrightarrow> fst (emergency_active env s) \<noteq> Inr False"
    "stop_event s \<or> state_read env = State_readable \<and> disk_writable env \<Longrightarrow> fst (emergency_active env s) = Inr True"
    "stopped (snd (emergency_active env s))"
proof -
  note i = initialize_stopped [OF assms, of env]
  show "stop_event s \<or> state_read env \<noteq> State_unreadable \<Longrightarrow> fst (emergency_active env s) \<noteq> Inr False"
    using i(2) by (auto simp: query_outcome split: sum.splits)
  show "stop_event s \<or> state_read env = State_readable \<and> disk_writable env \<Longrightarrow> fst (emergency_active env s) = Inr True"
    using i(4) by (auto simp: query_outcome)
  show "stopped (snd (emergency_active env s))" using i(1) assms by (simp add: query_outcome)
qed

lemma stopped_step:
  assumes "stopped s" "\<not> resumes op s"
  shows "stopped (emergency_step op s)"
proof (cases op)
  case (Activate env why)
  show ?thesis
  proof (cases "governance env")
    case (Inr a)
    then obtain user role where "governance env = Inr (user, role)" by (cases a) auto
    from activate_outcome [OF this, of why s] assms(1) Activate show ?thesis by (simp add: Let_def split: sum.splits)
  qed (use assms(1) Activate in \<open>simp add: activate_emergency_stop_def\<close>)
next
  case (Reset env)
  with assms show ?thesis using reset_outcome [of env s] by auto
next
  case (Status env)
  with assms(1) show ?thesis using initialize_stopped(1) by simp
next
  case (Query env)
  with assms(1) show ?thesis using query_stopped(3) by simp
qed (use assms(1) in \<open>auto simp: on_requests_def register_canceller_def unregister_canceller_def\<close>)

interpretation posture: guarded_machine emergency_step stopped resumes
  by unfold_locales (rule stopped_step)

lemma flag_step:
  assumes "stopped s" "stop_event s" "\<not> resumes op s" "\<not> forgets_flag op"
  shows "stop_event (emergency_step op s)"
proof (cases op)
  case (Activate env why)
  show ?thesis
  proof (cases "governance env")
    case (Inr a)
    then obtain user role where "governance env = Inr (user, role)" by (cases a) auto
    from activate_outcome [OF this, of why s] assms(2) Activate show ?thesis by (simp add: Let_def split: sum.splits)
  qed (use assms(2) Activate in \<open>simp add: activate_emergency_stop_def\<close>)
next
  case (Reset env)
  with assms show ?thesis using reset_outcome [of env s] by auto
next
  case (Status env)
  with assms show ?thesis using initialize_stopped(3) by simp
qed (use assms in \<open>auto simp: emergency_active_def on_requests_def register_canceller_def unregister_canceller_def\<close>)

interpretation flag: guarded_machine emergency_step "\<lambda>s. stopped s \<and> stop_event s" "\<lambda>op s. resumes op s \<or> forgets_flag op"
  by unfold_locales (use stopped_step flag_step in blast)

lemma ended_in_either:
  "ended_in step (\<lambda>op s. p op s \<or> q op) ops s \<Longrightarrow> \<forall>op \<in> set ops. \<not> q op \<Longrightarrow> ended_in step p ops s"
  by (induction ops arbitrary: s) auto

lemma activated:
  assumes "activate_emergency_stop env text s = (Inr st, t)"
  shows "stopped t \<or> seen_active env s" "stop_event t" "is_active st"
    "requests t = (if seen_active env s then requests s else cancel_all (requests s))" "stopped s \<Longrightarrow> stopped t"
    "seen_active env s \<Longrightarrow> stopped s"
proof -
  obtain user role where g: "governance env = Inr (user, role)"
    using assms by (auto simp: activate_emergency_stop_def split: sum.splits)
  from assms activate_outcome [OF g]
  show "stopped t \<or> seen_active env s" "stop_event t" "is_active st"
    "requests t = (if seen_active env s then requests s else cancel_all (requests s))" "stopped s \<Longrightarrow> stopped t"
    by (auto simp: seen_active_def Let_def split: if_splits sum.splits)
  show "seen_active env s \<Longrightarrow> stopped s"
    by (auto simp: seen_active_def read_state_def stopped_def split: sum.splits option.splits read_outcome.splits)
qed

lemma activated_stopped: "activate_emergency_stop env text s = (Inr st, t) \<Longrightarrow> stopped t"
  using activated(1,5,6) by blast

lemma stays_reported:
  assumes "activate_emergency_stop env text s = (Inr st, t)" "\<not> ended_in emergency_step resumes ops t"
  shows "stopped (run emergency_step ops t)"
    "(\<forall>op \<in> set ops. \<not> forgets_flag op) \<Longrightarrow> stop_event (run emergency_step ops t)"
proof -
  note on = activated_stopped [OF assms(1)]
  show "stopped (run emergency_step ops t)" by (rule posture.guarded_run [OF on assms(2)])
  assume keep: "\<forall>op \<in> set ops. \<not> forgets_flag op"
  have "\<not> ended_in emergency_step (\<lambda>op s. resumes op s \<or> forgets_flag op) ops t"
    using ended_in_either [where p = resumes and q = forgets_flag and step = emergency_step, OF _ keep] assms(2) by blast
  with flag.guarded_run [of t ops] on activated(2) [OF assms(1)]
  show "stop_event (run emergency_step ops t)" by blast
qed

lemma map_of_all_True: "map_of es i \<noteq> None \<Longrightarrow> map_of (map (\<lambda>(i, _). (i, True)) es) i = Some True"
  by (induction es) (auto split: if_splits)

lemma cancel_all_cancelled: "map_of (request_events r) i \<noteq> None \<Longrightarrow> cancelled i (cancel_all r)"
  unfolding cancelled_def cancel_all_def using map_of_all_True by simp

text \<open>
  Claim C4. The emergency stop holds until an authorised person ends it: after a successful activation
  and any further calls, the end of the process included, the state file keeps the active posture
  unless one of the calls was a reset by an installation owner or administrator whose new state
  could be written.  A later query never reports it as inactive if it can read the file, or if since
  the activation the process did not end and no status call found the file unreadable.  An activation
  that finds the posture inactive signals every running request; a repeat signals none.
\<close>

theorem emergency_stop_holds:
  assumes "activate_emergency_stop env text s = (Inr st, t)"
    and "\<not> ended_in emergency_step resumes ops t"
  shows "stopped (run emergency_step ops t) \<and> stop_event t \<and>
    (state_read later \<noteq> State_unreadable \<or> (\<forall>op \<in> set ops. \<not> forgets_flag op) \<longrightarrow>
       fst (emergency_active later (run emergency_step ops t)) \<noteq> Inr False) \<and>
    (state_read later = State_readable \<and> disk_writable later \<or> (\<forall>op \<in> set ops. \<not> forgets_flag op) \<longrightarrow>
       fst (emergency_active later (run emergency_step ops t)) = Inr True) \<and>
    (if seen_active env s then requests t = requests s
     else (\<forall>i. map_of (request_events (requests s)) i \<noteq> None \<longrightarrow> cancelled i (requests t)))"
proof -
  note r = stays_reported [OF assms]
  have "if seen_active env s then requests t = requests s
     else (\<forall>i. map_of (request_events (requests s)) i \<noteq> None \<longrightarrow> cancelled i (requests t))"
    using activated(4) [OF assms(1)] cancel_all_cancelled by auto
  then show ?thesis using r query_stopped(1,2) [OF r(1), of later] activated(2) [OF assms(1)] by blast
qed

text \<open>
  Only an owner or administrator resumes: when the posture was on and is off after some
  calls, one of them was a reset under an account session of that role.
\<close>

theorem only_owner_or_admin_resumes:
  assumes "stopped s" "\<not> stopped (run emergency_step ops s)"
  shows "\<exists>pre env post user role. ops = pre @ Reset env # post \<and> governance env = Inr (user, role) \<and>
    role \<in> {''installation_owner'', ''admin''}"
proof -
  from posture.ended_by [OF assms] obtain pre op post where
    o: "ops = pre @ op # post" "resumes op (run emergency_step pre s)" by blast
  then obtain env user role where "op = Reset env" "governance env = Inr (user, role)" "may_resume role"
    by (cases op) auto
  with o(1) show ?thesis by (auto simp: may_resume_def)
qed

text \<open>
  A request is cancelled only for its owner: \<open>cancel_request\<close> succeeds exactly when
  the request is registered and bound to the caller, it then signals that request, and it never
  touches the signal of another request or any ownership.
\<close>

theorem cancel_request_own_only:
  "fst (cancel_request i u r) = (map_of (request_events r) i \<noteq> None \<and> map_of (request_owners r) i = Some u) \<and>
   map_of (request_events (snd (cancel_request i u r))) =
     (if fst (cancel_request i u r) then (map_of (request_events r))(i \<mapsto> True) else map_of (request_events r)) \<and>
   request_owners (snd (cancel_request i u r)) = request_owners r"
  by (auto simp: cancel_request_def update_conv')

section \<open>Where the stop is lost\<close>

text \<open>
  A stop that could not be written is lost: the call raises with the process flag set, and the
  next status poll reads an inactive state and clears the flag, so the posture is off although
  nobody reset it.
\<close>

lemma unwritten_stop_is_cleared:
  assumes "\<not> stopped s" "governance env = Inr (user, role)" "\<not> disk_writable env" "state_read env = State_readable" "state_read later = State_readable"
  shows "fst (activate_emergency_stop env text s) = Inl (OSError ''emergency state not written'') \<and>
    fst (emergency_active later (run emergency_step [Activate env text, Status later] s)) = Inr False"
  using assms
  by (auto simp: activate_outcome initialize_outcome stopped_def Let_def emergency_active_def bindA_def read_state_readable
      split: option.splits)

text \<open>
  A stop whose file cannot be read is not reported: after the process ended, and likewise after a
  status call in the same process, an unreadable state counts as the inactive default.
\<close>

lemma unreadable_stop_is_ignored:
  assumes "state_read env = State_unreadable" "op = Restart \<or> op = Status env"
  shows "fst (emergency_active env (emergency_step op s)) = Inr False"
  using assms
  by (auto simp: emergency_active_def bindA_def initialize_outcome read_state_def split: option.splits)

text \<open>
  A repeated activation signals nothing, also not the requests that began after the end of the
  process and before the posture was read again.
\<close>

lemma repeat_signals_nothing:
  assumes "stopped s" "state_read env = State_readable" "governance env = Inr (user, role)"
  shows "\<not> cancelled i (requests (run emergency_step [Restart, NewRequest i, Activate env text] s))"
  using assms
  by (auto simp: activate_outcome read_state_readable stopped_def on_requests_def request_cancel_event_def no_requests_def
      cancelled_def split: option.splits)

section \<open>Witnesses\<close>

definition owner_env :: emergency_env where
  "owner_env = \<lparr>governance = Inr (''user_1'', ''installation_owner''), now_utc = 5, fresh_trigger = ''0001'',
     callback = (\<lambda>_. Inr (Count 0)), leases_cancelled = 1, disk_writable = True, state_read = State_readable, event_recorded = True\<rparr>"

definition member_env :: emergency_env where
  "member_env = owner_env\<lparr>governance := Inr (''user_2'', ''member'')\<rparr>"

definition busy :: emergency where
  "busy = idle\<lparr>requests := \<lparr>request_events = [(''r1'', False)], request_owners = [(''r1'', ''user_1'')]\<rparr>\<rparr>"

lemma owner_env_fields:
  "governance member_env = Inr (''user_2'', ''member'')" "governance owner_env = Inr (''user_1'', ''installation_owner'')"
  "disk_writable member_env" "disk_writable owner_env" "state_read member_env = State_readable" "state_read owner_env = State_readable"
  by (simp_all add: member_env_def owner_env_def)

lemma activates:
  assumes "\<not> stopped s"
  obtains st t where "activate_emergency_stop member_env text s = (Inr st, t)"
  using activate_outcome [OF owner_env_fields(1), of _ s] assms owner_env_fields
  by (auto simp: Let_def read_state_readable stopped_def split: option.splits)

lemma emergency_stop_holds_witness:
  "\<exists>st t. activate_emergency_stop member_env ''desktop'' busy = (Inr st, t) \<and>
     fst (emergency_active owner_env (run emergency_step [Reset member_env, Restart, Status owner_env] t)) = Inr True \<and>
     cancelled ''r1'' (requests t)"
proof -
  have idle: "\<not> stopped busy" by (simp add: busy_def idle_def stopped_def)
  obtain st t where t: "activate_emergency_stop member_env ''desktop'' busy = (Inr st, t)"
    using activates [OF idle] by blast
  have "\<not> ended_in emergency_step resumes [Reset member_env, Restart, Status owner_env] t"
    by (simp add: owner_env_fields may_resume_def)
  from emergency_stop_holds [OF t this, of owner_env]
  have r: "fst (emergency_active owner_env (run emergency_step [Reset member_env, Restart, Status owner_env] t)) = Inr True"
    "if seen_active member_env busy then requests t = requests busy
     else (\<forall>i. map_of (request_events (requests busy)) i \<noteq> None \<longrightarrow> cancelled i (requests t))"
    using owner_env_fields by blast+
  have "\<not> seen_active member_env busy" using idle seen_when_readable owner_env_fields by blast
  moreover have "map_of (request_events (requests busy)) ''r1'' \<noteq> None" by (simp add: busy_def)
  ultimately show ?thesis using r t by auto
qed

end
