(* ===== verification/CodevState.thy ===== *)
theory CodevState
  imports CodevPlans CodevSessions EmergencyControl
begin

text \<open>
  The state the Codev adapters share: native sessions, the grant and plan authority, shared browser
  workspaces (\<open>core/codev/browser_workspaces.py\<close>), running chats (\<open>core/codev/actions.py\<close>), the
  cancellable requests of \<open>app/cognition/emergency_control.py\<close> and the online pairings
  (\<open>core/codev/pairing.py\<close>).  The module dictionaries are the fields; a handler that holds the locks
  it takes is one action.  The identity of a set of files is \<open>workspace_hash\<close> of
  \<open>core/codev/revisions.py\<close>.
\<close>

section \<open>Workspace files and their identity\<close>

datatype availability = Av_text | Av_binary | Av_oversized | Av_metadata_only | Av_excluded | Av_missing

record workspace_file =
  wf_path :: string
  wf_content_hash :: "string option"
  wf_size :: int
  wf_availability :: availability
  wf_text :: "string option"
  wf_provenance :: string

definition hex_digest :: "nat \<Rightarrow> string \<Rightarrow> bool" where
  "hex_digest n s \<longleftrightarrow> length s = n \<and> list_all (\<lambda>c. c \<in> set ''0123456789abcdef'') s"

definition workspace_file_ok :: "workspace_file \<Rightarrow> bool" where
  \<comment> \<open>the field constraints of \<open>WorkspaceFile\<close>\<close>
  "workspace_file_ok f \<longleftrightarrow> wf_path f \<noteq> [] \<and> length (wf_path f) \<le> 512 \<and>
     (case wf_content_hash f of None \<Rightarrow> True | Some h \<Rightarrow> hex_digest 64 h) \<and> 0 \<le> wf_size f \<and>
     (case wf_text f of None \<Rightarrow> True | Some t \<Rightarrow> length t \<le> 131072)"

definition file_row :: "workspace_file \<Rightarrow> json" where
  "file_row f = JList [JStr (wf_path f), json_opt (wf_content_hash f), JInt (wf_size f)]"

fun hash_rows :: "codev_env \<Rightarrow> string list \<Rightarrow> workspace_file list \<Rightarrow> codev_error + workspace_file list" where
  \<comment> \<open>the loop of \<open>workspace_hash\<close>; the first list holds the names seen\<close>
  "hash_rows env seen [] = Inr []"
| "hash_rows env seen (f # fs) =
     bindR (relative_path (wf_path f)) (\<lambda>path.
     bindR (raise_if (upper path \<in> set seen) (ValueError ''workspace_path_collision'')) (\<lambda>_.
     bindR (raise_if (case wf_text f of None \<Rightarrow> False | Some t \<Rightarrow>
           wf_availability f \<noteq> Av_text \<or> Some (sha256 env t) \<noteq> wf_content_hash f \<or> int (utf8_length t) \<noteq> wf_size f)
         (ValueError ''workspace_file_hash_mismatch'')) (\<lambda>_.
     bindR (hash_rows env (upper path # seen) fs) (\<lambda>rows. Inr (f # rows)))))"

definition workspace_hash :: "codev_env \<Rightarrow> workspace_file list \<Rightarrow> codev_error + string" where
  "workspace_hash env fs = bindR (hash_rows env [] fs) (\<lambda>rows.
     Inr (sha256 env (json_dumps (JList (map file_row (sort_key wf_path rows))))))"

section \<open>Shared workspaces, receipts, chats and pairings\<close>

record operation_receipt =
  rc_operation_id :: string
  rc_request_id :: string
  rc_workspace_id :: "string option"
  rc_status :: string
  rc_summary :: string
  rc_base_revision :: "int option"
  rc_files_inspected :: "string list"
  rc_files_changed :: "string list"
  rc_commands_run :: "string list list"
  rc_artifacts :: "(string \<times> string) list"
  rc_recovery_note :: "string option"
  rc_verification :: string
  rc_audit_written :: bool
  rc_warnings :: "string list"
  rc_created_at :: time

record browser_share =
  sh_workspace_id :: string
  sh_surface :: surface
  sh_draft_id :: "string option"
  sh_label :: string
  sh_base_revision :: int
  sh_current_revision :: int
  sh_content_hash :: string
  sh_files :: "workspace_file list"
  sh_scopes :: "string list"
  sh_explicitly_approved :: bool
  sh_expected_epoch :: int

record browser_workspace =
  bw_actor :: actor
  bw_share :: browser_share
  bw_receipts :: "operation_receipt list"

record public_key =
  key_x :: string
  key_y :: string

datatype expiry = Aware time | Naive | Malformed

datatype pairing_status = Pending | Native_approved | Paired | Denied | Expired | Revoked

record pairing_intent =
  intent_id :: string
  pi_account_id :: string
  account_label :: string
  pi_origin :: string
  pi_surface :: surface
  browser_session_id :: string
  browser_public_key :: public_key
  pi_expires_at :: expiry
  pi_status :: pairing_status

record native_pairing =
  np_intent :: pairing_intent
  native_client_id :: string
  np_profile_id :: string
  np_session_id :: string
  np_actor :: actor
  private_key :: string
  native_secret :: string
  np_revoked :: bool
  np_nonces :: "(string \<times> time) list"
  np_requests :: "time list"

record codev =
  c_sessions :: session_store
  c_auth :: authority
  c_browser :: "((string \<times> string) \<times> browser_workspace) list"
  c_chats :: "(string \<times> actor \<times> string option) list"
  c_requests :: request_registry
  c_pairs :: "(string \<times> native_pairing) list"

definition empty_codev :: codev where
  "empty_codev = \<lparr>c_sessions = [], c_auth = empty_authority, c_browser = [], c_chats = [],
     c_requests = no_requests, c_pairs = []\<rparr>"

type_synonym 'a codev_action = "(codev, codev_error, 'a) action"

section \<open>Revoking authority\<close>

definition on_grants :: "(grant_store \<Rightarrow> grant_store) \<Rightarrow> codev \<Rightarrow> codev" where
  "on_grants f c = c\<lparr>c_auth := (c_auth c)\<lparr>a_grants := f (a_grants (c_auth c))\<rparr>\<rparr>"

definition cancel_workspace_chats :: "actor \<Rightarrow> string \<Rightarrow> codev \<Rightarrow> codev" where
  "cancel_workspace_chats a w c = c\<lparr>c_requests :=
     fold (\<lambda>(i, owner) r. if owner = (a, Some w) then snd (cancel_request i (local_profile_id a) r) else r)
       (c_chats c) (c_requests c)\<rparr>"

definition discard_plans :: "actor \<Rightarrow> string option \<Rightarrow> codev \<Rightarrow> codev" where
  "discard_plans a w c = c\<lparr>c_auth := discard a w (c_auth c)\<rparr>"

definition owned_shares :: "actor \<Rightarrow> codev \<Rightarrow> ((string \<times> string) \<times> browser_workspace) list" where
  "owned_shares a c = filter (\<lambda>kv. bw_actor (snd kv) = a) (c_browser c)"

definition withdraw_share :: "actor \<Rightarrow> browser_workspace \<Rightarrow> codev \<Rightarrow> codev" where
  \<comment> \<open>the authority of one shared workspace ends; the entry is removed by the caller\<close>
  "withdraw_share a v c = (let i = sh_workspace_id (bw_share v) in
     cancel_workspace_chats a i (on_grants (\<lambda>gs. snd (revoke a i gs)) c))"

definition drop_shares :: "actor \<Rightarrow> codev \<Rightarrow> codev" where
  "drop_shares a c = c\<lparr>c_browser := filter (\<lambda>kv. bw_actor (snd kv) \<noteq> a) (c_browser c)\<rparr>"

definition revoke_actor :: "actor \<Rightarrow> codev \<Rightarrow> codev" where
  "revoke_actor a c = on_grants (retire_actor a) (discard_plans a None
     (drop_shares a (fold (\<lambda>kv. withdraw_share a (snd kv)) (owned_shares a c) c)))"

definition revoked_pair :: "native_pairing \<Rightarrow> native_pairing" where
  "revoked_pair p = p\<lparr>np_revoked := True, np_intent := (np_intent p)\<lparr>pi_status := Revoked\<rparr>\<rparr>"

definition put_pair :: "string \<Rightarrow> native_pairing \<Rightarrow> codev \<Rightarrow> codev" where
  "put_pair i p c = c\<lparr>c_pairs := AList.update i p (c_pairs c)\<rparr>"

definition revoke_local :: "string \<Rightarrow> native_pairing \<Rightarrow> codev \<Rightarrow> codev" where
  "revoke_local i p c = revoke_actor (np_actor p) (put_pair i (revoked_pair p) c)"

section \<open>What revocation removes\<close>

definition no_authority :: "actor \<Rightarrow> codev \<Rightarrow> bool" where
  \<comment> \<open>the actor has no grant, no plan, no approval and no shared workspace\<close>
  "no_authority a c \<longleftrightarrow>
     (\<forall>kg \<in> set (a_grants (c_auth c)). g_actor (snd kg) \<noteq> a) \<and>
     (\<forall>kp \<in> set (a_plans (c_auth c)). p_actor (snd kp) \<noteq> a) \<and>
     (\<forall>kr \<in> set (a_approvals (c_auth c)). ap_actor (approval (snd kr)) \<noteq> a) \<and>
     (\<forall>kv \<in> set (c_browser c). bw_actor (snd kv) \<noteq> a)"

lemma on_grants_simps [simp]:
  "c_sessions (on_grants f c) = c_sessions c" "c_browser (on_grants f c) = c_browser c"
  "c_chats (on_grants f c) = c_chats c" "c_requests (on_grants f c) = c_requests c"
  "c_pairs (on_grants f c) = c_pairs c" "a_plans (c_auth (on_grants f c)) = a_plans (c_auth c)"
  "a_approvals (c_auth (on_grants f c)) = a_approvals (c_auth c)"
  "a_grants (c_auth (on_grants f c)) = f (a_grants (c_auth c))"
  by (simp_all add: on_grants_def)

lemma cancel_chats_simps [simp]:
  "c_sessions (cancel_workspace_chats a w c) = c_sessions c" "c_browser (cancel_workspace_chats a w c) = c_browser c"
  "c_chats (cancel_workspace_chats a w c) = c_chats c" "c_auth (cancel_workspace_chats a w c) = c_auth c"
  "c_pairs (cancel_workspace_chats a w c) = c_pairs c"
  by (simp_all add: cancel_workspace_chats_def)

lemma discard_plans_simps [simp]:
  "c_sessions (discard_plans a w c) = c_sessions c" "c_browser (discard_plans a w c) = c_browser c"
  "c_chats (discard_plans a w c) = c_chats c" "c_requests (discard_plans a w c) = c_requests c"
  "c_pairs (discard_plans a w c) = c_pairs c" "a_grants (c_auth (discard_plans a w c)) = a_grants (c_auth c)"
  by (simp_all add: discard_plans_def discard_def)

lemma withdraw_simps [simp]:
  "c_sessions (withdraw_share a v c) = c_sessions c" "c_browser (withdraw_share a v c) = c_browser c"
  "c_chats (withdraw_share a v c) = c_chats c" "c_pairs (withdraw_share a v c) = c_pairs c"
  by (simp_all add: withdraw_share_def Let_def)

lemma fold_withdraw_simps [simp]:
  "c_sessions (fold (\<lambda>kv. withdraw_share a (snd kv)) kvs c) = c_sessions c"
  "c_browser (fold (\<lambda>kv. withdraw_share a (snd kv)) kvs c) = c_browser c"
  "c_chats (fold (\<lambda>kv. withdraw_share a (snd kv)) kvs c) = c_chats c"
  "c_pairs (fold (\<lambda>kv. withdraw_share a (snd kv)) kvs c) = c_pairs c"
  by (induction kvs arbitrary: c) simp_all

lemma drop_shares_simps [simp]:
  "c_sessions (drop_shares a c) = c_sessions c" "c_auth (drop_shares a c) = c_auth c"
  "c_chats (drop_shares a c) = c_chats c" "c_requests (drop_shares a c) = c_requests c"
  "c_pairs (drop_shares a c) = c_pairs c"
  "c_browser (drop_shares a c) = filter (\<lambda>kv. bw_actor (snd kv) \<noteq> a) (c_browser c)"
  by (simp_all add: drop_shares_def)

lemma revoke_actor_simps [simp]:
  "c_sessions (revoke_actor a c) = c_sessions c" "c_chats (revoke_actor a c) = c_chats c"
  "c_pairs (revoke_actor a c) = c_pairs c"
  by (simp_all add: revoke_actor_def)

lemma put_pair_simps [simp]:
  "c_sessions (put_pair i p c) = c_sessions c" "c_auth (put_pair i p c) = c_auth c"
  "c_browser (put_pair i p c) = c_browser c" "c_chats (put_pair i p c) = c_chats c"
  "c_requests (put_pair i p c) = c_requests c" "c_pairs (put_pair i p c) = AList.update i p (c_pairs c)"
  by (simp_all add: put_pair_def)

lemma revoke_local_simps [simp]:
  "c_sessions (revoke_local i p c) = c_sessions c" "c_chats (revoke_local i p c) = c_chats c"
  "c_pairs (revoke_local i p c) = AList.update i (revoked_pair p) (c_pairs c)"
  by (simp_all add: revoke_local_def)

lemma revoked_pair_simps [simp]:
  "np_revoked (revoked_pair p)" "pi_status (np_intent (revoked_pair p)) = Revoked" "np_actor (revoked_pair p) = np_actor p"
  by (simp_all add: revoked_pair_def)

lemma revoke_actor_ends: "no_authority a (revoke_actor a c)"
  unfolding no_authority_def revoke_actor_def
  by (auto simp: retire_actor_def set_dict_filter discard_plans_def discard_def)

lemma revoke_local_ends: "no_authority (np_actor p) (revoke_local i p c)"
  by (simp add: revoke_local_def revoke_actor_ends)

text \<open>Without authority nothing of the actor is granted, planned, approved or consumed.\<close>

lemma no_authority_denies:
  assumes "no_authority a c"
  shows "get_grant a w (a_grants (c_auth c)) = None"
    "require now a w scope files ep command (a_grants (c_auth c)) =
       Inl (GrantDenied ''workspace_grant_missing_expired_or_revoked'')"
    "\<exists>e. get_plan now a pid (c_auth c) = Inl e"
    "\<exists>e. fst (consume env now a aid token pid rv whash (c_auth c)) = Inl e"
proof -
  show g: "get_grant a w (a_grants (c_auth c)) = None"
    using assms by (auto simp: no_authority_def get_grant_def split: option.split dest!: map_of_SomeD)
  then show "require now a w scope files ep command (a_grants (c_auth c)) =
       Inl (GrantDenied ''workspace_grant_missing_expired_or_revoked'')" by (simp add: require_def)
  show "\<exists>e. get_plan now a pid (c_auth c) = Inl e"
    using assms by (auto simp: no_authority_def get_plan_def split: option.split dest!: map_of_SomeD)
  show "\<exists>e. fst (consume env now a aid token pid rv whash (c_auth c)) = Inl e"
    using assms
    by (auto simp: no_authority_def consume_def consume_check_def split: option.split dest!: map_of_SomeD)
qed

end
