(* ===== verification/CodevPairing.thy ===== *)
theory CodevPairing
  imports CodevState
begin

text \<open>
  Online pairing of a browser with the native application, \<open>core/codev/pairing.py\<close>, and the
  transcript its proofs sign, \<open>core/codev/broker_crypto.py\<close>.  Keys, signatures and SHA-256 are the
  environment; the answer of the online service, or the exception the call raises, is an argument,
  and so is the world before and after that call, which takes time.  A pairing is stored only with
  an expiry that has a time zone.
\<close>

section \<open>Proofs, views and their checks\<close>

record crypto_env =
  base_env :: codev_env
  public_of :: "string \<Rightarrow> public_key"
  key_valid :: "public_key \<Rightarrow> bool"
  signature_ok :: "public_key \<Rightarrow> string \<Rightarrow> string \<Rightarrow> bool"

record broker_proof =
  pr_pairing_id :: string
  pr_session_id :: string
  pr_account_id :: string
  pr_nonce :: string
  timestamp_ms :: int
  pr_signature :: string

record pairing_view =
  v_keys_exact :: bool
  v_grants_empty :: bool
  v_pairing_id :: string
  v_native_key :: public_key
  v_intent :: pairing_intent

record pair_summary =
  su_pairing_id :: string
  su_intent :: pairing_intent
  su_native_key :: public_key
  su_note :: string

definition base64_char :: "char \<Rightarrow> bool" where
  "base64_char c \<longleftrightarrow> c \<in> set ''ABCDEFGHIJKLMNOPQRSTUVWXYZabcdefghijklmnopqrstuvwxyz0123456789_-''"

definition base64_text :: "nat \<Rightarrow> nat \<Rightarrow> string \<Rightarrow> bool" where
  "base64_text lo hi s \<longleftrightarrow> lo \<le> length s \<and> length s \<le> hi \<and> list_all base64_char s"

definition proof_ok :: "broker_proof \<Rightarrow> bool" where
  "proof_ok pr \<longleftrightarrow> 16 \<le> length (pr_pairing_id pr) \<and> length (pr_pairing_id pr) \<le> 128 \<and>
     32 \<le> length (pr_session_id pr) \<and> length (pr_session_id pr) \<le> 128 \<and>
     pr_account_id pr \<noteq> [] \<and> length (pr_account_id pr) \<le> 128 \<and> base64_text 32 64 (pr_nonce pr) \<and>
     0 \<le> timestamp_ms pr \<and> base64_text 86 86 (pr_signature pr)"

definition components :: "string list \<Rightarrow> codev_error + string" where
  "components values =
     (if list_ex (\<lambda>v. v = [] \<or> list_ex (\<lambda>c. c \<in> {CHR 0x0D, CHR 0x0A, CHR 0x00}) v) values
      then Inl (ValueError ''invalid_broker_transcript'') else Inr (join [CHR 0x0A] values))"

definition request_message :: "crypto_env \<Rightarrow> string \<Rightarrow> string \<Rightarrow> broker_proof \<Rightarrow> string \<Rightarrow> codev_error + string" where
  "request_message env site path pr payload = components [''elysia-codev-request-1'', site, ''POST'', path,
     pr_pairing_id pr, pr_session_id pr, pr_account_id pr, pr_nonce pr, string_of_int (timestamp_ms pr),
     sha256 (base_env env) payload]"

definition intent_ok :: "pairing_intent \<Rightarrow> bool" where
  \<comment> \<open>the field constraints of \<open>PairingIntent\<close>\<close>
  "intent_ok i \<longleftrightarrow> length (account_label i) \<le> 200 \<and> pi_origin i \<in> set site_origins \<and> pi_surface i \<noteq> Local \<and>
     32 \<le> length (browser_session_id i) \<and> length (browser_session_id i) \<le> 128 \<and>
     base64_text 43 43 (key_x (browser_public_key i)) \<and> base64_text 43 43 (key_y (browser_public_key i))"

definition check_expiry :: "codev_world \<Rightarrow> expiry \<Rightarrow> codev_error + unit" where
  "check_expiry w e = (case e of
       Malformed \<Rightarrow> Inl (ValueError ''Invalid isoformat string'')
     | Naive \<Rightarrow> Inl (GrantDenied ''codev_pairing_expired'')
     | Aware t \<Rightarrow> raise_if (t \<le> clock w \<or> seconds (16 * 60) < t - clock w) (GrantDenied ''codev_pairing_expired''))"

definition validate_view ::
  "crypto_env \<Rightarrow> codev_world \<Rightarrow> string \<Rightarrow> string \<Rightarrow> pairing_view \<Rightarrow> codev_error + pairing_intent" where
  "validate_view env w site key v =
     bindR (raise_if (\<not> v_keys_exact v \<or> \<not> v_grants_empty v) (GrantDenied ''codev_pairing_contract_mismatch'')) (\<lambda>_.
     bindR (raise_if (\<not> intent_ok (v_intent v)) (ValueError ''validation error for PairingIntent'')) (\<lambda>_.
     bindR (raise_if (v_pairing_id v \<noteq> intent_id (v_intent v) \<or> pi_origin (v_intent v) \<noteq> site \<or>
         v_native_key v \<noteq> public_of env key) (GrantDenied ''codev_pairing_identity_mismatch'')) (\<lambda>_.
     bindR (raise_if (\<not> key_valid env (browser_public_key (v_intent v))) (ValueError ''invalid key'')) (\<lambda>_.
     bindR (check_expiry w (pi_expires_at (v_intent v))) (\<lambda>_. Inr (v_intent v))))))"

definition pair_expired :: "codev_world \<Rightarrow> native_pairing \<Rightarrow> bool" where
  "pair_expired w p \<longleftrightarrow> (case pi_expires_at (np_intent p) of Aware t \<Rightarrow> t \<le> clock w | _ \<Rightarrow> True)"

definition summary :: "crypto_env \<Rightarrow> native_pairing \<Rightarrow> pair_summary" where
  "summary env p = \<lparr>su_pairing_id = intent_id (np_intent p), su_intent = np_intent p,
     su_native_key = public_of env (private_key p),
     su_note = (if pi_status (np_intent p) = Paired then ''Connected to local Codev. No workspace shared.''
       else ''No workspace shared.'')\<rparr>"

definition get_pair :: "string \<Rightarrow> codev \<Rightarrow> codev_error + native_pairing" where
  "get_pair i c = (case map_of (c_pairs c) i of None \<Rightarrow> Inl (GrantDenied ''codev_pairing_unavailable'') | Some p \<Rightarrow> Inr p)"

section \<open>Claiming a pairing code\<close>

definition canonical_code :: "string \<Rightarrow> bool" where
  \<comment> \<open>the canonical encoding of 32 bytes: the spare bits of the last character are zero\<close>
  "canonical_code s \<longleftrightarrow> s \<noteq> [] \<and> last s \<in> set ''AEIMQUYcgkosw048''"

definition check_code :: "string \<Rightarrow> codev_error + unit" where
  "check_code code =
     bindR (raise_if (\<not> (length code = 49 \<and> take 6 code \<in> {''EC1.A.'', ''EC1.W.''} \<and> base64_text 43 43 (drop 6 code)))
       (GrantDenied ''codev_pairing_code_invalid'')) (\<lambda>_.
     raise_if (\<not> canonical_code (drop 6 code)) (ValueError ''noncanonical_signature_encoding''))"

definition code_origin :: "string \<Rightarrow> string" where
  "code_origin code = site_origins ! (if starts_with ''EC1.A.'' code then 0 else 1)"

definition delete_pair :: "string \<Rightarrow> codev \<Rightarrow> codev" where
  "delete_pair i c = c\<lparr>c_pairs := AList.delete i (c_pairs c)\<rparr>"

definition prune_pairs :: "codev_world \<Rightarrow> codev \<Rightarrow> codev" where
  "prune_pairs w c = fold (\<lambda>(i, p) d. if np_revoked p \<or> pair_expired w p then delete_pair i (revoke_local i p d) else d)
     (c_pairs c) c"

definition browser_actor :: "actor \<Rightarrow> string \<Rightarrow> pairing_intent \<Rightarrow> actor" where
  "browser_actor native fresh i = \<lparr>local_profile_id = local_profile_id native, client_id = ''browser_'' @ fresh,
     client_kind = Browser, online_account_id = Some (pi_account_id i), origin = Some (pi_origin i),
     surface = pi_surface i\<rparr>"

definition new_pair :: "pairing_intent \<Rightarrow> string \<Rightarrow> actor \<Rightarrow> string \<Rightarrow> actor \<Rightarrow> string \<Rightarrow> string \<Rightarrow> native_pairing" where
  "new_pair i client native sid a key secret = \<lparr>np_intent = i, native_client_id = client,
     np_profile_id = local_profile_id native, np_session_id = sid, np_actor = a, private_key = key,
     native_secret = secret, np_revoked = False, np_nonces = [], np_requests = []\<rparr>"

definition admit_view ::
  "crypto_env \<Rightarrow> codev_world \<Rightarrow> string \<times> string \<Rightarrow> string \<Rightarrow> string \<Rightarrow> string \<Rightarrow> string \<Rightarrow> pairing_view \<Rightarrow> actor
     \<Rightarrow> codev \<Rightarrow> codev_error + pairing_intent \<times> actor" where
  \<comment> \<open>what \<open>claim\<close> checks on the answer of the online service\<close>
  "admit_view env w login client code key fresh v native c =
     bindR (validate_view env w (code_origin code) key v) (\<lambda>i.
     bindR (raise_if (pi_status i \<noteq> Pending) (GrantDenied ''codev_pairing_already_claimed'')) (\<lambda>_.
     bindR (require_native_session w client False (c_sessions c)) (\<lambda>_.
     bindR (account_principal w) (\<lambda>login'.
     bindR (raise_if (login' \<noteq> login) (GrantDenied ''codev_local_account_changed'')) (\<lambda>_.
     bindR (make_actor (browser_actor native fresh i)) (\<lambda>a. Inr (i, a)))))))"

definition claim ::
  "crypto_env \<Rightarrow> codev_world \<Rightarrow> codev_world \<Rightarrow> string \<Rightarrow> string \<Rightarrow> codev_error + pairing_view \<Rightarrow> string \<Rightarrow> string
     \<Rightarrow> string \<Rightarrow> pair_summary codev_action" where
  "claim env w w' client code answer key secret fresh =
     bindA (readA (\<lambda>c. require_native_session w client False (c_sessions c))) (\<lambda>native.
     bindA (liftA (account_principal w)) (\<lambda>login.
     bindA (liftA (check_code code)) (\<lambda>_.
     bindA (updateA (prune_pairs w)) (\<lambda>_.
     bindA (readA (\<lambda>c. raise_if (16 \<le> length (c_pairs c)) (GrantDenied ''codev_pairing_capacity_reached''))) (\<lambda>_.
     bindA (liftA answer) (\<lambda>v.
     bindA (readA (admit_view env w' login client code key fresh v native)) (\<lambda>(i, a).
     let p = new_pair i client native (snd login) a key secret in
     bindA (updateA (put_pair (intent_id i) p)) (\<lambda>_. returnA (summary env p)))))))))"

section \<open>Local authority and the lease of the online service\<close>

definition local_check :: "codev_world \<Rightarrow> bool \<Rightarrow> native_pairing \<Rightarrow> codev \<Rightarrow> codev_error + unit" where
  "local_check w revocation_only p c =
     bindR (account_principal w) (\<lambda>login.
     bindR (raise_if (login \<noteq> (np_profile_id p, np_session_id p)) (GrantDenied ''codev_local_account_changed'')) (\<lambda>_.
     if revocation_only then Inr ()
     else bindR (require_native_session w (native_client_id p) False (c_sessions c)) (\<lambda>_.
       raise_if (np_revoked p \<or> pair_expired w p) (GrantDenied ''codev_pairing_expired_or_revoked''))))"

definition local_authority :: "codev_world \<Rightarrow> bool \<Rightarrow> string \<Rightarrow> unit codev_action" where
  "local_authority w revocation_only i c =
     (case get_pair i c of Inl e \<Rightarrow> (Inl e, c)
      | Inr p \<Rightarrow> (case local_check w revocation_only p c of
          Inr _ \<Rightarrow> (Inr (), c)
        | Inl _ \<Rightarrow> (Inl (GrantDenied ''codev_local_authority_unavailable''), revoke_local i p c)))"

definition same_pairing :: "pairing_intent \<Rightarrow> pairing_intent \<Rightarrow> bool" where
  "same_pairing i j \<longleftrightarrow> intent_id i = intent_id j \<and> pi_account_id i = pi_account_id j \<and>
     account_label i = account_label j \<and> pi_origin i = pi_origin j \<and> pi_surface i = pi_surface j \<and>
     browser_session_id i = browser_session_id j \<and> browser_public_key i = browser_public_key j"

definition accept_lease ::
  "crypto_env \<Rightarrow> codev_world \<Rightarrow> string \<Rightarrow> pairing_view \<Rightarrow> pairing_status list \<Rightarrow> unit codev_action" where
  "accept_lease env w i v statuses =
     bindA (readA (get_pair i)) (\<lambda>p.
     bindA (liftA (validate_view env w (pi_origin (np_intent p)) (private_key p) v)) (\<lambda>intent.
     bindA (liftA (raise_if (\<not> same_pairing intent (np_intent p) \<or> pi_status intent \<notin> set statuses)
       (GrantDenied ''codev_pairing_changed_or_revoked''))) (\<lambda>_.
     updateA (put_pair i (p\<lparr>np_intent := intent\<rparr>)))))"

definition native_action ::
  "crypto_env \<Rightarrow> codev_world \<Rightarrow> codev_world \<Rightarrow> string \<Rightarrow> string \<Rightarrow> string \<Rightarrow> bool \<Rightarrow> bool \<Rightarrow> codev_error + pairing_view
     \<Rightarrow> (pair_summary \<times> bool option) codev_action" where
  "native_action env w w' client i act approved broker_started answer = (let ending = act \<in> {''deny'', ''revoke''} in
     bindA (readA (\<lambda>c. require_native_session w client ending (c_sessions c))) (\<lambda>native.
     bindA (readA (get_pair i)) (\<lambda>p.
     bindA (local_authority w ending i) (\<lambda>_.
     bindA (liftA (raise_if (local_profile_id native \<noteq> np_profile_id p) (GrantDenied ''codev_pairing_owner_mismatch''))) (\<lambda>_.
     if ending then
       bindA (updateA (revoke_local i p)) (\<lambda>_.
       bindA (readA (get_pair i)) (\<lambda>p'.
       returnA (summary env p', Some (case answer of Inr _ \<Rightarrow> True | Inl _ \<Rightarrow> False))))
     else
       bindA (liftA (raise_if (act \<noteq> ''confirm'' \<or> \<not> approved \<or> pi_status (np_intent p) \<noteq> Pending)
         (GrantDenied ''explicit_native_pairing_approval_required''))) (\<lambda>_.
       bindA (liftA (raise_if (\<not> broker_started) (GrantDenied ''codev_fixed_broker_port_unavailable''))) (\<lambda>_.
       bindA (liftA answer) (\<lambda>v.
       bindA (accept_lease env w' i v [Native_approved]) (\<lambda>_.
       bindA (local_authority w' False i) (\<lambda>_.
       bindA (readA (get_pair i)) (\<lambda>p'. returnA (summary env p', None))))))))))))"

definition require_live ::
  "crypto_env \<Rightarrow> codev_world \<Rightarrow> codev_world \<Rightarrow> codev_error + pairing_view \<Rightarrow> bool \<Rightarrow> string \<Rightarrow> unit codev_action" where
  \<comment> \<open>any failure of the checks or of the online service revokes the pairing\<close>
  "require_live env w w' answer handshake i c =
     (case bindA (local_authority w False i) (\<lambda>_. bindA (liftA answer) (\<lambda>v.
        bindA (accept_lease env w' i v (if handshake then [Native_approved, Paired] else [Paired])) (\<lambda>_.
        local_authority w' False i))) c of
        (Inr _, c') \<Rightarrow> (Inr (), c')
      | (Inl _, c') \<Rightarrow> (case get_pair i c' of
          Inl e \<Rightarrow> (Inl e, c')
        | Inr p \<Rightarrow> (Inl (GrantDenied ''codev_pairing_no_longer_authorized''), revoke_local i p c')))"

section \<open>Authenticating a request of the browser\<close>

definition nonce_window :: time where "nonce_window = seconds 61"
definition rate_window :: time where "rate_window = seconds 60"

definition proof_refused ::
  "crypto_env \<Rightarrow> codev_world \<Rightarrow> string \<Rightarrow> string \<Rightarrow> broker_proof \<Rightarrow> string \<Rightarrow> native_pairing \<Rightarrow> codev_error + bool" where
  "proof_refused env w site path pr payload p =
     (if np_revoked p \<or> pair_expired w p \<or> pi_status (np_intent p) \<notin> {Native_approved, Paired} \<or>
         site \<noteq> pi_origin (np_intent p) \<or> pr_session_id pr \<noteq> browser_session_id (np_intent p) \<or>
         pr_account_id pr \<noteq> pi_account_id (np_intent p) \<or> 30000 * 1000 < \<bar>clock w - timestamp_ms pr * 1000\<bar>
      then Inr True
      else bindR (request_message env site path pr payload) (\<lambda>msg.
        Inr (\<not> signature_ok env (browser_public_key (np_intent p)) msg (pr_signature pr))))"

definition fresh_window :: "codev_world \<Rightarrow> native_pairing \<Rightarrow> native_pairing" where
  \<comment> \<open>forget the nonces and requests that have left their windows\<close>
  "fresh_window w p = p\<lparr>np_nonces := dict_filter (\<lambda>t. clock w - nonce_window < t) (np_nonces p),
     np_requests := dropWhile (\<lambda>t. t < clock w - rate_window) (np_requests p)\<rparr>"

definition note_request :: "codev_world \<Rightarrow> broker_proof \<Rightarrow> native_pairing \<Rightarrow> native_pairing" where
  "note_request w pr p = p\<lparr>np_nonces := AList.update (pr_nonce pr) (clock w) (np_nonces p),
     np_requests := np_requests p @ [clock w]\<rparr>"

definition replay_or_flood :: "broker_proof \<Rightarrow> native_pairing \<Rightarrow> bool" where
  "replay_or_flood pr p \<longleftrightarrow> map_of (np_nonces p) (pr_nonce pr) \<noteq> None \<or> 60 \<le> length (np_requests p) \<or>
     128 \<le> length (np_nonces p)"

definition authenticate ::
  "crypto_env \<Rightarrow> codev_world \<Rightarrow> string \<Rightarrow> string \<Rightarrow> broker_proof \<Rightarrow> string \<Rightarrow> unit codev_action" where
  "authenticate env w site path pr payload = (let i = pr_pairing_id pr in
     bindA (readA (get_pair i)) (\<lambda>p.
     bindA (liftA (proof_refused env w site path pr payload p)) (\<lambda>refused.
     bindA (liftA (raise_if refused (GrantDenied ''codev_broker_authentication_failed''))) (\<lambda>_.
     bindA (updateA (put_pair i (fresh_window w p))) (\<lambda>_.
     bindA (liftA (raise_if (replay_or_flood pr (fresh_window w p)) (GrantDenied ''codev_broker_replay_or_rate_limit''))) (\<lambda>_.
     bindA (updateA (put_pair i (note_request w pr (fresh_window w p)))) (\<lambda>_.
     local_authority w False i)))))))"

definition sweep_pair :: "codev_world \<Rightarrow> string \<Rightarrow> codev \<Rightarrow> codev" where
  "sweep_pair w i c = (case get_pair i c of Inl _ \<Rightarrow> c
     | Inr p \<Rightarrow> if np_revoked p then c else snd (local_authority w False i c))"

definition revoke_unavailable_pairs :: "codev_world \<Rightarrow> codev \<Rightarrow> codev" where
  "revoke_unavailable_pairs w c = fold (\<lambda>(i, _). sweep_pair w i) (c_pairs c) c"

definition list_native :: "crypto_env \<Rightarrow> codev_world \<Rightarrow> string \<Rightarrow> codev \<Rightarrow> codev_error + pair_summary list" where
  "list_native env w client c =
     bindR (require_native_session w client True (c_sessions c)) (\<lambda>native.
     bindR (account_principal w) (\<lambda>login.
     Inr (map (\<lambda>(_, p). summary env p) (filter (\<lambda>(_, p). np_profile_id p = local_profile_id native \<and>
       np_session_id p = snd login \<and> \<not> np_revoked p \<and> \<not> pair_expired w p) (c_pairs c)))))"

end
