(* ===== verification/CodevBrowser.thy ===== *)
theory CodevBrowser
  imports CodevPairing
begin

text \<open>
  Work on shared browser workspaces, \<open>core/codev/browser_workspaces.py\<close>, and the governed chats of
  \<open>core/codev/actions.py\<close>.  A payload that passes its model is a request record; the constraints of
  the model are a predicate the handler checks first.  A chat has two phases, admission and
  delivery, because the state may change while the model answers; what the handler remembers in
  between is its flight.  The text of a diff and the parsing of an edit proposal are arguments.
\<close>

section \<open>Text that must not leave\<close>

definition word_char :: "char \<Rightarrow> bool" where
  "word_char c \<longleftrightarrow> alnum_char c \<or> c = CHR ''_''"

definition word_option :: "char option \<Rightarrow> bool" where
  "word_option v = (case v of None \<Rightarrow> False | Some c \<Rightarrow> word_char c)"

definition first_char :: "string \<Rightarrow> char option" where
  "first_char s = (case s of [] \<Rightarrow> None | c # _ \<Rightarrow> Some c)"

fun any_suffix :: "(char option \<Rightarrow> string \<Rightarrow> bool) \<Rightarrow> char option \<Rightarrow> string \<Rightarrow> bool" where
  \<comment> \<open>some position matches; the predicate sees the character before it and the rest\<close>
  "any_suffix m prev [] \<longleftrightarrow> m prev []"
| "any_suffix m prev (c # cs) \<longleftrightarrow> m prev (c # cs) \<or> any_suffix m (Some c) cs"

definition lower_word :: "char \<Rightarrow> bool" where
  "lower_word c \<longleftrightarrow> c \<in> set ''abcdefghijklmnopqrstuvwxyz0123456789_''"

definition token_at :: "string \<Rightarrow> (char \<Rightarrow> bool) \<Rightarrow> char option \<Rightarrow> string \<Rightarrow> bool" where
  \<comment> \<open>\<open>\bprefix[class]{8,}\b\<close>\<close>
  "token_at prefix body prev s \<longleftrightarrow> \<not> word_option prev \<and> starts_with prefix s \<and>
     (let rest = drop (length prefix) s; limit = length (takeWhile body rest) in
      list_ex (\<lambda>k. word_char (rest ! (k - 1)) \<noteq> word_option (first_char (drop k rest))) [8..<Suc limit])"

definition word_at :: "string \<Rightarrow> char option \<Rightarrow> string \<Rightarrow> bool" where
  "word_at w prev s \<longleftrightarrow> \<not> word_option prev \<and> starts_with w s \<and> \<not> word_option (first_char (drop (length w) s))"

definition private_key_at :: "char option \<Rightarrow> string \<Rightarrow> bool" where
  "private_key_at prev s \<longleftrightarrow> starts_with ''begin '' s \<and>
     has_infix ''private key'' (takeWhile (\<lambda>c. c \<in> set ''abcdefghijklmnopqrstuvwxyz '') (drop 6 s))"

definition home_at :: "char option \<Rightarrow> string \<Rightarrow> bool" where
  "home_at prev s \<longleftrightarrow> starts_with ''/home/'' s \<or> starts_with ''/users/'' s \<or>
     (s \<noteq> [] \<and> hd s \<in> set ''abcdefghijklmnopqrstuvwxyz'' \<and>
      starts_with ([CHR '':'', CHR 0x5C] @ ''users'' @ [CHR 0x5C]) (tl s))"

definition unsafe_text :: "string \<Rightarrow> bool" where
  "unsafe_text text \<longleftrightarrow> any_suffix (\<lambda>prev s.
     token_at ''sk-'' (\<lambda>c. lower_word c \<or> c = CHR ''-'') prev s \<or> token_at ''ghp_'' lower_word prev s \<or>
     token_at ''github_pat_'' lower_word prev s \<or> word_at ''aws_access_key_id'' prev s \<or>
     word_at ''supabase_service_role'' prev s \<or> word_at ''service_role'' prev s \<or> private_key_at prev s \<or>
     home_at prev s) None (lower text)"

section \<open>Requests\<close>

record tool_env =
  crypto :: crypto_env
  unified_diff :: "string \<Rightarrow> string \<Rightarrow> string \<Rightarrow> string"
  parse_proposal :: "string \<Rightarrow> (string \<times> string) list option"

abbreviation env_of :: "tool_env \<Rightarrow> codev_env" where
  "env_of te \<equiv> base_env (crypto te)"

record revision_request =
  rq_workspace_id :: string
  rq_revision :: int
  rq_content_hash :: string
  rq_grant_epoch :: int

record patch_request = revision_request +
  rq_summary :: string
  rq_edits :: "(string \<times> string) list"

record approve_request = revision_request +
  rq_plan_id :: string
  rq_plan_hash :: string
  rq_approved :: bool

definition workspace_id_ok :: "string \<Rightarrow> bool" where
  "workspace_id_ok i \<longleftrightarrow> i \<noteq> [] \<and> length i \<le> 128"

definition revision_ok :: "'a revision_request_scheme \<Rightarrow> bool" where
  "revision_ok r \<longleftrightarrow> workspace_id_ok (rq_workspace_id r) \<and> 0 \<le> rq_revision r \<and>
     hex_digest 64 (rq_content_hash r) \<and> 1 \<le> rq_grant_epoch r"

definition patch_ok :: "patch_request \<Rightarrow> bool" where
  "patch_ok r \<longleftrightarrow> revision_ok r \<and> rq_summary r \<noteq> [] \<and> length (rq_summary r) \<le> 2000 \<and>
     1 \<le> length (rq_edits r) \<and> length (rq_edits r) \<le> 20 \<and> dict_ok (rq_edits r)"

definition approve_ok_request :: "approve_request \<Rightarrow> bool" where
  "approve_ok_request r \<longleftrightarrow> revision_ok r \<and> 16 \<le> length (rq_plan_id r) \<and> length (rq_plan_id r) \<le> 128 \<and>
     hex_digest 64 (rq_plan_hash r)"

definition share_ok :: "browser_share \<Rightarrow> bool" where
  "share_ok s \<longleftrightarrow> workspace_id_ok (sh_workspace_id s) \<and> sh_surface s \<noteq> Local \<and>
     (case sh_draft_id s of None \<Rightarrow> True | Some d \<Rightarrow> length d \<le> 128) \<and> sh_label s \<noteq> [] \<and> length (sh_label s) \<le> 120 \<and>
     0 \<le> sh_base_revision s \<and> 0 \<le> sh_current_revision s \<and> hex_digest 64 (sh_content_hash s) \<and>
     length (sh_files s) \<le> 2000 \<and> list_all workspace_file_ok (sh_files s) \<and>
     set (sh_scopes s) \<subseteq> {''read'', ''propose''} \<and> length (sh_scopes s) \<le> 2 \<and> 0 \<le> sh_expected_epoch s"

definition validated :: "bool \<Rightarrow> unit codev_action" where
  "validated ok = liftA (raise_if (\<not> ok) (ValueError ''validation error''))"

definition deny :: "bool \<Rightarrow> string \<Rightarrow> unit codev_action" where
  "deny b why = liftA (raise_if b (GrantDenied why))"

definition on_auth :: "(authority \<Rightarrow> (codev_error + 'a) \<times> authority) \<Rightarrow> 'a codev_action" where
  "on_auth f c = (let (r, s) = f (c_auth c) in (r, c\<lparr>c_auth := s\<rparr>))"

section \<open>Shared workspaces\<close>

definition workspace_of :: "actor \<Rightarrow> string \<Rightarrow> codev \<Rightarrow> codev_error + browser_workspace" where
  "workspace_of a i c = (case map_of (c_browser c) (client_id a, i) of
       None \<Rightarrow> Inl (GrantDenied ''browser_workspace_not_shared'')
     | Some v \<Rightarrow> if bw_actor v \<noteq> a then Inl (GrantDenied ''browser_workspace_not_shared'') else Inr v)"

definition put_workspace :: "actor \<Rightarrow> string \<Rightarrow> browser_workspace \<Rightarrow> codev \<Rightarrow> codev" where
  "put_workspace a i v c = c\<lparr>c_browser := AList.update (client_id a, i) v (c_browser c)\<rparr>"

definition remember_receipt :: "actor \<Rightarrow> string \<Rightarrow> operation_receipt \<Rightarrow> codev \<Rightarrow> codev" where
  "remember_receipt a i r c = (case map_of (c_browser c) (client_id a, i) of
       None \<Rightarrow> c | Some v \<Rightarrow> put_workspace a i (v\<lparr>bw_receipts := take 40 (r # bw_receipts v)\<rparr>) c)"

record workspace_status =
  st_workspace_id :: string
  st_label :: string
  st_revision :: int
  st_content_hash :: string
  st_grant :: "workspace_grant option"
  st_files :: "(string \<times> availability \<times> int) list"
  st_shared_files :: "string list"
  native_filesystem_granted :: bool
  commands_granted :: bool
  network_granted :: bool

definition status_of :: "browser_workspace \<Rightarrow> codev \<Rightarrow> workspace_status" where
  "status_of v c = (let s = bw_share v; g = get_grant (bw_actor v) (sh_workspace_id s) (a_grants (c_auth c)) in
     \<lparr>st_workspace_id = sh_workspace_id s, st_label = sh_label s, st_revision = sh_current_revision s,
      st_content_hash = sh_content_hash s, st_grant = g,
      st_files = map (\<lambda>f. (wf_path f, wf_availability f, wf_size f)) (sh_files s),
      st_shared_files = (case g of None \<Rightarrow> [] | Some g \<Rightarrow> if revoked g then [] else g_files g),
      native_filesystem_granted = False, commands_granted = False, network_granted = False\<rparr>)"

definition at_revision ::
  "codev_world \<Rightarrow> browser_workspace \<Rightarrow> 'a revision_request_scheme \<Rightarrow> string \<Rightarrow> codev \<Rightarrow> codev_error + workspace_grant" where
  "at_revision w v r scope c =
     bindR (raise_if (rq_revision r \<noteq> sh_current_revision (bw_share v) \<or> rq_content_hash r \<noteq> sh_content_hash (bw_share v))
       (GrantDenied ''browser_workspace_revision_conflict'')) (\<lambda>_.
     require (clock w) (bw_actor v) (sh_workspace_id (bw_share v)) scope [] (Some (rq_grant_epoch r)) None
       (a_grants (c_auth c)))"

definition reset_workspaces :: "actor \<Rightarrow> codev \<Rightarrow> (string \<times> int) list \<times> codev" where
  "reset_workspaces a c = (let
       c1 = drop_shares a (fold (\<lambda>kv d. let i = sh_workspace_id (bw_share (snd kv)) in
         cancel_workspace_chats a i (discard_plans a (Some i) (on_grants (\<lambda>gs. snd (revoke a i gs)) d)))
         (owned_shares a c) c)
     in (epochs a (a_grants (c_auth c1)), c1))"

definition revoke_workspace :: "actor \<Rightarrow> string \<Rightarrow> codev \<Rightarrow> int \<times> codev" where
  "revoke_workspace a i c = (let
       g = get_grant a i (a_grants (c_auth c));
       c1 = (case g of Some x \<Rightarrow> if revoked x then c else on_grants (\<lambda>gs. snd (revoke a i gs)) c | None \<Rightarrow> c);
       ep = (case g of None \<Rightarrow> 0 | Some x \<Rightarrow> if revoked x then epoch x else epoch x + 1);
       c2 = cancel_workspace_chats a i (discard_plans a (Some i) c1)
     in (ep, c2\<lparr>c_browser := AList.delete (client_id a, i) (c_browser c2)\<rparr>))"

fun some_denied :: "string list \<Rightarrow> codev_error + bool" where
  "some_denied [] = Inr False"
| "some_denied (p # ps) = bindR (denied_path p) (\<lambda>d. if d then Inr True else some_denied ps)"

definition selected_files :: "browser_share \<Rightarrow> workspace_file list" where
  "selected_files s = filter (\<lambda>f. wf_text f \<noteq> None) (sh_files s)"

definition text_of :: "workspace_file \<Rightarrow> string" where
  "text_of f = (case wf_text f of None \<Rightarrow> [] | Some t \<Rightarrow> t)"

definition share_refusal :: "tool_env \<Rightarrow> actor \<Rightarrow> browser_share \<Rightarrow> codev_error + unit" where
  "share_refusal te a s =
     bindR (if sh_surface s \<noteq> surface a \<or> \<not> sh_explicitly_approved s \<or> ''read'' \<notin> set (sh_scopes s) \<or>
          sh_current_revision s < sh_base_revision s then Inr True
        else bindR (some_denied (map wf_path (sh_files s))) (\<lambda>d. if d then Inr True
          else bindR (workspace_hash (env_of te) (sh_files s)) (\<lambda>h. Inr (h \<noteq> sh_content_hash s)))) (\<lambda>bad.
     bindR (raise_if bad (GrantDenied ''browser_share_scope_or_revision_invalid'')) (\<lambda>_.
     bindR (raise_if (40 < length (selected_files s) \<or>
         1024 * 1024 < sum_list (map (\<lambda>f. utf8_length (text_of f)) (selected_files s)))
       (GrantDenied ''browser_selected_content_limit'')) (\<lambda>_.
     raise_if (list_ex (\<lambda>f. 131072 < utf8_length (text_of f) \<or> CHR 0x00 \<in> set (text_of f) \<or> unsafe_text (text_of f))
         (selected_files s)) (GrantDenied ''browser_selected_content_denied''))))"

definition share_conflict :: "browser_share \<Rightarrow> browser_workspace option \<Rightarrow> bool" where
  "share_conflict s old \<longleftrightarrow> (case old of None \<Rightarrow> False | Some v \<Rightarrow>
     sh_draft_id (bw_share v) \<noteq> sh_draft_id s \<or> sh_current_revision s < sh_current_revision (bw_share v) \<or>
     (sh_current_revision s = sh_current_revision (bw_share v) \<and> sh_content_hash s \<noteq> sh_content_hash (bw_share v)))"

definition share_issue :: "actor \<Rightarrow> browser_share \<Rightarrow> issue_request" where
  "share_issue a s = \<lparr>ir_actor = a, ir_workspace_id = sh_workspace_id s, ir_scopes = ''metadata'' # sh_scopes s,
     ir_files = map wf_path (selected_files s), ir_command_ids = [], ir_expected_epoch = sh_expected_epoch s,
     ir_explicitly_approved = True, ir_ttl_seconds = 900\<rparr>"

definition share_workspace :: "tool_env \<Rightarrow> codev_world \<Rightarrow> string \<Rightarrow> actor \<Rightarrow> browser_share \<Rightarrow> workspace_status codev_action" where
  "share_workspace te w fresh a s = (let i = sh_workspace_id s; k = (client_id a, i) in
     bindA (validated (share_ok s)) (\<lambda>_.
     bindA (liftA (share_refusal te a s)) (\<lambda>_.
     bindA (readA (\<lambda>c. raise_if (map_of (c_browser c) k = None \<and> 32 \<le> length (c_browser c))
       (GrantDenied ''browser_workspace_capacity_reached''))) (\<lambda>_.
     bindA (readA (\<lambda>c. Inr (map_of (c_browser c) k))) (\<lambda>old.
     bindA (deny (share_conflict s old) ''browser_workspace_identity_or_revision_conflict'') (\<lambda>_.
     bindA (on_auth (\<lambda>s'. let (r, gs) = issue (clock w) fresh (share_issue a s) (a_grants s') in (r, s'\<lparr>a_grants := gs\<rparr>))) (\<lambda>_.
     bindA (updateA (\<lambda>c. if old = None then c else cancel_workspace_chats a i (discard_plans a (Some i) c))) (\<lambda>_.
     let v = \<lparr>bw_actor = a, bw_share = s, bw_receipts = (case old of None \<Rightarrow> [] | Some o' \<Rightarrow> bw_receipts o')\<rparr> in
     bindA (updateA (put_workspace a i v)) (\<lambda>_. readA (\<lambda>c. Inr (status_of v c)))))))))))"

section \<open>Plans and exact authorisation\<close>

definition file_change_ok :: "file_change \<Rightarrow> bool" where
  \<comment> \<open>the field constraints of \<open>FileChange\<close>\<close>
  "file_change_ok f \<longleftrightarrow> c_path f \<noteq> [] \<and> length (c_path f) \<le> 512 \<and> hex_digest 64 (base_hash f) \<and>
     length (new_text f) \<le> 131072 \<and> hex_digest 64 (new_hash f) \<and> length (diff f) \<le> 262144"

definition edit_change ::
  "tool_env \<Rightarrow> workspace_grant \<Rightarrow> workspace_file list \<Rightarrow> string \<times> string \<Rightarrow> codev_error + file_change option" where
  "edit_change te g fs e = (let (path, text) = e in
     bindR (relative_path path) (\<lambda>_. case find (\<lambda>f. wf_path f = path) fs of
       None \<Rightarrow> Inl (GrantDenied ''browser_patch_file_not_granted'')
     | Some f \<Rightarrow> (case wf_text f of
         None \<Rightarrow> Inl (GrantDenied ''browser_patch_file_not_granted'')
       | Some old \<Rightarrow>
           if path \<notin> set (g_files g) \<or> 131072 < utf8_length text \<or> CHR 0x00 \<in> set text \<or> unsafe_text text
           then Inl (GrantDenied ''browser_patch_file_not_granted'')
           else if text = old then Inr None
           else let ch = \<lparr>c_path = path, base_hash = (case wf_content_hash f of None \<Rightarrow> [] | Some h \<Rightarrow> h),
               new_text = text, new_hash = sha256 (env_of te) text, diff = unified_diff te path old text\<rparr> in
             if file_change_ok ch then Inr (Some ch) else Inl (ValueError ''validation error for FileChange''))))"

definition edit_changes ::
  "tool_env \<Rightarrow> workspace_grant \<Rightarrow> workspace_file list \<Rightarrow> (string \<times> string) list \<Rightarrow> codev_error + file_change list" where
  "edit_changes te g fs es = bindR (mapR (edit_change te g fs) es) (\<lambda>xs.
     let cs = List.map_filter id xs in
     bindR (raise_if (cs = []) (GrantDenied ''browser_patch_has_no_changes'')) (\<lambda>_. Inr cs))"

definition browser_plan ::
  "codev_world \<Rightarrow> string \<Rightarrow> actor \<Rightarrow> patch_request \<Rightarrow> browser_share \<Rightarrow> workspace_grant \<Rightarrow> file_change list \<Rightarrow> change_plan" where
  "browser_plan w fresh a r s g cs = \<lparr>plan_id = ''plan_'' @ fresh, p_workspace_id = rq_workspace_id r, p_actor = a,
     base_revision = rq_revision r, p_workspace_hash = rq_content_hash r, p_grant_epoch = epoch g,
     plan_hash = replicate 64 (CHR ''0''), p_summary = rq_summary r, changes = cs, command_id = None,
     command_argv = [], cwd_label = ''Browser workspace: '' @ sh_label s, network_policy = ''none'',
     expected_checks = [''Exact browser revision and file hashes''],
     risks = [''Review every change before applying it to the browser workspace.''],
     p_expires_at = clock w + seconds 300,
     recovery_note = ''Keep the previous browser revision in local recovery before applying. Native files and remote drafts are unaffected.''\<rparr>"

definition plan_browser_patch :: "tool_env \<Rightarrow> codev_world \<Rightarrow> string \<Rightarrow> actor \<Rightarrow> patch_request \<Rightarrow> change_plan codev_action" where
  "plan_browser_patch te w fresh a r =
     bindA (validated (patch_ok r)) (\<lambda>_.
     bindA (readA (workspace_of a (rq_workspace_id r))) (\<lambda>v.
     bindA (readA (at_revision w v r ''propose'')) (\<lambda>g.
     bindA (liftA (edit_changes te g (sh_files (bw_share v)) (rq_edits r))) (\<lambda>cs.
     on_auth (register (env_of te) (clock w) (browser_plan w fresh a r (bw_share v) g cs))))))"

definition approval_receipt :: "codev_world \<Rightarrow> approve_request \<Rightarrow> exact_approval \<Rightarrow> change_plan \<Rightarrow> operation_receipt" where
  "approval_receipt w r ap p = \<lparr>rc_operation_id = approval_id ap, rc_request_id = approval_id ap,
     rc_workspace_id = Some (rq_workspace_id r), rc_status = ''approved'',
     rc_summary = ''Exact browser patch authorized. Browser application has not been verified.'',
     rc_base_revision = Some (rq_revision r), rc_files_inspected = [], rc_files_changed = [], rc_commands_run = [],
     rc_artifacts = [], rc_recovery_note = Some (recovery_note p), rc_verification = ''required'',
     rc_audit_written = False, rc_warnings = [], rc_created_at = clock w\<rparr>"

definition authorize_browser_patch ::
  "tool_env \<Rightarrow> codev_world \<Rightarrow> string \<Rightarrow> string \<Rightarrow> actor \<Rightarrow> approve_request
     \<Rightarrow> (change_plan \<times> exact_approval \<times> operation_receipt) codev_action" where
  "authorize_browser_patch te w fresh token a r = (let i = rq_workspace_id r in
     bindA (validated (approve_ok_request r)) (\<lambda>_.
     bindA (readA (workspace_of a i)) (\<lambda>v.
     bindA (readA (at_revision w v r ''propose'')) (\<lambda>_.
     bindA (readA (\<lambda>c. get_plan (clock w) a (rq_plan_id r) (c_auth c))) (\<lambda>p.
     bindA (deny (p_workspace_id p \<noteq> i) ''browser_plan_workspace_mismatch'') (\<lambda>_.
     bindA (on_auth (approve (env_of te) (clock w) fresh token a (rq_plan_id r) (rq_plan_hash r) (rq_approved r))) (\<lambda>(ap, tok).
     bindA (on_auth (consume (env_of te) (clock w) a (approval_id ap) tok (rq_plan_id r) (rq_revision r) (rq_content_hash r))) (\<lambda>approved.
     let rc = approval_receipt w r ap approved in
     bindA (updateA (remember_receipt a i rc)) (\<lambda>_. returnA (approved, ap\<lparr>consumed := True\<rparr>, rc))))))))))"

end
