(* ===== verification/CodevBroker.thy ===== *)
theory CodevBroker
  imports CodevBrowser
begin

text \<open>
  Governed chats (\<open>core/codev/actions.py\<close>), the dispatch of browser requests
  (\<open>core/codev/browser_workspaces.py\<close>) and the signed transport in front of it
  (\<open>core/codev/broker.py\<close>).  A chat is admitted, may be cancelled by its monitor or by others while
  the model works, and is delivered or refused; the three are separate actions.  The answer of the
  model and the decoding of a request body are arguments; sockets and response signatures are not
  modelled.
\<close>

section \<open>Chats\<close>

record chat_request = revision_request +
  rq_message :: string
  rq_gear :: string
  rq_kind :: string
  rq_request_id :: string

record flight =
  fl_request_id :: string
  fl_actor :: actor
  fl_workspace :: "string option"
  fl_login :: "string \<times> string"
  fl_grant :: "workspace_grant option"
  fl_pair :: "string option"
  fl_selected :: "workspace_file list"
  fl_proposal :: bool

record model_response =
  invocation_status :: "string option"
  response_source :: "string option"
  response_text :: string
  caveats :: "string list"
  in_time :: bool

record chat_reply =
  reply_text :: string
  reply_live :: bool
  reply_receipt :: operation_receipt

definition reasoning_gears :: "string list" where
  "reasoning_gears = [''automatic'', ''quick'', ''standard'', ''deep'', ''deliberative'', ''research_engineering'']"

definition chat_request_ok :: "chat_request \<Rightarrow> bool" where
  "chat_request_ok r \<longleftrightarrow> revision_ok r \<and> rq_message r \<noteq> [] \<and> length (rq_message r) \<le> 16000 \<and>
     rq_kind r \<in> {''conversation'', ''edit_proposal''} \<and>
     take 6 (rq_request_id r) = ''codev_'' \<and> hex_digest 32 (drop 6 (rq_request_id r))"

definition owned_chats :: "codev \<Rightarrow> actor list" where
  "owned_chats c = map (\<lambda>(_, a, _). a) (c_chats c)"

definition chat_busy :: "actor \<Rightarrow> string \<Rightarrow> codev \<Rightarrow> codev_error + unit" where
  "chat_busy a i c =
     bindR (raise_if (a \<in> set (owned_chats c) \<or> map_of (c_chats c) i \<noteq> None \<or> 8 \<le> length (c_chats c))
       (GrantDenied ''codev_cognition_busy'')) (\<lambda>_.
     raise_if (client_kind a = Browser \<and> 4 \<le> length (filter (\<lambda>b. client_kind b = Browser) (owned_chats c)))
       (GrantDenied ''codev_browser_cognition_busy''))"

definition chat_refusal ::
  "actor \<Rightarrow> string \<times> string \<Rightarrow> string \<Rightarrow> string \<Rightarrow> string \<Rightarrow> string \<Rightarrow> workspace_file list \<Rightarrow> workspace_grant option
     \<Rightarrow> codev_error + unit" where
  "chat_refusal a login message handoff gear kind selected grant =
     bindR (raise_if (fst login \<noteq> local_profile_id a) (GrantDenied ''local_account_changed_during_request'')) (\<lambda>_.
     bindR (raise_if (strip message = [] \<or> 16000 < utf8_length message \<or> 16000 < utf8_length handoff)
       (GrantDenied ''bounded_message_required'')) (\<lambda>_.
     bindR (raise_if (gear \<notin> set reasoning_gears) (GrantDenied ''unsupported_reasoning_gear'')) (\<lambda>_.
     bindR (raise_if (kind \<notin> {''conversation'', ''edit_proposal''}) (GrantDenied ''unsupported_response_kind'')) (\<lambda>_.
     raise_if (kind = ''edit_proposal'' \<and> (grant = None \<or> selected = []))
       (GrantDenied ''proposal_requires_selected_file_grant'')))))"

definition open_chat :: "bool \<Rightarrow> flight \<Rightarrow> codev \<Rightarrow> codev" where
  "open_chat stop_set fl c = c\<lparr>c_chats := AList.update (fl_request_id fl) (fl_actor fl, fl_workspace fl) (c_chats c),
     c_requests := request_cancel_event stop_set (fl_request_id fl)
       (bind_request_owner (fl_request_id fl) (local_profile_id (fl_actor fl)) (c_requests c))\<rparr>"

definition close_chat :: "flight \<Rightarrow> codev \<Rightarrow> codev" where
  "close_chat fl c = c\<lparr>c_chats := AList.delete (fl_request_id fl) (c_chats c),
     c_requests := release_request (fl_request_id fl) (c_requests c)\<rparr>"

definition finally_do :: "(codev \<Rightarrow> codev) \<Rightarrow> 'a codev_action \<Rightarrow> 'a codev_action" where
  "finally_do f m c = (let (r, c') = m c in (r, f c'))"

definition on_failure :: "(codev \<Rightarrow> codev) \<Rightarrow> 'a codev_action \<Rightarrow> 'a codev_action" where
  "on_failure f m c = (case m c of (Inl e, c') \<Rightarrow> (Inl e, f c') | (Inr r, c') \<Rightarrow> (Inr r, c'))"

definition still_authorized ::
  "tool_env \<Rightarrow> codev_world \<Rightarrow> codev_world \<Rightarrow> codev_error + pairing_view \<Rightarrow> flight \<Rightarrow> unit codev_action" where
  "still_authorized te w w' answer fl =
     bindA (liftA (account_principal w)) (\<lambda>login.
     bindA (deny (login \<noteq> fl_login fl) ''local_account_changed_during_request'') (\<lambda>_.
     bindA (liftA (ensure_available w)) (\<lambda>_.
     bindA (case fl_pair fl of None \<Rightarrow> returnA () | Some i \<Rightarrow> require_live (crypto te) w w' answer False i) (\<lambda>_.
     case fl_grant fl of None \<Rightarrow> returnA ()
     | Some g \<Rightarrow> bindA (readA (\<lambda>c. require (clock w') (fl_actor fl) (case fl_workspace fl of None \<Rightarrow> [] | Some i \<Rightarrow> i)
         (if fl_proposal fl then ''propose'' else ''read'') [] (Some (epoch g)) None (a_grants (c_auth c))))
         (\<lambda>_. returnA ())))))"

definition begin_chat ::
  "tool_env \<Rightarrow> bool \<Rightarrow> codev_world \<Rightarrow> codev_world \<Rightarrow> codev_error + pairing_view \<Rightarrow> actor \<Rightarrow> string option \<Rightarrow> string option
     \<Rightarrow> string \<Rightarrow> string \<Rightarrow> string \<Rightarrow> string \<Rightarrow> string \<Rightarrow> workspace_file list \<Rightarrow> workspace_grant option \<Rightarrow> flight codev_action" where
  "begin_chat te stop_set w w' answer a i pair request message handoff gear kind selected grant =
     bindA (liftA (account_principal w)) (\<lambda>login.
     bindA (liftA (chat_refusal a login message handoff gear kind selected grant)) (\<lambda>_.
     bindA (readA (chat_busy a request)) (\<lambda>_.
     let fl = \<lparr>fl_request_id = request, fl_actor = a, fl_workspace = i, fl_login = login, fl_grant = grant,
       fl_pair = pair, fl_selected = selected, fl_proposal = (kind = ''edit_proposal'')\<rparr> in
     bindA (updateA (open_chat stop_set fl)) (\<lambda>_.
     on_failure (close_chat fl) (bindA (still_authorized te w w' answer fl) (\<lambda>_. returnA fl))))))"

definition watch_chat ::
  "tool_env \<Rightarrow> codev_world \<Rightarrow> codev_world \<Rightarrow> codev_error + pairing_view \<Rightarrow> bool \<Rightarrow> flight \<Rightarrow> codev \<Rightarrow> codev" where
  \<comment> \<open>one pass of the monitor: a chat that lost its authority is cancelled; the pairing is only asked about when
    two seconds have passed since it last was, which the boolean says\<close>
  "watch_chat te w w' answer due fl c = (case still_authorized te w w' answer (if due then fl else fl\<lparr>fl_pair := None\<rparr>) c of
       (Inr _, c') \<Rightarrow> c'
     | (Inl _, c') \<Rightarrow> c'\<lparr>c_requests := (c_requests c')\<lparr>request_events :=
         (if map_of (request_events (c_requests c')) (fl_request_id fl) = None then request_events (c_requests c')
          else AList.update (fl_request_id fl) True (request_events (c_requests c')))\<rparr>\<rparr>)"

definition model_live :: "model_response \<Rightarrow> bool \<Rightarrow> bool" where
  "model_live m stopped_by \<longleftrightarrow> in_time m \<and> \<not> stopped_by \<and> invocation_status m = Some ''ok'' \<and>
     response_source m = Some ''live_invoker''"

definition proposal_fits :: "tool_env \<Rightarrow> flight \<Rightarrow> string \<Rightarrow> bool" where
  "proposal_fits te fl text \<longleftrightarrow> (case parse_proposal te text of None \<Rightarrow> False
     | Some edits \<Rightarrow> set (map fst edits) \<subseteq> wf_path ` set (filter (\<lambda>f. wf_text f \<noteq> None) (fl_selected fl)))"

definition chat_outcome :: "tool_env \<Rightarrow> time \<Rightarrow> flight \<Rightarrow> model_response \<Rightarrow> bool \<Rightarrow> chat_reply" where
  "chat_outcome te now fl m stopped_by = (let
       answered = model_live m stopped_by;
       misfit = (answered \<and> fl_proposal fl \<and> \<not> proposal_fits te fl (response_text m));
       live = (answered \<and> \<not> misfit);
       notes' = (if misfit then caveats m @ [''The local model did not return a valid selected-file edit proposal. No patch was authorized or applied.'']
         else caveats m)
     in \<lparr>reply_text = (if live then response_text m
           else ''Local reasoning is unavailable. Your workspace remains available for inspection and exact edits.''),
         reply_live = live,
         reply_receipt = \<lparr>rc_operation_id = fl_request_id fl, rc_request_id = fl_request_id fl,
           rc_workspace_id = fl_workspace fl,
           rc_status = (if stopped_by then ''cancelled'' else if live then ''completed'' else ''blocked''),
           rc_summary = (if live then ''Governed local Codev response.'' else ''The local model did not complete this request.''),
           rc_base_revision = None, rc_files_inspected = map wf_path (fl_selected fl), rc_files_changed = [],
           rc_commands_run = [], rc_artifacts = [], rc_recovery_note = None, rc_verification = ''not_run'',
           rc_audit_written = False, rc_warnings = notes', rc_created_at = now\<rparr>\<rparr>)"

definition deliver_chat ::
  "tool_env \<Rightarrow> codev_world \<Rightarrow> codev_world \<Rightarrow> codev_error + pairing_view \<Rightarrow> flight \<Rightarrow> model_response \<Rightarrow> chat_reply codev_action" where
  "deliver_chat te w w' answer fl m = finally_do (close_chat fl)
     (bindA (still_authorized te w w' answer fl) (\<lambda>_.
      bindA (readA (\<lambda>c. Inr (chat_outcome te (clock w') fl m (cancelled (fl_request_id fl) (c_requests c))))) (\<lambda>r.
      bindA (updateA (\<lambda>c. case fl_workspace fl of None \<Rightarrow> c
        | Some i \<Rightarrow> remember_receipt (fl_actor fl) i (reply_receipt r) c)) (\<lambda>_. returnA r))))"

definition cancel_chat :: "actor \<Rightarrow> string \<Rightarrow> bool codev_action" where
  "cancel_chat a i c = (case map_of (c_chats c) i of
       None \<Rightarrow> (Inl (GrantDenied ''request_not_found_for_client''), c)
     | Some (owner, _) \<Rightarrow>
         if owner \<noteq> a then (Inl (GrantDenied ''request_not_found_for_client''), c)
         else (let (b, r) = cancel_request i (local_profile_id a) (c_requests c) in (Inr b, c\<lparr>c_requests := r\<rparr>)))"

section \<open>Dispatch\<close>

datatype browser_request =
    Get_status bool
  | Revoke_pairing bool
  | Workspace_reset bool
  | Chat_cancel string
  | Workspace_revoke string
  | Workspace_share browser_share
  | Workspace_status string
  | Receipts string
  | Start_chat chat_request
  | Patch_plan patch_request
  | Patch_authorize approve_request
  | Malformed_payload string

datatype browser_reply =
    Status_reply pairing_status
  | Revoked_reply
  | Epochs_reply "(string \<times> int) list"
  | Cancelled_reply bool
  | Epoch_reply string int
  | Workspace_reply workspace_status
  | Receipts_reply "operation_receipt list"
  | Flight_reply flight
  | Plan_reply change_plan
  | Approval_reply change_plan exact_approval operation_receipt

record dispatch_env =
  de_tools :: tool_env
  de_world :: codev_world
  de_later :: codev_world
  de_answer :: "codev_error + pairing_view"
  de_chat_world :: codev_world \<comment> \<open>world and answer of the second check, that of a chat\<close>
  de_chat_later :: codev_world
  de_chat_answer :: "codev_error + pairing_view"
  de_fresh :: string
  de_token :: string
  de_stop_set :: bool
  de_decode :: "string \<Rightarrow> string \<Rightarrow> browser_request"

definition start_browser_chat :: "dispatch_env \<Rightarrow> string \<Rightarrow> actor \<Rightarrow> chat_request \<Rightarrow> flight codev_action" where
  "start_browser_chat de i a r = (let kind = rq_kind r; w = de_later de in
     bindA (validated (chat_request_ok r)) (\<lambda>_.
     bindA (readA (workspace_of a (rq_workspace_id r))) (\<lambda>v.
     bindA (readA (at_revision w v r (if kind = ''edit_proposal'' then ''propose'' else ''read''))) (\<lambda>g.
     let selected = filter (\<lambda>f. wf_path f \<in> set (g_files g) \<and> wf_text f \<noteq> None) (sh_files (bw_share v)) in
     bindA (deny (kind = ''edit_proposal'' \<and> selected = []) ''proposal_requires_selected_file_contents'') (\<lambda>_.
     begin_chat (de_tools de) (de_stop_set de) (de_chat_world de) (de_chat_later de) (de_chat_answer de) a (Some (rq_workspace_id r)) (Some i)
       (rq_request_id r) (rq_message r) [] (rq_gear r) kind selected (Some g))))))"

definition dispatch_live :: "dispatch_env \<Rightarrow> string \<Rightarrow> actor \<Rightarrow> browser_request \<Rightarrow> browser_reply codev_action" where
  \<comment> \<open>the requests that need a live pairing\<close>
  "dispatch_live de i a req = (let te = de_tools de; w = de_later de in case req of
       Workspace_share s \<Rightarrow> bindA (share_workspace te w (de_fresh de) a s) (\<lambda>st. returnA (Workspace_reply st))
     | Workspace_status j \<Rightarrow> bindA (validated (workspace_id_ok j)) (\<lambda>_. bindA (readA (workspace_of a j)) (\<lambda>v.
         bindA (readA (\<lambda>c. require (clock w) a j ''metadata'' [] None None (a_grants (c_auth c)))) (\<lambda>_.
         readA (\<lambda>c. Inr (Workspace_reply (status_of v c))))))
     | Receipts j \<Rightarrow> bindA (validated (workspace_id_ok j)) (\<lambda>_. bindA (readA (workspace_of a j)) (\<lambda>v.
         bindA (readA (\<lambda>c. require (clock w) a j ''metadata'' [] None None (a_grants (c_auth c)))) (\<lambda>_.
         returnA (Receipts_reply (bw_receipts v)))))
     | Start_chat r \<Rightarrow> bindA (start_browser_chat de i a r) (\<lambda>fl. returnA (Flight_reply fl))
     | Patch_plan r \<Rightarrow> bindA (plan_browser_patch te w (de_fresh de) a r) (\<lambda>p. returnA (Plan_reply p))
     | Patch_authorize r \<Rightarrow> bindA (authorize_browser_patch te w (de_fresh de) (de_token de) a r)
         (\<lambda>(p, ap, rc). returnA (Approval_reply p ap rc))
     | Malformed_payload _ \<Rightarrow> liftA (Inl (ValueError ''validation error''))
     | _ \<Rightarrow> liftA (Inl (GrantDenied ''codev_broker_operation_unavailable'')))"

definition early_paths :: "string list" where
  \<comment> \<open>the requests whose payload is read before anything else\<close>
  "early_paths = [''/codev/status'', ''/codev/revoke'', ''/codev/workspace/reset'', ''/codev/chat/cancel'',
     ''/codev/workspace/revoke'']"

definition dispatch_workspaces :: "dispatch_env \<Rightarrow> string \<Rightarrow> browser_request \<Rightarrow> browser_reply codev_action" where
  "dispatch_workspaces de i req =
     bindA (readA (get_pair i)) (\<lambda>p. let a = np_actor p in case req of
       Workspace_reset extra \<Rightarrow> bindA (deny extra ''unexpected_workspace_reset_input'')
         (\<lambda>_ c. let (es, c') = reset_workspaces a c in (Inr (Epochs_reply es), c'))
     | Chat_cancel j \<Rightarrow> bindA (validated (take 6 j = ''codev_'' \<and> hex_digest 32 (drop 6 j))) (\<lambda>_.
         bindA (cancel_chat a j) (\<lambda>b. returnA (Cancelled_reply b)))
     | Workspace_revoke j \<Rightarrow> bindA (validated (workspace_id_ok j))
         (\<lambda>_ c. let (e, c') = revoke_workspace a j c in (Inr (Epoch_reply j e), c'))
     | _ \<Rightarrow> bindA (liftA (raise_if (req \<in> Malformed_payload ` set early_paths) (ValueError ''validation error''))) (\<lambda>_.
         bindA (require_live (crypto (de_tools de)) (de_world de) (de_later de) (de_answer de) False i)
         (\<lambda>_. dispatch_live de i a req)))"

definition dispatch :: "dispatch_env \<Rightarrow> string \<Rightarrow> browser_request \<Rightarrow> browser_reply codev_action" where
  "dispatch de i req = (case req of
       Get_status extra \<Rightarrow> bindA (deny extra ''unexpected_status_input'') (\<lambda>_.
         bindA (require_live (crypto (de_tools de)) (de_world de) (de_later de) (de_answer de) True i) (\<lambda>_.
         bindA (readA (get_pair i)) (\<lambda>p. returnA (Status_reply (pi_status (np_intent p))))))
     | Revoke_pairing extra \<Rightarrow> bindA (deny extra ''unexpected_revocation_input'') (\<lambda>_.
         bindA (readA (get_pair i)) (\<lambda>p. bindA (updateA (revoke_local i p)) (\<lambda>_. returnA Revoked_reply)))
     | _ \<Rightarrow> dispatch_workspaces de i req)"

section \<open>The transport\<close>

record http_request =
  client_address :: string
  http_path :: string
  raw_headers :: "(string \<times> string) list"

record broker =
  br_codev :: codev
  br_requests :: "time list"

datatype broker_response = Denied_403 | Signed_reply "string + browser_reply"

definition broker_paths :: "string list" where
  "broker_paths = [''/codev/status'', ''/codev/revoke'', ''/codev/workspace/share'', ''/codev/workspace/revoke'',
     ''/codev/workspace/status'', ''/codev/workspace/reset'', ''/codev/chat'', ''/codev/chat/cancel'',
     ''/codev/patch/plan'', ''/codev/patch/authorize'', ''/codev/receipts'']"

definition header :: "string \<Rightarrow> http_request \<Rightarrow> string option" where
  "header name r = map_of (map (\<lambda>(k, v). (lower k, v)) (raw_headers r)) (lower name)"

definition boundary :: "http_request \<Rightarrow> bool" where
  "boundary r \<longleftrightarrow> (let names = map (\<lambda>(k, _). lower k) (raw_headers r) in
     client_address r = ''127.0.0.1'' \<and> http_path r \<in> set broker_paths \<and> distinct names \<and>
     sum_list (map (\<lambda>(k, v). length k + length v) (raw_headers r)) \<le> 8192 \<and>
     header ''Host'' r = Some ''127.0.0.1:47321'' \<and> (\<exists>site \<in> set site_origins. header ''Origin'' r = Some site) \<and>
     \<not> list_ex (\<lambda>n. n \<in> set names) [''authorization'', ''cookie'', ''transfer-encoding'', ''content-encoding'',
       ''expect'', ''upgrade''])"

definition rate_allowed :: "time \<Rightarrow> broker \<Rightarrow> bool \<times> broker" where
  "rate_allowed now b = (let recent = dropWhile (\<lambda>t. t < now - seconds 60) (br_requests b) in
     if 180 \<le> length recent then (False, b\<lparr>br_requests := recent\<rparr>)
     else (True, b\<lparr>br_requests := recent @ [now]\<rparr>))"

definition body_size_ok :: "http_request \<Rightarrow> bool" where
  "body_size_ok r \<longleftrightarrow> (case header ''Content-Length'' r of None \<Rightarrow> False
     | Some s \<Rightarrow> s \<noteq> [] \<and> list_all (\<lambda>c. c \<in> set ''0123456789'') s \<and>
         (let n = foldl (\<lambda>n c. 10 * n + (of_char c - 48)) (0 :: nat) s in 1 \<le> n \<and> n \<le> 2097152))"

definition body_type_ok :: "http_request \<Rightarrow> bool" where
  "body_type_ok r \<longleftrightarrow> (case header ''Content-Type'' r of None \<Rightarrow> False
     | Some s \<Rightarrow> lower (strip (hd (split_on (CHR '';'') s))) = ''application/json'')"

definition origin_of :: "http_request \<Rightarrow> string" where
  "origin_of r = (case header ''Origin'' r of None \<Rightarrow> [] | Some site \<Rightarrow> site)"

definition do_POST ::
  "dispatch_env \<Rightarrow> time \<Rightarrow> http_request \<Rightarrow> (broker_proof \<times> string) option \<Rightarrow> broker \<Rightarrow> broker_response \<times> broker" where
  \<comment> \<open>the body is its proof and the signed text, if it decodes; the call is one step, where the code releases the
    lock of the pairing between the checks and the effect (see \<open>late_share_outlives_revocation\<close>)\<close>
  "do_POST de now r body b =
     (if \<not> boundary r then (Denied_403, b)
      else let (allowed, b1) = rate_allowed now b in
        if \<not> allowed \<or> \<not> body_size_ok r \<or> \<not> body_type_ok r then (Denied_403, b1)
        else (case body of None \<Rightarrow> (Denied_403, b1)
          | Some (pr, text) \<Rightarrow>
              if \<not> proof_ok pr then (Denied_403, b1)
              else (case authenticate (crypto (de_tools de)) (de_world de) (origin_of r) (http_path r) pr text (br_codev b1) of
                  (Inl _, c) \<Rightarrow> (Denied_403, b1\<lparr>br_codev := c\<rparr>)
                | (Inr _, c) \<Rightarrow> (case dispatch de (pr_pairing_id pr) (de_decode de (http_path r) text) c of
                      (Inl _, c') \<Rightarrow> (Signed_reply (Inl ''Codev could not authorize or complete this request. Recheck the connection, workspace revision and grants.''), b1\<lparr>br_codev := c'\<rparr>)
                    | (Inr reply, c') \<Rightarrow> (Signed_reply (Inr reply), b1\<lparr>br_codev := c'\<rparr>)))))"

end
