(* ===== verification/Protocols.thy ===== *)
theory Protocols
  imports Actions
begin

text \<open>
  The contract of an action that may only be taken while some condition is in force, and must
  leave a weaker one when it fails.
\<close>

section \<open>Protocols\<close>

text \<open>
  While a protocol is \<open>live\<close> its steps may go on; a step that raises leaves the state merely
  \<open>settled\<close>, the invariant everybody else relies on.
\<close>

definition upholds :: "('s \<Rightarrow> bool) \<Rightarrow> ('s \<Rightarrow> bool) \<Rightarrow> ('s, 'e, 'a) action \<Rightarrow> bool" where
  "upholds live settled m \<longleftrightarrow> (\<forall>s. live s \<longrightarrow> settled (snd (m s)) \<and> (\<forall>a. fst (m s) = Inr a \<longrightarrow> live (snd (m s))))"

lemma upholdsI:
  "(\<And>s. live s \<Longrightarrow> settled (snd (m s)) \<and> (\<forall>a. fst (m s) = Inr a \<longrightarrow> live (snd (m s)))) \<Longrightarrow> upholds live settled m"
  by (simp add: upholds_def)

lemma upholdsD:
  assumes "upholds live settled m" "live s"
  shows "settled (snd (m s))" "fst (m s) = Inr a \<Longrightarrow> live (snd (m s))"
  using assms by (auto simp: upholds_def)

locale protocol =
  fixes live :: "'s \<Rightarrow> bool" and settled :: "'s \<Rightarrow> bool"
  assumes live_settled: "live s \<Longrightarrow> settled s"
begin

lemma upholds_keep: "(\<And>s. live s \<Longrightarrow> live (snd (m s))) \<Longrightarrow> upholds live settled m"
  by (auto intro!: upholdsI live_settled)

lemma upholds_pure: "pureA m \<Longrightarrow> upholds live settled m"
  by (rule upholds_keep) (simp add: pureA_def)

lemma upholds_bind:
  assumes "upholds live settled m" "\<And>a. upholds live settled (f a)"
  shows "upholds live settled (bindA m f)"
proof (rule upholdsI)
  fix s assume s: "live s"
  show "settled (snd (bindA m f s)) \<and> (\<forall>a. fst (bindA m f s) = Inr a \<longrightarrow> live (snd (bindA m f s)))"
  proof (cases rule: bindA_cases [of m s f])
    case (raises e s')
    with upholdsD [OF assms(1) s] show ?thesis by simp
  next
    case (returns a s')
    with upholdsD(2) [OF assms(1) s, of a] have "live s'" by simp
    with upholdsD [OF assms(2), of s' a] returns(2) show ?thesis by simp
  qed
qed

end

end
