(* ===== verification/CodevInvariant.thy ===== *)
theory CodevInvariant
  imports CodevBroker Protocols
begin

text \<open>
  The invariant of the Codev adapters: usable pairings were approved, and an actor has authority
  only while its pairing is in force.  Each handler of \<open>CodevPairing\<close>, \<open>CodevBrowser\<close> and
  \<open>CodevBroker\<close> keeps it; the handlers that run on behalf of a pairing are steps of a protocol that
  is live while the pairing is.
\<close>

section \<open>Who holds authority\<close>

definition holders :: "codev \<Rightarrow> actor set" where
  "holders c = g_actor ` snd ` set (a_grants (c_auth c)) \<union> p_actor ` snd ` set (a_plans (c_auth c)) \<union>
     ap_actor ` approval ` snd ` set (a_approvals (c_auth c)) \<union> bw_actor ` snd ` set (c_browser c)"

lemma no_authority_iff: "no_authority a c \<longleftrightarrow> a \<notin> holders c"
  unfolding no_authority_def holders_def Un_iff image_image image_iff by blast

definition usable :: "native_pairing \<Rightarrow> bool" where
  "usable p \<longleftrightarrow> pi_status (np_intent p) \<in> {Native_approved, Paired} \<and> \<not> np_revoked p"

definition pair_at :: "string \<Rightarrow> codev \<Rightarrow> native_pairing option" where
  "pair_at i c = map_of (c_pairs c) i"

definition in_force :: "string \<Rightarrow> actor \<Rightarrow> codev \<Rightarrow> bool" where
  "in_force i a c \<longleftrightarrow> (\<exists>p. pair_at i c = Some p \<and> usable p \<and> np_actor p = a)"

lemma get_pair_iff: "get_pair i c = Inr p \<longleftrightarrow> pair_at i c = Some p"
  by (auto simp: get_pair_def pair_at_def split: option.splits)

lemma get_pair_eval: "get_pair i c = (case pair_at i c of None \<Rightarrow> Inl (GrantDenied ''codev_pairing_unavailable'') | Some p \<Rightarrow> Inr p)"
  by (simp add: get_pair_def pair_at_def)

lemma pair_at_put [simp]: "pair_at j (put_pair i p c) = (if j = i then Some p else pair_at j c)"
  by (simp add: pair_at_def update_conv')

lemma pair_at_revoke [simp]: "pair_at j (revoke_local i p c) = (if j = i then Some (revoked_pair p) else pair_at j c)"
  by (simp add: pair_at_def update_conv')

lemma revoked_not_usable [simp]: "\<not> usable (revoked_pair p)" "np_nonces (revoked_pair p) = np_nonces p"
  by (simp_all add: usable_def revoked_pair_def)

lemma holders_put_pair [simp]: "holders (put_pair i p c) = holders c"
  by (simp add: holders_def)

text \<open>\<open>within a\<close>: the pairings stay as they are and at most \<open>a\<close> gains authority.\<close>

definition within :: "actor \<Rightarrow> codev \<Rightarrow> codev \<Rightarrow> bool" where
  "within a c d \<longleftrightarrow> c_pairs d = c_pairs c \<and> holders d \<subseteq> insert a (holders c)"

definition no_gain :: "codev \<Rightarrow> codev \<Rightarrow> bool" where
  "no_gain c d \<longleftrightarrow> c_pairs d = c_pairs c \<and> holders d \<subseteq> holders c"

lemma no_gain_refl [simp]: "no_gain c c"
  by (simp add: no_gain_def)

lemma no_gain_trans: "no_gain c d \<Longrightarrow> no_gain d e \<Longrightarrow> no_gain c e"
  by (auto simp: no_gain_def)

lemma no_gain_within: "no_gain c d \<Longrightarrow> within a c d"
  by (auto simp: no_gain_def within_def)

lemma no_gain_fold: "(\<And>x c. no_gain c (f x c)) \<Longrightarrow> no_gain c (fold f xs c)"
  by (induction xs arbitrary: c) (auto intro: no_gain_trans)

lemma update_values: "snd ` set (AList.update k v xs) \<subseteq> insert v (snd ` set xs)"
proof -
  have "\<forall>kv \<in> set (AList.update k v xs). snd kv \<in> insert v (snd ` set xs)"
    by (rule dict_update_all) auto
  then show ?thesis by auto
qed

lemma update_holders: "f v \<in> f ` snd ` set xs \<Longrightarrow> f ` snd ` set (AList.update k v xs) \<subseteq> f ` snd ` set xs"
  using update_values [of k v xs] by blast

lemma update_holders_insert: "f ` snd ` set (AList.update k v xs) \<subseteq> insert (f v) (f ` snd ` set xs)"
  using update_values [of k v xs] by blast

lemma lookup_holder: "map_of xs k = Some v \<Longrightarrow> f v \<in> f ` snd ` set xs"
  by (force dest: map_of_SomeD)

lemma holders_auth: "holders (c\<lparr>c_auth := s\<rparr>) = g_actor ` snd ` set (a_grants s) \<union> p_actor ` snd ` set (a_plans s) \<union>
    ap_actor ` approval ` snd ` set (a_approvals s) \<union> bw_actor ` snd ` set (c_browser c)"
  by (simp add: holders_def)

lemma holders_mono:
  assumes "g_actor ` snd ` set (a_grants (c_auth d)) \<subseteq> A" "p_actor ` snd ` set (a_plans (c_auth d)) \<subseteq> A"
    "ap_actor ` approval ` snd ` set (a_approvals (c_auth d)) \<subseteq> A" "bw_actor ` snd ` set (c_browser d) \<subseteq> A"
  shows "holders d \<subseteq> A"
  using assms unfolding holders_def by (intro Un_least)

lemma holders_parts:
  "g_actor ` snd ` set (a_grants (c_auth c)) \<subseteq> holders c" "p_actor ` snd ` set (a_plans (c_auth c)) \<subseteq> holders c"
  "ap_actor ` approval ` snd ` set (a_approvals (c_auth c)) \<subseteq> holders c" "bw_actor ` snd ` set (c_browser c) \<subseteq> holders c"
  unfolding holders_def by blast+

lemma no_gainI:
  assumes "c_pairs d = c_pairs c"
    "g_actor ` snd ` set (a_grants (c_auth d)) \<subseteq> g_actor ` snd ` set (a_grants (c_auth c))"
    "p_actor ` snd ` set (a_plans (c_auth d)) \<subseteq> p_actor ` snd ` set (a_plans (c_auth c))"
    "ap_actor ` approval ` snd ` set (a_approvals (c_auth d)) \<subseteq> ap_actor ` approval ` snd ` set (a_approvals (c_auth c))"
    "bw_actor ` snd ` set (c_browser d) \<subseteq> bw_actor ` snd ` set (c_browser c)"
  shows "no_gain c d"
  using assms unfolding no_gain_def holders_def by (intro conjI Un_mono)

lemma no_gain_browser:
  "bw_actor ` snd ` set bs \<subseteq> bw_actor ` snd ` set (c_browser c) \<Longrightarrow> no_gain c (c\<lparr>c_browser := bs\<rparr>)"
  by (rule no_gainI) simp_all

lemma filter_images: "f ` snd ` set (filter q xs) \<subseteq> f ` snd ` set xs"
  by auto

lemma dict_filter_images: "f ` g ` snd ` set (dict_filter q xs) \<subseteq> f ` g ` snd ` set xs"
  by (auto simp: set_dict_filter)

lemmas dict_filter_images' = dict_filter_images [of _ "\<lambda>x. x", unfolded image_ident]

lemma delete_images: "f ` snd ` set (AList.delete k xs) \<subseteq> f ` snd ` set xs"
  by (auto simp: set_dict_delete)

lemma revoke_actors: "g_actor ` snd ` set (snd (revoke a i gs)) \<subseteq> g_actor ` snd ` set gs"
proof (cases "get_grant a i gs")
  case (Some g)
  then have "g_actor (revoked_grant g) \<in> g_actor ` snd ` set gs"
    using lookup_holder [of gs "grant_key a i" g g_actor] by (simp add: get_grant_Some)
  with Some show ?thesis by (simp add: revoke_def update_holders)
qed (simp add: revoke_def)

lemma no_gain_on_grants: "g_actor ` snd ` set (f (a_grants (c_auth c))) \<subseteq> g_actor ` snd ` set (a_grants (c_auth c)) \<Longrightarrow>
    no_gain c (on_grants f c)"
  by (rule no_gainI) simp_all

lemma no_gain_revoke: "no_gain c (on_grants (\<lambda>gs. snd (revoke a i gs)) c)"
  by (intro no_gain_on_grants revoke_actors)

lemma no_gain_cancel: "no_gain c (cancel_workspace_chats a i c)"
  by (simp add: no_gain_def holders_def)

lemma no_gain_discard: "no_gain c (discard_plans a w c)"
  by (rule no_gainI) (simp_all add: discard_plans_def discard_def dict_filter_images dict_filter_images')

lemma no_gain_drop: "no_gain c (drop_shares a c)"
  by (rule no_gainI) (simp_all only: drop_shares_simps order_refl filter_images)

lemma no_gain_withdraw: "no_gain c (withdraw_share a v c)"
  unfolding withdraw_share_def Let_def by (rule no_gain_trans [OF no_gain_revoke no_gain_cancel])

lemma no_gain_revoke_actor: "no_gain c (revoke_actor a c)"
proof -
  have "no_gain c (fold (\<lambda>kv. withdraw_share a (snd kv)) (owned_shares a c) c)"
    by (rule no_gain_fold) (rule no_gain_withdraw)
  note dropped = no_gain_trans [OF no_gain_trans [OF this no_gain_drop] no_gain_discard]
  have "no_gain d (on_grants (retire_actor a) d)" for d
    by (rule no_gain_on_grants) (simp add: retire_actor_def dict_filter_images')
  from no_gain_trans [OF dropped this] show ?thesis unfolding revoke_actor_def .
qed

lemma no_gain_reset: "no_gain c (snd (reset_workspaces a c))"
proof -
  have "no_gain d (cancel_workspace_chats a i (discard_plans a (Some i) (on_grants (\<lambda>gs. snd (revoke a i gs)) d)))" for i d
    by (blast intro: no_gain_trans no_gain_revoke no_gain_discard no_gain_cancel)
  then have "no_gain c (fold (\<lambda>kv d. let i = sh_workspace_id (bw_share (snd kv)) in
         cancel_workspace_chats a i (discard_plans a (Some i) (on_grants (\<lambda>gs. snd (revoke a i gs)) d)))
         (owned_shares a c) c)"
    by (intro no_gain_fold) (simp add: Let_def)
  then show ?thesis unfolding reset_workspaces_def Let_def snd_conv
    by (rule no_gain_trans [OF _ no_gain_drop])
qed

lemma no_gain_delete_share: "no_gain c (c\<lparr>c_browser := AList.delete k (c_browser c)\<rparr>)"
  by (rule no_gain_browser) (rule delete_images)

lemma no_gain_revoke_workspace: "no_gain c (snd (revoke_workspace a i c))"
proof -
  let ?c1 = "case get_grant a i (a_grants (c_auth c)) of Some x \<Rightarrow> if revoked x then c else on_grants (\<lambda>gs. snd (revoke a i gs)) c | None \<Rightarrow> c"
  let ?c2 = "cancel_workspace_chats a i (discard_plans a (Some i) ?c1)"
  have "no_gain c ?c1" by (auto simp: no_gain_revoke split: option.split)
  then have "no_gain c ?c2" by (blast intro: no_gain_trans no_gain_discard no_gain_cancel)
  then show ?thesis unfolding revoke_workspace_def Let_def snd_conv
    by (rule no_gain_trans [OF _ no_gain_delete_share])
qed

lemma no_gain_receipt: "no_gain c (remember_receipt a i r c)"
proof (cases "map_of (c_browser c) (client_id a, i)")
  case (Some v)
  let ?v = "v\<lparr>bw_receipts := take 40 (r # bw_receipts v)\<rparr>"
  have "bw_actor ?v \<in> bw_actor ` snd ` set (c_browser c)"
    using lookup_holder [OF Some, of bw_actor] by simp
  then have u: "bw_actor ` snd ` set (AList.update (client_id a, i) ?v (c_browser c)) \<subseteq> bw_actor ` snd ` set (c_browser c)"
    by (rule update_holders)
  from Some have e: "remember_receipt a i r c = c\<lparr>c_browser := AList.update (client_id a, i) ?v (c_browser c)\<rparr>"
    by (simp only: remember_receipt_def put_workspace_def option.case)
  from u show ?thesis unfolding e by (rule no_gain_browser)
qed (simp add: remember_receipt_def)

lemma no_gain_requests: "no_gain c (c\<lparr>c_requests := r\<rparr>)"
  by (simp add: no_gain_def holders_def)

lemma no_gain_open_chat: "no_gain c (open_chat b fl c)"
  by (simp add: no_gain_def holders_def open_chat_def)

lemma no_gain_close_chat: "no_gain c (close_chat fl c)"
  by (simp add: no_gain_def holders_def close_chat_def)

section \<open>The invariant\<close>

text \<open>
  \<open>A\<close> holds the pairings that were approved on this machine, \<open>S\<close> the actors whose pairing was
  displaced by a new claim of its identifier, \<open>N\<close> is a law for the nonces a pairing remembers.
  Usable pairings are approved ones, every pairing's nonces obey the law, and every other actor with
  authority has a pairing in force.
\<close>

type_synonym nonce_law = "string \<Rightarrow> (string \<times> time) list \<Rightarrow> bool"

definition codev_ok :: "string set \<Rightarrow> actor set \<Rightarrow> nonce_law \<Rightarrow> codev \<Rightarrow> bool" where
  "codev_ok A S N c \<longleftrightarrow> dict_ok (c_pairs c) \<and> (\<forall>i p. pair_at i c = Some p \<longrightarrow> (usable p \<longrightarrow> i \<in> A) \<and> N i (np_nonces p)) \<and>
     (\<forall>a \<in> holders c - S. \<exists>i. in_force i a c)"

definition live_pair :: "string set \<Rightarrow> actor set \<Rightarrow> nonce_law \<Rightarrow> string \<Rightarrow> actor \<Rightarrow> codev \<Rightarrow> bool" where
  "live_pair A S N i a c \<longleftrightarrow> codev_ok A S N c \<and> in_force i a c"

interpretation plain: protocol "codev_ok A S N" "codev_ok A S N" for A S N
  by unfold_locales

interpretation serving: protocol "live_pair A S N i a" "codev_ok A S N" for A S N i a
  by unfold_locales (simp add: live_pair_def)

lemma same_pairs:
  assumes "c_pairs d = c_pairs c"
  shows "pair_at i d = pair_at i c" "in_force i a d \<longleftrightarrow> in_force i a c"
  using assms by (simp_all add: pair_at_def in_force_def)

lemma codev_ok_within:
  assumes "codev_ok A S N c" "within a c d" "in_force i a c"
  shows "codev_ok A S N d"
proof -
  from assms(2) have d: "c_pairs d = c_pairs c" "holders d \<subseteq> insert a (holders c)" by (simp_all add: within_def)
  have "\<forall>x \<in> holders d - S. \<exists>j. in_force j x c"
    using assms(1,3) d(2) unfolding codev_ok_def by blast
  with assms(1) d(1) show ?thesis unfolding codev_ok_def by (simp only: same_pairs [OF d(1)]) blast
qed

lemma codev_ok_no_gain:
  assumes "codev_ok A S N c" "no_gain c d"
  shows "codev_ok A S N d"
proof -
  from assms(2) have d: "c_pairs d = c_pairs c" "holders d \<subseteq> holders c" by (simp_all add: no_gain_def)
  have "\<forall>x \<in> holders d - S. \<exists>j. in_force j x c"
    using assms(1) d(2) unfolding codev_ok_def by blast
  with assms(1) d(1) show ?thesis unfolding codev_ok_def by (simp only: same_pairs [OF d(1)]) blast
qed

lemma live_within:
  assumes "live_pair A S N i a c" "within a c d"
  shows "live_pair A S N i a d"
proof -
  from assms(2) have d: "c_pairs d = c_pairs c" by (simp add: within_def)
  from assms(1) have c: "codev_ok A S N c" "in_force i a c" by (simp_all add: live_pair_def)
  from codev_ok_within [OF c(1) assms(2) c(2)] c(2) show ?thesis
    by (simp add: live_pair_def same_pairs [OF d])
qed

lemma codev_ok_revoke_local:
  assumes "codev_ok A S N c" "pair_at i c = Some q" "np_actor q = np_actor p" "np_nonces q = np_nonces p"
  shows "codev_ok A S N (revoke_local i p c)"
proof -
  have "no_gain (put_pair i (revoked_pair p) c) (revoke_local i p c)"
    unfolding revoke_local_def by (rule no_gain_revoke_actor)
  then have sub: "holders (revoke_local i p c) \<subseteq> holders c" by (simp add: no_gain_def)
  have gone: "np_actor p \<notin> holders (revoke_local i p c)"
    using revoke_local_ends [of p i c] by (simp add: no_authority_iff)
  have "\<exists>j. in_force j a (revoke_local i p c)" if a: "a \<in> holders (revoke_local i p c) - S" for a
  proof -
    from a sub assms(1) obtain j r where r: "pair_at j c = Some r" "usable r" "np_actor r = a"
      unfolding codev_ok_def in_force_def by blast
    with a gone assms(2,3) have "j \<noteq> i" by auto
    with r have "in_force j a (revoke_local i p c)" by (simp add: in_force_def)
    then show ?thesis ..
  qed
  moreover have "N i (np_nonces p)" using assms unfolding codev_ok_def by metis
  ultimately show ?thesis using assms(1) unfolding codev_ok_def by (auto simp: dict_simps)
qed

lemma codev_ok_law: "codev_ok A S N c \<Longrightarrow> pair_at i c = Some p \<Longrightarrow> N i (np_nonces p)"
  by (simp add: codev_ok_def)

lemma codev_ok_put:
  assumes "codev_ok A S N c" "pair_at i c = Some p" "np_actor p' = np_actor p" "usable p' \<Longrightarrow> i \<in> A"
    "usable p \<Longrightarrow> usable p'" "N i (np_nonces p')"
  shows "codev_ok A S N (put_pair i p' c)"
proof -
  have "in_force j a (put_pair i p' c)" if "in_force j a c" for j a
    using that assms(2,3,5) by (auto simp: in_force_def)
  then have "\<forall>x \<in> holders (put_pair i p' c) - S. \<exists>j. in_force j x (put_pair i p' c)"
    using assms(1) unfolding codev_ok_def holders_put_pair by blast
  with assms(1,4,6) show ?thesis unfolding codev_ok_def by (simp add: dict_simps)
qed

section \<open>Local authority and leases\<close>

lemma local_authority_cases:
  obtains (none) e where "pair_at i c = None" "local_authority w b i c = (Inl e, c)"
  | (kept) p where "pair_at i c = Some p" "local_check w b p c = Inr ()" "local_authority w b i c = (Inr (), c)"
  | (revoked) p e where "pair_at i c = Some p" "local_authority w b i c = (Inl e, revoke_local i p c)"
proof (cases "get_pair i c")
  case (Inl e)
  then show thesis by (intro none) (auto simp: local_authority_def get_pair_eval split: option.splits)
next
  case (Inr p)
  then have p: "pair_at i c = Some p" by (simp add: get_pair_iff)
  show thesis
  proof (cases "local_check w b p c")
    case (Inl e)
    with Inr p show thesis by (intro revoked) (auto simp: local_authority_def)
  next
    case r: (Inr u)
    with Inr p show thesis by (intro kept) (auto simp: local_authority_def)
  qed
qed

lemma local_authority_ok: "codev_ok A S N c \<Longrightarrow> codev_ok A S N (snd (local_authority w b i c))"
  by (cases rule: local_authority_cases [of i c w b]) (auto intro: codev_ok_revoke_local)

lemma local_authority_Inr:
  "local_authority w b i c = (Inr u, d) \<Longrightarrow> d = c \<and> (\<exists>p. pair_at i c = Some p \<and> local_check w b p c = Inr ())"
  by (cases rule: local_authority_cases [of i c w b]) auto

lemma local_check_live: "local_check w False p c = Inr () \<Longrightarrow> \<not> np_revoked p"
  by (auto simp: local_check_def result_iffs)

lemma upholds_local_authority: "upholds (live_pair A S N i a) (codev_ok A S N) (local_authority w b j)"
proof (rule upholdsI)
  fix c assume c: "live_pair A S N i a c"
  then have "codev_ok A S N c" by (simp add: live_pair_def)
  then have "codev_ok A S N (snd (local_authority w b j c))" by (rule local_authority_ok)
  with c show "codev_ok A S N (snd (local_authority w b j c)) \<and>
      (\<forall>u. fst (local_authority w b j c) = Inr u \<longrightarrow> live_pair A S N i a (snd (local_authority w b j c)))"
    by (cases "local_authority w b j c") (auto dest: local_authority_Inr)
qed

lemma accept_lease_Inr:
  "accept_lease env w i v statuses c = (Inr u, d) \<longleftrightarrow>
     (\<exists>p intent. pair_at i c = Some p \<and> validate_view env w (pi_origin (np_intent p)) (private_key p) v = Inr intent \<and>
        same_pairing intent (np_intent p) \<and> pi_status intent \<in> set statuses \<and>
        d = put_pair i (p\<lparr>np_intent := intent\<rparr>) c)"
  unfolding accept_lease_def by (auto simp: bindA_eq_Inr get_pair_iff)

lemma accept_lease_Inl: "accept_lease env w i v statuses c = (Inl e, d) \<Longrightarrow> d = c"
  unfolding accept_lease_def by (auto simp: bindA_def split: sum.splits prod.splits)

lemma accept_lease_ok:
  assumes "codev_ok A S N c" "i \<in> A" "set statuses \<subseteq> {Native_approved, Paired}"
  shows "codev_ok A S N (snd (accept_lease env w i v statuses c))"
proof (cases "accept_lease env w i v statuses c")
  case (Pair r d)
  show ?thesis
  proof (cases r)
    case (Inl e)
    with Pair assms(1) show ?thesis by (auto dest: accept_lease_Inl)
  next
    case (Inr u)
    with Pair obtain p intent where "pair_at i c = Some p" "pi_status intent \<in> set statuses"
      "d = put_pair i (p\<lparr>np_intent := intent\<rparr>) c" by (auto simp: accept_lease_Inr)
    moreover from this(1) assms(1) have "N i (np_nonces p)" by (intro codev_ok_law)
    ultimately show ?thesis using Pair assms by (auto intro!: codev_ok_put simp: usable_def)
  qed
qed

text \<open>The online confirmation, with the local checks around it.\<close>

definition lease_checks ::
  "crypto_env \<Rightarrow> codev_world \<Rightarrow> codev_world \<Rightarrow> codev_error + pairing_view \<Rightarrow> pairing_status list \<Rightarrow> string \<Rightarrow> unit codev_action" where
  "lease_checks env w w' answer statuses i = bindA (local_authority w False i) (\<lambda>_. bindA (liftA answer) (\<lambda>v.
     bindA (accept_lease env w' i v statuses) (\<lambda>_. local_authority w' False i)))"

lemma lease_checks_ok:
  assumes "codev_ok A S N c" "i \<in> A" "set statuses \<subseteq> {Native_approved, Paired}"
  shows "codev_ok A S N (snd (lease_checks env w w' answer statuses i c))"
proof -
  have la: "upholds (codev_ok A S N) (codev_ok A S N) (local_authority u False i)" for u
    by (rule plain.upholds_keep) (rule local_authority_ok)
  have al: "upholds (codev_ok A S N) (codev_ok A S N) (accept_lease env w' i v statuses)" for v
    by (rule plain.upholds_keep) (rule accept_lease_ok [OF _ assms(2,3)])
  have "upholds (codev_ok A S N) (codev_ok A S N) (lease_checks env w w' answer statuses i)"
    unfolding lease_checks_def by (intro plain.upholds_bind la al plain.upholds_pure pure_intros)
  from upholdsD(1) [OF this assms(1)] show ?thesis .
qed

lemma lease_checks_Inr:
  assumes "lease_checks env w w' answer statuses i c = (Inr u, d)" "set statuses \<subseteq> {Native_approved, Paired}"
  obtains p intent where "pair_at i c = Some p" "local_check w False p c = Inr ()"
    "pi_status intent \<in> set statuses" "d = put_pair i (p\<lparr>np_intent := intent\<rparr>) c" "usable (p\<lparr>np_intent := intent\<rparr>)"
    "local_check w' False (p\<lparr>np_intent := intent\<rparr>) d = Inr ()"
proof -
  from assms(1) obtain v d' where c: "local_authority w False i c = (Inr (), c)"
    and lease: "accept_lease env w' i v statuses c = (Inr (), d')"
    and later: "local_authority w' False i d' = (Inr u, d)"
    unfolding lease_checks_def by (fastforce simp: bindA_eq_Inr dest: local_authority_Inr)
  from lease obtain p intent where p: "pair_at i c = Some p" "pi_status intent \<in> set statuses"
    and d': "d' = put_pair i (p\<lparr>np_intent := intent\<rparr>) c" unfolding accept_lease_Inr by blast
  from local_authority_Inr [OF c] p(1) have now: "local_check w False p c = Inr ()" by auto
  from local_authority_Inr [OF later] d' have d: "d = d'" "local_check w' False (p\<lparr>np_intent := intent\<rparr>) d = Inr ()" by auto
  from local_check_live [OF d(2)] p(2) assms(2) have "usable (p\<lparr>np_intent := intent\<rparr>)" by (auto simp: usable_def)
  with p now d d' show thesis by (intro that) simp_all
qed

section \<open>Requests keep the invariant\<close>

lemma require_live_ok:
  assumes "codev_ok A S N c" "i \<in> A"
  shows "codev_ok A S N (snd (require_live env w w' answer h i c))"
proof -
  let ?st = "if h then [Native_approved, Paired] else [Paired]"
  have e: "require_live env w w' answer h i c = (case lease_checks env w w' answer ?st i c of
        (Inr _, c') \<Rightarrow> (Inr (), c')
      | (Inl _, c') \<Rightarrow> (case get_pair i c' of Inl e \<Rightarrow> (Inl e, c')
        | Inr p \<Rightarrow> (Inl (GrantDenied ''codev_pairing_no_longer_authorized''), revoke_local i p c')))"
    by (simp add: require_live_def lease_checks_def)
  obtain r d where rd: "lease_checks env w w' answer ?st i c = (r, d)" by force
  have d: "codev_ok A S N d" using lease_checks_ok [OF assms, of ?st env w w' answer] rd by auto
  show ?thesis
    using d by (auto simp: e rd get_pair_iff intro: codev_ok_revoke_local split: sum.split)
qed

lemma require_live_Inr:
  assumes "require_live env w w' answer h i c = (Inr u, d)"
  obtains p intent where "pair_at i c = Some p" "local_check w False p c = Inr ()"
    "pi_status intent = Paired \<or> h \<and> pi_status intent = Native_approved"
    "d = put_pair i (p\<lparr>np_intent := intent\<rparr>) c" "usable (p\<lparr>np_intent := intent\<rparr>)"
    "local_check w' False (p\<lparr>np_intent := intent\<rparr>) d = Inr ()"
proof -
  let ?st = "if h then [Native_approved, Paired] else [Paired]"
  have "lease_checks env w w' answer ?st i c = (Inr (), d)"
    using assms by (auto simp: require_live_def lease_checks_def split: prod.splits sum.splits)
  then show thesis
    by (rule lease_checks_Inr) (auto intro!: that split: if_splits)
qed

lemma upholds_require_live:
  assumes "i \<in> A"
  shows "upholds (live_pair A S N i a) (codev_ok A S N) (require_live env w w' answer h i)"
proof (rule upholdsI)
  fix c assume c: "live_pair A S N i a c"
  then have ok: "codev_ok A S N (snd (require_live env w w' answer h i c))"
    by (intro require_live_ok assms) (simp add: live_pair_def)
  have "live_pair A S N i a d" if r: "require_live env w w' answer h i c = (Inr u, d)" for u d
  proof -
    from r obtain p intent where "pair_at i c = Some p" "d = put_pair i (p\<lparr>np_intent := intent\<rparr>) c"
      "usable (p\<lparr>np_intent := intent\<rparr>)" by (rule require_live_Inr)
    with c have "in_force i a d" by (auto simp: live_pair_def in_force_def)
    with ok r show ?thesis by (simp add: live_pair_def)
  qed
  with ok show "codev_ok A S N (snd (require_live env w w' answer h i c)) \<and>
      (\<forall>u. fst (require_live env w w' answer h i c) = Inr u \<longrightarrow> live_pair A S N i a (snd (require_live env w w' answer h i c)))"
    by (metis prod.collapse)
qed

text \<open>Changes of the authority on behalf of one actor.\<close>

lemma within_auth:
  assumes "g_actor ` snd ` set (a_grants s) \<subseteq> insert a (g_actor ` snd ` set (a_grants (c_auth c)))"
    "p_actor ` snd ` set (a_plans s) \<subseteq> insert a (p_actor ` snd ` set (a_plans (c_auth c)))"
    "ap_actor ` approval ` snd ` set (a_approvals s) \<subseteq> insert a (ap_actor ` approval ` snd ` set (a_approvals (c_auth c)))"
  shows "within a c (c\<lparr>c_auth := s\<rparr>)"
  unfolding within_def holders_auth
  by (intro conjI Un_least order_trans [OF assms(1) insert_mono [OF holders_parts(1)]]
      order_trans [OF assms(2) insert_mono [OF holders_parts(2)]]
      order_trans [OF assms(3) insert_mono [OF holders_parts(3)]]
      order_trans [OF holders_parts(4) subset_insertI]) simp

lemma within_browser:
  assumes "bw_actor ` snd ` set bs \<subseteq> insert a (bw_actor ` snd ` set (c_browser c))"
  shows "within a c (c\<lparr>c_browser := bs\<rparr>)"
proof -
  have f: "c_auth (c\<lparr>c_browser := bs\<rparr>) = c_auth c" "c_browser (c\<lparr>c_browser := bs\<rparr>) = bs" by simp_all
  have "holders (c\<lparr>c_browser := bs\<rparr>) \<subseteq> insert a (holders c)"
    by (intro holders_mono) (simp_all only: f order_trans [OF assms insert_mono [OF holders_parts(4)]]
        order_trans [OF holders_parts(1) subset_insertI] order_trans [OF holders_parts(2) subset_insertI]
        order_trans [OF holders_parts(3) subset_insertI])
  then show ?thesis by (simp add: within_def)
qed

lemma upholds_within: "(\<And>c. within a c (snd (m c))) \<Longrightarrow> upholds (live_pair A S N i a) (codev_ok A S N) m"
  by (rule serving.upholds_keep) (rule live_within)

lemma upholds_no_gain: "(\<And>c. no_gain c (snd (m c))) \<Longrightarrow> upholds (live_pair A S N i a) (codev_ok A S N) m"
  by (rule upholds_within) (rule no_gain_within)

lemma on_auth_snd: "snd (on_auth f c) = c\<lparr>c_auth := snd (f (c_auth c))\<rparr>"
  by (simp add: on_auth_def split: prod.split)

text \<open>What each operation adds is the requesting actor's.\<close>

lemma issue_actors: "g_actor ` snd ` set (snd (issue now fresh r gs)) \<subseteq> insert (ir_actor r) (g_actor ` snd ` set gs)"
proof (cases rule: issue_cases [of r gs now fresh])
  case (denied e)
  then show ?thesis by (simp add: subset_insertI)
next
  case (granted fs)
  then show ?thesis
    using update_holders_insert [of g_actor _ "issue_grant now fresh r fs" gs] by simp
qed

lemma register_actors:
  "p_actor ` snd ` set (a_plans (snd (register env now p s))) \<subseteq> insert (p_actor p) (p_actor ` snd ` set (a_plans s))"
  (is "?L \<subseteq> ?R")
proof -
  have live: "p_actor ` snd ` set (live_plans now s) \<subseteq> p_actor ` snd ` set (a_plans s)"
    unfolding live_plans_def by (rule dict_filter_images')
  have upd: "p_actor ` snd ` set (AList.update k (p\<lparr>plan_hash := h\<rparr>) (live_plans now s)) \<subseteq> ?R" for k h
    using order_trans [OF update_holders_insert [of p_actor k "p\<lparr>plan_hash := h\<rparr>"] insert_mono [OF live]] by simp
  show ?thesis
    by (cases "register_check env p")
      (simp_all add: register_def Let_def upd subset_insertI order_trans [OF live subset_insertI])
qed

lemma approve_actors:
  "ap_actor ` approval ` snd ` set (a_approvals (snd (approve env now fresh token a pid hash ok s)))
     \<subseteq> insert a (ap_actor ` approval ` snd ` set (a_approvals s))"  (is "?L \<subseteq> ?R")
proof -
  have live: "ap_actor ` approval ` snd ` set (live_approvals now s) \<subseteq> ap_actor ` approval ` snd ` set (a_approvals s)"
    unfolding live_approvals_def by (rule dict_filter_images)
  have upd: "ap_actor ` approval ` snd ` set (AList.update k r (live_approvals now s)) \<subseteq> ?R"
    if "ap_actor (approval r) = a" for k r
    using order_trans [OF update_holders_insert [of "\<lambda>x. ap_actor (approval x)" k r] insert_mono]
      live that unfolding image_image by blast
  show ?thesis
    by (cases "approve_check now a pid hash ok s")
      (simp_all add: approve_def Let_def upd exact_approval_of_def subset_insertI order_trans [OF live subset_insertI])
qed

lemma consume_actors:
  "ap_actor ` approval ` snd ` set (a_approvals (snd (consume env now a aid token pid rv h s)))
     \<subseteq> ap_actor ` approval ` snd ` set (a_approvals s)" (is ?P)
  "p_actor ` snd ` set (a_plans (snd (consume env now a aid token pid rv h s))) \<subseteq> p_actor ` snd ` set (a_plans s)" (is ?Q)
proof -
  have upd: "ap_actor ` approval ` snd ` set (AList.update aid (r\<lparr>approval := (approval r)\<lparr>consumed := True\<rparr>\<rparr>) (a_approvals s))
      \<subseteq> ap_actor ` approval ` snd ` set (a_approvals s)" if "map_of (a_approvals s) aid = Some r" for r
    unfolding image_image
    by (rule update_holders [of "\<lambda>x. ap_actor (approval x)", unfolded image_image])
      (use lookup_holder [OF that, of "\<lambda>x. ap_actor (approval x)"] in \<open>simp only: image_image, simp\<close>)
  have "?P \<and> ?Q"
  proof (cases "consume_check env now a aid token pid rv h s")
    case (Inl e)
    then show ?thesis by (simp add: consume_def)
  next
    case (Inr rp)
    then obtain r p where rp: "consume_check env now a aid token pid rv h s = Inr (r, p)" by (cases rp) auto
    then show ?thesis
      using upd [OF consume_check_ok(1) [OF rp]] delete_images [of p_actor pid "a_plans s"]
      by (simp add: consume_def del: image_subset_iff)
  qed
  then show ?P ?Q by blast+
qed

lemma within_issue:
  "ir_actor r = a \<Longrightarrow> within a c (c\<lparr>c_auth := (c_auth c)\<lparr>a_grants := snd (issue now fresh r (a_grants (c_auth c)))\<rparr>\<rparr>)"
  using issue_actors [of now fresh r "a_grants (c_auth c)"] by (intro within_auth) (simp_all add: subset_insertI)

lemma within_register: "p_actor p = a \<Longrightarrow> within a c (c\<lparr>c_auth := snd (register env now p (c_auth c))\<rparr>)"
  using register_actors [of env now p "c_auth c"] by (intro within_auth) (simp_all add: subset_insertI)

lemma within_approve: "within a c (c\<lparr>c_auth := snd (approve env now fresh token a pid hash ok (c_auth c))\<rparr>)"
  using approve_actors [of env now fresh token a pid hash ok "c_auth c"]
  by (intro within_auth) (simp_all add: subset_insertI)

lemma consume_grants [simp]: "a_grants (snd (consume env now a aid token pid rv h s)) = a_grants s"
  by (simp add: consume_def split: sum.split prod.split)

lemma within_consume: "within a c (c\<lparr>c_auth := snd (consume env now a aid token pid rv h (c_auth c))\<rparr>)"
  by (intro within_auth order_trans [OF consume_actors(1) subset_insertI] order_trans [OF consume_actors(2) subset_insertI])
    (simp add: subset_insertI)

section \<open>The dispatch of a browser request\<close>

lemma pure_guards [pure_intros]: "pureA (validated b)" "pureA (deny b why)"
  by (simp_all add: validated_def deny_def pure_intros)

lemma pureA_prod [pure_intros]: "(\<And>x y. pureA (f x y)) \<Longrightarrow> pureA (case p of (x, y) \<Rightarrow> f x y)"
  by (cases p) simp

lemma within_put_workspace: "bw_actor v = a \<Longrightarrow> within a c (put_workspace a i v c)"
  unfolding put_workspace_def using update_holders_insert [of bw_actor _ v "c_browser c"]
  by (intro within_browser) simp

lemma upholds_put_workspace:
  "bw_actor v = a \<Longrightarrow> upholds (live_pair A S N i a) (codev_ok A S N) (updateA (put_workspace a j v))"
  by (rule upholds_within) (simp add: within_put_workspace)

lemma upholds_issue:
  "ir_actor r = a \<Longrightarrow> upholds (live_pair A S N i a) (codev_ok A S N)
     (on_auth (\<lambda>s'. case issue now fresh r (a_grants s') of (x, gs) \<Rightarrow> (x, s'\<lparr>a_grants := gs\<rparr>)))"
  by (rule upholds_within) (simp add: on_auth_snd split_beta Let_def within_issue)

lemma upholds_register: "p_actor p = a \<Longrightarrow> upholds (live_pair A S N i a) (codev_ok A S N) (on_auth (register env now p))"
  by (rule upholds_within) (simp add: on_auth_snd within_register)

lemma upholds_approve: "upholds (live_pair A S N i a) (codev_ok A S N) (on_auth (approve env now fresh token a pid hash ok))"
  by (rule upholds_within) (simp add: on_auth_snd within_approve)

lemma upholds_consume: "upholds (live_pair A S N i a) (codev_ok A S N) (on_auth (consume env now a aid token pid rv h))"
  by (rule upholds_within) (simp add: on_auth_snd within_consume)

lemma upholds_receipt: "upholds (live_pair A S N i a) (codev_ok A S N) (updateA (remember_receipt a' j r))"
  by (rule upholds_no_gain) (simp add: no_gain_receipt)

lemma no_gain_reshare: "no_gain c (if b then c else cancel_workspace_chats a j (discard_plans a (Some j) c))"
  by (simp add: no_gain_trans [OF no_gain_discard no_gain_cancel])

lemma upholds_reshare: "upholds (live_pair A S N i a) (codev_ok A S N)
    (updateA (\<lambda>c. if b then c else cancel_workspace_chats a' j (discard_plans a' (Some j) c)))"
  by (rule upholds_no_gain) (simp only: updateA_apply snd_conv no_gain_reshare)

lemmas serving_steps = serving.upholds_bind upholds_put_workspace upholds_issue upholds_register upholds_approve
  upholds_consume upholds_receipt upholds_reshare

lemma upholds_share: "upholds (live_pair A S N i a) (codev_ok A S N) (share_workspace te w fresh a sh)"
  unfolding share_workspace_def Let_def
  by (intro serving_steps serving.upholds_pure pure_intros) (simp_all add: share_issue_def)

lemma upholds_plan: "upholds (live_pair A S N i a) (codev_ok A S N) (plan_browser_patch te w fresh a r)"
  unfolding plan_browser_patch_def
  by (intro serving_steps serving.upholds_pure pure_intros) (simp_all add: browser_plan_def)

lemma upholds_authorize: "upholds (live_pair A S N i a) (codev_ok A S N) (authorize_browser_patch te w fresh token a r)"
  unfolding authorize_browser_patch_def Let_def split_beta
  by (intro serving_steps serving.upholds_pure pure_intros)

text \<open>The check a chat repeats, for any protocol that its online confirmation upholds.\<close>

lemma upholds_still_authorized:
  assumes "protocol live settled"
    "\<And>i. fl_pair fl = Some i \<Longrightarrow> upholds live settled (require_live (crypto te) w w' answer False i)"
  shows "upholds live settled (still_authorized te w w' answer fl)"
proof -
  note bind = protocol.upholds_bind [OF assms(1)] and pure = protocol.upholds_pure [OF assms(1)]
  have live: "upholds live settled (case fl_pair fl of None \<Rightarrow> returnA () | Some i \<Rightarrow> require_live (crypto te) w w' answer False i)"
  proof (cases "fl_pair fl")
    case None
    then show ?thesis by (simp add: pure pure_intros)
  next
    case (Some i)
    then show ?thesis using assms(2) by simp
  qed
  show ?thesis unfolding still_authorized_def
    by (cases "fl_grant fl"; simp only: option.case; intro bind live pure pure_intros)
qed

lemma upholds_on_failure:
  "upholds live settled m \<Longrightarrow> (\<And>c. settled c \<Longrightarrow> settled (f c)) \<Longrightarrow> upholds live settled (on_failure f m)"
  unfolding upholds_def on_failure_def by (fastforce split: prod.split sum.split)

lemma upholds_begin_chat:
  assumes "i \<in> A"
  shows "upholds (live_pair A S N i a) (codev_ok A S N)
    (begin_chat te stop w w' answer a' j (Some i) request message handoff gear kind selected grant)"
proof -
  have "upholds (live_pair A S N i a) (codev_ok A S N) (updateA (open_chat stop fl))" for fl
    by (rule upholds_no_gain) (simp add: no_gain_open_chat)
  moreover have "upholds (live_pair A S N i a) (codev_ok A S N)
      (on_failure (close_chat fl) (bindA (still_authorized te w w' answer fl) (\<lambda>_. returnA fl)))" if "fl_pair fl = Some i" for fl
  proof (intro upholds_on_failure serving.upholds_bind serving.upholds_pure [OF pureA_return])
    show "upholds (live_pair A S N i a) (codev_ok A S N) (still_authorized te w w' answer fl)"
      by (rule upholds_still_authorized [OF serving.protocol_axioms]) (use that assms in \<open>auto intro: upholds_require_live\<close>)
    show "codev_ok A S N (close_chat fl c)" if "codev_ok A S N c" for c
      using that no_gain_close_chat by (rule codev_ok_no_gain)
  qed
  ultimately show ?thesis unfolding begin_chat_def Let_def
    by (intro serving.upholds_bind serving.upholds_pure [OF pureA_lift] serving.upholds_pure [OF pureA_read]) simp_all
qed

lemma upholds_start_browser_chat:
  assumes "i \<in> A"
  shows "upholds (live_pair A S N i a) (codev_ok A S N) (start_browser_chat de i a' r)"
  unfolding start_browser_chat_def Let_def
  by (intro serving.upholds_bind upholds_begin_chat assms serving.upholds_pure pure_intros)

lemma upholds_dispatch_live:
  assumes "i \<in> A"
  shows "upholds (live_pair A S N i a) (codev_ok A S N) (dispatch_live de i a req)"
  unfolding dispatch_live_def Let_def
  by (cases req; simp only: browser_request.case split_beta;
    intro serving.upholds_bind upholds_share upholds_plan upholds_authorize upholds_start_browser_chat assms
      serving.upholds_pure pure_intros)

lemma dispatch_workspaces_ok:
  assumes "live_pair A S N i a c" "i \<in> A"
  shows "codev_ok A S N (snd (dispatch_workspaces de i req c))"
proof -
  from assms(1) obtain p where p: "get_pair i c = Inr p" "np_actor p = a"
    by (auto simp: live_pair_def in_force_def get_pair_iff)
  have gain: "upholds (live_pair A S N i a) (codev_ok A S N) (\<lambda>c. let (x, c') = f c in (Inr (g x), c'))"
    if "\<And>c. no_gain c (snd (f c))" for f :: "codev \<Rightarrow> 'x \<times> codev" and g :: "'x \<Rightarrow> browser_reply"
    using that by (intro upholds_no_gain) (simp add: split_beta)
  have cancel: "upholds (live_pair A S N i a) (codev_ok A S N) (cancel_chat a' j)" for a' j
  proof (rule upholds_no_gain)
    show "no_gain c (snd (cancel_chat a' j c))" for c
      by (simp add: cancel_chat_def split_beta no_gain_requests split: option.split)
  qed
  let ?cont = "\<lambda>a. case req of
       Workspace_reset extra \<Rightarrow> bindA (deny extra ''unexpected_workspace_reset_input'')
         (\<lambda>_ c. let (es, c') = reset_workspaces a c in (Inr (Epochs_reply es), c'))
     | Chat_cancel j \<Rightarrow> bindA (validated (take 6 j = ''codev_'' \<and> hex_digest 32 (drop 6 j))) (\<lambda>_.
         bindA (cancel_chat a j) (\<lambda>b. returnA (Cancelled_reply b)))
     | Workspace_revoke j \<Rightarrow> bindA (validated (workspace_id_ok j))
         (\<lambda>_ c. let (e, c') = revoke_workspace a j c in (Inr (Epoch_reply j e), c'))
     | _ \<Rightarrow> bindA (liftA (raise_if (req \<in> Malformed_payload ` set early_paths) (ValueError ''validation error''))) (\<lambda>_.
         bindA (require_live (crypto (de_tools de)) (de_world de) (de_later de) (de_answer de) False i)
         (\<lambda>_. dispatch_live de i a req))"
  have "upholds (live_pair A S N i a) (codev_ok A S N) (?cont a)"
    by (cases req; simp only: browser_request.case;
      intro serving.upholds_bind upholds_require_live upholds_dispatch_live assms(2) gain cancel no_gain_reset
        no_gain_revoke_workspace serving.upholds_pure pure_intros)
  note served = upholdsD(1) [OF this assms(1)]
  have "dispatch_workspaces de i req c = ?cont (np_actor p) c"
    unfolding dispatch_workspaces_def Let_def by (rule bindA_Inr) (simp only: readA_apply p(1))
  with served show ?thesis by (simp only: p(2))
qed

lemma dispatch_ok:
  assumes "live_pair A S N i a c" "i \<in> A"
  shows "codev_ok A S N (snd (dispatch de i req c))"
proof -
  have status: "upholds (live_pair A S N i a) (codev_ok A S N) (bindA (deny extra ''unexpected_status_input'') (\<lambda>_.
         bindA (require_live (crypto (de_tools de)) (de_world de) (de_later de) (de_answer de) True i) (\<lambda>_.
         bindA (readA (get_pair i)) (\<lambda>p. returnA (Status_reply (pi_status (np_intent p)))))))" for extra
    by (intro serving.upholds_bind upholds_require_live assms(2) serving.upholds_pure pure_intros)
  from assms(1) obtain p where p: "get_pair i c = Inr p" "codev_ok A S N c"
    by (auto simp: live_pair_def in_force_def get_pair_iff)
  then have "codev_ok A S N (revoke_local i p c)" by (auto intro: codev_ok_revoke_local simp: get_pair_iff)
  with p upholdsD(1) [OF status assms(1)] dispatch_workspaces_ok [OF assms, of de req] show ?thesis
    by (cases req) (simp_all add: dispatch_def bindA_def deny_def raise_if_def)
qed

section \<open>Every operation keeps the invariant\<close>

definition flight_ok :: "string set \<Rightarrow> flight \<Rightarrow> bool" where
  "flight_ok A fl \<longleftrightarrow> (case fl_pair fl of None \<Rightarrow> True | Some i \<Rightarrow> i \<in> A)"

lemma still_authorized_ok:
  assumes "codev_ok A S N c" "flight_ok A fl"
  shows "codev_ok A S N (snd (still_authorized te w w' answer fl c))"
proof -
  have "upholds (codev_ok A S N) (codev_ok A S N) (still_authorized te w w' answer fl)"
    by (rule upholds_still_authorized [OF plain.protocol_axioms])
      (use assms(2) in \<open>auto intro!: plain.upholds_keep require_live_ok simp: flight_ok_def\<close>)
  from upholdsD(1) [OF this assms(1)] show ?thesis .
qed

lemma watch_chat_ok:
  assumes "codev_ok A S N c" "flight_ok A fl"
  shows "codev_ok A S N (watch_chat te w w' answer due fl c)"
proof -
  let ?fl = "if due then fl else fl\<lparr>fl_pair := None\<rparr>"
  have fl: "flight_ok A ?fl" using assms(2) by (simp add: flight_ok_def)
  obtain r d where d: "still_authorized te w w' answer ?fl c = (r, d)" by force
  with still_authorized_ok [OF assms(1) fl, of te w w' answer] have "codev_ok A S N d" by simp
  with d show ?thesis
    by (cases r) (auto simp: watch_chat_def intro: codev_ok_no_gain no_gain_requests)
qed

lemma deliver_chat_ok:
  assumes "codev_ok A S N c" "flight_ok A fl"
  shows "codev_ok A S N (snd (deliver_chat te w w' answer fl m c))"
proof -
  have sa: "upholds (codev_ok A S N) (codev_ok A S N) (still_authorized te w w' answer fl)"
    by (rule plain.upholds_keep) (rule still_authorized_ok [OF _ assms(2)])
  have receipt: "upholds (codev_ok A S N) (codev_ok A S N) (updateA (\<lambda>c. case fl_workspace fl of None \<Rightarrow> c
        | Some i \<Rightarrow> remember_receipt (fl_actor fl) i rc c))" for rc
    by (rule plain.upholds_keep) (auto intro: codev_ok_no_gain no_gain_receipt split: option.split)
  let ?m = "bindA (still_authorized te w w' answer fl) (\<lambda>_.
      bindA (readA (\<lambda>c. Inr (chat_outcome te (clock w') fl m (cancelled (fl_request_id fl) (c_requests c))))) (\<lambda>r.
      bindA (updateA (\<lambda>c. case fl_workspace fl of None \<Rightarrow> c
        | Some i \<Rightarrow> remember_receipt (fl_actor fl) i (reply_receipt r) c)) (\<lambda>_. returnA r)))"
  have "upholds (codev_ok A S N) (codev_ok A S N) ?m"
    by (intro plain.upholds_bind sa receipt plain.upholds_pure pure_intros)
  from upholdsD(1) [OF this assms(1)] have "codev_ok A S N (snd (?m c))" .
  from codev_ok_no_gain [OF this no_gain_close_chat]
  show ?thesis by (simp add: deliver_chat_def finally_do_def split_beta Let_def)
qed

lemma authenticate_Inr:
  assumes "authenticate env w site path pr payload c = (Inr u, d)"
  obtains p where "pair_at (pr_pairing_id pr) c = Some p" "usable p" "\<not> pair_expired w p"
    "proof_refused env w site path pr payload p = Inr False" "\<not> replay_or_flood pr (fresh_window w p)"
    "d = put_pair (pr_pairing_id pr) (note_request w pr (fresh_window w p)) c"
proof -
  from assms obtain p where p: "pair_at (pr_pairing_id pr) c = Some p"
    "proof_refused env w site path pr payload p = Inr False" "\<not> replay_or_flood pr (fresh_window w p)"
    and d: "local_authority w False (pr_pairing_id pr) (put_pair (pr_pairing_id pr) (note_request w pr (fresh_window w p))
       (put_pair (pr_pairing_id pr) (fresh_window w p) c)) = (Inr u, d)"
    unfolding authenticate_def Let_def
    by (auto simp: bindA_eq_Inr get_pair_iff raise_if_def split: if_splits)
  from local_authority_Inr [OF d] have "d = put_pair (pr_pairing_id pr) (note_request w pr (fresh_window w p))
      (put_pair (pr_pairing_id pr) (fresh_window w p) c)" by simp
  then have "d = put_pair (pr_pairing_id pr) (note_request w pr (fresh_window w p)) c"
    by (simp add: put_pair_def)
  moreover from p(2) have "usable p" "\<not> pair_expired w p"
    by (auto simp: proof_refused_def usable_def split: if_splits)
  ultimately show thesis using p by (intro that)
qed

lemma window_simps [simp]:
  "usable (fresh_window w p) = usable p" "np_actor (fresh_window w p) = np_actor p"
  "usable (note_request w pr p) = usable p" "np_actor (note_request w pr p) = np_actor p"
  by (simp_all add: fresh_window_def note_request_def usable_def)

lemma authenticate_outcome:
  obtains (untouched) "snd (authenticate env w site path pr payload c) = c"
  | (windowed) p where "pair_at (pr_pairing_id pr) c = Some p"
      "snd (authenticate env w site path pr payload c) = put_pair (pr_pairing_id pr) (fresh_window w p) c"
  | (noted) p where "pair_at (pr_pairing_id pr) c = Some p" "\<not> replay_or_flood pr (fresh_window w p)"
      "snd (authenticate env w site path pr payload c) = snd (local_authority w False (pr_pairing_id pr)
         (put_pair (pr_pairing_id pr) (note_request w pr (fresh_window w p)) (put_pair (pr_pairing_id pr) (fresh_window w p) c)))"
proof (cases "get_pair (pr_pairing_id pr) c")
  case (Inl e)
  then show thesis by (intro untouched) (simp add: authenticate_def Let_def bindA_def)
next
  case p: (Inr p)
  show thesis
  proof (cases "proof_refused env w site path pr payload p")
    case (Inl e)
    with p show thesis by (intro untouched) (simp add: authenticate_def Let_def bindA_def)
  next
    case (Inr b)
    note p' = p [unfolded get_pair_iff]
    show thesis
    proof (cases "b \<or> replay_or_flood pr (fresh_window w p)")
      case True
      with p Inr p' show thesis
        by (cases b) (simp_all add: authenticate_def Let_def bindA_def untouched windowed)
    next
      case False
      with p Inr p' show thesis
        by (intro noted [of p]) (simp_all add: authenticate_def Let_def bindA_def)
    qed
  qed
qed

lemma codev_ok_put_same:
  "codev_ok A S N c \<Longrightarrow> pair_at i c = Some p \<Longrightarrow> np_actor p' = np_actor p \<Longrightarrow> usable p' = usable p \<Longrightarrow>
     N i (np_nonces p') \<Longrightarrow> codev_ok A S N (put_pair i p' c)"
  by (rule codev_ok_put) (auto simp: codev_ok_def)

text \<open>A law that the bookkeeping of a request at this time keeps.\<close>

definition law_ok :: "nonce_law \<Rightarrow> codev_world \<Rightarrow> bool" where
  "law_ok N w \<longleftrightarrow> (\<forall>i ns. N i ns \<longrightarrow> N i (dict_filter (\<lambda>t. clock w - nonce_window < t) ns) \<and>
     (\<forall>k. map_of ns k = None \<longrightarrow> N i (AList.update k (clock w) ns)))"

lemma law_kept:
  assumes "law_ok N w" "codev_ok A S N c" "pair_at i c = Some p"
  shows "N i (np_nonces (fresh_window w p))"
    "\<not> replay_or_flood pr (fresh_window w p) \<Longrightarrow> N i (np_nonces (note_request w pr (fresh_window w p)))"
  using assms(1) codev_ok_law [OF assms(2,3)]
  by (auto simp: law_ok_def fresh_window_def note_request_def replay_or_flood_def)

lemma authenticate_ok:
  assumes c: "codev_ok A S N c" and law: "law_ok N w"
  shows "codev_ok A S N (snd (authenticate env w site path pr payload c))"
proof (cases rule: authenticate_outcome [of env w site path pr payload c])
  case untouched
  with c show ?thesis by simp
next
  case (windowed p)
  from codev_ok_put_same [OF c windowed(1) _ _ law_kept(1) [OF law c windowed(1)]] windowed(2) show ?thesis by simp
next
  case (noted p)
  let ?i = "pr_pairing_id pr" and ?q = "fresh_window w p"
  have q: "codev_ok A S N (put_pair ?i ?q c)"
    using codev_ok_put_same [OF c noted(1) _ _ law_kept(1) [OF law c noted(1)]] by simp
  have "codev_ok A S N (put_pair ?i (note_request w pr ?q) (put_pair ?i ?q c))"
    using codev_ok_put_same [OF q, of ?i ?q "note_request w pr ?q"] law_kept(2) [OF law c noted(1,2)] by simp
  then show ?thesis unfolding noted(3) by (rule local_authority_ok)
qed

lemma authenticate_live:
  assumes "authenticate env w site path pr payload c = (Inr u, d)" "codev_ok A S N c" "law_ok N w"
  shows "\<exists>a. live_pair A S N (pr_pairing_id pr) a d" "pr_pairing_id pr \<in> A"
proof -
  from assms(1) obtain p where p: "pair_at (pr_pairing_id pr) c = Some p" "usable p"
    "d = put_pair (pr_pairing_id pr) (note_request w pr (fresh_window w p)) c" by (rule authenticate_Inr)
  have "codev_ok A S N d" using authenticate_ok [OF assms(2,3), of env site path pr payload] assms(1) by simp
  with p show "\<exists>a. live_pair A S N (pr_pairing_id pr) a d" by (auto simp: live_pair_def in_force_def)
  from p(1,2) assms(2) show "pr_pairing_id pr \<in> A" by (auto simp: codev_ok_def)
qed

section \<open>Claims, native actions and sweeps\<close>

lemma pair_at_delete [simp]: "pair_at j (delete_pair i c) = (if j = i then None else pair_at j c)"
  by (simp add: pair_at_def delete_pair_def delete_conv')

lemma holders_delete_pair [simp]: "holders (delete_pair i c) = holders c"
  by (simp add: holders_def delete_pair_def)

lemma codev_ok_delete:
  assumes "codev_ok A S N c" "\<And>p. pair_at i c = Some p \<Longrightarrow> \<not> usable p"
  shows "codev_ok A S N (delete_pair i c)"
proof -
  have "in_force j a (delete_pair i c)" if "in_force j a c" for j a
    using that assms(2) by (auto simp: in_force_def)
  then have "\<forall>x \<in> holders (delete_pair i c) - S. \<exists>j. in_force j x (delete_pair i c)"
    using assms(1) unfolding codev_ok_def holders_delete_pair by blast
  with assms(1) show ?thesis unfolding codev_ok_def
    by (simp add: delete_pair_def dict_simps) (simp add: pair_at_def dict_simps)
qed

lemma prune_fold:
  assumes "codev_ok A S N d" "distinct (map fst xs)" "\<forall>(i, p) \<in> set xs. pair_at i d = Some p"
  shows "codev_ok A S N (fold (\<lambda>(i, p) d. if np_revoked p \<or> pair_expired w p then delete_pair i (revoke_local i p d) else d) xs d) \<and>
    (\<forall>j q. pair_at j (fold (\<lambda>(i, p) d. if np_revoked p \<or> pair_expired w p then delete_pair i (revoke_local i p d) else d) xs d) = Some q
       \<longrightarrow> pair_at j d = Some q)"
  using assms
proof (induction xs arbitrary: d)
  case (Cons x xs)
  obtain i p where x: "x = (i, p)" by force
  let ?d = "if np_revoked p \<or> pair_expired w p then delete_pair i (revoke_local i p d) else d"
  from Cons.prems x have p: "pair_at i d = Some p" by simp
  have "codev_ok A S N (revoke_local i p d)" by (rule codev_ok_revoke_local [OF Cons.prems(1) p]) simp_all
  then have ok: "codev_ok A S N ?d" using Cons.prems(1) by (auto intro!: codev_ok_delete)
  have rest: "\<forall>(j, q) \<in> set xs. pair_at j ?d = Some q" using Cons.prems x by (fastforce simp: rev_image_eqI)
  have sub: "pair_at j ?d = Some q \<longrightarrow> pair_at j d = Some q" for j q by simp
  from Cons.IH [OF ok _ rest] Cons.prems(2) sub show ?case by (simp add: x)
qed simp

lemma prune_ok:
  assumes "codev_ok A S N c"
  shows "codev_ok A S N (prune_pairs w c)" "pair_at j (prune_pairs w c) = Some q \<Longrightarrow> pair_at j c = Some q"
proof -
  from assms have d: "distinct (map fst (c_pairs c))" by (simp add: codev_ok_def dict_ok_def)
  then have "\<forall>(i, p) \<in> set (c_pairs c). pair_at i c = Some p" by (auto simp: pair_at_def)
  from prune_fold [OF assms d this, of w] show "codev_ok A S N (prune_pairs w c)"
    "pair_at j (prune_pairs w c) = Some q \<Longrightarrow> pair_at j c = Some q"
    unfolding prune_pairs_def by blast+
qed

lemma sweep_ok: "codev_ok A S N c \<Longrightarrow> codev_ok A S N (revoke_unavailable_pairs w c)"
proof -
  have step: "codev_ok A S N d \<Longrightarrow> codev_ok A S N (sweep_pair w i d)" for i d
    by (auto simp: sweep_pair_def local_authority_ok split: sum.split)
  have "codev_ok A S N d \<Longrightarrow> codev_ok A S N (fold (\<lambda>(i, _). sweep_pair w i) xs d)" for xs :: "(string \<times> native_pairing) list" and d
    by (induction xs arbitrary: d) (auto simp: step)
  then show "codev_ok A S N c \<Longrightarrow> codev_ok A S N (revoke_unavailable_pairs w c)" by (simp add: revoke_unavailable_pairs_def)
qed

lemma claim_outcome:
  obtains (refused) "snd (claim env w w' client code answer key secret fresh c) \<in> {c, prune_pairs w c}"
  | (claimed) v i a native login where "answer = Inr v"
      "admit_view env w' login client code key fresh v native (prune_pairs w c) = Inr (i, a)"
      "snd (claim env w w' client code answer key secret fresh c) =
         put_pair (intent_id i) (new_pair i client native (snd login) a key secret) (prune_pairs w c)"
proof (cases "bindR (require_native_session w client False (c_sessions c)) (\<lambda>native. bindR (account_principal w) (\<lambda>login.
     bindR (check_code code) (\<lambda>_. Inr (native, login))))")
  case (Inl e)
  then show thesis
    by (intro refused) (auto simp: claim_def bindA_def bindR_def split: sum.splits)
next
  case (Inr r)
  obtain native login where r: "r = (native, login)" by (cases r)
  with Inr have pre: "require_native_session w client False (c_sessions c) = Inr native" "account_principal w = Inr login"
    "check_code code = Inr ()" by (auto simp: bindR_eq_Inr_iff)
  let ?d = "prune_pairs w c"
  show thesis
  proof (cases "16 \<le> length (c_pairs ?d)")
    case True
    with pre show thesis by (intro refused) (simp add: claim_def bindA_def raise_if_def)
  next
    case room: False
    show thesis
    proof (cases answer)
      case (Inl e)
      with pre room show thesis by (intro refused) (simp add: claim_def bindA_def raise_if_def)
    next
      case v: (Inr v)
      show thesis
      proof (cases "admit_view env w' login client code key fresh v native ?d")
        case (Inl e)
        with pre room v show thesis by (intro refused) (simp add: claim_def bindA_def raise_if_def)
      next
        case (Inr ia)
        with pre room v show thesis
          by (intro claimed [of v login native "fst ia" "snd ia"])
            (simp_all add: claim_def bindA_def raise_if_def Let_def split_beta)
      qed
    qed
  qed
qed

text \<open>The actor whose pairing in force a claim of the same identifier would replace.\<close>

definition displaces :: "codev_error + pairing_view \<Rightarrow> codev \<Rightarrow> actor \<Rightarrow> bool" where
  "displaces answer c a \<longleftrightarrow> (case answer of Inl _ \<Rightarrow> False | Inr v \<Rightarrow> in_force (intent_id (v_intent v)) a c)"

lemma admit_view_Inr:
  assumes "admit_view env w login client code key fresh v native c = Inr (i, a)"
  shows "i = v_intent v" "pi_status i = Pending"
  using assms by (auto simp: admit_view_def validate_view_def result_iffs split: prod.splits)

lemma claim_ok:
  assumes "codev_ok A S N c" "\<And>a. displaces answer c a \<Longrightarrow> a \<in> S"
    "\<And>v. answer = Inr v \<Longrightarrow> N (intent_id (v_intent v)) []"
  shows "codev_ok A S N (snd (claim env w w' client code answer key secret fresh c))"
proof (cases rule: claim_outcome [of env w w' client code answer key secret fresh c])
  case refused
  with assms(1) prune_ok(1) [OF assms(1)] show ?thesis by auto
next
  case (claimed v i a native login)
  note i = admit_view_Inr [OF claimed(2)]
  let ?d = "prune_pairs w c" and ?n = "new_pair i client native (snd login) a key secret"
  have d: "codev_ok A S N ?d" by (rule prune_ok(1) [OF assms(1)])
  have new: "\<not> usable ?n" using i(2) by (simp add: usable_def new_pair_def)
  have keep: "in_force j x (put_pair (intent_id i) ?n ?d)" if "in_force j x ?d" "x \<notin> S" for j x
  proof -
    from that(1) prune_ok(2) [OF assms(1)] have old: "in_force j x c" by (auto simp: in_force_def)
    have "j \<noteq> intent_id i"
      using old that(2) assms(2) [of x] claimed(1) i(1) by (auto simp: displaces_def)
    with that(1) show ?thesis by (simp add: in_force_def)
  qed
  then have "\<forall>x \<in> holders (put_pair (intent_id i) ?n ?d) - S. \<exists>j. in_force j x (put_pair (intent_id i) ?n ?d)"
    using d unfolding codev_ok_def holders_put_pair by blast
  moreover have "N (intent_id i) (np_nonces ?n)" using assms(3) [OF claimed(1)] i(1) by (simp add: new_pair_def)
  ultimately have "codev_ok A S N (put_pair (intent_id i) ?n ?d)"
    using d new unfolding codev_ok_def by (simp add: dict_simps)
  then show ?thesis by (simp add: claimed(3))
qed

lemma native_ending_ok:
  assumes "codev_ok A S N c" "act \<in> {''deny'', ''revoke''}"
  shows "codev_ok A S N (snd (native_action env w w' client i act approved started answer c))"
proof (cases "bindR (require_native_session w client True (c_sessions c)) (\<lambda>n. bindR (get_pair i c) (\<lambda>p. Inr (n, p)))")
  case (Inl e)
  with assms have "snd (native_action env w w' client i act approved started answer c) = c"
    by (auto simp: native_action_def Let_def bindA_def bindR_def split: sum.splits)
  with assms(1) show ?thesis by simp
next
  case (Inr np)
  obtain n p where np: "np = (n, p)" by (cases np)
  with Inr have n: "require_native_session w client True (c_sessions c) = Inr n" and g: "get_pair i c = Inr p"
    by (auto simp: bindR_eq_Inr_iff)
  then have p: "pair_at i c = Some p" by (simp add: get_pair_iff)
  show ?thesis
  proof (cases rule: local_authority_cases [of i c w True])
    case (kept q)
    have "codev_ok A S N (revoke_local i p c)" by (rule codev_ok_revoke_local [OF assms(1) p]) simp_all
    with kept n g assms p show ?thesis
      by (cases "local_profile_id n = np_profile_id p") (auto simp: native_action_def Let_def bindA_def raise_if_def get_pair_eval)
  next
    case (none e)
    with n g assms show ?thesis by (auto simp: native_action_def Let_def bindA_def)
  next
    case (revoked q e)
    with codev_ok_revoke_local [OF assms(1) revoked(1)] n g assms(2) show ?thesis
      by (auto simp: native_action_def Let_def bindA_def)
  qed
qed

lemma native_confirm_outcome:
  assumes act: "act \<notin> {''deny'', ''revoke''}"
  obtains (same) "snd (native_action env w w' client i act approved started answer c) = c"
  | (revoked) p where "pair_at i c = Some p"
      "snd (native_action env w w' client i act approved started answer c) = revoke_local i p c"
  | (late) p q where "pair_at i c = Some p" "np_actor q = np_actor p" "np_nonces q = np_nonces p"
      "snd (native_action env w w' client i act approved started answer c) = revoke_local i q (put_pair i q c)"
  | (accepted) n p intent r where "require_native_session w client False (c_sessions c) = Inr n" "pair_at i c = Some p"
      "local_check w False p c = Inr ()" "local_profile_id n = np_profile_id p" "act = ''confirm''" "approved"
      "pi_status (np_intent p) = Pending"
      "native_action env w w' client i act approved started answer c = (Inr r, put_pair i (p\<lparr>np_intent := intent\<rparr>) c)"
proof (cases "bindR (require_native_session w client False (c_sessions c)) (\<lambda>n. bindR (get_pair i c) (\<lambda>p. Inr (n, p)))")
  case (Inl e)
  with act show thesis
    by (intro same) (auto simp: native_action_def Let_def bindA_def bindR_def split: sum.splits)
next
  case (Inr np)
  obtain n p where np: "np = (n, p)" by (cases np)
  with Inr have n: "require_native_session w client False (c_sessions c) = Inr n" and g: "get_pair i c = Inr p"
    by (auto simp: bindR_eq_Inr_iff)
  then have p: "pair_at i c = Some p" by (simp add: get_pair_iff)
  show thesis
  proof (cases rule: local_authority_cases [of i c w False])
    case (none e)
    with n g act show thesis by (intro same) (auto simp: native_action_def Let_def bindA_def)
  next
    case lapsed: (revoked q e)
    with n g act show thesis by (intro revoked) (auto simp: native_action_def Let_def bindA_def)
  next
    case (kept q)
    with p have la: "local_authority w False i c = (Inr (), c)" and lc: "local_check w False p c = Inr ()" by simp_all
    show thesis
    proof (cases "local_profile_id n = np_profile_id p \<and> act = ''confirm'' \<and> approved \<and> pi_status (np_intent p) = Pending \<and> started")
      case False
      with n g act la show thesis
        by (intro same) (auto simp: native_action_def Let_def bindA_def raise_if_def)
    next
      case guard: True
      show thesis
      proof (cases "bindA (liftA answer) (\<lambda>v. accept_lease env w' i v [Native_approved]) c")
        case (Pair r d)
        show thesis
        proof (cases r)
          case (Inl e)
          with Pair have "d = c" by (auto simp: bindA_def split: sum.splits dest: accept_lease_Inl)
          with Pair Inl guard n g la show thesis
            by (intro same) (auto simp: native_action_def Let_def bindA_def split: sum.splits)
        next
          case r: (Inr u)
          with Pair obtain v where v: "answer = Inr v" "accept_lease env w' i v [Native_approved] c = (Inr (), d)"
            by (auto simp: bindA_def split: sum.splits)
          then obtain intent where d: "d = put_pair i (p\<lparr>np_intent := intent\<rparr>) c"
            using p by (auto simp: accept_lease_Inr)
          have at: "pair_at i d = Some (p\<lparr>np_intent := intent\<rparr>)" by (simp add: d)
          have e: "native_action env w w' client i act approved started answer c =
              bindA (local_authority w' False i) (\<lambda>_. bindA (readA (get_pair i)) (\<lambda>p'. returnA (summary env p', None))) d"
            using guard n g la v by (simp add: native_action_def Let_def bindA_def raise_if_def)
          show thesis
          proof (cases rule: local_authority_cases [of i d w' False])
            case (none e')
            with at show thesis by simp
          next
            case (revoked q e')
            with at p d show thesis by (intro late [of p q]) (auto simp: e bindA_def)
          next
            case (kept q)
            with at have "native_action env w w' client i act approved started answer c =
                (Inr (summary env (p\<lparr>np_intent := intent\<rparr>), None), put_pair i (p\<lparr>np_intent := intent\<rparr>) c)"
              by (simp add: e bindA_def get_pair_def pair_at_def d)
            note result = this
            from guard have "local_profile_id n = np_profile_id p" "act = ''confirm''" "approved" "pi_status (np_intent p) = Pending"
              by blast+
            from accepted [OF n p lc this result] show thesis .
          qed
        qed
      qed
    qed
  qed
qed

end
