(* ===== verification/CodevMachine.thy ===== *)
theory CodevMachine
  imports CodevInvariant
begin

text \<open>
  The Codev adapters as one machine.  Its operations are the calls that native windows, the online
  service, the browser, the sweeper and the chat monitors make, in any order; its state is that of
  the adapters and the chats whose model is still working.  The properties are what a person who
  pairs a browser relies on: nothing is served before the native approval, no authority outlives
  the pairing, no request is served twice and no answer is delivered without authority.
\<close>

section \<open>The machine\<close>

record codev_machine =
  m_broker :: broker
  m_flights :: "flight list"

abbreviation codev_of :: "codev_machine \<Rightarrow> codev" where
  "codev_of m \<equiv> br_codev (m_broker m)"

datatype codev_op =
    Open_native codev_world string
  | Claim_code codev_world codev_world string string "codev_error + pairing_view" string string string
  | Native_act codev_world codev_world string string string bool bool "codev_error + pairing_view"
  | Browser_post dispatch_env time http_request "(broker_proof \<times> string) option"
  | Sweep codev_world
  | Watch_chat codev_world codev_world "codev_error + pairing_view" bool flight
  | Deliver_chat codev_world codev_world "codev_error + pairing_view" flight model_response

definition on_codev :: "(codev \<Rightarrow> codev) \<Rightarrow> codev_machine \<Rightarrow> codev_machine" where
  "on_codev f m = m\<lparr>m_broker := (m_broker m)\<lparr>br_codev := f (codev_of m)\<rparr>\<rparr>"

definition new_flights :: "broker_response \<Rightarrow> flight list" where
  "new_flights r = (case r of Signed_reply (Inr (Flight_reply fl)) \<Rightarrow> [fl] | _ \<Rightarrow> [])"

definition post_browser :: "dispatch_env \<Rightarrow> time \<Rightarrow> http_request \<Rightarrow> (broker_proof \<times> string) option \<Rightarrow> codev_machine \<Rightarrow> codev_machine" where
  "post_browser de now r body m = (let (reply, b) = do_POST de now r body (m_broker m) in
     m\<lparr>m_broker := b, m_flights := new_flights reply @ m_flights m\<rparr>)"

text \<open>The monitor and the delivery of a chat concern a chat in flight; its delivery ends it.\<close>

primrec codev_step :: "tool_env \<Rightarrow> codev_op \<Rightarrow> codev_machine \<Rightarrow> codev_machine" where
  "codev_step te (Open_native w fresh) m = on_codev (\<lambda>c. c\<lparr>c_sessions := snd (open_native_session w fresh (c_sessions c))\<rparr>) m"
| "codev_step te (Claim_code w w' client code answer key secret fresh) m =
     on_codev (\<lambda>c. snd (claim (crypto te) w w' client code answer key secret fresh c)) m"
| "codev_step te (Native_act w w' client i act approved started answer) m =
     on_codev (\<lambda>c. snd (native_action (crypto te) w w' client i act approved started answer c)) m"
| "codev_step te (Browser_post de now r body) m = post_browser (de\<lparr>de_tools := te\<rparr>) now r body m"
| "codev_step te (Sweep w) m = on_codev (revoke_unavailable_pairs w) m"
| "codev_step te (Watch_chat w w' answer due fl) m =
     (if fl \<in> set (m_flights m) then on_codev (watch_chat te w w' answer due fl) m else m)"
| "codev_step te (Deliver_chat w w' answer fl r) m =
     (if fl \<in> set (m_flights m)
      then (on_codev (\<lambda>c. snd (deliver_chat te w w' answer fl r c)) m)\<lparr>m_flights := remove1 fl (m_flights m)\<rparr>
      else m)"

definition fresh_machine :: codev_machine where
  "fresh_machine = \<lparr>m_broker = \<lparr>br_codev = empty_codev, br_requests = []\<rparr>, m_flights = []\<rparr>"

text \<open>
  The native approval of a pairing: a session of the profile that claimed the code, valid for more
  than revocation, confirms it explicitly while it is pending and still authorised locally, and the
  confirmation succeeds.
\<close>

fun approves :: "tool_env \<Rightarrow> string \<Rightarrow> codev_op \<Rightarrow> codev_machine \<Rightarrow> bool" where
  "approves te i (Native_act w w' client j act approved up answer) m \<longleftrightarrow> j = i \<and> act = ''confirm'' \<and> approved \<and>
     (\<exists>n p. require_native_session w client False (c_sessions (codev_of m)) = Inr n \<and> pair_at i (codev_of m) = Some p \<and>
        local_profile_id n = np_profile_id p \<and> pi_status (np_intent p) = Pending \<and>
        local_check w False p (codev_of m) = Inr ()) \<and>
     (\<exists>r. fst (native_action (crypto te) w w' client i act approved up answer (codev_of m)) = Inr r)"
| "approves te i _ m \<longleftrightarrow> False"

lemma native_action_ok:
  assumes c: "codev_ok A S N (codev_of m)"
    and i: "approves te i (Native_act w w' client i act approved up answer) m \<Longrightarrow> i \<in> A"
  shows "codev_ok A S N (snd (native_action (crypto te) w w' client i act approved up answer (codev_of m)))"
proof (cases "act \<in> {''deny'', ''revoke''}")
  case True
  with c show ?thesis by (rule native_ending_ok)
next
  case False
  let ?c = "codev_of m"
  from False show ?thesis
  proof (cases rule: native_confirm_outcome [of act "crypto te" w w' client i approved up answer ?c])
    case same
    with c show ?thesis by simp
  next
    case (revoked p)
    from codev_ok_revoke_local [OF c revoked(1)] revoked(2) show ?thesis by simp
  next
    case (late p q)
    have "codev_ok A S N (revoke_local i q ?c)" by (rule codev_ok_revoke_local [OF c late(1) late(2,3) [symmetric]])
    moreover have "revoke_local i q (put_pair i q ?c) = revoke_local i q ?c"
      by (simp add: revoke_local_def put_pair_def)
    ultimately show ?thesis by (simp add: late(4))
  next
    case (accepted n p intent r)
    with i have "i \<in> A" by simp
    have "codev_ok A S N (put_pair i (p\<lparr>np_intent := intent\<rparr>) ?c)"
      using c accepted(2) \<open>i \<in> A\<close> accepted(7) by (intro codev_ok_put) (auto simp: usable_def intro: codev_ok_law)
    with accepted(8) show ?thesis by simp
  qed
qed

section \<open>Requests of the browser\<close>

lemma on_failure_Inr: "on_failure f m c = (Inr r, d) \<longleftrightarrow> m c = (Inr r, d)"
  by (auto simp: on_failure_def split: prod.splits sum.splits)

lemma begin_chat_flight:
  "begin_chat te stop w w' answer a j pair request message handoff gear kind selected grant c = (Inr fl, d) \<Longrightarrow> fl_pair fl = pair"
  unfolding begin_chat_def Let_def
  by (auto simp: bindA_eq_Inr on_failure_Inr)

lemma dispatch_flight:
  assumes "dispatch de i req c = (Inr (Flight_reply fl), d)"
  shows "fl_pair fl = Some i"
proof (cases req)
  case (Start_chat r)
  with assms show ?thesis
    by (auto simp: dispatch_def dispatch_workspaces_def dispatch_live_def start_browser_chat_def Let_def
        bindA_eq_Inr dest: begin_chat_flight)
qed (use assms in \<open>auto simp: dispatch_def dispatch_workspaces_def dispatch_live_def Let_def bindA_eq_Inr split_beta\<close>)

lemma rate_allowed_codev [simp]: "br_codev (snd (rate_allowed now b)) = br_codev b"
  by (simp add: rate_allowed_def Let_def)

lemma do_POST_outcome:
  obtains (refused) "fst (do_POST de now r body b) = Denied_403" "br_codev (snd (do_POST de now r body b)) = br_codev b"
  | (unauthenticated) pr payload e c where "body = Some (pr, payload)" "fst (do_POST de now r body b) = Denied_403"
      "authenticate (crypto (de_tools de)) (de_world de) (origin_of r) (http_path r) pr payload (br_codev b) = (Inl e, c)"
      "br_codev (snd (do_POST de now r body b)) = c"
  | (served) pr payload c x d where "body = Some (pr, payload)"
      "authenticate (crypto (de_tools de)) (de_world de) (origin_of r) (http_path r) pr payload (br_codev b) = (Inr (), c)"
      "dispatch de (pr_pairing_id pr) (de_decode de (http_path r) payload) c = (x, d)"
      "fst (do_POST de now r body b) = Signed_reply (case x of Inl _ \<Rightarrow> Inl ''Codev could not authorize or complete this request. Recheck the connection, workspace revision and grants.'' | Inr y \<Rightarrow> Inr y)"
      "br_codev (snd (do_POST de now r body b)) = d"
proof (cases "\<not> boundary r \<or> \<not> fst (rate_allowed now b) \<or> \<not> body_size_ok r \<or> \<not> body_type_ok r \<or> body = None")
  case True
  then show thesis by (intro refused) (auto simp: do_POST_def Let_def split_beta split: option.split)
next
  case False
  then obtain pr payload where body: "body = Some (pr, payload)" by auto
  show thesis
  proof (cases "proof_ok pr")
    case bad: False
    with False body show thesis by (intro refused) (simp_all add: do_POST_def Let_def split_beta)
  next
    case ok: True
    obtain x c where a: "authenticate (crypto (de_tools de)) (de_world de) (origin_of r) (http_path r) pr payload (br_codev b) = (x, c)"
      by (cases "authenticate (crypto (de_tools de)) (de_world de) (origin_of r) (http_path r) pr payload (br_codev b)")
    show thesis
    proof (cases x)
      case (Inl e)
      with False body ok a show thesis by (intro unauthenticated) (simp_all add: do_POST_def Let_def split_beta)
    next
      case (Inr u)
      obtain y d where d: "dispatch de (pr_pairing_id pr) (de_decode de (http_path r) payload) c = (y, d)"
        by (cases "dispatch de (pr_pairing_id pr) (de_decode de (http_path r) payload) c")
      with False body ok a Inr show thesis
        by (cases y; intro served [of pr payload c y d]) (simp_all add: do_POST_def Let_def split_beta)
    qed
  qed
qed

lemma do_POST_ok:
  assumes "codev_ok A S N (br_codev b)" "law_ok N (de_world de)"
  shows "codev_ok A S N (br_codev (snd (do_POST de now r body b)))"
    and "\<forall>fl \<in> set (new_flights (fst (do_POST de now r body b))). flight_ok A fl"
proof -
  have "codev_ok A S N (br_codev (snd (do_POST de now r body b))) \<and>
      (\<forall>fl \<in> set (new_flights (fst (do_POST de now r body b))). flight_ok A fl)"
  proof (cases rule: do_POST_outcome [of de now r body b])
    case refused
    with assms(1) show ?thesis by (simp add: new_flights_def)
  next
    case (unauthenticated pr payload e c)
    with authenticate_ok [OF assms, of "crypto (de_tools de)" "origin_of r" "http_path r" pr payload]
    show ?thesis by (simp add: new_flights_def)
  next
    case (served pr payload c x d)
    from authenticate_live [OF served(2) assms] obtain a where a: "live_pair A S N (pr_pairing_id pr) a c" "pr_pairing_id pr \<in> A"
      by blast
    from dispatch_ok [OF a, of de "de_decode de (http_path r) payload"] served(3) have "codev_ok A S N d" by simp
    moreover have "flight_ok A fl" if "fl \<in> set (new_flights (fst (do_POST de now r body b)))" for fl
    proof -
      from that served(4) have "x = Inr (Flight_reply fl)"
        by (auto simp: new_flights_def split: sum.splits browser_reply.splits)
      with served(3) dispatch_flight a(2) show ?thesis by (auto simp: flight_ok_def)
    qed
    ultimately show ?thesis using served(5) by simp
  qed
  then show "codev_ok A S N (br_codev (snd (do_POST de now r body b)))"
    "\<forall>fl \<in> set (new_flights (fst (do_POST de now r body b))). flight_ok A fl" by blast+
qed

section \<open>Histories\<close>

definition machine_ok :: "string set \<Rightarrow> actor set \<Rightarrow> nonce_law \<Rightarrow> codev_machine \<Rightarrow> bool" where
  "machine_ok A S N m \<longleftrightarrow> codev_ok A S N (codev_of m) \<and> (\<forall>fl \<in> set (m_flights m). flight_ok A fl)"

fun displaced_by :: "codev_op \<Rightarrow> codev_machine \<Rightarrow> actor \<Rightarrow> bool" where
  "displaced_by (Claim_code w w' client code answer key secret fresh) m a \<longleftrightarrow> displaces answer (codev_of m) a"
| "displaced_by _ m a \<longleftrightarrow> False"

fun claims :: "codev_op \<Rightarrow> string option" where
  "claims (Claim_code w w' client code (Inr v) key secret fresh) = Some (intent_id (v_intent v))"
| "claims _ = None"

fun served_at :: "codev_op \<Rightarrow> codev_world option" where
  "served_at (Browser_post de now r body) = Some (de_world de)"
| "served_at _ = None"

definition oversteps :: "tool_env \<Rightarrow> string set \<Rightarrow> actor set \<Rightarrow> nonce_law \<Rightarrow> codev_op \<Rightarrow> codev_machine \<Rightarrow> bool" where
  "oversteps te A S N op m \<longleftrightarrow> (\<exists>i. approves te i op m \<and> i \<notin> A) \<or> (\<exists>a. displaced_by op m a \<and> a \<notin> S) \<or>
     (\<exists>i. claims op = Some i \<and> \<not> N i []) \<or> (\<exists>w. served_at op = Some w \<and> \<not> law_ok N w)"

lemma on_codev_simps [simp]: "codev_of (on_codev f m) = f (codev_of m)" "m_flights (on_codev f m) = m_flights m"
  by (simp_all add: on_codev_def)

lemma machine_step_ok:
  assumes ok: "machine_ok A S N m" and within: "\<not> oversteps te A S N op m"
  shows "machine_ok A S N (codev_step te op m)"
proof -
  from ok have c: "codev_ok A S N (codev_of m)" and fl: "\<forall>fl \<in> set (m_flights m). flight_ok A fl"
    by (simp_all add: machine_ok_def)
  show ?thesis
  proof (cases op)
    case (Open_native w fresh)
    have "no_gain (codev_of m) ((codev_of m)\<lparr>c_sessions := snd (open_native_session w fresh (c_sessions (codev_of m)))\<rparr>)"
      by (simp add: no_gain_def holders_def)
    from codev_ok_no_gain [OF c this] fl Open_native show ?thesis by (simp add: machine_ok_def)
  next
    case (Claim_code w w' client code answer key secret fresh)
    with within have "\<And>a. displaces answer (codev_of m) a \<Longrightarrow> a \<in> S"
      "\<And>v. answer = Inr v \<Longrightarrow> N (intent_id (v_intent v)) []" by (auto simp: oversteps_def)
    from claim_ok [OF c this] fl Claim_code show ?thesis by (simp add: machine_ok_def)
  next
    case (Native_act w w' client i act approved up answer)
    with within have "approves te i (Native_act w w' client i act approved up answer) m \<Longrightarrow> i \<in> A"
      by (auto simp: oversteps_def)
    from native_action_ok [OF c this] fl Native_act show ?thesis by (simp add: machine_ok_def)
  next
    case (Browser_post de now r body)
    with within have "law_ok N (de_world (de\<lparr>de_tools := te\<rparr>))" by (auto simp: oversteps_def)
    from do_POST_ok [OF c this, of now r body] fl Browser_post show ?thesis
      by (auto simp: machine_ok_def post_browser_def split_beta Let_def)
  next
    case (Sweep w)
    from sweep_ok [OF c, of w] fl Sweep show ?thesis by (simp add: machine_ok_def)
  next
    case (Watch_chat w w' answer due f)
    with c fl watch_chat_ok [of A S N "codev_of m" f te w w' answer due] show ?thesis by (simp add: machine_ok_def)
  next
    case (Deliver_chat w w' answer f r)
    have "set (remove1 f (m_flights m)) \<subseteq> set (m_flights m)" by (rule set_remove1_subset)
    with Deliver_chat c fl deliver_chat_ok [of A S N "codev_of m" f te w w' answer r] show ?thesis
      by (auto simp: machine_ok_def)
  qed
qed

interpretation codev_history: guarded_machine "codev_step te" "machine_ok A S N" "oversteps te A S N" for te A S N
  by unfold_locales (rule machine_step_ok)

abbreviation history :: "tool_env \<Rightarrow> codev_op list \<Rightarrow> codev_machine" where
  "history te ops \<equiv> run (codev_step te) ops fresh_machine"

lemma fresh_machine_ok: "machine_ok A S N fresh_machine"
  by (simp add: machine_ok_def codev_ok_def fresh_machine_def empty_codev_def empty_authority_def holders_def
      pair_at_def dict_simps)

lemma history_broken:
  assumes "\<not> machine_ok A S N (history te ops)"
  obtains pre op post where "ops = pre @ op # post" "oversteps te A S N op (history te pre)"
  using codev_history.ended_by [OF fresh_machine_ok assms] by blast

lemma usable_was_approved:
  assumes "pair_at i (codev_of (history te ops)) = Some p" "usable p"
  shows "\<exists>pre op post. ops = pre @ op # post \<and> approves te i op (history te pre)"
proof -
  let ?N = "\<lambda>_ _. True"
  from assms have "\<not> machine_ok (- {i}) UNIV ?N (history te ops)" by (auto simp: machine_ok_def codev_ok_def)
  then obtain pre op post where "ops = pre @ op # post" "oversteps te (- {i}) UNIV ?N op (history te pre)"
    by (rule history_broken)
  then show ?thesis by (auto simp: oversteps_def law_ok_def)
qed

section \<open>What a paired browser can rely on, and its owner\<close>

text \<open>
  Claim C2. No browser request is served before the pairing was approved in the native application:
  whenever the broker answers a request with a signed reply, in whatever order claims, native
  actions, requests, sweeps and chats happened before, some earlier native action of a live session
  of the same local profile confirmed this very pairing, explicitly and while it was pending.
\<close>

theorem served_requests_were_approved:
  assumes "fst (do_POST de now r (Some (pr, payload)) (m_broker (history te ops))) = Signed_reply x"
  shows "\<exists>pre op post. ops = pre @ op # post \<and> approves te (pr_pairing_id pr) op (history te pre)"
proof (cases rule: do_POST_outcome [of de now r "Some (pr, payload)" "m_broker (history te ops)"])
  case (served pr' payload' c y d)
  then have "authenticate (crypto (de_tools de)) (de_world de) (origin_of r) (http_path r) pr payload
      (codev_of (history te ops)) = (Inr (), c)" by simp
  then obtain p where "pair_at (pr_pairing_id pr) (codev_of (history te ops)) = Some p" "usable p"
    by (rule authenticate_Inr)
  then show ?thesis by (rule usable_was_approved)
qed (use assms in auto)

text \<open>
  Along the histories of this machine, in which a request is one step and only browsers obtain
  grants, no authority outlives its pairing: whenever an actor holds a grant, a plan, an approval
  or a shared workspace, there is a pairing in force for it, and that pairing was approved natively.
  The condition is that no claim reused the identifier of its pairing while it was in force, which
  the online service, not this code, guarantees.  The code itself releases the lock of the pairing
  before a share takes effect, so a revocation in between leaves authority behind: see
  \<open>late_share_outlives_revocation\<close>.
\<close>

theorem browser_authority_needs_pairing:
  assumes holds: "\<not> no_authority a (codev_of (history te ops))"
    and unique: "\<forall>pre op post. ops = pre @ op # post \<longrightarrow> \<not> displaced_by op (history te pre) a"
  shows "\<exists>i p pre op post. pair_at i (codev_of (history te ops)) = Some p \<and> usable p \<and> np_actor p = a \<and>
    ops = pre @ op # post \<and> approves te i op (history te pre)"
proof -
  let ?N = "\<lambda>_ _. True"
  have "machine_ok UNIV (- {a}) ?N (history te ops)"
  proof (rule ccontr)
    assume "\<not> machine_ok UNIV (- {a}) ?N (history te ops)"
    then obtain pre op post where "ops = pre @ op # post" "oversteps te UNIV (- {a}) ?N op (history te pre)"
      by (rule history_broken)
    with unique show False by (auto simp: oversteps_def law_ok_def)
  qed
  with holds obtain i p where p: "pair_at i (codev_of (history te ops)) = Some p" "usable p" "np_actor p = a"
    by (auto simp: machine_ok_def codev_ok_def no_authority_iff in_force_def)
  from usable_was_approved [OF p(1,2)] p show ?thesis by blast
qed

text \<open>Nonces are remembered for as long as the request that carried them could be accepted.\<close>

definition remembers :: "string \<Rightarrow> string \<Rightarrow> time \<Rightarrow> nonce_law" where
  "remembers i n t = (\<lambda>j ns. j = i \<longrightarrow> (\<exists>s \<ge> t. (n, s) \<in> set ns))"

lemma set_update_new: "map_of xs k = None \<Longrightarrow> set (AList.update k v xs) = insert (k, v) (set xs)"
  by (induction xs) (auto split: if_splits)

lemma remembers_law: "clock v - nonce_window < t \<Longrightarrow> law_ok (remembers i n t) v"
  by (fastforce simp: law_ok_def remembers_def set_dict_filter set_update_new)

lemma remembered_is_replay:
  assumes "remembers i n t i (np_nonces p)" "clock w - nonce_window < t" "n = pr_nonce pr"
  shows "replay_or_flood pr (fresh_window w p)"
proof -
  from assms(1,2) obtain s where "(n, s) \<in> set (np_nonces (fresh_window w p))"
    by (fastforce simp: remembers_def fresh_window_def set_dict_filter)
  then have "map_of (np_nonces (fresh_window w p)) n \<noteq> None" by (auto simp: map_of_eq_None_iff rev_image_eqI)
  with assms(3) show ?thesis by (simp add: replay_or_flood_def)
qed

lemma proof_in_time: "proof_refused env w site path pr payload p = Inr False \<Longrightarrow> \<bar>clock w - timestamp_ms pr * 1000\<bar> \<le> 30000 * 1000"
  by (simp add: proof_refused_def split: if_splits)

lemma served_remembers:
  assumes ok: "codev_ok UNIV UNIV (\<lambda>_ _. True) (br_codev b)"
    and served: "fst (do_POST de now r (Some (pr, payload)) b) = Signed_reply x"
  shows "codev_ok UNIV UNIV (remembers (pr_pairing_id pr) (pr_nonce pr) (clock (de_world de)))
      (br_codev (snd (do_POST de now r (Some (pr, payload)) b)))"
    and "\<bar>clock (de_world de) - timestamp_ms pr * 1000\<bar> \<le> 30000 * 1000"
proof -
  let ?i = "pr_pairing_id pr" and ?w = "de_world de"
  let ?N = "remembers ?i (pr_nonce pr) (clock ?w)"
  from served obtain c y d where a: "authenticate (crypto (de_tools de)) ?w (origin_of r) (http_path r) pr payload (br_codev b) = (Inr (), c)"
    and d: "dispatch de ?i (de_decode de (http_path r) payload) c = (y, d)"
      "br_codev (snd (do_POST de now r (Some (pr, payload)) b)) = d"
    by (cases rule: do_POST_outcome [of de now r "Some (pr, payload)" b]) auto
  from a obtain p where p: "pair_at ?i (br_codev b) = Some p" "usable p"
    "proof_refused (crypto (de_tools de)) ?w (origin_of r) (http_path r) pr payload p = Inr False"
    "c = put_pair ?i (note_request ?w pr (fresh_window ?w p)) (br_codev b)"
    "\<not> replay_or_flood pr (fresh_window ?w p)" by (rule authenticate_Inr)
  show "\<bar>clock ?w - timestamp_ms pr * 1000\<bar> \<le> 30000 * 1000" by (rule proof_in_time [OF p(3)])
  have "?N j (np_nonces q)" if "pair_at j c = Some q" for j q
  proof (cases "j = ?i")
    case True
    with that p(4) have "q = note_request ?w pr (fresh_window ?w p)" by simp
    with p(5) have "(pr_nonce pr, clock ?w) \<in> set (np_nonces q)"
      by (simp add: note_request_def replay_or_flood_def set_update_new)
    then show ?thesis by (auto simp: remembers_def)
  qed (simp add: remembers_def)
  moreover have "law_ok (\<lambda>_ _. True) ?w" by (simp add: law_ok_def)
  from authenticate_live(1) [OF a ok this] obtain a' where "live_pair UNIV UNIV (\<lambda>_ _. True) ?i a' c" by blast
  ultimately have "live_pair UNIV UNIV ?N ?i a' c" by (simp add: live_pair_def codev_ok_def)
  from dispatch_ok [OF this] d show "codev_ok UNIV UNIV ?N (br_codev (snd (do_POST de now r (Some (pr, payload)) b)))"
    by (metis UNIV_I snd_conv)
qed

text \<open>
  Claim C5. A request is served at most once: after a signed reply to a proof, a request that carries
  the same proof is denied after every continuation in which no request is handled at a later clock
  than the replay and the identifier of the pairing is not claimed anew.
\<close>

theorem replayed_request_refused:
  assumes first: "fst (do_POST (de\<lparr>de_tools := te\<rparr>) now r (Some (pr, payload)) (m_broker (history te pre))) = Signed_reply x"
    and between: "\<forall>op \<in> set ops. claims op \<noteq> Some (pr_pairing_id pr)"
      "\<forall>op \<in> set ops. \<forall>v. served_at op = Some v \<longrightarrow> clock v \<le> clock (de_world de')"
  shows "fst (do_POST de' now' r' (Some (pr, payload'))
    (m_broker (history te (pre @ Browser_post de now r (Some (pr, payload)) # ops)))) = Denied_403"
proof (rule ccontr)
  let ?t = "clock (de_world de)" and ?w = "de_world de'"
  let ?N = "remembers (pr_pairing_id pr) (pr_nonce pr) ?t"
  let ?m = "codev_step te (Browser_post de now r (Some (pr, payload))) (history te pre)"
  let ?z = "run (codev_step te) ops ?m"
  assume "fst (do_POST de' now' r' (Some (pr, payload')) (m_broker (history te (pre @ Browser_post de now r (Some (pr, payload)) # ops)))) \<noteq> Denied_403"
  then obtain c where "authenticate (crypto (de_tools de')) ?w (origin_of r') (http_path r') pr payload' (codev_of ?z) = (Inr (), c)"
    by (cases rule: do_POST_outcome [of de' now' r' "Some (pr, payload')" "m_broker ?z"]) auto
  then obtain p where p: "pair_at (pr_pairing_id pr) (codev_of ?z) = Some p"
    "proof_refused (crypto (de_tools de')) ?w (origin_of r') (http_path r') pr payload' p = Inr False"
    "\<not> replay_or_flood pr (fresh_window ?w p)" by (rule authenticate_Inr)
  have "machine_ok UNIV UNIV (\<lambda>_ _. True) (history te pre)"
    by (rule ccontr, erule history_broken) (auto simp: oversteps_def law_ok_def)
  then have "codev_ok UNIV UNIV (\<lambda>_ _. True) (codev_of (history te pre))" by (simp add: machine_ok_def)
  note sr = served_remembers [OF this first]
  from sr(2) proof_in_time [OF p(2)] have soon: "clock ?w - nonce_window < ?t"
    by (simp add: nonce_window_def seconds_def)
  have start: "machine_ok UNIV UNIV ?N ?m"
    using sr(1) by (auto simp: machine_ok_def post_browser_def split_beta Let_def flight_ok_def split: option.split)
  have "\<not> ended_in (codev_step te) (oversteps te UNIV UNIV ?N) ops' m" if "set ops' \<subseteq> set ops" for ops' m
    using that
  proof (induction ops' arbitrary: m)
    case (Cons op ops')
    then have c: "claims op \<noteq> Some (pr_pairing_id pr)" and "\<forall>v. served_at op = Some v \<longrightarrow> clock v - nonce_window < ?t"
      using between soon by fastforce+
    then have "\<forall>v. served_at op = Some v \<longrightarrow> law_ok ?N v" by (blast intro: remembers_law)
    moreover from c have "\<forall>i. claims op = Some i \<longrightarrow> ?N i []" by (auto simp: remembers_def)
    ultimately have "\<not> oversteps te UNIV UNIV ?N op m" by (simp add: oversteps_def)
    with Cons show ?case by simp
  qed simp
  from codev_history.guarded_run [OF start this] have "machine_ok UNIV UNIV ?N ?z" by simp
  then have "?N (pr_pairing_id pr) (np_nonces p)" using p(1) by (auto simp: machine_ok_def intro: codev_ok_law)
  from remembered_is_replay [OF this soon] p(3) show False by simp
qed

lemma authenticate_moved:
  assumes "snd (authenticate env w site path pr payload c) \<noteq> c \<or> (\<exists>d. authenticate env w site path pr payload c = (Inr (), d))"
  shows "\<exists>p. pair_at (pr_pairing_id pr) c = Some p \<and> proof_refused env w site path pr payload p = Inr False"
proof (cases "bindR (get_pair (pr_pairing_id pr) c) (proof_refused env w site path pr payload)")
  case (Inl e)
  with assms show ?thesis by (auto simp: authenticate_def Let_def bindA_def bindR_def split: sum.splits)
next
  case (Inr b)
  then obtain p where p: "get_pair (pr_pairing_id pr) c = Inr p" "proof_refused env w site path pr payload p = Inr b"
    by (auto simp: bindR_eq_Inr_iff)
  with assms show ?thesis
    by (cases b) (auto simp: authenticate_def Let_def bindA_def get_pair_iff [symmetric])
qed

text \<open>
  Claim C9. Only a request signed by the paired browser does anything: whenever the broker answers
  with a signed reply or changes any Codev state, the pairing the proof names is in force and
  unexpired, the request came from its site with its session and account, the proof was made within
  thirty seconds, and its signature verifies over the site, the path, the nonce and the digest of
  the payload with the public key of the paired browser.
\<close>

theorem unsigned_request_changes_nothing:
  assumes "fst (do_POST de now r body b) \<noteq> Denied_403 \<or> br_codev (snd (do_POST de now r body b)) \<noteq> br_codev b"
  shows "\<exists>pr payload p msg. body = Some (pr, payload) \<and> pair_at (pr_pairing_id pr) (br_codev b) = Some p \<and> usable p \<and>
    \<not> pair_expired (de_world de) p \<and> origin_of r = pi_origin (np_intent p) \<and>
    pr_session_id pr = browser_session_id (np_intent p) \<and> pr_account_id pr = pi_account_id (np_intent p) \<and>
    \<bar>clock (de_world de) - timestamp_ms pr * 1000\<bar> \<le> 30000 * 1000 \<and>
    request_message (crypto (de_tools de)) (origin_of r) (http_path r) pr payload = Inr msg \<and>
    signature_ok (crypto (de_tools de)) (browser_public_key (np_intent p)) msg (pr_signature pr)"
proof -
  let ?env = "crypto (de_tools de)" and ?w = "de_world de"
  from assms obtain pr payload where body: "body = Some (pr, payload)"
    and moved: "snd (authenticate ?env ?w (origin_of r) (http_path r) pr payload (br_codev b)) \<noteq> br_codev b \<or>
      (\<exists>c. authenticate ?env ?w (origin_of r) (http_path r) pr payload (br_codev b) = (Inr (), c))"
    by (cases rule: do_POST_outcome [of de now r body b]) auto
  then obtain p where p: "pair_at (pr_pairing_id pr) (br_codev b) = Some p"
    "proof_refused ?env ?w (origin_of r) (http_path r) pr payload p = Inr False"
    using authenticate_moved by blast
  from p(2) have "usable p" by (auto simp: proof_refused_def usable_def split: if_splits)
  with body p show ?thesis by (auto simp: proof_refused_def bindR_eq_Inr_iff split: if_splits)
qed


lemma still_authorized_Inr:
  assumes "still_authorized te w w' answer fl c = (Inr (), d)"
  shows "signed_in w = Some (fl_login fl)" "ensure_available w = Inr ()" "c_requests d = c_requests c"
    "case fl_pair fl of None \<Rightarrow> True | Some i \<Rightarrow> \<exists>p. pair_at i d = Some p \<and> pi_status (np_intent p) = Paired \<and> \<not> np_revoked p"
    "case fl_grant fl of None \<Rightarrow> True | Some g \<Rightarrow> \<exists>g'. require (clock w') (fl_actor fl)
       (case fl_workspace fl of None \<Rightarrow> [] | Some i \<Rightarrow> i) (if fl_proposal fl then ''propose'' else ''read'') []
       (Some (epoch g)) None (a_grants (c_auth c)) = Inr g'"
proof -
  let ?check = "case fl_grant fl of None \<Rightarrow> returnA ()
     | Some g \<Rightarrow> bindA (readA (\<lambda>c. require (clock w') (fl_actor fl) (case fl_workspace fl of None \<Rightarrow> [] | Some i \<Rightarrow> i)
         (if fl_proposal fl then ''propose'' else ''read'') [] (Some (epoch g)) None (a_grants (c_auth c)))) (\<lambda>_. returnA ())"
  from assms obtain c' where login: "account_principal w = Inr (fl_login fl)" "ensure_available w = Inr ()"
    and pair: "(case fl_pair fl of None \<Rightarrow> returnA () | Some i \<Rightarrow> require_live (crypto te) w w' answer False i) c = (Inr (), c')"
    and grant: "?check c' = (Inr (), d)"
    unfolding still_authorized_def by (auto simp: bindA_eq_Inr deny_def raise_if_eq_Inr_iff)
  from login show "signed_in w = Some (fl_login fl)" "ensure_available w = Inr ()"
    by (auto simp: account_principal_def split: option.splits)
  from grant have d: "d = c'" by (auto simp: bindA_eq_Inr split: option.splits)
  have pair': "c_requests c' = c_requests c \<and> c_auth c' = c_auth c \<and> (case fl_pair fl of None \<Rightarrow> True
      | Some i \<Rightarrow> \<exists>p. pair_at i c' = Some p \<and> pi_status (np_intent p) = Paired \<and> \<not> np_revoked p)"
  proof (cases "fl_pair fl")
    case (Some i)
    with pair have "require_live (crypto te) w w' answer False i c = (Inr (), c')" by simp
    then obtain p intent where "pi_status intent = Paired" "c' = put_pair i (p\<lparr>np_intent := intent\<rparr>) c"
      "usable (p\<lparr>np_intent := intent\<rparr>)" by (rule require_live_Inr) auto
    with Some show ?thesis by (simp add: usable_def)
  qed (use pair in simp)
  then show "c_requests d = c_requests c"
    "case fl_pair fl of None \<Rightarrow> True | Some i \<Rightarrow> \<exists>p. pair_at i d = Some p \<and> pi_status (np_intent p) = Paired \<and> \<not> np_revoked p"
    unfolding d by blast+
  from grant pair' show "case fl_grant fl of None \<Rightarrow> True | Some g \<Rightarrow> \<exists>g'. require (clock w') (fl_actor fl)
       (case fl_workspace fl of None \<Rightarrow> [] | Some i \<Rightarrow> i) (if fl_proposal fl then ''propose'' else ''read'') []
       (Some (epoch g)) None (a_grants (c_auth c)) = Inr g'"
    by (cases "fl_grant fl") (auto simp: bindA_eq_Inr)
qed

lemma finally_do_Inr: "finally_do f m c = (Inr r, d) \<longleftrightarrow> (\<exists>d'. m c = (Inr r, d') \<and> d = f d')"
  by (auto simp: finally_do_def split: prod.splits)

lemma delivered_pairs:
  "c_pairs (close_chat fl c) = c_pairs c" "c_pairs (remember_receipt a i r c) = c_pairs c"
  using no_gain_close_chat no_gain_receipt by (simp_all add: no_gain_def)

text \<open>
  Claim C10. A model's answer is delivered only with authority: a live answer means that the login
  that began the chat is still signed in, the installation may be used, the request was not
  cancelled, the model finished in time, the pairing was confirmed online and is in force, and the
  grant it was begun under is still the one in force, unrevoked and unexpired, with the scope used.
\<close>

theorem delivered_chat_needs_authority:
  assumes "deliver_chat te w w' answer fl m c = (Inr reply, d)" "reply_live reply"
  shows "signed_in w = Some (fl_login fl) \<and> ensure_available w = Inr () \<and> model_live m False \<and>
    \<not> cancelled (fl_request_id fl) (c_requests c) \<and>
    (case fl_pair fl of None \<Rightarrow> True | Some i \<Rightarrow> \<exists>p. pair_at i d = Some p \<and> pi_status (np_intent p) = Paired \<and> \<not> np_revoked p) \<and>
    (case fl_grant fl of None \<Rightarrow> True | Some g \<Rightarrow>
       \<exists>g'. get_grant (fl_actor fl) (case fl_workspace fl of None \<Rightarrow> [] | Some i \<Rightarrow> i) (a_grants (c_auth c)) = Some g' \<and>
         epoch g' = epoch g \<and> \<not> revoked g' \<and> clock w' < g_expires_at g' \<and>
         (if fl_proposal fl then ''propose'' else ''read'') \<in> set (scopes g'))"
proof -
  from assms(1) obtain c' where sa: "still_authorized te w w' answer fl c = (Inr (), c')"
    and reply: "reply = chat_outcome te (clock w') fl m (cancelled (fl_request_id fl) (c_requests c'))"
    and d: "c_pairs d = c_pairs c'"
    by (auto simp: deliver_chat_def finally_do_Inr bindA_eq_Inr delivered_pairs split: option.splits)
  note parts = still_authorized_Inr [OF sa]
  from assms(2) reply have live: "model_live m (cancelled (fl_request_id fl) (c_requests c'))"
    by (auto simp: chat_outcome_def Let_def)
  then have "\<not> cancelled (fl_request_id fl) (c_requests c)" "model_live m False"
    using parts(3) by (auto simp: model_live_def)
  with parts show ?thesis by (auto simp: same_pairs(1) [OF d] require_eq_Inr split: option.splits)
qed

end
