(* ===== verification/CodevExample.thy ===== *)
theory CodevExample
  imports CodevMachine
begin

text \<open>
  One concrete history of the Codev machine, on which the properties of \<open>CodevMachine\<close> are applied:
  a native window opens, claims a code and confirms the pairing, and the browser shares a workspace.
\<close>

definition sample_key :: public_key where
  "sample_key = \<lparr>key_x = replicate 43 (CHR ''A''), key_y = replicate 43 (CHR ''B'')\<rparr>"

definition sample_tools :: tool_env where
  "sample_tools = \<lparr>crypto = \<lparr>base_env = \<lparr>sha256 = (\<lambda>_. replicate 64 (CHR ''a'')), isoformat = (\<lambda>_. [])\<rparr>,
     public_of = (\<lambda>_. sample_key), key_valid = (\<lambda>_. True),
     signature_ok = (\<lambda>_ _ s. s = replicate 86 (CHR ''A''))\<rparr>,
     unified_diff = (\<lambda>_ _ _. []), parse_proposal = (\<lambda>_. None)\<rparr>"

definition sample_intent :: "pairing_status \<Rightarrow> pairing_intent" where
  "sample_intent st = \<lparr>intent_id = ''pairing_00000001'', pi_account_id = ''account'', account_label = ''Ada'',
     pi_origin = site_origins ! 0, pi_surface = Marketplace, browser_session_id = replicate 32 (CHR ''s''),
     browser_public_key = sample_key, pi_expires_at = Aware (seconds 600), pi_status = st\<rparr>"

definition sample_view :: "pairing_status \<Rightarrow> codev_error + pairing_view" where
  "sample_view st = Inr \<lparr>v_keys_exact = True, v_grants_empty = True, v_pairing_id = ''pairing_00000001'',
     v_native_key = sample_key, v_intent = sample_intent st\<rparr>"

definition sample_code :: string where
  "sample_code = ''EC1.A.'' @ replicate 43 (CHR ''A'')"

definition pairing_ops :: "codev_op list" where
  "pairing_ops = [Open_native (sample_world 0) ''1'',
     Claim_code (sample_world 1) (sample_world 1) ''native_1'' sample_code (sample_view Pending) ''key'' ''secret'' ''1'',
     Native_act (sample_world 2) (sample_world 2) ''native_1'' ''pairing_00000001'' ''confirm'' True True (sample_view Native_approved)]"

definition sample_proof :: broker_proof where
  "sample_proof = \<lparr>pr_pairing_id = ''pairing_00000001'', pr_session_id = replicate 32 (CHR ''s''),
     pr_account_id = ''account'', pr_nonce = replicate 32 (CHR ''n''), timestamp_ms = 0,
     pr_signature = replicate 86 (CHR ''A'')\<rparr>"

definition sample_share :: browser_share where
  "sample_share = \<lparr>sh_workspace_id = ''w'', sh_surface = Marketplace, sh_draft_id = None, sh_label = ''Draft'',
     sh_base_revision = 0, sh_current_revision = 0, sh_content_hash = replicate 64 (CHR ''a''), sh_files = [],
     sh_scopes = [''read''], sh_explicitly_approved = True, sh_expected_epoch = 0\<rparr>"

definition sample_dispatch :: dispatch_env where
  "sample_dispatch = \<lparr>de_tools = sample_tools, de_world = sample_world 3, de_later = sample_world 3,
     de_answer = sample_view Paired, de_chat_world = sample_world 3, de_chat_later = sample_world 3,
     de_chat_answer = sample_view Paired, de_fresh = ''1'', de_token = ''t'', de_stop_set = False,
     de_decode = (\<lambda>_ _. Workspace_share sample_share)\<rparr>"

definition sample_request :: http_request where
  "sample_request = \<lparr>client_address = ''127.0.0.1'', http_path = ''/codev/workspace/share'',
     raw_headers = [(''Host'', ''127.0.0.1:47321''), (''Origin'', site_origins ! 0), (''Content-Length'', ''10''),
       (''Content-Type'', ''application/json'')]\<rparr>"


lemma bindA_weak: "m = m' \<Longrightarrow> bindA m f = bindA m' f"
  by simp

lemma bindR_weak: "m = m' \<Longrightarrow> bindR m f = bindR m' f"
  by simp

lemmas sample_defs = sample_key_def sample_tools_def sample_intent_def sample_view_def sample_code_def pairing_ops_def
  sample_proof_def sample_share_def sample_dispatch_def sample_request_def sample_world_def

lemma list_all_replicate: "list_all P (replicate n x) \<longleftrightarrow> n = 0 \<or> P x"
  by (cases n) (auto simp: list_all_iff)

lemma list_ex_replicate: "list_ex P (replicate n x) \<longleftrightarrow> 0 < n \<and> P x"
  by (cases n) (auto simp: list_ex_iff)

lemma digits_of_zero: "digits_of 0 = ''0''"
  by code_simp

lemmas evaluation = Let_def list_all_replicate list_ex_replicate digits_of_zero runtime_available_def live_capabilities_def unavailable_capabilities_def capability_manifest_def absent_installation_def resolve_installation_def account_principal_def installation_id_of_def ensure_available_def make_actor_def native_actor_def live_sessions_def open_native_session_def require_native_session_def hex_digest_def workspace_file_ok_def file_row_def workspace_hash_def empty_codev_def on_grants_def cancel_workspace_chats_def discard_plans_def owned_shares_def withdraw_share_def drop_shares_def revoke_actor_def revoked_pair_def put_pair_def revoke_local_def base64_char_def base64_text_def proof_ok_def components_def request_message_def intent_ok_def check_expiry_def validate_view_def pair_expired_def summary_def get_pair_def canonical_code_def check_code_def code_origin_def delete_pair_def prune_pairs_def browser_actor_def new_pair_def admit_view_def claim_def local_check_def local_authority_def same_pairing_def accept_lease_def native_action_def require_live_def nonce_window_def rate_window_def proof_refused_def fresh_window_def note_request_def replay_or_flood_def authenticate_def sweep_pair_def revoke_unavailable_pairs_def list_native_def word_char_def word_option_def first_char_def lower_word_def token_at_def word_at_def private_key_at_def home_at_def unsafe_text_def workspace_id_ok_def revision_ok_def patch_ok_def approve_ok_request_def share_ok_def validated_def deny_def on_auth_def workspace_of_def put_workspace_def remember_receipt_def status_of_def at_revision_def reset_workspaces_def revoke_workspace_def selected_files_def text_of_def share_refusal_def share_conflict_def share_issue_def share_workspace_def file_change_ok_def edit_change_def edit_changes_def browser_plan_def plan_browser_patch_def approval_receipt_def authorize_browser_patch_def reasoning_gears_def chat_request_ok_def owned_chats_def chat_busy_def chat_refusal_def open_chat_def close_chat_def finally_do_def on_failure_def still_authorized_def begin_chat_def watch_chat_def model_live_def proposal_fits_def chat_outcome_def deliver_chat_def cancel_chat_def start_browser_chat_def dispatch_live_def early_paths_def dispatch_workspaces_def dispatch_def broker_paths_def header_def boundary_def rate_allowed_def body_size_ok_def body_type_ok_def origin_of_def do_POST_def on_codev_def new_flights_def post_browser_def fresh_machine_def issue_def issue_check_def issue_request_files_def issue_grant_def grant_key_def get_grant_def require_def any_denied_def validate_client_binding_def empty_authority_def seconds_def site_origins_def no_requests_def bindA_def bindR_def raise_if_def updateA_def readA_def liftA_def returnA_def dict_filter_def all_scopes_def browser_scopes_def sorted_set_def run_def starts_with_def lower_def lower_char_def strip_def strip_by_def utf8_length_def space_char_def string_of_int_def

definition sample_pair :: "pairing_status \<Rightarrow> native_pairing" where
  "sample_pair st = \<lparr>np_intent = sample_intent st, native_client_id = ''native_1'', np_profile_id = ''u'',
     np_session_id = ''s'', np_actor = browser_actor (native_actor ''u'' ''1'') ''1'' (sample_intent st),
     private_key = ''key'', native_secret = ''secret'', np_revoked = False, np_nonces = [], np_requests = []\<rparr>"

definition sample_codev :: "pairing_status \<Rightarrow> codev" where
  "sample_codev st = \<lparr>c_sessions = [(''native_1'', \<lparr>ns_actor = native_actor ''u'' ''1'', local_session_id = ''s'',
       ns_expires_at = seconds 28800, ns_installation_id = Some ''i''\<rparr>)], c_auth = empty_authority,
     c_browser = [], c_chats = [], c_requests = no_requests,
     c_pairs = [(''pairing_00000001'', sample_pair st)]\<rparr>"

definition sample_broker :: "pairing_status \<Rightarrow> broker" where
  "sample_broker st = \<lparr>br_codev = sample_codev st, br_requests = []\<rparr>"

lemmas sample_states = sample_pair_def sample_codev_def sample_broker_def

lemma sample_paired: "m_broker (history sample_tools pairing_ops) = sample_broker Native_approved"
  by (simp add: evaluation sample_defs sample_states cong: bindA_weak bindR_weak let_weak_cong)

abbreviation sample_post :: codev_op where
  "sample_post \<equiv> Browser_post sample_dispatch 3 sample_request (Some (sample_proof, ''{}''))"

lemma sample_served:
  "\<exists>x. fst (do_POST sample_dispatch 3 sample_request (Some (sample_proof, ''{}'')) (sample_broker Native_approved)) = Signed_reply x"
  by (simp add: evaluation sample_defs sample_states cong: bindA_weak bindR_weak let_weak_cong)

lemma sample_shared:
  "bw_actor ` snd ` set (c_browser (br_codev (snd (do_POST sample_dispatch 3 sample_request (Some (sample_proof, ''{}'')) (sample_broker Native_approved)))))
     = {np_actor (sample_pair Paired)}"
  by (simp add: evaluation sample_defs sample_states cong: bindA_weak bindR_weak let_weak_cong)

lemma sample_names: "pr_pairing_id sample_proof = ''pairing_00000001''" "de_tools sample_dispatch = sample_tools"
  "clock (de_world sample_dispatch) = 3" "sample_dispatch\<lparr>de_tools := sample_tools\<rparr> = sample_dispatch"
  by (simp_all add: sample_proof_def sample_dispatch_def sample_world_def)

section \<open>The properties on the sample history\<close>

lemma served_requests_were_approved_witness:
  "\<exists>pre op post. pairing_ops = pre @ op # post \<and> approves sample_tools ''pairing_00000001'' op (history sample_tools pre)"
  using sample_served served_requests_were_approved [of sample_dispatch 3 sample_request sample_proof "''{}''" sample_tools pairing_ops]
  by (auto simp: sample_paired sample_names)

lemma replayed_request_refused_witness:
  "fst (do_POST sample_dispatch 3 sample_request (Some (sample_proof, ''{ }''))
     (m_broker (history sample_tools (pairing_ops @ sample_post # [Sweep (sample_world 4)])))) = Denied_403"
  using sample_served replayed_request_refused [of sample_tools sample_dispatch 3 sample_request sample_proof "''{}''" pairing_ops _
      "[Sweep (sample_world 4)]" sample_dispatch 3 sample_request "''{ }''"]
  by (auto simp: sample_paired sample_names)

lemma unsigned_request_changes_nothing_witness:
  "\<exists>p msg. pair_at ''pairing_00000001'' (br_codev (sample_broker Native_approved)) = Some p \<and>
     request_message (crypto sample_tools) (origin_of sample_request) (http_path sample_request) sample_proof ''{}'' = Inr msg \<and>
     signature_ok (crypto sample_tools) (browser_public_key (np_intent p)) msg (pr_signature sample_proof)"
  using sample_served unsigned_request_changes_nothing [of sample_dispatch 3 sample_request "Some (sample_proof, ''{}'')" "sample_broker Native_approved"]
  by (auto simp: sample_names)


text \<open>
  The race of \<open>dispatch\<close> with a revocation: the pairing was found live, then it is revoked by the native
  window, then the share, which no longer asks, takes effect.  The browser is left with a shared
  workspace and a grant although its pairing is revoked.
\<close>

definition race_state :: codev where
  "race_state = revoke_local ''pairing_00000001'' (sample_pair Paired) (sample_codev Paired)"

lemma late_share_outlives_revocation:
  "(\<exists>c. require_live (crypto sample_tools) (sample_world 3) (sample_world 3) (sample_view Paired) False ''pairing_00000001'' (sample_codev Paired)
       = (Inr (), c) \<and> c = sample_codev Paired) \<and>
   no_authority (np_actor (sample_pair Paired)) race_state \<and>
   (\<exists>st d. share_workspace sample_tools (sample_world 3) ''1'' (np_actor (sample_pair Paired)) sample_share race_state = (Inr st, d) \<and>
      \<not> no_authority (np_actor (sample_pair Paired)) d \<and> pair_at ''pairing_00000001'' d = Some (revoked_pair (sample_pair Paired)))"
proof (intro conjI)
  show "\<exists>c. require_live (crypto sample_tools) (sample_world 3) (sample_world 3) (sample_view Paired) False ''pairing_00000001'' (sample_codev Paired)
       = (Inr (), c) \<and> c = sample_codev Paired"
    by (simp add: evaluation sample_defs sample_states cong: bindA_weak bindR_weak let_weak_cong)
  show "no_authority (np_actor (sample_pair Paired)) race_state"
    by (simp add: race_state_def revoke_local_ends)
  have "\<not> isl (fst (share_workspace sample_tools (sample_world 3) ''1'' (np_actor (sample_pair Paired)) sample_share race_state)) \<and>
      bw_actor ` snd ` set (c_browser (snd (share_workspace sample_tools (sample_world 3) ''1'' (np_actor (sample_pair Paired)) sample_share race_state)))
        = {np_actor (sample_pair Paired)} \<and>
      pair_at ''pairing_00000001'' (snd (share_workspace sample_tools (sample_world 3) ''1'' (np_actor (sample_pair Paired)) sample_share race_state))
        = Some (revoked_pair (sample_pair Paired))"
    by (simp add: race_state_def retire_actor_def discard_def pair_at_def evaluation sample_defs sample_states cong: bindA_weak bindR_weak let_weak_cong)
  then show "\<exists>st d. share_workspace sample_tools (sample_world 3) ''1'' (np_actor (sample_pair Paired)) sample_share race_state = (Inr st, d) \<and>
      \<not> no_authority (np_actor (sample_pair Paired)) d \<and> pair_at ''pairing_00000001'' d = Some (revoked_pair (sample_pair Paired))"
    by (cases "share_workspace sample_tools (sample_world 3) ''1'' (np_actor (sample_pair Paired)) sample_share race_state";
        cases "fst (share_workspace sample_tools (sample_world 3) ''1'' (np_actor (sample_pair Paired)) sample_share race_state)")
      (auto simp: no_authority_iff holders_def)
qed

lemma sample_not_displaced:
  assumes "pairing_ops @ [sample_post] = pre @ op # post"
  shows "\<not> displaced_by op (history sample_tools pre) a"
  using assms
  by (auto simp: pairing_ops_def append_eq_Cons_conv Cons_eq_append_conv sample_view_def displaces_def in_force_def
      pair_at_def fresh_machine_def on_codev_def empty_codev_def)

lemma browser_authority_needs_pairing_witness:
  "\<exists>i p. pair_at i (codev_of (history sample_tools (pairing_ops @ [sample_post]))) = Some p \<and> usable p \<and>
     np_actor p = np_actor (sample_pair Paired)"
proof -
  have "\<not> no_authority (np_actor (sample_pair Paired)) (codev_of (history sample_tools (pairing_ops @ [sample_post])))"
    using sample_shared by (simp add: no_authority_iff holders_def sample_paired post_browser_def split_beta sample_names)
  from browser_authority_needs_pairing [OF this] sample_not_displaced show ?thesis by blast
qed

definition sample_grant :: workspace_grant where
  "sample_grant = issue_grant 3 ''1'' (share_issue (np_actor (sample_pair Paired)) sample_share) []"

definition granted_state :: codev where
  "granted_state = (sample_codev Paired)\<lparr>c_auth := empty_authority\<lparr>a_grants :=
     [(grant_key (np_actor (sample_pair Paired)) ''w'', sample_grant)]\<rparr>\<rparr>"

definition sample_flight :: flight where
  "sample_flight = \<lparr>fl_request_id = ''r'', fl_actor = np_actor (sample_pair Paired), fl_workspace = Some ''w'', fl_login = (''u'', ''s''),
     fl_grant = Some sample_grant, fl_pair = Some ''pairing_00000001'', fl_selected = [], fl_proposal = False\<rparr>"

definition sample_answer :: model_response where
  "sample_answer = \<lparr>invocation_status = Some ''ok'', response_source = Some ''live_invoker'', response_text = ''hi'',
     caveats = [], in_time = True\<rparr>"

lemma sample_delivered:
  "\<exists>reply d. deliver_chat sample_tools (sample_world 6) (sample_world 6) (sample_view Paired) sample_flight sample_answer granted_state =
     (Inr reply, d) \<and> reply_live reply"
  by (simp add: evaluation sample_defs sample_states sample_flight_def sample_answer_def cancelled_def granted_state_def sample_grant_def
      cong: bindA_weak bindR_weak let_weak_cong)

lemma delivered_chat_needs_authority_witness:
  "\<exists>reply d p g. deliver_chat sample_tools (sample_world 6) (sample_world 6) (sample_view Paired) sample_flight sample_answer granted_state =
       (Inr reply, d) \<and> reply_live reply \<and>
     pair_at ''pairing_00000001'' d = Some p \<and> pi_status (np_intent p) = Paired \<and> \<not> np_revoked p \<and>
     get_grant (np_actor (sample_pair Paired)) ''w'' (a_grants (c_auth granted_state)) = Some g \<and> epoch g = 1 \<and> \<not> revoked g \<and>
     ''read'' \<in> set (scopes g)"
proof -
  obtain reply d where r: "deliver_chat sample_tools (sample_world 6) (sample_world 6) (sample_view Paired) sample_flight sample_answer granted_state =
      (Inr reply, d)" "reply_live reply" using sample_delivered by blast
  have "epoch sample_grant = 1" by (simp add: sample_grant_def issue_grant_def share_issue_def sample_share_def)
  with delivered_chat_needs_authority [OF r] r show ?thesis by (auto simp: sample_flight_def)
qed

end
