(* ===== verification/MemoryItems.thy ===== *)
theory MemoryItems
  imports Actions Complex_Main
begin

text \<open>
  The data model of \<open>app/memory/schemas/memory_item.py\<close>: the enumerations, the nested models,
  \<open>MemoryItem\<close> and everything its validation checks, at construction and at every assignment
  of a field (\<open>validate_assignment=True\<close>; the nested models are plain and validate only when
  they are built).  Times are microseconds.  A finite Python float is its exact rational value;
  the items compare and copy such values but do not compute with them.
\<close>

type_synonym time = int

datatype memory_error =
    ValidationError string
  | ValueError string
  | KeyError string
  | ItemNotFound string
  | ItemAlreadyExists string
  | RevisionMismatch int int string
  | LegacyWriterDisabled
  | RuntimeError string

section \<open>Enumerations\<close>

datatype memory_class = Working | Conversation | Project | Research | Operational | Preference
  | Sealed_private | Audit

datatype memory_sensitivity = Public | Internal | Private | Sealed

datatype memory_mutability = Live_editable | Append_only | Review_required | Immutable | Not_yet_live

datatype memory_status = Active | Archived | Superseded | Provisional | Blocked

datatype source_kind = User_message | Assistant_inference | System_event | Project_update
  | Research_source | Imported_file | Runtime_trace | Manual_entry

datatype actor_kind = Kind_user | Kind_assistant | Kind_system | Kind_service

definition all_classes :: "memory_class list" where
  "all_classes = [Working, Conversation, Project, Research, Operational, Preference, Sealed_private, Audit]"

definition all_sensitivities :: "memory_sensitivity list" where
  "all_sensitivities = [Public, Internal, Private, Sealed]"

definition all_source_kinds :: "source_kind list" where
  "all_source_kinds = [User_message, Assistant_inference, System_event, Project_update,
     Research_source, Imported_file, Runtime_trace, Manual_entry]"

lemma set_all_classes [simp]: "set all_classes = UNIV"
proof -
  have "c \<in> set all_classes" for c by (cases c) (simp_all add: all_classes_def)
  then show ?thesis by blast
qed

lemma set_all_sensitivities [simp]: "set all_sensitivities = UNIV"
proof -
  have "s \<in> set all_sensitivities" for s by (cases s) (simp_all add: all_sensitivities_def)
  then show ?thesis by blast
qed

lemma set_all_source_kinds [simp]: "set all_source_kinds = UNIV"
proof -
  have "k \<in> set all_source_kinds" for k by (cases k) (simp_all add: all_source_kinds_def)
  then show ?thesis by blast
qed

primrec class_value :: "memory_class \<Rightarrow> string" where
  "class_value Working = ''working''"
| "class_value Conversation = ''conversation''"
| "class_value Project = ''project''"
| "class_value Research = ''research''"
| "class_value Operational = ''operational''"
| "class_value Preference = ''preference''"
| "class_value Sealed_private = ''sealed_private''"
| "class_value Audit = ''audit''"

primrec sensitivity_value :: "memory_sensitivity \<Rightarrow> string" where
  "sensitivity_value Public = ''public''"
| "sensitivity_value Internal = ''internal''"
| "sensitivity_value Private = ''private''"
| "sensitivity_value Sealed = ''sealed''"

primrec status_value :: "memory_status \<Rightarrow> string" where
  "status_value Active = ''active''"
| "status_value Archived = ''archived''"
| "status_value Superseded = ''superseded''"
| "status_value Provisional = ''provisional''"
| "status_value Blocked = ''blocked''"

primrec source_kind_value :: "source_kind \<Rightarrow> string" where
  "source_kind_value User_message = ''user_message''"
| "source_kind_value Assistant_inference = ''assistant_inference''"
| "source_kind_value System_event = ''system_event''"
| "source_kind_value Project_update = ''project_update''"
| "source_kind_value Research_source = ''research_source''"
| "source_kind_value Imported_file = ''imported_file''"
| "source_kind_value Runtime_trace = ''runtime_trace''"
| "source_kind_value Manual_entry = ''manual_entry''"

section \<open>Records\<close>

record memory_source =
  source_kind :: source_kind
  source_ref :: "string option"
  source_label :: "string option"
  captured_at_utc :: time

record memory_context_links =
  conversation_id :: "string option"
  project_id :: "string option"
  request_id :: "string option"
  parent_memory_id :: "string option"

record memory_revision_info =
  revision :: int
  supersedes_memory_id :: "string option"
  superseded_by_memory_id :: "string option"
  last_mutation_reason :: "string option"

record memory_flags =
  pinned :: bool
  user_declared :: bool
  inferred :: bool
  verified :: bool
  stale :: bool

record memory_item =
  memory_id :: string
  memory_class :: memory_class
  title :: string
  body :: string
  source :: memory_source
  context_links :: memory_context_links
  why_stored :: string
  sensitivity :: memory_sensitivity
  mutability :: memory_mutability
  status :: memory_status
  created_at_utc :: time
  updated_at_utc :: time
  created_by :: actor_kind
  updated_by :: actor_kind
  importance :: rat
  confidence :: "rat option"
  revision_info :: memory_revision_info
  flags :: memory_flags

definition no_flags :: memory_flags where
  "no_flags = \<lparr>pinned = False, user_declared = False, inferred = False, verified = False, stale = False\<rparr>"

definition no_links :: memory_context_links where
  "no_links = \<lparr>conversation_id = None, project_id = None, request_id = None, parent_memory_id = None\<rparr>"

section \<open>Field constraints\<close>

definition trim_char :: "char \<Rightarrow> bool" where
  \<comment> \<open>the white space that \<open>str_strip_whitespace\<close> strips: Unicode white space, without the four separators of \<open>str.strip\<close>\<close>
  "trim_char c \<longleftrightarrow> (let n = (of_char c :: nat) in
     (9 \<le> n \<and> n \<le> 13) \<or> n = 32 \<or> n = 133 \<or> n = 160)"

definition trim :: "string \<Rightarrow> string" where
  "trim s = strip_by trim_char s"

definition bounded :: "nat \<Rightarrow> nat \<Rightarrow> string \<Rightarrow> memory_error + string" where
  \<comment> \<open>\<open>str\<close> with \<open>min_length\<close> and \<open>max_length\<close> on a model that strips white space\<close>
  "bounded lo hi s = (let t = trim s in
     if length t < lo \<or> hi < length t then Inl (ValidationError ''string length out of bounds'') else Inr t)"

definition bounded_opt :: "nat \<Rightarrow> nat \<Rightarrow> string option \<Rightarrow> memory_error + string option" where
  "bounded_opt lo hi v = (case v of None \<Rightarrow> Inr None
     | Some s \<Rightarrow> bindR (bounded lo hi s) (\<lambda>t. Inr (Some t)))"

definition in_unit :: "rat \<Rightarrow> memory_error + rat" where
  "in_unit r = (if 0 \<le> r \<and> r \<le> 1 then Inr r else Inl (ValidationError ''number out of bounds''))"

definition in_unit_opt :: "rat option \<Rightarrow> memory_error + rat option" where
  "in_unit_opt v = (case v of None \<Rightarrow> Inr None | Some r \<Rightarrow> bindR (in_unit r) (\<lambda>x. Inr (Some x)))"

definition validate_memory_id :: "string \<Rightarrow> memory_error + string" where
  "validate_memory_id v =
     bindR (bounded 8 128 v) (\<lambda>t. let s = strip t in
       if s = [] then Inl (ValidationError ''memory_id cannot be empty.'') else Inr s)"

definition validate_required_text :: "nat \<Rightarrow> string \<Rightarrow> memory_error + string" where
  "validate_required_text hi v =
     bindR (bounded 1 hi v) (\<lambda>t. let s = strip t in
       if s = [] then Inl (ValidationError ''required text fields cannot be empty or whitespace.'')
       else Inr s)"

definition check_source :: "memory_source \<Rightarrow> memory_error + memory_source" where
  "check_source s =
     bindR (bounded_opt 0 256 (source_ref s)) (\<lambda>ref.
     bindR (bounded_opt 0 200 (source_label s)) (\<lambda>label.
     Inr (s\<lparr>source_ref := ref, source_label := label\<rparr>)))"

definition check_links :: "memory_context_links \<Rightarrow> memory_error + memory_context_links" where
  "check_links l =
     bindR (bounded_opt 0 128 (conversation_id l)) (\<lambda>c.
     bindR (bounded_opt 0 128 (project_id l)) (\<lambda>p.
     bindR (bounded_opt 0 128 (request_id l)) (\<lambda>r.
     bindR (bounded_opt 0 128 (parent_memory_id l)) (\<lambda>m.
     Inr \<lparr>conversation_id = c, project_id = p, request_id = r, parent_memory_id = m\<rparr>))))"

definition check_revision :: "memory_revision_info \<Rightarrow> memory_error + memory_revision_info" where
  "check_revision v =
     bindR (raise_if (revision v < 1) (ValidationError ''revision must be positive'')) (\<lambda>_.
     bindR (bounded_opt 0 128 (supersedes_memory_id v)) (\<lambda>a.
     bindR (bounded_opt 0 128 (superseded_by_memory_id v)) (\<lambda>b.
     bindR (bounded_opt 0 240 (last_mutation_reason v)) (\<lambda>r.
     Inr (v\<lparr>supersedes_memory_id := a, superseded_by_memory_id := b, last_mutation_reason := r\<rparr>)))))"

section \<open>The model validator\<close>

definition item_consistent :: "memory_item \<Rightarrow> bool" where
  \<comment> \<open>none of the conditions under which \<open>validate_memory_item\<close> raises holds\<close>
  "item_consistent m \<longleftrightarrow>
     created_at_utc m \<le> updated_at_utc m \<and>
     \<not> (memory_class m = Sealed_private \<and> mutability m = Live_editable) \<and>
     \<not> (memory_class m = Audit \<and> mutability m \<notin> {Append_only, Immutable, Review_required}) \<and>
     \<not> (sensitivity m = Sealed \<and> memory_class m \<noteq> Sealed_private) \<and>
     \<not> (status m = Superseded \<and> \<not> (truthy (superseded_by_memory_id (revision_info m)) \<or>
            truthy (last_mutation_reason (revision_info m)))) \<and>
     \<not> (status m = Provisional \<and> memory_class m = Research \<and> confidence m = None) \<and>
     \<not> (user_declared (flags m) \<and> created_by m \<notin> {Kind_user, Kind_service}) \<and>
     \<not> (verified (flags m) \<and> status m = Blocked)"

definition validate_memory_item :: "memory_item \<Rightarrow> memory_error + memory_item" where
  "validate_memory_item m =
     bindR (raise_if (updated_at_utc m < created_at_utc m)
       (ValidationError ''updated_at_utc cannot be earlier than created_at_utc.'')) (\<lambda>_.
     bindR (raise_if (memory_class m = Sealed_private \<and> mutability m = Live_editable)
       (ValidationError ''sealed_private memory cannot default to live_editable mutability.'')) (\<lambda>_.
     bindR (raise_if (memory_class m = Audit \<and> mutability m \<notin> {Append_only, Immutable, Review_required})
       (ValidationError ''audit memory must be append_only, immutable, or review_required.'')) (\<lambda>_.
     bindR (raise_if (sensitivity m = Sealed \<and> memory_class m \<noteq> Sealed_private)
       (ValidationError ''sealed sensitivity is reserved for sealed_private memory items.'')) (\<lambda>_.
     bindR (raise_if (status m = Superseded \<and>
         \<not> (truthy (superseded_by_memory_id (revision_info m)) \<or>
            truthy (last_mutation_reason (revision_info m))))
       (ValidationError ''superseded memory should reference a successor or explain the mutation reason.'')) (\<lambda>_.
     bindR (raise_if (status m = Provisional \<and> memory_class m = Research \<and> confidence m = None)
       (ValidationError ''provisional research memory should include a confidence score.'')) (\<lambda>_.
     bindR (raise_if (user_declared (flags m) \<and> created_by m \<notin> {Kind_user, Kind_service})
       (ValidationError ''user_declared memory should be created by the user or a service acting on explicit user input.'')) (\<lambda>_.
     bindR (raise_if (verified (flags m) \<and> status m = Blocked)
       (ValidationError ''blocked memory cannot simultaneously be marked verified.'')) (\<lambda>_.
     Inr m))))))))"

definition make_item :: "memory_item \<Rightarrow> memory_error + memory_item" where
  \<comment> \<open>\<open>MemoryItem(...)\<close> on nested models that already exist\<close>
  "make_item m =
     bindR (validate_memory_id (memory_id m)) (\<lambda>i.
     bindR (validate_required_text 160 (title m)) (\<lambda>t.
     bindR (validate_required_text 8000 (body m)) (\<lambda>b.
     bindR (validate_required_text 500 (why_stored m)) (\<lambda>w.
     bindR (in_unit (importance m)) (\<lambda>_.
     bindR (in_unit_opt (confidence m)) (\<lambda>_.
     validate_memory_item (m\<lparr>memory_id := i, title := t, body := b, why_stored := w\<rparr>)))))))"

definition load_item :: "memory_item \<Rightarrow> memory_error + memory_item" where
  \<comment> \<open>\<open>MemoryItem.model_validate\<close> on the JSON object of an item: the nested models are rebuilt\<close>
  "load_item m =
     bindR (check_source (source m)) (\<lambda>s.
     bindR (check_links (context_links m)) (\<lambda>l.
     bindR (check_revision (revision_info m)) (\<lambda>v.
     make_item (m\<lparr>source := s, context_links := l, revision_info := v\<rparr>))))"

section \<open>Validated assignment\<close>

definition set_title :: "string \<Rightarrow> memory_item \<Rightarrow> memory_error + memory_item" where
  "set_title v m = bindR (validate_required_text 160 v) (\<lambda>t. validate_memory_item (m\<lparr>title := t\<rparr>))"

definition set_body :: "string \<Rightarrow> memory_item \<Rightarrow> memory_error + memory_item" where
  "set_body v m = bindR (validate_required_text 8000 v) (\<lambda>t. validate_memory_item (m\<lparr>body := t\<rparr>))"

definition set_why_stored :: "string \<Rightarrow> memory_item \<Rightarrow> memory_error + memory_item" where
  "set_why_stored v m = bindR (validate_required_text 500 v) (\<lambda>t. validate_memory_item (m\<lparr>why_stored := t\<rparr>))"

definition set_class :: "memory_class \<Rightarrow> memory_item \<Rightarrow> memory_error + memory_item" where
  "set_class v m = validate_memory_item (m\<lparr>memory_class := v\<rparr>)"

definition set_sensitivity :: "memory_sensitivity \<Rightarrow> memory_item \<Rightarrow> memory_error + memory_item" where
  "set_sensitivity v m = validate_memory_item (m\<lparr>sensitivity := v\<rparr>)"

definition set_mutability :: "memory_mutability \<Rightarrow> memory_item \<Rightarrow> memory_error + memory_item" where
  "set_mutability v m = validate_memory_item (m\<lparr>mutability := v\<rparr>)"

definition set_status :: "memory_status \<Rightarrow> memory_item \<Rightarrow> memory_error + memory_item" where
  "set_status v m = validate_memory_item (m\<lparr>status := v\<rparr>)"

definition set_importance :: "rat \<Rightarrow> memory_item \<Rightarrow> memory_error + memory_item" where
  "set_importance v m = bindR (in_unit v) (\<lambda>x. validate_memory_item (m\<lparr>importance := x\<rparr>))"

definition set_confidence :: "rat \<Rightarrow> memory_item \<Rightarrow> memory_error + memory_item" where
  "set_confidence v m = bindR (in_unit v) (\<lambda>x. validate_memory_item (m\<lparr>confidence := Some x\<rparr>))"

definition set_flags :: "memory_flags \<Rightarrow> memory_item \<Rightarrow> memory_error + memory_item" where
  "set_flags v m = validate_memory_item (m\<lparr>flags := v\<rparr>)"

definition set_updated_at :: "time \<Rightarrow> memory_item \<Rightarrow> memory_error + memory_item" where
  "set_updated_at v m = validate_memory_item (m\<lparr>updated_at_utc := v\<rparr>)"

definition set_updated_by :: "actor_kind \<Rightarrow> memory_item \<Rightarrow> memory_error + memory_item" where
  "set_updated_by v m = validate_memory_item (m\<lparr>updated_by := v\<rparr>)"

definition put_revision :: "int \<Rightarrow> memory_item \<Rightarrow> memory_item" where
  \<comment> \<open>\<open>item.revision_info.revision = v\<close>: the nested model does not validate\<close>
  "put_revision v m = m\<lparr>revision_info := (revision_info m)\<lparr>revision := v\<rparr>\<rparr>"

definition put_reason :: "string \<Rightarrow> memory_item \<Rightarrow> memory_item" where
  "put_reason v m = m\<lparr>revision_info := (revision_info m)\<lparr>last_mutation_reason := Some v\<rparr>\<rparr>"

definition put_successor :: "string \<Rightarrow> memory_item \<Rightarrow> memory_item" where
  "put_successor v m = m\<lparr>revision_info := (revision_info m)\<lparr>superseded_by_memory_id := Some v\<rparr>\<rparr>"

definition put_pinned :: "bool \<Rightarrow> memory_item \<Rightarrow> memory_item" where
  "put_pinned v m = m\<lparr>flags := (flags m)\<lparr>pinned := v\<rparr>\<rparr>"

definition item_revision :: "memory_item \<Rightarrow> int" where
  "item_revision m = revision (revision_info m)"

section \<open>What validation establishes\<close>

lemma validate_memory_item_iff:
  "validate_memory_item m = Inr m' \<longleftrightarrow> item_consistent m \<and> m' = m"
  unfolding validate_memory_item_def item_consistent_def bindR_raise_if if_Inl_eq_Inr not_less
  by (simp only: conj_assoc sum.inject) (rule iffI; elim conjE; intro conjI; (assumption | simp))

lemma trim_strip [simp]: "trim (strip s) = strip s"
  unfolding trim_def strip_def
  by (rule strip_by_same, rule trimmed_by_mono [OF strip_by_trimmed])
     (auto simp: trim_char_def space_char_def Let_def)

lemma trim_idem [simp]: "trim (trim s) = trim s"
  by (simp add: trim_def)

lemma strip_idem [simp]: "strip (strip s) = strip s"
  by (simp add: strip_def)

lemma bounded_iff: "bounded lo hi s = Inr t \<longleftrightarrow> t = trim s \<and> lo \<le> length t \<and> length t \<le> hi"
  by (cases "length (trim s) < lo \<or> hi < length (trim s)") (auto simp: bounded_def)

lemma bounded_again:
  assumes "bounded lo hi s = Inr t"
  shows "bounded lo hi t = Inr t"
proof -
  from assms have "trim t = t" "lo \<le> length t" "length t \<le> hi" by (auto simp: bounded_iff)
  then show ?thesis by (simp add: bounded_def)
qed

lemma bounded_opt_again: "bounded_opt lo hi v = Inr w \<Longrightarrow> bounded_opt lo hi w = Inr w"
  by (auto simp: bounded_opt_def bindR_eq_Inr_iff dest: bounded_again split: option.splits)

lemma length_strip: "length (strip s) \<le> length s"
  unfolding strip_def by (rule length_strip_by)

lemma required_text_iff:
  "validate_required_text hi v = Inr s \<longleftrightarrow>
     s = strip (trim v) \<and> s \<noteq> [] \<and> 1 \<le> length (trim v) \<and> length (trim v) \<le> hi"
  by (auto simp: validate_required_text_def bindR_eq_Inr_iff bounded_iff Let_def)

lemma required_text_again:
  assumes "validate_required_text hi v = Inr s"
  shows "validate_required_text hi s = Inr s"
proof -
  have "length (strip (trim v)) \<le> length (trim v)" by (rule length_strip)
  with assms show ?thesis by (auto simp: required_text_iff Suc_le_eq)
qed

lemma memory_id_iff:
  "validate_memory_id v = Inr s \<longleftrightarrow>
     s = strip (trim v) \<and> s \<noteq> [] \<and> 8 \<le> length (trim v) \<and> length (trim v) \<le> 128"
  by (auto simp: validate_memory_id_def bindR_eq_Inr_iff bounded_iff Let_def)

lemma memory_id_again:
  assumes "validate_memory_id v = Inr s" "8 \<le> length s"
  shows "validate_memory_id s = Inr s"
proof -
  have "length (strip (trim v)) \<le> length (trim v)" by (rule length_strip)
  with assms show ?thesis by (auto simp: memory_id_iff)
qed

lemma in_unit_iff: "in_unit r = Inr x \<longleftrightarrow> x = r \<and> 0 \<le> r \<and> r \<le> 1"
  by (auto simp: in_unit_def)

lemma in_unit_opt_again: "in_unit_opt v = Inr w \<Longrightarrow> w = v"
  by (auto simp: in_unit_opt_def bindR_eq_Inr_iff in_unit_iff split: option.splits)

lemma check_source_again:
  assumes "check_source s = Inr t"
  shows "check_source t = Inr t"
proof -
  from assms obtain r l where c: "bounded_opt 0 256 (source_ref s) = Inr r"
    "bounded_opt 0 200 (source_label s) = Inr l" and t: "t = s\<lparr>source_ref := r, source_label := l\<rparr>"
    by (auto simp: check_source_def bindR_eq_Inr_iff)
  show ?thesis by (simp add: check_source_def t c [THEN bounded_opt_again])
qed

lemma check_links_again:
  assumes "check_links s = Inr t"
  shows "check_links t = Inr t"
proof -
  from assms obtain c p r m where b: "bounded_opt 0 128 (conversation_id s) = Inr c"
    "bounded_opt 0 128 (project_id s) = Inr p" "bounded_opt 0 128 (request_id s) = Inr r"
    "bounded_opt 0 128 (parent_memory_id s) = Inr m"
    and t: "t = \<lparr>conversation_id = c, project_id = p, request_id = r, parent_memory_id = m\<rparr>"
    by (auto simp: check_links_def bindR_eq_Inr_iff)
  show ?thesis by (simp add: check_links_def t b [THEN bounded_opt_again])
qed

lemma check_revision_again:
  assumes "check_revision s = Inr t"
  shows "check_revision t = Inr t"
proof -
  from assms obtain a b r where c: "bounded_opt 0 128 (supersedes_memory_id s) = Inr a"
    "bounded_opt 0 128 (superseded_by_memory_id s) = Inr b"
    "bounded_opt 0 240 (last_mutation_reason s) = Inr r" and "\<not> revision s < 1"
    and t: "t = s\<lparr>supersedes_memory_id := a, superseded_by_memory_id := b, last_mutation_reason := r\<rparr>"
    by (auto simp: check_revision_def bindR_eq_Inr_iff)
  then show ?thesis by (simp add: check_revision_def c [THEN bounded_opt_again])
qed

lemma check_revision_revision: "check_revision s = Inr t \<Longrightarrow> revision t = revision s \<and> 1 \<le> revision s"
  by (auto simp: check_revision_def bindR_eq_Inr_iff)

lemma make_item_iff:
  "make_item m = Inr m' \<longleftrightarrow>
     (\<exists>i t b w. validate_memory_id (memory_id m) = Inr i \<and> validate_required_text 160 (title m) = Inr t \<and>
        validate_required_text 8000 (body m) = Inr b \<and> validate_required_text 500 (why_stored m) = Inr w \<and>
        0 \<le> importance m \<and> importance m \<le> 1 \<and> in_unit_opt (confidence m) = Inr (confidence m) \<and>
        m' = m\<lparr>memory_id := i, title := t, body := b, why_stored := w\<rparr> \<and> item_consistent m')"
  by (auto simp: make_item_def bindR_eq_Inr_iff validate_memory_item_iff in_unit_iff dest: in_unit_opt_again)

lemma make_item_facts:
  assumes "make_item m = Inr m'"
  shows "item_consistent m'" "strip (memory_id m') = memory_id m'" "revision_info m' = revision_info m"
    "memory_id m' = strip (trim (memory_id m))"
    "memory_class m' = memory_class m" "sensitivity m' = sensitivity m" "status m' = status m"
    "context_links m' = context_links m" "source m' = source m" "length (body m') \<le> 8000"
  using assms length_strip [of "trim (body m)"]
  by (auto simp: make_item_iff memory_id_iff required_text_iff)

lemma make_item_again:
  assumes "make_item m = Inr m'" "8 \<le> length (memory_id m')"
  shows "make_item m' = Inr m'"
proof -
  from assms obtain i t b w where f: "validate_memory_id (memory_id m) = Inr i" "8 \<le> length i"
    and x: "validate_required_text 160 (title m) = Inr t" "validate_required_text 8000 (body m) = Inr b"
    "validate_required_text 500 (why_stored m) = Inr w"
    and n: "0 \<le> importance m" "importance m \<le> 1" "in_unit_opt (confidence m) = Inr (confidence m)"
    and m: "m' = m\<lparr>memory_id := i, title := t, body := b, why_stored := w\<rparr>" "item_consistent m'"
    by (auto simp: make_item_iff)
  have fields: "memory_id m' = i" "title m' = t" "body m' = b" "why_stored m' = w"
    "importance m' = importance m" "confidence m' = confidence m" by (simp_all add: m(1))
  have same: "m'\<lparr>memory_id := i, title := t, body := b, why_stored := w\<rparr> = m'" by (simp add: m(1))
  show ?thesis
    unfolding make_item_iff fields
    by (rule exI [of _ i], rule exI [of _ t], rule exI [of _ b], rule exI [of _ w])
       (intro conjI memory_id_again [OF f] x [THEN required_text_again] n same [symmetric] m(2))
qed

lemma load_item_iff:
  "load_item m = Inr m' \<longleftrightarrow> (\<exists>s l v. check_source (source m) = Inr s \<and>
     check_links (context_links m) = Inr l \<and> check_revision (revision_info m) = Inr v \<and>
     make_item (m\<lparr>source := s, context_links := l, revision_info := v\<rparr>) = Inr m')"
  by (auto simp: load_item_def bindR_eq_Inr_iff)

lemma load_item_facts:
  assumes "load_item m = Inr m'"
  shows "item_consistent m'" "strip (memory_id m') = memory_id m'" "item_revision m' = item_revision m"
    "1 \<le> item_revision m'" "memory_id m' = strip (trim (memory_id m))" "memory_class m' = memory_class m"
    "sensitivity m' = sensitivity m" "status m' = status m" "length (body m') \<le> 8000"
proof -
  from assms obtain s l v where v: "check_revision (revision_info m) = Inr v"
    and m: "make_item (m\<lparr>source := s, context_links := l, revision_info := v\<rparr>) = Inr m'"
    by (auto simp: load_item_iff)
  from make_item_facts [OF m] check_revision_revision [OF v]
  show "item_consistent m'" "strip (memory_id m') = memory_id m'" "item_revision m' = item_revision m"
    "1 \<le> item_revision m'" "memory_id m' = strip (trim (memory_id m))" "memory_class m' = memory_class m"
    "sensitivity m' = sensitivity m" "status m' = status m" "length (body m') \<le> 8000"
    by (simp_all add: item_revision_def)
qed

text \<open>
  Reading is stable: an item that was read and validated once validates again to
  exactly itself, so writing it back and reading it changes nothing (its identifier must still
  have the eight characters the schema asks for after \<open>str.strip\<close>).
\<close>

theorem load_item_again:
  assumes "load_item m = Inr m'" "8 \<le> length (memory_id m')"
  shows "load_item m' = Inr m'"
proof -
  from assms(1) obtain s l v where c: "check_source (source m) = Inr s"
    "check_links (context_links m) = Inr l" "check_revision (revision_info m) = Inr v"
    and m: "make_item (m\<lparr>source := s, context_links := l, revision_info := v\<rparr>) = Inr m'"
    by (auto simp: load_item_iff)
  note again = check_source_again [OF c(1)] check_links_again [OF c(2)] check_revision_again [OF c(3)]
  have nested: "source m' = s" "context_links m' = l" "revision_info m' = v"
    using make_item_facts [OF m] by simp_all
  have "make_item m' = Inr m'" by (rule make_item_again [OF m assms(2)])
  have same: "m'\<lparr>source := s, context_links := l, revision_info := v\<rparr> = m'"
    using nested by (cases m') simp
  show ?thesis unfolding load_item_def nested again bindR_Inr same by fact
qed

definition sample_item :: memory_item where
  "sample_item = \<lparr>memory_id = ''mem_0001'', memory_class = Project, title = ''T'', body = ''B'',
     source = \<lparr>source_kind = Manual_entry, source_ref = None, source_label = None, captured_at_utc = 0\<rparr>,
     context_links = no_links, why_stored = ''W'', sensitivity = Internal, mutability = Live_editable,
     status = Active, created_at_utc = 0, updated_at_utc = 0, created_by = Kind_user,
     updated_by = Kind_user, importance = 1/2, confidence = None,
     revision_info = \<lparr>revision = 1, supersedes_memory_id = None, superseded_by_memory_id = None,
       last_mutation_reason = None\<rparr>, flags = no_flags\<rparr>"

lemma load_sample_item: "load_item sample_item = Inr sample_item"
  by code_simp

lemma load_item_again_witness:
  "load_item (sample_item\<lparr>title := '' T ''\<rparr>) = Inr sample_item \<and> load_item sample_item = Inr sample_item"
proof
  show first: "load_item (sample_item\<lparr>title := '' T ''\<rparr>) = Inr sample_item" by code_simp
  show "load_item sample_item = Inr sample_item"
    by (rule load_item_again [OF first]) code_simp
qed

end
