(* ===== verification/MemoryRequests.thy ===== *)
theory MemoryRequests
  imports MemoryItems
begin

text \<open>
  The request and record models of \<open>app/memory/schemas/memory_mutation.py\<close>, with their
  validators.  A request that exists has passed \<open>validate_request\<close>; the mutation record
  extends the request, and building it validates everything again.
\<close>

section \<open>Enumerations\<close>

datatype mutation_type = Create | Revise | Append_note | Supersede | Archive | Restore | Pin | Unpin
  | Reclassify | Change_sensitivity | Change_mutability | Promote | Demote | Merge | Forget_request
  | Block | Unblock

datatype mutation_actor = User | Assistant | System | Service

datatype mutation_mode = Manual | Assisted | Autonomous | Review_queue | System_maintenance

datatype mutation_decision = Allowed | Applied | Decision_blocked | Decision_review_required
  | Deferred | No_op | Failed

datatype risk_level = Low | Medium | High | Critical

definition all_mutations :: "mutation_type list" where
  "all_mutations = [Create, Revise, Append_note, Supersede, Archive, Restore, Pin, Unpin, Reclassify,
     Change_sensitivity, Change_mutability, Promote, Demote, Merge, Forget_request, Block, Unblock]"

definition all_actors :: "mutation_actor list" where
  "all_actors = [User, Assistant, System, Service]"

lemma set_all_mutations [simp]: "set all_mutations = UNIV"
proof -
  have "m \<in> set all_mutations" for m by (cases m) (simp_all add: all_mutations_def)
  then show ?thesis by blast
qed

lemma set_all_actors [simp]: "set all_actors = UNIV"
proof -
  have "a \<in> set all_actors" for a by (cases a) (simp_all add: all_actors_def)
  then show ?thesis by blast
qed

primrec mutation_value :: "mutation_type \<Rightarrow> string" where
  "mutation_value Create = ''create''"
| "mutation_value Revise = ''revise''"
| "mutation_value Append_note = ''append_note''"
| "mutation_value Supersede = ''supersede''"
| "mutation_value Archive = ''archive''"
| "mutation_value Restore = ''restore''"
| "mutation_value Pin = ''pin''"
| "mutation_value Unpin = ''unpin''"
| "mutation_value Reclassify = ''reclassify''"
| "mutation_value Change_sensitivity = ''change_sensitivity''"
| "mutation_value Change_mutability = ''change_mutability''"
| "mutation_value Promote = ''promote''"
| "mutation_value Demote = ''demote''"
| "mutation_value Merge = ''merge''"
| "mutation_value Forget_request = ''forget_request''"
| "mutation_value Block = ''block''"
| "mutation_value Unblock = ''unblock''"

primrec actor_value :: "mutation_actor \<Rightarrow> string" where
  "actor_value User = ''user''"
| "actor_value Assistant = ''assistant''"
| "actor_value System = ''system''"
| "actor_value Service = ''service''"

section \<open>Records\<close>

record flags_patch =
  fp_pinned :: "bool option"
  fp_user_declared :: "bool option"
  fp_inferred :: "bool option"
  fp_verified :: "bool option"
  fp_stale :: "bool option"

record mutation_target =
  target_memory_id :: "string option"
  target_memory_ids :: "string list"
  expected_revision :: "int option"
  target_class :: "memory_class option"
  target_project_id :: "string option"
  target_conversation_id :: "string option"

record mutation_patch =
  patch_title :: "string option"
  patch_body :: "string option"
  patch_why_stored :: "string option"
  patch_class :: "memory_class option"
  patch_sensitivity :: "memory_sensitivity option"
  patch_mutability :: "memory_mutability option"
  patch_status :: "memory_status option"
  patch_importance :: "rat option"
  patch_confidence :: "rat option"
  patch_flags :: "flags_patch option"
  note_body :: "string option"
  successor_memory_id :: "string option"
  revision_note :: "string option"

record mutation_context =
  reason :: string
  context_source_kind :: "source_kind option"
  context_source_ref :: "string option"
  trigger_event :: "string option"
  context_notes :: "string option"

record review_info =
  risk_level :: risk_level
  review_required :: bool
  review_reason :: "string option"
  policy_rule_id :: "string option"
  sensitivity_conflict :: bool
  autonomous_allowed :: bool

record mutation_request =
  mutation_id :: string
  mutation_type :: mutation_type
  actor :: mutation_actor
  mode :: mutation_mode
  target :: mutation_target
  patch :: mutation_patch
  request_context :: mutation_context
  requested_at_utc :: time
  review :: review_info
  requested_by :: "string option"
  dry_run :: bool

record mutation_record =
  request :: mutation_request
  decision :: mutation_decision
  decision_reason :: string
  evaluated_at_utc :: time
  applied_at_utc :: "time option"
  resulting_memory_id :: "string option"
  superseded_memory_id :: "string option"
  error_message :: "string option"

section \<open>Targets and patches\<close>

definition flags_have_changes :: "flags_patch \<Rightarrow> bool" where
  "flags_have_changes f \<longleftrightarrow> fp_pinned f \<noteq> None \<or> fp_user_declared f \<noteq> None \<or> fp_inferred f \<noteq> None \<or>
     fp_verified f \<noteq> None \<or> fp_stale f \<noteq> None"

definition patched_flags :: "mutation_patch \<Rightarrow> bool" where
  \<comment> \<open>\<open>patch.flags is not None and patch.flags.has_changes()\<close>\<close>
  "patched_flags p \<longleftrightarrow> (case patch_flags p of None \<Rightarrow> False | Some f \<Rightarrow> flags_have_changes f)"

definition validate_target :: "mutation_target \<Rightarrow> memory_error + mutation_target" where
  "validate_target t =
     bindR (raise_if (truthy (target_memory_id t) \<and> target_memory_ids t \<noteq> [])
       (ValidationError ''Use either memory_id or memory_ids, not both.'')) (\<lambda>_.
     if target_memory_ids t = [] then Inr t
     else let normalized = map strip (filter (\<lambda>v. strip v \<noteq> []) (target_memory_ids t)) in
       bindR (raise_if (length normalized \<noteq> length (target_memory_ids t))
         (ValidationError ''memory_ids cannot contain empty values.'')) (\<lambda>_.
       bindR (raise_if (\<not> distinct normalized)
         (ValidationError ''memory_ids cannot contain duplicates.'')) (\<lambda>_.
       Inr (t\<lparr>target_memory_ids := normalized\<rparr>))))"

definition has_single_target :: "mutation_target \<Rightarrow> bool" where
  "has_single_target t \<longleftrightarrow> truthy (target_memory_id t) \<and> target_memory_ids t = []"

definition has_multi_target :: "mutation_target \<Rightarrow> bool" where
  "has_multi_target t \<longleftrightarrow> target_memory_ids t \<noteq> [] \<and> \<not> truthy (target_memory_id t)"

definition has_core_content_changes :: "mutation_patch \<Rightarrow> bool" where
  "has_core_content_changes p \<longleftrightarrow> patch_title p \<noteq> None \<or> patch_body p \<noteq> None \<or> patch_why_stored p \<noteq> None"

definition has_substantive_changes :: "mutation_patch \<Rightarrow> bool" where
  "has_substantive_changes p \<longleftrightarrow> patch_title p \<noteq> None \<or> patch_body p \<noteq> None \<or> patch_why_stored p \<noteq> None \<or>
     patch_class p \<noteq> None \<or> patch_sensitivity p \<noteq> None \<or> patch_mutability p \<noteq> None \<or>
     patch_status p \<noteq> None \<or> patch_importance p \<noteq> None \<or> patch_confidence p \<noteq> None \<or>
     note_body p \<noteq> None \<or> successor_memory_id p \<noteq> None \<or> patched_flags p"

definition rewrites_content :: "mutation_patch \<Rightarrow> bool" where
  \<comment> \<open>what an archive or a restore may not carry\<close>
  "rewrites_content p \<longleftrightarrow> patch_title p \<noteq> None \<or> patch_body p \<noteq> None \<or> patch_why_stored p \<noteq> None \<or>
     patch_class p \<noteq> None \<or> patch_sensitivity p \<noteq> None \<or> patch_mutability p \<noteq> None \<or>
     patch_importance p \<noteq> None \<or> patch_confidence p \<noteq> None \<or> note_body p \<noteq> None \<or>
     successor_memory_id p \<noteq> None \<or> patched_flags p"

definition validate_review_info :: "review_info \<Rightarrow> memory_error + review_info" where
  "validate_review_info r =
     bindR (raise_if (review_required r \<and> \<not> truthy (review_reason r))
       (ValidationError ''review_reason is required when review_required is true.'')) (\<lambda>_. Inr r)"

definition single_target_required :: "mutation_type list" where
  "single_target_required = [Revise, Append_note, Supersede, Archive, Restore, Pin, Unpin, Reclassify,
     Change_sensitivity, Change_mutability, Promote, Demote, Block, Unblock]"

section \<open>The request validator\<close>

definition pin_flag :: "bool \<Rightarrow> mutation_patch \<Rightarrow> memory_error + mutation_patch" where
  \<comment> \<open>the defaults that pin and unpin write into the patch\<close>
  "pin_flag v p = (case patch_flags p of
       None \<Rightarrow> Inr (p\<lparr>patch_flags := Some \<lparr>fp_pinned = Some v, fp_user_declared = None,
                 fp_inferred = None, fp_verified = None, fp_stale = None\<rparr>\<rparr>)
     | Some f \<Rightarrow>
         (case fp_pinned f of
            None \<Rightarrow> Inr (p\<lparr>patch_flags := Some (f\<lparr>fp_pinned := Some v\<rparr>)\<rparr>)
          | Some b \<Rightarrow> if b = v then Inr p
              else Inl (ValidationError (if v then ''pin cannot explicitly set pinned to false.''
                     else ''unpin cannot explicitly set pinned to true.''))))"

definition requires_shape :: "mutation_request \<Rightarrow> memory_error + unit" where
  \<comment> \<open>which targets a mutation needs\<close>
  "requires_shape q = (let k = mutation_type q; t = target q in
     bindR (raise_if (k \<in> set single_target_required \<and> \<not> has_single_target t)
       (ValidationError (mutation_value k @ '' requires exactly one target memory_id.''))) (\<lambda>_.
     bindR (raise_if (k = Merge \<and> \<not> has_multi_target t)
       (ValidationError (mutation_value k @ '' requires multiple target memory_ids.''))) (\<lambda>_.
     bindR (raise_if (k \<noteq> Create \<and> k \<noteq> Forget_request \<and> \<not> has_single_target t \<and> \<not> has_multi_target t)
       (ValidationError (mutation_value k @ '' requires a target.''))) (\<lambda>_. Inr ()))))"

definition requires_create :: "mutation_request \<Rightarrow> memory_error + unit" where
  "requires_create q = (let t = target q; p = patch q in
     if mutation_type q \<noteq> Create then Inr () else
     bindR (raise_if (has_single_target t \<or> has_multi_target t)
       (ValidationError ''create should not target an existing memory_id or memory_ids.'')) (\<lambda>_.
     bindR (raise_if (\<not> truthy (patch_title p) \<or> \<not> truthy (patch_body p) \<or> \<not> truthy (patch_why_stored p))
       (ValidationError ''create requires title, body, and why_stored in the patch.'')) (\<lambda>_.
     raise_if (patch_class p = None \<and> target_class t = None)
       (ValidationError ''create requires a target memory_class or patch memory_class.''))))"

definition requires_content :: "mutation_request \<Rightarrow> memory_error + unit" where
  \<comment> \<open>what the patch of a revise, append, supersede, archive or restore carries\<close>
  "requires_content q = (let k = mutation_type q; p = patch q in
     bindR (raise_if (k = Revise \<and> \<not> has_substantive_changes p)
       (ValidationError ''revise requires a non-empty substantive patch.'')) (\<lambda>_.
     bindR (raise_if (k = Append_note \<and> \<not> truthy (note_body p))
       (ValidationError ''append_note requires note_body.'')) (\<lambda>_.
     bindR (raise_if (k = Append_note \<and> has_core_content_changes p)
       (ValidationError ''append_note should not replace core title/body/why content.'')) (\<lambda>_.
     bindR (raise_if (k = Supersede \<and> \<not> (truthy (successor_memory_id p) \<or> has_core_content_changes p))
       (ValidationError ''supersede requires successor_memory_id or replacement content.'')) (\<lambda>_.
     raise_if (k \<in> {Archive, Restore} \<and> rewrites_content p)
       (ValidationError (mutation_value k @ '' should not rewrite core memory content.'')))))))"

definition requires_fields :: "mutation_request \<Rightarrow> memory_error + unit" where
  "requires_fields q = (let k = mutation_type q; p = patch q; t = target q in
     bindR (raise_if (k = Reclassify \<and> patch_class p = None)
       (ValidationError ''reclassify requires patch.memory_class.'')) (\<lambda>_.
     bindR (raise_if (k = Change_sensitivity \<and> patch_sensitivity p = None)
       (ValidationError ''change_sensitivity requires patch.sensitivity.'')) (\<lambda>_.
     bindR (raise_if (k = Change_mutability \<and> patch_mutability p = None)
       (ValidationError ''change_mutability requires patch.mutability.'')) (\<lambda>_.
     bindR (raise_if (k \<in> {Promote, Demote} \<and> patch_class p = None)
       (ValidationError (mutation_value k @ '' requires patch.memory_class.''))) (\<lambda>_.
     bindR (raise_if (k \<in> {Promote, Demote} \<and> target_class t \<noteq> None \<and> target_class t = patch_class p)
       (ValidationError (mutation_value k @ '' requires a different destination memory_class.''))) (\<lambda>_.
     bindR (raise_if (k = Merge \<and> length (target_memory_ids t) < 2)
       (ValidationError ''merge requires at least two source memory_ids.'')) (\<lambda>_.
     bindR (raise_if (k = Merge \<and> \<not> (truthy (successor_memory_id p) \<or> has_substantive_changes p))
       (ValidationError ''merge requires successor_memory_id or a substantive patch for the merged result.'')) (\<lambda>_.
     bindR (raise_if (k = Forget_request \<and> \<not> has_single_target t \<and> \<not> has_multi_target t)
       (ValidationError ''forget_request requires a target memory_id or memory_ids.'')) (\<lambda>_.
     bindR (raise_if (k = Forget_request \<and> has_substantive_changes p)
       (ValidationError ''forget_request should not directly mutate memory content; it represents a governed request.'')) (\<lambda>_.
     bindR (raise_if (k \<in> {Block, Unblock} \<and> has_core_content_changes p)
       (ValidationError (mutation_value k @ '' should not rewrite core memory content.''))) (\<lambda>_.
     raise_if (mode q = Autonomous \<and> actor q \<noteq> Assistant)
       (ValidationError ''autonomous mode is reserved for assistant-driven mutation requests.''))))))))))))"

definition validate_request :: "mutation_request \<Rightarrow> memory_error + mutation_request" where
  "validate_request q =
     bindR (requires_shape q) (\<lambda>_.
     bindR (requires_create q) (\<lambda>_.
     bindR (requires_content q) (\<lambda>_.
     bindR (if mutation_type q = Pin then pin_flag True (patch q)
            else if mutation_type q = Unpin then pin_flag False (patch q) else Inr (patch q)) (\<lambda>p.
     let q' = q\<lparr>patch := p\<rparr> in
     bindR (requires_fields q') (\<lambda>_. Inr q')))))"

section \<open>Field constraints and construction\<close>

definition check_target :: "mutation_target \<Rightarrow> memory_error + mutation_target" where
  "check_target t =
     bindR (bounded_opt 0 128 (target_memory_id t)) (\<lambda>i.
     bindR (raise_if (case expected_revision t of None \<Rightarrow> False | Some r \<Rightarrow> r < 1)
       (ValidationError ''expected_revision must be positive'')) (\<lambda>_.
     bindR (bounded_opt 0 128 (target_project_id t)) (\<lambda>p.
     bindR (bounded_opt 0 128 (target_conversation_id t)) (\<lambda>c.
     validate_target (t\<lparr>target_memory_id := i, target_memory_ids := map trim (target_memory_ids t),
       target_project_id := p, target_conversation_id := c\<rparr>)))))"

definition check_patch :: "mutation_patch \<Rightarrow> memory_error + mutation_patch" where
  "check_patch p =
     bindR (bounded_opt 1 160 (patch_title p)) (\<lambda>t.
     bindR (bounded_opt 1 8000 (patch_body p)) (\<lambda>b.
     bindR (bounded_opt 1 500 (patch_why_stored p)) (\<lambda>w.
     bindR (in_unit_opt (patch_importance p)) (\<lambda>_.
     bindR (in_unit_opt (patch_confidence p)) (\<lambda>_.
     bindR (bounded_opt 1 4000 (note_body p)) (\<lambda>n.
     bindR (bounded_opt 0 128 (successor_memory_id p)) (\<lambda>s.
     bindR (bounded_opt 0 240 (revision_note p)) (\<lambda>r.
     Inr (p\<lparr>patch_title := t, patch_body := b, patch_why_stored := w, note_body := n,
       successor_memory_id := s, revision_note := r\<rparr>)))))))))"

definition check_context :: "mutation_context \<Rightarrow> memory_error + mutation_context" where
  "check_context c =
     bindR (bounded 1 500 (reason c)) (\<lambda>r.
     bindR (bounded_opt 0 256 (context_source_ref c)) (\<lambda>s.
     bindR (bounded_opt 0 160 (trigger_event c)) (\<lambda>t.
     bindR (bounded_opt 0 1000 (context_notes c)) (\<lambda>n.
     Inr (c\<lparr>reason := r, context_source_ref := s, trigger_event := t, context_notes := n\<rparr>)))))"

definition check_review :: "review_info \<Rightarrow> memory_error + review_info" where
  "check_review r =
     bindR (bounded_opt 0 240 (review_reason r)) (\<lambda>w.
     bindR (bounded_opt 0 128 (policy_rule_id r)) (\<lambda>p.
     validate_review_info (r\<lparr>review_reason := w, policy_rule_id := p\<rparr>)))"

definition make_request :: "mutation_request \<Rightarrow> memory_error + mutation_request" where
  \<comment> \<open>\<open>MemoryMutationRequest(...)\<close> on plain data\<close>
  "make_request q =
     bindR (bounded 8 128 (mutation_id q)) (\<lambda>i.
     bindR (check_target (target q)) (\<lambda>t.
     bindR (check_patch (patch q)) (\<lambda>p.
     bindR (check_context (request_context q)) (\<lambda>c.
     bindR (check_review (review q)) (\<lambda>r.
     bindR (bounded_opt 0 128 (requested_by q)) (\<lambda>b.
     validate_request (q\<lparr>mutation_id := i, target := t, patch := p, request_context := c, review := r,
       requested_by := b\<rparr>)))))))"

definition validate_record :: "mutation_record \<Rightarrow> memory_error + mutation_record" where
  "validate_record r =
     bindR (raise_if (evaluated_at_utc r < requested_at_utc (request r))
       (ValidationError ''evaluated_at_utc cannot be earlier than requested_at_utc.'')) (\<lambda>_.
     bindR (raise_if (case applied_at_utc r of None \<Rightarrow> False | Some t \<Rightarrow> t < requested_at_utc (request r))
       (ValidationError ''applied_at_utc cannot be earlier than requested_at_utc.'')) (\<lambda>_.
     bindR (raise_if (decision r = Applied \<and> applied_at_utc r = None)
       (ValidationError ''applied_at_utc is required when decision is applied.'')) (\<lambda>_.
     bindR (raise_if (decision r \<in> {Decision_blocked, Decision_review_required, Deferred} \<and>
         applied_at_utc r \<noteq> None)
       (ValidationError ''applied_at_utc should be omitted'')) (\<lambda>_.
     bindR (raise_if (decision r = Failed \<and> \<not> truthy (error_message r))
       (ValidationError ''error_message is required when decision is failed.'')) (\<lambda>_.
     bindR (raise_if (decision r \<noteq> Failed \<and> truthy (error_message r))
       (ValidationError ''error_message should only be present when decision is failed.'')) (\<lambda>_.
     Inr r))))))"

definition make_record :: "mutation_record \<Rightarrow> memory_error + mutation_record" where
  \<comment> \<open>\<open>MemoryMutationRecord(**request.model_dump(), ...)\<close>: the request is validated again\<close>
  "make_record r =
     bindR (make_request (request r)) (\<lambda>q.
     bindR (bounded 1 500 (decision_reason r)) (\<lambda>why.
     bindR (bounded_opt 0 128 (resulting_memory_id r)) (\<lambda>i.
     bindR (bounded_opt 0 128 (superseded_memory_id r)) (\<lambda>s.
     bindR (bounded_opt 0 500 (error_message r)) (\<lambda>e.
     validate_record (r\<lparr>request := q, decision_reason := why, resulting_memory_id := i,
       superseded_memory_id := s, error_message := e\<rparr>))))))"

section \<open>What validation establishes\<close>

lemma pin_flag_ok:
  "pin_flag v p = Inr p' \<Longrightarrow> (\<exists>f. patch_flags p' = Some f \<and> fp_pinned f = Some v) \<and>
     p'\<lparr>patch_flags := None\<rparr> = p\<lparr>patch_flags := None\<rparr>"
  by (auto simp: pin_flag_def split: option.splits if_splits)

lemma validate_request_facts:
  assumes "validate_request q = Inr q'"
  shows "target q' = target q" "request_context q' = request_context q" "mutation_type q' = mutation_type q"
    "actor q' = actor q" "mode q' = mode q" "review q' = review q" "dry_run q' = dry_run q"
    "requested_at_utc q' = requested_at_utc q"
  using assms by (auto simp: validate_request_def Let_def bindR_eq_Inr_iff)

lemma validate_record_iff:
  "validate_record r = Inr r' \<longleftrightarrow> r' = r \<and> requested_at_utc (request r) \<le> evaluated_at_utc r \<and>
     (\<forall>t. applied_at_utc r = Some t \<longrightarrow> requested_at_utc (request r) \<le> t) \<and>
     (decision r = Applied \<longrightarrow> applied_at_utc r \<noteq> None) \<and>
     (decision r \<in> {Decision_blocked, Decision_review_required, Deferred} \<longrightarrow> applied_at_utc r = None) \<and>
     (decision r = Failed \<longleftrightarrow> truthy (error_message r))"
  unfolding validate_record_def bindR_raise_if if_Inl_eq_Inr not_less
  by (auto split: option.splits simp: not_less)

lemma make_record_facts:
  assumes "make_record r = Inr r'"
  shows "decision r' = decision r" "applied_at_utc r' = applied_at_utc r"
    "resulting_memory_id r' = map_option trim (resulting_memory_id r)"
    "length (trim (decision_reason r)) \<le> 500"
    "superseded_memory_id r = Some x \<Longrightarrow> length (trim x) \<le> 128"
    "error_message r = Some e \<Longrightarrow> length (trim e) \<le> 500"
proof -
  have opt: "bounded_opt lo hi v = Inr w \<Longrightarrow> w = map_option trim v \<and> (\<forall>x. v = Some x \<longrightarrow> length (trim x) \<le> hi)"
    for lo hi v w by (auto simp: bounded_opt_def bindR_eq_Inr_iff bounded_iff split: option.splits)
  from assms obtain q why i s em where
    w: "bounded 1 500 (decision_reason r) = Inr why" and i: "bounded_opt 0 128 (resulting_memory_id r) = Inr i"
    and s: "bounded_opt 0 128 (superseded_memory_id r) = Inr s" and e: "bounded_opt 0 500 (error_message r) = Inr em"
    and v: "validate_record (r\<lparr>request := q, decision_reason := why, resulting_memory_id := i,
       superseded_memory_id := s, error_message := em\<rparr>) = Inr r'"
    by (auto simp: make_record_def bindR_eq_Inr_iff)
  show "decision r' = decision r" "applied_at_utc r' = applied_at_utc r"
    using v by (simp_all add: validate_record_iff)
  show "resulting_memory_id r' = map_option trim (resulting_memory_id r)"
    using v opt [OF i] by (simp add: validate_record_iff)
  show "length (trim (decision_reason r)) \<le> 500" using w by (auto simp: bounded_iff)
  show "superseded_memory_id r = Some x \<Longrightarrow> length (trim x) \<le> 128" using opt [OF s] by simp
  show "error_message r = Some e \<Longrightarrow> length (trim e) \<le> 500" using opt [OF e] by simp
qed

end
