(* ===== verification/MemoryPolicies.thy ===== *)
theory MemoryPolicies
  imports MemoryRequests
begin

text \<open>
  The policy models of \<open>app/memory/schemas/memory_policy.py\<close> and their validators, up to
  \<open>MemoryPolicySet.validate_policy_set\<close>: a policy set that exists has one policy for every
  class, sensitivity, source kind, actor, mutation type and retention class.
\<close>

record class_policy =
  cp_class :: memory_class
  default_sensitivity :: memory_sensitivity
  default_mutability :: memory_mutability
  default_status :: memory_status
  cp_allowed :: "mutation_type list"
  cp_blocked :: "mutation_type list"
  cp_review_required :: "mutation_type list"
  autonomous_create_allowed :: bool
  autonomous_update_allowed :: bool
  autonomous_archive_allowed :: bool
  autonomous_forget_allowed :: bool
  append_only_default :: bool
  immutable_default :: bool
  durable_by_default :: bool
  allow_direct_user_edit :: bool

record sensitivity_policy =
  sp_sensitivity :: memory_sensitivity
  sp_allowed_actors :: "mutation_actor list"
  autonomous_access_allowed :: bool
  autonomous_mutation_allowed :: bool
  requires_review :: bool
  requires_explicit_user_permission :: bool
  default_retrieval_allowed :: bool
  allow_cross_room_display :: bool
  allow_summary_exposure :: bool

record source_policy =
  xp_source_kind :: source_kind
  durable_classes_allowed :: "memory_class list"
  provisional_only_classes :: "memory_class list"
  requires_confidence :: bool
  xp_requires_review_for :: "memory_class list"
  autonomous_promotion_allowed :: bool
  trust_weight :: rat
  allow_preference_creation :: bool
  allow_preference_update :: bool

record actor_policy =
  ap_actor :: mutation_actor
  ap_allowed_classes :: "memory_class list"
  ap_blocked_classes :: "memory_class list"
  ap_allowed :: "mutation_type list"
  ap_blocked :: "mutation_type list"
  ap_requires_review_for :: "mutation_type list"
  max_sensitivity :: memory_sensitivity
  autonomous_modes_allowed :: "mutation_mode list"

record mutation_rule =
  mr_type :: mutation_type
  mr_allowed_classes :: "memory_class list"
  mr_blocked_classes :: "memory_class list"
  mr_autonomous_allowed :: bool
  mr_review_required :: bool
  requires_reason :: bool
  requires_target :: bool
  requires_expected_revision :: bool
  requires_provenance :: bool
  allow_multi_target :: bool
  allow_sealed_private :: bool
  allow_direct_apply :: bool

record promotion_rule =
  from_class :: memory_class
  to_class :: memory_class
  pr_allowed :: bool
  pr_review_required :: bool
  minimum_confidence :: "rat option"
  minimum_repetition_count :: int
  required_source_kinds :: "source_kind list"
  pr_autonomous_allowed :: bool
  provisional_first :: bool
  reason_required :: bool

record retention_policy =
  rp_class :: memory_class
  archive_before_forget :: bool
  hard_delete_allowed :: bool
  hard_delete_requires_user :: bool
  stale_after_days :: "int option"
  auto_archive_after_days :: "int option"
  auto_forget_after_days :: "int option"
  retain_superseded_history :: bool
  sealed_retention_override :: bool

record autonomy_policy =
  candidate_queue_enabled :: bool
  auto_apply_low_risk :: bool
  auto_apply_as_provisional :: bool
  blocked_when_sensitive_conflict :: bool
  review_threshold :: risk_level
  allow_assistant_self_maintenance :: bool
  audit_required_for_all_autonomous_writes :: bool
  require_policy_trace :: bool

record policy_set =
  class_policies :: "class_policy list"
  sensitivity_policies :: "sensitivity_policy list"
  source_policies :: "source_policy list"
  actor_policies :: "actor_policy list"
  mutation_rules :: "mutation_rule list"
  promotion_rules :: "promotion_rule list"
  retention_policies :: "retention_policy list"
  the_autonomy_policy :: autonomy_policy

section \<open>Validators of the single policies\<close>

definition overlaps :: "'a list \<Rightarrow> 'a list \<Rightarrow> bool" where
  "overlaps xs ys \<longleftrightarrow> list_ex (\<lambda>x. x \<in> set ys) xs"

definition all_in :: "'a list \<Rightarrow> 'a list \<Rightarrow> bool" where
  "all_in xs ys \<longleftrightarrow> list_all (\<lambda>x. x \<in> set ys) xs"

lemma overlaps_iff: "overlaps xs ys \<longleftrightarrow> set xs \<inter> set ys \<noteq> {}"
  by (auto simp: overlaps_def list_ex_iff)

lemma all_in_iff: "all_in xs ys \<longleftrightarrow> set xs \<subseteq> set ys"
  by (auto simp: all_in_def list_all_iff)

definition validate_class_policy :: "class_policy \<Rightarrow> memory_error + class_policy" where
  "validate_class_policy p =
     bindR (raise_if (overlaps (cp_allowed p) (cp_blocked p))
       (ValidationError ''Class policy cannot both allow and block the same mutations'')) (\<lambda>_.
     bindR (raise_if (\<not> all_in (cp_review_required p) (cp_allowed p))
       (ValidationError ''review_required_mutations must also appear in allowed_mutations.'')) (\<lambda>_.
     bindR (raise_if (append_only_default p \<and> immutable_default p)
       (ValidationError ''append_only_default and immutable_default cannot both be true.'')) (\<lambda>_.
     bindR (raise_if (cp_class p = Sealed_private \<and> default_sensitivity p \<noteq> Sealed)
       (ValidationError ''sealed_private must default to sealed sensitivity.'')) (\<lambda>_.
     bindR (raise_if (cp_class p = Sealed_private \<and> default_mutability p = Live_editable)
       (ValidationError ''sealed_private cannot default to live_editable mutability.'')) (\<lambda>_.
     bindR (raise_if (cp_class p = Sealed_private \<and>
         (autonomous_update_allowed p \<or> autonomous_forget_allowed p))
       (ValidationError ''sealed_private cannot allow autonomous update or autonomous forget by default.'')) (\<lambda>_.
     bindR (raise_if (cp_class p = Audit \<and> default_mutability p \<notin> {Append_only, Immutable, Review_required})
       (ValidationError ''audit must default to append_only, immutable, or review_required mutability.'')) (\<lambda>_.
     bindR (raise_if (cp_class p = Audit \<and> autonomous_forget_allowed p)
       (ValidationError ''audit cannot allow autonomous forget.'')) (\<lambda>_.
     bindR (raise_if (immutable_default p \<and> autonomous_update_allowed p)
       (ValidationError ''immutable_default classes cannot also allow autonomous_update_allowed.'')) (\<lambda>_.
     Inr p)))))))))"

definition validate_sensitivity_policy :: "sensitivity_policy \<Rightarrow> memory_error + sensitivity_policy" where
  "validate_sensitivity_policy p =
     (if sp_sensitivity p \<noteq> Sealed then Inr p else
     bindR (raise_if (autonomous_mutation_allowed p)
       (ValidationError ''sealed sensitivity cannot allow autonomous mutation.'')) (\<lambda>_.
     bindR (raise_if (default_retrieval_allowed p)
       (ValidationError ''sealed sensitivity cannot allow default retrieval.'')) (\<lambda>_.
     bindR (raise_if (allow_cross_room_display p)
       (ValidationError ''sealed sensitivity cannot allow cross-room display.'')) (\<lambda>_.
     bindR (raise_if (allow_summary_exposure p)
       (ValidationError ''sealed sensitivity cannot allow summary exposure.'')) (\<lambda>_.
     bindR (raise_if (\<not> requires_explicit_user_permission p)
       (ValidationError ''sealed sensitivity must require explicit user permission.'')) (\<lambda>_.
     Inr p))))))"

definition validate_source_policy :: "source_policy \<Rightarrow> memory_error + source_policy" where
  "validate_source_policy p =
     bindR (in_unit (trust_weight p)) (\<lambda>_.
     bindR (raise_if (overlaps (durable_classes_allowed p) (provisional_only_classes p))
       (ValidationError ''Source policy cannot mark the same classes as both durable and provisional-only'')) (\<lambda>_.
     bindR (raise_if (xp_source_kind p = Assistant_inference \<and>
         (allow_preference_creation p \<or> allow_preference_update p))
       (ValidationError ''assistant_inference cannot directly allow durable preference creation or update.'')) (\<lambda>_.
     bindR (raise_if (xp_source_kind p = Runtime_trace \<and>
         (allow_preference_creation p \<or> allow_preference_update p))
       (ValidationError ''runtime_trace cannot create or update preference memory.'')) (\<lambda>_.
     Inr p))))"

definition validate_actor_policy :: "actor_policy \<Rightarrow> memory_error + actor_policy" where
  "validate_actor_policy p =
     bindR (raise_if (overlaps (ap_allowed_classes p) (ap_blocked_classes p))
       (ValidationError ''Actor policy cannot both allow and block the same classes'')) (\<lambda>_.
     bindR (raise_if (overlaps (ap_allowed p) (ap_blocked p))
       (ValidationError ''Actor policy cannot both allow and block the same mutations'')) (\<lambda>_.
     bindR (raise_if (\<not> all_in (ap_requires_review_for p) (ap_allowed p))
       (ValidationError ''requires_review_for must be a subset of allowed_mutations.'')) (\<lambda>_.
     bindR (raise_if (ap_actor p \<noteq> Assistant \<and> Autonomous \<in> set (autonomous_modes_allowed p))
       (ValidationError ''autonomous mode is reserved for assistant actor policy.'')) (\<lambda>_.
     Inr p))))"

definition validate_mutation_rule :: "mutation_rule \<Rightarrow> memory_error + mutation_rule" where
  "validate_mutation_rule p =
     bindR (raise_if (overlaps (mr_allowed_classes p) (mr_blocked_classes p))
       (ValidationError ''Mutation rule cannot both allow and block the same classes'')) (\<lambda>_.
     bindR (raise_if (mr_type p = Create \<and> requires_target p)
       (ValidationError ''create should not require an existing target.'')) (\<lambda>_.
     bindR (raise_if (mr_type p = Merge \<and> \<not> allow_multi_target p)
       (ValidationError ''merge must allow multi-target mutation.'')) (\<lambda>_.
     bindR (raise_if (mr_type p = Forget_request \<and> allow_direct_apply p)
       (ValidationError ''forget_request cannot allow direct apply.'')) (\<lambda>_.
     bindR (raise_if (allow_sealed_private p \<and> \<not> mr_review_required p)
       (ValidationError ''sealed/private mutation access should require review.'')) (\<lambda>_.
     Inr p)))))"

definition validate_promotion_rule :: "promotion_rule \<Rightarrow> memory_error + promotion_rule" where
  "validate_promotion_rule p =
     bindR (in_unit_opt (minimum_confidence p)) (\<lambda>_.
     bindR (raise_if (minimum_repetition_count p < 1)
       (ValidationError ''minimum_repetition_count must be positive'')) (\<lambda>_.
     bindR (raise_if (from_class p = to_class p)
       (ValidationError ''from_class and to_class must differ.'')) (\<lambda>_.
     bindR (raise_if (\<not> pr_allowed p \<and> pr_autonomous_allowed p)
       (ValidationError ''autonomous_allowed cannot be true when the promotion is not allowed.'')) (\<lambda>_.
     bindR (raise_if (to_class p = Preference \<and> pr_autonomous_allowed p \<and> \<not> pr_review_required p)
       (ValidationError ''Autonomous promotion into preference memory must require review.'')) (\<lambda>_.
     Inr p)))))"

definition days_ok :: "int option \<Rightarrow> bool" where
  "days_ok d \<longleftrightarrow> (case d of None \<Rightarrow> True | Some n \<Rightarrow> 1 \<le> n)"

definition earlier :: "int option \<Rightarrow> int option \<Rightarrow> bool" where
  "earlier a b \<longleftrightarrow> (case (a, b) of (Some x, Some y) \<Rightarrow> x < y | _ \<Rightarrow> False)"

definition validate_retention_policy :: "retention_policy \<Rightarrow> memory_error + retention_policy" where
  "validate_retention_policy p =
     bindR (raise_if (\<not> days_ok (stale_after_days p) \<or> \<not> days_ok (auto_archive_after_days p) \<or>
         \<not> days_ok (auto_forget_after_days p)) (ValidationError ''days must be positive'')) (\<lambda>_.
     bindR (raise_if (earlier (auto_archive_after_days p) (stale_after_days p))
       (ValidationError ''auto_archive_after_days cannot be earlier than stale_after_days.'')) (\<lambda>_.
     bindR (raise_if (auto_forget_after_days p \<noteq> None \<and> \<not> hard_delete_allowed p)
       (ValidationError ''auto_forget_after_days cannot be set when hard_delete_allowed is false.'')) (\<lambda>_.
     bindR (raise_if (auto_forget_after_days p \<noteq> None \<and> archive_before_forget p \<and>
         auto_archive_after_days p = None)
       (ValidationError ''archive_before_forget requires auto_archive_after_days before auto_forget_after_days.'')) (\<lambda>_.
     bindR (raise_if (earlier (auto_forget_after_days p) (auto_archive_after_days p))
       (ValidationError ''auto_forget_after_days cannot be earlier than auto_archive_after_days.'')) (\<lambda>_.
     bindR (raise_if (rp_class p = Audit \<and> hard_delete_allowed p)
       (ValidationError ''audit retention cannot allow hard delete.'')) (\<lambda>_.
     bindR (raise_if (rp_class p = Audit \<and> \<not> retain_superseded_history p)
       (ValidationError ''audit retention must preserve superseded history.'')) (\<lambda>_.
     bindR (raise_if (rp_class p = Sealed_private \<and> auto_forget_after_days p \<noteq> None)
       (ValidationError ''sealed_private retention should not auto-forget by default.'')) (\<lambda>_.
     Inr p))))))))"

definition validate_autonomy_policy :: "autonomy_policy \<Rightarrow> memory_error + autonomy_policy" where
  "validate_autonomy_policy p =
     bindR (raise_if ((auto_apply_low_risk p \<or> auto_apply_as_provisional p) \<and>
         \<not> audit_required_for_all_autonomous_writes p)
       (ValidationError ''Autonomous auto-apply paths require audit_required_for_all_autonomous_writes.'')) (\<lambda>_.
     bindR (raise_if (\<not> allow_assistant_self_maintenance p \<and> auto_apply_low_risk p)
       (ValidationError ''auto_apply_low_risk requires allow_assistant_self_maintenance.'')) (\<lambda>_.
     Inr p))"

section \<open>The policy set\<close>

definition dict_by :: "('a \<Rightarrow> 'k) \<Rightarrow> 'a list \<Rightarrow> 'k \<Rightarrow> 'a option" where
  \<comment> \<open>\<open>{key(x): x for x in xs}\<close>: the last entry of a key wins\<close>
  "dict_by key xs k = map_of (rev (map (\<lambda>x. (key x, x)) xs)) k"

definition covers :: "('a \<Rightarrow> 'k) \<Rightarrow> 'a list \<Rightarrow> 'k list \<Rightarrow> bool" where
  "covers key xs ks \<longleftrightarrow> all_in ks (map key xs) \<and> all_in (map key xs) ks"

definition check_keys :: "policy_set \<Rightarrow> memory_error + unit" where
  \<comment> \<open>no key occurs twice\<close>
  "check_keys ps =
     bindR (raise_if (\<not> distinct (map cp_class (class_policies ps)))
       (ValidationError ''class_policies cannot contain duplicate memory classes.'')) (\<lambda>_.
     bindR (raise_if (\<not> distinct (map sp_sensitivity (sensitivity_policies ps)))
       (ValidationError ''sensitivity_policies cannot contain duplicate sensitivities.'')) (\<lambda>_.
     bindR (raise_if (\<not> distinct (map xp_source_kind (source_policies ps)))
       (ValidationError ''source_policies cannot contain duplicate source kinds.'')) (\<lambda>_.
     bindR (raise_if (\<not> distinct (map ap_actor (actor_policies ps)))
       (ValidationError ''actor_policies cannot contain duplicate actors.'')) (\<lambda>_.
     bindR (raise_if (\<not> distinct (map mr_type (mutation_rules ps)))
       (ValidationError ''mutation_rules cannot contain duplicate mutation types.'')) (\<lambda>_.
     bindR (raise_if (\<not> distinct (map rp_class (retention_policies ps)))
       (ValidationError ''retention_policies cannot contain duplicate memory classes.'')) (\<lambda>_.
     bindR (raise_if (\<not> distinct (map (\<lambda>r. (from_class r, to_class r)) (promotion_rules ps)))
       (ValidationError ''promotion_rules cannot contain duplicate from/to class pairs.'')) (\<lambda>_.
     Inr ())))))))"

definition check_coverage :: "policy_set \<Rightarrow> memory_error + unit" where
  \<comment> \<open>every key occurs\<close>
  "check_coverage ps =
     bindR (raise_if (\<not> covers cp_class (class_policies ps) all_classes)
       (ValidationError ''class_policies must cover every MemoryClass exactly once.'')) (\<lambda>_.
     bindR (raise_if (\<not> covers sp_sensitivity (sensitivity_policies ps) all_sensitivities)
       (ValidationError ''sensitivity_policies must cover every MemorySensitivity exactly once.'')) (\<lambda>_.
     bindR (raise_if (\<not> covers xp_source_kind (source_policies ps) all_source_kinds)
       (ValidationError ''source_policies must cover every MemorySourceKind exactly once.'')) (\<lambda>_.
     bindR (raise_if (\<not> covers ap_actor (actor_policies ps) all_actors)
       (ValidationError ''actor_policies must cover every MemoryMutationActor exactly once.'')) (\<lambda>_.
     bindR (raise_if (\<not> covers mr_type (mutation_rules ps) all_mutations)
       (ValidationError ''mutation_rules must cover every MemoryMutationType exactly once.'')) (\<lambda>_.
     bindR (raise_if (\<not> covers rp_class (retention_policies ps) all_classes)
       (ValidationError ''retention_policies must cover every MemoryClass exactly once.'')) (\<lambda>_.
     Inr ()))))))"

definition check_cross_rules :: "policy_set \<Rightarrow> memory_error + unit" where
  \<comment> \<open>the rules between the policies of a set\<close>
  "check_cross_rules ps =
     (case dict_by sp_sensitivity (sensitivity_policies ps) Sealed of
        None \<Rightarrow> Inl (KeyError ''sealed'')
      | Some sealed \<Rightarrow>
     bindR (raise_if (default_retrieval_allowed sealed)
       (ValidationError ''sealed sensitivity cannot allow default retrieval.'')) (\<lambda>_.
     bindR (raise_if (allow_summary_exposure sealed)
       (ValidationError ''sealed sensitivity cannot allow summary exposure.'')) (\<lambda>_.
     bindR (raise_if (allow_cross_room_display sealed)
       (ValidationError ''sealed sensitivity cannot allow cross-room display.'')) (\<lambda>_.
     bindR (raise_if (\<not> requires_explicit_user_permission sealed)
       (ValidationError ''sealed sensitivity must require explicit user permission.'')) (\<lambda>_.
     (case dict_by ap_actor (actor_policies ps) Assistant of
        None \<Rightarrow> Inl (KeyError ''assistant'')
      | Some assistant \<Rightarrow>
     bindR (raise_if (\<not> allow_assistant_self_maintenance (the_autonomy_policy ps) \<and>
         Autonomous \<in> set (autonomous_modes_allowed assistant))
       (ValidationError ''Assistant autonomous modes require allow_assistant_self_maintenance.'')) (\<lambda>_.
     (case dict_by xp_source_kind (source_policies ps) Assistant_inference of
        None \<Rightarrow> Inl (KeyError ''assistant_inference'')
      | Some inference \<Rightarrow>
     bindR (raise_if (allow_preference_creation inference \<or> allow_preference_update inference)
       (ValidationError ''assistant_inference source policy cannot directly allow preference creation or update.'')) (\<lambda>_.
     Inr ())))))))))"

definition validate_policy_set :: "policy_set \<Rightarrow> memory_error + policy_set" where
  "validate_policy_set ps =
     bindR (check_keys ps) (\<lambda>_. bindR (check_coverage ps) (\<lambda>_. bindR (check_cross_rules ps) (\<lambda>_. Inr ps)))"

definition make_policy_set :: "policy_set \<Rightarrow> memory_error + policy_set" where
  \<comment> \<open>\<open>MemoryPolicySet.model_validate\<close>: the nested policies first, then the set\<close>
  "make_policy_set ps =
     bindR (mapR validate_class_policy (class_policies ps)) (\<lambda>_.
     bindR (mapR validate_sensitivity_policy (sensitivity_policies ps)) (\<lambda>_.
     bindR (mapR validate_source_policy (source_policies ps)) (\<lambda>_.
     bindR (mapR validate_actor_policy (actor_policies ps)) (\<lambda>_.
     bindR (mapR validate_mutation_rule (mutation_rules ps)) (\<lambda>_.
     bindR (mapR validate_promotion_rule (promotion_rules ps)) (\<lambda>_.
     bindR (mapR validate_retention_policy (retention_policies ps)) (\<lambda>_.
     bindR (validate_autonomy_policy (the_autonomy_policy ps)) (\<lambda>_.
     validate_policy_set ps))))))))"

section \<open>What validation establishes\<close>

lemma dict_by_iff:
  "distinct (map key xs) \<Longrightarrow> dict_by key xs k = Some x \<longleftrightarrow> x \<in> set xs \<and> key x = k"
proof -
  assume "distinct (map key xs)"
  then have "distinct (map fst (rev (map (\<lambda>x. (key x, x)) xs)))"
    by (simp add: rev_map [symmetric] comp_def)
  then show ?thesis by (auto simp: dict_by_def)
qed

lemma dict_by_member: "dict_by key xs k = Some x \<Longrightarrow> x \<in> set xs \<and> key x = k"
  unfolding dict_by_def by (auto dest: map_of_SomeD)

lemma dict_by_total: "set ks = UNIV \<Longrightarrow> covers key xs ks \<Longrightarrow> \<exists>x. dict_by key xs k = Some x"
proof -
  assume "set ks = UNIV" "covers key xs ks"
  then have "k \<in> key ` set xs" by (auto simp: covers_def all_in_iff)
  then have "dict_by key xs k \<noteq> None" by (auto simp: dict_by_def map_of_eq_None_iff image_image)
  then show ?thesis by simp
qed

lemma dict_by_find:
  assumes "distinct (map key xs)"
  shows "find (\<lambda>x. key x = k) xs = dict_by key xs k"
proof (cases "find (\<lambda>x. key x = k) xs")
  case None
  then show ?thesis
    using dict_by_member [of key xs k] by (cases "dict_by key xs k") (auto simp: find_None_iff)
next
  case (Some x)
  then have "x \<in> set xs \<and> key x = k" by (auto simp: find_Some_iff)
  with assms have "dict_by key xs k = Some x" by (simp add: dict_by_iff)
  with Some show ?thesis by simp
qed

definition policies_valid :: "policy_set \<Rightarrow> bool" where
  "policies_valid ps \<longleftrightarrow> make_policy_set ps = Inr ps"

lemma check_keys_iff:
  "check_keys ps = Inr u \<longleftrightarrow> distinct (map cp_class (class_policies ps)) \<and>
     distinct (map sp_sensitivity (sensitivity_policies ps)) \<and>
     distinct (map xp_source_kind (source_policies ps)) \<and> distinct (map ap_actor (actor_policies ps)) \<and>
     distinct (map mr_type (mutation_rules ps)) \<and> distinct (map rp_class (retention_policies ps)) \<and>
     distinct (map (\<lambda>r. (from_class r, to_class r)) (promotion_rules ps))"
  by (simp add: check_keys_def bindR_raise_if)

lemma check_coverage_iff:
  "check_coverage ps = Inr u \<longleftrightarrow> covers cp_class (class_policies ps) all_classes \<and>
     covers sp_sensitivity (sensitivity_policies ps) all_sensitivities \<and>
     covers xp_source_kind (source_policies ps) all_source_kinds \<and>
     covers ap_actor (actor_policies ps) all_actors \<and> covers mr_type (mutation_rules ps) all_mutations \<and>
     covers rp_class (retention_policies ps) all_classes"
  by (simp add: check_coverage_def bindR_raise_if)

lemma check_cross_rules_facts:
  assumes "check_cross_rules ps = Inr u"
  obtains sealed assistant inference where
    "dict_by sp_sensitivity (sensitivity_policies ps) Sealed = Some sealed"
    "\<not> default_retrieval_allowed sealed" "\<not> allow_summary_exposure sealed"
    "\<not> allow_cross_room_display sealed" "requires_explicit_user_permission sealed"
    "dict_by ap_actor (actor_policies ps) Assistant = Some assistant"
    "Autonomous \<in> set (autonomous_modes_allowed assistant) \<longrightarrow> allow_assistant_self_maintenance (the_autonomy_policy ps)"
    "dict_by xp_source_kind (source_policies ps) Assistant_inference = Some inference"
    "\<not> allow_preference_creation inference" "\<not> allow_preference_update inference"
  using assms that by (auto simp: check_cross_rules_def bindR_raise_if split: option.splits if_splits)

lemma validate_policy_set_iff:
  "validate_policy_set ps = Inr ps' \<longleftrightarrow> ps' = ps \<and> check_keys ps = Inr () \<and> check_coverage ps = Inr () \<and>
     check_cross_rules ps = Inr ()"
  by (auto simp: validate_policy_set_def bindR_eq_Inr_iff)

lemma policies_valid_set: "policies_valid ps \<Longrightarrow> validate_policy_set ps = Inr ps"
  by (simp add: policies_valid_def make_policy_set_def bindR_eq_Inr_iff)

lemma mapR_member:
  "mapR f xs = Inr ys \<Longrightarrow> x \<in> set xs \<Longrightarrow> \<exists>y. f x = Inr y"
  by (induction xs arbitrary: ys) (auto simp: bindR_eq_Inr_iff)

lemma policies_valid_members:
  assumes "policies_valid ps"
  shows "p \<in> set (class_policies ps) \<Longrightarrow> \<exists>y. validate_class_policy p = Inr y"
    "a \<in> set (actor_policies ps) \<Longrightarrow> \<exists>y. validate_actor_policy a = Inr y"
    "x \<in> set (source_policies ps) \<Longrightarrow> \<exists>y. validate_source_policy x = Inr y"
    "r \<in> set (mutation_rules ps) \<Longrightarrow> \<exists>y. validate_mutation_rule r = Inr y"
    "q \<in> set (promotion_rules ps) \<Longrightarrow> \<exists>y. validate_promotion_rule q = Inr y"
  using assms by (auto simp: policies_valid_def make_policy_set_def bindR_eq_Inr_iff dest: mapR_member)

end
