(* ===== verification/MemoryBoundary.thy ===== *)
theory MemoryBoundary
  imports MemoryPolicies Json
begin

text \<open>
  \<open>MemoryBoundaryService\<close> of \<open>app/memory/services/memory_boundary_service.py\<close>: the gate
  that decides, from a policy set, whether a retrieval, a mutation or a promotion is allowed,
  blocked, held for review, provisional, or redacted.  A failed dictionary lookup is a
  \<open>KeyError\<close>.
\<close>

record room_context =
  room_name :: string
  summary_only :: bool
  explicit_user_permission :: bool
  room_allow_sealed_private :: bool
  room_allow_cross_room_display :: bool
  active_project_id :: "string option"
  active_conversation_id :: "string option"
  suppressed_classes :: "memory_class list"

record boundary_decision =
  bd_allowed :: bool
  bd_blocked :: bool
  bd_review_required :: bool
  provisional_only :: bool
  redact_body :: bool
  redact_source :: bool
  bd_reason :: string
  bd_policy_rule_id :: "string option"
  bd_permission_required :: bool

definition default_room :: room_context where
  "default_room = \<lparr>room_name = ''memory'', summary_only = False, explicit_user_permission = False,
     room_allow_sealed_private = False, room_allow_cross_room_display = False,
     active_project_id = None, active_conversation_id = None, suppressed_classes = []\<rparr>"

section \<open>Lookups\<close>

definition lookup_key :: "string \<Rightarrow> 'a option \<Rightarrow> memory_error + 'a" where
  "lookup_key k v = (case v of None \<Rightarrow> Inl (KeyError k) | Some x \<Rightarrow> Inr x)"

definition get_class_policy :: "policy_set \<Rightarrow> memory_class \<Rightarrow> memory_error + class_policy" where
  "get_class_policy ps c = lookup_key (class_value c) (dict_by cp_class (class_policies ps) c)"

definition get_sensitivity_policy :: "policy_set \<Rightarrow> memory_sensitivity \<Rightarrow> memory_error + sensitivity_policy" where
  "get_sensitivity_policy ps s =
     lookup_key (sensitivity_value s) (dict_by sp_sensitivity (sensitivity_policies ps) s)"

definition get_source_policy :: "policy_set \<Rightarrow> source_kind \<Rightarrow> memory_error + source_policy" where
  "get_source_policy ps k = lookup_key (source_kind_value k) (dict_by xp_source_kind (source_policies ps) k)"

definition get_actor_policy :: "policy_set \<Rightarrow> mutation_actor \<Rightarrow> memory_error + actor_policy" where
  "get_actor_policy ps a = lookup_key (actor_value a) (dict_by ap_actor (actor_policies ps) a)"

definition get_mutation_rule :: "policy_set \<Rightarrow> mutation_type \<Rightarrow> memory_error + mutation_rule" where
  "get_mutation_rule ps m = lookup_key (mutation_value m) (dict_by mr_type (mutation_rules ps) m)"

definition get_promotion_rule :: "policy_set \<Rightarrow> memory_class \<Rightarrow> memory_class \<Rightarrow> memory_error + promotion_rule" where
  "get_promotion_rule ps f t =
     lookup_key (''No promotion rule defined for '' @ class_value f @ '' -> '' @ class_value t @ ''.'')
       (dict_by (\<lambda>r. (from_class r, to_class r)) (promotion_rules ps) (f, t))"

definition get_retention_policy :: "policy_set \<Rightarrow> memory_class \<Rightarrow> memory_error + retention_policy" where
  "get_retention_policy ps c = lookup_key (class_value c) (dict_by rp_class (retention_policies ps) c)"

primrec sensitivity_order :: "memory_sensitivity \<Rightarrow> nat" where
  "sensitivity_order Public = 0"
| "sensitivity_order Internal = 1"
| "sensitivity_order Private = 2"
| "sensitivity_order Sealed = 3"

definition sensitivity_exceeds :: "memory_sensitivity \<Rightarrow> memory_sensitivity \<Rightarrow> bool" where
  "sensitivity_exceeds allowed actual \<longleftrightarrow> sensitivity_order actual > sensitivity_order allowed"

definition is_same_scope :: "memory_item \<Rightarrow> room_context \<Rightarrow> bool" where
  "is_same_scope m r \<longleftrightarrow>
     (truthy (active_project_id r) \<and> project_id (context_links m) = active_project_id r) \<or>
     (truthy (active_conversation_id r) \<and> conversation_id (context_links m) = active_conversation_id r)"

definition blocked_decision :: "bool \<Rightarrow> string \<Rightarrow> boundary_decision" where
  "blocked_decision permission why =
     \<lparr>bd_allowed = False, bd_blocked = True, bd_review_required = False, provisional_only = False,
      redact_body = False, redact_source = False, bd_reason = why, bd_policy_rule_id = None,
      bd_permission_required = permission\<rparr>"

definition review_decision :: "bool \<Rightarrow> string \<Rightarrow> string \<Rightarrow> boundary_decision" where
  "review_decision provisional why rule =
     \<lparr>bd_allowed = False, bd_blocked = False, bd_review_required = True, provisional_only = provisional,
      redact_body = False, redact_source = False, bd_reason = why, bd_policy_rule_id = Some rule,
      bd_permission_required = False\<rparr>"

definition allowed_decision :: "bool \<Rightarrow> string \<Rightarrow> string \<Rightarrow> boundary_decision" where
  "allowed_decision provisional why rule =
     \<lparr>bd_allowed = True, bd_blocked = False, bd_review_required = False, provisional_only = provisional,
      redact_body = False, redact_source = False, bd_reason = why, bd_policy_rule_id = Some rule,
      bd_permission_required = False\<rparr>"

section \<open>Retrieval\<close>

definition retrieval_refusal ::
  "actor_policy \<Rightarrow> sensitivity_policy \<Rightarrow> memory_item \<Rightarrow> mutation_actor \<Rightarrow> room_context
     \<Rightarrow> boundary_decision option" where
  \<comment> \<open>the first guard of \<open>evaluate_retrieval\<close> that refuses\<close>
  "retrieval_refusal ap sp m a r = (let c = memory_class m; s = sensitivity m in
     if c \<in> set (suppressed_classes r) then
       Some (blocked_decision False (class_value c @ '' is suppressed in this retrieval posture.''))
     else if c \<in> set (ap_blocked_classes ap) then
       Some (blocked_decision False (actor_value a @ '' is blocked from '' @ class_value c @ '' memory.''))
     else if ap_allowed_classes ap \<noteq> [] \<and> c \<notin> set (ap_allowed_classes ap) then
       Some (blocked_decision False (actor_value a @ '' is not allowed to access '' @ class_value c @ '' memory.''))
     else if sp_allowed_actors sp \<noteq> [] \<and> a \<notin> set (sp_allowed_actors sp) then
       Some (blocked_decision False (actor_value a @ '' is not allowed for '' @ sensitivity_value s @ '' sensitivity.''))
     else if sensitivity_exceeds (max_sensitivity ap) s then
       Some (blocked_decision False (actor_value a @ '' exceeds its sensitivity ceiling for '' @
         sensitivity_value s @ '' memory.''))
     else if (c = Sealed_private \<or> s = Sealed) \<and> \<not> explicit_user_permission r \<and> \<not> room_allow_sealed_private r then
       Some (blocked_decision True ''sealed/private memory requires explicit permission for retrieval.'')
     else if summary_only r \<and> \<not> allow_summary_exposure sp then
       Some (blocked_decision False (sensitivity_value s @ '' memory cannot be exposed in summaries.''))
     else if room_name r \<noteq> ''memory'' \<and> \<not> allow_cross_room_display sp \<and> \<not> is_same_scope m r then
       Some (blocked_decision False (sensitivity_value s @
         '' memory cannot be displayed cross-room outside its originating scope.''))
     else None)"

definition evaluate_retrieval ::
  "policy_set \<Rightarrow> memory_item \<Rightarrow> mutation_actor \<Rightarrow> room_context \<Rightarrow> memory_error + boundary_decision" where
  "evaluate_retrieval ps m a r =
     bindR (get_class_policy ps (memory_class m)) (\<lambda>cp.
     bindR (get_sensitivity_policy ps (sensitivity m)) (\<lambda>sp.
     bindR (get_actor_policy ps a) (\<lambda>ap.
     case retrieval_refusal ap sp m a r of
       Some d \<Rightarrow> Inr d
     | None \<Rightarrow>
         let redact = summary_only r \<or> sensitivity m \<in> {Private, Sealed} in
         Inr \<lparr>bd_allowed = True, bd_blocked = False,
              bd_review_required = (requires_review sp \<and> a \<noteq> User),
              provisional_only = (default_status cp = Provisional),
              redact_body = redact, redact_source = redact,
              bd_reason = ''Retrieval allowed under current memory boundaries.'',
              bd_policy_rule_id = Some (''sensitivity:'' @ sensitivity_value (sensitivity m)),
              bd_permission_required = False\<rparr>)))"

definition evaluate_summary_exposure ::
  "policy_set \<Rightarrow> memory_item \<Rightarrow> mutation_actor \<Rightarrow> room_context \<Rightarrow> memory_error + boundary_decision" where
  "evaluate_summary_exposure ps m a r = evaluate_retrieval ps m a (r\<lparr>summary_only := True\<rparr>)"

definition sanitize_item_for_exposure ::
  "memory_item \<Rightarrow> boundary_decision \<Rightarrow> memory_error + memory_item option" where
  "sanitize_item_for_exposure m d =
     (if bd_blocked d then Inr None
      else bindR (if redact_body d then bindR (set_body ''[REDACTED]'' m) (set_why_stored ''[REDACTED]'')
                  else Inr m) (\<lambda>m'.
        Inr (Some (if redact_source d
          then m'\<lparr>source := (source m')\<lparr>source_ref := None, source_label := None\<rparr>\<rparr> else m'))))"

section \<open>Mutation\<close>

definition resolve_target_class :: "mutation_request \<Rightarrow> memory_item option \<Rightarrow> memory_class option" where
  "resolve_target_class q e =
     (case patch_class (patch q) of Some c \<Rightarrow> Some c
      | None \<Rightarrow> (case target_class (target q) of Some c \<Rightarrow> Some c
         | None \<Rightarrow> map_option memory_class e))"

definition resolve_target_sensitivity ::
  "mutation_request \<Rightarrow> memory_item option \<Rightarrow> class_policy \<Rightarrow> memory_sensitivity" where
  "resolve_target_sensitivity q e cp =
     (case patch_sensitivity (patch q) of Some s \<Rightarrow> s
      | None \<Rightarrow> (case e of Some m \<Rightarrow> sensitivity m | None \<Rightarrow> default_sensitivity cp))"

definition mutation_refusal ::
  "class_policy \<Rightarrow> sensitivity_policy \<Rightarrow> actor_policy \<Rightarrow> mutation_rule \<Rightarrow> autonomy_policy \<Rightarrow>
   memory_class \<Rightarrow> memory_sensitivity \<Rightarrow> mutation_request \<Rightarrow> boundary_decision option" where
  \<comment> \<open>the first of the guards before the autonomy check that refuses\<close>
  "mutation_refusal cp sp ap mr au c s q = (let a = actor q; k = mutation_type q in
     if c \<in> set (ap_blocked_classes ap) then
       Some (blocked_decision False (actor_value a @ '' is blocked from mutating '' @ class_value c @ '' memory.''))
     else if ap_allowed_classes ap \<noteq> [] \<and> c \<notin> set (ap_allowed_classes ap) then
       Some (blocked_decision False (actor_value a @ '' is not allowed to mutate '' @ class_value c @ '' memory.''))
     else if k \<in> set (ap_blocked ap) then
       Some (blocked_decision False (actor_value a @ '' is blocked from '' @ mutation_value k @ '' mutations.''))
     else if ap_allowed ap \<noteq> [] \<and> k \<notin> set (ap_allowed ap) then
       Some (blocked_decision False (actor_value a @ '' is not allowed to perform '' @ mutation_value k @ ''.''))
     else if k \<in> set (cp_blocked cp) then
       Some (blocked_decision False (mutation_value k @ '' is blocked for '' @ class_value c @ '' memory.''))
     else if cp_allowed cp \<noteq> [] \<and> k \<notin> set (cp_allowed cp) then
       Some (blocked_decision False (mutation_value k @ '' is not allowed for '' @ class_value c @ '' memory.''))
     else if c \<in> set (mr_blocked_classes mr) then
       Some (blocked_decision False (mutation_value k @ '' is blocked for '' @ class_value c @ '' by mutation rule.''))
     else if mr_allowed_classes mr \<noteq> [] \<and> c \<notin> set (mr_allowed_classes mr) then
       Some (blocked_decision False (mutation_value k @ '' is not allowed for '' @ class_value c @ '' by mutation rule.''))
     else if sensitivity_exceeds (max_sensitivity ap) s then
       Some (blocked_decision False (actor_value a @ '' exceeds its sensitivity ceiling for '' @
         sensitivity_value s @ '' mutation.''))
     else if sp_allowed_actors sp \<noteq> [] \<and> a \<notin> set (sp_allowed_actors sp) then
       Some (blocked_decision False (actor_value a @ '' is not allowed for '' @ sensitivity_value s @ '' mutation.''))
     else if s = Sealed \<and> a \<noteq> User then
       Some (blocked_decision True ''sealed memory mutation requires explicit user action.'')
     else if sensitivity_conflict (review q) \<and> blocked_when_sensitive_conflict au then
       Some (blocked_decision False ''Mutation blocked because a sensitivity conflict was detected.'')
     else None)"

definition update_mutations :: "mutation_type list" where
  "update_mutations = [Revise, Append_note, Supersede, Pin, Unpin, Reclassify, Change_sensitivity,
     Change_mutability, Promote, Demote, Merge, Block, Unblock, Restore]"

definition evaluate_autonomous_mutation ::
  "mutation_request \<Rightarrow> memory_class \<Rightarrow> class_policy \<Rightarrow> actor_policy \<Rightarrow> mutation_rule \<Rightarrow> autonomy_policy \<Rightarrow>
   memory_sensitivity \<Rightarrow> boundary_decision option" where
  "evaluate_autonomous_mutation q c cp ap mr au s = (let k = mutation_type q in
     if actor q \<noteq> Assistant then
       Some (blocked_decision False ''Autonomous mutation is reserved for assistant actor.'')
     else if \<not> allow_assistant_self_maintenance au then
       Some (blocked_decision False ''Autonomous mutation is disabled by autonomy policy.'')
     else if Autonomous \<notin> set (autonomous_modes_allowed ap) then
       Some (blocked_decision False ''Assistant actor policy does not allow autonomous mode.'')
     else if s \<in> {Private, Sealed} then
       Some (blocked_decision (s = Sealed) ''Autonomous mutation is blocked for private/sealed sensitivity.'')
     else if k = Create \<and> \<not> autonomous_create_allowed cp then
       Some (blocked_decision False (class_value c @ '' memory does not allow autonomous create.''))
     else if k \<in> set update_mutations \<and> \<not> autonomous_update_allowed cp then
       Some (blocked_decision False (class_value c @ '' memory does not allow autonomous update.''))
     else if k = Archive \<and> \<not> autonomous_archive_allowed cp then
       Some (blocked_decision False (class_value c @ '' memory does not allow autonomous archive.''))
     else if k = Forget_request \<and> \<not> autonomous_forget_allowed cp then
       Some (blocked_decision False (class_value c @ '' memory does not allow autonomous forget.''))
     else if \<not> mr_autonomous_allowed mr then
       Some (blocked_decision False (mutation_value k @ '' is not allowed in autonomous mode.''))
     else None)"

definition evaluate_source_constraints ::
  "mutation_request \<Rightarrow> memory_class \<Rightarrow> source_policy \<Rightarrow> boundary_decision option" where
  "evaluate_source_constraints q c xp =
     (let k = mutation_type q; x = source_kind_value (xp_source_kind xp) in
     if k = Create \<and> durable_classes_allowed xp \<noteq> [] \<and> c \<notin> set (durable_classes_allowed xp) \<and>
         c \<notin> set (provisional_only_classes xp) then
       Some (blocked_decision False (x @ '' cannot create durable '' @ class_value c @ '' memory.''))
     else if k = Create \<and> c = Preference \<and> \<not> allow_preference_creation xp then
       Some (blocked_decision False (x @ '' cannot directly create preference memory.''))
     else if k \<in> {Revise, Promote, Demote} \<and> c = Preference \<and> \<not> allow_preference_update xp then
       Some (blocked_decision False (x @ '' cannot directly update preference memory.''))
     else if requires_confidence xp \<and> patch_confidence (patch q) = None then
       Some (review_decision True (x @ '' requires confidence for this memory operation.'') (''source:'' @ x))
     else if c \<in> set (xp_requires_review_for xp) then
       Some (review_decision (c \<in> set (provisional_only_classes xp))
         (x @ '' requires review for '' @ class_value c @ '' memory.'') (''source:'' @ x))
     else None)"

definition review_reasons ::
  "class_policy \<Rightarrow> sensitivity_policy \<Rightarrow> actor_policy \<Rightarrow> mutation_rule \<Rightarrow> mutation_request \<Rightarrow> string list" where
  \<comment> \<open>why the policies ask for a review\<close>
  "review_reasons cp sp ap mr q = (let k = mutation_type q in
     (if k \<in> set (cp_review_required cp) then [''Class policy requires review for this mutation.''] else []) @
     (if k \<in> set (ap_requires_review_for ap) then [''Actor policy requires review for this mutation.''] else []) @
     (if mr_review_required mr then [''Mutation rule requires review.''] else []) @
     (if requires_review sp \<and> actor q \<noteq> User then [''Sensitivity policy requires review.''] else []) @
     (if review_required (review q) then
        [if truthy (review_reason (review q)) then the (review_reason (review q))
         else ''Request review flag is set.''] else []))"

definition conclude_mutation ::
  "mutation_request \<Rightarrow> bool \<Rightarrow> bool \<Rightarrow> string list \<Rightarrow> boundary_decision" where
  \<comment> \<open>the end of \<open>evaluate_mutation\<close>: a forget request is always reviewed\<close>
  "conclude_mutation q needs_review provisional reasons =
     (let k = mutation_type q;
          reasons' = (if k = Forget_request then reasons @ [''forget_request is governed and requires review.'']
                      else reasons);
          why = join '' '' reasons' in
      if needs_review \<or> k = Forget_request
      then review_decision provisional (if why = [] then ''Mutation requires review.'' else why)
             (''mutation:'' @ mutation_value k)
      else allowed_decision provisional ''Mutation allowed under current memory boundaries.''
             (''mutation:'' @ mutation_value k))"

definition evaluate_mutation ::
  "policy_set \<Rightarrow> mutation_request \<Rightarrow> memory_item option \<Rightarrow> memory_error + boundary_decision" where
  "evaluate_mutation ps q e =
     bindR (get_actor_policy ps (actor q)) (\<lambda>ap.
     bindR (get_mutation_rule ps (mutation_type q)) (\<lambda>mr.
     let au = the_autonomy_policy ps in
     case resolve_target_class q e of
       None \<Rightarrow> Inr (blocked_decision False ''Target memory_class could not be determined for mutation.'')
     | Some c \<Rightarrow>
     bindR (get_class_policy ps c) (\<lambda>cp.
     let s = resolve_target_sensitivity q e cp in
     bindR (get_sensitivity_policy ps s) (\<lambda>sp.
     bindR (case context_source_kind (request_context q) of None \<Rightarrow> Inr None
            | Some k \<Rightarrow> bindR (get_source_policy ps k) (\<lambda>x. Inr (Some x))) (\<lambda>policy.
     case mutation_refusal cp sp ap mr au c s q of Some d \<Rightarrow> Inr d | None \<Rightarrow>
     (case (if mode q = Autonomous then evaluate_autonomous_mutation q c cp ap mr au s else None) of
        Some d \<Rightarrow> Inr d
      | None \<Rightarrow>
     let reasons = review_reasons cp sp ap mr q in
     (case policy of
        None \<Rightarrow> Inr (conclude_mutation q (reasons \<noteq> []) False reasons)
      | Some xp \<Rightarrow>
          let sd = evaluate_source_constraints q c xp;
              provisional = c \<in> set (provisional_only_classes xp) \<or> default_status cp = Provisional in
          (case sd of
             Some d \<Rightarrow>
               if bd_blocked d then Inr d
               else Inr (conclude_mutation q (reasons \<noteq> [] \<or> bd_review_required d) provisional
                 (reasons @ (if bd_review_required d then [bd_reason d] else []) @
                  (if provisional then [''Source/class policy limits this mutation to provisional posture.''] else [])))
           | None \<Rightarrow>
               Inr (conclude_mutation q (reasons \<noteq> []) provisional
                 (reasons @ (if provisional
                    then [''Source/class policy limits this mutation to provisional posture.''] else [])))))))))))"

section \<open>Promotion\<close>

definition format_2f :: "rat \<Rightarrow> string" where
  \<comment> \<open>\<open>f"{x:.2f}"\<close> for a non-negative number: two decimals, ties to the even digit\<close>
  "format_2f r = (let h = \<lfloor>100 * r\<rfloor>; d = 100 * r - of_int h;
       n = nat (if d < 1/2 then h else if 1/2 < d then h + 1 else if even h then h else h + 1) in
     digits_of (n div 100) @ ''.'' @ digits_of (n mod 100 div 10) @ digits_of (n mod 10))"

definition promotion_refusal ::
  "promotion_rule \<Rightarrow> actor_policy \<Rightarrow> mutation_actor \<Rightarrow> source_kind option \<Rightarrow> rat option \<Rightarrow> int \<Rightarrow> mutation_mode
     \<Rightarrow> boundary_decision option" where
  "promotion_refusal pr ap a kind conf count md =
     (if \<not> pr_allowed pr then
       Some (blocked_decision False (''Promotion from '' @ class_value (from_class pr) @ '' to '' @
         class_value (to_class pr) @ '' is blocked by policy.''))
     else if to_class pr \<in> set (ap_blocked_classes ap) then
       Some (blocked_decision False (actor_value a @ '' is blocked from promoting into '' @
         class_value (to_class pr) @ '' memory.''))
     else if ap_allowed_classes ap \<noteq> [] \<and> to_class pr \<notin> set (ap_allowed_classes ap) then
       Some (blocked_decision False (actor_value a @ '' is not allowed to promote into '' @
         class_value (to_class pr) @ '' memory.''))
     else if (case minimum_confidence pr of None \<Rightarrow> False
              | Some lo \<Rightarrow> (case conf of None \<Rightarrow> True | Some x \<Rightarrow> x < lo)) then
       Some (blocked_decision False (''Promotion requires confidence >= '' @
         format_2f (the (minimum_confidence pr)) @ ''.''))
     else if count < minimum_repetition_count pr then
       Some (blocked_decision False (''Promotion requires repetition_count >= '' @
         string_of_int (minimum_repetition_count pr) @ ''.''))
     else if required_source_kinds pr \<noteq> [] \<and>
         (case kind of None \<Rightarrow> True | Some k \<Rightarrow> k \<notin> set (required_source_kinds pr)) then
       Some (blocked_decision False ''Promotion source kind does not satisfy rule requirements.'')
     else if md = Autonomous \<and> \<not> pr_autonomous_allowed pr then
       Some (blocked_decision False ''Autonomous promotion is not allowed for this class transition.'')
     else None)"

definition evaluate_promotion ::
  "policy_set \<Rightarrow> memory_class \<Rightarrow> memory_class \<Rightarrow> mutation_actor \<Rightarrow> source_kind option \<Rightarrow> rat option \<Rightarrow> int
     \<Rightarrow> mutation_mode \<Rightarrow> memory_error + boundary_decision" where
  "evaluate_promotion ps f t a kind conf count md =
     bindR (get_promotion_rule ps f t) (\<lambda>pr.
     bindR (get_actor_policy ps a) (\<lambda>ap.
     bindR (case kind of None \<Rightarrow> Inr None
            | Some k \<Rightarrow> bindR (get_source_policy ps k) (\<lambda>x. Inr (Some x))) (\<lambda>xp.
     case promotion_refusal pr ap a kind conf count md of Some d \<Rightarrow> Inr d | None \<Rightarrow>
     (let rule = ''promotion:'' @ class_value f @ ''->'' @ class_value t;
          by_source = (case xp of None \<Rightarrow> False | Some x \<Rightarrow> t \<in> set (xp_requires_review_for x));
          reasons = (if pr_review_required pr then [''Promotion rule requires review.''] else []) @
            (if by_source then [''Source policy requires review for this destination class.''] else []) in
      if t = Preference \<and> (case xp of None \<Rightarrow> False | Some x \<Rightarrow> \<not> allow_preference_creation x) then
        Inr (blocked_decision False (source_kind_value (xp_source_kind (the xp)) @
          '' cannot directly create preference memory.''))
      else if pr_review_required pr \<or> by_source then
        Inr (review_decision (provisional_first pr) (join '' '' reasons) rule)
      else
        Inr (allowed_decision (provisional_first pr)
          (''Promotion from '' @ class_value f @ '' to '' @ class_value t @ '' is allowed.'') rule)))))"

section \<open>Lookups in a valid policy set\<close>

lemma lookup_key_iff: "lookup_key k v = Inr x \<longleftrightarrow> v = Some x"
  by (auto simp: lookup_key_def split: option.splits)

lemmas getter_defs = get_class_policy_def get_sensitivity_policy_def get_source_policy_def
  get_actor_policy_def get_mutation_rule_def get_retention_policy_def get_promotion_rule_def

lemma getters_total:
  assumes "policies_valid ps"
  shows "\<exists>p. get_class_policy ps c = Inr p" "\<exists>p. get_sensitivity_policy ps s = Inr p"
    "\<exists>p. get_source_policy ps k = Inr p" "\<exists>p. get_actor_policy ps a = Inr p"
    "\<exists>p. get_mutation_rule ps m = Inr p" "\<exists>p. get_retention_policy ps c = Inr p"
  using policies_valid_set [OF assms]
  by (auto simp: getter_defs lookup_key_iff validate_policy_set_iff check_coverage_iff
      intro!: dict_by_total)

lemma sealed_policy:
  assumes "policies_valid ps" "get_sensitivity_policy ps Sealed = Inr p"
  shows "\<not> default_retrieval_allowed p" "\<not> allow_summary_exposure p" "\<not> allow_cross_room_display p"
    "requires_explicit_user_permission p"
proof -
  from policies_valid_set [OF assms(1)] have "check_cross_rules ps = Inr ()"
    by (simp add: validate_policy_set_iff)
  then show "\<not> default_retrieval_allowed p" "\<not> allow_summary_exposure p" "\<not> allow_cross_room_display p"
    "requires_explicit_user_permission p"
    using assms(2) by (auto simp: getter_defs lookup_key_iff elim!: check_cross_rules_facts)
qed

lemma decision_simps [simp]:
  "bd_blocked (blocked_decision b w)" "\<not> bd_allowed (blocked_decision b w)"
  "\<not> bd_review_required (blocked_decision b w)"
  "\<not> bd_blocked (review_decision v w x)" "\<not> bd_allowed (review_decision v w x)"
  "bd_review_required (review_decision v w x)"
  "\<not> bd_blocked (allowed_decision v w x)" "bd_allowed (allowed_decision v w x)"
  "\<not> bd_review_required (allowed_decision v w x)"
  "provisional_only (allowed_decision v w x) = v" "provisional_only (review_decision v w x) = v"
  by (simp_all add: blocked_decision_def review_decision_def allowed_decision_def)

lemma if_Some_eq_None: "(if c then Some x else r) = None \<longleftrightarrow> \<not> c \<and> r = None"
  by simp

lemma if_Some_eq_Some: "(if c then Some x else r) = Some y \<longleftrightarrow> (c \<and> y = x) \<or> (\<not> c \<and> r = Some y)"
  by auto

section \<open>Properties of retrieval\<close>

lemma retrieval_refusal_None:
  "retrieval_refusal ap sp m a r = None \<longleftrightarrow>
     memory_class m \<notin> set (suppressed_classes r) \<and> memory_class m \<notin> set (ap_blocked_classes ap) \<and>
     (ap_allowed_classes ap = [] \<or> memory_class m \<in> set (ap_allowed_classes ap)) \<and>
     (sp_allowed_actors sp = [] \<or> a \<in> set (sp_allowed_actors sp)) \<and>
     \<not> sensitivity_exceeds (max_sensitivity ap) (sensitivity m) \<and>
     (memory_class m = Sealed_private \<or> sensitivity m = Sealed \<longrightarrow>
        explicit_user_permission r \<or> room_allow_sealed_private r) \<and>
     (summary_only r \<longrightarrow> allow_summary_exposure sp) \<and>
     (room_name r = ''memory'' \<or> allow_cross_room_display sp \<or> is_same_scope m r)"
  unfolding retrieval_refusal_def Let_def if_Some_eq_None by blast

lemma retrieval_refusal_blocks: "retrieval_refusal ap sp m a r = Some d \<Longrightarrow> bd_blocked d \<and> \<not> bd_allowed d"
  unfolding retrieval_refusal_def Let_def if_Some_eq_Some by auto

lemma evaluate_retrieval_cases:
  assumes "evaluate_retrieval ps m a r = Inr d"
  obtains cp sp ap where "get_class_policy ps (memory_class m) = Inr cp"
    "get_sensitivity_policy ps (sensitivity m) = Inr sp" "get_actor_policy ps a = Inr ap"
    "bd_allowed d \<longleftrightarrow> retrieval_refusal ap sp m a r = None" "bd_blocked d \<longleftrightarrow> \<not> bd_allowed d"
    "\<not> bd_blocked d \<Longrightarrow> redact_body d = (summary_only r \<or> sensitivity m \<in> {Private, Sealed})"
    "\<not> bd_blocked d \<Longrightarrow> redact_source d = (summary_only r \<or> sensitivity m \<in> {Private, Sealed})"
proof -
  from assms obtain cp sp ap where p: "get_class_policy ps (memory_class m) = Inr cp"
    "get_sensitivity_policy ps (sensitivity m) = Inr sp" "get_actor_policy ps a = Inr ap"
    by (auto simp: evaluate_retrieval_def bindR_eq_Inr_iff)
  show thesis
  proof (cases "retrieval_refusal ap sp m a r")
    case None
    with assms p have "d = \<lparr>bd_allowed = True, bd_blocked = False,
        bd_review_required = (requires_review sp \<and> a \<noteq> User),
        provisional_only = (default_status cp = Provisional),
        redact_body = (summary_only r \<or> sensitivity m \<in> {Private, Sealed}),
        redact_source = (summary_only r \<or> sensitivity m \<in> {Private, Sealed}),
        bd_reason = ''Retrieval allowed under current memory boundaries.'',
        bd_policy_rule_id = Some (''sensitivity:'' @ sensitivity_value (sensitivity m)),
        bd_permission_required = False\<rparr>"
      by (simp add: evaluate_retrieval_def Let_def)
    with that [OF p] None show thesis by simp
  next
    case (Some d')
    with assms p have "d = d'" by (simp add: evaluate_retrieval_def)
    with that [OF p] Some retrieval_refusal_blocks [OF Some] show thesis by simp
  qed
qed

text \<open>
  The gate never fails open or crashes: under a validated policy set every retrieval
  gets a decision, which either allows or blocks, and it allows exactly when the class is neither
  suppressed nor refused to the actor, the sensitivity is within the actor's ceiling and open to
  the actor, sealed material has an explicit permission, a summary is permitted for the
  sensitivity, and a display outside the memory room stays in scope.
\<close>

theorem retrieval_allowed_iff:
  assumes "policies_valid ps"
  shows "\<exists>d sp ap. evaluate_retrieval ps m a r = Inr d \<and> bd_blocked d = (\<not> bd_allowed d) \<and>
    get_sensitivity_policy ps (sensitivity m) = Inr sp \<and> get_actor_policy ps a = Inr ap \<and>
    (bd_allowed d \<longleftrightarrow>
      memory_class m \<notin> set (suppressed_classes r) \<and> memory_class m \<notin> set (ap_blocked_classes ap) \<and>
      (ap_allowed_classes ap = [] \<or> memory_class m \<in> set (ap_allowed_classes ap)) \<and>
      (sp_allowed_actors sp = [] \<or> a \<in> set (sp_allowed_actors sp)) \<and>
      sensitivity_order (sensitivity m) \<le> sensitivity_order (max_sensitivity ap) \<and>
      (memory_class m = Sealed_private \<or> sensitivity m = Sealed \<longrightarrow>
         explicit_user_permission r \<or> room_allow_sealed_private r) \<and>
      (summary_only r \<longrightarrow> allow_summary_exposure sp) \<and>
      (room_name r = ''memory'' \<or> allow_cross_room_display sp \<or> is_same_scope m r))"
proof -
  obtain cp sp ap where p: "get_class_policy ps (memory_class m) = Inr cp"
    "get_sensitivity_policy ps (sensitivity m) = Inr sp" "get_actor_policy ps a = Inr ap"
    using getters_total [OF assms] by blast
  then obtain d where d: "evaluate_retrieval ps m a r = Inr d"
    by (cases "retrieval_refusal ap sp m a r") (auto simp: evaluate_retrieval_def Let_def)
  from d have "bd_blocked d = (\<not> bd_allowed d)" "bd_allowed d \<longleftrightarrow> retrieval_refusal ap sp m a r = None"
    by (rule evaluate_retrieval_cases, simp add: p)+
  with p d show ?thesis
    by (intro exI [of _ d] exI [of _ sp] exI [of _ ap])
       (simp add: retrieval_refusal_None sensitivity_exceeds_def not_less)
qed

text \<open>
  Sealed memory never reaches a summary: under a validated policy set the summary gate
  blocks every sealed item, for every actor and room, even with explicit permission, and the
  item handed out is nothing at all.
\<close>

theorem sealed_never_summarised:
  assumes "policies_valid ps" "sensitivity m = Sealed"
  shows "\<exists>d. evaluate_summary_exposure ps m a r = Inr d \<and> bd_blocked d \<and>
    sanitize_item_for_exposure m d = Inr None"
proof -
  obtain cp sp ap where p: "get_class_policy ps (memory_class m) = Inr cp"
    "get_sensitivity_policy ps (sensitivity m) = Inr sp" "get_actor_policy ps a = Inr ap"
    using getters_total [OF assms(1)] by blast
  then have "\<not> allow_summary_exposure sp" using sealed_policy(2) [OF assms(1)] assms(2) by simp
  then have "retrieval_refusal ap sp m a (r\<lparr>summary_only := True\<rparr>) \<noteq> None"
    by (simp add: retrieval_refusal_None)
  then obtain d where d: "retrieval_refusal ap sp m a (r\<lparr>summary_only := True\<rparr>) = Some d" by blast
  with p have "evaluate_summary_exposure ps m a r = Inr d"
    by (simp add: evaluate_summary_exposure_def evaluate_retrieval_def)
  with retrieval_refusal_blocks [OF d] show ?thesis by (simp add: sanitize_item_for_exposure_def)
qed

lemma consistent_text [simp]:
  "item_consistent (m\<lparr>body := t\<rparr>) = item_consistent m"
  "item_consistent (m\<lparr>why_stored := t\<rparr>) = item_consistent m"
  "item_consistent (m\<lparr>title := t\<rparr>) = item_consistent m"
  by (simp_all add: item_consistent_def)

lemma redacted_text: "validate_required_text 8000 ''[REDACTED]'' = Inr ''[REDACTED]''"
  "validate_required_text 500 ''[REDACTED]'' = Inr ''[REDACTED]''"
  by code_simp+

definition redacted :: "memory_item \<Rightarrow> memory_item" where
  "redacted m = m\<lparr>body := ''[REDACTED]'', why_stored := ''[REDACTED]'',
     source := (source m)\<lparr>source_ref := None, source_label := None\<rparr>\<rparr>"

text \<open>
  What leaves the gate is redacted: for an item that satisfies its schema, sanitising
  under a decision of \<open>evaluate_retrieval\<close> never fails; a blocked decision hands out nothing, an
  allowed decision on private or sealed material, or in a summary, hands out the item with body,
  rationale and source references replaced and nothing else changed, and an allowed decision
  otherwise hands out the item itself.
\<close>

theorem exposure_redacts:
  assumes "evaluate_retrieval ps m a r = Inr d" "item_consistent m"
  shows "sanitize_item_for_exposure m d = Inr
    (if bd_blocked d then None
     else if summary_only r \<or> sensitivity m \<in> {Private, Sealed} then Some (redacted m)
     else Some m)"
proof (rule evaluate_retrieval_cases [OF assms(1)], cases "bd_blocked d")
  case True
  then show ?thesis by (simp add: sanitize_item_for_exposure_def)
next
  case False
  assume "\<not> bd_blocked d \<Longrightarrow> redact_body d = (summary_only r \<or> sensitivity m \<in> {Private, Sealed})"
    "\<not> bd_blocked d \<Longrightarrow> redact_source d = (summary_only r \<or> sensitivity m \<in> {Private, Sealed})"
  moreover have "set_body ''[REDACTED]'' m = Inr (m\<lparr>body := ''[REDACTED]''\<rparr>)"
    by (simp add: set_body_def redacted_text validate_memory_item_iff assms(2))
  moreover have "set_why_stored ''[REDACTED]'' (m\<lparr>body := ''[REDACTED]''\<rparr>) =
      Inr (m\<lparr>body := ''[REDACTED]'', why_stored := ''[REDACTED]''\<rparr>)"
    by (simp add: set_why_stored_def redacted_text validate_memory_item_iff assms(2))
  ultimately show ?thesis
    using False by (simp add: sanitize_item_for_exposure_def redacted_def)
qed

section \<open>Properties of mutation decisions\<close>

definition decided :: "boundary_decision \<Rightarrow> bool" where
  \<comment> \<open>exactly one of the three verdicts\<close>
  "decided d \<longleftrightarrow> (bd_allowed d \<and> \<not> bd_blocked d \<and> \<not> bd_review_required d) \<or>
     (\<not> bd_allowed d \<and> bd_blocked d \<and> \<not> bd_review_required d) \<or>
     (\<not> bd_allowed d \<and> \<not> bd_blocked d \<and> bd_review_required d)"

lemma decided_simps [simp]:
  "decided (blocked_decision b w)" "decided (review_decision v w x)" "decided (allowed_decision v w x)"
  by (simp_all add: decided_def)

lemma mutation_refusal_None:
  "mutation_refusal cp sp ap mr au c s q = None \<longleftrightarrow>
     c \<notin> set (ap_blocked_classes ap) \<and> (ap_allowed_classes ap = [] \<or> c \<in> set (ap_allowed_classes ap)) \<and>
     mutation_type q \<notin> set (ap_blocked ap) \<and> (ap_allowed ap = [] \<or> mutation_type q \<in> set (ap_allowed ap)) \<and>
     mutation_type q \<notin> set (cp_blocked cp) \<and> (cp_allowed cp = [] \<or> mutation_type q \<in> set (cp_allowed cp)) \<and>
     c \<notin> set (mr_blocked_classes mr) \<and> (mr_allowed_classes mr = [] \<or> c \<in> set (mr_allowed_classes mr)) \<and>
     \<not> sensitivity_exceeds (max_sensitivity ap) s \<and>
     (sp_allowed_actors sp = [] \<or> actor q \<in> set (sp_allowed_actors sp)) \<and>
     (s = Sealed \<longrightarrow> actor q = User) \<and>
     \<not> (sensitivity_conflict (review q) \<and> blocked_when_sensitive_conflict au)"
  unfolding mutation_refusal_def Let_def if_Some_eq_None by blast

lemma mutation_refusal_blocks: "mutation_refusal cp sp ap mr au c s q = Some d \<Longrightarrow> bd_blocked d \<and> decided d"
  unfolding mutation_refusal_def Let_def if_Some_eq_Some by auto

lemma autonomous_None:
  "evaluate_autonomous_mutation q c cp ap mr au s = None \<longleftrightarrow>
     actor q = Assistant \<and> allow_assistant_self_maintenance au \<and>
     Autonomous \<in> set (autonomous_modes_allowed ap) \<and> s \<notin> {Private, Sealed} \<and>
     (mutation_type q = Create \<longrightarrow> autonomous_create_allowed cp) \<and>
     (mutation_type q \<in> set update_mutations \<longrightarrow> autonomous_update_allowed cp) \<and>
     (mutation_type q = Archive \<longrightarrow> autonomous_archive_allowed cp) \<and>
     (mutation_type q = Forget_request \<longrightarrow> autonomous_forget_allowed cp) \<and> mr_autonomous_allowed mr"
  unfolding evaluate_autonomous_mutation_def Let_def if_Some_eq_None by blast

lemma autonomous_blocks:
  "evaluate_autonomous_mutation q c cp ap mr au s = Some d \<Longrightarrow> bd_blocked d \<and> decided d"
  unfolding evaluate_autonomous_mutation_def Let_def if_Some_eq_Some by auto

lemma source_constraints_decided:
  "evaluate_source_constraints q c xp = Some d \<Longrightarrow> decided d \<and> (bd_blocked d \<or> bd_review_required d)"
  unfolding evaluate_source_constraints_def Let_def if_Some_eq_Some by auto

lemma conclude_decided: "decided (conclude_mutation q b v rs) \<and> \<not> bd_blocked (conclude_mutation q b v rs)"
  by (simp add: conclude_mutation_def Let_def)

lemma conclude_allowed:
  "bd_allowed (conclude_mutation q b v rs) \<longleftrightarrow> \<not> b \<and> mutation_type q \<noteq> Forget_request"
  by (simp add: conclude_mutation_def Let_def)

definition judge_mutation ::
  "class_policy \<Rightarrow> sensitivity_policy \<Rightarrow> actor_policy \<Rightarrow> mutation_rule \<Rightarrow> autonomy_policy \<Rightarrow> source_policy option \<Rightarrow>
   memory_class \<Rightarrow> memory_sensitivity \<Rightarrow> mutation_request \<Rightarrow> boundary_decision" where
  \<comment> \<open>the verdict once every policy is found\<close>
  "judge_mutation cp sp ap mr au policy c s q =
     (case mutation_refusal cp sp ap mr au c s q of Some d \<Rightarrow> d | None \<Rightarrow>
     (case (if mode q = Autonomous then evaluate_autonomous_mutation q c cp ap mr au s else None) of
        Some d \<Rightarrow> d
      | None \<Rightarrow>
     let reasons = review_reasons cp sp ap mr q in
     (case policy of
        None \<Rightarrow> conclude_mutation q (reasons \<noteq> []) False reasons
      | Some xp \<Rightarrow>
          let sd = evaluate_source_constraints q c xp;
              provisional = c \<in> set (provisional_only_classes xp) \<or> default_status cp = Provisional in
          (case sd of
             Some d \<Rightarrow>
               if bd_blocked d then d
               else conclude_mutation q (reasons \<noteq> [] \<or> bd_review_required d) provisional
                 (reasons @ (if bd_review_required d then [bd_reason d] else []) @
                  (if provisional then [''Source/class policy limits this mutation to provisional posture.''] else []))
           | None \<Rightarrow>
               conclude_mutation q (reasons \<noteq> []) provisional
                 (reasons @ (if provisional
                    then [''Source/class policy limits this mutation to provisional posture.''] else []))))))"

lemma evaluate_mutation_judge:
  assumes "get_actor_policy ps (actor q) = Inr ap" "get_mutation_rule ps (mutation_type q) = Inr mr"
    "resolve_target_class q e = Some c" "get_class_policy ps c = Inr cp"
    "resolve_target_sensitivity q e cp = s" "get_sensitivity_policy ps s = Inr sp"
    "(case context_source_kind (request_context q) of None \<Rightarrow> Inr None
      | Some k \<Rightarrow> bindR (get_source_policy ps k) (\<lambda>x. Inr (Some x))) = Inr policy"
  shows "evaluate_mutation ps q e =
    Inr (judge_mutation cp sp ap mr (the_autonomy_policy ps) policy c s q)"
  using assms unfolding evaluate_mutation_def judge_mutation_def Let_def
  by (simp split: option.splits)

lemma evaluate_mutation_found:
  assumes "policies_valid ps" "resolve_target_class q e = Some c"
  obtains cp sp ap mr policy where
    "get_class_policy ps c = Inr cp" "get_actor_policy ps (actor q) = Inr ap"
    "get_mutation_rule ps (mutation_type q) = Inr mr"
    "get_sensitivity_policy ps (resolve_target_sensitivity q e cp) = Inr sp"
    "evaluate_mutation ps q e = Inr (judge_mutation cp sp ap mr (the_autonomy_policy ps) policy c
        (resolve_target_sensitivity q e cp) q)"
proof -
  obtain cp ap mr where p: "get_class_policy ps c = Inr cp" "get_actor_policy ps (actor q) = Inr ap"
    "get_mutation_rule ps (mutation_type q) = Inr mr"
    using getters_total [OF assms(1)] by blast
  obtain sp where sp: "get_sensitivity_policy ps (resolve_target_sensitivity q e cp) = Inr sp"
    using getters_total [OF assms(1)] by blast
  obtain policy where x: "(case context_source_kind (request_context q) of None \<Rightarrow> Inr None
      | Some k \<Rightarrow> bindR (get_source_policy ps k) (\<lambda>x. Inr (Some x))) = Inr policy"
    using getters_total(3) [OF assms(1)]
    by (cases "context_source_kind (request_context q)") (auto simp: bindR_eq_Inr_iff, metis)
  show thesis
    by (rule that [OF p sp evaluate_mutation_judge [OF p(2,3) assms(2) p(1) refl sp x]])
qed

lemma evaluate_mutation_unresolved:
  assumes "policies_valid ps" "resolve_target_class q e = None"
  shows "evaluate_mutation ps q e =
    Inr (blocked_decision False ''Target memory_class could not be determined for mutation.'')"
proof -
  obtain ap mr where "get_actor_policy ps (actor q) = Inr ap" "get_mutation_rule ps (mutation_type q) = Inr mr"
    using getters_total [OF assms(1)] by blast
  with assms(2) show ?thesis by (simp add: evaluate_mutation_def Let_def)
qed

lemma judge_mutation_decided: "decided (judge_mutation cp sp ap mr au policy c s q)"
  using mutation_refusal_blocks [of cp sp ap mr au c s q] autonomous_blocks [of q c cp ap mr au s]
    source_constraints_decided [of q c]
  by (auto simp: judge_mutation_def Let_def conclude_decided split: option.splits)

lemma judge_mutation_passes:
  assumes "\<not> bd_blocked (judge_mutation cp sp ap mr au policy c s q)"
  shows "mutation_refusal cp sp ap mr au c s q = None"
    "mode q = Autonomous \<Longrightarrow> evaluate_autonomous_mutation q c cp ap mr au s = None"
  using assms mutation_refusal_blocks [of cp sp ap mr au c s q] autonomous_blocks [of q c cp ap mr au s]
  by (auto simp: judge_mutation_def split: option.splits)

lemma judge_mutation_allowed:
  assumes "bd_allowed (judge_mutation cp sp ap mr au policy c s q)"
  shows "review_reasons cp sp ap mr q = [] \<and> mutation_type q \<noteq> Forget_request \<and>
    (\<forall>xp. policy = Some xp \<longrightarrow> evaluate_source_constraints q c xp = None)"
proof -
  let ?d = "judge_mutation cp sp ap mr au policy c s q"
  have "\<not> bd_blocked ?d" using assms judge_mutation_decided [of cp sp ap mr au policy c s q]
    by (auto simp: decided_def)
  note pass = judge_mutation_passes [OF this]
  have auto: "(if mode q = Autonomous then evaluate_autonomous_mutation q c cp ap mr au s else None) = None"
    using pass(2) by simp
  show ?thesis
  proof (cases policy)
    case None
    with assms pass(1) auto show ?thesis by (simp add: judge_mutation_def Let_def conclude_allowed)
  next
    case (Some xp)
    show ?thesis
    proof (cases "evaluate_source_constraints q c xp")
      case None
      with assms pass(1) auto Some show ?thesis by (simp add: judge_mutation_def Let_def conclude_allowed)
    next
      case (Some d)
      with \<open>policy = Some xp\<close> assms pass(1) auto source_constraints_decided [OF Some] show ?thesis
        by (auto simp: judge_mutation_def Let_def conclude_allowed decided_def split: if_splits)
    qed
  qed
qed

text \<open>
  Claim C17. Every mutation request gets exactly one verdict: under a validated policy set
  \<open>evaluate_mutation\<close> never raises, and its decision is allowed, blocked or held for review,
  one and only one of them; a forget request is never allowed outright.
\<close>

theorem mutation_decided:
  assumes "policies_valid ps"
  shows "\<exists>d. evaluate_mutation ps q e = Inr d \<and> decided d \<and>
    (mutation_type q = Forget_request \<longrightarrow> \<not> bd_allowed d)"
proof (cases "resolve_target_class q e")
  case None
  with evaluate_mutation_unresolved [OF assms] show ?thesis by simp
next
  case (Some c)
  obtain cp sp ap mr policy where d: "evaluate_mutation ps q e =
      Inr (judge_mutation cp sp ap mr (the_autonomy_policy ps) policy c (resolve_target_sensitivity q e cp) q)"
    by (rule evaluate_mutation_found [OF assms Some])
  let ?d = "judge_mutation cp sp ap mr (the_autonomy_policy ps) policy c (resolve_target_sensitivity q e cp) q"
  have "mutation_type q = Forget_request \<longrightarrow> \<not> bd_allowed ?d"
    using judge_mutation_allowed [of cp sp ap mr "the_autonomy_policy ps" policy c
        "resolve_target_sensitivity q e cp" q] by auto
  with d judge_mutation_decided show ?thesis by blast
qed

definition resolved_sensitivity :: "policy_set \<Rightarrow> mutation_request \<Rightarrow> memory_item option \<Rightarrow> memory_sensitivity option" where
  \<comment> \<open>the sensitivity a request is judged by: of the patch, else of the item, else the default of its class\<close>
  "resolved_sensitivity ps q e = (case resolve_target_class q e of None \<Rightarrow> None
     | Some c \<Rightarrow> (case get_class_policy ps c of Inl _ \<Rightarrow> None | Inr cp \<Rightarrow> Some (resolve_target_sensitivity q e cp)))"

lemma sealed_resolved_refused:
  assumes "policies_valid ps" "actor q \<noteq> User"
    and "resolve_target_class q e = None \<or> resolved_sensitivity ps q e = Some Sealed"
  shows "\<exists>d. evaluate_mutation ps q e = Inr d \<and> bd_blocked d"
proof (cases "resolve_target_class q e")
  case None
  with evaluate_mutation_unresolved [OF assms(1)] show ?thesis by simp
next
  case (Some c)
  obtain cp sp ap mr policy where cp: "get_class_policy ps c = Inr cp" and d: "evaluate_mutation ps q e =
      Inr (judge_mutation cp sp ap mr (the_autonomy_policy ps) policy c (resolve_target_sensitivity q e cp) q)"
    by (rule evaluate_mutation_found [OF assms(1) Some])
  have "resolve_target_sensitivity q e cp = Sealed"
    using assms(3) Some cp by (simp add: resolved_sensitivity_def)
  with assms(2) have "mutation_refusal cp sp ap mr (the_autonomy_policy ps) c
      (resolve_target_sensitivity q e cp) q \<noteq> None"
    by (simp add: mutation_refusal_None)
  then have "bd_blocked (judge_mutation cp sp ap mr (the_autonomy_policy ps) policy c
      (resolve_target_sensitivity q e cp) q)"
    by (metis judge_mutation_passes(1))
  with d show ?thesis by blast
qed

lemma sealed_mutation_refused:
  assumes "policies_valid ps" "actor q \<noteq> User"
    and "patch_sensitivity (patch q) = Some Sealed \<or>
      (patch_sensitivity (patch q) = None \<and> (\<exists>m. e = Some m \<and> sensitivity m = Sealed))"
  shows "\<exists>d. evaluate_mutation ps q e = Inr d \<and> bd_blocked d"
proof (rule sealed_resolved_refused [OF assms(1,2)])
  show "resolve_target_class q e = None \<or> resolved_sensitivity ps q e = Some Sealed"
  proof (cases "resolve_target_class q e")
    case (Some c)
    obtain cp sp ap mr policy where "get_class_policy ps c = Inr cp"
      by (rule evaluate_mutation_found [OF assms(1) Some])
    moreover have "resolve_target_sensitivity q e cp = Sealed"
      using assms(3) by (auto simp: resolve_target_sensitivity_def)
    ultimately show ?thesis using Some by (simp add: resolved_sensitivity_def)
  qed simp
qed

text \<open>
  Claim C13. Sealed material is changed by the user only: a request that is judged as sealed, because its
  patch, else the item, else the default of the target class says so, from any other actor, is
  blocked under every validated policy set, whatever the policies allow.
\<close>

theorem sealed_mutation_needs_user:
  assumes "policies_valid ps" "actor q \<noteq> User" and "resolved_sensitivity ps q e = Some Sealed"
  shows "\<exists>d. evaluate_mutation ps q e = Inr d \<and> bd_blocked d"
  by (rule sealed_resolved_refused) (simp_all add: assms)

lemma autonomous_unblocked:
  assumes "policies_valid ps" "mode q = Autonomous" "evaluate_mutation ps q e = Inr d" "\<not> bd_blocked d"
  shows "\<exists>c cp mr. resolve_target_class q e = Some c \<and> get_class_policy ps c = Inr cp \<and>
    get_mutation_rule ps (mutation_type q) = Inr mr \<and> actor q = Assistant \<and>
    allow_assistant_self_maintenance (the_autonomy_policy ps) \<and> mr_autonomous_allowed mr \<and>
    resolve_target_sensitivity q e cp \<in> {Public, Internal} \<and>
    (mutation_type q = Create \<longrightarrow> autonomous_create_allowed cp) \<and>
    (mutation_type q = Archive \<longrightarrow> autonomous_archive_allowed cp) \<and>
    (mutation_type q = Forget_request \<longrightarrow> autonomous_forget_allowed cp) \<and>
    (mutation_type q \<notin> {Create, Archive, Forget_request} \<longrightarrow> autonomous_update_allowed cp)"
proof (cases "resolve_target_class q e")
  case None
  with evaluate_mutation_unresolved [OF assms(1) None] assms(3,4) show ?thesis by auto
next
  case (Some c)
  obtain cp sp ap mr policy where p: "get_class_policy ps c = Inr cp"
      "get_mutation_rule ps (mutation_type q) = Inr mr"
    and d: "evaluate_mutation ps q e =
      Inr (judge_mutation cp sp ap mr (the_autonomy_policy ps) policy c (resolve_target_sensitivity q e cp) q)"
    by (rule evaluate_mutation_found [OF assms(1) Some])
  from d assms(3,4) have "\<not> bd_blocked (judge_mutation cp sp ap mr (the_autonomy_policy ps) policy c
      (resolve_target_sensitivity q e cp) q)" by simp
  from judge_mutation_passes(2) [OF this assms(2)]
  have a: "actor q = Assistant" "allow_assistant_self_maintenance (the_autonomy_policy ps)"
    "resolve_target_sensitivity q e cp \<notin> {Private, Sealed}" "mr_autonomous_allowed mr"
    "mutation_type q = Create \<longrightarrow> autonomous_create_allowed cp"
    "mutation_type q = Archive \<longrightarrow> autonomous_archive_allowed cp"
    "mutation_type q = Forget_request \<longrightarrow> autonomous_forget_allowed cp"
    "mutation_type q \<in> set update_mutations \<longrightarrow> autonomous_update_allowed cp"
    by (simp_all add: autonomous_None)
  have "mutation_type q \<notin> {Create, Archive, Forget_request} \<longrightarrow> mutation_type q \<in> set update_mutations"
    by (cases "mutation_type q") (simp_all add: update_mutations_def)
  moreover have "resolve_target_sensitivity q e cp \<in> {Public, Internal}"
    using a(3) by (cases "resolve_target_sensitivity q e cp") simp_all
  ultimately show ?thesis using Some p a by blast
qed

text \<open>
  What autonomy may touch: a request in autonomous mode that is not blocked comes from
  the assistant, self-maintenance is switched on, the resolved sensitivity is public or internal,
  the class policy allows autonomous work of that kind and the mutation rule allows autonomy.
\<close>

theorem autonomous_mutation_limits:
  assumes "policies_valid ps" "mode q = Autonomous" "evaluate_mutation ps q e = Inr d" "\<not> bd_blocked d"
  shows "\<exists>c cp mr. resolve_target_class q e = Some c \<and> get_class_policy ps c = Inr cp \<and>
    get_mutation_rule ps (mutation_type q) = Inr mr \<and> actor q = Assistant \<and>
    allow_assistant_self_maintenance (the_autonomy_policy ps) \<and> mr_autonomous_allowed mr \<and>
    resolve_target_sensitivity q e cp \<in> {Public, Internal} \<and>
    (mutation_type q = Create \<longrightarrow> autonomous_create_allowed cp) \<and>
    (mutation_type q = Archive \<longrightarrow> autonomous_archive_allowed cp) \<and>
    (mutation_type q = Forget_request \<longrightarrow> autonomous_forget_allowed cp) \<and>
    (mutation_type q \<notin> {Create, Archive, Forget_request} \<longrightarrow> autonomous_update_allowed cp)"
  by (rule autonomous_unblocked [OF assms])

text \<open>
  The gate judges the classification a request names, not the one the item has: once a
  request names a class (in its patch or its target) and a sensitivity (in its patch), the
  verdict is the same for every existing item, and the same as for no item at all.
\<close>

theorem mutation_verdict_ignores_item:
  assumes "patch_sensitivity (patch q) \<noteq> None"
    and "patch_class (patch q) \<noteq> None \<or> target_class (target q) \<noteq> None"
  shows "evaluate_mutation ps q (Some m) = evaluate_mutation ps q e"
proof -
  have c: "resolve_target_class q (Some m) = resolve_target_class q e"
    using assms(2) by (auto simp: resolve_target_class_def split: option.splits)
  have s: "resolve_target_sensitivity q (Some m) cp = resolve_target_sensitivity q e cp" for cp
    using assms(1) by (auto simp: resolve_target_sensitivity_def)
  show ?thesis unfolding evaluate_mutation_def c s by (rule refl)
qed

section \<open>Properties of promotion decisions\<close>

lemma promotion_refusal_None:
  "promotion_refusal pr ap a kind conf count md = None \<longleftrightarrow>
     pr_allowed pr \<and> to_class pr \<notin> set (ap_blocked_classes ap) \<and>
     (ap_allowed_classes ap = [] \<or> to_class pr \<in> set (ap_allowed_classes ap)) \<and>
     (\<forall>lo. minimum_confidence pr = Some lo \<longrightarrow> (\<exists>x \<ge> lo. conf = Some x)) \<and>
     minimum_repetition_count pr \<le> count \<and>
     (required_source_kinds pr = [] \<or> (\<exists>k \<in> set (required_source_kinds pr). kind = Some k)) \<and>
     (md = Autonomous \<longrightarrow> pr_autonomous_allowed pr)"
  unfolding promotion_refusal_def if_Some_eq_None
  by (auto split: option.splits simp: not_less)

lemma promotion_refusal_blocks:
  "promotion_refusal pr ap a kind conf count md = Some d \<Longrightarrow> bd_blocked d \<and> decided d"
  unfolding promotion_refusal_def if_Some_eq_Some by auto

lemma promotion_rule_found:
  "get_promotion_rule ps f t = Inr pr \<Longrightarrow> pr \<in> set (promotion_rules ps) \<and> from_class pr = f \<and> to_class pr = t"
  by (auto simp: get_promotion_rule_def lookup_key_iff dest: dict_by_member)

text \<open>
  A promotion passes only by its rule: without a rule for the pair of classes
  \<open>evaluate_promotion\<close> raises a \<open>KeyError\<close>, and an allowed promotion meets the rule: permitted,
  no review, enough confidence, enough repetitions, a required source kind, autonomy only where
  the rule grants it, and an actor whose class lists admit the destination.
\<close>

theorem promotion_allowed_by_rule:
  assumes "evaluate_promotion ps f t a kind conf count md = Inr d" "bd_allowed d"
  shows "\<exists>pr ap. pr \<in> set (promotion_rules ps) \<and> from_class pr = f \<and> to_class pr = t \<and>
    get_actor_policy ps a = Inr ap \<and> pr_allowed pr \<and> \<not> pr_review_required pr \<and>
    t \<notin> set (ap_blocked_classes ap) \<and> (ap_allowed_classes ap = [] \<or> t \<in> set (ap_allowed_classes ap)) \<and>
    (\<forall>lo. minimum_confidence pr = Some lo \<longrightarrow> (\<exists>x \<ge> lo. conf = Some x)) \<and>
    minimum_repetition_count pr \<le> count \<and>
    (required_source_kinds pr = [] \<or> (\<exists>k \<in> set (required_source_kinds pr). kind = Some k)) \<and>
    (md = Autonomous \<longrightarrow> pr_autonomous_allowed pr)"
proof -
  from assms(1) obtain pr ap xp where p: "get_promotion_rule ps f t = Inr pr" "get_actor_policy ps a = Inr ap"
      "(case kind of None \<Rightarrow> Inr None | Some k \<Rightarrow> bindR (get_source_policy ps k) (\<lambda>x. Inr (Some x))) = Inr xp"
    unfolding evaluate_promotion_def bindR_eq_Inr_iff by blast
  note rule = promotion_rule_found [OF p(1)]
  have "promotion_refusal pr ap a kind conf count md = None"
  proof (rule ccontr)
    assume "promotion_refusal pr ap a kind conf count md \<noteq> None"
    then obtain d' where "promotion_refusal pr ap a kind conf count md = Some d'" by blast
    with assms p promotion_refusal_blocks [OF this] show False
      by (auto simp: evaluate_promotion_def decided_def)
  qed
  moreover from this assms p have "\<not> pr_review_required pr"
    by (auto simp: evaluate_promotion_def Let_def split: if_splits)
  ultimately show ?thesis using rule p(2) by (auto simp: promotion_refusal_None)
qed

section \<open>An example policy set\<close>

definition sample_class_policy :: "memory_class \<Rightarrow> class_policy" where
  "sample_class_policy c = \<lparr>cp_class = c,
     default_sensitivity = (if c = Sealed_private then Sealed else Internal),
     default_mutability = Review_required, default_status = Active, cp_allowed = [], cp_blocked = [],
     cp_review_required = [], autonomous_create_allowed = (c = Working),
     autonomous_update_allowed = (c = Working \<or> c = Project), autonomous_archive_allowed = False,
     autonomous_forget_allowed = False, append_only_default = False, immutable_default = False,
     durable_by_default = True, allow_direct_user_edit = True\<rparr>"

definition sample_sensitivity_policy :: "memory_sensitivity \<Rightarrow> sensitivity_policy" where
  "sample_sensitivity_policy s = (let open = (s = Public \<or> s = Internal) in
     \<lparr>sp_sensitivity = s, sp_allowed_actors = all_actors, autonomous_access_allowed = open,
      autonomous_mutation_allowed = open, requires_review = \<not> open,
      requires_explicit_user_permission = (s = Sealed), default_retrieval_allowed = open,
      allow_cross_room_display = open, allow_summary_exposure = open\<rparr>)"

definition sample_source_policy :: "source_kind \<Rightarrow> source_policy" where
  "sample_source_policy k = \<lparr>xp_source_kind = k, durable_classes_allowed = [],
     provisional_only_classes = [], requires_confidence = False, xp_requires_review_for = [],
     autonomous_promotion_allowed = False, trust_weight = 1/2, allow_preference_creation = False,
     allow_preference_update = False\<rparr>"

definition sample_actor_policy :: "mutation_actor \<Rightarrow> actor_policy" where
  "sample_actor_policy a = \<lparr>ap_actor = a, ap_allowed_classes = [],
     ap_blocked_classes = (if a = User then [] else [Sealed_private]), ap_allowed = [], ap_blocked = [],
     ap_requires_review_for = [], max_sensitivity = (if a = User then Sealed else Internal),
     autonomous_modes_allowed = (if a = Assistant then [Autonomous] else [])\<rparr>"

definition sample_mutation_rule :: "mutation_type \<Rightarrow> mutation_rule" where
  "sample_mutation_rule m = \<lparr>mr_type = m, mr_allowed_classes = [], mr_blocked_classes = [],
     mr_autonomous_allowed = (m = Create \<or> m = Revise), mr_review_required = False, requires_reason = True,
     requires_target = (m \<noteq> Create), requires_expected_revision = False, requires_provenance = False,
     allow_multi_target = (m = Merge), allow_sealed_private = False,
     allow_direct_apply = (m \<noteq> Forget_request)\<rparr>"

definition sample_retention_policy :: "memory_class \<Rightarrow> retention_policy" where
  "sample_retention_policy c = \<lparr>rp_class = c, archive_before_forget = True, hard_delete_allowed = False,
     hard_delete_requires_user = True, stale_after_days = Some 7, auto_archive_after_days = Some 21,
     auto_forget_after_days = None, retain_superseded_history = True, sealed_retention_override = False\<rparr>"

definition sample_policies :: policy_set where
  "sample_policies = \<lparr>class_policies = map sample_class_policy all_classes,
     sensitivity_policies = map sample_sensitivity_policy all_sensitivities,
     source_policies = map sample_source_policy all_source_kinds,
     actor_policies = map sample_actor_policy all_actors,
     mutation_rules = map sample_mutation_rule all_mutations,
     promotion_rules = [\<lparr>from_class = Working, to_class = Project, pr_allowed = True,
       pr_review_required = False, minimum_confidence = Some (11/20), minimum_repetition_count = 1,
       required_source_kinds = [User_message, Manual_entry], pr_autonomous_allowed = True,
       provisional_first = True, reason_required = True\<rparr>],
     retention_policies = map sample_retention_policy all_classes,
     the_autonomy_policy = \<lparr>candidate_queue_enabled = True, auto_apply_low_risk = False,
       auto_apply_as_provisional = True, blocked_when_sensitive_conflict = True,
       review_threshold = Medium, allow_assistant_self_maintenance = True,
       audit_required_for_all_autonomous_writes = True, require_policy_trace = True\<rparr>\<rparr>"

lemma sample_policies_valid: "policies_valid sample_policies"
  unfolding policies_valid_def by code_simp

definition sample_mutation :: "mutation_type \<Rightarrow> mutation_actor \<Rightarrow> mutation_mode \<Rightarrow> mutation_request" where
  "sample_mutation k a md = \<lparr>mutation_id = ''mmut_0001'', mutation_type = k, actor = a, mode = md,
     target = \<lparr>target_memory_id = Some ''mem_0001'', target_memory_ids = [], expected_revision = None,
       target_class = None, target_project_id = None, target_conversation_id = None\<rparr>,
     patch = \<lparr>patch_title = None, patch_body = Some ''New body'', patch_why_stored = None,
       patch_class = None, patch_sensitivity = None, patch_mutability = None, patch_status = None,
       patch_importance = None, patch_confidence = None, patch_flags = None, note_body = None,
       successor_memory_id = None, revision_note = None\<rparr>,
     request_context = \<lparr>reason = ''because'', context_source_kind = None, context_source_ref = None,
       trigger_event = None, context_notes = None\<rparr>,
     requested_at_utc = 10, review = \<lparr>risk_level = Low, review_required = False, review_reason = None,
       policy_rule_id = None, sensitivity_conflict = False, autonomous_allowed = False\<rparr>,
     requested_by = None, dry_run = False\<rparr>"

section \<open>Witnesses\<close>

definition sealed_item :: memory_item where
  "sealed_item = sample_item\<lparr>memory_class := Sealed_private, sensitivity := Sealed,
     mutability := Review_required\<rparr>"

lemma retrieval_allowed_iff_witness:
  "\<exists>d. evaluate_retrieval sample_policies sealed_item User
        (default_room\<lparr>explicit_user_permission := True\<rparr>) = Inr d \<and> bd_blocked d = (\<not> bd_allowed d)"
  using retrieval_allowed_iff [OF sample_policies_valid, of sealed_item User
      "default_room\<lparr>explicit_user_permission := True\<rparr>"] by blast

lemma sealed_never_summarised_witness:
  "\<exists>d. evaluate_summary_exposure sample_policies sealed_item User
        (default_room\<lparr>explicit_user_permission := True\<rparr>) = Inr d \<and> bd_blocked d \<and>
    sanitize_item_for_exposure sealed_item d = Inr None"
  by (rule sealed_never_summarised [OF sample_policies_valid]) (simp add: sealed_item_def)

definition allowed_sealed :: boundary_decision where
  "allowed_sealed = \<lparr>bd_allowed = True, bd_blocked = False, bd_review_required = False,
     provisional_only = False, redact_body = True, redact_source = True,
     bd_reason = ''Retrieval allowed under current memory boundaries.'',
     bd_policy_rule_id = Some ''sensitivity:sealed'', bd_permission_required = False\<rparr>"

lemma exposure_redacts_witness:
  "sanitize_item_for_exposure sealed_item allowed_sealed = Inr (Some (redacted sealed_item))"
proof -
  have "evaluate_retrieval sample_policies sealed_item User (default_room\<lparr>explicit_user_permission := True\<rparr>) =
      Inr allowed_sealed" by code_simp
  from exposure_redacts [OF this] show ?thesis
    by (simp add: sealed_item_def sample_item_def item_consistent_def allowed_sealed_def no_flags_def)
qed

lemma mutation_decided_witness:
  "\<exists>d. evaluate_mutation sample_policies (sample_mutation Forget_request User Manual) (Some sealed_item) = Inr d \<and>
    decided d \<and> (mutation_type (sample_mutation Forget_request User Manual) = Forget_request \<longrightarrow> \<not> bd_allowed d)"
  by (rule mutation_decided [OF sample_policies_valid])

definition create_sealed :: mutation_request where
  \<comment> \<open>a creation that names only the class, whose default is sealed\<close>
  "create_sealed = (let q = sample_mutation Create Assistant Assisted in q\<lparr>patch := (patch q)\<lparr>patch_class := Some Sealed_private\<rparr>\<rparr>)"

lemma sealed_mutation_needs_user_witness:
  "(\<exists>d. evaluate_mutation sample_policies (sample_mutation Revise Assistant Assisted) (Some sealed_item) = Inr d \<and> bd_blocked d) \<and>
   (\<exists>d. evaluate_mutation sample_policies create_sealed None = Inr d \<and> bd_blocked d)"
proof
  have "resolved_sensitivity sample_policies (sample_mutation Revise Assistant Assisted) (Some sealed_item) = Some Sealed"
    by code_simp
  then show "\<exists>d. evaluate_mutation sample_policies (sample_mutation Revise Assistant Assisted) (Some sealed_item) = Inr d \<and> bd_blocked d"
    by (intro sealed_mutation_needs_user [OF sample_policies_valid]) (simp_all add: sample_mutation_def)
  have "resolved_sensitivity sample_policies create_sealed None = Some Sealed"
    by code_simp
  then show "\<exists>d. evaluate_mutation sample_policies create_sealed None = Inr d \<and> bd_blocked d"
    by (intro sealed_mutation_needs_user [OF sample_policies_valid]) (simp_all add: create_sealed_def sample_mutation_def)
qed

lemma autonomous_mutation_limits_witness:
  "\<exists>c cp mr. resolve_target_class (sample_mutation Revise Assistant Autonomous) (Some sample_item) = Some c \<and>
    get_class_policy sample_policies c = Inr cp \<and> actor (sample_mutation Revise Assistant Autonomous) = Assistant \<and>
    get_mutation_rule sample_policies Revise = Inr mr \<and> mr_autonomous_allowed mr"
proof -
  have "evaluate_mutation sample_policies (sample_mutation Revise Assistant Autonomous) (Some sample_item) =
      Inr (allowed_decision False ''Mutation allowed under current memory boundaries.'' ''mutation:revise'')"
    by code_simp
  from autonomous_mutation_limits [OF sample_policies_valid _ this] show ?thesis
    by (force simp: sample_mutation_def)
qed

lemma mutation_verdict_ignores_item_witness:
  "evaluate_mutation sample_policies
     (sample_mutation Revise Assistant Assisted\<lparr>
        target := (target (sample_mutation Revise Assistant Assisted))\<lparr>target_class := Some Project\<rparr>,
        patch := (patch (sample_mutation Revise Assistant Assisted))\<lparr>patch_sensitivity := Some Internal\<rparr>\<rparr>)
     (Some sealed_item) =
   evaluate_mutation sample_policies
     (sample_mutation Revise Assistant Assisted\<lparr>
        target := (target (sample_mutation Revise Assistant Assisted))\<lparr>target_class := Some Project\<rparr>,
        patch := (patch (sample_mutation Revise Assistant Assisted))\<lparr>patch_sensitivity := Some Internal\<rparr>\<rparr>)
     None"
  by (rule mutation_verdict_ignores_item) simp_all

lemma promotion_allowed_by_rule_witness:
  "\<exists>pr. pr \<in> set (promotion_rules sample_policies) \<and> from_class pr = Working \<and> to_class pr = Project \<and>
    pr_allowed pr \<and> minimum_repetition_count pr \<le> 1"
proof -
  have "evaluate_promotion sample_policies Working Project User (Some Manual_entry) (Some (3/5)) 1 Assisted =
      Inr (allowed_decision True ''Promotion from working to project is allowed.'' ''promotion:working->project'')"
    by code_simp
  from promotion_allowed_by_rule [OF this] show ?thesis by auto
qed

end
