(* ===== verification/MemoryStore.thy ===== *)
theory MemoryStore
  imports MemoryItems "HOL-Library.Product_Lexorder"
begin

text \<open>
  \<open>MemoryItemService\<close> of \<open>app/memory/services/memory_item_service.py\<close>: one JSON file per
  item in one directory per class, with a cache from identifiers to paths.  A path is the class
  of its directory and the stem of its file name; the directory map is injective.  The files are
  the ones the service wrote, so their content is an item; a file may still fail validation when
  it is read back.  Writing a file replaces it atomically.  The clock of a call is an argument,
  read once per call.
\<close>

type_synonym item_path = "memory_class \<times> string"

record mem_store =
  files :: "(item_path \<times> memory_item) list"
  id_cache :: "(string \<times> item_path) list"
  allow_legacy_writes :: bool

type_synonym 'a store_action = "(mem_store, memory_error, 'a) action"

primrec class_directory :: "memory_class \<Rightarrow> string" where
  "class_directory Working = ''working''"
| "class_directory Conversation = ''conversations''"
| "class_directory Project = ''projects''"
| "class_directory Research = ''research''"
| "class_directory Operational = ''operational''"
| "class_directory Preference = ''preferences''"
| "class_directory Sealed_private = ''sealed_private''"
| "class_directory Audit = ''audit''"

definition empty_store :: "bool \<Rightarrow> mem_store" where
  "empty_store w = \<lparr>files = [], id_cache = [], allow_legacy_writes = w\<rparr>"

section \<open>Paths\<close>

definition normalize_memory_id :: "string \<Rightarrow> memory_error + string" where
  "normalize_memory_id v = (let s = strip v in
     bindR (raise_if (s = []) (ValueError ''memory_id cannot be empty.'')) (\<lambda>_.
     bindR (raise_if (CHR ''/'' \<in> set s \<or> CHR 0x5C \<in> set s \<or> has_infix ''..'' s)
       (ValueError ''memory_id contains unsafe path characters.'')) (\<lambda>_. Inr s)))"

definition build_item_path :: "string \<Rightarrow> memory_class \<Rightarrow> memory_error + item_path" where
  "build_item_path i c = bindR (normalize_memory_id i) (\<lambda>s. Inr (c, s))"

definition iter_item_paths :: "mem_store \<Rightarrow> memory_class option \<Rightarrow> item_path list" where
  \<comment> \<open>directory by directory, the file names in order\<close>
  "iter_item_paths s c = concat (map (\<lambda>d. map (Pair d) (sort_key (\<lambda>stem. stem @ ''.json'')
       (map (snd \<circ> fst) (filter (\<lambda>f. fst (fst f) = d) (files s)))))
     (case c of None \<Rightarrow> all_classes | Some d \<Rightarrow> [d]))"

definition path_exists :: "mem_store \<Rightarrow> item_path \<Rightarrow> bool" where
  "path_exists s p \<longleftrightarrow> map_of (files s) p \<noteq> None"

definition scan :: "mem_store \<Rightarrow> string \<Rightarrow> item_path option" where
  \<comment> \<open>the first path of the store with the stem\<close>
  "scan s i = find (\<lambda>p. snd p = i) (iter_item_paths s None)"

definition remember :: "string \<Rightarrow> item_path \<Rightarrow> unit store_action" where
  "remember i p = updateA (\<lambda>s. s\<lparr>id_cache := AList.update i p (id_cache s)\<rparr>)"

definition find_item_path :: "string \<Rightarrow> item_path option store_action" where
  \<comment> \<open>\<open>find_item_path(memory_id, required=False)\<close>\<close>
  "find_item_path v = bindA (liftA (normalize_memory_id v)) (\<lambda>i s.
     case map_of (id_cache s) i of
       Some p \<Rightarrow> if path_exists s p then (Inr (Some p), s)
         else (case scan s i of Some q \<Rightarrow> bindA (remember i q) (\<lambda>_. returnA (Some q)) s | None \<Rightarrow> (Inr None, s))
     | None \<Rightarrow> (case scan s i of Some q \<Rightarrow> bindA (remember i q) (\<lambda>_. returnA (Some q)) s | None \<Rightarrow> (Inr None, s)))"

definition find_required :: "string \<Rightarrow> item_path store_action" where
  \<comment> \<open>\<open>find_item_path(memory_id, required=True)\<close>\<close>
  "find_required v = bindA (find_item_path v) (\<lambda>p. case p of
       Some q \<Rightarrow> returnA q | None \<Rightarrow> liftA (Inl (ItemNotFound (strip v))))"

section \<open>Reading\<close>

definition load_item_from_path :: "item_path \<Rightarrow> memory_item store_action" where
  "load_item_from_path p =
     bindA (readA (\<lambda>s. case map_of (files s) p of None \<Rightarrow> Inl (ItemNotFound (snd p)) | Some m \<Rightarrow> load_item m)) (\<lambda>m.
     bindA (remember (memory_id m) p) (\<lambda>_. returnA m))"

definition get_item :: "string \<Rightarrow> memory_item store_action" where
  "get_item v = bindA (find_required v) load_item_from_path"

definition validate_store_item :: "string \<Rightarrow> memory_item store_action" where
  "validate_store_item v = get_item v"

fun load_readable :: "item_path list \<Rightarrow> memory_item list store_action" where
  \<comment> \<open>the loop of \<open>list_items\<close>: an unreadable file is skipped\<close>
  "load_readable [] s = (Inr [], s)"
| "load_readable (p # ps) s =
     (case load_item_from_path p s of
        (Inl e, s') \<Rightarrow> load_readable ps s'
      | (Inr m, s') \<Rightarrow>
          (case load_readable ps s' of (Inl e, t) \<Rightarrow> (Inl e, t) | (Inr ms, t) \<Rightarrow> (Inr (m # ms), t)))"

definition listed :: "string option \<Rightarrow> string option \<Rightarrow> memory_status list option \<Rightarrow> memory_item \<Rightarrow> bool" where
  "listed project conversation statuses m \<longleftrightarrow>
     (truthy project \<longrightarrow> project_id (context_links m) = project) \<and>
     (truthy conversation \<longrightarrow> conversation_id (context_links m) = conversation) \<and>
     (case statuses of None \<Rightarrow> True | Some xs \<Rightarrow> status m \<in> set xs)"

definition newest_first :: "memory_item list \<Rightarrow> memory_item list" where
  \<comment> \<open>\<open>sort(key=..., reverse=True)\<close>, which keeps the order of equal keys\<close>
  "newest_first ms = rev (sort_key (\<lambda>m. (updated_at_utc m, created_at_utc m, memory_id m)) (rev ms))"

definition list_items ::
  "memory_class option \<Rightarrow> string option \<Rightarrow> string option \<Rightarrow> memory_status list option \<Rightarrow> int option \<Rightarrow> int
     \<Rightarrow> memory_item list store_action" where
  "list_items c project conversation statuses limit offset =
     bindA (liftA (raise_if (offset < 0) (ValueError ''offset cannot be negative.''))) (\<lambda>_.
     bindA (liftA (raise_if (case limit of None \<Rightarrow> False | Some n \<Rightarrow> n < 1)
       (ValueError ''limit must be positive when provided.''))) (\<lambda>_.
     bindA (\<lambda>s. load_readable (iter_item_paths s c) s) (\<lambda>ms.
     let found = newest_first (filter (listed project conversation statuses) ms);
         rest = drop (nat offset) found
     in returnA (case limit of None \<Rightarrow> rest | Some n \<Rightarrow> take (nat n) rest))))"

section \<open>Writing\<close>

definition assert_legacy_write_allowed :: "unit store_action" where
  "assert_legacy_write_allowed s =
     (if allow_legacy_writes s then (Inr (), s) else (Inl LegacyWriterDisabled, s))"

definition write_file :: "item_path \<Rightarrow> memory_item \<Rightarrow> unit store_action" where
  "write_file p m = updateA (\<lambda>s. s\<lparr>files := AList.update p m (files s)\<rparr>)"

definition unlink :: "item_path \<Rightarrow> unit store_action" where
  "unlink p = updateA (\<lambda>s. s\<lparr>files := AList.delete p (files s)\<rparr>)"

definition create_item :: "memory_item \<Rightarrow> item_path store_action" where
  "create_item m =
     bindA assert_legacy_write_allowed (\<lambda>_.
     bindA (find_item_path (memory_id m)) (\<lambda>existing.
     bindA (liftA (raise_if (existing \<noteq> None) (ItemAlreadyExists (memory_id m)))) (\<lambda>_.
     bindA (liftA (build_item_path (memory_id m) (memory_class m))) (\<lambda>p.
     bindA (write_file p m) (\<lambda>_.
     bindA (remember (memory_id m) p) (\<lambda>_. returnA p))))))"

definition validate_expected_revision :: "memory_item \<Rightarrow> int option \<Rightarrow> memory_error + unit" where
  "validate_expected_revision m expected = (case expected of None \<Rightarrow> Inr ()
     | Some r \<Rightarrow> raise_if (item_revision m \<noteq> r) (RevisionMismatch r (item_revision m) (memory_id m)))"

definition bump_revision :: "memory_item \<Rightarrow> memory_item \<Rightarrow> memory_item" where
  "bump_revision current m =
     (if item_revision m \<le> item_revision current then put_revision (item_revision current + 1) m else m)"

definition replace_item :: "time \<Rightarrow> memory_item \<Rightarrow> int option \<Rightarrow> item_path store_action" where
  "replace_item now m expected =
     bindA assert_legacy_write_allowed (\<lambda>_.
     bindA (find_required (memory_id m)) (\<lambda>current_path.
     bindA (load_item_from_path current_path) (\<lambda>current.
     bindA (liftA (validate_expected_revision current expected)) (\<lambda>_.
     bindA (liftA (bindR (set_updated_at now m) (set_updated_by (updated_by m)))) (\<lambda>stamped.
     let updated = bump_revision current stamped in
     bindA (liftA (build_item_path (memory_id updated) (memory_class updated))) (\<lambda>new_path.
     bindA (write_file new_path updated) (\<lambda>_.
     bindA (if new_path \<noteq> current_path then unlink current_path else returnA ()) (\<lambda>_.
     bindA (remember (memory_id updated) new_path) (\<lambda>_. returnA new_path)))))))))"

definition archived_version :: "time \<Rightarrow> actor_kind \<Rightarrow> string option \<Rightarrow> memory_item \<Rightarrow> memory_error + memory_item" where
  \<comment> \<open>the assignments of \<open>archive_item\<close>\<close>
  "archived_version now by_whom why m =
     bindR (set_status Archived m) (\<lambda>m1. bindR (set_updated_at now m1) (\<lambda>m2.
     bindR (set_updated_by by_whom m2) (\<lambda>m3.
     Inr (put_reason (if truthy why then the why else ''Archived by memory item service.'')
       (put_revision (item_revision m3 + 1) m3)))))"

definition archive_item :: "time \<Rightarrow> string \<Rightarrow> string option \<Rightarrow> actor_kind \<Rightarrow> int option \<Rightarrow> memory_item store_action" where
  "archive_item now i why by_whom expected =
     bindA assert_legacy_write_allowed (\<lambda>_.
     bindA (get_item i) (\<lambda>m.
     bindA (liftA (validate_expected_revision m expected)) (\<lambda>_.
     bindA (liftA (archived_version now by_whom why m)) (\<lambda>a.
     bindA (replace_item now a (Some (item_revision m))) (\<lambda>_.
     get_item i)))))"

definition superseded_version :: "time \<Rightarrow> actor_kind \<Rightarrow> string \<Rightarrow> string \<Rightarrow> memory_item \<Rightarrow> memory_error + memory_item" where
  \<comment> \<open>the assignments of \<open>supersede_item\<close>\<close>
  "superseded_version now by_whom successor why m =
     bindR (set_status Superseded m) (\<lambda>m1. bindR (set_updated_at now m1) (\<lambda>m2.
     bindR (set_updated_by by_whom m2) (\<lambda>m3.
     Inr (put_reason (strip why) (put_successor (strip successor)
       (put_revision (item_revision m3 + 1) m3))))))"

definition supersede_item :: "time \<Rightarrow> string \<Rightarrow> string \<Rightarrow> string \<Rightarrow> actor_kind \<Rightarrow> int option \<Rightarrow> memory_item store_action" where
  "supersede_item now i successor why by_whom expected =
     bindA assert_legacy_write_allowed (\<lambda>_.
     bindA (liftA (raise_if (strip successor = []) (ValueError ''successor_memory_id cannot be empty.''))) (\<lambda>_.
     bindA (liftA (raise_if (strip why = []) (ValueError ''reason cannot be empty for supersede_item.''))) (\<lambda>_.
     bindA (get_item i) (\<lambda>m.
     bindA (liftA (validate_expected_revision m expected)) (\<lambda>_.
     bindA (liftA (superseded_version now by_whom successor why m)) (\<lambda>a.
     bindA (replace_item now a (Some (item_revision m))) (\<lambda>_.
     get_item i)))))))"

definition rebuild_index :: "(string \<times> item_path) list store_action" where
  "rebuild_index s = (let index = foldl (\<lambda>d p. AList.update (snd p) p d) [] (iter_item_paths s None)
     in (Inr index, s\<lparr>id_cache := index\<rparr>))"

section \<open>The invariant of the store\<close>

definition store_ok :: "mem_store \<Rightarrow> bool" where
  \<comment> \<open>every file lies where its content says, no identifier has two files, and the cache maps an identifier to a path with that stem\<close>
  "store_ok s \<longleftrightarrow> dict_ok (files s) \<and>
     (\<forall>c i m. map_of (files s) (c, i) = Some m \<longrightarrow> memory_class m = c \<and> memory_id m = i \<and>
        normalize_memory_id i = Inr i) \<and>
     (\<forall>i c c'. path_exists s (c, i) \<and> path_exists s (c', i) \<longrightarrow> c = c') \<and>
     (\<forall>i c j. map_of (id_cache s) i = Some (c, j) \<longrightarrow> j = i)"

definition stored :: "mem_store \<Rightarrow> string \<Rightarrow> memory_item option" where
  \<comment> \<open>the abstraction: the store as a map from identifiers to items\<close>
  "stored s i = (case scan s i of None \<Rightarrow> None | Some p \<Rightarrow> map_of (files s) p)"

lemma empty_store_ok [simp]: "store_ok (empty_store w)"
  by (simp add: store_ok_def empty_store_def path_exists_def dict_ok_def)

lemma store_okD:
  assumes "store_ok s"
  shows "dict_ok (files s)"
    "map_of (files s) (c, i) = Some m \<Longrightarrow> memory_class m = c \<and> memory_id m = i \<and> normalize_memory_id i = Inr i"
    "path_exists s (c, i) \<Longrightarrow> path_exists s (c', i) \<Longrightarrow> c = c'"
    "map_of (id_cache s) i = Some (c, j) \<Longrightarrow> j = i"
  using assms unfolding store_ok_def by blast+

lemma normalize_iff: "normalize_memory_id v = Inr i \<longleftrightarrow>
    strip v = i \<and> i \<noteq> [] \<and> \<not> (CHR ''/'' \<in> set i \<or> CHR 0x5C \<in> set i \<or> has_infix ''..'' i)"
  unfolding normalize_memory_id_def Let_def bindR_raise_if if_Inl_eq_Inr sum.inject by blast

lemma normalize_again: "normalize_memory_id v = Inr i \<Longrightarrow> normalize_memory_id i = Inr i"
  unfolding normalize_iff using strip_idem by blast

lemma set_iter_item_paths: "set (iter_item_paths s None) = fst ` set (files s)"
proof -
  have "set (iter_item_paths s None) = (\<Union>d. Pair d ` (snd \<circ> fst) ` {f \<in> set (files s). fst (fst f) = d})"
    by (simp add: iter_item_paths_def)
  also have "\<dots> = fst ` set (files s)"
  proof (rule set_eqI)
    fix p :: item_path
    show "p \<in> (\<Union>d. Pair d ` (snd \<circ> fst) ` {f \<in> set (files s). fst (fst f) = d}) \<longleftrightarrow> p \<in> fst ` set (files s)"
      by (cases p) (auto simp: image_iff, (metis fst_conv)+)
  qed
  finally show ?thesis .
qed

lemma path_exists_iff: "path_exists s p \<longleftrightarrow> p \<in> fst ` set (files s)"
  by (simp add: path_exists_def map_of_eq_None_iff)

lemma scan_Some: "scan s i = Some (c, j) \<Longrightarrow> j = i \<and> path_exists s (c, i)"
  unfolding scan_def path_exists_iff set_iter_item_paths [symmetric]
  by (metis (mono_tags, lifting) find_Some_iff nth_mem snd_conv)

lemma scan_None: "scan s i = None \<longleftrightarrow> (\<forall>c. \<not> path_exists s (c, i))"
  unfolding scan_def path_exists_iff set_iter_item_paths [symmetric] find_None_iff
  by (metis prod.collapse snd_conv)

lemma scan_iff: "store_ok s \<Longrightarrow> scan s i = Some (c, j) \<longleftrightarrow> j = i \<and> path_exists s (c, i)"
proof
  assume s: "store_ok s" and p: "j = i \<and> path_exists s (c, i)"
  show "scan s i = Some (c, j)"
  proof (cases "scan s i")
    case None
    with p show ?thesis by (simp add: scan_None)
  next
    case (Some q)
    obtain c' j' where q: "q = (c', j')" by (cases q)
    with scan_Some [of s i c' j'] Some have "j' = i" "path_exists s (c', i)" by simp_all
    with store_okD(3) [OF s, of c' i c] p q Some show ?thesis by simp
  qed
qed (rule scan_Some)

lemma scan_files: "files s' = files s \<Longrightarrow> scan s' i = scan s i"
  by (simp add: scan_def iter_item_paths_def)

lemma stored_files: "files s' = files s \<Longrightarrow> stored s' = stored s"
  by (rule ext) (simp add: stored_def scan_files [of s' s] split: option.split)

lemma stored_iff:
  assumes "store_ok s"
  shows "stored s i = Some m \<longleftrightarrow> (\<exists>c. map_of (files s) (c, i) = Some m)"
proof (cases "scan s i")
  case None
  then have "stored s i = None" "map_of (files s) (c, i) = None" for c
    by (simp_all add: stored_def) (simp add: scan_None path_exists_def)
  then show ?thesis by simp
next
  case (Some p)
  obtain c j where p: "p = (c, j)" by (cases p)
  from scan_Some [OF Some [unfolded p]] have c: "j = i" "path_exists s (c, i)" by simp_all
  then have "map_of (files s) (c', i) = Some m \<Longrightarrow> c' = c" for c'
    using store_okD(3) [OF assms, of c' i c] by (simp add: path_exists_def)
  with Some p c show ?thesis by (auto simp: stored_def)
qed

definition same_files :: "mem_store \<Rightarrow> mem_store \<Rightarrow> bool" where
  \<comment> \<open>only the cache may differ\<close>
  "same_files s t \<longleftrightarrow> files t = files s \<and> allow_legacy_writes t = allow_legacy_writes s"

lemma same_files_refl [simp]: "same_files s s"
  by (simp add: same_files_def)

lemma same_files_trans: "same_files s t \<Longrightarrow> same_files t u \<Longrightarrow> same_files s u"
  by (simp add: same_files_def)

lemma same_files_stored: "same_files s t \<Longrightarrow> stored t = stored s"
  unfolding same_files_def by (rule stored_files) (rule conjunct1)

lemma same_files_scan: "same_files s t \<Longrightarrow> scan t i = scan s i"
  unfolding same_files_def by (rule scan_files) (rule conjunct1)

lemma remember_spec:
  assumes "store_ok s"
  shows "\<exists>t. remember i (c, i) s = (Inr (), t) \<and> store_ok t \<and> same_files s t"
proof -
  let ?t = "s\<lparr>id_cache := AList.update i (c, i) (id_cache s)\<rparr>"
  have "path_exists ?t = path_exists s" by (rule ext) (simp add: path_exists_def)
  with assms have "store_ok ?t" unfolding store_ok_def by (simp add: map_of_dict_update)
  then show ?thesis by (simp add: remember_def same_files_def)
qed

section \<open>Lookups do not depend on the cache\<close>

lemma bindA_step: "m s = (Inr a, t) \<Longrightarrow> bindA m f s = f a t"
  by (simp add: bindA_def)

lemma bindA_stop: "m s = (Inl e, t) \<Longrightarrow> bindA m f s = (Inl e, t)"
  by (simp add: bindA_def)

lemma find_item_path_miss:
  assumes "store_ok s"
  shows "\<exists>t. (case scan s i of Some q \<Rightarrow> bindA (remember i q) (\<lambda>_. returnA (Some q)) s | None \<Rightarrow> (Inr None, s)) =
      (Inr (scan s i), t) \<and> store_ok t \<and> same_files s t"
proof (cases "scan s i")
  case None
  with assms show ?thesis by simp
next
  case (Some q)
  obtain c j where q: "q = (c, j)" by (cases q)
  with scan_Some [of s i c j] Some have j: "j = i" by simp
  obtain t where t: "remember i (c, i) s = (Inr (), t)" "store_ok t" "same_files s t"
    using remember_spec [OF assms] by blast
  then have "bindA (remember i (c, i)) (\<lambda>_. returnA (Some (c, i))) s = (Inr (Some (c, i)), t)"
    by (simp add: bindA_def)
  with Some q j t show ?thesis by simp
qed

lemma find_item_path_spec:
  assumes "store_ok s"
  shows "\<exists>t. find_item_path v s = (bindR (normalize_memory_id v) (\<lambda>i. Inr (scan s i)), t) \<and>
    store_ok t \<and> same_files s t"
proof (cases "normalize_memory_id v")
  case (Inl e)
  with assms show ?thesis by (simp add: find_item_path_def bindA_def)
next
  case (Inr i)
  obtain t where t: "(case scan s i of Some q \<Rightarrow> bindA (remember i q) (\<lambda>_. returnA (Some q)) s
      | None \<Rightarrow> (Inr None, s)) = (Inr (scan s i), t)" "store_ok t" "same_files s t"
    using find_item_path_miss [OF assms] by blast
  show ?thesis
  proof (cases "map_of (id_cache s) i")
    case None
    with Inr t show ?thesis by (simp add: find_item_path_def bindA_def)
  next
    case (Some p)
    show ?thesis
    proof (cases "path_exists s p")
      case False
      with Inr Some t show ?thesis by (simp add: find_item_path_def bindA_def)
    next
      case True
      obtain c j where p: "p = (c, j)" by (cases p)
      with Some store_okD(4) [OF assms] have "j = i" by blast
      with True p have "scan s i = Some p" by (simp add: scan_iff [OF assms])
      with Inr Some True assms show ?thesis by (simp add: find_item_path_def bindA_def)
    qed
  qed
qed

lemma find_required_spec:
  assumes "store_ok s"
  shows "\<exists>t. find_required v s = (bindR (normalize_memory_id v) (\<lambda>i. case scan s i of
      Some p \<Rightarrow> Inr p | None \<Rightarrow> Inl (ItemNotFound (strip v))), t) \<and> store_ok t \<and> same_files s t"
proof -
  obtain t where t: "find_item_path v s = (bindR (normalize_memory_id v) (\<lambda>i. Inr (scan s i)), t)"
    "store_ok t" "same_files s t" using find_item_path_spec [OF assms] by blast
  have "find_required v s = (bindR (normalize_memory_id v) (\<lambda>i. case scan s i of
      Some p \<Rightarrow> Inr p | None \<Rightarrow> Inl (ItemNotFound (strip v))), t)"
  proof (cases "normalize_memory_id v")
    case (Inl e)
    with t(1) show ?thesis by (simp add: find_required_def bindA_stop)
  next
    case (Inr i)
    with t(1) show ?thesis by (cases "scan s i") (simp_all add: find_required_def bindA_step)
  qed
  with t(2,3) show ?thesis by blast
qed

lemma loaded_id:
  assumes "store_ok s" "map_of (files s) (c, i) = Some m" "load_item m = Inr m'"
  shows "memory_id m' = i" "memory_class m' = c" "strip i = i"
proof -
  from store_okD(2) [OF assms(1,2)] have m: "memory_id m = i" "memory_class m = c" "strip i = i"
    by (simp_all add: normalize_iff)
  from load_item_facts(5,6) [OF assms(3)] m show "memory_class m' = c" by simp
  have "trim i = i" using m(3) by (metis trim_strip)
  with load_item_facts(5) [OF assms(3)] m show "memory_id m' = i" by simp
  show "strip i = i" by fact
qed

lemma load_item_from_path_spec:
  assumes "store_ok s" "map_of (files s) (c, i) = Some m"
  shows "\<exists>t. load_item_from_path (c, i) s = (load_item m, t) \<and> store_ok t \<and> same_files s t"
proof (cases "load_item m")
  case (Inl e)
  with assms show ?thesis by (simp add: load_item_from_path_def bindA_def)
next
  case (Inr m')
  obtain t where "remember i (c, i) s = (Inr (), t)" "store_ok t" "same_files s t"
    using remember_spec [OF assms(1)] by blast
  with Inr assms loaded_id(1) [OF assms Inr] show ?thesis
    by (simp add: load_item_from_path_def bindA_def)
qed

definition fetched :: "mem_store \<Rightarrow> string \<Rightarrow> memory_error + memory_item" where
  \<comment> \<open>what a read of the abstract map gives\<close>
  "fetched s v = bindR (normalize_memory_id v) (\<lambda>i. case stored s i of
     None \<Rightarrow> Inl (ItemNotFound (strip v)) | Some m \<Rightarrow> load_item m)"

lemma scan_stored:
  assumes "scan s i = Some p"
  obtains c m where "p = (c, i)" "map_of (files s) (c, i) = Some m" "stored s i = Some m"
proof -
  obtain c j where p: "p = (c, j)" by (cases p)
  with scan_Some [of s i c j] assms have "j = i" "path_exists s (c, i)" by simp_all
  then obtain m where "map_of (files s) (c, i) = Some m" by (auto simp: path_exists_def)
  with that p \<open>j = i\<close> assms show thesis by (simp add: stored_def)
qed

lemma get_item_spec:
  assumes "store_ok s"
  shows "\<exists>t. get_item v s = (fetched s v, t) \<and> store_ok t \<and> same_files s t"
proof -
  obtain t where t: "find_required v s = (bindR (normalize_memory_id v) (\<lambda>i. case scan s i of
      Some p \<Rightarrow> Inr p | None \<Rightarrow> Inl (ItemNotFound (strip v))), t)" "store_ok t" "same_files s t"
    using find_required_spec [OF assms] by blast
  show ?thesis
  proof (cases "normalize_memory_id v")
    case (Inl e)
    with t show ?thesis by (simp add: get_item_def bindA_stop fetched_def)
  next
    case (Inr i)
    show ?thesis
    proof (cases "scan s i")
      case None
      with Inr t show ?thesis by (simp add: get_item_def bindA_stop fetched_def stored_def)
    next
      case (Some p)
      obtain c m where p: "p = (c, i)" "map_of (files s) (c, i) = Some m" "stored s i = Some m"
        by (rule scan_stored [OF Some])
      with t(3) have "map_of (files t) (c, i) = Some m" by (simp add: same_files_def)
      from load_item_from_path_spec [OF t(2) this]
      obtain u where "load_item_from_path (c, i) t = (load_item m, u)" "store_ok u" "same_files t u" by blast
      with Inr Some t p show ?thesis
        by (auto simp: get_item_def bindA_step fetched_def intro: same_files_trans)
    qed
  qed
qed

text \<open>
  Claim C15. The cache is invisible: in every well-formed store \<open>get_item\<close> returns exactly the
  validated item that the store holds under the identifier, and the error of the same kind
  otherwise, whatever the cache contains, and it changes no file.
\<close>

theorem get_item_refines_map:
  assumes "store_ok s"
  shows "fst (get_item v s) = fetched (s\<lparr>id_cache := []\<rparr>) v \<and> store_ok (snd (get_item v s)) \<and>
    files (snd (get_item v s)) = files s"
proof -
  obtain t where t: "get_item v s = (fetched s v, t)" "store_ok t" "same_files s t"
    using get_item_spec [OF assms] by blast
  have "stored (s\<lparr>id_cache := []\<rparr>) = stored s" by (rule stored_files) simp
  with t show ?thesis by (simp add: fetched_def same_files_def)
qed

section \<open>Writing refines the update of a map\<close>

definition puts :: "mem_store \<Rightarrow> string \<Rightarrow> memory_item \<Rightarrow> mem_store \<Rightarrow> bool" where
  \<comment> \<open>\<open>t\<close> is \<open>s\<close> with the item \<open>m\<close> under \<open>i\<close> and nothing else changed\<close>
  "puts s i m t \<longleftrightarrow> store_ok t \<and> allow_legacy_writes t = allow_legacy_writes s \<and>
     (\<forall>j. stored t j = (if j = i then Some m else stored s j))"

lemma placed:
  assumes "store_ok s" "memory_id m = i" "normalize_memory_id i = Inr i"
    and "dict_ok (files t)" "id_cache t = id_cache s" "allow_legacy_writes t = allow_legacy_writes s"
    and here: "\<And>c. map_of (files t) (c, i) = (if c = memory_class m then Some m else None)"
    and there: "\<And>c j. j \<noteq> i \<Longrightarrow> map_of (files t) (c, j) = map_of (files s) (c, j)"
  shows "puts s i m t"
proof -
  have "memory_class x = c \<and> memory_id x = j \<and> normalize_memory_id j = Inr j"
    if "map_of (files t) (c, j) = Some x" for c j x
    using that assms(2,3) here [of c] there [of j c] store_okD(2) [OF assms(1), of c j x]
    by (cases "j = i") (auto split: if_splits)
  moreover have "c = c'" if "path_exists t (c, j)" "path_exists t (c', j)" for j c c'
    using that here [of c] here [of c'] there [of j c] there [of j c'] store_okD(3) [OF assms(1), of c j c']
    by (cases "j = i") (auto simp: path_exists_def split: if_splits)
  moreover have "k = j" if "map_of (id_cache t) j = Some (c, k)" for j c k
    using that assms(5) store_okD(4) [OF assms(1)] by simp
  ultimately have ok: "store_ok t" using assms(4) unfolding store_ok_def by blast
  have "stored t j = (if j = i then Some m else stored s j)" for j
  proof (cases "j = i")
    case True
    with here [of "memory_class m"] show ?thesis by (simp add: stored_iff [OF ok]) blast
  next
    case False
    with there have "stored t j = Some x \<longleftrightarrow> stored s j = Some x" for x
      by (simp add: stored_iff [OF ok] stored_iff [OF assms(1)])
    with False show ?thesis by (cases "stored s j"; cases "stored t j") auto
  qed
  with ok assms(6) show ?thesis by (simp add: puts_def)
qed

lemma puts_cong:
  assumes "puts s i m t" "same_files t u" "store_ok u"
  shows "puts s i m u"
  using assms same_files_stored [OF assms(2)] by (simp add: puts_def same_files_def)

lemma puts_from:
  assumes "puts s i m t" "same_files r s"
  shows "puts r i m t"
  using assms same_files_stored [OF assms(2)] by (simp add: puts_def same_files_def)

lemma create_item_spec:
  assumes "store_ok s" "strip (memory_id m) = memory_id m"
  shows "(\<exists>e t. create_item m s = (Inl e, t) \<and> store_ok t \<and> same_files s t) \<or>
    (\<exists>t. create_item m s = (Inr (memory_class m, memory_id m), t) \<and> allow_legacy_writes s \<and>
      stored s (memory_id m) = None \<and> puts s (memory_id m) m t)"
proof (cases "allow_legacy_writes s")
  case False
  with assms(1) show ?thesis
    by (simp add: create_item_def assert_legacy_write_allowed_def bindA_stop)
next
  case True
  let ?i = "memory_id m"
  obtain t where t: "find_item_path ?i s = (bindR (normalize_memory_id ?i) (\<lambda>i. Inr (scan s i)), t)"
    "store_ok t" "same_files s t" using find_item_path_spec [OF assms(1)] by blast
  show ?thesis
  proof (cases "normalize_memory_id ?i")
    case (Inl e)
    with True t show ?thesis
      by (simp add: create_item_def assert_legacy_write_allowed_def bindA_def)
  next
    case (Inr i)
    with assms(2) have n: "normalize_memory_id ?i = Inr ?i" by (simp add: normalize_iff)
    show ?thesis
    proof (cases "scan s ?i")
      case (Some p)
      with True t n show ?thesis
        by (simp add: create_item_def assert_legacy_write_allowed_def bindA_def)
    next
      case None
      let ?u = "t\<lparr>files := AList.update (memory_class m, ?i) m (files t)\<rparr>"
      have free: "map_of (files t) (c, ?i) = None" for c
        using None t(3) by (simp add: scan_None path_exists_def same_files_def)
      have put: "puts t ?i m ?u"
        by (rule placed [OF t(2) refl n])
           (use store_okD(1) [OF t(2)] free in \<open>simp_all add: dict_simps\<close>)
      then have "store_ok ?u" by (simp add: puts_def)
      then obtain v where v: "remember ?i (memory_class m, ?i) ?u = (Inr (), v)"
        "store_ok v" "same_files ?u v" using remember_spec by blast
      have "puts s ?i m v" by (rule puts_from [OF puts_cong [OF put v(3,2)] t(3)])
      moreover have "create_item m s = (Inr (memory_class m, ?i), v)"
        using True t(1) n None v(1)
        by (simp add: create_item_def assert_legacy_write_allowed_def bindA_def build_item_path_def
            write_file_def)
      ultimately show ?thesis using True None by (simp add: stored_def)
    qed
  qed
qed

definition replacement :: "time \<Rightarrow> memory_item \<Rightarrow> memory_item \<Rightarrow> memory_error + memory_item" where
  \<comment> \<open>what \<open>replace_item\<close> writes over the current item\<close>
  "replacement now current m = bindR (bindR (set_updated_at now m) (set_updated_by (updated_by m)))
     (\<lambda>x. Inr (bump_revision current x))"

lemma replacement_facts:
  assumes "replacement now current m = Inr u"
  shows "memory_id u = memory_id m" "memory_class u = memory_class m" "sensitivity u = sensitivity m"
    "status u = status m" "body u = body m" "title u = title m" "updated_at_utc u = now"
    "item_revision u = max (item_revision m) (item_revision current + 1)"
    "last_mutation_reason (revision_info u) = last_mutation_reason (revision_info m)"
    "superseded_by_memory_id (revision_info u) = superseded_by_memory_id (revision_info m)"
    "created_at_utc u = created_at_utc m" "item_consistent u"
proof -
  from assms have u: "u = bump_revision current (m\<lparr>updated_at_utc := now\<rparr>)"
    and ok: "item_consistent (m\<lparr>updated_at_utc := now\<rparr>)"
    by (auto simp: replacement_def bindR_eq_Inr_iff set_updated_at_def set_updated_by_def
        validate_memory_item_iff)
  show "memory_id u = memory_id m" "memory_class u = memory_class m" "sensitivity u = sensitivity m"
    "status u = status m" "body u = body m" "title u = title m" "updated_at_utc u = now"
    "item_revision u = max (item_revision m) (item_revision current + 1)"
    "last_mutation_reason (revision_info u) = last_mutation_reason (revision_info m)"
    "superseded_by_memory_id (revision_info u) = superseded_by_memory_id (revision_info m)"
    "created_at_utc u = created_at_utc m"
    unfolding u bump_revision_def put_revision_def item_revision_def by (simp_all add: max_def)
  show "item_consistent u"
    using ok unfolding u bump_revision_def put_revision_def item_consistent_def by simp
qed

lemma replace_item_spec:
  assumes "store_ok s" "strip (memory_id m) = memory_id m"
  shows "(\<exists>e t. replace_item now m expected s = (Inl e, t) \<and> store_ok t \<and> same_files s t) \<or>
    (\<exists>current u t. replace_item now m expected s = (Inr (memory_class m, memory_id m), t) \<and>
      allow_legacy_writes s \<and> fetched s (memory_id m) = Inr current \<and>
      validate_expected_revision current expected = Inr () \<and> replacement now current m = Inr u \<and>
      puts s (memory_id m) u t)"
proof (cases "allow_legacy_writes s")
  case False
  with assms(1) show ?thesis
    by (simp add: replace_item_def assert_legacy_write_allowed_def bindA_stop)
next
  case True
  let ?i = "memory_id m"
  have go: "replace_item now m expected s = bindA (find_required ?i) (\<lambda>current_path.
     bindA (load_item_from_path current_path) (\<lambda>current.
     bindA (liftA (validate_expected_revision current expected)) (\<lambda>_.
     bindA (liftA (bindR (set_updated_at now m) (set_updated_by (updated_by m)))) (\<lambda>stamped.
     let updated = bump_revision current stamped in
     bindA (liftA (build_item_path (memory_id updated) (memory_class updated))) (\<lambda>new_path.
     bindA (write_file new_path updated) (\<lambda>_.
     bindA (if new_path \<noteq> current_path then unlink current_path else returnA ()) (\<lambda>_.
     bindA (remember (memory_id updated) new_path) (\<lambda>_. returnA new_path)))))))) s"
    using True by (simp add: replace_item_def assert_legacy_write_allowed_def bindA_step)
  obtain t where t: "find_required ?i s = (bindR (normalize_memory_id ?i) (\<lambda>i. case scan s i of
      Some p \<Rightarrow> Inr p | None \<Rightarrow> Inl (ItemNotFound (strip ?i))), t)" "store_ok t" "same_files s t"
    using find_required_spec [OF assms(1)] by blast
  show ?thesis
  proof (cases "normalize_memory_id ?i")
    case (Inl e)
    with go t show ?thesis by (simp add: bindA_stop)
  next
    case (Inr i)
    with assms(2) have n: "normalize_memory_id ?i = Inr ?i" by (simp add: normalize_iff)
    show ?thesis
    proof (cases "scan s ?i")
      case None
      with go t n show ?thesis by (simp add: bindA_stop)
    next
      case (Some p)
      obtain c old where p: "p = (c, ?i)" "map_of (files s) (c, ?i) = Some old" "stored s ?i = Some old"
        by (rule scan_stored [OF Some])
      with t(3) have old: "map_of (files t) (c, ?i) = Some old" by (simp add: same_files_def)
      obtain u where u: "load_item_from_path (c, ?i) t = (load_item old, u)" "store_ok u" "same_files t u"
        using load_item_from_path_spec [OF t(2) old] by blast
      have su: "same_files s u" using t(3) u(3) by (rule same_files_trans)
      have found: "fetched s ?i = load_item old" using n p(3) by (simp add: fetched_def)
      show ?thesis
      proof (cases "load_item old")
        case (Inl e)
        with go t n Some p u su show ?thesis by (simp add: bindA_step bindA_stop)
      next
        case (Inr current)
        show ?thesis
        proof (cases "validate_expected_revision current expected")
          case (Inl e)
          with go t n Some p u su Inr show ?thesis by (simp add: bindA_step bindA_stop)
        next
          case valid: (Inr x)
          show ?thesis
          proof (cases "bindR (set_updated_at now m) (set_updated_by (updated_by m))")
            case (Inl e)
            with go t n Some p u su Inr valid show ?thesis by (simp add: bindA_step bindA_stop)
          next
            case stamped: (Inr y)
            let ?m = "bump_revision current y"
            have r: "replacement now current m = Inr ?m" by (simp add: replacement_def stamped)
            note same = replacement_facts(1,2) [OF r]
            let ?new = "(memory_class m, ?i)"
            let ?w = "u\<lparr>files := AList.update ?new ?m (files u)\<rparr>"
            let ?x = "if ?new \<noteq> (c, ?i) then ?w\<lparr>files := AList.delete (c, ?i) (files ?w)\<rparr> else ?w"
            have only: "map_of (files u) (c', ?i) = None" if "c' \<noteq> c" for c'
            proof (rule ccontr)
              assume "map_of (files u) (c', ?i) \<noteq> None"
              moreover have "map_of (files u) (c, ?i) = Some old" using old u(3) by (simp add: same_files_def)
              ultimately show False
                using store_okD(3) [OF u(2), of c' ?i c] that by (simp add: path_exists_def)
            qed
            have put: "puts u ?i ?m ?x"
              by (rule placed [OF u(2) same(1) n])
                 (use store_okD(1) [OF u(2)] only same in \<open>auto simp: dict_simps\<close>)
            then have "store_ok ?x" by (simp add: puts_def)
            then obtain v where v: "remember ?i ?new ?x = (Inr (), v)" "store_ok v" "same_files ?x v"
              using remember_spec by blast
            have "puts s ?i ?m v" by (rule puts_from [OF puts_cong [OF put v(3,2)] su])
            moreover have "replace_item now m expected s = (Inr ?new, v)"
              using go t(1) n Some p u(1) Inr valid stamped same v(1)
              by (simp add: bindA_step build_item_path_def write_file_def unlink_def split: if_splits)
            ultimately show ?thesis using True found Inr valid r by auto
          qed
        qed
      qed
    qed
  qed
qed

section \<open>No item is lost and no revision falls\<close>

definition store_grows :: "mem_store \<Rightarrow> mem_store \<Rightarrow> bool" where
  "store_grows s t \<longleftrightarrow> allow_legacy_writes t = allow_legacy_writes s \<and>
     (\<forall>i m. stored s i = Some m \<longrightarrow> (\<exists>m'. stored t i = Some m' \<and> item_revision m \<le> item_revision m'))"

lemma same_files_grows: "same_files s t \<Longrightarrow> store_grows s t"
  using same_files_stored [of s t] by (auto simp: store_grows_def same_files_def)

lemma puts_grows:
  assumes "puts s i u t" "\<And>m. stored s i = Some m \<Longrightarrow> item_revision m \<le> item_revision u"
  shows "store_grows s t"
  using assms by (auto simp: store_grows_def puts_def)

lemma store_grows_trans:
  assumes "store_grows s t" "store_grows t u"
  shows "store_grows s u"
proof -
  have "\<exists>m'. stored u i = Some m' \<and> item_revision m \<le> item_revision m'" if "stored s i = Some m" for i m
  proof -
    from assms(1) that obtain m1 where "stored t i = Some m1" "item_revision m \<le> item_revision m1"
      unfolding store_grows_def by blast
    moreover from this assms(2) obtain m2 where "stored u i = Some m2" "item_revision m1 \<le> item_revision m2"
      unfolding store_grows_def by blast
    ultimately show ?thesis by (auto intro: order_trans)
  qed
  with assms show ?thesis by (simp add: store_grows_def)
qed

interpretation store: state_relation store_ok store_grows
proof
  show "store_grows s s" for s by (simp add: store_grows_def)
qed (rule store_grows_trans)

definition sound_item :: "memory_item \<Rightarrow> bool" where
  \<comment> \<open>what every \<open>MemoryItem\<close> object satisfies\<close>
  "sound_item m \<longleftrightarrow> strip (memory_id m) = memory_id m \<and> item_consistent m"

lemma sound_item_id: "sound_item m \<Longrightarrow> strip (memory_id m) = memory_id m"
  by (simp add: sound_item_def)

lemma fetched_revision:
  assumes "store_ok s" "strip i = i" "fetched s i = Inr m" "stored s i = Some m'"
  shows "item_revision m = item_revision m'"
  using assms load_item_facts(3)
  by (auto simp: fetched_def bindR_eq_Inr_iff normalize_iff)

lemma fetched_sound: "fetched s v = Inr m \<Longrightarrow> sound_item m"
  by (auto simp: fetched_def bindR_eq_Inr_iff sound_item_def split: option.splits
      dest: load_item_facts(1,2))

lemma get_item_moves: "moves store_ok store_grows (get_item v) sound_item"
proof (rule movesI)
  fix s assume s: "store_ok s"
  obtain t where "get_item v s = (fetched s v, t)" "store_ok t" "same_files s t"
    using get_item_spec [OF s] by blast
  then show "store_ok (snd (get_item v s)) \<and> store_grows s (snd (get_item v s)) \<and>
      (\<forall>m. fst (get_item v s) = Inr m \<longrightarrow> sound_item m)"
    by (auto simp: same_files_grows fetched_sound)
qed

lemma create_item_moves:
  assumes "strip (memory_id m) = memory_id m"
  shows "moves store_ok store_grows (create_item m) (\<lambda>_. True)"
proof (rule movesI)
  fix s assume s: "store_ok s"
  from create_item_spec [OF s, of m] assms
  show "store_ok (snd (create_item m s)) \<and> store_grows s (snd (create_item m s)) \<and>
      (\<forall>p. fst (create_item m s) = Inr p \<longrightarrow> True)"
    by (auto simp: same_files_grows puts_def intro: puts_grows [unfolded puts_def])
qed

lemma replace_item_moves:
  assumes i: "strip (memory_id m) = memory_id m"
  shows "moves store_ok store_grows (replace_item now m expected) (\<lambda>_. True)"
proof (rule movesI)
  fix s assume s: "store_ok s"
  let ?r = "replace_item now m expected s"
  from replace_item_spec [OF s i, of now expected]
  consider e t where "?r = (Inl e, t)" "store_ok t" "same_files s t"
    | current u t where "?r = (Inr (memory_class m, memory_id m), t)" "fetched s (memory_id m) = Inr current"
        "replacement now current m = Inr u" "puts s (memory_id m) u t" by blast
  then have "store_ok (snd ?r) \<and> store_grows s (snd ?r)"
  proof cases
    case 1
    then show ?thesis by (simp add: same_files_grows)
  next
    case 2
    have "item_revision x \<le> item_revision u" if "stored s (memory_id m) = Some x" for x
      using fetched_revision [OF s i 2(2) that] replacement_facts(8) [OF 2(3)] by simp
    with 2(1,4) puts_grows [OF 2(4)] show ?thesis by (simp add: puts_def)
  qed
  then show "store_ok (snd ?r) \<and> store_grows s (snd ?r) \<and> (\<forall>p. fst ?r = Inr p \<longrightarrow> True)" by simp
qed

lemma pureA_assert: "pureA assert_legacy_write_allowed"
  by (simp add: pureA_def assert_legacy_write_allowed_def)

lemma put_sound:
  "status m \<noteq> Superseded \<Longrightarrow> sound_item m \<Longrightarrow> sound_item (put_reason r (put_revision v m))"
  by (simp add: sound_item_def put_reason_def put_revision_def item_consistent_def)

lemma archived_version_ok:
  assumes "archived_version now by_whom why m = Inr a"
  shows "a = put_reason (if truthy why then the why else ''Archived by memory item service.'')
       (put_revision (item_revision m + 1) (m\<lparr>status := Archived, updated_at_utc := now, updated_by := by_whom\<rparr>))"
    and "item_consistent (m\<lparr>status := Archived, updated_at_utc := now, updated_by := by_whom\<rparr>)"
proof -
  let ?m3 = "m\<lparr>status := Archived, updated_at_utc := now, updated_by := by_whom\<rparr>"
  have "item_revision ?m3 = item_revision m" by (simp add: item_revision_def)
  with assms show "a = put_reason (if truthy why then the why else ''Archived by memory item service.'')
       (put_revision (item_revision m + 1) ?m3)" and "item_consistent ?m3"
    unfolding archived_version_def set_status_def set_updated_at_def set_updated_by_def
      bindR_eq_Inr_iff validate_memory_item_iff by simp_all
qed

lemma archived_version_sound:
  assumes "archived_version now by_whom why m = Inr a" "sound_item m"
  shows "sound_item a" "memory_id a = memory_id m" "memory_class a = memory_class m" "status a = Archived"
    "item_revision a = item_revision m + 1"
proof -
  note a = archived_version_ok [OF assms(1)]
  show "memory_id a = memory_id m" "memory_class a = memory_class m" "status a = Archived"
    "item_revision a = item_revision m + 1"
    unfolding a(1) by (simp_all add: put_reason_def put_revision_def item_revision_def)
  have "sound_item (m\<lparr>status := Archived, updated_at_utc := now, updated_by := by_whom\<rparr>)"
    using a(2) assms(2) by (simp add: sound_item_def)
  then show "sound_item a" unfolding a(1) by (rule put_sound [rotated]) simp
qed

lemma superseded_version_ok:
  assumes "superseded_version now by_whom successor why m = Inr a" "sound_item m" "strip successor \<noteq> []"
  shows "sound_item a" "memory_id a = memory_id m"
proof -
  let ?m3 = "m\<lparr>status := Superseded, updated_at_utc := now, updated_by := by_whom\<rparr>"
  have "item_revision ?m3 = item_revision m" by (simp add: item_revision_def)
  with assms(1) have a: "a = put_reason (strip why) (put_successor (strip successor)
       (put_revision (item_revision m + 1) ?m3))" and c: "item_consistent ?m3"
    unfolding superseded_version_def set_status_def set_updated_at_def set_updated_by_def
      bindR_eq_Inr_iff validate_memory_item_iff by simp_all
  show "memory_id a = memory_id m"
    unfolding a by (simp add: put_reason_def put_successor_def put_revision_def)
  with c assms(2,3) show "sound_item a"
    unfolding a by (simp add: sound_item_def put_reason_def put_successor_def put_revision_def item_consistent_def)
qed

lemma moves_lift:
  "(\<And>a. r = Inr a \<Longrightarrow> post a) \<Longrightarrow> moves store_ok store_grows (liftA r) post"
  by (rule store.moves_pure [OF pureA_lift]) simp

lemma archive_item_moves: "moves store_ok store_grows (archive_item now i why by_whom expected) sound_item"
  unfolding archive_item_def
  by (rule store.moves_bind [OF store.moves_pure_any [OF pureA_assert]],
      rule store.moves_bind [OF get_item_moves],
      rule store.moves_bind [OF moves_lift [where post = "\<lambda>_. True"]], simp,
      rule store.moves_bind [OF moves_lift [where post = sound_item]], erule archived_version_sound(1), assumption,
      rule store.moves_bind [OF replace_item_moves], erule sound_item_id, rule get_item_moves)

lemma supersede_item_moves:
  "moves store_ok store_grows (supersede_item now i successor why by_whom expected) sound_item"
proof (cases "strip successor = []")
  case True
  then have "supersede_item now i successor why by_whom expected =
      bindA assert_legacy_write_allowed (\<lambda>_. liftA (Inl (ValueError ''successor_memory_id cannot be empty.'')))"
    by (intro ext) (simp add: supersede_item_def bindA_def assert_legacy_write_allowed_def)
  moreover have "moves store_ok store_grows
      (bindA assert_legacy_write_allowed (\<lambda>_. liftA (Inl (ValueError ''successor_memory_id cannot be empty.''))))
      sound_item"
    by (rule store.moves_bind [OF store.moves_pure_any [OF pureA_assert]], rule moves_lift) simp
  ultimately show ?thesis by simp
next
  case False
  show ?thesis
    unfolding supersede_item_def
    by (rule store.moves_bind [OF store.moves_pure_any [OF pureA_assert]],
        rule store.moves_bind [OF moves_lift [where post = "\<lambda>_. True"]], simp,
        rule store.moves_bind [OF moves_lift [where post = "\<lambda>_. True"]], simp,
        rule store.moves_bind [OF get_item_moves],
        rule store.moves_bind [OF moves_lift [where post = "\<lambda>_. True"]], simp,
        rule store.moves_bind [OF moves_lift [where post = sound_item]],
        erule superseded_version_ok(1), assumption, rule False,
        rule store.moves_bind [OF replace_item_moves], erule sound_item_id, rule get_item_moves)
qed

lemma load_readable_spec:
  "store_ok s \<Longrightarrow> \<exists>ms t. load_readable ps s = (Inr ms, t) \<and> store_ok t \<and> same_files s t \<and>
     ms = concat (map (\<lambda>p. case map_of (files s) p of None \<Rightarrow> []
       | Some m \<Rightarrow> (case load_item m of Inl e \<Rightarrow> [] | Inr x \<Rightarrow> [x])) ps)"
proof (induction ps arbitrary: s)
  case Nil
  then show ?case by simp
next
  case (Cons p ps)
  obtain c i where p: "p = (c, i)" by (cases p)
  show ?case
  proof (cases "map_of (files s) p")
    case None
    then have "load_item_from_path p s = (Inl (ItemNotFound (snd p)), s)"
      by (simp add: load_item_from_path_def bindA_def)
    with Cons None show ?thesis by simp
  next
    case (Some m)
    with p obtain t where t: "load_item_from_path p s = (load_item m, t)" "store_ok t" "same_files s t"
      using load_item_from_path_spec [OF Cons.prems] by blast
    from Cons.IH [OF t(2)] obtain ms u where u: "load_readable ps t = (Inr ms, u)" "store_ok u" "same_files t u"
      "ms = concat (map (\<lambda>p. case map_of (files t) p of None \<Rightarrow> []
       | Some m \<Rightarrow> (case load_item m of Inl e \<Rightarrow> [] | Inr x \<Rightarrow> [x])) ps)" by blast
    have "files t = files s" using t(3) by (simp add: same_files_def)
    with Some t u show ?thesis
      by (cases "load_item m") (simp_all add: same_files_trans [OF t(3) u(3)])
  qed
qed

lemma list_items_moves: "moves store_ok store_grows (list_items c project conversation statuses limit offset) (\<lambda>_. True)"
proof -
  have "moves store_ok store_grows (\<lambda>s. load_readable (iter_item_paths s c) s) (\<lambda>_. True)"
  proof (rule movesI)
    fix s assume "store_ok s"
    from load_readable_spec [OF this, of "iter_item_paths s c"] obtain ms t where
      "load_readable (iter_item_paths s c) s = (Inr ms, t)" "store_ok t" "same_files s t" by blast
    then show "store_ok (snd (load_readable (iter_item_paths s c) s)) \<and>
        store_grows s (snd (load_readable (iter_item_paths s c) s)) \<and>
        (\<forall>a. fst (load_readable (iter_item_paths s c) s) = Inr a \<longrightarrow> True)"
      by (simp add: same_files_grows)
  qed
  note loop = this
  show ?thesis
    unfolding list_items_def Let_def
    by (rule store.moves_bind [OF moves_lift [where post = "\<lambda>_. True"]], rule TrueI,
        rule store.moves_bind [OF moves_lift [where post = "\<lambda>_. True"]], rule TrueI,
        rule store.moves_bind [OF loop], rule store.moves_return, rule TrueI)
qed

lemma index_keys:
  "map_of (foldl (\<lambda>d p. AList.update (snd p) p d) d ps) i = Some (c, j) \<Longrightarrow>
     (\<forall>i c j. map_of d i = Some (c, j) \<longrightarrow> j = i) \<Longrightarrow> j = i"
proof (induction ps arbitrary: d)
  case Nil
  then show ?case by simp
next
  case (Cons p ps)
  have "\<forall>i c j. map_of (AList.update (snd p) p d) i = Some (c, j) \<longrightarrow> j = i"
    using Cons.prems(2) by (auto simp: dict_simps)
  with Cons.IH Cons.prems(1) show ?case by simp
qed

lemma rebuild_index_moves: "moves store_ok store_grows rebuild_index (\<lambda>_. True)"
proof (rule movesI)
  fix s assume s: "store_ok s"
  let ?d = "foldl (\<lambda>d p. AList.update (snd p) p d) [] (iter_item_paths s None)"
  have "path_exists (s\<lparr>id_cache := ?d\<rparr>) = path_exists s" by (rule ext) (simp add: path_exists_def)
  then have "store_ok (s\<lparr>id_cache := ?d\<rparr>)"
    using s index_keys [of "[]" "iter_item_paths s None"] unfolding store_ok_def by simp
  moreover have "same_files s (s\<lparr>id_cache := ?d\<rparr>)" by (simp add: same_files_def)
  ultimately show "store_ok (snd (rebuild_index s)) \<and> store_grows s (snd (rebuild_index s)) \<and>
      (\<forall>a. fst (rebuild_index s) = Inr a \<longrightarrow> True)"
    by (simp add: rebuild_index_def Let_def same_files_grows)
qed

section \<open>The service as a machine\<close>

datatype store_op =
    CreateItem memory_item
  | ReplaceItem time memory_item "int option"
  | ArchiveItem time string "string option" actor_kind "int option"
  | SupersedeItem time string string string actor_kind "int option"
  | GetItem string
  | ListItems "memory_class option" "string option" "string option" "memory_status list option" "int option" int
  | RebuildIndex

definition constructed :: "memory_item \<Rightarrow> (memory_item \<Rightarrow> 'a store_action) \<Rightarrow> mem_store \<Rightarrow> mem_store" where
  \<comment> \<open>the argument is a \<open>MemoryItem\<close>, so it was validated when it was built\<close>
  "constructed m f s = (case make_item m of Inl _ \<Rightarrow> s | Inr x \<Rightarrow> snd (f x s))"

primrec store_step :: "store_op \<Rightarrow> mem_store \<Rightarrow> mem_store" where
  "store_step (CreateItem m) s = constructed m create_item s"
| "store_step (ReplaceItem now m expected) s = constructed m (\<lambda>x. replace_item now x expected) s"
| "store_step (ArchiveItem now i why w expected) s = snd (archive_item now i why w expected s)"
| "store_step (SupersedeItem now i j why w expected) s = snd (supersede_item now i j why w expected s)"
| "store_step (GetItem v) s = snd (get_item v s)"
| "store_step (ListItems c p k st l n) s = snd (list_items c p k st l n s)"
| "store_step RebuildIndex s = snd (rebuild_index s)"

definition store_version :: "mem_store \<Rightarrow> string \<Rightarrow> int option" where
  "store_version s i = map_option item_revision (stored s i)"

definition store_retires :: "store_op \<Rightarrow> string \<Rightarrow> mem_store \<Rightarrow> bool" where
  \<comment> \<open>no operation of the service removes an item\<close>
  "store_retires op i s \<longleftrightarrow> False"

lemma make_item_sound: "make_item m = Inr x \<Longrightarrow> sound_item x"
  by (simp add: sound_item_def make_item_facts)

lemma constructed_moves:
  assumes "\<And>x. sound_item x \<Longrightarrow> moves store_ok store_grows (f x) (\<lambda>_. True)" "store_ok s"
  shows "store_ok (constructed m f s) \<and> store_grows s (constructed m f s)"
  using movesD(1,2) [OF assms(1) assms(2)] assms(2) make_item_sound [of m]
  by (auto simp: constructed_def store.rel_refl split: sum.split)

lemma store_step_moves:
  assumes "store_ok s"
  shows "store_ok (store_step op s) \<and> store_grows s (store_step op s)"
  using assms
    constructed_moves [OF create_item_moves [OF sound_item_id] assms]
    constructed_moves [OF replace_item_moves [OF sound_item_id] assms]
    movesD(1,2) [OF archive_item_moves assms] movesD(1,2) [OF supersede_item_moves assms]
    movesD(1,2) [OF get_item_moves assms] movesD(1,2) [OF list_items_moves assms]
    movesD(1,2) [OF rebuild_index_moves assms]
  by (cases op) simp_all

interpretation item_ledger: versioned_ledger store_step store_ok store_version store_retires
proof
  show "store_ok s \<Longrightarrow> store_ok (store_step op s)" for s op by (simp add: store_step_moves)
next
  fix s k v op assume "store_ok s" "store_version s k = Some v"
  then obtain m where m: "stored s k = Some m" "v = item_revision m" by (auto simp: store_version_def)
  from store_step_moves [OF \<open>store_ok s\<close>, of op]
  have "store_grows s (store_step op s)" by blast
  with m(1) obtain m' where "stored (store_step op s) k = Some m'" "item_revision m \<le> item_revision m'"
    unfolding store_grows_def by blast
  with m(2) show "\<exists>v' \<ge> v. store_version (store_step op s) k = Some v'" by (auto simp: store_version_def)
qed

section \<open>Properties\<close>

lemma nothing_retired: "\<not> retired_in store_step store_retires ops i s"
  by (induction ops arbitrary: s) (simp_all add: store_retires_def)

text \<open>
  Claim C12. Nothing is ever lost: an item that some history of the service has stored is still
  stored, in exactly one file, after any further operations, and its revision has not fallen.
\<close>

theorem items_never_lost:
  assumes "stored (run store_step before (empty_store w)) i = Some m"
  shows "\<exists>m' c. stored (run store_step (before @ later) (empty_store w)) i = Some m' \<and>
    item_revision m \<le> item_revision m' \<and>
    (\<forall>c'. path_exists (run store_step (before @ later) (empty_store w)) (c', i) \<longleftrightarrow> c' = c)"
proof -
  let ?s = "run store_step before (empty_store w)" and ?t = "run store_step (before @ later) (empty_store w)"
  have ok: "store_ok ?s" "store_ok ?t" by (rule item_ledger.inv_run, simp)+
  have "store_version ?s i = Some (item_revision m)" using assms by (simp add: store_version_def)
  from item_ledger.version_run [OF ok(1) this nothing_retired, of later]
  obtain m' where m': "stored ?t i = Some m'" "item_revision m \<le> item_revision m'"
    by (auto simp: store_version_def)
  from m'(1) obtain c where "map_of (files ?t) (c, i) = Some m'"
    unfolding stored_iff [OF ok(2)] by blast
  then have "path_exists ?t (c, i)" by (simp add: path_exists_def)
  then have "path_exists ?t (c', i) \<longleftrightarrow> c' = c" for c'
    using store_okD(3) [OF ok(2)] by blast
  with m' show ?thesis by blast
qed

lemma fetched_scan:
  assumes "store_ok s" "fetched s v = Inr m"
  obtains c i old where "normalize_memory_id v = Inr i" "scan s i = Some (c, i)"
    "map_of (files s) (c, i) = Some old" "load_item old = Inr m" "memory_id m = i" "memory_class m = c"
proof -
  from assms(2) obtain i old where i: "normalize_memory_id v = Inr i" "stored s i = Some old" "load_item old = Inr m"
    by (auto simp: fetched_def bindR_eq_Inr_iff split: option.splits)
  then obtain p where p: "scan s i = Some p" by (auto simp: stored_def split: option.splits)
  obtain c old' where c: "p = (c, i)" "map_of (files s) (c, i) = Some old'" "stored s i = Some old'"
    by (rule scan_stored [OF p])
  with i p have "scan s i = Some (c, i)" "map_of (files s) (c, i) = Some old" by simp_all
  with that i loaded_id [OF assms(1) this(2) i(3)] show thesis by blast
qed

lemma find_load:
  assumes "store_ok s" "fetched s v = Inr m"
  obtains p t u where "find_required v s = (Inr p, t)" "load_item_from_path p t = (Inr m, u)"
    "store_ok u" "same_files s u" "p = (memory_class m, memory_id m)"
proof -
  obtain c i old where f: "normalize_memory_id v = Inr i" "scan s i = Some (c, i)"
    "map_of (files s) (c, i) = Some old" "load_item old = Inr m" "memory_id m = i" "memory_class m = c"
    by (rule fetched_scan [OF assms])
  obtain t where t: "find_required v s = (Inr (c, i), t)" "store_ok t" "same_files s t"
    using find_required_spec [OF assms(1), of v] f by auto
  then have "map_of (files t) (c, i) = Some old" using f(3) by (simp add: same_files_def)
  from load_item_from_path_spec [OF t(2) this] f(4)
  obtain u where "load_item_from_path (c, i) t = (Inr m, u)" "store_ok u" "same_files t u" by auto
  with that t f same_files_trans show thesis by metis
qed

text \<open>
  Stale writers are refused: when the expected revision differs from the revision of
  the stored item, replacing it and archiving it both raise the mismatch, and no file changes.
\<close>

theorem stale_revision_refused:
  assumes "store_ok s" "allow_legacy_writes s" "fetched s (memory_id m) = Inr current"
    and "r \<noteq> item_revision current"
  shows "fst (replace_item now m (Some r) s) = Inl (RevisionMismatch r (item_revision current) (memory_id current)) \<and>
    files (snd (replace_item now m (Some r) s)) = files s \<and>
    fst (archive_item now (memory_id m) why by_whom (Some r) s) =
      Inl (RevisionMismatch r (item_revision current) (memory_id current)) \<and>
    files (snd (archive_item now (memory_id m) why by_whom (Some r) s)) = files s"
proof -
  obtain p t u where l: "find_required (memory_id m) s = (Inr p, t)" "load_item_from_path p t = (Inr current, u)"
    "same_files s u" by (rule find_load [OF assms(1,3)])
  have v: "validate_expected_revision current (Some r) =
      Inl (RevisionMismatch r (item_revision current) (memory_id current))"
    using assms(4) by (simp add: validate_expected_revision_def)
  have "replace_item now m (Some r) s = (Inl (RevisionMismatch r (item_revision current) (memory_id current)), u)"
    using assms(2) l v
    by (simp add: replace_item_def assert_legacy_write_allowed_def bindA_step bindA_stop)
  moreover have "archive_item now (memory_id m) why by_whom (Some r) s =
      (Inl (RevisionMismatch r (item_revision current) (memory_id current)), u)"
    using assms(2) l v
    by (simp add: archive_item_def get_item_def assert_legacy_write_allowed_def bindA_step bindA_stop)
  ultimately show ?thesis using l(3) by (simp add: same_files_def)
qed

text \<open>
  Claim C14. Replacing refines the update of a map: a replacement that returns has the current
  item validated at the expected revision, puts exactly one new version under the identifier and
  leaves every other entry, and the new revision is later than the current one; a replacement
  that raises changes no entry.
\<close>

theorem replace_item_refines_update:
  assumes "store_ok s" "sound_item m"
  shows "case replace_item now m expected s of
      (Inl e, t) \<Rightarrow> stored t = stored s
    | (Inr p, t) \<Rightarrow> p = (memory_class m, memory_id m) \<and>
        (\<exists>current u. fetched s (memory_id m) = Inr current \<and>
          (\<forall>r. expected = Some r \<longrightarrow> item_revision current = r) \<and>
          replacement now current m = Inr u \<and> item_revision current < item_revision u \<and>
          stored t = (stored s)(memory_id m \<mapsto> u))"
proof -
  from assms(2) have i: "strip (memory_id m) = memory_id m" by (simp add: sound_item_def)
  from replace_item_spec [OF assms(1) i, of now expected] show ?thesis
  proof (elim disjE exE conjE)
    fix e t assume "replace_item now m expected s = (Inl e, t)" "same_files s t"
    then show ?thesis by (simp add: same_files_stored)
  next
    fix current u t
    assume r: "replace_item now m expected s = (Inr (memory_class m, memory_id m), t)"
      "fetched s (memory_id m) = Inr current" "validate_expected_revision current expected = Inr ()"
      "replacement now current m = Inr u" "puts s (memory_id m) u t"
    have "stored t = (stored s)(memory_id m \<mapsto> u)" using r(5) by (auto simp: puts_def fun_eq_iff)
    moreover have "\<forall>r. expected = Some r \<longrightarrow> item_revision current = r"
      using r(3) by (auto simp: validate_expected_revision_def)
    ultimately show ?thesis using r(1,2,4) replacement_facts(8) [OF r(4)] by auto
  qed
qed

text \<open>
  What is created can be read back: creating an item that its schema accepts, under an
  identifier no file has, returns its path, and reading the identifier then returns exactly the
  item.
\<close>

theorem create_then_get:
  assumes "store_ok s" "allow_legacy_writes s" "load_item m = Inr m"
    and "normalize_memory_id (memory_id m) = Inr (memory_id m)" "stored s (memory_id m) = None"
  shows "fst (create_item m s) = Inr (memory_class m, memory_id m) \<and>
    fst (get_item (memory_id m) (snd (create_item m s))) = Inr m"
proof -
  have i: "strip (memory_id m) = memory_id m" using load_item_facts(2) [OF assms(3)] .
  have none: "scan s (memory_id m) = None"
  proof (rule ccontr)
    assume "scan s (memory_id m) \<noteq> None"
    then obtain p where "scan s (memory_id m) = Some p" by blast
    then obtain old where "stored s (memory_id m) = Some old" by (rule scan_stored)
    with assms(5) show False by simp
  qed
  obtain f where f: "find_item_path (memory_id m) s = (Inr None, f)"
    using find_item_path_spec [OF assms(1), of "memory_id m"] assms(4) none by auto
  have "fst (create_item m s) = Inr (memory_class m, memory_id m)"
    using assms(2,4) f
    by (simp add: create_item_def assert_legacy_write_allowed_def bindA_step build_item_path_def
        write_file_def remember_def)
  with create_item_spec [OF assms(1) i] obtain t where t: "create_item m s = (Inr (memory_class m, memory_id m), t)"
    "puts s (memory_id m) m t" by auto
  then have "store_ok t" "stored t (memory_id m) = Some m" by (simp_all add: puts_def)
  with get_item_spec [OF this(1), of "memory_id m"] t assms(3,4) show ?thesis
    by (auto simp: fetched_def)
qed

lemma disabled_step:
  assumes "store_ok s" "\<not> allow_legacy_writes s"
  shows "files (store_step op s) = files s \<and> \<not> allow_legacy_writes (store_step op s)"
proof -
  have stop: "bindA assert_legacy_write_allowed f s = (Inl LegacyWriterDisabled, s)"
    for f :: "unit \<Rightarrow> 'b store_action"
    using assms(2) by (simp add: assert_legacy_write_allowed_def bindA_def)
  have allow: "\<not> allow_legacy_writes (store_step op s)"
    using store_step_moves [OF assms(1), of op] assms(2) by (simp add: store_grows_def)
  have "files (store_step op s) = files s"
  proof (cases op)
    case (GetItem v)
    with get_item_refines_map [OF assms(1), of v] show ?thesis by simp
  next
    case (ListItems c p k st l n)
    have "same_files s (snd (list_items c p k st l n s))"
    proof -
      obtain ms t where t: "load_readable (iter_item_paths s c) s = (Inr ms, t)" "same_files s t"
        using load_readable_spec [OF assms(1)] by blast
      show ?thesis
        by (cases "n < 0"; cases "case l of None \<Rightarrow> False | Some n \<Rightarrow> n < 1")
           (simp_all add: list_items_def Let_def bindA_def t)
    qed
    with ListItems show ?thesis by (simp add: same_files_def)
  next
    case RebuildIndex
    then show ?thesis by (simp add: rebuild_index_def Let_def)
  qed (simp_all add: constructed_def create_item_def replace_item_def archive_item_def supersede_item_def
      stop split: sum.split)
  with allow show ?thesis by simp
qed

text \<open>
  The legacy store is read-only unless its writer is enabled: with writes disabled no
  sequence of operations changes a single file.
\<close>

theorem disabled_writer_changes_nothing:
  assumes "store_ok s" "\<not> allow_legacy_writes s"
  shows "files (run store_step ops s) = files s"
  using assms
proof (induction ops arbitrary: s)
  case (Cons op ops)
  with disabled_step [of s op] store_step_moves [of s op] show ?case by simp
qed simp

lemma replace_item_succeeds:
  assumes "store_ok s" "allow_legacy_writes s" "sound_item m" "fetched s (memory_id m) = Inr current"
    and "validate_expected_revision current expected = Inr ()" "replacement now current m = Inr u"
  shows "\<exists>t. replace_item now m expected s = (Inr (memory_class m, memory_id m), t) \<and>
    puts s (memory_id m) u t"
proof -
  from assms(3) have i: "strip (memory_id m) = memory_id m" by (simp add: sound_item_def)
  obtain p t v where l: "find_required (memory_id m) s = (Inr p, t)" "load_item_from_path p t = (Inr current, v)"
    by (rule find_load [OF assms(1,4)])
  from assms(6) obtain y where y: "bindR (set_updated_at now m) (set_updated_by (updated_by m)) = Inr y"
      "u = bump_revision current y" unfolding replacement_def bindR_eq_Inr_iff by blast
  have n: "normalize_memory_id (memory_id m) = Inr (memory_id m)"
    using assms(4) i by (auto simp: fetched_def bindR_eq_Inr_iff normalize_iff)
  note id = replacement_facts(1,2) [OF assms(6)]
  have "\<exists>r. fst (replace_item now m expected s) = Inr r"
    using assms(2,5) l y id n
    by (simp add: replace_item_def assert_legacy_write_allowed_def bindA_step build_item_path_def
        write_file_def unlink_def remember_def)
  with replace_item_spec [OF assms(1) i, of now expected] assms(4,6) show ?thesis by auto
qed

text \<open>
  A long reason makes an archived item unreadable: \<open>archive_item\<close> writes the reason
  without the schema's limit of 240 characters, so with a longer one the item is archived on disk
  and then the call raises while reading it back, and every later read raises too.
\<close>

theorem long_reason_makes_item_unreadable:
  assumes "store_ok s" "allow_legacy_writes s" "fetched s i = Inr m" "memory_id m = i"
    and "created_at_utc m \<le> now" "why = Some w" "240 < length (trim w)"
  shows "\<exists>e. fst (archive_item now i why by_whom None s) = Inl e \<and>
    (\<exists>x. stored (snd (archive_item now i why by_whom None s)) i = Some x \<and> status x = Archived) \<and>
    (\<exists>e'. fst (get_item i (snd (archive_item now i why by_whom None s))) = Inl e')"
proof -
  obtain t where t: "get_item i s = (Inr m, t)" "store_ok t" "same_files s t"
    using get_item_spec [OF assms(1), of i] assms(3) by auto
  have sound: "sound_item m" by (rule fetched_sound [OF assms(3)])
  have fm: "fetched t i = Inr m"
    using assms(3) same_files_stored [OF t(3)] by (simp add: fetched_def)
  let ?a = "put_reason w (put_revision (item_revision m + 1)
      (m\<lparr>status := Archived, updated_at_utc := now, updated_by := by_whom\<rparr>))"
  have "w \<noteq> []" using assms(7) by (auto simp: trim_def strip_by_def)
  moreover have "item_consistent (m\<lparr>status := Archived\<rparr>)"
      "item_consistent (m\<lparr>status := Archived, updated_at_utc := now\<rparr>)"
      "item_consistent (m\<lparr>status := Archived, updated_at_utc := now, updated_by := by_whom\<rparr>)"
    using sound assms(5) by (simp_all add: sound_item_def item_consistent_def)
  ultimately have a: "archived_version now by_whom why m = Inr ?a"
    unfolding archived_version_def set_status_def set_updated_at_def set_updated_by_def
    by (simp add: validate_memory_item_iff [THEN iffD2] assms(6) item_revision_def)
  note av = archived_version_sound [OF a sound]
  have "item_consistent (?a\<lparr>updated_at_utc := now\<rparr>)"
      "item_consistent (?a\<lparr>updated_at_utc := now, updated_by := updated_by ?a\<rparr>)"
    using av(1) by (simp_all add: sound_item_def item_consistent_def put_reason_def put_revision_def)
  then have "\<exists>u. replacement now m ?a = Inr u"
    by (simp add: replacement_def set_updated_at_def set_updated_by_def validate_memory_item_iff [THEN iffD2])
  then obtain u where u: "replacement now m ?a = Inr u" by blast
  have id: "memory_id ?a = i" using av(2) assms(4) by simp
  have "fetched t (memory_id ?a) = Inr m" using fm id by simp
  moreover have "validate_expected_revision m (Some (item_revision m)) = Inr ()"
    by (simp add: validate_expected_revision_def)
  ultimately obtain r where r: "replace_item now ?a (Some (item_revision m)) t =
      (Inr (memory_class ?a, memory_id ?a), r)" "puts t i u r"
    using replace_item_succeeds [OF t(2) _ av(1), of m _ now u] assms(2) t(3) u id
    by (auto simp: same_files_def)
  have read: "store_ok q \<Longrightarrow> stored q i = Some u \<Longrightarrow> \<exists>e. fst (get_item i q) = Inl e" for q
  proof -
    assume q: "store_ok q" "stored q i = Some u"
    have "last_mutation_reason (revision_info u) = Some w"
      unfolding replacement_facts(9) [OF u] by (simp add: put_reason_def)
    then have "check_revision (revision_info u) \<noteq> Inr v" for v
      using assms(7) by (auto simp: check_revision_def bindR_eq_Inr_iff bounded_opt_def bounded_iff)
    then have "load_item u \<noteq> Inr v" for v by (auto simp: load_item_iff)
    moreover have "strip i = i" using sound assms(4) by (simp add: sound_item_def)
    ultimately have "fetched q i \<noteq> Inr v" for v
      using q(2) by (auto simp: fetched_def bindR_eq_Inr_iff normalize_iff split: option.splits)
    with get_item_spec [OF q(1), of i] show ?thesis by (cases "fetched q i") auto
  qed
  have ok: "store_ok r" "stored r i = Some u" using r(2) by (simp_all add: puts_def)
  obtain r' where r': "get_item i r = (fetched r i, r')" "store_ok r'" "same_files r r'"
    using get_item_spec [OF ok(1)] by blast
  have "archive_item now i why by_whom None s = get_item i r"
    using assms(2) t(1) a r(1)
    by (simp add: archive_item_def assert_legacy_write_allowed_def bindA_step validate_expected_revision_def)
  moreover have "status u = Archived" using replacement_facts(4) [OF u] av(4) by simp
  moreover have "stored r' i = Some u" using ok(2) same_files_stored [OF r'(3)] by simp
  ultimately show ?thesis using read [OF ok] read [OF r'(2)] r'(1) by auto
qed

section \<open>Witnesses\<close>

definition sample_store :: mem_store where
  "sample_store = run store_step [CreateItem sample_item] (empty_store True)"

lemma sample_store_ok: "store_ok sample_store"
  unfolding sample_store_def by (rule item_ledger.inv_run) simp

lemma sample_store_facts:
  "allow_legacy_writes sample_store" "fetched sample_store ''mem_0001'' = Inr sample_item"
  by code_simp+

lemma sample_fields: "memory_id sample_item = ''mem_0001''" "item_revision sample_item = 1"
  "memory_class sample_item = Project" "created_at_utc sample_item = 0"
  by (simp_all add: sample_item_def item_revision_def)

lemma get_item_refines_map_witness:
  "fst (get_item '' mem_0001 '' sample_store) = fetched (sample_store\<lparr>id_cache := []\<rparr>) '' mem_0001 ''"
  using get_item_refines_map [OF sample_store_ok, of "'' mem_0001 ''"] by simp

lemma items_never_lost_witness:
  "\<exists>m' c. stored (run store_step ([CreateItem sample_item] @
        [ArchiveItem 5 ''mem_0001'' None Kind_user None, GetItem ''mem_0001'']) (empty_store True)) ''mem_0001'' = Some m' \<and>
    item_revision sample_item \<le> item_revision m'"
proof -
  have "stored (run store_step [CreateItem sample_item] (empty_store True)) ''mem_0001'' = Some sample_item"
    by code_simp
  from items_never_lost [OF this, of "[ArchiveItem 5 ''mem_0001'' None Kind_user None, GetItem ''mem_0001'']"]
  show ?thesis by blast
qed

lemma stale_revision_refused_witness:
  "fst (replace_item 5 sample_item (Some 4) sample_store) = Inl (RevisionMismatch 4 (item_revision sample_item) (memory_id sample_item)) \<and>
    files (snd (replace_item 5 sample_item (Some 4) sample_store)) = files sample_store \<and>
    fst (archive_item 5 (memory_id sample_item) None Kind_user (Some 4) sample_store) =
      Inl (RevisionMismatch 4 (item_revision sample_item) (memory_id sample_item)) \<and>
    files (snd (archive_item 5 (memory_id sample_item) None Kind_user (Some 4) sample_store)) = files sample_store"
  by (rule stale_revision_refused [OF sample_store_ok sample_store_facts(1)])
     (simp_all add: sample_fields sample_store_facts(2))

lemma sample_item_sound: "sound_item sample_item"
  by (simp add: sound_item_def load_item_facts(1,2) [OF load_sample_item])

lemma replace_item_refines_update_witness:
  "\<exists>t u. replace_item 5 sample_item None sample_store = (Inr (Project, ''mem_0001''), t) \<and>
    stored t = (stored sample_store)(''mem_0001'' \<mapsto> u)"
proof -
  have "fst (replace_item 5 sample_item None sample_store) = Inr (Project, ''mem_0001'')" by code_simp
  then obtain t where t: "replace_item 5 sample_item None sample_store = (Inr (Project, ''mem_0001''), t)"
    by (cases "replace_item 5 sample_item None sample_store") simp
  from replace_item_refines_update [OF sample_store_ok sample_item_sound, where now = 5 and expected = None]
  show ?thesis by (auto simp: t sample_fields)
qed

lemma create_then_get_witness:
  "fst (create_item sample_item (empty_store True)) = Inr (memory_class sample_item, memory_id sample_item) \<and>
    fst (get_item (memory_id sample_item) (snd (create_item sample_item (empty_store True)))) = Inr sample_item"
  by (rule create_then_get [OF empty_store_ok _ load_sample_item]) (simp add: empty_store_def, code_simp, code_simp)

lemma disabled_writer_changes_nothing_witness:
  "files (run store_step [CreateItem sample_item, ArchiveItem 5 ''mem_0001'' None Kind_user None]
     (empty_store False)) = files (empty_store False)"
  by (rule disabled_writer_changes_nothing [OF empty_store_ok]) (simp add: empty_store_def)

lemma long_reason_makes_item_unreadable_witness:
  "\<exists>e. fst (archive_item 5 ''mem_0001'' (Some (replicate 241 CHR ''x'')) Kind_user None sample_store) = Inl e \<and>
    (\<exists>x. stored (snd (archive_item 5 ''mem_0001'' (Some (replicate 241 CHR ''x'')) Kind_user None sample_store))
        ''mem_0001'' = Some x \<and> status x = Archived) \<and>
    (\<exists>e'. fst (get_item ''mem_0001''
        (snd (archive_item 5 ''mem_0001'' (Some (replicate 241 CHR ''x'')) Kind_user None sample_store))) = Inl e')"
proof (rule long_reason_makes_item_unreadable [OF sample_store_ok sample_store_facts _ _ refl])
  show "240 < length (trim (replicate 241 CHR ''x''))" by code_simp
qed (simp_all add: sample_fields)

end
