(* ===== verification/MemoryMutations.thy ===== *)
theory MemoryMutations
  imports MemoryBoundary MemoryStore
begin

text \<open>
  \<open>MemoryMutationService\<close> of \<open>app/memory/services/memory_mutation_service.py\<close>: it loads the
  targets of a request, asks the boundary, dispatches to one handler per mutation type and always
  answers with a record.  An exception anywhere becomes a failed record whose message is the
  text of the exception; that text is an argument (\<open>err_text\<close>), since pydantic words its own.
  The clock and the fresh identifier of a new item are arguments.
\<close>

record mutation_env =
  env_policies :: policy_set
  err_text :: "memory_error \<Rightarrow> string"

type_synonym record_action = "mutation_record store_action"

section \<open>Records\<close>

definition record_for ::
  "mutation_request \<Rightarrow> mutation_decision \<Rightarrow> string \<Rightarrow> time \<Rightarrow> time option \<Rightarrow> string option \<Rightarrow> string option \<Rightarrow>
   string option \<Rightarrow> memory_error + mutation_record" where
  "record_for q d why now applied result superseded err =
     make_record \<lparr>request = q, decision = d, decision_reason = why, evaluated_at_utc = now,
       applied_at_utc = applied, resulting_memory_id = result, superseded_memory_id = superseded,
       error_message = err\<rparr>"

definition record_allowed_preview :: "time \<Rightarrow> mutation_request \<Rightarrow> boundary_decision \<Rightarrow> memory_error + mutation_record" where
  "record_allowed_preview now q d = record_for q Allowed (''Dry run: '' @ bd_reason d) now None None None None"

definition record_blocked :: "time \<Rightarrow> mutation_request \<Rightarrow> boundary_decision \<Rightarrow> memory_error + mutation_record" where
  "record_blocked now q d = record_for q Decision_blocked (bd_reason d) now None None None None"

definition record_review_required :: "time \<Rightarrow> mutation_request \<Rightarrow> boundary_decision \<Rightarrow> memory_error + mutation_record" where
  "record_review_required now q d = record_for q Decision_review_required (bd_reason d) now None None None None"

definition record_applied ::
  "time \<Rightarrow> mutation_request \<Rightarrow> string \<Rightarrow> string \<Rightarrow> string option \<Rightarrow> memory_error + mutation_record" where
  "record_applied now q why result superseded =
     record_for q Applied why now (Some now) (Some result) superseded None"

definition record_no_op :: "time \<Rightarrow> mutation_request \<Rightarrow> string \<Rightarrow> memory_error + mutation_record" where
  "record_no_op now q why = record_for q No_op why now None (target_memory_id (target q)) None None"

definition record_failed :: "time \<Rightarrow> mutation_request \<Rightarrow> string \<Rightarrow> string \<Rightarrow> memory_error + mutation_record" where
  "record_failed now q why message = record_for q Failed why now None None None (Some message)"

section \<open>Patching an item\<close>

definition opt_set :: "('v \<Rightarrow> memory_item \<Rightarrow> memory_error + memory_item) \<Rightarrow> 'v option \<Rightarrow> memory_item
    \<Rightarrow> memory_error + memory_item" where
  "opt_set f v m = (case v of None \<Rightarrow> Inr m | Some x \<Rightarrow> f x m)"

primrec actor_to_item_actor :: "mutation_actor \<Rightarrow> actor_kind" where
  "actor_to_item_actor User = Kind_user"
| "actor_to_item_actor Assistant = Kind_assistant"
| "actor_to_item_actor System = Kind_system"
| "actor_to_item_actor Service = Kind_service"

definition pick :: "bool option \<Rightarrow> bool \<Rightarrow> bool" where
  "pick v old = (case v of None \<Rightarrow> old | Some b \<Rightarrow> b)"

definition build_flags_from_patch :: "flags_patch option \<Rightarrow> memory_flags \<Rightarrow> memory_flags" where
  "build_flags_from_patch p f = (case p of None \<Rightarrow> f
     | Some x \<Rightarrow> \<lparr>pinned = pick (fp_pinned x) (pinned f),
         user_declared = pick (fp_user_declared x) (user_declared f),
         inferred = pick (fp_inferred x) (inferred f), verified = pick (fp_verified x) (verified f),
         stale = pick (fp_stale x) (stale f)\<rparr>)"

definition put_trail :: "mutation_patch \<Rightarrow> string \<Rightarrow> bool \<Rightarrow> memory_item \<Rightarrow> memory_item" where
  \<comment> \<open>the unvalidated assignments to \<open>revision_info\<close> at the end of \<open>_apply_patch_to_item\<close>\<close>
  "put_trail p why increment m =
     (let m1 = (if increment then put_revision (item_revision m + 1) m else m);
          m2 = put_reason why m1;
          m3 = (case successor_memory_id p of None \<Rightarrow> m2 | Some x \<Rightarrow> put_successor x m2)
      in case revision_note p of None \<Rightarrow> m3 | Some n \<Rightarrow> put_reason n m3)"

definition patch_fields :: "boundary_decision \<Rightarrow> mutation_patch \<Rightarrow> memory_item \<Rightarrow> memory_error + memory_item" where
  \<comment> \<open>the validated assignments of \<open>_apply_patch_to_item\<close>, field by field\<close>
  "patch_fields d p m =
     bindR (opt_set set_title (patch_title p) m) (\<lambda>m.
     bindR (opt_set set_body (patch_body p) m) (\<lambda>m.
     bindR (opt_set set_why_stored (patch_why_stored p) m) (\<lambda>m.
     bindR (opt_set set_class (patch_class p) m) (\<lambda>m.
     bindR (opt_set set_sensitivity (patch_sensitivity p) m) (\<lambda>m.
     bindR (opt_set set_mutability (patch_mutability p) m) (\<lambda>m.
     bindR (opt_set set_status (patch_status p) m) (\<lambda>m.
     bindR (if provisional_only d then set_status Provisional m else Inr m) (\<lambda>m.
     bindR (opt_set set_importance (patch_importance p) m) (\<lambda>m.
     bindR (opt_set set_confidence (patch_confidence p) m) (\<lambda>m.
     opt_set (\<lambda>x m. set_flags (build_flags_from_patch (Some x) (flags m)) m) (patch_flags p) m))))))))))"

definition apply_patch_to_item ::
  "time \<Rightarrow> mutation_request \<Rightarrow> boundary_decision \<Rightarrow> mutation_patch \<Rightarrow> bool \<Rightarrow> memory_item
     \<Rightarrow> memory_error + memory_item" where
  "apply_patch_to_item now q d p increment m =
     bindR (patch_fields d p m) (\<lambda>m.
     bindR (set_updated_at now m) (\<lambda>m.
     bindR (set_updated_by (actor_to_item_actor (actor q)) m) (\<lambda>m.
     Inr (put_trail p (reason (request_context q)) increment m))))"

definition items_equivalent :: "memory_item \<Rightarrow> memory_item \<Rightarrow> bool" where
  \<comment> \<open>equal apart from \<open>updated_at_utc\<close>, \<open>updated_by\<close> and the revision number\<close>
  "items_equivalent a b \<longleftrightarrow>
     put_revision 1 (a\<lparr>updated_at_utc := 0, updated_by := Kind_system\<rparr>) =
     put_revision 1 (b\<lparr>updated_at_utc := 0, updated_by := Kind_system\<rparr>)"

section \<open>Building new items\<close>

definition first_class_policy :: "policy_set \<Rightarrow> memory_class \<Rightarrow> memory_error + class_policy" where
  "first_class_policy ps c =
     (case find (\<lambda>p. cp_class p = c) (class_policies ps) of
        None \<Rightarrow> Inl (KeyError (''No class policy found for '' @ class_value c @ ''.''))
      | Some p \<Rightarrow> Inr p)"

definition require_target_class :: "mutation_request \<Rightarrow> memory_item option \<Rightarrow> memory_error + memory_class" where
  "require_target_class q e = (case resolve_target_class q e of
       None \<Rightarrow> Inl (ValueError ''Target memory_class could not be resolved.'') | Some c \<Rightarrow> Inr c)"

definition or_else :: "'a option \<Rightarrow> 'a \<Rightarrow> 'a" where
  "or_else v d = (case v of None \<Rightarrow> d | Some x \<Rightarrow> x)"

definition text_or :: "string option \<Rightarrow> string \<Rightarrow> string" where
  \<comment> \<open>\<open>value or default\<close> on an optional text\<close>
  "text_or v d = (if truthy v then the v else d)"

definition build_source :: "time \<Rightarrow> mutation_request \<Rightarrow> memory_error + memory_source" where
  "build_source now q = (let c = request_context q in
     check_source \<lparr>source_kind = or_else (context_source_kind c) Manual_entry,
       source_ref = context_source_ref c,
       source_label = (if truthy (trigger_event c) then trigger_event c else context_source_ref c),
       captured_at_utc = now\<rparr>)"

definition build_context_links :: "mutation_request \<Rightarrow> memory_item option \<Rightarrow> memory_context_links" where
  "build_context_links q e =
     (let l = (case e of None \<Rightarrow> no_links | Some m \<Rightarrow> context_links m);
          l1 = (case target_project_id (target q) of None \<Rightarrow> l | Some p \<Rightarrow> l\<lparr>project_id := Some p\<rparr>)
      in case target_conversation_id (target q) of None \<Rightarrow> l1 | Some c \<Rightarrow> l1\<lparr>conversation_id := Some c\<rparr>)"

definition first_revision :: "string \<Rightarrow> memory_error + memory_revision_info" where
  "first_revision why = check_revision \<lparr>revision = 1, supersedes_memory_id = None,
     superseded_by_memory_id = None, last_mutation_reason = Some why\<rparr>"

definition build_created_item ::
  "policy_set \<Rightarrow> time \<Rightarrow> string \<Rightarrow> mutation_request \<Rightarrow> boundary_decision \<Rightarrow> memory_error + memory_item" where
  "build_created_item ps now fresh q d = (let p = patch q; why = reason (request_context q);
       who = actor_to_item_actor (actor q) in
     bindR (require_target_class q None) (\<lambda>c.
     bindR (first_class_policy ps c) (\<lambda>cp.
     bindR (build_source now q) (\<lambda>src.
     bindR (first_revision why) (\<lambda>rev.
     make_item \<lparr>memory_id = ''mem_'' @ fresh, memory_class = c,
       title = text_or (patch_title p) ''Untitled memory'', body = text_or (patch_body p) [],
       source = src, context_links = build_context_links q None,
       why_stored = text_or (patch_why_stored p) why,
       sensitivity = or_else (patch_sensitivity p) (default_sensitivity cp),
       mutability = or_else (patch_mutability p) (default_mutability cp),
       status = (if provisional_only d then Provisional else or_else (patch_status p) (default_status cp)),
       created_at_utc = now, updated_at_utc = now, created_by = who, updated_by = who,
       importance = or_else (patch_importance p) (1/2), confidence = patch_confidence p,
       revision_info = rev, flags = build_flags_from_patch (patch_flags p) no_flags\<rparr>)))))"

definition bare_item :: "memory_error + memory_item" where
  \<comment> \<open>\<open>MemoryItem()\<close>: memory_class, title, body, source and why_stored have no default\<close>
  "bare_item = Inl (ValidationError ''5 validation errors for MemoryItem'')"

definition build_successor_from_existing ::
  "time \<Rightarrow> memory_item \<Rightarrow> mutation_request \<Rightarrow> boundary_decision \<Rightarrow> memory_error + memory_item" where
  "build_successor_from_existing now e q d = (let who = actor_to_item_actor (actor q) in
     bindR bare_item (\<lambda>b.
     bindR (validate_memory_id (memory_id b)) (\<lambda>i.
     bindR (validate_memory_item (e\<lparr>memory_id := i\<rparr>)) (\<lambda>m.
     bindR (validate_memory_item (m\<lparr>created_at_utc := now\<rparr>)) (\<lambda>m.
     bindR (set_updated_at now m) (\<lambda>m.
     bindR (validate_memory_item (m\<lparr>created_by := who\<rparr>)) (\<lambda>m.
     bindR (set_updated_by who m) (\<lambda>m.
     bindR (check_revision \<lparr>revision = 1, supersedes_memory_id = Some (memory_id e),
       superseded_by_memory_id = None, last_mutation_reason = Some (reason (request_context q))\<rparr>) (\<lambda>rev.
     bindR (validate_memory_item (m\<lparr>revision_info := rev\<rparr>)) (\<lambda>m.
     apply_patch_to_item now q d (patch q) False m))))))))))"

definition newline :: string where
  "newline = [CHR 0x0A]"

definition merge_items_into_successor ::
  "policy_set \<Rightarrow> time \<Rightarrow> string \<Rightarrow> memory_item list \<Rightarrow> mutation_request \<Rightarrow> boundary_decision
     \<Rightarrow> memory_error + memory_item" where
  "merge_items_into_successor ps now fresh items q d = (let p = patch q; why = reason (request_context q);
       who = actor_to_item_actor (actor q); primary = hd items in
     bindR (require_target_class q (Some primary)) (\<lambda>c.
     bindR (first_class_policy ps c) (\<lambda>cp.
     bindR (build_source now q) (\<lambda>src.
     bindR (first_revision why) (\<lambda>rev.
     make_item \<lparr>memory_id = ''mem_'' @ fresh, memory_class = c,
       title = text_or (patch_title p) ''Merged memory'',
       body = text_or (patch_body p)
         (join (newline @ newline) (map (\<lambda>m. ''['' @ title m @ '']'' @ newline @ body m) items)),
       source = src, context_links = build_context_links q (Some primary),
       why_stored = text_or (patch_why_stored p) why,
       sensitivity = or_else (patch_sensitivity p) (default_sensitivity cp),
       mutability = or_else (patch_mutability p) (default_mutability cp),
       status = (if provisional_only d then Provisional else or_else (patch_status p) (default_status cp)),
       created_at_utc = now, updated_at_utc = now, created_by = who, updated_by = who,
       importance = or_else (patch_importance p) (foldr (\<lambda>m x. max (importance m) x) (tl items) (importance primary)),
       confidence = patch_confidence p, revision_info = rev,
       flags = build_flags_from_patch (patch_flags p) no_flags\<rparr>)))))"

section \<open>Handlers\<close>

definition need :: "string \<Rightarrow> memory_item option \<Rightarrow> (memory_item \<Rightarrow> record_action) \<Rightarrow> record_action" where
  \<comment> \<open>the guard against a missing target\<close>
  "need what e f = (case e of None \<Rightarrow> liftA (Inl (ItemNotFound what)) | Some m \<Rightarrow> f m)"

definition replace_and_record ::
  "time \<Rightarrow> mutation_request \<Rightarrow> boundary_decision \<Rightarrow> memory_item \<Rightarrow> record_action" where
  \<comment> \<open>the end of most handlers: replace at the expected revision, then record\<close>
  "replace_and_record now q d m =
     bindA (replace_item now m (expected_revision (target q))) (\<lambda>_.
     liftA (record_applied now q (bd_reason d) (memory_id m) None))"

definition stamp :: "time \<Rightarrow> mutation_request \<Rightarrow> memory_item \<Rightarrow> memory_error + memory_item" where
  \<comment> \<open>\<open>updated_by\<close>, \<open>updated_at_utc\<close> and the reason, as the flag and status handlers assign them\<close>
  "stamp now q m =
     bindR (set_updated_by (actor_to_item_actor (actor q)) m) (\<lambda>m.
     bindR (set_updated_at now m) (\<lambda>m.
     Inr (put_reason (reason (request_context q)) m)))"

definition handle_create :: "mutation_env \<Rightarrow> time \<Rightarrow> string \<Rightarrow> mutation_request \<Rightarrow> boundary_decision \<Rightarrow> record_action" where
  "handle_create env now fresh q d =
     bindA (liftA (build_created_item (env_policies env) now fresh q d)) (\<lambda>m.
     bindA (create_item m) (\<lambda>_.
     bindA (get_item (memory_id m)) (\<lambda>stored_item.
     liftA (record_applied now q (bd_reason d) (memory_id stored_item) None))))"

definition handle_revise :: "time \<Rightarrow> mutation_request \<Rightarrow> boundary_decision \<Rightarrow> memory_item option \<Rightarrow> record_action" where
  "handle_revise now q d e = need ''revise requires an existing target item.'' e (\<lambda>m.
     bindA (liftA (apply_patch_to_item now q d (patch q) True m)) (\<lambda>revised.
     if items_equivalent m revised
     then liftA (record_no_op now q ''Revision produced no effective change.'')
     else bindA (replace_item now revised (expected_revision (target q))) (\<lambda>_.
       bindA (get_item (memory_id revised)) (\<lambda>stored_item.
       liftA (record_applied now q (bd_reason d) (memory_id stored_item) None)))))"

definition appended_body :: "string \<Rightarrow> string option \<Rightarrow> string" where
  "appended_body old note = (let n = (case note of None \<Rightarrow> [] | Some x \<Rightarrow> x) in
     if old = [] then ''[Appended note]'' @ newline @ n
     else old @ newline @ newline @ ''[Appended note]'' @ newline @ n)"

definition handle_append_note :: "time \<Rightarrow> mutation_request \<Rightarrow> boundary_decision \<Rightarrow> memory_item option \<Rightarrow> record_action" where
  "handle_append_note now q d e = need ''append_note requires an existing target item.'' e (\<lambda>m.
     bindA (liftA (apply_patch_to_item now q d
       ((patch q)\<lparr>patch_body := Some (appended_body (body m) (note_body (patch q)))\<rparr>) True m)) (\<lambda>updated.
     replace_and_record now q d updated))"

definition handle_supersede :: "time \<Rightarrow> mutation_request \<Rightarrow> boundary_decision \<Rightarrow> memory_item option \<Rightarrow> record_action" where
  "handle_supersede now q d e = need ''supersede requires an existing target item.'' e (\<lambda>m.
     let who = actor_to_item_actor (actor q); why = reason (request_context q);
         expected = expected_revision (target q) in
     if truthy (successor_memory_id (patch q)) then
       (let successor = the (successor_memory_id (patch q)) in
        bindA (supersede_item now (memory_id m) successor why who expected) (\<lambda>_.
        liftA (record_applied now q (bd_reason d) successor (Some (memory_id m)))))
     else
       bindA (liftA (build_successor_from_existing now m q d)) (\<lambda>s.
       bindA (create_item s) (\<lambda>_.
       bindA (supersede_item now (memory_id m) (memory_id s) why who expected) (\<lambda>_.
       liftA (record_applied now q (bd_reason d) (memory_id s) (Some (memory_id m)))))))"

definition handle_archive :: "time \<Rightarrow> mutation_request \<Rightarrow> boundary_decision \<Rightarrow> memory_item option \<Rightarrow> record_action" where
  "handle_archive now q d e = need ''archive requires an existing target item.'' e (\<lambda>m.
     if status m = Archived then liftA (record_no_op now q ''Target item is already archived.'')
     else bindA (archive_item now (memory_id m) (Some (reason (request_context q)))
            (actor_to_item_actor (actor q)) (expected_revision (target q))) (\<lambda>a.
       liftA (record_applied now q (bd_reason d) (memory_id a) None)))"

definition handle_restore :: "time \<Rightarrow> mutation_request \<Rightarrow> boundary_decision \<Rightarrow> memory_item option \<Rightarrow> record_action" where
  "handle_restore now q d e = need ''restore requires an existing target item.'' e (\<lambda>m.
     if status m \<noteq> Archived then liftA (record_no_op now q ''Target item is not archived.'')
     else bindA (liftA (bindR (set_status Active m) (stamp now q))) (replace_and_record now q d))"

definition handle_pin :: "time \<Rightarrow> mutation_request \<Rightarrow> boundary_decision \<Rightarrow> memory_item option \<Rightarrow> record_action" where
  "handle_pin now q d e = need ''pin requires an existing target item.'' e (\<lambda>m.
     if pinned (flags m) then liftA (record_no_op now q ''Target item is already pinned.'')
     else bindA (liftA (stamp now q (put_pinned True m))) (replace_and_record now q d))"

definition handle_unpin :: "time \<Rightarrow> mutation_request \<Rightarrow> boundary_decision \<Rightarrow> memory_item option \<Rightarrow> record_action" where
  "handle_unpin now q d e = need ''unpin requires an existing target item.'' e (\<lambda>m.
     if \<not> pinned (flags m) then liftA (record_no_op now q ''Target item is already unpinned.'')
     else bindA (liftA (stamp now q (put_pinned False m))) (replace_and_record now q d))"

definition handle_patch ::
  "(memory_item \<Rightarrow> memory_item \<Rightarrow> bool) \<Rightarrow> string \<Rightarrow> string \<Rightarrow> time \<Rightarrow> mutation_request \<Rightarrow> boundary_decision \<Rightarrow>
   memory_item option \<Rightarrow> record_action" where
  \<comment> \<open>the shape of the three handlers that patch one attribute\<close>
  "handle_patch unchanged missing nothing now q d e = need missing e (\<lambda>m.
     bindA (liftA (apply_patch_to_item now q d (patch q) True m)) (\<lambda>updated.
     if unchanged updated m then liftA (record_no_op now q nothing)
     else replace_and_record now q d updated))"

definition handle_reclassify :: "time \<Rightarrow> mutation_request \<Rightarrow> boundary_decision \<Rightarrow> memory_item option \<Rightarrow> record_action" where
  "handle_reclassify = handle_patch (\<lambda>u m. memory_class u = memory_class m)
     ''reclassify requires an existing target item.'' ''Reclassification produced no class change.''"

definition handle_change_sensitivity :: "time \<Rightarrow> mutation_request \<Rightarrow> boundary_decision \<Rightarrow> memory_item option \<Rightarrow> record_action" where
  "handle_change_sensitivity = handle_patch (\<lambda>u m. sensitivity u = sensitivity m)
     ''change_sensitivity requires an existing target item.'' ''Sensitivity change produced no effective change.''"

definition handle_change_mutability :: "time \<Rightarrow> mutation_request \<Rightarrow> boundary_decision \<Rightarrow> memory_item option \<Rightarrow> record_action" where
  "handle_change_mutability = handle_patch (\<lambda>u m. mutability u = mutability m)
     ''change_mutability requires an existing target item.'' ''Mutability change produced no effective change.''"

definition handle_promote :: "time \<Rightarrow> mutation_request \<Rightarrow> boundary_decision \<Rightarrow> memory_item option \<Rightarrow> record_action" where
  "handle_promote now q d e = need ''promote requires an existing target item.'' e (\<lambda>m.
     handle_reclassify now q d (Some m))"

definition handle_demote :: "time \<Rightarrow> mutation_request \<Rightarrow> boundary_decision \<Rightarrow> memory_item option \<Rightarrow> record_action" where
  "handle_demote now q d e = need ''demote requires an existing target item.'' e (\<lambda>m.
     handle_reclassify now q d (Some m))"

definition handle_merge ::
  "mutation_env \<Rightarrow> time \<Rightarrow> string \<Rightarrow> mutation_request \<Rightarrow> boundary_decision \<Rightarrow> memory_item list \<Rightarrow> record_action" where
  "handle_merge env now fresh q d es =
     bindA (liftA (raise_if (length es < 2) (ValueError ''merge requires multiple existing target items.''))) (\<lambda>_.
     bindA (liftA (merge_items_into_successor (env_policies env) now fresh es q d)) (\<lambda>merged.
     bindA (create_item merged) (\<lambda>_.
     bindA (each (\<lambda>m. supersede_item now (memory_id m) (memory_id merged) (reason (request_context q))
       (actor_to_item_actor (actor q)) None) es) (\<lambda>_.
     liftA (record_applied now q (bd_reason d) (memory_id merged) (Some (join '','' (map memory_id es))))))))"

definition handle_forget_request :: "time \<Rightarrow> mutation_request \<Rightarrow> boundary_decision \<Rightarrow> memory_item option \<Rightarrow> record_action" where
  "handle_forget_request now q d e = need ''forget_request requires an existing target item.'' e (\<lambda>m.
     if status m = Archived then liftA (record_no_op now q ''Forget request target is already archived.'')
     else bindA (archive_item now (memory_id m) (Some (''Forget requested: '' @ reason (request_context q)))
            (actor_to_item_actor (actor q)) (expected_revision (target q))) (\<lambda>a.
       liftA (record_applied now q ''Forget request recorded as governed archive, not hard deletion.''
         (memory_id a) None)))"

definition handle_block :: "time \<Rightarrow> mutation_request \<Rightarrow> boundary_decision \<Rightarrow> memory_item option \<Rightarrow> record_action" where
  "handle_block now q d e = need ''block requires an existing target item.'' e (\<lambda>m.
     bindA (liftA (bindR (set_status Blocked m) (stamp now q))) (replace_and_record now q d))"

definition handle_unblock :: "time \<Rightarrow> mutation_request \<Rightarrow> boundary_decision \<Rightarrow> memory_item option \<Rightarrow> record_action" where
  "handle_unblock now q d e = need ''unblock requires an existing target item.'' e (\<lambda>m.
     if status m \<noteq> Blocked then liftA (record_no_op now q ''Target item is not blocked.'')
     else bindA (liftA (bindR (set_status Active m) (\<lambda>m1.
       bindR (if provisional_only d then set_status Provisional m1 else Inr m1) (stamp now q))))
       (replace_and_record now q d))"

section \<open>Applying a request\<close>

primrec handler ::
  "mutation_type \<Rightarrow> mutation_env \<Rightarrow> time \<Rightarrow> string \<Rightarrow> mutation_request \<Rightarrow> boundary_decision \<Rightarrow>
   memory_item option \<Rightarrow> memory_item list \<Rightarrow> record_action" where
  \<comment> \<open>the dispatch table of \<open>_get_handler\<close>\<close>
  "handler Create env now fresh q d e es = handle_create env now fresh q d"
| "handler Revise env now fresh q d e es = handle_revise now q d e"
| "handler Append_note env now fresh q d e es = handle_append_note now q d e"
| "handler Supersede env now fresh q d e es = handle_supersede now q d e"
| "handler Archive env now fresh q d e es = handle_archive now q d e"
| "handler Restore env now fresh q d e es = handle_restore now q d e"
| "handler Pin env now fresh q d e es = handle_pin now q d e"
| "handler Unpin env now fresh q d e es = handle_unpin now q d e"
| "handler Reclassify env now fresh q d e es = handle_reclassify now q d e"
| "handler Change_sensitivity env now fresh q d e es = handle_change_sensitivity now q d e"
| "handler Change_mutability env now fresh q d e es = handle_change_mutability now q d e"
| "handler Promote env now fresh q d e es = handle_promote now q d e"
| "handler Demote env now fresh q d e es = handle_demote now q d e"
| "handler Merge env now fresh q d e es = handle_merge env now fresh q d es"
| "handler Forget_request env now fresh q d e es = handle_forget_request now q d e"
| "handler Block env now fresh q d e es = handle_block now q d e"
| "handler Unblock env now fresh q d e es = handle_unblock now q d e"

definition load_single_target :: "mutation_request \<Rightarrow> memory_item option store_action" where
  "load_single_target q =
     (if truthy (target_memory_id (target q))
      then bindA (get_item (the (target_memory_id (target q)))) (\<lambda>m. returnA (Some m)) else returnA None)"

definition load_multi_target :: "mutation_request \<Rightarrow> memory_item list store_action" where
  "load_multi_target q = each get_item (target_memory_ids (target q))"

definition evaluate_boundary ::
  "policy_set \<Rightarrow> mutation_request \<Rightarrow> memory_item option \<Rightarrow> memory_error + boundary_decision" where
  "evaluate_boundary ps q e =
     (if mutation_type q \<in> {Promote, Demote} then
        (case (case e of Some m \<Rightarrow> Some (memory_class m) | None \<Rightarrow> target_class (target q), patch_class (patch q)) of
           (Some f, Some t) \<Rightarrow>
             evaluate_promotion ps f t (actor q) (context_source_kind (request_context q))
               (patch_confidence (patch q)) 1 (mode q)
         | _ \<Rightarrow> Inr (blocked_decision False ''Promotion/demotion requires both from_class and to_class.''))
      else evaluate_mutation ps q e)"

definition perform_mutation :: "mutation_env \<Rightarrow> time \<Rightarrow> string \<Rightarrow> mutation_request \<Rightarrow> record_action" where
  \<comment> \<open>the body of the \<open>try\<close> of \<open>apply_mutation\<close>\<close>
  "perform_mutation env now fresh q =
     bindA (load_single_target q) (\<lambda>e.
     bindA (load_multi_target q) (\<lambda>es.
     bindA (liftA (evaluate_boundary (env_policies env) q e)) (\<lambda>d.
     if bd_blocked d then liftA (record_blocked now q d)
     else if bd_review_required d then liftA (record_review_required now q d)
     else if dry_run q then liftA (record_allowed_preview now q d)
     else handler (mutation_type q) env now fresh q d e es)))"

definition apply_mutation :: "mutation_env \<Rightarrow> time \<Rightarrow> string \<Rightarrow> mutation_request \<Rightarrow> record_action" where
  "apply_mutation env now fresh q s =
     (case perform_mutation env now fresh q s of
        (Inr r, t) \<Rightarrow> (Inr r, t)
      | (Inl e, t) \<Rightarrow> (record_failed now q ''Memory mutation failed during execution.'' (err_text env e), t))"

definition preview_mutation :: "mutation_env \<Rightarrow> time \<Rightarrow> string \<Rightarrow> mutation_request \<Rightarrow> record_action" where
  "preview_mutation env now fresh q =
     bindA (liftA (validate_request (q\<lparr>dry_run := True\<rparr>))) (apply_mutation env now fresh)"

section \<open>What a patch leaves alone\<close>

definition keeps :: "(memory_item \<Rightarrow> 'a) \<Rightarrow> (memory_item \<Rightarrow> memory_error + memory_item) \<Rightarrow> bool" where
  "keeps a f \<longleftrightarrow> (\<forall>m m'. f m = Inr m' \<longrightarrow> a m' = a m)"

lemma keepsD: "keeps a f \<Longrightarrow> f m = Inr m' \<Longrightarrow> a m' = a m"
  by (simp add: keeps_def)

named_theorems keeps_intros \<open>steps that keep an attribute of the item\<close>

lemma keeps_bind [keeps_intros]: "keeps a f \<Longrightarrow> keeps a g \<Longrightarrow> keeps a (\<lambda>m. bindR (f m) g)"
  by (auto simp: keeps_def bindR_eq_Inr_iff)

lemma keeps_return [keeps_intros]: "keeps a Inr"
  by (simp add: keeps_def)

lemma keeps_pure: "(\<And>m. a (f m) = a m) \<Longrightarrow> keeps a (\<lambda>m. Inr (f m))"
  by (simp add: keeps_def)

lemma keeps_if [keeps_intros]: "keeps a f \<Longrightarrow> keeps a g \<Longrightarrow> keeps a (\<lambda>m. if c then f m else g m)"
  by (simp add: keeps_def)

lemma keeps_opt [keeps_intros]: "(\<And>x. keeps a (f x)) \<Longrightarrow> keeps a (opt_set f v)"
  by (cases v) (auto simp: keeps_def opt_set_def)

lemma keeps_validated: "(\<And>m. a (f m) = a m) \<Longrightarrow> keeps a (\<lambda>m. validate_memory_item (f m))"
  by (simp add: keeps_def validate_memory_item_iff)

lemmas setter_defs = set_title_def set_body_def set_why_stored_def set_class_def set_sensitivity_def
  set_mutability_def set_status_def set_importance_def set_confidence_def set_flags_def
  set_updated_at_def set_updated_by_def

definition identity :: "memory_item \<Rightarrow>
    string \<times> memory_source \<times> memory_context_links \<times> time \<times> actor_kind \<times> string option" where
  \<comment> \<open>who an item is and where it comes from\<close>
  "identity m = (memory_id m, source m, context_links m, created_at_utc m, created_by m,
     supersedes_memory_id (revision_info m))"

lemma setters_keep_identity [keeps_intros]:
  "keeps identity (set_title t)" "keeps identity (set_body t)" "keeps identity (set_why_stored t)"
  "keeps identity (set_class c)" "keeps identity (set_sensitivity s)" "keeps identity (set_mutability u)"
  "keeps identity (set_status v)" "keeps identity (set_importance r)" "keeps identity (set_confidence r)"
  "keeps identity (set_flags f)" "keeps identity (set_updated_at now)" "keeps identity (set_updated_by k)"
  by (simp_all add: setter_defs keeps_def validate_memory_item_iff bindR_eq_Inr_iff identity_def) auto

lemma puts_keep_identity [simp]:
  "identity (put_revision v m) = identity m" "identity (put_reason r m) = identity m"
  "identity (put_successor s m) = identity m" "identity (put_pinned b m) = identity m"
  by (simp_all add: identity_def put_revision_def put_reason_def put_successor_def put_pinned_def)

lemma put_trail_identity [simp]: "identity (put_trail p why b m) = identity m"
  by (simp add: put_trail_def Let_def split: option.split)

lemma set_patched_flags_identity [keeps_intros]:
  "keeps identity (\<lambda>m. set_flags (build_flags_from_patch (Some x) (flags m)) m)"
  by (simp add: keeps_def set_flags_def validate_memory_item_iff identity_def)

lemma apply_patch_keeps_identity: "keeps identity (apply_patch_to_item now q d p b)"
  unfolding apply_patch_to_item_def patch_fields_def
  by (intro keeps_intros keeps_pure put_trail_identity)

lemma stamp_keeps_identity: "keeps identity (stamp now q)"
  unfolding stamp_def by (intro keeps_intros keeps_pure puts_keep_identity)

lemma identity_id: "identity m' = identity m \<Longrightarrow> memory_id m' = memory_id m"
  by (simp add: identity_def)

lemma setters_keep_revision:
  "keeps item_revision (set_title t)" "keeps item_revision (set_body t)" "keeps item_revision (set_why_stored t)"
  "keeps item_revision (set_class c)" "keeps item_revision (set_sensitivity s)" "keeps item_revision (set_mutability u)"
  "keeps item_revision (set_status v)" "keeps item_revision (set_importance r)" "keeps item_revision (set_confidence r)"
  "keeps item_revision (set_flags f)" "keeps item_revision (set_updated_at now)" "keeps item_revision (set_updated_by k)"
  "keeps item_revision (\<lambda>m. set_flags (build_flags_from_patch (Some x) (flags m)) m)"
  by (simp_all add: setter_defs keeps_def validate_memory_item_iff bindR_eq_Inr_iff item_revision_def) auto

lemma patch_fields_keeps_revision: "keeps item_revision (patch_fields d p)"
  unfolding patch_fields_def
  by (intro keeps_intros setters_keep_revision)

lemma put_trail_fields:
  "item_revision (put_trail p why b m) = (if b then item_revision m + 1 else item_revision m)"
  "updated_at_utc (put_trail p why b m) = updated_at_utc m" "updated_by (put_trail p why b m) = updated_by m"
  "created_at_utc (put_trail p why b m) = created_at_utc m"
  by (simp_all add: put_trail_def Let_def item_revision_def put_revision_def put_reason_def put_successor_def
      split: option.split)

text \<open>
  A patch never rewrites history: whatever a request's patch contains, the patched item
  keeps its identifier, source, context links, creation time, creator and the item it supersedes;
  its revision is the next one and it carries the actor and the time of the change, which is not
  before its creation.
\<close>

theorem patch_preserves_identity:
  assumes "apply_patch_to_item now q d p True m = Inr m'"
  shows "identity m' = identity m \<and> item_revision m' = item_revision m + 1 \<and>
    updated_at_utc m' = now \<and> updated_by m' = actor_to_item_actor (actor q) \<and> created_at_utc m \<le> now"
proof -
  from assms obtain m1 m2 m3 where s: "patch_fields d p m = Inr m1" "set_updated_at now m1 = Inr m2"
    "set_updated_by (actor_to_item_actor (actor q)) m2 = Inr m3"
    "m' = put_trail p (reason (request_context q)) True m3"
    by (auto simp: apply_patch_to_item_def bindR_eq_Inr_iff)
  have id: "identity m' = identity m" using assms by (rule keepsD [OF apply_patch_keeps_identity])
  from s have "item_revision m3 = item_revision m"
    using keepsD [OF patch_fields_keeps_revision s(1)] keepsD [OF setters_keep_revision(11) s(2)]
      keepsD [OF setters_keep_revision(12) s(3)] by simp
  moreover have "updated_at_utc m3 = now" "updated_by m3 = actor_to_item_actor (actor q)"
      "created_at_utc m3 \<le> updated_at_utc m3"
    using s(2,3) by (auto simp: set_updated_at_def set_updated_by_def validate_memory_item_iff item_consistent_def)
  moreover have "created_at_utc m3 = created_at_utc m" using id s(4) by (simp add: identity_def put_trail_fields)
  ultimately show ?thesis using id by (simp add: s(4) put_trail_fields)
qed

section \<open>Handlers keep the store and lose nothing\<close>

definition clean_id :: "memory_item \<Rightarrow> bool" where
  "clean_id m \<longleftrightarrow> strip (memory_id m) = memory_id m"

abbreviation safe :: "'a store_action \<Rightarrow> ('a \<Rightarrow> bool) \<Rightarrow> bool" where
  "safe \<equiv> moves store_ok store_grows"

named_theorems safe_intros \<open>actions that keep the store well-formed and lose nothing\<close>

lemma safe_lift_any [safe_intros]: "safe (liftA r) (\<lambda>_. True)"
  by (rule moves_lift) simp

lemma safe_bind_any [safe_intros]: "safe m (\<lambda>_. True) \<Longrightarrow> (\<And>a. safe (f a) (\<lambda>_. True)) \<Longrightarrow> safe (bindA m f) (\<lambda>_. True)"
  by (rule store.moves_bind) simp_all

lemma safe_any: "safe m post \<Longrightarrow> safe m (\<lambda>_. True)"
  by (rule store.moves_weaken) simp_all

lemmas safe_calls [safe_intros] = safe_any [OF archive_item_moves] safe_any [OF supersede_item_moves]
  safe_any [OF get_item_moves]

lemma safe_need [safe_intros]:
  "(\<And>m. e = Some m \<Longrightarrow> safe (f m) (\<lambda>_. True)) \<Longrightarrow> safe (need w e f) (\<lambda>_. True)"
  by (cases e) (simp_all add: need_def safe_lift_any)

lemma safe_if [safe_intros]: "safe a P \<Longrightarrow> safe b P \<Longrightarrow> safe (if c then a else b) P"
  by simp

lemma safe_keeping:
  assumes "keeps identity f" "clean_id m" "\<And>m'. clean_id m' \<Longrightarrow> safe (g m') (\<lambda>_. True)"
  shows "safe (bindA (liftA (f m)) g) (\<lambda>_. True)"
proof (rule store.moves_bind [where mid = clean_id])
  show "safe (liftA (f m)) clean_id"
  proof (rule moves_lift)
    fix m' assume "f m = Inr m'"
    then have "memory_id m' = memory_id m" by (rule identity_id [OF keepsD [OF assms(1)]])
    with assms(2) show "clean_id m'" by (simp add: clean_id_def)
  qed
qed (rule assms(3))

lemma safe_replace: "clean_id m \<Longrightarrow> safe (replace_item now m r) (\<lambda>_. True)"
  unfolding clean_id_def by (rule replace_item_moves)

lemma safe_replace_and_record: "clean_id m \<Longrightarrow> safe (replace_and_record now q d m) (\<lambda>_. True)"
  unfolding replace_and_record_def by (intro safe_intros safe_replace)

lemma safe_make:
  assumes "\<And>m. r = Inr m \<Longrightarrow> clean_id m" "\<And>m'. clean_id m' \<Longrightarrow> safe (g m') (\<lambda>_. True)"
  shows "safe (bindA (liftA r) g) (\<lambda>_. True)"
  by (rule store.moves_bind [where mid = clean_id], rule moves_lift) (use assms in auto)

lemma safe_create: "clean_id m \<Longrightarrow> safe (create_item m) (\<lambda>_. True)"
  unfolding clean_id_def by (rule create_item_moves)

lemma make_item_clean: "make_item m = Inr x \<Longrightarrow> clean_id x"
  by (simp add: clean_id_def make_item_facts(2))

lemma created_clean: "build_created_item ps now fresh q d = Inr m \<Longrightarrow> clean_id m"
  unfolding build_created_item_def Let_def bindR_eq_Inr_iff by (auto dest: make_item_clean)

lemma merged_clean: "merge_items_into_successor ps now fresh es q d = Inr m \<Longrightarrow> clean_id m"
  unfolding merge_items_into_successor_def Let_def bindR_eq_Inr_iff by (auto dest: make_item_clean)

lemma no_successor: "build_successor_from_existing now e q d = Inl (ValidationError ''5 validation errors for MemoryItem'')"
  by (simp add: build_successor_from_existing_def bare_item_def)

lemma bindA_lift_Inl: "bindA (liftA (Inl x)) f = liftA (Inl x)"
  by (rule ext) (simp add: bindA_def)

lemma safe_each: "(\<And>x. safe (f x) (\<lambda>_. True)) \<Longrightarrow> safe (each f xs) (\<lambda>_. True)"
  by (rule store.moves_each)

lemma keeps_status_stamp: "keeps identity (\<lambda>m. bindR (set_status v m) (stamp now q))"
  by (intro keeps_intros stamp_keeps_identity)

lemma keeps_unblock: "keeps identity (\<lambda>m. bindR (set_status Active m) (\<lambda>m1.
    bindR (if c then set_status Provisional m1 else Inr m1) (stamp now q)))"
  by (intro keeps_intros stamp_keeps_identity)

lemma clean_pinned: "clean_id m \<Longrightarrow> clean_id (put_pinned b m)"
  by (simp add: clean_id_def put_pinned_def)

lemma handle_patch_safe:
  "(\<And>m. e = Some m \<Longrightarrow> clean_id m) \<Longrightarrow> safe (handle_patch u w v now q d e) (\<lambda>_. True)"
  unfolding handle_patch_def
  by (intro safe_need safe_keeping [OF apply_patch_keeps_identity] safe_if safe_lift_any safe_replace_and_record)

lemma handler_safe:
  assumes "\<And>m. e = Some m \<Longrightarrow> clean_id m"
  shows "safe (handler k env now fresh q d e es) (\<lambda>_. True)"
proof (cases k)
  case Create
  show ?thesis unfolding Create handler.simps handle_create_def
    by (intro safe_make [OF created_clean] safe_bind_any safe_create safe_intros)
next
  case Revise
  show ?thesis unfolding Revise handler.simps handle_revise_def
    by (rule safe_need, rule safe_keeping [OF apply_patch_keeps_identity], rule assms, assumption,
        intro safe_if safe_bind_any safe_replace safe_intros)
next
  case Append_note
  show ?thesis unfolding Append_note handler.simps handle_append_note_def
    by (rule safe_need, rule safe_keeping [OF apply_patch_keeps_identity], rule assms, assumption,
        erule safe_replace_and_record)
next
  case Supersede
  show ?thesis unfolding Supersede handler.simps handle_supersede_def Let_def no_successor
    unfolding bindA_lift_Inl by (intro safe_intros)
next
  case Archive
  show ?thesis unfolding Archive handler.simps handle_archive_def by (intro safe_intros)
next
  case Restore
  show ?thesis unfolding Restore handler.simps handle_restore_def
    by (rule safe_need, rule safe_if, rule safe_lift_any, rule safe_keeping [OF keeps_status_stamp], rule assms,
        assumption, erule safe_replace_and_record)
next
  case Pin
  show ?thesis unfolding Pin handler.simps handle_pin_def
    by (rule safe_need, rule safe_if, rule safe_lift_any, rule safe_keeping [OF stamp_keeps_identity],
        rule clean_pinned, rule assms, assumption, erule safe_replace_and_record)
next
  case Unpin
  show ?thesis unfolding Unpin handler.simps handle_unpin_def
    by (rule safe_need, rule safe_if, rule safe_lift_any, rule safe_keeping [OF stamp_keeps_identity],
        rule clean_pinned, rule assms, assumption, erule safe_replace_and_record)
next
  case Promote
  show ?thesis unfolding Promote handler.simps handle_promote_def handle_reclassify_def
    by (intro safe_need handle_patch_safe) (use assms in simp)
next
  case Demote
  show ?thesis unfolding Demote handler.simps handle_demote_def handle_reclassify_def
    by (intro safe_need handle_patch_safe) (use assms in simp)
next
  case Merge
  show ?thesis unfolding Merge handler.simps handle_merge_def
    by (intro safe_bind_any [OF safe_lift_any] safe_make [OF merged_clean] safe_bind_any safe_create
        safe_each safe_intros)
next
  case Forget_request
  show ?thesis unfolding Forget_request handler.simps handle_forget_request_def by (intro safe_intros)
next
  case Block
  show ?thesis unfolding Block handler.simps handle_block_def
    by (rule safe_need, rule safe_keeping [OF keeps_status_stamp], rule assms, assumption,
        erule safe_replace_and_record)
next
  case Unblock
  show ?thesis unfolding Unblock handler.simps handle_unblock_def
    by (rule safe_need, rule safe_if, rule safe_lift_any, rule safe_keeping [OF keeps_unblock], rule assms,
        assumption, erule safe_replace_and_record)
qed (simp_all add: handle_reclassify_def handle_change_sensitivity_def handle_change_mutability_def
      handle_patch_safe assms)

lemma load_single_safe: "safe (load_single_target q) (\<lambda>e. \<forall>m. e = Some m \<longrightarrow> clean_id m)"
  unfolding load_single_target_def
proof (rule safe_if)
  show "safe (bindA (get_item (the (target_memory_id (target q)))) (\<lambda>m. returnA (Some m)))
      (\<lambda>e. \<forall>m. e = Some m \<longrightarrow> clean_id m)"
    by (rule store.moves_bind [OF get_item_moves], rule store.moves_return)
       (simp add: sound_item_def clean_id_def)
  show "safe (returnA None) (\<lambda>e. \<forall>m. e = Some m \<longrightarrow> clean_id m)"
    by (rule store.moves_return) simp
qed

lemma perform_safe: "safe (perform_mutation env now fresh q) (\<lambda>_. True)"
  unfolding perform_mutation_def
  by (rule store.moves_bind [OF load_single_safe], rule safe_bind_any)
     (simp add: load_multi_target_def safe_each safe_any [OF get_item_moves],
      intro safe_bind_any safe_lift_any safe_if handler_safe, simp)

lemma apply_mutation_safe: "safe (apply_mutation env now fresh q) (\<lambda>_. True)"
proof (rule movesI)
  fix s assume s: "store_ok s"
  have "snd (apply_mutation env now fresh q s) = snd (perform_mutation env now fresh q s)"
    by (cases "perform_mutation env now fresh q s"; cases "fst (perform_mutation env now fresh q s)")
       (simp_all add: apply_mutation_def)
  with movesD [OF perform_safe s, of env now fresh q]
  show "store_ok (snd (apply_mutation env now fresh q s)) \<and> store_grows s (snd (apply_mutation env now fresh q s)) \<and>
      (\<forall>a. fst (apply_mutation env now fresh q s) = Inr a \<longrightarrow> True)" by simp
qed

section \<open>The governed store as a machine\<close>

type_synonym mutation_op = "time \<times> string \<times> mutation_request"

definition mutation_step :: "mutation_env \<Rightarrow> mutation_op \<Rightarrow> mem_store \<Rightarrow> mem_store" where
  "mutation_step env op s = (case op of (now, fresh, q) \<Rightarrow> snd (apply_mutation env now fresh q s))"

definition mutation_retires :: "mutation_op \<Rightarrow> string \<Rightarrow> mem_store \<Rightarrow> bool" where
  \<comment> \<open>no mutation removes an item, a forget request included\<close>
  "mutation_retires op i s \<longleftrightarrow> False"

lemma mutation_step_moves:
  "store_ok s \<Longrightarrow> store_ok (mutation_step env op s) \<and> store_grows s (mutation_step env op s)"
  using movesD(1,2) [OF apply_mutation_safe] by (cases op) (simp add: mutation_step_def)

interpretation governed: versioned_ledger "mutation_step env" store_ok store_version mutation_retires for env
proof
  show "store_ok s \<Longrightarrow> store_ok (mutation_step env op s)" for s op by (simp add: mutation_step_moves)
next
  fix s k v op assume s: "store_ok s" and v: "store_version s k = Some v"
  then obtain m where m: "stored s k = Some m" "v = item_revision m" by (auto simp: store_version_def)
  from mutation_step_moves [OF s, of env op] have "store_grows s (mutation_step env op s)" by blast
  with m(1) obtain m' where "stored (mutation_step env op s) k = Some m'" "item_revision m \<le> item_revision m'"
    unfolding store_grows_def by blast
  with m(2) show "\<exists>v' \<ge> v. store_version (mutation_step env op s) k = Some v'"
    by (auto simp: store_version_def)
qed

lemma no_mutation_retires: "\<not> retired_in (mutation_step env) mutation_retires ops i s"
  by (induction ops arbitrary: s) (simp_all add: mutation_retires_def)

section \<open>Only an applied or failed mutation can change a file\<close>

definition quiet :: "record_action \<Rightarrow> bool" where
  \<comment> \<open>a result other than applied means that no file changed\<close>
  "quiet a \<longleftrightarrow> (\<forall>s r t. store_ok s \<longrightarrow> a s = (Inr r, t) \<longrightarrow> decision r \<noteq> Applied \<longrightarrow> same_files s t)"

definition applies :: "record_action \<Rightarrow> bool" where
  \<comment> \<open>the only result is an applied record\<close>
  "applies a \<longleftrightarrow> (\<forall>s r t. a s = (Inr r, t) \<longrightarrow> decision r = Applied)"

named_theorems quiet_intros \<open>actions whose unapplied results leave the files alone\<close>

lemma applies_bind: "(\<And>x. applies (f x)) \<Longrightarrow> applies (bindA m f)"
  by (auto simp: applies_def bindA_eq_Inr)

lemma applies_record: "applies (liftA (record_applied now q why i x))"
  by (auto simp: applies_def record_applied_def record_for_def dest: make_record_facts(1))

lemma applies_quiet [quiet_intros]: "applies a \<Longrightarrow> quiet a"
  unfolding applies_def quiet_def by blast

lemma quiet_lift [quiet_intros]: "quiet (liftA r)"
  by (auto simp: quiet_def)

lemma quiet_lift_bind [quiet_intros]: "(\<And>x. quiet (f x)) \<Longrightarrow> quiet (bindA (liftA r) f)"
  by (auto simp: quiet_def bindA_eq_Inr)

lemma quiet_need [quiet_intros]: "(\<And>m. quiet (f m)) \<Longrightarrow> quiet (need w e f)"
  by (cases e) (simp_all add: need_def quiet_lift)

lemma quiet_if [quiet_intros]: "quiet a \<Longrightarrow> quiet b \<Longrightarrow> quiet (if c then a else b)"
  by simp

lemma applies_replace_and_record: "applies (replace_and_record now q d m)"
  unfolding replace_and_record_def by (intro applies_bind applies_record)

lemma handler_quiet: "quiet (handler k env now fresh q d e es)"
  by (cases k)
     (simp_all add: handle_create_def handle_revise_def handle_append_note_def handle_supersede_def
        handle_archive_def handle_restore_def handle_pin_def handle_unpin_def handle_reclassify_def
        handle_change_sensitivity_def handle_change_mutability_def handle_patch_def handle_promote_def
        handle_demote_def handle_merge_def handle_forget_request_def handle_block_def handle_unblock_def
        Let_def applies_bind applies_record applies_replace_and_record quiet_intros)

definition still :: "'a store_action \<Rightarrow> bool" where
  "still a \<longleftrightarrow> (\<forall>s. store_ok s \<longrightarrow> store_ok (snd (a s)) \<and> same_files s (snd (a s)))"

lemma stillD: "still a \<Longrightarrow> store_ok s \<Longrightarrow> store_ok (snd (a s))"
    "still a \<Longrightarrow> store_ok s \<Longrightarrow> same_files s (snd (a s))"
  by (simp_all add: still_def)

lemma still_get: "still (get_item v)"
proof -
  have "store_ok (snd (get_item v s)) \<and> same_files s (snd (get_item v s))" if "store_ok s" for s
    using get_item_spec [OF that, of v] by auto
  then show ?thesis by (simp add: still_def)
qed

lemma still_return: "still (returnA x)"
  by (simp add: still_def)

lemma still_bind:
  assumes "still a" "\<And>x. still (f x)"
  shows "still (bindA a f)"
proof -
  have "store_ok (snd (bindA a f s)) \<and> same_files s (snd (bindA a f s))" if s: "store_ok s" for s
  proof (cases rule: bindA_cases [of a s f])
    case (raises e t)
    with assms(1) s show ?thesis by (auto simp: still_def dest: spec [of _ s])
  next
    case (returns x t)
    with assms(1) s have t: "store_ok t" "same_files s t" by (auto simp: still_def dest: spec [of _ s])
    with assms(2) [of x] have "store_ok (snd (f x t)) \<and> same_files t (snd (f x t))"
      by (simp add: still_def)
    with returns(2) t(2) show ?thesis by (auto intro: same_files_trans)
  qed
  then show ?thesis by (simp add: still_def)
qed

lemma still_each: "(\<And>x. still (f x)) \<Longrightarrow> still (each f xs)"
  by (induction xs) (simp_all add: still_return still_bind)

lemma still_loads: "still (load_single_target q)" "still (load_multi_target q)"
  unfolding load_single_target_def load_multi_target_def
  by (simp_all add: still_bind still_get still_return still_each)

lemma quiet_still_bind:
  assumes "still a" "\<And>x. quiet (f x)"
  shows "quiet (bindA a f)"
  unfolding quiet_def
proof (intro allI impI)
  fix s r t assume s: "store_ok s" and b: "bindA a f s = (Inr r, t)" and d: "decision r \<noteq> Applied"
  from b obtain x u where x: "a s = (Inr x, u)" "f x u = (Inr r, t)" by (auto simp: bindA_eq_Inr)
  with assms(1) s have u: "store_ok u" "same_files s u" by (auto simp: still_def dest: spec [of _ s])
  with assms(2) [of x] x(2) d have "same_files u t" unfolding quiet_def by blast
  with u(2) show "same_files s t" by (rule same_files_trans)
qed

lemma perform_quiet: "quiet (perform_mutation env now fresh q)"
  unfolding perform_mutation_def
  by (intro quiet_still_bind still_loads quiet_lift_bind quiet_if quiet_lift handler_quiet)

text \<open>
  Only an applied or a failed mutation can have touched the store: whenever the
  service answers blocked, review required, allowed (a dry run) or no-op, every file is exactly
  as before.
\<close>

theorem unapplied_changes_nothing:
  assumes "store_ok s" "apply_mutation env now fresh q s = (Inr r, t)" "decision r \<notin> {Applied, Failed}"
  shows "files t = files s"
proof (cases "perform_mutation env now fresh q s")
  case (Pair x u)
  show ?thesis
  proof (cases x)
    case (Inl e)
    with Pair assms(2) have "decision r = Failed"
      by (auto simp: apply_mutation_def record_failed_def record_for_def dest: make_record_facts(1))
    with assms(3) show ?thesis by simp
  next
    case (Inr r')
    with Pair assms(2) have "perform_mutation env now fresh q s = (Inr r, t)" by (simp add: apply_mutation_def)
    with perform_quiet [of env now fresh q] assms(1,3) have "same_files s t"
      unfolding quiet_def by blast
    then show ?thesis by (simp add: same_files_def)
  qed
qed

section \<open>The boundary is never bypassed\<close>

definition existing_target :: "mutation_request \<Rightarrow> mem_store \<Rightarrow> memory_error + memory_item option" where
  \<comment> \<open>the item a request names, read from the abstract map\<close>
  "existing_target q s = (case target_memory_id (target q) of None \<Rightarrow> Inr None
     | Some i \<Rightarrow> if i = [] then Inr None else bindR (fetched s i) (\<lambda>m. Inr (Some m)))"

lemma load_single_value:
  assumes "store_ok s"
  shows "fst (load_single_target q s) = existing_target q s"
proof (cases "target_memory_id (target q)")
  case None
  then show ?thesis by (simp add: load_single_target_def existing_target_def)
next
  case (Some i)
  obtain t where t: "get_item i s = (fetched s i, t)" using get_item_spec [OF assms] by blast
  show ?thesis
    by (cases "fetched s i"; cases "i = []")
       (simp_all add: Some t load_single_target_def existing_target_def bindA_def)
qed

lemma apply_mutation_state: "snd (apply_mutation env now fresh q s) = snd (perform_mutation env now fresh q s)"
  by (cases "perform_mutation env now fresh q s"; cases "fst (perform_mutation env now fresh q s)")
     (simp_all add: apply_mutation_def)

lemma changed_files_passed_gate:
  assumes "store_ok s" "files (snd (apply_mutation env now fresh q s)) \<noteq> files s"
  shows "\<exists>e d. existing_target q s = Inr e \<and> evaluate_boundary (env_policies env) q e = Inr d \<and>
    \<not> bd_blocked d \<and> \<not> bd_review_required d \<and> \<not> dry_run q"
proof -
  obtain x1 s1 where l1: "load_single_target q s = (x1, s1)" by (cases "load_single_target q s")
  have s1: "store_ok s1" "files s1 = files s" "x1 = existing_target q s"
    using stillD [OF still_loads(1) assms(1), of q] load_single_value [OF assms(1), of q]
    by (simp_all add: l1 same_files_def)
  obtain x2 s2 where l2: "load_multi_target q s1 = (x2, s2)" by (cases "load_multi_target q s1")
  have s2: "files s2 = files s"
    using stillD [OF still_loads(2) s1(1), of q] s1(2) by (simp add: l2 same_files_def)
  have go: "files (snd (perform_mutation env now fresh q s)) \<noteq> files s"
    using assms(2) by (simp only: apply_mutation_state simp_thms)
  obtain e where e: "x1 = Inr e"
  proof (cases x1)
    case (Inl b)
    have "snd (perform_mutation env now fresh q s) = s1"
      unfolding perform_mutation_def bindA_stop [where m = "load_single_target q", OF l1 [unfolded Inl]] by simp
    with go s1(2) show ?thesis by simp
  qed
  obtain es where es: "x2 = Inr es"
  proof (cases x2)
    case (Inl b)
    have "snd (perform_mutation env now fresh q s) = s2"
      unfolding perform_mutation_def bindA_step [where m = "load_single_target q", OF l1 [unfolded e]] bindA_stop [where m = "load_multi_target q", OF l2 [unfolded Inl]] by simp
    with go s2 show ?thesis by simp
  qed
  note run = perform_mutation_def bindA_step [where m = "load_single_target q", OF l1 [unfolded e]] bindA_step [where m = "load_multi_target q", OF l2 [unfolded es]]
  obtain d where d: "evaluate_boundary (env_policies env) q e = Inr d"
  proof (cases "evaluate_boundary (env_policies env) q e")
    case (Inl b)
    with go s2 show ?thesis unfolding run Inl bindA_lift_Inl by simp
  qed
  have decided: "liftA (evaluate_boundary (env_policies env) q e) s2 = (Inr d, s2)" by (simp add: d)
  have "\<not> bd_blocked d" using go s2 unfolding run bindA_step [where m = "liftA (evaluate_boundary (env_policies env) q e)", OF decided] by (cases "bd_blocked d") simp_all
  moreover have "\<not> bd_review_required d"
    using go s2 calculation unfolding run bindA_step [where m = "liftA (evaluate_boundary (env_policies env) q e)", OF decided] by (cases "bd_review_required d") simp_all
  moreover have "\<not> dry_run q"
    using go s2 calculation unfolding run bindA_step [where m = "liftA (evaluate_boundary (env_policies env) q e)", OF decided] by (cases "dry_run q") simp_all
  ultimately show ?thesis using s1(3) [unfolded e, symmetric] d by blast
qed

text \<open>
  Claim C7. The boundary is never bypassed: if a request changes a file at all, applied or
  failed half-way, then it was no dry run and the boundary, asked about exactly this request and
  the item it names, neither blocked it nor held it for review.
\<close>

theorem files_change_only_when_allowed:
  assumes "store_ok s" "files (snd (apply_mutation env now fresh q s)) \<noteq> files s"
  shows "\<exists>e d. existing_target q s = Inr e \<and> evaluate_boundary (env_policies env) q e = Inr d \<and>
    \<not> bd_blocked d \<and> \<not> bd_review_required d \<and> \<not> dry_run q"
  by (rule changed_files_passed_gate [OF assms])

end
