(* ===== verification/MemoryGovernance.thy ===== *)
theory MemoryGovernance
  imports MemoryMutations
begin

text \<open>
  What the governed memory service guarantees as a whole: \<open>apply_mutation\<close> and
  \<open>preview_mutation\<close> over the store of \<open>MemoryStore\<close> and the boundary of
  \<open>MemoryBoundary\<close>.  The section on requests that can never be applied states two dead ends of
  the code; the last one runs the service on concrete requests.
\<close>

section \<open>Whole histories\<close>

text \<open>
  Governance never loses memory: whatever sequence of requests the mutation service
  is given (forget requests, merges and failing ones included), every stored item is still
  stored afterwards and its revision has not fallen.
\<close>

theorem governed_history_keeps_items:
  assumes "store_ok s" "stored s i = Some m"
  shows "\<exists>m'. stored (run (mutation_step env) ops s) i = Some m' \<and> item_revision m \<le> item_revision m'"
proof -
  have "store_version s i = Some (item_revision m)" using assms(2) by (simp add: store_version_def)
  from governed.version_run [OF assms(1) this no_mutation_retires, of env ops]
  show ?thesis by (auto simp: store_version_def)
qed

text \<open>
  A preview changes nothing: for every request and every store, previewing it leaves
  all files as they are.
\<close>

theorem preview_changes_nothing:
  assumes "store_ok s"
  shows "files (snd (preview_mutation env now fresh q s)) = files s"
proof (cases "validate_request (q\<lparr>dry_run := True\<rparr>)")
  case (Inl e)
  then show ?thesis by (simp add: preview_mutation_def bindA_lift_Inl)
next
  case (Inr q')
  then have "dry_run q'" using validate_request_facts(7) [OF Inr] by simp
  with changed_files_passed_gate [OF assms, of env now fresh q']
  have "files (snd (apply_mutation env now fresh q' s)) = files s" by blast
  with Inr show ?thesis by (simp add: preview_mutation_def bindA_def)
qed

text \<open>
  A sealed item is the user's: unless the request itself asks for another sensitivity
  or is a promotion, nobody but the user changes anything by a request about a sealed item,
  under every validated policy set.
\<close>

theorem sealed_item_kept_from_others:
  assumes "policies_valid (env_policies env)" "store_ok s" "actor q \<noteq> User"
    and "mutation_type q \<notin> {Promote, Demote}"
    and "existing_target q s = Inr (Some m)" "sensitivity m = Sealed"
    and "patch_sensitivity (patch q) \<in> {None, Some Sealed}"
  shows "files (snd (apply_mutation env now fresh q s)) = files s"
proof (rule ccontr)
  assume "\<not> ?thesis"
  then obtain d where d: "evaluate_boundary (env_policies env) q (Some m) = Inr d" "\<not> bd_blocked d"
    using changed_files_passed_gate [OF assms(2), of env now fresh q] assms(5) by auto
  have "evaluate_boundary (env_policies env) q (Some m) = evaluate_mutation (env_policies env) q (Some m)"
    using assms(4) by (simp add: evaluate_boundary_def)
  moreover have "\<exists>d. evaluate_mutation (env_policies env) q (Some m) = Inr d \<and> bd_blocked d"
    by (rule sealed_mutation_refused) (use assms in auto)
  ultimately show False using d by auto
qed

section \<open>Requests that can never be applied\<close>

definition refuses :: "record_action \<Rightarrow> bool" where
  \<comment> \<open>from a good store the action never answers applied\<close>
  "refuses a \<longleftrightarrow> (\<forall>s r t. store_ok s \<longrightarrow> a s = (Inr r, t) \<longrightarrow> decision r \<noteq> Applied)"

lemma refusesI: "(\<And>s r t. store_ok s \<Longrightarrow> a s = (Inr r, t) \<Longrightarrow> decision r \<noteq> Applied) \<Longrightarrow> refuses a"
  by (simp add: refuses_def)

lemma refuses_outcomes:
  "refuses (liftA (record_blocked now q d))" "refuses (liftA (record_review_required now q d))"
  "refuses (liftA (record_allowed_preview now q d))" "refuses (liftA (Inl e))"
  by (auto simp: refuses_def record_blocked_def record_review_required_def record_allowed_preview_def
      record_for_def dest: make_record_facts(1))

lemma refuses_need: "(\<And>m. refuses (f m)) \<Longrightarrow> refuses (need w e f)"
  by (cases e) (simp_all add: need_def refuses_outcomes)

text \<open>An applied record comes from the handler, run after the boundary allowed the request.\<close>

lemma applied_by_handler:
  assumes "store_ok s" "apply_mutation env now fresh q s = (Inr r, t)" "decision r = Applied"
  obtains e s1 es s2 d where "load_single_target q s = (Inr e, s1)" "store_ok s1"
    "load_multi_target q s1 = (Inr es, s2)" "store_ok s2"
    "evaluate_boundary (env_policies env) q e = Inr d" "\<not> bd_blocked d" "\<not> bd_review_required d" "\<not> dry_run q"
    "handler (mutation_type q) env now fresh q d e es s2 = (Inr r, t)"
proof -
  have p: "perform_mutation env now fresh q s = (Inr r, t)"
  proof (cases "perform_mutation env now fresh q s")
    case (Pair x u)
    with assms(2,3) show ?thesis
      by (cases x) (auto simp: apply_mutation_def record_failed_def record_for_def dest: make_record_facts(1))
  qed
  then obtain e s1 es s2 d where
    l1: "load_single_target q s = (Inr e, s1)" and l2: "load_multi_target q s1 = (Inr es, s2)" and
    d: "evaluate_boundary (env_policies env) q e = Inr d" and
    fin: "(if bd_blocked d then liftA (record_blocked now q d)
      else if bd_review_required d then liftA (record_review_required now q d)
      else if dry_run q then liftA (record_allowed_preview now q d)
      else handler (mutation_type q) env now fresh q d e es) s2 = (Inr r, t)"
    unfolding perform_mutation_def bindA_eq_Inr by auto
  have s1: "store_ok s1" using stillD(1) [OF still_loads(1) assms(1), of q] l1 by simp
  have s2: "store_ok s2" using stillD(1) [OF still_loads(2) s1, of q] l2 by simp
  have gate: "\<not> bd_blocked d" "\<not> bd_review_required d" "\<not> dry_run q"
    using fin s2 assms(3) refuses_outcomes(1-3) [of now q d] by (auto simp: refuses_def split: if_splits)
  with fin have "handler (mutation_type q) env now fresh q d e es s2 = (Inr r, t)" by simp
  with l1 s1 l2 s2 d gate show thesis by (rule that)
qed

text \<open>
  A handler that never answers applied, on targets that were read from the store, makes the
  whole request one that is never applied.
\<close>

lemma never_applied:
  assumes "store_ok s" "apply_mutation env now fresh q s = (Inr r, t)"
    and "\<And>e es d u v. store_ok u \<Longrightarrow> load_multi_target q u = (Inr es, v) \<Longrightarrow>
      refuses (handler (mutation_type q) env now fresh q d e es)"
  shows "decision r \<noteq> Applied"
proof
  assume "decision r = Applied"
  from applied_by_handler [OF assms(1,2) this] assms(3) show False
    unfolding refuses_def by (metis \<open>decision r = Applied\<close>)
qed

lemma promotion_refused:
  assumes "evaluate_promotion ps f g a k c n md = Inr d"
    and "\<And>pr ap. get_promotion_rule ps f g = Inr pr \<Longrightarrow> promotion_refusal pr ap a k c n md \<noteq> None"
  shows "bd_blocked d"
proof -
  from assms(1) obtain pr where pr: "get_promotion_rule ps f g = Inr pr"
    by (auto simp: evaluate_promotion_def bindR_eq_Inr_iff)
  show ?thesis
    using assms(1) unfolding evaluate_promotion_def pr bindR_Inr bindR_eq_Inr_iff
  proof (elim exE conjE, goal_cases)
    case (1 ap xp)
    obtain b where b: "promotion_refusal pr ap a k c n md = Some b" using assms(2) [OF pr, of ap] by blast
    with 1(3) have "b = d" by simp
    with b promotion_refusal_blocks show ?case by blast
  qed
qed

text \<open>
  Evidence of repetition never reaches the boundary: the service asks about every
  promotion and demotion as if the item had occurred once, so under promotion rules that each
  either forbid the move or ask for two or more occurrences (as the shipped rules do) no
  promotion or demotion is ever applied, and none changes a file.
\<close>

theorem repeated_promotion_never_applied:
  assumes "store_ok s" "mutation_type q \<in> {Promote, Demote}"
    and "\<forall>pr \<in> set (promotion_rules (env_policies env)). \<not> pr_allowed pr \<or> 1 < minimum_repetition_count pr"
    and "apply_mutation env now fresh q s = (Inr r, t)"
  shows "decision r \<noteq> Applied \<and> files t = files s"
proof -
  have refused: "bd_blocked d" if "evaluate_boundary (env_policies env) q e = Inr d" for e d
  proof (cases "(case e of Some m \<Rightarrow> Some (memory_class m) | None \<Rightarrow> target_class (target q), patch_class (patch q))")
    case (Pair f t)
    show ?thesis
    proof (cases "f = None \<or> t = None")
      case True
      with that Pair assms(2) show ?thesis
        by (auto simp: evaluate_boundary_def split: option.splits)
    next
      case False
      then obtain f' t' where "f = Some f'" "t = Some t'" by auto
      with that Pair assms(2) have "evaluate_promotion (env_policies env) f' t' (actor q)
          (context_source_kind (request_context q)) (patch_confidence (patch q)) 1 (mode q) = Inr d"
        by (simp add: evaluate_boundary_def)
      then show ?thesis
      proof (rule promotion_refused)
        fix pr ap assume pr: "get_promotion_rule (env_policies env) f' t' = Inr pr"
        from assms(3) promotion_rule_found [OF pr] have "\<not> pr_allowed pr \<or> 1 < minimum_repetition_count pr" by blast
        then show "promotion_refusal pr ap (actor q) (context_source_kind (request_context q))
            (patch_confidence (patch q)) 1 (mode q) \<noteq> None"
          unfolding promotion_refusal_None by auto
      qed
    qed
  qed
  have "decision r \<noteq> Applied"
    using applied_by_handler [OF assms(1,4)] refused by metis
  moreover have "files (snd (apply_mutation env now fresh q s)) = files s"
    using changed_files_passed_gate [OF assms(1), of env now fresh q] refused by blast
  ultimately show ?thesis using assms(4) by simp
qed

text \<open>
  A supersede request that carries replacement content instead of a successor id never
  succeeds: the code builds the successor from an empty \<open>MemoryItem()\<close>, which has required
  fields, so the request always ends in a failed record when it is not stopped before.
\<close>

theorem supersede_with_content_never_applied:
  assumes "store_ok s" "mutation_type q = Supersede" "\<not> truthy (successor_memory_id (patch q))"
    and "apply_mutation env now fresh q s = (Inr r, t)"
  shows "decision r \<noteq> Applied"
proof (rule never_applied [OF assms(1,4)])
  fix e es d
  show "refuses (handler (mutation_type q) env now fresh q d e es)"
    unfolding assms(2) handler.simps handle_supersede_def Let_def no_successor bindA_lift_Inl
    using assms(3) by (intro refuses_need) (simp add: refuses_outcomes)
qed

lemma trim_space: "trim_char c \<Longrightarrow> space_char c"
  by (auto simp: trim_char_def space_char_def Let_def)

lemma hd_join: "xs \<noteq> [] \<Longrightarrow> hd xs \<noteq> [] \<Longrightarrow> hd (join sep xs) = hd (hd xs)"
  by (induction sep xs rule: join.induct) auto

lemma join_nonempty: "xs \<noteq> [] \<Longrightarrow> last xs \<noteq> [] \<Longrightarrow> join sep xs \<noteq> [] \<and> last (join sep xs) = last (last xs)"
  by (induction sep xs rule: join.induct) auto

lemma join_trimmed:
  assumes "\<forall>x \<in> set xs. trimmed_by p x \<and> x \<noteq> []"
  shows "trimmed_by p (join sep xs)"
proof (cases "xs = []")
  case False
  with assms have "hd xs \<in> set xs" "last xs \<in> set xs" by auto
  with assms have "hd xs \<noteq> []" "last xs \<noteq> []" "\<not> p (hd (hd xs))" "\<not> p (last (last xs))"
    by (auto simp: trimmed_by_def)
  with False show ?thesis using hd_join [of xs sep] join_nonempty [of xs sep] by (simp add: trimmed_by_def)
qed (simp add: trimmed_by_def)

lemma get_item_id:
  assumes "store_ok s" "get_item v s = (Inr m, t)"
  shows "memory_id m = strip v" "strip v \<noteq> []" "store_ok t"
proof -
  obtain u where u: "get_item v s = (fetched s v, u)" "store_ok u" using get_item_spec [OF assms(1)] by blast
  with assms(2) have f: "fetched s v = Inr m" "store_ok t" by auto
  show "memory_id m = strip v" "strip v \<noteq> []"
    using fetched_scan [OF assms(1) f(1)] by (auto simp: normalize_iff)
  show "store_ok t" by (rule f(2))
qed

lemma loaded_ids:
  "store_ok s \<Longrightarrow> each get_item is s = (Inr es, t) \<Longrightarrow>
     map memory_id es = map strip is \<and> [] \<notin> set (map strip is)"
proof (induction "is" arbitrary: s es t)
  case (Cons i "is")
  then obtain m u ms where m: "get_item i s = (Inr m, u)" "each get_item is u = (Inr ms, t)" "es = m # ms"
    by (auto simp: bindA_eq_Inr)
  with Cons get_item_id [OF Cons.prems(1) m(1)] show ?case by simp
qed simp

text \<open>
  A merge whose joined identifiers exceed the 128 characters of
  \<open>superseded_memory_id\<close> (four items with generated identifiers do) is never recorded as
  applied: the record is refused after all the writes, and the service answers failed.
\<close>

theorem large_merge_never_applied:
  assumes "store_ok s" "mutation_type q = Merge"
    and "128 < length (join '','' (map strip (target_memory_ids (target q))))"
  shows "\<nexists>r t. apply_mutation env now fresh q s = (Inr r, t) \<and> decision r = Applied"
proof (intro notI, elim exE conjE, erule notE [OF never_applied [OF assms(1)]])
  fix e es d u v assume u: "store_ok u" and l: "load_multi_target q u = (Inr es, v)"
  let ?ids = "map memory_id es"
  have ids: "?ids = map strip (target_memory_ids (target q))" "[] \<notin> set ?ids"
    using loaded_ids [OF u l [unfolded load_multi_target_def]] by simp_all
  have clean: "\<forall>x \<in> set ?ids. trimmed_by trim_char x \<and> x \<noteq> []"
    using ids(2) unfolding ids(1) strip_def
    by (force intro: trimmed_by_mono [OF strip_by_trimmed] trim_space)
  have "trim (join '','' ?ids) = join '','' ?ids"
    unfolding trim_def by (rule strip_by_same [OF join_trimmed [OF clean]])
  with assms(3) have long: "128 < length (trim (join '','' ?ids))" unfolding ids(1) by simp
  have "record_applied now q why i (Some (join '','' ?ids)) \<noteq> Inr x" for why i x
  proof
    assume "record_applied now q why i (Some (join '','' ?ids)) = Inr x"
    then have "length (trim (join '','' ?ids)) \<le> 128"
      unfolding record_applied_def record_for_def by (rule make_record_facts(5)) simp
    with long show False by simp
  qed
  then show "refuses (handler (mutation_type q) env now fresh q d e es)"
    unfolding assms(2) handler.simps handle_merge_def refuses_def bindA_eq_Inr by auto
qed

section \<open>Concrete requests\<close>

definition sample_env :: mutation_env where
  "sample_env = \<lparr>env_policies = sample_policies, err_text = (\<lambda>_. ''error'')\<rparr>"

definition sealed_store :: mem_store where
  "sealed_store = run store_step [CreateItem sealed_item] (empty_store True)"

lemma sealed_store_ok: "store_ok sealed_store"
  unfolding sealed_store_def by (rule item_ledger.inv_run) simp

lemma sealed_stored: "stored sealed_store ''mem_0001'' = Some sealed_item"
  by code_simp

text \<open>
  What the boundary does not look at: an assistant that writes another class and
  sensitivity into its request revises a sealed item of the user, because the boundary judges the
  requested class and sensitivity and never those of the item.  The request is applied, and the
  item of the user holds the assistant's text at sensitivity internal.
\<close>

definition declassifying :: mutation_request where
  "declassifying = (let q = sample_mutation Revise Assistant Assisted in
     q\<lparr>target := (target q)\<lparr>target_class := Some Project\<rparr>,
       patch := (patch q)\<lparr>patch_sensitivity := Some Internal\<rparr>\<rparr>)"

theorem sealed_item_rewritten_by_assistant:
  "\<exists>r t m. apply_mutation sample_env 100 ''0002'' declassifying sealed_store = (Inr r, t) \<and>
     decision r = Applied \<and> sensitivity sealed_item = Sealed \<and> actor declassifying = Assistant \<and>
     stored t ''mem_0001'' = Some m \<and> body m = ''New body'' \<and> sensitivity m = Internal"
proof -
  have "(case apply_mutation sample_env 100 ''0002'' declassifying sealed_store of
      (Inr r, t) \<Rightarrow> decision r = Applied \<and> (case stored t ''mem_0001'' of
         Some m \<Rightarrow> body m = ''New body'' \<and> sensitivity m = Internal | None \<Rightarrow> False)
    | _ \<Rightarrow> False)"
    by code_simp
  then show ?thesis
    by (auto simp: sealed_item_def declassifying_def sample_mutation_def Let_def split: prod.splits sum.splits option.splits)
qed

lemma governed_history_keeps_items_witness:
  "\<exists>m'. stored (run (mutation_step sample_env) [(100, ''0002'', sample_mutation Forget_request User Manual)]
     sealed_store) ''mem_0001'' = Some m' \<and> item_revision sealed_item \<le> item_revision m'"
  by (rule governed_history_keeps_items [OF sealed_store_ok sealed_stored])

lemma preview_changes_nothing_witness:
  "files (snd (preview_mutation sample_env 100 ''0002'' declassifying sealed_store)) = files sealed_store"
  by (rule preview_changes_nothing [OF sealed_store_ok])

lemma sealed_item_kept_from_others_witness:
  "files (snd (apply_mutation sample_env 100 ''0002'' (sample_mutation Revise Assistant Assisted) sealed_store)) =
   files sealed_store"
proof (rule sealed_item_kept_from_others [where m = sealed_item])
  show "policies_valid (env_policies sample_env)" by (simp add: sample_env_def sample_policies_valid)
  show "existing_target (sample_mutation Revise Assistant Assisted) sealed_store = Inr (Some sealed_item)"
    by code_simp
qed (simp_all add: sealed_store_ok sample_mutation_def sealed_item_def)

lemma patch_preserves_identity_witness:
  "\<exists>m'. apply_patch_to_item 5 declassifying (allowed_decision False ''ok'' ''rule'') (patch declassifying) True
      sealed_item = Inr m' \<and> identity m' = identity sealed_item \<and> item_revision m' = item_revision sealed_item + 1"
proof -
  let ?a = "apply_patch_to_item 5 declassifying (allowed_decision False ''ok'' ''rule'') (patch declassifying) True
      sealed_item"
  have "case ?a of Inr _ \<Rightarrow> True | Inl _ \<Rightarrow> False" by code_simp
  then obtain m' where m': "?a = Inr m'" by (cases ?a) simp_all
  from patch_preserves_identity [OF this] m' show ?thesis by blast
qed

lemma unapplied_changes_nothing_witness:
  "\<exists>r t. apply_mutation sample_env 100 ''0002'' (sample_mutation Revise Assistant Assisted) sealed_store = (Inr r, t) \<and>
     decision r = Decision_blocked \<and> files t = files sealed_store"
proof -
  let ?a = "apply_mutation sample_env 100 ''0002'' (sample_mutation Revise Assistant Assisted) sealed_store"
  have "case fst ?a of Inr r \<Rightarrow> decision r = Decision_blocked | Inl _ \<Rightarrow> False" by code_simp
  then obtain r t where r: "?a = (Inr r, t)" "decision r = Decision_blocked"
    by (cases ?a; cases "fst ?a") simp_all
  have "files t = files sealed_store" by (rule unapplied_changes_nothing [OF sealed_store_ok r(1)]) (simp add: r(2))
  with r show ?thesis by blast
qed

lemma files_change_only_when_allowed_witness:
  "\<exists>e d. existing_target declassifying sealed_store = Inr e \<and>
     evaluate_boundary (env_policies sample_env) declassifying e = Inr d \<and>
     \<not> bd_blocked d \<and> \<not> bd_review_required d \<and> \<not> dry_run declassifying"
proof (rule files_change_only_when_allowed [OF sealed_store_ok])
  show "files (snd (apply_mutation sample_env 100 ''0002'' declassifying sealed_store)) \<noteq> files sealed_store"
    by code_simp
qed

lemma supersede_with_content_never_applied_witness:
  "\<exists>r t. apply_mutation sample_env 100 ''0002'' (sample_mutation Supersede User Manual) sample_store = (Inr r, t) \<and>
     decision r \<noteq> Applied"
proof -
  let ?q = "sample_mutation Supersede User Manual"
  have "case fst (apply_mutation sample_env 100 ''0002'' ?q sample_store) of Inr _ \<Rightarrow> True | Inl _ \<Rightarrow> False"
    by code_simp
  then obtain r t where r: "apply_mutation sample_env 100 ''0002'' ?q sample_store = (Inr r, t)"
    by (cases "apply_mutation sample_env 100 ''0002'' ?q sample_store";
        cases "fst (apply_mutation sample_env 100 ''0002'' ?q sample_store)") simp_all
  have "decision r \<noteq> Applied"
    by (rule supersede_with_content_never_applied [OF sample_store_ok _ _ r]) (simp_all add: sample_mutation_def)
  with r show ?thesis by blast
qed

definition merge_id :: "char \<Rightarrow> string" where
  "merge_id c = replicate 64 c"

definition merging :: mutation_request where
  "merging = (let q = sample_mutation Merge User Manual in
     q\<lparr>target := (target q)\<lparr>target_memory_id := None, target_class := Some Project,
         target_memory_ids := map merge_id ''ab''\<rparr>\<rparr>)"

lemma large_merge_never_applied_witness:
  "\<nexists>r t. apply_mutation sample_env 100 ''0002'' merging sample_store = (Inr r, t) \<and> decision r = Applied"
proof (rule large_merge_never_applied [OF sample_store_ok])
  show "128 < length (join '','' (map strip (target_memory_ids (target merging))))" by code_simp
qed (simp add: merging_def sample_mutation_def Let_def)

definition repeating_env :: mutation_env where
  "repeating_env = sample_env\<lparr>env_policies := sample_policies\<lparr>promotion_rules :=
     map (\<lambda>pr. pr\<lparr>minimum_repetition_count := 2\<rparr>) (promotion_rules sample_policies)\<rparr>\<rparr>"

definition promoting :: mutation_request where
  "promoting = (let q = sample_mutation Promote User Manual in
     q\<lparr>patch := (patch q)\<lparr>patch_class := Some Project, patch_confidence := Some 1\<rparr>\<rparr>)"

definition working_store :: mem_store where
  "working_store = run store_step [CreateItem (sample_item\<lparr>memory_class := Working\<rparr>)] (empty_store True)"

lemma working_store_ok: "store_ok working_store"
  unfolding working_store_def by (rule item_ledger.inv_run) simp

lemma repeated_promotion_never_applied_witness:
  "\<exists>r t. apply_mutation repeating_env 100 ''0002'' promoting working_store = (Inr r, t) \<and>
     decision r \<noteq> Applied \<and> files t = files working_store"
proof -
  let ?a = "apply_mutation repeating_env 100 ''0002'' promoting working_store"
  have "case fst ?a of Inr r \<Rightarrow> True | Inl _ \<Rightarrow> False" by code_simp
  then obtain r t where r: "?a = (Inr r, t)" by (cases ?a; cases "fst ?a") simp_all
  have "decision r \<noteq> Applied \<and> files t = files working_store"
    by (rule repeated_promotion_never_applied [OF working_store_ok _ _ r])
       (simp_all add: promoting_def sample_mutation_def Let_def repeating_env_def)
  with r show ?thesis by blast
qed

end
