(* ===== verification/MemoryQueries.thy ===== *)
theory MemoryQueries
  imports MemoryStore "HOL-Library.Multiset"
begin

text \<open>
  Recall of legacy memory items: the query of \<open>app/memory/schemas/memory_filters.py\<close> with its
  validators, and \<open>MemoryRetrievalService\<close> of
  \<open>app/memory/services/memory_retrieval_service.py\<close>, which loads every readable item, applies
  the posture and the filters one after the other, sorts and paginates.  The service is related
  to one predicate, \<open>matches\<close>, that says which items a query asks for.
\<close>

section \<open>Queries\<close>

record text_filter =
  tf_query :: "string option"
  title_only :: bool
  body_only :: bool
  case_sensitive :: bool
  exact_phrase :: bool

record 'a choice_filter =
  \<comment> \<open>the shape of the class, sensitivity, status and mutability filters\<close>
  included :: "'a list"
  excluded :: "'a list"

record source_filter =
  include_source_kinds :: "source_kind list"
  exclude_source_kinds :: "source_kind list"
  sf_source_ref :: "string option"
  source_label_query :: "string option"

record context_filter =
  cf_conversation_id :: "string option"
  cf_project_id :: "string option"
  cf_request_id :: "string option"
  cf_parent_memory_id :: "string option"

record date_filter =
  created_after_utc :: "time option"
  created_before_utc :: "time option"
  updated_after_utc :: "time option"
  updated_before_utc :: "time option"
  captured_after_utc :: "time option"
  captured_before_utc :: "time option"

record scalar_filter =
  min_importance :: "rat option"
  max_importance :: "rat option"
  min_confidence :: "rat option"
  max_confidence :: "rat option"

record flag_filter =
  pinned_only :: bool
  user_declared_only :: bool
  inferred_only :: bool
  verified_only :: bool
  stale_only :: bool

datatype sort_field = By_created_at | By_updated_at | By_importance | By_confidence | By_title

datatype sort_direction = Asc | Desc

record pagination =
  page_limit :: int
  page_offset :: int

datatype retrieval_mode = Focused | Balanced | Broad

record retrieval_posture =
  posture_suppressed :: "memory_class list"
  posture_sealed :: bool
  posture_mode :: retrieval_mode

record review_filter =
  review_required_only :: bool
  blocked_mutations_only :: bool
  pending_candidates_only :: bool
  autonomous_writes_only :: bool

record items_query =
  q_text :: text_filter
  q_classes :: "memory_class choice_filter"
  q_sensitivities :: "memory_sensitivity choice_filter"
  q_statuses :: "memory_status choice_filter"
  q_mutabilities :: "memory_mutability choice_filter"
  q_source :: source_filter
  q_context :: context_filter
  q_dates :: date_filter
  q_scalars :: scalar_filter
  q_flags :: flag_filter
  q_pagination :: pagination
  q_sort_by :: sort_field
  q_sort_direction :: sort_direction
  q_retrieval :: retrieval_posture
  q_review :: review_filter

definition default_query :: items_query where
  "default_query = \<lparr>
     q_text = \<lparr>tf_query = None, title_only = False, body_only = False, case_sensitive = False, exact_phrase = False\<rparr>,
     q_classes = \<lparr>included = [], excluded = []\<rparr>, q_sensitivities = \<lparr>included = [], excluded = []\<rparr>,
     q_statuses = \<lparr>included = [], excluded = []\<rparr>, q_mutabilities = \<lparr>included = [], excluded = []\<rparr>,
     q_source = \<lparr>include_source_kinds = [], exclude_source_kinds = [], sf_source_ref = None, source_label_query = None\<rparr>,
     q_context = \<lparr>cf_conversation_id = None, cf_project_id = None, cf_request_id = None, cf_parent_memory_id = None\<rparr>,
     q_dates = \<lparr>created_after_utc = None, created_before_utc = None, updated_after_utc = None,
       updated_before_utc = None, captured_after_utc = None, captured_before_utc = None\<rparr>,
     q_scalars = \<lparr>min_importance = None, max_importance = None, min_confidence = None, max_confidence = None\<rparr>,
     q_flags = \<lparr>pinned_only = False, user_declared_only = False, inferred_only = False, verified_only = False,
       stale_only = False\<rparr>,
     q_pagination = \<lparr>page_limit = 50, page_offset = 0\<rparr>, q_sort_by = By_updated_at, q_sort_direction = Desc,
     q_retrieval = \<lparr>posture_suppressed = [], posture_sealed = False, posture_mode = Balanced\<rparr>,
     q_review = \<lparr>review_required_only = False, blocked_mutations_only = False, pending_candidates_only = False,
       autonomous_writes_only = False\<rparr>\<rparr>"

section \<open>Validation\<close>

definition check_text_filter :: "text_filter \<Rightarrow> memory_error + text_filter" where
  "check_text_filter f =
     bindR (bounded_opt 1 240 (tf_query f)) (\<lambda>v.
     bindR (raise_if (title_only f \<and> body_only f)
       (ValidationError ''title_only and body_only cannot both be true.'')) (\<lambda>_.
     Inr (f\<lparr>tf_query := v\<rparr>)))"

definition check_choice_filter :: "string \<Rightarrow> 'a choice_filter \<Rightarrow> memory_error + 'a choice_filter" where
  \<comment> \<open>the validator of the four choice filters; the message is cut after its fixed part\<close>
  "check_choice_filter what f =
     bindR (raise_if (\<exists>x \<in> set (included f). x \<in> set (excluded f)) (ValidationError what)) (\<lambda>_. Inr f)"

definition check_class_filter :: "memory_class choice_filter \<Rightarrow> memory_error + memory_class choice_filter" where
  "check_class_filter = check_choice_filter ''Class filter cannot include and exclude the same classes''"

definition check_sensitivity_filter ::
  "memory_sensitivity choice_filter \<Rightarrow> memory_error + memory_sensitivity choice_filter" where
  "check_sensitivity_filter =
     check_choice_filter ''Sensitivity filter cannot include and exclude the same sensitivities''"

definition check_status_filter :: "memory_status choice_filter \<Rightarrow> memory_error + memory_status choice_filter" where
  "check_status_filter = check_choice_filter ''Status filter cannot include and exclude the same statuses''"

definition check_mutability_filter ::
  "memory_mutability choice_filter \<Rightarrow> memory_error + memory_mutability choice_filter" where
  "check_mutability_filter =
     check_choice_filter ''Mutability filter cannot include and exclude the same mutabilities''"

definition check_source_filter :: "source_filter \<Rightarrow> memory_error + source_filter" where
  "check_source_filter f =
     bindR (bounded_opt 0 256 (sf_source_ref f)) (\<lambda>r.
     bindR (bounded_opt 1 200 (source_label_query f)) (\<lambda>l.
     bindR (raise_if (\<exists>k \<in> set (include_source_kinds f). k \<in> set (exclude_source_kinds f))
       (ValidationError ''Source filter cannot include and exclude the same source kinds'')) (\<lambda>_.
     Inr (f\<lparr>sf_source_ref := r, source_label_query := l\<rparr>))))"

definition check_context_filter :: "context_filter \<Rightarrow> memory_error + context_filter" where
  "check_context_filter f =
     bindR (bounded_opt 0 128 (cf_conversation_id f)) (\<lambda>c.
     bindR (bounded_opt 0 128 (cf_project_id f)) (\<lambda>p.
     bindR (bounded_opt 0 128 (cf_request_id f)) (\<lambda>r.
     bindR (bounded_opt 0 128 (cf_parent_memory_id f)) (\<lambda>m.
     Inr \<lparr>cf_conversation_id = c, cf_project_id = p, cf_request_id = r, cf_parent_memory_id = m\<rparr>))))"

definition crossed :: "'a::linorder option \<Rightarrow> 'a option \<Rightarrow> bool" where
  \<comment> \<open>both bounds are given and they exclude everything\<close>
  "crossed lo hi \<longleftrightarrow> (case (lo, hi) of (Some a, Some b) \<Rightarrow> b < a | _ \<Rightarrow> False)"

definition check_date_filter :: "date_filter \<Rightarrow> memory_error + date_filter" where
  "check_date_filter f =
     bindR (raise_if (crossed (created_after_utc f) (created_before_utc f))
       (ValidationError ''created_after_utc cannot be later than created_before_utc.'')) (\<lambda>_.
     bindR (raise_if (crossed (updated_after_utc f) (updated_before_utc f))
       (ValidationError ''updated_after_utc cannot be later than updated_before_utc.'')) (\<lambda>_.
     bindR (raise_if (crossed (captured_after_utc f) (captured_before_utc f))
       (ValidationError ''captured_after_utc cannot be later than captured_before_utc.'')) (\<lambda>_. Inr f)))"

definition check_scalar_filter :: "scalar_filter \<Rightarrow> memory_error + scalar_filter" where
  "check_scalar_filter f =
     bindR (in_unit_opt (min_importance f)) (\<lambda>_. bindR (in_unit_opt (max_importance f)) (\<lambda>_.
     bindR (in_unit_opt (min_confidence f)) (\<lambda>_. bindR (in_unit_opt (max_confidence f)) (\<lambda>_.
     bindR (raise_if (crossed (min_importance f) (max_importance f))
       (ValidationError ''min_importance cannot exceed max_importance.'')) (\<lambda>_.
     bindR (raise_if (crossed (min_confidence f) (max_confidence f))
       (ValidationError ''min_confidence cannot exceed max_confidence.'')) (\<lambda>_. Inr f))))))"

definition check_pagination :: "pagination \<Rightarrow> memory_error + pagination" where
  "check_pagination p =
     bindR (raise_if (page_limit p < 1 \<or> 200 < page_limit p) (ValidationError ''limit out of bounds'')) (\<lambda>_.
     bindR (raise_if (page_offset p < 0) (ValidationError ''offset out of bounds'')) (\<lambda>_. Inr p))"

definition validate_query :: "items_query \<Rightarrow> memory_error + items_query" where
  "validate_query q =
     bindR (raise_if (\<exists>c \<in> set (included (q_classes q)). c \<in> set (posture_suppressed (q_retrieval q)))
       (ValidationError ''A class cannot be both explicitly included and explicitly suppressed.'')) (\<lambda>_.
     bindR (raise_if ((Sealed_private \<in> set (included (q_classes q)) \<or> Sealed \<in> set (included (q_sensitivities q))) \<and>
         \<not> posture_sealed (q_retrieval q))
       (ValidationError ''sealed_private / sealed memory cannot be queried unless allow_sealed_private is true.'')) (\<lambda>_.
     Inr q))"

definition make_query :: "items_query \<Rightarrow> memory_error + items_query" where
  \<comment> \<open>\<open>MemoryItemsQuery(...)\<close> on plain data\<close>
  "make_query q =
     bindR (check_text_filter (q_text q)) (\<lambda>t.
     bindR (check_class_filter (q_classes q)) (\<lambda>_.
     bindR (check_sensitivity_filter (q_sensitivities q)) (\<lambda>_.
     bindR (check_status_filter (q_statuses q)) (\<lambda>_.
     bindR (check_mutability_filter (q_mutabilities q)) (\<lambda>_.
     bindR (check_source_filter (q_source q)) (\<lambda>s.
     bindR (check_context_filter (q_context q)) (\<lambda>c.
     bindR (check_date_filter (q_dates q)) (\<lambda>_.
     bindR (check_scalar_filter (q_scalars q)) (\<lambda>_.
     bindR (check_pagination (q_pagination q)) (\<lambda>_.
     validate_query (q\<lparr>q_text := t, q_source := s, q_context := c\<rparr>)))))))))))"

section \<open>The retrieval service\<close>

record query_result =
  result_items :: "memory_item list"
  total_matches :: int
  result_limit :: int
  result_offset :: int

definition apply_retrieval_posture :: "items_query \<Rightarrow> memory_item list \<Rightarrow> memory_item list" where
  "apply_retrieval_posture q = filter (\<lambda>m.
     memory_class m \<notin> set (posture_suppressed (q_retrieval q)) \<and>
     \<not> (\<not> posture_sealed (q_retrieval q) \<and> (memory_class m = Sealed_private \<or> sensitivity m = Sealed)))"

definition filter_if :: "bool \<Rightarrow> ('a \<Rightarrow> bool) \<Rightarrow> 'a list \<Rightarrow> 'a list" where
  \<comment> \<open>a filter that applies only when its field of the query is given\<close>
  "filter_if b p xs = (if b then filter p xs else xs)"

definition apply_choice :: "'a choice_filter \<Rightarrow> (memory_item \<Rightarrow> 'a) \<Rightarrow> memory_item list \<Rightarrow> memory_item list" where
  "apply_choice f a xs =
     filter_if (excluded f \<noteq> []) (\<lambda>m. a m \<notin> set (excluded f))
       (filter_if (included f \<noteq> []) (\<lambda>m. a m \<in> set (included f)) xs)"

definition apply_class_filter :: "items_query \<Rightarrow> memory_item list \<Rightarrow> memory_item list" where
  "apply_class_filter q = apply_choice (q_classes q) memory_class"

definition apply_sensitivity_filter :: "items_query \<Rightarrow> memory_item list \<Rightarrow> memory_item list" where
  "apply_sensitivity_filter q = apply_choice (q_sensitivities q) sensitivity"

definition apply_status_filter :: "items_query \<Rightarrow> memory_item list \<Rightarrow> memory_item list" where
  "apply_status_filter q = apply_choice (q_statuses q) status"

definition apply_mutability_filter :: "items_query \<Rightarrow> memory_item list \<Rightarrow> memory_item list" where
  "apply_mutability_filter q = apply_choice (q_mutabilities q) mutability"

definition label_contains :: "string \<Rightarrow> memory_item \<Rightarrow> bool" where
  "label_contains needle m \<longleftrightarrow> truthy (source_label (source m)) \<and>
     has_infix (casefold needle) (casefold (the (source_label (source m))))"

definition apply_source_filter :: "items_query \<Rightarrow> memory_item list \<Rightarrow> memory_item list" where
  "apply_source_filter q xs = (let f = q_source q;
       a = filter_if (include_source_kinds f \<noteq> []) (\<lambda>m. source_kind (source m) \<in> set (include_source_kinds f)) xs;
       b = filter_if (exclude_source_kinds f \<noteq> []) (\<lambda>m. source_kind (source m) \<notin> set (exclude_source_kinds f)) a;
       c = filter_if (truthy (sf_source_ref f)) (\<lambda>m. source_ref (source m) = sf_source_ref f) b
     in filter_if (truthy (source_label_query f)) (label_contains (the (source_label_query f))) c)"

definition apply_context_filter :: "items_query \<Rightarrow> memory_item list \<Rightarrow> memory_item list" where
  "apply_context_filter q xs = (let f = q_context q;
       a = filter_if (truthy (cf_project_id f)) (\<lambda>m. project_id (context_links m) = cf_project_id f) xs;
       b = filter_if (truthy (cf_conversation_id f)) (\<lambda>m. conversation_id (context_links m) = cf_conversation_id f) a;
       c = filter_if (truthy (cf_request_id f)) (\<lambda>m. request_id (context_links m) = cf_request_id f) b
     in filter_if (truthy (cf_parent_memory_id f)) (\<lambda>m. parent_memory_id (context_links m) = cf_parent_memory_id f) c)"

definition at_least :: "'a::linorder option \<Rightarrow> (memory_item \<Rightarrow> 'a) \<Rightarrow> memory_item list \<Rightarrow> memory_item list" where
  "at_least v a xs = (case v of None \<Rightarrow> xs | Some x \<Rightarrow> filter (\<lambda>m. x \<le> a m) xs)"

definition at_most :: "'a::linorder option \<Rightarrow> (memory_item \<Rightarrow> 'a) \<Rightarrow> memory_item list \<Rightarrow> memory_item list" where
  "at_most v a xs = (case v of None \<Rightarrow> xs | Some x \<Rightarrow> filter (\<lambda>m. a m \<le> x) xs)"

definition apply_date_filter :: "items_query \<Rightarrow> memory_item list \<Rightarrow> memory_item list" where
  "apply_date_filter q xs = (let f = q_dates q in
     at_most (captured_before_utc f) (captured_at_utc \<circ> source)
    (at_least (captured_after_utc f) (captured_at_utc \<circ> source)
    (at_most (updated_before_utc f) updated_at_utc
    (at_least (updated_after_utc f) updated_at_utc
    (at_most (created_before_utc f) created_at_utc
    (at_least (created_after_utc f) created_at_utc xs))))))"

definition apply_scalar_filter :: "items_query \<Rightarrow> memory_item list \<Rightarrow> memory_item list" where
  "apply_scalar_filter q xs = (let f = q_scalars q;
       a = at_most (max_importance f) importance (at_least (min_importance f) importance xs);
       b = (case min_confidence f of None \<Rightarrow> a
            | Some x \<Rightarrow> filter (\<lambda>m. case confidence m of None \<Rightarrow> False | Some c \<Rightarrow> x \<le> c) a)
     in (case max_confidence f of None \<Rightarrow> b
         | Some x \<Rightarrow> filter (\<lambda>m. case confidence m of None \<Rightarrow> False | Some c \<Rightarrow> c \<le> x) b))"

definition apply_flag_filter :: "items_query \<Rightarrow> memory_item list \<Rightarrow> memory_item list" where
  "apply_flag_filter q xs = (let f = q_flags q in
     filter_if (stale_only f) (stale \<circ> flags)
    (filter_if (verified_only f) (verified \<circ> flags)
    (filter_if (inferred_only f) (inferred \<circ> flags)
    (filter_if (user_declared_only f) (user_declared \<circ> flags)
    (filter_if (pinned_only f) (pinned \<circ> flags) xs)))))"

definition apply_mutation_review_filter :: "items_query \<Rightarrow> memory_item list \<Rightarrow> memory_item list" where
  "apply_mutation_review_filter q xs = (let f = q_review q in
     filter_if (autonomous_writes_only f) (\<lambda>m. created_by m \<in> {Kind_assistant, Kind_service})
    (filter_if (pending_candidates_only f) (\<lambda>m. status m = Provisional)
    (filter_if (blocked_mutations_only f) (\<lambda>m. status m = Blocked)
    (filter_if (review_required_only f) (\<lambda>m. mutability m = Review_required) xs))))"

definition text_contains :: "text_filter \<Rightarrow> string \<Rightarrow> string \<Rightarrow> bool" where
  \<comment> \<open>\<open>contains\<close>: both branches on \<open>exact_phrase\<close> are the same test\<close>
  "text_contains f needle v = (if case_sensitive f then has_infix needle v
     else has_infix (casefold needle) (casefold v))"

definition apply_text_filter :: "items_query \<Rightarrow> memory_item list \<Rightarrow> memory_item list" where
  "apply_text_filter q xs = (let f = q_text q in
     if \<not> truthy (tf_query f) then xs else
     filter (\<lambda>m. let t = text_contains f (the (tf_query f)) (title m); b = text_contains f (the (tf_query f)) (body m) in
       if title_only f \<and> t then True else if body_only f \<and> b then True
       else \<not> title_only f \<and> \<not> body_only f \<and> (t \<or> b)) xs)"

definition py_sorted :: "bool \<Rightarrow> ('a \<Rightarrow> 'k::linorder) \<Rightarrow> 'a list \<Rightarrow> 'a list" where
  \<comment> \<open>\<open>sorted(xs, key=k, reverse=b)\<close>: stable in both directions\<close>
  "py_sorted b k xs = (if b then rev (sort_key k (rev xs)) else sort_key k xs)"

definition sort_items :: "items_query \<Rightarrow> memory_item list \<Rightarrow> memory_item list" where
  "sort_items q xs = (let r = (q_sort_direction q = Desc) in
     case q_sort_by q of
       By_created_at \<Rightarrow> py_sorted r (\<lambda>m. (created_at_utc m, memory_id m)) xs
     | By_updated_at \<Rightarrow> py_sorted r (\<lambda>m. (updated_at_utc m, memory_id m)) xs
     | By_importance \<Rightarrow> py_sorted r (\<lambda>m. (importance m, updated_at_utc m, memory_id m)) xs
     | By_confidence \<Rightarrow> py_sorted r (\<lambda>m. (case confidence m of None \<Rightarrow> -1 | Some c \<Rightarrow> c, updated_at_utc m, memory_id m)) xs
     | By_title \<Rightarrow> py_sorted r (\<lambda>m. (casefold (title m), memory_id m)) xs)"

definition paginate_items :: "items_query \<Rightarrow> memory_item list \<Rightarrow> memory_item list" where
  "paginate_items q xs = take (nat (page_limit (q_pagination q))) (drop (nat (page_offset (q_pagination q))) xs)"

definition select_items :: "items_query \<Rightarrow> memory_item list \<Rightarrow> memory_item list" where
  \<comment> \<open>the filters of \<open>query_items\<close>, in its order\<close>
  "select_items q xs =
     apply_text_filter q (apply_mutation_review_filter q (apply_flag_filter q (apply_scalar_filter q
    (apply_date_filter q (apply_context_filter q (apply_source_filter q (apply_mutability_filter q
    (apply_status_filter q (apply_sensitivity_filter q (apply_class_filter q
    (apply_retrieval_posture q xs)))))))))))"

definition run_query :: "items_query \<Rightarrow> memory_item list \<Rightarrow> query_result" where
  "run_query q ms = (let found = sort_items q (select_items q ms) in
     \<lparr>result_items = paginate_items q found, total_matches = int (length found),
      result_limit = page_limit (q_pagination q), result_offset = page_offset (q_pagination q)\<rparr>)"

definition query_items :: "items_query \<Rightarrow> query_result store_action" where
  "query_items q = bindA (list_items None None None None None 0) (\<lambda>ms. returnA (run_query q ms))"

section \<open>What a query asks for\<close>

definition picks :: "'a choice_filter \<Rightarrow> 'a \<Rightarrow> bool" where
  "picks f x \<longleftrightarrow> (included f = [] \<or> x \<in> set (included f)) \<and> x \<notin> set (excluded f)"

definition bound_ok :: "('a \<Rightarrow> 'a \<Rightarrow> bool) \<Rightarrow> 'a option \<Rightarrow> 'a option \<Rightarrow> bool" where
  \<comment> \<open>a given bound holds of a value that is there\<close>
  "bound_ok le b v \<longleftrightarrow> (case b of None \<Rightarrow> True | Some x \<Rightarrow> (case v of None \<Rightarrow> False | Some y \<Rightarrow> le x y))"

definition wanted :: "string option \<Rightarrow> string option \<Rightarrow> bool" where
  "wanted v x \<longleftrightarrow> truthy v \<longrightarrow> x = v"

definition source_matches :: "source_filter \<Rightarrow> memory_item \<Rightarrow> bool" where
  "source_matches f m \<longleftrightarrow>
     (include_source_kinds f = [] \<or> source_kind (source m) \<in> set (include_source_kinds f)) \<and>
     source_kind (source m) \<notin> set (exclude_source_kinds f) \<and> wanted (sf_source_ref f) (source_ref (source m)) \<and>
     (truthy (source_label_query f) \<longrightarrow> label_contains (the (source_label_query f)) m)"

definition context_matches :: "context_filter \<Rightarrow> memory_context_links \<Rightarrow> bool" where
  "context_matches f l \<longleftrightarrow> wanted (cf_project_id f) (project_id l) \<and>
     wanted (cf_conversation_id f) (conversation_id l) \<and> wanted (cf_request_id f) (request_id l) \<and>
     wanted (cf_parent_memory_id f) (parent_memory_id l)"

definition dates_match :: "date_filter \<Rightarrow> memory_item \<Rightarrow> bool" where
  "dates_match f m \<longleftrightarrow>
     bound_ok (\<le>) (created_after_utc f) (Some (created_at_utc m)) \<and>
     bound_ok (\<ge>) (created_before_utc f) (Some (created_at_utc m)) \<and>
     bound_ok (\<le>) (updated_after_utc f) (Some (updated_at_utc m)) \<and>
     bound_ok (\<ge>) (updated_before_utc f) (Some (updated_at_utc m)) \<and>
     bound_ok (\<le>) (captured_after_utc f) (Some (captured_at_utc (source m))) \<and>
     bound_ok (\<ge>) (captured_before_utc f) (Some (captured_at_utc (source m)))"

definition scalars_match :: "scalar_filter \<Rightarrow> memory_item \<Rightarrow> bool" where
  "scalars_match f m \<longleftrightarrow>
     bound_ok (\<le>) (min_importance f) (Some (importance m)) \<and> bound_ok (\<ge>) (max_importance f) (Some (importance m)) \<and>
     bound_ok (\<le>) (min_confidence f) (confidence m) \<and> bound_ok (\<ge>) (max_confidence f) (confidence m)"

definition flags_match :: "flag_filter \<Rightarrow> memory_flags \<Rightarrow> bool" where
  "flags_match f g \<longleftrightarrow> (pinned_only f \<longrightarrow> pinned g) \<and> (user_declared_only f \<longrightarrow> user_declared g) \<and>
     (inferred_only f \<longrightarrow> inferred g) \<and> (verified_only f \<longrightarrow> verified g) \<and> (stale_only f \<longrightarrow> stale g)"

definition review_matches :: "review_filter \<Rightarrow> memory_item \<Rightarrow> bool" where
  "review_matches f m \<longleftrightarrow> (review_required_only f \<longrightarrow> mutability m = Review_required) \<and>
     (blocked_mutations_only f \<longrightarrow> status m = Blocked) \<and> (pending_candidates_only f \<longrightarrow> status m = Provisional) \<and>
     (autonomous_writes_only f \<longrightarrow> created_by m \<in> {Kind_assistant, Kind_service})"

definition text_matches :: "text_filter \<Rightarrow> memory_item \<Rightarrow> bool" where
  "text_matches f m \<longleftrightarrow> (case tf_query f of None \<Rightarrow> True | Some n \<Rightarrow> n = [] \<or>
     ((title_only f \<or> \<not> body_only f) \<and> text_contains f n (title m)) \<or>
     ((body_only f \<or> \<not> title_only f) \<and> text_contains f n (body m)))"

definition posture_admits :: "retrieval_posture \<Rightarrow> memory_item \<Rightarrow> bool" where
  "posture_admits p m \<longleftrightarrow> memory_class m \<notin> set (posture_suppressed p) \<and>
     (posture_sealed p \<or> (memory_class m \<noteq> Sealed_private \<and> sensitivity m \<noteq> Sealed))"

definition matches :: "items_query \<Rightarrow> memory_item \<Rightarrow> bool" where
  \<comment> \<open>the reference: an item is wanted when it satisfies every part of the query\<close>
  "matches q m \<longleftrightarrow> posture_admits (q_retrieval q) m \<and> picks (q_classes q) (memory_class m) \<and>
     picks (q_sensitivities q) (sensitivity m) \<and> picks (q_statuses q) (status m) \<and>
     picks (q_mutabilities q) (mutability m) \<and> source_matches (q_source q) m \<and>
     context_matches (q_context q) (context_links m) \<and> dates_match (q_dates q) m \<and>
     scalars_match (q_scalars q) m \<and> flags_match (q_flags q) (flags m) \<and> review_matches (q_review q) m \<and>
     text_matches (q_text q) m"

section \<open>The filters select what the query asks for\<close>

lemma filter_if_filter: "filter_if b p xs = filter (\<lambda>x. b \<longrightarrow> p x) xs"
  by (simp add: filter_if_def)

lemma apply_choice_filter: "apply_choice f a xs = filter (\<lambda>m. picks f (a m)) xs"
  by (auto simp: apply_choice_def filter_if_filter picks_def intro!: filter_cong)

lemma at_least_filter: "at_least b a xs = filter (\<lambda>m. bound_ok (\<le>) b (Some (a m))) xs"
  by (cases b) (simp_all add: at_least_def bound_ok_def)

lemma at_most_filter: "at_most b a xs = filter (\<lambda>m. bound_ok (\<ge>) b (Some (a m))) xs"
  by (cases b) (simp_all add: at_most_def bound_ok_def)

lemma posture_filter: "apply_retrieval_posture q xs = filter (posture_admits (q_retrieval q)) xs"
  by (auto simp: apply_retrieval_posture_def posture_admits_def intro!: filter_cong)

lemma source_filter: "apply_source_filter q xs = filter (source_matches (q_source q)) xs"
  by (auto simp: apply_source_filter_def Let_def filter_if_filter source_matches_def wanted_def intro!: filter_cong)

lemma context_filter: "apply_context_filter q xs = filter (\<lambda>m. context_matches (q_context q) (context_links m)) xs"
  by (auto simp: apply_context_filter_def Let_def filter_if_filter context_matches_def wanted_def intro!: filter_cong)

lemma date_filter: "apply_date_filter q xs = filter (dates_match (q_dates q)) xs"
  by (auto simp: apply_date_filter_def Let_def at_least_filter at_most_filter dates_match_def intro!: filter_cong)

lemma bound_opt_filter:
  "(case b of None \<Rightarrow> xs | Some x \<Rightarrow> filter (\<lambda>m. case a m of None \<Rightarrow> False | Some c \<Rightarrow> le x c) xs) =
     filter (\<lambda>m. bound_ok le b (a m)) xs"
  by (cases b) (simp_all add: bound_ok_def)

lemma scalar_filter: "apply_scalar_filter q xs = filter (scalars_match (q_scalars q)) xs"
  unfolding apply_scalar_filter_def Let_def at_least_filter at_most_filter
    bound_opt_filter [where le = "(\<le>)"] bound_opt_filter [where le = "\<lambda>x c. c \<le> x"]
  by (auto simp: scalars_match_def intro!: filter_cong)

lemma flag_filter: "apply_flag_filter q xs = filter (\<lambda>m. flags_match (q_flags q) (flags m)) xs"
  by (auto simp: apply_flag_filter_def Let_def filter_if_filter flags_match_def intro!: filter_cong)

lemma review_filter: "apply_mutation_review_filter q xs = filter (review_matches (q_review q)) xs"
  by (auto simp: apply_mutation_review_filter_def Let_def filter_if_filter review_matches_def intro!: filter_cong)

lemma text_filter: "apply_text_filter q xs = filter (text_matches (q_text q)) xs"
proof (cases "tf_query (q_text q)")
  case (Some n)
  then show ?thesis
    by (cases "n = []") (auto simp: apply_text_filter_def Let_def text_matches_def intro!: filter_cong)
qed (simp add: apply_text_filter_def text_matches_def Let_def)

lemma select_items_matches: "select_items q xs = filter (matches q) xs"
  unfolding select_items_def text_filter review_filter flag_filter scalar_filter date_filter context_filter
    source_filter apply_mutability_filter_def apply_status_filter_def apply_sensitivity_filter_def
    apply_class_filter_def apply_choice_filter posture_filter filter_filter
  by (rule filter_cong [OF refl]) (auto simp: matches_def)

lemma set_py_sorted [simp]: "set (py_sorted b k xs) = set xs"
  by (simp add: py_sorted_def)

lemma length_py_sorted [simp]: "length (py_sorted b k xs) = length xs"
  by (simp add: py_sorted_def)

lemma mset_py_sorted [simp]: "mset (py_sorted b k xs) = mset xs"
  by (simp add: py_sorted_def)

lemma mset_sort_items [simp]: "mset (sort_items q xs) = mset xs"
  by (simp add: sort_items_def Let_def split: sort_field.split)

lemma sort_items_simps [simp]: "set (sort_items q xs) = set xs" "length (sort_items q xs) = length xs"
  by (metis mset_sort_items mset_eq_setD) (metis mset_sort_items mset_eq_length)

lemma list_items_scope:
  assumes "store_ok s"
  shows "\<exists>ms t. list_items None project conversation None None 0 s = (Inr ms, t) \<and> same_files s t \<and>
    (\<forall>m. m \<in> set ms \<longleftrightarrow> fetched s (memory_id m) = Inr m \<and> listed project conversation None m)"
proof -
  from load_readable_spec [OF assms, of "iter_item_paths s None"] obtain ms t where
    l: "load_readable (iter_item_paths s None) s = (Inr ms, t)" "same_files s t" and
    ms: "ms = concat (map (\<lambda>p. case map_of (files s) p of None \<Rightarrow> []
       | Some m \<Rightarrow> (case load_item m of Inl e \<Rightarrow> [] | Inr x \<Rightarrow> [x])) (iter_item_paths s None))" by blast
  have run: "list_items None project conversation None None 0 s =
      (Inr (newest_first (filter (listed project conversation None) ms)), t)"
    by (simp add: list_items_def bindA_def l(1) Let_def)
  have "m \<in> set ms \<longleftrightarrow> (\<exists>c i old. map_of (files s) (c, i) = Some old \<and> load_item old = Inr m)" for m
  proof
    assume "m \<in> set ms"
    then obtain p where "m \<in> set (case map_of (files s) p of None \<Rightarrow> []
       | Some m \<Rightarrow> (case load_item m of Inl e \<Rightarrow> [] | Inr x \<Rightarrow> [x]))" by (auto simp: ms)
    then obtain old where "map_of (files s) p = Some old" "load_item old = Inr m"
      by (cases "map_of (files s) p"; cases "load_item (the (map_of (files s) p))") auto
    then show "\<exists>c i old. map_of (files s) (c, i) = Some old \<and> load_item old = Inr m"
      by (cases p) blast
  next
    assume "\<exists>c i old. map_of (files s) (c, i) = Some old \<and> load_item old = Inr m"
    then obtain c i old where o: "map_of (files s) (c, i) = Some old" "load_item old = Inr m" by blast
    then have "(c, i) \<in> set (iter_item_paths s None)"
      unfolding set_iter_item_paths by (auto dest: map_of_SomeD intro!: image_eqI [where x = "((c, i), old)"])
    with o show "m \<in> set ms" by (auto simp: ms intro!: bexI [where x = "(c, i)"])
  qed
  also have "\<dots> m \<longleftrightarrow> fetched s (memory_id m) = Inr m" for m
  proof
    assume "\<exists>c i old. map_of (files s) (c, i) = Some old \<and> load_item old = Inr m"
    then obtain c i old where o: "map_of (files s) (c, i) = Some old" "load_item old = Inr m" by blast
    have "memory_id m = i" "normalize_memory_id i = Inr i"
      using loaded_id(1) [OF assms o] store_okD(2) [OF assms o(1)] by simp_all
    then show "fetched s (memory_id m) = Inr m"
      using stored_iff [OF assms, of i old] o by (auto simp: fetched_def)
  next
    assume "fetched s (memory_id m) = Inr m"
    from fetched_scan [OF assms this] show "\<exists>c i old. map_of (files s) (c, i) = Some old \<and> load_item old = Inr m"
      by metis
  qed
  finally have mem: "m \<in> set ms \<longleftrightarrow> fetched s (memory_id m) = Inr m" for m .
  then show ?thesis using run l(2) by (auto simp: newest_first_def)
qed

lemma list_items_all:
  assumes "store_ok s"
  shows "\<exists>ms t. list_items None None None None None 0 s = (Inr ms, t) \<and> same_files s t \<and>
    (\<forall>m. m \<in> set ms \<longleftrightarrow> fetched s (memory_id m) = Inr m)"
proof -
  have "listed None None None m" for m by (simp add: listed_def)
  with list_items_scope [OF assms, of None None] show ?thesis by simp
qed

text \<open>
  A query finds exactly what it asks for: on every store the service answers, an item
  is counted if and only if it can be read back from the store under its own identifier and
  satisfies every part of the query, and the answer is one page of the sorted matches.
\<close>

theorem query_finds_matches:
  assumes "store_ok s"
  shows "\<exists>r t ms. query_items q s = (Inr r, t) \<and> files t = files s \<and>
    (\<forall>m. m \<in> set ms \<longleftrightarrow> fetched s (memory_id m) = Inr m \<and> matches q m) \<and>
    total_matches r = int (length ms) \<and>
    result_items r = take (nat (page_limit (q_pagination q)))
      (drop (nat (page_offset (q_pagination q))) (sort_items q ms))"
proof -
  from list_items_all [OF assms] obtain ms t where
    l: "list_items None None None None None 0 s = (Inr ms, t)" "same_files s t" and
    ms: "\<And>m. m \<in> set ms \<longleftrightarrow> fetched s (memory_id m) = Inr m" by blast
  have q: "query_items q s = (Inr (run_query q ms), t)"
    unfolding query_items_def bindA_step [where m = "list_items None None None None None 0", OF l(1)] by simp
  show ?thesis
  proof (intro exI conjI)
    show "query_items q s = (Inr (run_query q ms), t)" by (rule q)
    show "files t = files s" using l(2) by (simp add: same_files_def)
    show "\<forall>m. m \<in> set (select_items q ms) \<longleftrightarrow> fetched s (memory_id m) = Inr m \<and> matches q m"
      using ms by (auto simp: select_items_matches)
  qed (simp_all add: run_query_def Let_def paginate_items_def)
qed

text \<open>
  Claim C18. A query leaks nothing: without the explicit posture no sealed item and no item of the
  sealed class is ever returned, an item of a suppressed class never is, and every page holds at
  most its limit.
\<close>

theorem query_never_leaks:
  assumes "query_items q s = (Inr r, t)" "m \<in> set (result_items r)"
  shows "memory_class m \<notin> set (posture_suppressed (q_retrieval q)) \<and>
    (posture_sealed (q_retrieval q) \<or> (memory_class m \<noteq> Sealed_private \<and> sensitivity m \<noteq> Sealed)) \<and>
    int (length (result_items r)) \<le> max 0 (page_limit (q_pagination q))"
proof -
  from assms(1) obtain ms where r: "r = run_query q ms"
    by (auto simp: query_items_def bindA_eq_Inr)
  with assms(2) have "m \<in> set (sort_items q (select_items q ms))"
    by (auto simp: run_query_def Let_def paginate_items_def dest!: in_set_takeD in_set_dropD)
  then have "matches q m" by (simp add: select_items_matches)
  moreover have "int (length (result_items r)) \<le> max 0 (page_limit (q_pagination q))"
    by (simp add: r run_query_def Let_def paginate_items_def)
  ultimately show ?thesis by (simp add: matches_def posture_admits_def)
qed

definition page :: "items_query \<Rightarrow> int \<Rightarrow> items_query" where
  \<comment> \<open>the query for the k-th page\<close>
  "page q k = q\<lparr>q_pagination := (q_pagination q)\<lparr>page_offset := k * page_limit (q_pagination q)\<rparr>\<rparr>"

lemma page_fields [simp]:
  "select_items (page q k) ms = select_items q ms" "sort_items (page q k) ms = sort_items q ms"
  "page_limit (q_pagination (page q k)) = page_limit (q_pagination q)"
  "page_offset (q_pagination (page q k)) = k * page_limit (q_pagination q)"
  by (simp_all add: page_def select_items_matches matches_def [abs_def] sort_items_def)

lemma pages_take:
  "concat (map (\<lambda>k. take n (drop (k * n) xs)) [0..<j]) = take (j * n) xs"
proof (induction j)
  case (Suc j)
  have "take (j * n) xs @ take n (drop (j * n) xs) = take (j * n + n) xs" by (simp add: take_add)
  with Suc show ?case by (simp add: add.commute)
qed simp

text \<open>
  Paging is complete and repeats nothing: over an unchanged list of items, the pages
  zero to j of a validated query, one after the other, are the sorted matches, as soon as they
  have room for all of them.
\<close>

theorem pages_partition_matches:
  assumes "make_query q = Inr q'" "total_matches (run_query q' ms) \<le> int j * page_limit (q_pagination q')"
  shows "concat (map (\<lambda>k. result_items (run_query (page q' (int k)) ms)) [0..<j]) = sort_items q' (filter (matches q') ms)"
proof -
  let ?n = "nat (page_limit (q_pagination q'))" and ?xs = "sort_items q' (select_items q' ms)"
  have "1 \<le> page_limit (q_pagination q')"
    using assms(1) by (auto simp: make_query_def validate_query_def check_pagination_def bindR_eq_Inr_iff)
  then have offset: "nat (int k * page_limit (q_pagination q')) = k * ?n" for k
    by (simp add: nat_mult_distrib)
  have "result_items (run_query (page q' (int k)) ms) = take ?n (drop (k * ?n) ?xs)" for k
    by (simp add: run_query_def Let_def paginate_items_def offset)
  then have "concat (map (\<lambda>k. result_items (run_query (page q' (int k)) ms)) [0..<j]) = take (j * ?n) ?xs"
    by (simp add: pages_take)
  moreover have "length ?xs \<le> j * ?n"
  proof -
    have "nat (int (length ?xs)) \<le> nat (int j * page_limit (q_pagination q'))"
      using assms(2) by (intro nat_mono) (simp add: run_query_def Let_def)
    then show ?thesis by (simp only: nat_int offset)
  qed
  ultimately show ?thesis by (simp add: select_items_matches)
qed

lemma query_finds_matches_witness:
  "\<exists>r t ms. query_items default_query sample_store = (Inr r, t) \<and> files t = files sample_store \<and>
    (\<forall>m. m \<in> set ms \<longleftrightarrow> fetched sample_store (memory_id m) = Inr m \<and> matches default_query m) \<and>
    total_matches r = int (length ms)"
  using query_finds_matches [OF sample_store_ok, of default_query] by metis

lemma query_never_leaks_witness:
  "\<exists>r t. query_items default_query sample_store = (Inr r, t) \<and> sample_item \<in> set (result_items r) \<and>
     sensitivity sample_item \<noteq> Sealed"
proof -
  have "case fst (query_items default_query sample_store) of Inr r \<Rightarrow> result_items r = [sample_item] | Inl _ \<Rightarrow> False"
    by code_simp
  then obtain r t where r: "query_items default_query sample_store = (Inr r, t)" "result_items r = [sample_item]"
    by (cases "query_items default_query sample_store"; cases "fst (query_items default_query sample_store)") simp_all
  from query_never_leaks [OF r(1), of sample_item] r show ?thesis by (auto simp: default_query_def)
qed

lemma pages_partition_matches_witness:
  "concat (map (\<lambda>k. result_items (run_query (page (default_query\<lparr>q_pagination := \<lparr>page_limit = 1, page_offset = 0\<rparr>\<rparr>)
     (int k)) [sample_item, sample_item\<lparr>updated_at_utc := 7\<rparr>])) [0..<2]) =
   [sample_item\<lparr>updated_at_utc := 7\<rparr>, sample_item]"
proof -
  let ?q = "default_query\<lparr>q_pagination := \<lparr>page_limit = 1, page_offset = 0\<rparr>\<rparr>"
    and ?ms = "[sample_item, sample_item\<lparr>updated_at_utc := 7\<rparr>]"
  have "make_query ?q = Inr ?q" by code_simp
  moreover have "total_matches (run_query ?q ?ms) \<le> int 2 * page_limit (q_pagination ?q)" by code_simp
  ultimately have "concat (map (\<lambda>k. result_items (run_query (page ?q (int k)) ?ms)) [0..<2]) =
      sort_items ?q (filter (matches ?q) ?ms)" by (rule pages_partition_matches)
  moreover have "sort_items ?q (filter (matches ?q) ?ms) = [sample_item\<lparr>updated_at_utc := 7\<rparr>, sample_item]"
    by code_simp
  ultimately show ?thesis by simp
qed

end
