(* ===== verification/Decimals.thy ===== *)
theory Decimals
  imports Complex_Main Json
begin

text \<open>
  Numbers the code computes as floats, as exact rationals: rounding to a number of decimals
  (\<open>round(x, n)\<close>, ties to the even digit), the fixed formats \<open>{x:.2f}\<close> and \<open>{x:.3f}\<close>, and
  clamping to an interval.  The rounding of binary floating point itself is not modelled, so a
  comparison that a score meets up to the last bit may fall the other way in Python.
\<close>

definition half_even :: "rat \<Rightarrow> int" where
  "half_even r = (let h = \<lfloor>r\<rfloor>; d = r - of_int h in
     if d < 1/2 then h else if 1/2 < d then h + 1 else if even h then h else h + 1)"

definition round_to :: "nat \<Rightarrow> rat \<Rightarrow> rat" where
  "round_to n r = of_int (half_even (r * 10 ^ n)) / 10 ^ n"

definition format_fixed :: "nat \<Rightarrow> rat \<Rightarrow> string" where
  \<comment> \<open>a non-negative number with \<open>n\<close> decimals\<close>
  "format_fixed n r = (let k = nat (half_even (r * 10 ^ n)); low = digits_of (k mod 10 ^ n) in
     digits_of (k div 10 ^ n) @ ''.'' @ replicate (n - length low) CHR ''0'' @ low)"

definition clamp :: "rat \<Rightarrow> rat" where
  "clamp r = max 0 (min 1 r)"

lemma clamp_bounds [simp]: "0 \<le> clamp r" "clamp r \<le> 1"
  by (simp_all add: clamp_def)

lemma clamp_mono: "r \<le> s \<Longrightarrow> clamp r \<le> clamp s"
  by (auto simp: clamp_def)

lemma clamp_same: "0 \<le> r \<Longrightarrow> r \<le> 1 \<Longrightarrow> clamp r = r"
  by (simp add: clamp_def)

lemma half_even_of_int [simp]: "half_even (of_int i) = i"
  by (simp add: half_even_def)

lemma half_even_bounds: "r - 1/2 \<le> of_int (half_even r)" "of_int (half_even r) \<le> r + 1/2"
proof -
  have "of_int \<lfloor>r\<rfloor> \<le> r" "r < of_int \<lfloor>r\<rfloor> + 1" by linarith+
  then show "r - 1/2 \<le> of_int (half_even r)" "of_int (half_even r) \<le> r + 1/2"
    unfolding half_even_def Let_def by (simp_all split: if_splits; linarith)+
qed

lemma half_even_mono:
  assumes "r \<le> s"
  shows "half_even r \<le> half_even s"
proof (cases "\<lfloor>r\<rfloor> = \<lfloor>s\<rfloor>")
  case True
  with assms show ?thesis by (auto simp: half_even_def Let_def)
next
  case False
  with floor_mono [OF assms] have "\<lfloor>r\<rfloor> + 1 \<le> \<lfloor>s\<rfloor>" by simp
  moreover have "half_even r \<le> \<lfloor>r\<rfloor> + 1" "\<lfloor>s\<rfloor> \<le> half_even s" by (simp_all add: half_even_def Let_def)
  ultimately show ?thesis by simp
qed

lemma round_to_mono: "r \<le> s \<Longrightarrow> round_to n r \<le> round_to n s"
  unfolding round_to_def by (intro divide_right_mono) (simp_all add: half_even_mono mult_right_mono)

lemma round_to_int [simp]: "round_to n (of_int i) = of_int i"
proof -
  have "(of_int i :: rat) * 10 ^ n = of_int (i * 10 ^ n)" by simp
  then show ?thesis unfolding round_to_def by (simp only: half_even_of_int) simp
qed

lemma round_to_01 [simp]: "round_to n 0 = 0" "round_to n 1 = 1"
  using round_to_int [of n 0] round_to_int [of n 1] by simp_all

lemma round_to_unit: "0 \<le> r \<Longrightarrow> r \<le> 1 \<Longrightarrow> 0 \<le> round_to n r \<and> round_to n r \<le> 1"
  using round_to_mono [of 0 r n] round_to_mono [of r 1 n] by simp

end
