(* ===== verification/MemoryClassification.thy ===== *)
theory MemoryClassification
  imports Decimals MemoryRequests
begin

text \<open>
  \<open>MemoryClassificationService\<close> of \<open>app/memory/services/memory_classification_service.py\<close>: the
  rule-first placement of a memory candidate.  It decides class, sensitivity, status, mutability,
  importance, durability and whether the candidate is stored, and words its reasons.  The three
  thresholds of the constructor are a record; their defaults are \<open>default_classifier\<close>.
\<close>

datatype store_decision = Do_not_store | Working_only | Store | Store_provisional | Store_review_required

primrec store_decision_value :: "store_decision \<Rightarrow> string" where
  "store_decision_value Do_not_store = ''do_not_store''"
| "store_decision_value Working_only = ''working_only''"
| "store_decision_value Store = ''store''"
| "store_decision_value Store_provisional = ''store_provisional''"
| "store_decision_value Store_review_required = ''review_required''"

record memory_candidate =
  cand_body :: string
  cand_title :: "string option"
  cand_source_kind :: source_kind
  cand_source_ref :: "string option"
  cand_source_label :: "string option"
  cand_conversation_id :: "string option"
  cand_project_id :: "string option"
  cand_actor :: mutation_actor
  explicit_user_declared :: bool
  explicit_preference :: bool
  explicit_private :: bool
  explicit_sealed :: bool
  review_hint :: bool
  repetition_count :: int
  cand_confidence :: "rat option"

record classification =
  cl_class :: memory_class
  cl_sensitivity :: memory_sensitivity
  cl_mutability :: memory_mutability
  cl_status :: memory_status
  cl_importance :: rat
  durable :: bool
  cl_decision :: store_decision
  cl_review_required :: bool
  cl_why_stored :: string
  reasoning_summary :: string

record classifier =
  low_confidence_threshold :: rat
  review_preference_threshold :: int
  durable_working_max_length :: int

definition default_classifier :: classifier where
  "default_classifier = \<lparr>low_confidence_threshold = 65/100, review_preference_threshold = 2,
     durable_working_max_length = 40\<rparr>"

section \<open>Keywords\<close>

definition personal_sensitive_keywords :: "string list" where
  "personal_sensitive_keywords = [''trauma'', ''abuse'', ''diagnosis'', ''medical'', ''therapy'', ''ptsd'',
     ''depression'', ''anxiety'', ''ssn'', ''social security'', ''bank account'', ''password'', ''secret'',
     ''private'', ''confidential'', ''suicidal'', ''self harm'', ''self-harm'', ''address'', ''phone number'',
     ''email password'']"

definition apostrophe :: char where
  "apostrophe = CHR 0x27"

definition preference_keywords :: "string list" where
  "preference_keywords = [''i prefer'', ''prefer'', ''i like'', ''i don'' @ apostrophe # ''t like'',
     ''i do not like'', ''remember that i'', ''from now on'', ''please remember'', ''always use'', ''never use'']"

definition project_keywords :: "string list" where
  "project_keywords = [''blocker'', ''milestone'', ''deadline'', ''decision'', ''constraint'', ''scope'', ''phase'',
     ''stage'', ''roadmap'', ''project'', ''task'', ''todo'', ''to-do'']"

definition conversation_keywords :: "string list" where
  "conversation_keywords = [''unresolved'', ''follow up'', ''follow-up'', ''thread'', ''summary'', ''asked'',
     ''question'', ''next step'', ''next steps'']"

definition operational_keywords :: "string list" where
  "operational_keywords = [''command'', ''cli'', ''shell'', ''path'', ''environment'', ''env'', ''setup'', ''install'',
     ''configure'', ''config'', ''service'', ''port'', ''host'', ''loopback'']"

definition contains_any :: "string \<Rightarrow> string list \<Rightarrow> bool" where
  "contains_any t ws \<longleftrightarrow> list_ex (\<lambda>w. has_infix w t) ws"

section \<open>The rules\<close>

definition classify_memory_class :: "memory_candidate \<Rightarrow> memory_class" where
  "classify_memory_class c = (let
       b = casefold (cand_body c); t = casefold (case cand_title c of None \<Rightarrow> [] | Some t \<Rightarrow> t);
       k = cand_source_kind c; project = truthy (cand_project_id c); conversation = truthy (cand_conversation_id c)
     in
     if explicit_sealed c \<or> explicit_private c then Sealed_private
     else if k = Runtime_trace then
       (if contains_any b operational_keywords \<or> contains_any t operational_keywords then Operational else Audit)
     else if k = Research_source then Research
     else if explicit_preference c \<or> (explicit_user_declared c \<and> contains_any b preference_keywords) then Preference
     else if project \<and> (contains_any b project_keywords \<or> contains_any t project_keywords) then Project
     else if project \<and> k \<in> {Project_update, Imported_file} then Project
     else if k = Imported_file then (if \<not> project then Research else Project)
     else if conversation \<and> (contains_any b conversation_keywords \<or> contains_any t conversation_keywords)
       then Conversation
     else if explicit_user_declared c \<and> conversation then Conversation
     else Working)"

definition classify_sensitivity :: "memory_candidate \<Rightarrow> memory_class \<Rightarrow> memory_sensitivity" where
  "classify_sensitivity c k =
     (if explicit_sealed c \<or> k = Sealed_private then Sealed
      else if explicit_private c \<or> contains_any (casefold (cand_body c)) personal_sensitive_keywords then Private
      else if k = Audit then Internal
      else if k = Research \<and> cand_source_kind c = Research_source then Public
      else Internal)"

definition classify_status :: "classifier \<Rightarrow> memory_candidate \<Rightarrow> memory_class \<Rightarrow> memory_status" where
  "classify_status p c k =
     (if review_hint c then Provisional
      else if k = Preference \<and> \<not> explicit_user_declared c then Provisional
      else if k = Research \<and> (case cand_confidence c of None \<Rightarrow> True | Some r \<Rightarrow> r < low_confidence_threshold p)
        then Provisional
      else if cand_source_kind c = Assistant_inference then Provisional
      else Active)"

definition classify_mutability :: "memory_candidate \<Rightarrow> memory_class \<Rightarrow> memory_status \<Rightarrow> memory_mutability" where
  "classify_mutability c k s =
     (if k = Audit then Append_only
      else if k = Sealed_private then Review_required
      else if k = Research then (if s = Provisional then Review_required else Append_only)
      else if k = Preference \<and> \<not> explicit_user_declared c then Review_required
      else if s = Provisional then Review_required
      else Live_editable)"

primrec base_importance :: "memory_class \<Rightarrow> rat" where
  "base_importance Working = 25/100"
| "base_importance Conversation = 45/100"
| "base_importance Project = 75/100"
| "base_importance Research = 65/100"
| "base_importance Operational = 55/100"
| "base_importance Preference = 70/100"
| "base_importance Sealed_private = 70/100"
| "base_importance Audit = 50/100"

definition repetition_bonus :: "int \<Rightarrow> rat" where
  "repetition_bonus n = (if 1 < n then min (12/100) (3/100 * of_int (n - 1)) else 0)"

definition classify_importance :: "memory_candidate \<Rightarrow> memory_class \<Rightarrow> memory_status \<Rightarrow> rat" where
  "classify_importance c k s = (let
       r = base_importance k + (if explicit_user_declared c then 10/100 else 0) +
           (if explicit_preference c then 8/100 else 0) +
           (if truthy (cand_project_id c) \<and> k = Project then 5/100 else 0) +
           repetition_bonus (repetition_count c) - (if s = Provisional then 8/100 else 0) +
           (case cand_confidence c of None \<Rightarrow> 0 | Some x \<Rightarrow> (x - 1/2) * (15/100))
     in max 0 (min 1 (round_to 3 r)))"

definition classify_durability :: "classifier \<Rightarrow> memory_candidate \<Rightarrow> memory_class \<Rightarrow> memory_status \<Rightarrow> bool" where
  "classify_durability p c k s \<longleftrightarrow>
     (if k \<in> {Project, Research, Operational, Preference, Sealed_private, Audit} then True
      else if k = Conversation then True
      else if k = Working then
        (if explicit_user_declared c then True
         else if durable_working_max_length p \<le> int (length (strip (cand_body c))) then True
         else if s = Provisional then False else False)
      else False)"

definition requires_review_of :: "classifier \<Rightarrow> memory_candidate \<Rightarrow> memory_class \<Rightarrow> memory_sensitivity \<Rightarrow> memory_status \<Rightarrow> bool" where
  "requires_review_of p c k v s \<longleftrightarrow>
     review_hint c \<or> v \<in> {Private, Sealed} \<or> (k = Preference \<and> \<not> explicit_user_declared c) \<or>
     (cand_source_kind c = Assistant_inference \<and> k \<in> {Preference, Sealed_private}) \<or>
     (cand_source_kind c = Assistant_inference \<and> repetition_count c < review_preference_threshold p) \<or>
     (s = Provisional \<and> cand_actor c = Assistant)"

definition classify_store_decision ::
  "memory_candidate \<Rightarrow> memory_class \<Rightarrow> memory_status \<Rightarrow> bool \<Rightarrow> bool \<Rightarrow> store_decision" where
  "classify_store_decision c k s needs_review lasting =
     (if length (strip (cand_body c)) < 8 \<and> \<not> explicit_user_declared c \<and> k = Working then Do_not_store
      else if needs_review then Store_review_required
      else if k = Working \<and> \<not> lasting then Working_only
      else if s = Provisional then Store_provisional
      else Store)"

section \<open>The wording\<close>

definition build_why_stored :: "memory_candidate \<Rightarrow> memory_class \<Rightarrow> memory_status \<Rightarrow> bool \<Rightarrow> bool \<Rightarrow> string" where
  "build_why_stored c k s needs_review lasting =
     (if k = Preference then
        (if explicit_user_declared c then ''User explicitly stated a stable preference worth preserving.''
         else ''Possible preference candidate detected and kept provisionally for review.'')
      else if k = Project then
        ''Project-scoped information was captured to preserve continuity, decisions, or blockers.''
      else if k = Research then
        (if s = Provisional
         then ''Research-related information was captured provisionally pending stronger confidence or review.''
         else ''Research-related information was captured for durable evidence continuity.'')
      else if k = Operational then
        ''Operational truth or environment procedure was captured for repeatable system continuity.''
      else if k = Audit then ''Audit-worthy system or runtime trace was captured for accountability.''
      else if k = Sealed_private then
        ''Sensitive private material was classified into sealed memory for stronger protection.''
      else if k = Conversation then
        ''Conversation continuity information was captured to preserve unresolved context and follow-through.''
      else if lasting then
        ''Working context was preserved because it appeared important enough to outlast the immediate moment.''
      else if needs_review then
        ''Candidate memory was retained cautiously for review rather than fully trusted.''
      else ''Working context was retained for near-term continuity.'')"

definition build_reasoning_summary ::
  "memory_candidate \<Rightarrow> memory_class \<Rightarrow> memory_sensitivity \<Rightarrow> memory_status \<Rightarrow> store_decision \<Rightarrow> bool \<Rightarrow> string" where
  "build_reasoning_summary c k v s d needs_review = join ''; ''
     ([''class='' @ class_value k, ''sensitivity='' @ sensitivity_value v, ''status='' @ status_value s,
       ''store_decision='' @ store_decision_value d] @
      (if truthy (cand_project_id c) then [''project-scoped''] else []) @
      (if truthy (cand_conversation_id c) then [''conversation-linked''] else []) @
      (if explicit_user_declared c then [''user-declared''] else []) @
      (if cand_source_kind c = Assistant_inference then [''assistant-inferred''] else []) @
      (if needs_review then [''review-required''] else []))"

definition classify_candidate :: "classifier \<Rightarrow> memory_candidate \<Rightarrow> memory_error + classification" where
  "classify_candidate p c =
     bindR (raise_if (strip (cand_body c) = []) (ValueError ''Memory candidate body cannot be empty.'')) (\<lambda>_.
     let k = classify_memory_class c;
         v = classify_sensitivity c k;
         s = classify_status p c k;
         u = classify_mutability c k s;
         i = classify_importance c k s;
         lasting = classify_durability p c k s;
         needs_review = requires_review_of p c k v s;
         d = classify_store_decision c k s needs_review lasting
     in Inr \<lparr>cl_class = k, cl_sensitivity = v, cl_mutability = u, cl_status = s, cl_importance = i, durable = lasting,
          cl_decision = d, cl_review_required = needs_review,
          cl_why_stored = build_why_stored c k s needs_review lasting,
          reasoning_summary = build_reasoning_summary c k v s d needs_review\<rparr>)"

section \<open>What a classification guarantees\<close>

lemma classify_candidate_iff:
  "classify_candidate p c = Inr r \<longleftrightarrow> strip (cand_body c) \<noteq> [] \<and>
     (let k = classify_memory_class c; v = classify_sensitivity c k; s = classify_status p c k;
          lasting = classify_durability p c k s; needs_review = requires_review_of p c k v s;
          d = classify_store_decision c k s needs_review lasting
      in r = \<lparr>cl_class = k, cl_sensitivity = v, cl_mutability = classify_mutability c k s, cl_status = s,
        cl_importance = classify_importance c k s, durable = lasting, cl_decision = d,
        cl_review_required = needs_review, cl_why_stored = build_why_stored c k s needs_review lasting,
        reasoning_summary = build_reasoning_summary c k v s d needs_review\<rparr>)"
  unfolding classify_candidate_def bindR_raise_if if_Inl_eq_Inr Let_def by auto

lemma classified_fields:
  assumes "classify_candidate p c = Inr r"
  shows "cl_class r = classify_memory_class c" "cl_sensitivity r = classify_sensitivity c (cl_class r)"
    "cl_status r = classify_status p c (cl_class r)" "cl_mutability r = classify_mutability c (cl_class r) (cl_status r)"
    "cl_importance r = classify_importance c (cl_class r) (cl_status r)"
    "durable r = classify_durability p c (cl_class r) (cl_status r)"
    "cl_review_required r = requires_review_of p c (cl_class r) (cl_sensitivity r) (cl_status r)"
    "cl_decision r = classify_store_decision c (cl_class r) (cl_status r) (cl_review_required r) (durable r)"
    "cl_why_stored r = build_why_stored c (cl_class r) (cl_status r) (cl_review_required r) (durable r)"
    "reasoning_summary r = build_reasoning_summary c (cl_class r) (cl_sensitivity r) (cl_status r) (cl_decision r)
       (cl_review_required r)"
    "strip (cand_body c) \<noteq> []"
  using assms by (simp_all add: classify_candidate_iff Let_def)

lemma explicit_private_class: "explicit_sealed c \<or> explicit_private c \<Longrightarrow> classify_memory_class c = Sealed_private"
  by (simp add: classify_memory_class_def Let_def)

lemma sealed_class_explicit:
  assumes "classify_memory_class c = Sealed_private"
  shows "explicit_sealed c \<or> explicit_private c"
proof (rule ccontr)
  assume "\<not> ?thesis"
  with assms show False unfolding classify_memory_class_def Let_def by (simp split: if_splits)
qed

text \<open>
  Private material is never simply stored: a candidate is placed in the sealed class
  exactly when it is marked private or sealed, and then it is sealed, can be changed after review
  only and waits for review; and a candidate whose text names sensitive matters is at least
  private, is never stored without review, and is dropped only when it is a short working note.
\<close>

theorem private_candidates_need_review:
  assumes "classify_candidate p c = Inr r"
  shows "(cl_class r = Sealed_private \<longleftrightarrow> explicit_sealed c \<or> explicit_private c) \<and>
    (cl_class r = Sealed_private \<longrightarrow> cl_sensitivity r = Sealed \<and> cl_mutability r = Review_required \<and>
       cl_decision r = Store_review_required) \<and>
    (contains_any (casefold (cand_body c)) personal_sensitive_keywords \<longrightarrow>
       cl_sensitivity r \<in> {Private, Sealed} \<and> cl_decision r \<in> {Store_review_required, Do_not_store})"
proof (intro conjI impI)
  note f = classified_fields [OF assms]
  show "cl_class r = Sealed_private \<longleftrightarrow> explicit_sealed c \<or> explicit_private c"
    using explicit_private_class sealed_class_explicit f(1) by metis
  show "cl_sensitivity r = Sealed" "cl_mutability r = Review_required" if "cl_class r = Sealed_private"
    using that f(2,4) by (simp_all add: classify_sensitivity_def classify_mutability_def)
  show "cl_decision r = Store_review_required" if "cl_class r = Sealed_private"
    using that f(2,7,8)
    by (simp add: classify_store_decision_def requires_review_of_def classify_sensitivity_def)
  assume "contains_any (casefold (cand_body c)) personal_sensitive_keywords"
  then show v: "cl_sensitivity r \<in> {Private, Sealed}" using f(2) by (simp add: classify_sensitivity_def)
  then have "cl_review_required r" using f(7) by (simp add: requires_review_of_def)
  with f(8) show "cl_decision r \<in> {Store_review_required, Do_not_store}"
    by (simp add: classify_store_decision_def)
qed

text \<open>
  Inference is never trusted at once: a candidate the assistant inferred is provisional,
  and as long as it has not been repeated as often as the service demands it is not stored
  without review.
\<close>

theorem inference_needs_repetition:
  assumes "classify_candidate p c = Inr r" "cand_source_kind c = Assistant_inference"
  shows "cl_status r = Provisional \<and> cl_decision r \<noteq> Store \<and>
    (repetition_count c < review_preference_threshold p \<longrightarrow> cl_decision r \<in> {Store_review_required, Do_not_store})"
proof -
  note f = classified_fields [OF assms(1)]
  have s: "cl_status r = Provisional" using f(3) assms(2) by (simp add: classify_status_def)
  moreover from this have "cl_decision r \<noteq> Store" using f(8) by (simp add: classify_store_decision_def)
  moreover have "cl_decision r \<in> {Store_review_required, Do_not_store}"
    if "repetition_count c < review_preference_threshold p"
    using that assms(2) f(7,8) by (simp add: classify_store_decision_def requires_review_of_def)
  ultimately show ?thesis by blast
qed

lemma base_importance_bounds: "25/100 \<le> base_importance k \<and> base_importance k \<le> 75/100"
  by (cases k) simp_all

lemma build_why_stored_bounds:
  "1 \<le> length (build_why_stored c k s b d) \<and> length (build_why_stored c k s b d) \<le> 500"
  by (simp add: build_why_stored_def)

lemma classify_importance_unit: "0 \<le> classify_importance c k s" "classify_importance c k s \<le> 1"
  by (simp_all add: classify_importance_def Let_def)

lemma repetition_bonus_mono: "m \<le> n \<Longrightarrow> repetition_bonus m \<le> repetition_bonus n"
  by (auto simp: repetition_bonus_def min_def)

text \<open>
  The importance of a candidate is a number between zero and one, and hearing the same
  thing more often never makes it less important.
\<close>

theorem importance_bounded_and_monotone:
  assumes "repetition_count c \<le> n"
  shows "0 \<le> classify_importance c k s \<and>
    classify_importance c k s \<le> classify_importance (c\<lparr>repetition_count := n\<rparr>) k s \<and>
    classify_importance (c\<lparr>repetition_count := n\<rparr>) k s \<le> 1"
proof -
  have "classify_importance c k s \<le> classify_importance (c\<lparr>repetition_count := n\<rparr>) k s"
    unfolding classify_importance_def Let_def
    by (intro max.mono min.mono order_refl round_to_mono)
       (use repetition_bonus_mono [OF assms] in simp)
  then show ?thesis by (simp add: classify_importance_unit)
qed

definition sample_candidate :: memory_candidate where
  "sample_candidate = \<lparr>cand_body = ''My password is kept in the drawer'', cand_title = None,
     cand_source_kind = Assistant_inference, cand_source_ref = None, cand_source_label = None,
     cand_conversation_id = None, cand_project_id = None, cand_actor = Assistant, explicit_user_declared = False,
     explicit_preference = False, explicit_private = False, explicit_sealed = False, review_hint = False,
     repetition_count = 1, cand_confidence = Some (1/2)\<rparr>"

lemma sample_candidate_classified: "\<exists>r. classify_candidate default_classifier sample_candidate = Inr r"
proof -
  have "strip (cand_body sample_candidate) \<noteq> []" by code_simp
  then show ?thesis by (simp add: classify_candidate_iff Let_def)
qed

lemma private_candidates_need_review_witness:
  "\<exists>r. classify_candidate default_classifier sample_candidate = Inr r \<and> cl_sensitivity r \<in> {Private, Sealed} \<and>
     cl_decision r \<in> {Store_review_required, Do_not_store}"
proof -
  have "contains_any (casefold (cand_body sample_candidate)) personal_sensitive_keywords" by code_simp
  with sample_candidate_classified private_candidates_need_review show ?thesis by blast
qed

lemma inference_needs_repetition_witness:
  "\<exists>r. classify_candidate default_classifier sample_candidate = Inr r \<and> cl_status r = Provisional \<and>
     cl_decision r \<in> {Store_review_required, Do_not_store}"
proof -
  obtain r where r: "classify_candidate default_classifier sample_candidate = Inr r"
    using sample_candidate_classified by blast
  from inference_needs_repetition [OF r] r show ?thesis
    by (auto simp: sample_candidate_def default_classifier_def)
qed

lemma importance_bounded_and_monotone_witness:
  "classify_importance sample_candidate Working Provisional \<le>
     classify_importance (sample_candidate\<lparr>repetition_count := 4\<rparr>) Working Provisional"
proof -
  have "repetition_count sample_candidate \<le> 4" by (simp add: sample_candidate_def)
  from importance_bounded_and_monotone [OF this] show ?thesis by blast
qed

end
