(* ===== verification/MemorySalience.thy ===== *)
theory MemorySalience
  imports MemoryClassification
begin

text \<open>
  \<open>MemorySalienceService\<close> of \<open>app/memory/services/memory_salience_service.py\<close>: how much an item
  or a classified candidate matters now, and whether to pin, promote, archive or resurface it.
  The weights of the constructor are a record, the clock is an argument.  Scores are exact
  rationals (see \<open>Decimals\<close>).
\<close>

record salience_context =
  recurrence_count :: int
  current_task_active :: bool
  deadline_near :: bool
  explicit_user_emphasis :: bool
  current_project_id :: "string option"
  current_conversation_id :: "string option"

record salience_result =
  salience_score :: rat
  recurrence_score :: rat
  consequence_score :: rat
  urgency_score :: rat
  durability_score :: rat
  source_trust_adjustment :: rat
  resurface_recommended :: bool
  pin_recommended :: bool
  promotion_recommended :: bool
  archive_recommended :: bool
  salience_summary :: string

record salience_weights =
  recurrence_weight :: rat
  consequence_weight :: rat
  urgency_weight :: rat
  durability_weight :: rat
  trust_share :: rat

definition default_context :: salience_context where
  "default_context = \<lparr>recurrence_count = 1, current_task_active = False, deadline_near = False,
     explicit_user_emphasis = False, current_project_id = None, current_conversation_id = None\<rparr>"

definition default_weights :: salience_weights where
  "default_weights = \<lparr>recurrence_weight = 22/100, consequence_weight = 28/100, urgency_weight = 20/100,
     durability_weight = 20/100, trust_share = 10/100\<rparr>"

definition make_weights :: "salience_weights \<Rightarrow> memory_error + salience_weights" where
  \<comment> \<open>the check of the constructor\<close>
  "make_weights w =
     bindR (raise_if (1/1000000 < abs (recurrence_weight w + consequence_weight w + urgency_weight w +
         durability_weight w + trust_share w - 1))
       (ValueError ''Salience weights must sum to 1.0.'')) (\<lambda>_. Inr w)"

section \<open>Tables\<close>

definition consequence_keywords :: "string list" where
  "consequence_keywords = [''blocker'', ''critical'', ''urgent'', ''deadline'', ''milestone'', ''decision'',
     ''constraint'', ''security'', ''privacy'', ''safety'', ''architecture'', ''deployment'', ''failure'', ''broken'',
     ''must'', ''required'']"

definition urgency_keywords :: "string list" where
  "urgency_keywords = [''today'', ''tomorrow'', ''asap'', ''urgent'', ''soon'', ''immediately'', ''now'', ''deadline'',
     ''blocked'', ''waiting on'']"

primrec class_durability_base :: "memory_class \<Rightarrow> rat" where
  "class_durability_base Working = 22/100"
| "class_durability_base Conversation = 48/100"
| "class_durability_base Project = 82/100"
| "class_durability_base Research = 72/100"
| "class_durability_base Operational = 66/100"
| "class_durability_base Preference = 78/100"
| "class_durability_base Sealed_private = 62/100"
| "class_durability_base Audit = 55/100"

primrec score_source_trust_adjustment :: "source_kind \<Rightarrow> rat" where
  \<comment> \<open>the table covers every kind, so its default is never used\<close>
  "score_source_trust_adjustment User_message = 90/100"
| "score_source_trust_adjustment Manual_entry = 88/100"
| "score_source_trust_adjustment Project_update = 82/100"
| "score_source_trust_adjustment Research_source = 80/100"
| "score_source_trust_adjustment Imported_file = 74/100"
| "score_source_trust_adjustment Runtime_trace = 78/100"
| "score_source_trust_adjustment System_event = 72/100"
| "score_source_trust_adjustment Assistant_inference = 48/100"

section \<open>Scores\<close>

definition score_recurrence :: "int \<Rightarrow> bool \<Rightarrow> rat" where
  "score_recurrence n emphasis = clamp (18/100 + of_int (min (max n 1) 8 - 1) * (10/100) +
     (if emphasis then 12/100 else 0))"

primrec class_consequence :: "memory_class \<Rightarrow> rat" where
  "class_consequence Project = 28/100"
| "class_consequence Preference = 18/100"
| "class_consequence Research = 16/100"
| "class_consequence Operational = 18/100"
| "class_consequence Working = 0"
| "class_consequence Conversation = 0"
| "class_consequence Sealed_private = 0"
| "class_consequence Audit = 0"

definition item_text :: "memory_item \<Rightarrow> string" where
  "item_text m = casefold (join '' '' [title m, body m, why_stored m])"

definition candidate_text :: "memory_candidate \<Rightarrow> string" where
  "candidate_text c = casefold (join '' '' (filter (\<lambda>t. t \<noteq> [])
     [case cand_title c of None \<Rightarrow> [] | Some t \<Rightarrow> t, cand_body c]))"

definition score_consequence_for_item :: "memory_item \<Rightarrow> rat" where
  "score_consequence_for_item m = clamp (20/100 + class_consequence (memory_class m) +
     (if contains_any (item_text m) consequence_keywords then 20/100 else 0) +
     (if user_declared (flags m) then 8/100 else 0) + (if verified (flags m) then 5/100 else 0))"

definition score_consequence_for_candidate :: "memory_candidate \<Rightarrow> classification \<Rightarrow> rat" where
  "score_consequence_for_candidate c r = clamp (18/100 + class_consequence (cl_class r) +
     (if contains_any (candidate_text c) consequence_keywords then 20/100 else 0) +
     (if explicit_user_declared c then 8/100 else 0))"

definition age_in_days :: "time \<Rightarrow> memory_item \<Rightarrow> rat" where
  "age_in_days now m = of_int (now - updated_at_utc m) / 86400000000"

definition pressing :: "salience_context \<Rightarrow> string \<Rightarrow> rat" where
  \<comment> \<open>what the text and the room add to the urgency\<close>
  "pressing x t = (if contains_any t urgency_keywords then 30/100 else 0) +
     (if current_task_active x then 18/100 else 0) + (if deadline_near x then 18/100 else 0)"

definition score_urgency_for_item :: "time \<Rightarrow> memory_item \<Rightarrow> salience_context \<Rightarrow> rat" where
  "score_urgency_for_item now m x = (let age = max (age_in_days now m) 0 in
     clamp (8/100 + pressing x (item_text m) +
       (if age \<le> 2 then 12/100 else if 14 < age then - (8/100) else 0)))"

definition score_urgency_for_candidate :: "memory_candidate \<Rightarrow> salience_context \<Rightarrow> rat" where
  "score_urgency_for_candidate c x = clamp (10/100 + pressing x (candidate_text c))"

definition score_durability_for_item :: "memory_item \<Rightarrow> salience_context \<Rightarrow> rat" where
  "score_durability_for_item m x = (let l = context_links m in
     clamp (class_durability_base (memory_class m) + (if user_declared (flags m) then 10/100 else 0) +
       (if verified (flags m) then 5/100 else 0) +
       (if truthy (current_project_id x) \<and> project_id l = current_project_id x then 6/100 else 0) +
       (if truthy (current_conversation_id x) \<and> conversation_id l = current_conversation_id x then 4/100 else 0) -
       (case status m of Provisional \<Rightarrow> 12/100 | Archived \<Rightarrow> 22/100 | Superseded \<Rightarrow> 28/100 | _ \<Rightarrow> 0)))"

definition score_durability_for_candidate :: "memory_candidate \<Rightarrow> classification \<Rightarrow> rat" where
  "score_durability_for_candidate c r =
     clamp (class_durability_base (cl_class r) + (if explicit_user_declared c then 10/100 else 0) -
       (if cl_status r = Provisional then 12/100 else 0) + repetition_bonus (repetition_count c))"

definition raw_salience :: "salience_weights \<Rightarrow> rat \<Rightarrow> rat \<Rightarrow> rat \<Rightarrow> rat \<Rightarrow> rat \<Rightarrow> rat" where
  "raw_salience w r c u d t = r * recurrence_weight w + c * consequence_weight w + u * urgency_weight w +
     d * durability_weight w + t * trust_share w"

definition apply_sensitivity_and_status_adjustments :: "rat \<Rightarrow> memory_sensitivity \<Rightarrow> memory_status \<Rightarrow> rat" where
  "apply_sensitivity_and_status_adjustments score v s = clamp (score -
     (case v of Private \<Rightarrow> 5/100 | Sealed \<Rightarrow> 10/100 | _ \<Rightarrow> 0) -
     (case s of Provisional \<Rightarrow> 5/100 | Archived \<Rightarrow> 15/100 | Superseded \<Rightarrow> 20/100 | Blocked \<Rightarrow> 12/100 | Active \<Rightarrow> 0))"

section \<open>Recommendations\<close>

definition recommend_pin_for_item :: "memory_item \<Rightarrow> rat \<Rightarrow> bool" where
  "recommend_pin_for_item m score \<longleftrightarrow>
     (if sensitivity m \<in> {Private, Sealed} then False else if pinned (flags m) then False
      else 82/100 \<le> score \<and> memory_class m \<in> {Project, Preference})"

definition recommend_promotion_for_item :: "memory_item \<Rightarrow> rat \<Rightarrow> rat \<Rightarrow> rat \<Rightarrow> bool" where
  "recommend_promotion_for_item m score r d \<longleftrightarrow>
     (if memory_class m \<notin> {Working, Conversation} then False else if sensitivity m = Sealed then False
      else 70/100 \<le> score \<and> 55/100 \<le> r \<and> 55/100 \<le> d)"

definition recommend_archive_for_item :: "memory_item \<Rightarrow> rat \<Rightarrow> rat \<Rightarrow> rat \<Rightarrow> bool" where
  "recommend_archive_for_item m score u r \<longleftrightarrow>
     (if memory_class m \<notin> {Working, Conversation} then False
      else if status m \<in> {Archived, Superseded} then False else if pinned (flags m) then False
      else score \<le> 28/100 \<and> u \<le> 22/100 \<and> r \<le> 22/100)"

definition recommend_resurface_for_item :: "memory_item \<Rightarrow> rat \<Rightarrow> rat \<Rightarrow> rat \<Rightarrow> bool" where
  "recommend_resurface_for_item m score u r \<longleftrightarrow>
     (if sensitivity m \<in> {Private, Sealed} then False
      else if status m \<in> {Archived, Superseded, Blocked} then False
      else 68/100 \<le> score \<and> (50/100 \<le> u \<or> 60/100 \<le> r))"

definition salience_reasoning ::
  "rat \<Rightarrow> rat \<Rightarrow> rat \<Rightarrow> rat \<Rightarrow> rat \<Rightarrow> rat \<Rightarrow> bool \<Rightarrow> bool \<Rightarrow> bool \<Rightarrow> bool \<Rightarrow> memory_class \<Rightarrow> memory_sensitivity \<Rightarrow> string" where
  "salience_reasoning score r c u d t pin promote archive resurface k v =
     (let rs = (if pin then [''pin''] else []) @ (if promote then [''promote''] else []) @
               (if archive then [''archive''] else []) @ (if resurface then [''resurface''] else [])
      in join ''; '' ([''class='' @ class_value k, ''sensitivity='' @ sensitivity_value v,
        ''salience='' @ format_fixed 3 score, ''recurrence='' @ format_fixed 3 r,
        ''consequence='' @ format_fixed 3 c, ''urgency='' @ format_fixed 3 u,
        ''durability='' @ format_fixed 3 d, ''trust='' @ format_fixed 3 t] @
        [if rs \<noteq> [] then ''recommend='' @ join '','' rs else ''recommend=none'']))"

definition salience_answer ::
  "rat \<Rightarrow> rat \<Rightarrow> rat \<Rightarrow> rat \<Rightarrow> rat \<Rightarrow> rat \<Rightarrow> bool \<Rightarrow> bool \<Rightarrow> bool \<Rightarrow> bool \<Rightarrow> memory_class \<Rightarrow> memory_sensitivity
     \<Rightarrow> salience_result" where
  \<comment> \<open>the rounded result both entry points return\<close>
  "salience_answer score r c u d t pin promote archive resurface k v =
     \<lparr>salience_score = round_to 3 score, recurrence_score = round_to 3 r, consequence_score = round_to 3 c,
      urgency_score = round_to 3 u, durability_score = round_to 3 d, source_trust_adjustment = round_to 3 t,
      resurface_recommended = resurface, pin_recommended = pin, promotion_recommended = promote,
      archive_recommended = archive,
      salience_summary = salience_reasoning score r c u d t pin promote archive resurface k v\<rparr>"

definition item_salience :: "salience_weights \<Rightarrow> time \<Rightarrow> memory_item \<Rightarrow> salience_context \<Rightarrow> rat" where
  \<comment> \<open>the unrounded \<open>salience_score\<close> of \<open>score_item\<close>\<close>
  "item_salience w now m x = (let
       r = score_recurrence (recurrence_count x) (explicit_user_emphasis x \<or> user_declared (flags m));
       raw = raw_salience w r (score_consequence_for_item m) (score_urgency_for_item now m x)
         (score_durability_for_item m x) (score_source_trust_adjustment (source_kind (source m)))
     in apply_sensitivity_and_status_adjustments (clamp (raw * (7/10) + clamp (importance m) * (3/10)))
          (sensitivity m) (status m))"

definition score_item :: "salience_weights \<Rightarrow> time \<Rightarrow> memory_item \<Rightarrow> salience_context \<Rightarrow> salience_result" where
  "score_item w now m x = (let
       r = score_recurrence (recurrence_count x) (explicit_user_emphasis x \<or> user_declared (flags m));
       c = score_consequence_for_item m;
       u = score_urgency_for_item now m x;
       d = score_durability_for_item m x;
       t = score_source_trust_adjustment (source_kind (source m));
       score = item_salience w now m x
     in salience_answer score r c u d t (recommend_pin_for_item m score)
          (recommend_promotion_for_item m score r d) (recommend_archive_for_item m score u r)
          (recommend_resurface_for_item m score u r) (memory_class m) (sensitivity m))"

definition score_candidate ::
  "salience_weights \<Rightarrow> memory_candidate \<Rightarrow> classification \<Rightarrow> salience_context \<Rightarrow> salience_result" where
  "score_candidate w c r x = (let
       n = score_recurrence (max (repetition_count c) (recurrence_count x))
             (explicit_user_emphasis x \<or> explicit_user_declared c);
       q = score_consequence_for_candidate c r;
       u = score_urgency_for_candidate c x;
       d = score_durability_for_candidate c r;
       t = score_source_trust_adjustment (cand_source_kind c);
       score = apply_sensitivity_and_status_adjustments
         (clamp (raw_salience w n q u d t * (7/10) + cl_importance r * (3/10))) (cl_sensitivity r) (cl_status r);
       open = cl_sensitivity r \<notin> {Private, Sealed}
     in salience_answer score n q u d t
          (82/100 \<le> score \<and> cl_class r \<in> {Project, Preference} \<and> open)
          (70/100 \<le> score \<and> cl_class r \<in> {Working, Conversation} \<and> durable r)
          (score \<le> 28/100 \<and> cl_class r = Working \<and> \<not> cl_review_required r)
          (68/100 \<le> score \<and> 55/100 \<le> n \<and> open) (cl_class r) (cl_sensitivity r))"

section \<open>What the scores guarantee\<close>

lemma trust_unit: "0 \<le> score_source_trust_adjustment k \<and> score_source_trust_adjustment k \<le> 1"
  by (cases k) simp_all

lemmas score_defs = score_recurrence_def score_consequence_for_item_def score_consequence_for_candidate_def
  score_urgency_for_item_def score_urgency_for_candidate_def score_durability_for_item_def
  score_durability_for_candidate_def apply_sensitivity_and_status_adjustments_def Let_def

definition in_unit_range :: "rat \<Rightarrow> bool" where
  "in_unit_range r \<longleftrightarrow> 0 \<le> r \<and> r \<le> 1"

lemma round_clamp: "in_unit_range (round_to n (clamp r))"
  using round_to_unit [of "clamp r" n] by (simp add: in_unit_range_def)

lemma round_trust: "in_unit_range (round_to n (score_source_trust_adjustment k))"
  using round_to_unit trust_unit by (simp add: in_unit_range_def)

lemma salience_scores_in_unit:
  "list_all in_unit_range (map (\<lambda>f. f (score_item w now m x))
    [salience_score, recurrence_score, consequence_score, urgency_score, durability_score, source_trust_adjustment])"
  "list_all in_unit_range (map (\<lambda>f. f (score_candidate w c r x))
    [salience_score, recurrence_score, consequence_score, urgency_score, durability_score, source_trust_adjustment])"
  unfolding score_item_def score_candidate_def item_salience_def salience_answer_def score_defs
  by (simp_all add: round_clamp round_trust)

text \<open>
  Recommendations respect privacy and state: nothing private or sealed is ever pinned
  or resurfaced, nothing pinned is pinned again or archived, what is archived or superseded is
  neither archived nor resurfaced, sealed items are not promoted, and no item is to be promoted
  and archived at once.
\<close>

theorem recommendations_respect_privacy:
  shows "(sensitivity m \<in> {Private, Sealed} \<longrightarrow>
       \<not> pin_recommended (score_item w now m x) \<and> \<not> resurface_recommended (score_item w now m x)) \<and>
     (pinned (flags m) \<longrightarrow> \<not> pin_recommended (score_item w now m x) \<and> \<not> archive_recommended (score_item w now m x)) \<and>
     (status m \<in> {Archived, Superseded} \<longrightarrow>
       \<not> archive_recommended (score_item w now m x) \<and> \<not> resurface_recommended (score_item w now m x)) \<and>
     (sensitivity m = Sealed \<longrightarrow> \<not> promotion_recommended (score_item w now m x)) \<and>
     \<not> (promotion_recommended (score_item w now m x) \<and> archive_recommended (score_item w now m x))"
  unfolding score_item_def Let_def salience_answer_def
  by (auto simp: recommend_pin_for_item_def recommend_archive_for_item_def recommend_resurface_for_item_def
      recommend_promotion_for_item_def)

definition weights_ok :: "salience_weights \<Rightarrow> bool" where
  "weights_ok w \<longleftrightarrow> 0 \<le> recurrence_weight w \<and> 0 \<le> consequence_weight w \<and> 0 \<le> urgency_weight w \<and>
     0 \<le> durability_weight w \<and> 0 \<le> trust_share w"

lemma score_recurrence_mono: "n \<le> n' \<Longrightarrow> score_recurrence n e \<le> score_recurrence n' e"
  unfolding score_recurrence_def
  by (intro clamp_mono add_right_mono add_left_mono mult_right_mono) (simp_all add: min_def max_def)

lemma raw_salience_mono:
  assumes "weights_ok w" "r \<le> r'" "u \<le> u'" "d \<le> d'"
  shows "raw_salience w r c u d t \<le> raw_salience w r' c u' d' t"
  unfolding raw_salience_def
  using assms by (intro add_mono order_refl mult_right_mono) (simp_all add: weights_ok_def)

lemma item_salience_rec:
  assumes "weights_ok w" "recurrence_count x \<le> n"
  shows "item_salience w now m x \<le> item_salience w now m (x\<lparr>recurrence_count := n\<rparr>)"
proof -
  have same: "score_urgency_for_item now m (x\<lparr>recurrence_count := n\<rparr>) = score_urgency_for_item now m x"
    "score_durability_for_item m (x\<lparr>recurrence_count := n\<rparr>) = score_durability_for_item m x"
    by (simp_all add: score_urgency_for_item_def score_durability_for_item_def pressing_def)
  show ?thesis
    unfolding item_salience_def Let_def apply_sensitivity_and_status_adjustments_def same
    by (intro clamp_mono diff_right_mono add_right_mono mult_right_mono raw_salience_mono [OF assms(1)])
       (simp_all add: score_recurrence_mono assms(2))
qed

lemma item_salience_archived:
  assumes "weights_ok w" "status m = Active"
  shows "item_salience w now (m\<lparr>status := Archived\<rparr>) x \<le> item_salience w now m x"
proof -
  have same: "score_consequence_for_item (m\<lparr>status := Archived\<rparr>) = score_consequence_for_item m"
    "score_urgency_for_item now (m\<lparr>status := Archived\<rparr>) x = score_urgency_for_item now m x"
    by (simp_all add: score_consequence_for_item_def score_urgency_for_item_def item_text_def age_in_days_def)
  have d: "score_durability_for_item (m\<lparr>status := Archived\<rparr>) x \<le> score_durability_for_item m x"
    unfolding score_durability_for_item_def Let_def by (rule clamp_mono) (simp add: assms(2))
  let ?base = "\<lambda>m. clamp (raw_salience w
      (score_recurrence (recurrence_count x) (explicit_user_emphasis x \<or> user_declared (flags m)))
      (score_consequence_for_item m) (score_urgency_for_item now m x) (score_durability_for_item m x)
      (score_source_trust_adjustment (source_kind (source m))) * (7/10) + clamp (importance m) * (3/10))"
  have "?base (m\<lparr>status := Archived\<rparr>) \<le> ?base m"
    unfolding same
    by (intro clamp_mono add_mono mult_right_mono) (simp_all add: raw_salience_mono [OF assms(1)] d)
  then show ?thesis
    unfolding item_salience_def Let_def apply_sensitivity_and_status_adjustments_def
    by (intro clamp_mono) (simp add: assms(2) split: memory_sensitivity.split)
qed

text \<open>
  Salience moves the right way: with weights that are not negative an item that recurs
  more often never scores less, and archiving an active item never makes it score more.
\<close>

theorem salience_monotone:
  assumes "weights_ok w" "recurrence_count x \<le> n" "status m = Active"
  shows "salience_score (score_item w now m x) \<le> salience_score (score_item w now m (x\<lparr>recurrence_count := n\<rparr>)) \<and>
    salience_score (score_item w now (m\<lparr>status := Archived\<rparr>) x) \<le> salience_score (score_item w now m x)"
  using item_salience_rec [OF assms(1,2)] item_salience_archived [OF assms(1,3)]
  by (simp add: score_item_def Let_def salience_answer_def round_to_mono)

lemma recommendations_respect_privacy_witness:
  "\<not> pin_recommended (score_item default_weights 0 (sample_item\<lparr>sensitivity := Private\<rparr>) default_context) \<and>
   \<not> resurface_recommended (score_item default_weights 0 (sample_item\<lparr>sensitivity := Private\<rparr>) default_context)"
  using recommendations_respect_privacy [of "sample_item\<lparr>sensitivity := Private\<rparr>" default_weights 0 default_context]
  by simp

lemma salience_monotone_witness:
  "salience_score (score_item default_weights 0 sample_item default_context) \<le>
     salience_score (score_item default_weights 0 sample_item (default_context\<lparr>recurrence_count := 3\<rparr>)) \<and>
   salience_score (score_item default_weights 0 (sample_item\<lparr>status := Archived\<rparr>) default_context) \<le>
     salience_score (score_item default_weights 0 sample_item default_context)"
  by (rule salience_monotone) (simp_all add: weights_ok_def default_weights_def default_context_def sample_item_def)

end
