(* ===== verification/MemoryConsolidation.thy ===== *)
theory MemoryConsolidation
  imports MemoryGovernance MemoryQueries MemorySalience
begin

text \<open>
  \<open>MemoryConsolidationService\<close> of \<open>app/memory/services/memory_consolidation_service.py\<close>: it
  lists the items of a scope, scores them, proposes archive, promotion and merge candidates, and
  applies those marked safe as mutation requests through the mutation service.  The clock is an
  argument, read once per call; the fresh identifiers of requests and new items are functions of
  the position of the candidate in the run.
\<close>

datatype consolidation_action = Act_archive | Act_promote | Act_merge | Act_summarize | Act_defer | Act_leave_as_is

primrec consolidation_value :: "consolidation_action \<Rightarrow> string" where
  "consolidation_value Act_archive = ''archive''"
| "consolidation_value Act_promote = ''promote''"
| "consolidation_value Act_merge = ''merge''"
| "consolidation_value Act_summarize = ''summarize''"
| "consolidation_value Act_defer = ''defer''"
| "consolidation_value Act_leave_as_is = ''leave_as_is''"

record consolidation_candidate =
  cc_action :: consolidation_action
  cc_targets :: "string list"
  cc_from_class :: "memory_class option"
  cc_to_class :: "memory_class option"
  cc_salience :: rat
  cc_recurrence :: int
  cc_reason :: string
  auto_applicable :: bool
  review_likely :: bool
  proposed_title :: "string option"
  proposed_body :: "string option"

record consolidation_plan =
  generated_at_utc :: time
  candidates :: "consolidation_candidate list"

record consolidation_result =
  executed_plan :: consolidation_plan
  mutation_records :: "mutation_record list"
  skipped_candidates :: "consolidation_candidate list"

record consolidator =
  co_weights :: salience_weights
  stale_working_days :: int
  archive_salience_threshold :: rat
  promote_salience_threshold :: rat
  recurrence_threshold :: int
  allow_merge_apply :: bool
  co_actor :: mutation_actor
  co_mode :: mutation_mode

definition default_consolidator :: consolidator where
  "default_consolidator = \<lparr>co_weights = default_weights, stale_working_days = 7,
     archive_salience_threshold = 30/100, promote_salience_threshold = 72/100, recurrence_threshold = 2,
     allow_merge_apply = False, co_actor = Service, co_mode = System_maintenance\<rparr>"

section \<open>Signatures, recurrence and salience\<close>

definition signature :: "memory_item \<Rightarrow> string" where
  "signature m = (let t = casefold (strip (title m)) in
     if t \<noteq> [] then t else join '' '' (take 12 (words (casefold (strip (body m))))))"

definition build_recurrence_map :: "memory_item list \<Rightarrow> (string \<times> int) list" where
  "build_recurrence_map ms = foldl (\<lambda>d m. let k = signature m in
     AList.update k ((case map_of d k of None \<Rightarrow> 0 | Some n \<Rightarrow> n) + 1) d) [] ms"

definition recurrence_of :: "(string \<times> int) list \<Rightarrow> memory_item \<Rightarrow> int \<Rightarrow> int" where
  "recurrence_of rec m d = (case map_of rec (signature m) of None \<Rightarrow> d | Some n \<Rightarrow> n)"

type_synonym salience_map = "(string \<times> salience_result) list"

definition build_salience_map ::
  "consolidator \<Rightarrow> time \<Rightarrow> (string \<times> int) list \<Rightarrow> string option \<Rightarrow> string option \<Rightarrow> memory_item list \<Rightarrow> salience_map" where
  "build_salience_map co now rec project conversation ms = foldl (\<lambda>d m.
     AList.update (memory_id m) (score_item (co_weights co) now m
       \<lparr>recurrence_count = recurrence_of rec m 1, current_task_active = False, deadline_near = False,
        explicit_user_emphasis = user_declared (flags m), current_project_id = project,
        current_conversation_id = conversation\<rparr>) d) [] ms"

definition salience_at :: "salience_map \<Rightarrow> memory_item \<Rightarrow> memory_error + salience_result" where
  "salience_at sal m = (case map_of sal (memory_id m) of None \<Rightarrow> Inl (KeyError (memory_id m)) | Some r \<Rightarrow> Inr r)"

definition group_key :: "memory_item \<Rightarrow> memory_class \<times> string option \<times> string option \<times> string" where
  "group_key m = (memory_class m, project_id (context_links m), conversation_id (context_links m), signature m)"

definition group_related_items ::
  "memory_item list \<Rightarrow> ((memory_class \<times> string option \<times> string option \<times> string) \<times> memory_item list) list" where
  "group_related_items ms = foldl (\<lambda>d m. let k = group_key m in
     AList.update k ((case map_of d k of None \<Rightarrow> [] | Some g \<Rightarrow> g) @ [m]) d) [] ms"

section \<open>Candidates\<close>

definition collectR :: "('a \<Rightarrow> 'e + 'b option) \<Rightarrow> 'a list \<Rightarrow> 'e + 'b list" where
  \<comment> \<open>a loop that appends for some of its elements\<close>
  "collectR f xs = bindR (mapR f xs) (\<lambda>ys. Inr (List.map_filter id ys))"

definition closed_status :: "memory_status \<Rightarrow> bool" where
  "closed_status s \<longleftrightarrow> s \<in> {Archived, Superseded, Blocked}"

definition guarded_item :: "memory_item \<Rightarrow> bool" where
  "guarded_item m \<longleftrightarrow> sensitivity m \<in> {Private, Sealed}"

definition archive_candidate ::
  "consolidator \<Rightarrow> time \<Rightarrow> (string \<times> int) list \<Rightarrow> salience_map \<Rightarrow> memory_item
     \<Rightarrow> memory_error + consolidation_candidate option" where
  "archive_candidate co now rec sal m =
     (if memory_class m \<noteq> Working then Inr None
      else if status m \<notin> {Active, Provisional} then Inr None
      else if pinned (flags m) then Inr None
      else if guarded_item m then Inr None
      else bindR (salience_at sal m) (\<lambda>r. let n = recurrence_of rec m 1 in
        if of_int (stale_working_days co) \<le> age_in_days now m \<and>
           salience_score r \<le> archive_salience_threshold co \<and> n \<le> 1
        then Inr (Some \<lparr>cc_action = Act_archive, cc_targets = [memory_id m], cc_from_class = Some (memory_class m),
          cc_to_class = None, cc_salience = salience_score r, cc_recurrence = n,
          cc_reason = ''Low-salience working memory appears stale and is a good archive candidate.'',
          auto_applicable = True, review_likely = False, proposed_title = None, proposed_body = None\<rparr>)
        else Inr None))"

definition promote_candidate :: "memory_item \<Rightarrow> memory_class \<Rightarrow> rat \<Rightarrow> int \<Rightarrow> string \<Rightarrow> consolidation_candidate" where
  "promote_candidate m goal score n why = \<lparr>cc_action = Act_promote, cc_targets = [memory_id m],
     cc_from_class = Some (memory_class m), cc_to_class = Some goal, cc_salience = score, cc_recurrence = n,
     cc_reason = why, auto_applicable = True, review_likely = (status m = Provisional), proposed_title = None,
     proposed_body = None\<rparr>"

definition working_promotion ::
  "consolidator \<Rightarrow> (string \<times> int) list \<Rightarrow> salience_map \<Rightarrow> memory_item
     \<Rightarrow> memory_error + consolidation_candidate option" where
  "working_promotion co rec sal m =
     (if memory_class m \<noteq> Working then Inr None
      else if closed_status (status m) then Inr None
      else if guarded_item m then Inr None
      else let n = recurrence_of rec m 1 in bindR (salience_at sal m) (\<lambda>r.
        let due = promote_salience_threshold co \<le> salience_score r \<and> recurrence_threshold co \<le> n;
            goal = (if truthy (project_id (context_links m)) \<and> due then Some Project
                    else if truthy (conversation_id (context_links m)) \<and> due then Some Conversation else None)
        in case goal of None \<Rightarrow> Inr None
           | Some t \<Rightarrow> Inr (Some (promote_candidate m t (salience_score r) n
               (''Repeated working memory appears durable enough to promote into '' @ class_value t @ ''.'')))))"

definition conversation_promotion ::
  "consolidator \<Rightarrow> (string \<times> int) list \<Rightarrow> salience_map \<Rightarrow> memory_item
     \<Rightarrow> memory_error + consolidation_candidate option" where
  "conversation_promotion co rec sal m =
     (if memory_class m \<noteq> Conversation then Inr None
      else if closed_status (status m) then Inr None
      else if \<not> truthy (project_id (context_links m)) then Inr None
      else if guarded_item m then Inr None
      else let n = recurrence_of rec m 1 in bindR (salience_at sal m) (\<lambda>r.
        if promote_salience_threshold co \<le> salience_score r \<and> recurrence_threshold co \<le> n
        then Inr (Some (promote_candidate m Project (salience_score r) n
          ''Conversation memory has repeated project significance and is a good project promotion candidate.''))
        else Inr None))"

definition build_merge_body :: "memory_item list \<Rightarrow> string" where
  "build_merge_body ms = join (newline @ newline) (map (\<lambda>m.
     ''['' @ (if title m \<noteq> [] then title m else memory_id m) @ '']'' @ newline @ body m) ms)"

definition merge_candidate ::
  "consolidator \<Rightarrow> (string \<times> int) list \<Rightarrow> salience_map \<Rightarrow> memory_item list
     \<Rightarrow> memory_error + consolidation_candidate option" where
  "merge_candidate co rec sal g =
     (if length g < 2 then Inr None
      else let first = hd g in
      if memory_class first \<notin> {Working, Conversation} then Inr None
      else if list_ex guarded_item g then Inr None
      else if list_ex (\<lambda>m. closed_status (status m)) g then Inr None
      else bindR (mapR (\<lambda>m. bindR (salience_at sal m) (\<lambda>r. Inr (salience_score r))) g) (\<lambda>scores.
        let average = sum_list scores / of_nat (length g); n = recurrence_of rec first (int (length g)) in
        if n < recurrence_threshold co then Inr None
        else Inr (Some \<lparr>cc_action = Act_merge, cc_targets = map memory_id g, cc_from_class = Some (memory_class first),
          cc_to_class = Some (memory_class first), cc_salience = round_to 3 average, cc_recurrence = n,
          cc_reason = ''Multiple overlapping low-level memories appear suitable for cautious merge/compaction.'',
          auto_applicable = allow_merge_apply co, review_likely = (\<not> allow_merge_apply co),
          proposed_title = Some (if title first \<noteq> [] then title first else ''Merged memory''),
          proposed_body = Some (build_merge_body g)\<rparr>)))"

fun deduplicate_candidates ::
  "(consolidation_action \<times> string list \<times> memory_class option) list \<Rightarrow> consolidation_candidate list
     \<Rightarrow> consolidation_candidate list" where
  "deduplicate_candidates seen [] = []"
| "deduplicate_candidates seen (c # cs) = (let k = (cc_action c, cc_targets c, cc_to_class c) in
     if k \<in> set seen then deduplicate_candidates seen cs
     else c # deduplicate_candidates (k # seen) cs)"

definition propose ::
  "consolidator \<Rightarrow> time \<Rightarrow> string option \<Rightarrow> string option \<Rightarrow> memory_item list
     \<Rightarrow> memory_error + consolidation_candidate list" where
  \<comment> \<open>\<open>build_consolidation_plan\<close> after the items are listed\<close>
  "propose co now project conversation ms =
     (let rec = build_recurrence_map ms; sal = build_salience_map co now rec project conversation ms in
      bindR (collectR (archive_candidate co now rec sal) ms) (\<lambda>a.
      bindR (collectR (working_promotion co rec sal) ms) (\<lambda>w.
      bindR (collectR (conversation_promotion co rec sal) ms) (\<lambda>c.
      bindR (collectR (merge_candidate co rec sal) (map snd (group_related_items ms))) (\<lambda>g.
      Inr (deduplicate_candidates [] (a @ w @ c @ g)))))))"

definition build_consolidation_plan ::
  "consolidator \<Rightarrow> time \<Rightarrow> string option \<Rightarrow> string option \<Rightarrow> consolidation_plan store_action" where
  "build_consolidation_plan co now project conversation =
     bindA (list_items None project conversation None None 0) (\<lambda>ms.
     if ms = [] then returnA \<lparr>generated_at_utc = now, candidates = []\<rparr>
     else bindA (liftA (propose co now project conversation ms)) (\<lambda>cs.
       returnA \<lparr>generated_at_utc = now, candidates = cs\<rparr>))"

section \<open>Applying a plan\<close>

definition empty_patch :: mutation_patch where
  "empty_patch = \<lparr>patch_title = None, patch_body = None, patch_why_stored = None, patch_class = None,
     patch_sensitivity = None, patch_mutability = None, patch_status = None, patch_importance = None,
     patch_confidence = None, patch_flags = None, note_body = None, successor_memory_id = None, revision_note = None\<rparr>"

definition empty_target :: mutation_target where
  "empty_target = \<lparr>target_memory_id = None, target_memory_ids = [], expected_revision = None, target_class = None,
     target_project_id = None, target_conversation_id = None\<rparr>"

definition default_review :: review_info where
  "default_review = \<lparr>risk_level = Medium, review_required = False, review_reason = None, policy_rule_id = None,
     sensitivity_conflict = False, autonomous_allowed = False\<rparr>"

definition consolidation_request ::
  "consolidator \<Rightarrow> time \<Rightarrow> string \<Rightarrow> mutation_type \<Rightarrow> mutation_target \<Rightarrow> mutation_patch \<Rightarrow> string \<Rightarrow> bool
     \<Rightarrow> memory_error + mutation_request" where
  \<comment> \<open>the construction the three branches of \<open>_apply_candidate\<close> share\<close>
  "consolidation_request co now mid k t p why dry =
     make_request \<lparr>mutation_id = mid, mutation_type = k, actor = co_actor co, mode = co_mode co, target = t, patch = p,
       request_context = \<lparr>reason = why, context_source_kind = None, context_source_ref = None,
         trigger_event = Some ''memory_consolidation'', context_notes = Some ''Generated by consolidation service.''\<rparr>,
       requested_at_utc = now, review = default_review, requested_by = None, dry_run = dry\<rparr>"

definition candidate_request ::
  "consolidator \<Rightarrow> time \<Rightarrow> string \<Rightarrow> bool \<Rightarrow> consolidation_candidate \<Rightarrow> memory_error + mutation_request" where
  "candidate_request co now mid dry c = (case cc_action c of
       Act_archive \<Rightarrow> consolidation_request co now mid Archive
         (empty_target\<lparr>target_memory_id := Some (hd (cc_targets c))\<rparr>) empty_patch (cc_reason c) dry
     | Act_promote \<Rightarrow> consolidation_request co now mid Promote
         (empty_target\<lparr>target_memory_id := Some (hd (cc_targets c)), target_class := cc_from_class c\<rparr>)
         (empty_patch\<lparr>patch_class := cc_to_class c\<rparr>) (cc_reason c) dry
     | Act_merge \<Rightarrow> consolidation_request co now mid Merge
         (empty_target\<lparr>target_memory_ids := cc_targets c, target_class := cc_from_class c\<rparr>)
         (empty_patch\<lparr>patch_title := proposed_title c, patch_body := proposed_body c,
            patch_class := (case cc_to_class c of Some t \<Rightarrow> Some t | None \<Rightarrow> cc_from_class c)\<rparr>) (cc_reason c) dry
     | a \<Rightarrow> Inl (ValueError (''Unsupported consolidation action for apply: '' @ consolidation_value a)))"

definition apply_candidate ::
  "consolidator \<Rightarrow> mutation_env \<Rightarrow> time \<Rightarrow> string \<Rightarrow> string \<Rightarrow> bool \<Rightarrow> consolidation_candidate \<Rightarrow> record_action" where
  "apply_candidate co env now mid fresh dry c =
     bindA (liftA (candidate_request co now mid dry c)) (apply_mutation env now fresh)"

fun run_candidates ::
  "consolidator \<Rightarrow> mutation_env \<Rightarrow> time \<Rightarrow> (nat \<Rightarrow> string) \<Rightarrow> (nat \<Rightarrow> string) \<Rightarrow> bool \<Rightarrow> nat \<Rightarrow> consolidation_candidate list
     \<Rightarrow> (mutation_record list \<times> consolidation_candidate list) store_action" where
  \<comment> \<open>the loop of \<open>run_consolidation\<close>\<close>
  "run_candidates co env now mids fresh dry i [] = returnA ([], [])"
| "run_candidates co env now mids fresh dry i (c # cs) =
     (if \<not> auto_applicable c then
        bindA (run_candidates co env now mids fresh dry (Suc i) cs) (\<lambda>(rs, ks). returnA (rs, c # ks))
      else bindA (apply_candidate co env now (mids i) (fresh i) dry c) (\<lambda>r.
        bindA (run_candidates co env now mids fresh dry (Suc i) cs) (\<lambda>(rs, ks). returnA (r # rs, ks))))"

definition run_consolidation ::
  "consolidator \<Rightarrow> mutation_env option \<Rightarrow> time \<Rightarrow> (nat \<Rightarrow> string) \<Rightarrow> (nat \<Rightarrow> string) \<Rightarrow> consolidation_plan option \<Rightarrow>
   string option \<Rightarrow> string option \<Rightarrow> bool \<Rightarrow> consolidation_result store_action" where
  \<comment> \<open>the mutation service is optional\<close>
  "run_consolidation co service now mids fresh given project conversation dry = (case service of
       None \<Rightarrow> liftA (Inl (RuntimeError ''MemoryConsolidationService requires a MemoryMutationService to run consolidation.''))
     | Some env \<Rightarrow>
         bindA (case given of Some p \<Rightarrow> returnA p | None \<Rightarrow> build_consolidation_plan co now project conversation) (\<lambda>p.
         bindA (run_candidates co env now mids fresh dry 0 (candidates p)) (\<lambda>(rs, ks).
         returnA \<lparr>executed_plan = p, mutation_records = rs, skipped_candidates = ks\<rparr>)))"

section \<open>What is proposed\<close>

lemma collectR_member:
  "collectR f xs = Inr ys \<Longrightarrow> y \<in> set ys \<Longrightarrow> \<exists>x \<in> set xs. f x = Inr (Some y)"
  by (auto simp: collectR_def bindR_eq_Inr_iff map_filter_def dest!: mapR_set)

lemma collectR_total:
  "(\<And>x. x \<in> set xs \<Longrightarrow> \<exists>y. f x = Inr y) \<Longrightarrow> \<exists>ys. collectR f xs = Inr ys"
  using mapR_total [of xs f] by (auto simp: collectR_def bindR_eq_Inr_iff)

lemma update_fold_keys:
  "map_of d (f x) \<noteq> None \<or> x \<in> set xs \<Longrightarrow> map_of (foldl (\<lambda>d y. AList.update (f y) (g y) d) d xs) (f x) \<noteq> None"
proof (induction xs arbitrary: d)
  case (Cons y ys)
  then have "map_of (AList.update (f y) (g y) d) (f x) \<noteq> None \<or> x \<in> set ys" by (auto simp: map_of_dict_update)
  from Cons.IH [OF this] show ?case by simp
qed simp

lemma salience_keys: "m \<in> set ms \<Longrightarrow> map_of (build_salience_map co now rec p c ms) (memory_id m) \<noteq> None"
  unfolding build_salience_map_def by (rule update_fold_keys) simp

lemma salience_at_total: "m \<in> set ms \<Longrightarrow> \<exists>r. salience_at (build_salience_map co now rec p c ms) m = Inr r"
  using salience_keys [of m ms co now rec p c] by (auto simp: salience_at_def split: option.splits)

definition groups_ok ::
  "memory_item set \<Rightarrow> ((memory_class \<times> string option \<times> string option \<times> string) \<times> memory_item list) list \<Rightarrow> bool" where
  "groups_ok M d \<longleftrightarrow> (\<forall>(k, g) \<in> set d. set g \<subseteq> M \<and> (\<forall>m \<in> set g. group_key m = k))"

lemma groups_ok_step:
  assumes "groups_ok M d" "m \<in> M"
  shows "groups_ok M (AList.update (group_key m) ((case map_of d (group_key m) of None \<Rightarrow> [] | Some g \<Rightarrow> g) @ [m]) d)"
proof -
  let ?old = "case map_of d (group_key m) of None \<Rightarrow> [] | Some g \<Rightarrow> g"
  have old: "set ?old \<subseteq> M \<and> (\<forall>x \<in> set ?old. group_key x = group_key m)"
  proof (cases "map_of d (group_key m)")
    case (Some g)
    with assms(1) show ?thesis by (auto simp: groups_ok_def dest!: map_of_SomeD)
  qed simp
  show ?thesis
    unfolding groups_ok_def
  proof (intro ballI)
    fix e assume e: "e \<in> set (AList.update (group_key m) (?old @ [m]) d)"
    show "case e of (k, g) \<Rightarrow> set g \<subseteq> M \<and> (\<forall>m \<in> set g. group_key m = k)"
    proof (cases "e \<in> set d")
      case True
      with assms(1) show ?thesis unfolding groups_ok_def by blast
    next
      case False
      with dict_update_set [of "fst e" "snd e" "group_key m" "?old @ [m]" d] e
      have "e = (group_key m, ?old @ [m])" by simp
      with old assms(2) show ?thesis by simp
    qed
  qed
qed

lemma group_related_ok: "groups_ok (set ms) (group_related_items ms)"
proof -
  have "set ms \<subseteq> M \<Longrightarrow> groups_ok M d \<Longrightarrow> groups_ok M (foldl (\<lambda>d m. let k = group_key m in
     AList.update k ((case map_of d k of None \<Rightarrow> [] | Some g \<Rightarrow> g) @ [m]) d) d ms)" for M d
    by (induction ms arbitrary: d) (simp_all add: Let_def groups_ok_step)
  from this [of "set ms" "[]"] show ?thesis by (simp add: group_related_items_def groups_ok_def)
qed

lemma group_members:
  assumes "g \<in> set (map snd (group_related_items ms))"
  shows "set g \<subseteq> set ms" "m \<in> set g \<Longrightarrow> n \<in> set g \<Longrightarrow> memory_class m = memory_class n"
  using assms group_related_ok [of ms] by (fastforce simp: groups_ok_def group_key_def)+

lemma group_candidate_total:
  assumes "g \<in> set (map snd (group_related_items ms))"
  shows "\<exists>c. merge_candidate co rec (build_salience_map co now rec' p q ms) g = Inr c"
proof -
  let ?f = "\<lambda>m. bindR (salience_at (build_salience_map co now rec' p q ms) m) (\<lambda>r. Inr (salience_score r))"
  have "\<exists>r. ?f m = Inr r" if "m \<in> set g" for m
  proof -
    have "m \<in> set ms" using group_members(1) [OF assms] that by blast
    then obtain r where "salience_at (build_salience_map co now rec' p q ms) m = Inr r"
      using salience_at_total by blast
    then show ?thesis by simp
  qed
  from mapR_total [where f = ?f and xs = g, OF this] obtain ys where "mapR ?f g = Inr ys" by blast
  then show ?thesis by (simp add: merge_candidate_def Let_def)
qed

lemma propose_total: "\<exists>cs. propose co now p c ms = Inr cs"
proof -
  define rec where "rec = build_recurrence_map ms"
  define sal where "sal = build_salience_map co now rec p c ms"
  have at: "\<exists>r. salience_at sal m = Inr r" if "m \<in> set ms" for m
    using salience_at_total [OF that] unfolding sal_def by blast
  obtain a where a: "collectR (archive_candidate co now rec sal) ms = Inr a"
    using collectR_total [of ms "archive_candidate co now rec sal"] at
    by (fastforce simp: archive_candidate_def Let_def)
  obtain w where w: "collectR (working_promotion co rec sal) ms = Inr w"
    using collectR_total [of ms "working_promotion co rec sal"] at
    by (fastforce simp: working_promotion_def Let_def split: option.splits)
  obtain v where v: "collectR (conversation_promotion co rec sal) ms = Inr v"
    using collectR_total [of ms "conversation_promotion co rec sal"] at
    by (fastforce simp: conversation_promotion_def Let_def)
  obtain g where g: "collectR (merge_candidate co rec sal) (map snd (group_related_items ms)) = Inr g"
    using collectR_total [of "map snd (group_related_items ms)" "merge_candidate co rec sal"]
      group_candidate_total unfolding sal_def by blast
  show ?thesis unfolding propose_def Let_def rec_def [symmetric] sal_def [symmetric] by (simp add: a w v g)
qed

definition open_item :: "memory_item \<Rightarrow> bool" where
  \<comment> \<open>what consolidation may touch: low-level, not private, not closed\<close>
  "open_item m \<longleftrightarrow> memory_class m \<in> {Working, Conversation} \<and> sensitivity m \<in> {Public, Internal} \<and>
     status m \<in> {Active, Provisional}"

lemma open_iff: "open_item m \<longleftrightarrow> memory_class m \<in> {Working, Conversation} \<and> \<not> guarded_item m \<and> \<not> closed_status (status m)"
  by (cases "sensitivity m"; cases "status m") (auto simp: open_item_def guarded_item_def closed_status_def)

definition sound_candidate :: "consolidator \<Rightarrow> time \<Rightarrow> memory_item list \<Rightarrow> consolidation_candidate \<Rightarrow> bool" where
  \<comment> \<open>the targets are open items of the list; what is archived is stale, unpinned working memory; a merge
    applies by itself only where the service was told so\<close>
  "sound_candidate co now ms c \<longleftrightarrow> (\<exists>g. set g \<subseteq> set ms \<and> g \<noteq> [] \<and> cc_targets c = map memory_id g \<and>
     list_all open_item g \<and>
     (case cc_action c of
        Act_archive \<Rightarrow> list_all (\<lambda>m. memory_class m = Working \<and> \<not> pinned (flags m) \<and>
          of_int (stale_working_days co) \<le> age_in_days now m) g
      | Act_promote \<Rightarrow> length g = 1
      | Act_merge \<Rightarrow> 2 \<le> length g \<and> auto_applicable c = allow_merge_apply co
      | _ \<Rightarrow> False))"

lemma archive_sound:
  assumes "m \<in> set ms" "archive_candidate co now rec sal m = Inr (Some c)"
  shows "sound_candidate co now ms c"
proof -
  from assms(2) have "memory_class m = Working" "\<not> pinned (flags m)" "\<not> guarded_item m"
    "status m \<in> {Active, Provisional}" "of_int (stale_working_days co) \<le> age_in_days now m"
    "cc_action c = Act_archive" "cc_targets c = [memory_id m]"
    by (auto simp: archive_candidate_def bindR_eq_Inr_iff Let_def split: if_splits)
  with assms(1) show ?thesis
    unfolding sound_candidate_def by (intro exI [of _ "[m]"]) (auto simp: open_iff closed_status_def)
qed

lemma promotion_sound:
  assumes "m \<in> set ms" "working_promotion co rec sal m = Inr (Some c) \<or> conversation_promotion co rec sal m = Inr (Some c)"
  shows "sound_candidate co now ms c"
proof -
  from assms(2) have "memory_class m \<in> {Working, Conversation}" "\<not> guarded_item m" "\<not> closed_status (status m)"
    "cc_action c = Act_promote" "cc_targets c = [memory_id m]"
    by (auto simp: working_promotion_def conversation_promotion_def promote_candidate_def bindR_eq_Inr_iff Let_def
        split: if_splits option.splits)
  with assms(1) show ?thesis
    unfolding sound_candidate_def by (intro exI [of _ "[m]"]) (simp add: open_iff)
qed

lemma merge_sound:
  assumes "g \<in> set (map snd (group_related_items ms))" "merge_candidate co rec sal g = Inr (Some c)"
  shows "sound_candidate co now ms c"
proof -
  from assms(2) have g: "2 \<le> length g" "memory_class (hd g) \<in> {Working, Conversation}"
    "\<not> list_ex guarded_item g" "\<not> list_ex (\<lambda>m. closed_status (status m)) g"
    "cc_action c = Act_merge" "cc_targets c = map memory_id g" "auto_applicable c = allow_merge_apply co"
    by (auto simp: merge_candidate_def bindR_eq_Inr_iff Let_def split: if_splits)
  then have "hd g \<in> set g" by (cases g) auto
  with group_members(2) [OF assms(1)] g(2) have "\<forall>m \<in> set g. memory_class m \<in> {Working, Conversation}" by metis
  with g have "list_all open_item g" by (auto simp: open_iff list_all_iff list_ex_iff)
  with g group_members(1) [OF assms(1)] show ?thesis
    unfolding sound_candidate_def by (intro exI [of _ g]) auto
qed

lemma deduplicate_subset:
  "set (deduplicate_candidates seen cs) \<subseteq> set cs"
  by (induction seen cs rule: deduplicate_candidates.induct) (auto simp: Let_def)

definition candidate_key :: "consolidation_candidate \<Rightarrow> consolidation_action \<times> string list \<times> memory_class option" where
  "candidate_key c = (cc_action c, cc_targets c, cc_to_class c)"

lemma deduplicate_step:
  "deduplicate_candidates seen (c # cs) = (if candidate_key c \<in> set seen then deduplicate_candidates seen cs
     else c # deduplicate_candidates (candidate_key c # seen) cs)"
  by (simp add: candidate_key_def)

lemma deduplicate_distinct:
  "distinct (map candidate_key (deduplicate_candidates seen cs)) \<and>
   candidate_key ` set (deduplicate_candidates seen cs) \<inter> set seen = {}"
proof (induction cs arbitrary: seen)
  case (Cons c cs)
  show ?case
  proof (cases "candidate_key c \<in> set seen")
    case True
    with Cons.IH [of seen] show ?thesis unfolding deduplicate_step by simp
  next
    case False
    with Cons.IH [of "candidate_key c # seen"] show ?thesis unfolding deduplicate_step by auto
  qed
qed simp

lemma propose_sound:
  assumes "propose co now p c ms = Inr cs"
  shows "list_all (sound_candidate co now ms) cs \<and>
    distinct (map candidate_key cs)"
proof -
  let ?rec = "build_recurrence_map ms"
  let ?sal = "build_salience_map co now ?rec p c ms"
  from assms obtain a w v g where parts: "collectR (archive_candidate co now ?rec ?sal) ms = Inr a"
    "collectR (working_promotion co ?rec ?sal) ms = Inr w" "collectR (conversation_promotion co ?rec ?sal) ms = Inr v"
    "collectR (merge_candidate co ?rec ?sal) (map snd (group_related_items ms)) = Inr g"
    and cs: "cs = deduplicate_candidates [] (a @ w @ v @ g)"
    unfolding propose_def Let_def bindR_eq_Inr_iff sum.inject by (elim exE conjE) (rule that, assumption+, rule sym)
  have "sound_candidate co now ms x" if "x \<in> set a" for x
    using collectR_member [OF parts(1) that] archive_sound by blast
  moreover have "sound_candidate co now ms x" if "x \<in> set w" for x
    using collectR_member [OF parts(2) that] promotion_sound by blast
  moreover have "sound_candidate co now ms x" if "x \<in> set v" for x
    using collectR_member [OF parts(3) that] promotion_sound by blast
  moreover have "sound_candidate co now ms x" if "x \<in> set g" for x
    using collectR_member [OF parts(4) that] merge_sound by blast
  ultimately have "sound_candidate co now ms x" if "x \<in> set (a @ w @ v @ g)" for x
    using that by auto
  with deduplicate_subset [of "[]" "a @ w @ v @ g"] deduplicate_distinct [of "[]" "a @ w @ v @ g"]
  show ?thesis unfolding cs by (auto simp: list_all_iff)
qed

section \<open>Plans and runs over the store\<close>

text \<open>
  Every scope can be planned, and the plan is safe: planning never fails and changes no
  file; each proposal names items read from the store that are working or conversation memory,
  neither private nor sealed, active or provisional; what is to be archived is unpinned working
  memory past the stale age; a merge is marked as applying by itself only where the service allows
  merging; and no proposal occurs twice.
\<close>

theorem consolidation_plan_is_safe:
  assumes "store_ok s"
  shows "\<exists>plan t. build_consolidation_plan co now project conversation s = (Inr plan, t) \<and> files t = files s \<and>
    (\<exists>ms. (\<forall>m \<in> set ms. fetched s (memory_id m) = Inr m) \<and> list_all (sound_candidate co now ms) (candidates plan)) \<and>
    distinct (map candidate_key (candidates plan))"
proof -
  obtain ms t where l: "list_items None project conversation None None 0 s = (Inr ms, t)" "same_files s t"
    "\<forall>m. m \<in> set ms \<longleftrightarrow> fetched s (memory_id m) = Inr m \<and> listed project conversation None m"
    using list_items_scope [OF assms] by blast
  obtain cs where cs: "propose co now project conversation ms = Inr cs" using propose_total by blast
  let ?plan = "\<lparr>generated_at_utc = now, candidates = if ms = [] then [] else cs\<rparr>"
  have "build_consolidation_plan co now project conversation s = (Inr ?plan, t)"
    unfolding build_consolidation_plan_def
      bindA_step [where m = "list_items None project conversation None None 0", OF l(1)]
    by (simp add: cs bindA_def)
  moreover have "list_all (sound_candidate co now ms) (candidates ?plan)" "distinct (map candidate_key (candidates ?plan))"
    using propose_sound [OF cs] by simp_all
  ultimately show ?thesis using l(2,3) by (auto simp: same_files_def intro!: exI [of _ ?plan] exI [of _ ms])
qed

lemma make_request_facts:
  assumes "make_request q = Inr q'"
  shows "dry_run q' = dry_run q"
proof -
  from assms obtain i t p c r b where "validate_request (q\<lparr>mutation_id := i, target := t, patch := p,
      request_context := c, review := r, requested_by := b\<rparr>) = Inr q'"
    by (auto simp: make_request_def bindR_eq_Inr_iff)
  from validate_request_facts(7) [OF this] show ?thesis by simp
qed

lemma candidate_request_dry: "candidate_request co now mid dry c = Inr q \<Longrightarrow> dry_run q = dry"
  by (auto simp: candidate_request_def consolidation_request_def dest!: make_request_facts
      split: consolidation_action.splits)

lemma still_dry: "still (apply_candidate co env now mid fresh True c)"
proof (cases "candidate_request co now mid True c")
  case (Inl e)
  then show ?thesis by (simp add: apply_candidate_def bindA_lift_Inl still_def)
next
  case (Inr q)
  have run: "apply_candidate co env now mid fresh True c s = apply_mutation env now fresh q s" for s
    by (simp add: apply_candidate_def bindA_def Inr)
  have "store_ok (snd (apply_mutation env now fresh q s)) \<and> same_files s (snd (apply_mutation env now fresh q s))"
    if "store_ok s" for s
    using movesD(1,2) [OF apply_mutation_safe that, of env now fresh q] changed_files_passed_gate [OF that, of env now fresh q]
      candidate_request_dry [OF Inr] unfolding same_files_def store_grows_def by blast
  then show ?thesis by (simp add: still_def run)
qed

lemma still_lift: "still (liftA r)"
  by (simp add: still_def)

lemma still_split: "(\<And>x y. still (f x y)) \<Longrightarrow> still (case p of (x, y) \<Rightarrow> f x y)"
  by (cases p) simp

lemma still_run: "still (run_candidates co env now mids fresh True i cs)"
  by (induction cs arbitrary: i)
     (simp_all add: still_return still_bind still_dry still_split)

lemma still_plan: "still (build_consolidation_plan co now project conversation)"
proof -
  have "store_ok (snd (build_consolidation_plan co now project conversation s)) \<and>
      same_files s (snd (build_consolidation_plan co now project conversation s))" if s: "store_ok s" for s
  proof -
    obtain ms t where l: "list_items None project conversation None None 0 s = (Inr ms, t)" "same_files s t"
      using list_items_scope [OF s] by blast
    have "store_ok t" using movesD(1) [OF list_items_moves s] l(1) by (metis snd_conv)
    moreover have "snd (build_consolidation_plan co now project conversation s) = t"
      unfolding build_consolidation_plan_def
        bindA_step [where m = "list_items None project conversation None None 0", OF l(1)]
      by (cases "propose co now project conversation ms") (simp_all add: bindA_def)
    ultimately show ?thesis using l(2) by simp
  qed
  then show ?thesis by (simp add: still_def)
qed

text \<open>
  A dry run of consolidation changes nothing: with any plan, given or built, and any
  policies, every file stays as it is.
\<close>

theorem dry_consolidation_changes_nothing:
  assumes "store_ok s"
  shows "files (snd (run_consolidation co service now mids fresh given project conversation True s)) = files s"
proof (cases service)
  case (Some env)
  have "still (run_consolidation co (Some env) now mids fresh given project conversation True)"
    unfolding run_consolidation_def option.case
    by (intro still_bind still_split still_return still_run) (cases given; simp add: still_return still_plan)
  from stillD(2) [OF this assms] show ?thesis by (simp add: Some same_files_def)
qed (simp add: run_consolidation_def)

lemma safe_apply_candidate: "safe (apply_candidate co env now mid fresh dry c) (\<lambda>_. True)"
  unfolding apply_candidate_def by (intro safe_bind_any safe_lift_any apply_mutation_safe)

lemma safe_return: "safe (returnA x) (\<lambda>_. True)"
  by (rule store.moves_return) simp

lemma safe_split: "(\<And>x y. safe (f x y) P) \<Longrightarrow> safe (case p of (x, y) \<Rightarrow> f x y) P"
  by (cases p) simp

lemma safe_run: "safe (run_candidates co env now mids fresh dry i cs) (\<lambda>_. True)"
  by (induction cs arbitrary: i)
     (simp_all add: safe_return safe_bind_any safe_apply_candidate safe_split)

lemma safe_plan: "safe (build_consolidation_plan co now project conversation) (\<lambda>_. True)"
  unfolding build_consolidation_plan_def
  by (intro safe_bind_any [OF safe_any [OF list_items_moves]] safe_if safe_return safe_bind_any safe_lift_any)

text \<open>
  Consolidation never loses memory: after any run, with any plan and any policies,
  complete or stopped by an exception, every stored item is still stored and its revision has not
  fallen.
\<close>

theorem consolidation_keeps_items:
  assumes "store_ok s" "stored s i = Some m"
  shows "\<exists>m'. stored (snd (run_consolidation co service now mids fresh given project conversation dry s)) i = Some m' \<and>
    item_revision m \<le> item_revision m'"
proof -
  have "safe (run_consolidation co service now mids fresh given project conversation dry) (\<lambda>_. True)"
    unfolding run_consolidation_def
    by (cases service; cases given)
       (simp_all add: safe_lift_any safe_bind_any safe_split safe_return safe_run safe_plan)
  from movesD(2) [OF this assms(1)] assms(2) show ?thesis unfolding store_grows_def by blast
qed

section \<open>Concrete runs\<close>

definition stale_store :: mem_store where
  "stale_store = run store_step [CreateItem (sample_item\<lparr>memory_class := Working, importance := 0\<rparr>)] (empty_store True)"

lemma stale_store_ok: "store_ok stale_store"
  unfolding stale_store_def by (rule item_ledger.inv_run) simp

lemma consolidation_plan_is_safe_witness:
  "\<exists>plan t. build_consolidation_plan default_consolidator 864000000000 None None stale_store = (Inr plan, t) \<and>
     files t = files stale_store \<and> distinct (map candidate_key (candidates plan))"
  using consolidation_plan_is_safe [OF stale_store_ok] by blast

lemma dry_consolidation_changes_nothing_witness:
  "files (snd (run_consolidation default_consolidator (Some sample_env) 864000000000 (\<lambda>i. ''mmut_0001'') (\<lambda>i. ''0001'')
     None None None True stale_store)) = files stale_store"
  by (rule dry_consolidation_changes_nothing [OF stale_store_ok])

lemma consolidation_keeps_items_witness:
  "\<exists>m'. stored (snd (run_consolidation default_consolidator (Some sample_env) 864000000000 (\<lambda>i. ''mmut_0001'')
     (\<lambda>i. ''0001'') None None None False sealed_store)) ''mem_0001'' = Some m' \<and> item_revision sealed_item \<le> item_revision m'"
  by (rule consolidation_keeps_items [OF sealed_store_ok sealed_stored])

end
