(* ===== verification/MemoryFacade.thy ===== *)
theory MemoryFacade
  imports MemoryConsolidation
begin

text \<open>
  The front door of the memory subsystem, \<open>MemoryService\<close> of
  \<open>app/memory/services/memory_service.py\<close>: it wires the services of the other theories
  together.  Most methods delegate; the ones that combine services are here, the ingestion of a
  candidate above all: classify it, score it, build a create request and preview it.  The new
  canonical store behind \<open>create_memory\<close>, \<open>query_memory\<close> and \<open>get_memory\<close> and the summary
  service belong to other components and are not modelled.
\<close>

record memory_service =
  ms_env :: mutation_env
  ms_classifier :: classifier
  ms_consolidator :: consolidator

definition make_service :: "mutation_env \<Rightarrow> int \<Rightarrow> rat \<Rightarrow> rat \<Rightarrow> int \<Rightarrow> bool \<Rightarrow> memory_service" where
  "make_service env stale_days archive_threshold promote_threshold recurrence merges =
     \<lparr>ms_env = env, ms_classifier = default_classifier,
      ms_consolidator = default_consolidator\<lparr>stale_working_days := stale_days,
        archive_salience_threshold := archive_threshold, promote_salience_threshold := promote_threshold,
        recurrence_threshold := recurrence, allow_merge_apply := merges\<rparr>\<rparr>"

record candidate_analysis =
  an_classification :: classification
  an_salience :: salience_result

definition classify_and_score_candidate ::
  "memory_service \<Rightarrow> memory_candidate \<Rightarrow> salience_context option \<Rightarrow> memory_error + candidate_analysis" where
  "classify_and_score_candidate ms c x =
     bindR (classify_candidate (ms_classifier ms) c) (\<lambda>k.
     Inr \<lparr>an_classification = k,
       an_salience = score_candidate (co_weights (ms_consolidator ms)) c k
         (case x of None \<Rightarrow> default_context | Some y \<Rightarrow> y)\<rparr>)"

definition select_candidate_mutation_mode :: "memory_candidate \<Rightarrow> classification \<Rightarrow> mutation_mode" where
  "select_candidate_mutation_mode c k =
     (if cand_actor c = Assistant then
        (if cl_decision k \<in> {Store_review_required, Store_provisional} then Autonomous else Autonomous)
      else Assisted)"

definition candidate_patch :: "memory_candidate \<Rightarrow> classification \<Rightarrow> mutation_patch" where
  "candidate_patch c k = empty_patch\<lparr>
     patch_title := Some (strip (text_or (cand_title c) ''Untitled memory'')),
     patch_body := Some (strip (cand_body c)), patch_why_stored := Some (cl_why_stored k),
     patch_class := Some (cl_class k), patch_sensitivity := Some (cl_sensitivity k),
     patch_mutability := Some (cl_mutability k), patch_status := Some (cl_status k),
     patch_importance := Some (cl_importance k), patch_confidence := cand_confidence c\<rparr>"

definition build_candidate_create_mutation ::
  "memory_service \<Rightarrow> time \<Rightarrow> string \<Rightarrow> memory_candidate \<Rightarrow> salience_context option \<Rightarrow> bool
     \<Rightarrow> memory_error + mutation_request \<times> candidate_analysis" where
  "build_candidate_create_mutation ms now mid c x dry =
     bindR (classify_and_score_candidate ms c x) (\<lambda>a. let k = an_classification a in
     bindR (raise_if (cl_decision k = Do_not_store)
       (ValueError ''Candidate classification recommends do_not_store.'')) (\<lambda>_.
     bindR (make_request \<lparr>mutation_id = mid, mutation_type = Create, actor = cand_actor c,
         mode = select_candidate_mutation_mode c k,
         target = empty_target\<lparr>target_class := Some (cl_class k), target_project_id := cand_project_id c,
           target_conversation_id := cand_conversation_id c\<rparr>,
         patch = candidate_patch c k,
         request_context = \<lparr>reason = cl_why_stored k, context_source_kind = Some (cand_source_kind c),
           context_source_ref = cand_source_ref c, trigger_event = Some ''memory_service_candidate_ingest'',
           context_notes = Some (reasoning_summary k)\<rparr>,
         requested_at_utc = now, review = default_review, requested_by = None, dry_run = dry\<rparr>) (\<lambda>q.
     Inr (q, a))))"

definition ingest_candidate_preview ::
  "memory_service \<Rightarrow> time \<Rightarrow> string \<Rightarrow> string \<Rightarrow> memory_candidate \<Rightarrow> salience_context option
     \<Rightarrow> (candidate_analysis \<times> mutation_request \<times> mutation_record) store_action" where
  "ingest_candidate_preview ms now mid fresh c x =
     bindA (liftA (build_candidate_create_mutation ms now mid c x True)) (\<lambda>(q, a).
     bindA (preview_mutation (ms_env ms) now fresh q) (\<lambda>r. returnA (a, q, r)))"

section \<open>Ingesting a candidate\<close>

lemma length_join_le: "length (join sep xs) \<le> sum_list (map length xs) + length xs * length sep"
  by (induction sep xs rule: join.induct) auto

lemma value_lengths:
  "length (class_value k) \<le> 14" "length (sensitivity_value v) \<le> 8" "length (status_value s) \<le> 11"
  "length (store_decision_value d) \<le> 21"
proof -
  show "length (class_value k) \<le> 14" by (cases k) simp_all
  show "length (sensitivity_value v) \<le> 8" by (cases v) simp_all
  show "length (status_value s) \<le> 11" by (cases s) simp_all
  show "length (store_decision_value d) \<le> 21" by (cases d) simp_all
qed

lemma reasoning_summary_bounds:
  "length (build_reasoning_summary c k v s d b) \<le> 1000"
proof -
  have "length (build_reasoning_summary c k v s d b) \<le> 300"
    unfolding build_reasoning_summary_def
    by (rule order_trans [OF length_join_le])
      (use value_lengths(1) [of k] value_lengths(2) [of v] value_lengths(3) [of s] value_lengths(4) [of d] in simp)
  then show ?thesis by simp
qed

lemma built_request:
  assumes "build_candidate_create_mutation ms now mid c x dry = Inr (q, a)"
  shows "classify_candidate (ms_classifier ms) c = Inr (an_classification a)"
    "mutation_type q = Create" "actor q = cand_actor c"
    "mode q = select_candidate_mutation_mode c (an_classification a)" "dry_run q = dry"
    "patch_class (patch q) = Some (cl_class (an_classification a))"
    "patch_sensitivity (patch q) = Some (cl_sensitivity (an_classification a))"
proof -
  obtain k where k: "classify_candidate (ms_classifier ms) c = Inr k" "an_classification a = k"
    using assms by (auto simp: build_candidate_create_mutation_def classify_and_score_candidate_def bindR_eq_Inr_iff Let_def)
  show "classify_candidate (ms_classifier ms) c = Inr (an_classification a)" by (simp add: k)
  from assms obtain i t p r v b where p: "check_patch (candidate_patch c k) = Inr p" and
    v: "validate_request \<lparr>mutation_id = i, mutation_type = Create, actor = cand_actor c,
         mode = select_candidate_mutation_mode c k, target = t, patch = p, request_context = r,
         requested_at_utc = now, review = v, requested_by = b, dry_run = dry\<rparr> = Inr q"
    unfolding build_candidate_create_mutation_def Let_def
    by (auto simp: bindR_eq_Inr_iff make_request_def classify_and_score_candidate_def k)
  show "mutation_type q = Create" "actor q = cand_actor c" "dry_run q = dry"
    "mode q = select_candidate_mutation_mode c (an_classification a)"
    using validate_request_facts(3,4,5,7) [OF v] k(2) by simp_all
  have "patch q = p" using v by (auto simp: validate_request_def bindR_eq_Inr_iff Let_def)
  moreover have "patch_class p = Some (cl_class k) \<and> patch_sensitivity p = Some (cl_sensitivity k)"
    using p by (auto simp: check_patch_def bindR_eq_Inr_iff candidate_patch_def)
  ultimately show "patch_class (patch q) = Some (cl_class (an_classification a))"
    "patch_sensitivity (patch q) = Some (cl_sensitivity (an_classification a))" using k(2) by simp_all
qed

text \<open>
  The assistant cannot file away private matters: a candidate of the assistant that is
  marked private or sealed, or whose text names sensitive matters, changes nothing when its create
  request is applied, whatever the validated policies say; classification, request building and
  boundary hold together.
\<close>

theorem assistant_cannot_ingest_private:
  assumes "policies_valid (env_policies env)" "store_ok s" "cand_actor c = Assistant"
    and "explicit_private c \<or> explicit_sealed c \<or> contains_any (casefold (cand_body c)) personal_sensitive_keywords"
    and "build_candidate_create_mutation ms now mid c x dry = Inr (q, a)"
  shows "files (snd (apply_mutation env later fresh q s)) = files s"
proof (rule ccontr)
  assume "\<not> ?thesis"
  then obtain e d where d: "evaluate_boundary (env_policies env) q e = Inr d" "\<not> bd_blocked d"
    using changed_files_passed_gate [OF assms(2), of env later fresh q] by blast
  note q = built_request [OF assms(5)]
  have autonomous: "mode q = Autonomous" using q(4) assms(3) by (simp add: select_candidate_mutation_mode_def)
  have "evaluate_mutation (env_policies env) q e = Inr d" using d(1) q(2) by (simp add: evaluate_boundary_def)
  from autonomous_unblocked [OF assms(1) autonomous this d(2)] obtain cp where
    "resolve_target_sensitivity q e cp \<in> {Public, Internal}" by blast
  moreover have "cl_sensitivity (an_classification a) \<in> {Private, Sealed}"
    using assms(4) classified_fields(1,2) [OF q(1)] explicit_private_class [of c]
    by (auto simp: classify_sensitivity_def)
  ultimately show False using q(7) by (auto simp: resolve_target_sensitivity_def)
qed

lemma bounded_ok: "lo \<le> length (trim s) \<Longrightarrow> length (trim s) \<le> hi \<Longrightarrow> \<exists>t. bounded lo hi s = Inr t \<and> t = trim s"
  by (simp add: bounded_iff)

lemma bounded_opt_same:
  "trim s = s \<Longrightarrow> lo \<le> length s \<Longrightarrow> length s \<le> hi \<Longrightarrow> bounded_opt lo hi (Some s) = Inr (Some s)"
  by (simp add: bounded_opt_def bindR_eq_Inr_iff bounded_iff)

lemma bounded_opt_ok:
  "(\<And>s. v = Some s \<Longrightarrow> lo \<le> length (trim s) \<and> length (trim s) \<le> hi) \<Longrightarrow> bounded_opt lo hi v = Inr (map_option trim v)"
  by (cases v) (auto simp: bounded_opt_def bounded_iff bindR_eq_Inr_iff)

lemma trim_short: "length s \<le> n \<Longrightarrow> length (trim s) \<le> n"
  unfolding trim_def using length_strip_by order_trans by blast

definition admissible_candidate :: "memory_candidate \<Rightarrow> bool" where
  \<comment> \<open>the texts and numbers of the candidate fit the fields of a memory item\<close>
  "admissible_candidate c \<longleftrightarrow>
     strip (text_or (cand_title c) ''Untitled memory'') \<noteq> [] \<and>
     length (strip (text_or (cand_title c) ''Untitled memory'')) \<le> 160 \<and>
     length (strip (cand_body c)) \<le> 8000 \<and>
     (\<forall>i. cand_project_id c = Some i \<longrightarrow> length i \<le> 128) \<and>
     (\<forall>i. cand_conversation_id c = Some i \<longrightarrow> length i \<le> 128) \<and>
     (\<forall>r. cand_source_ref c = Some r \<longrightarrow> length r \<le> 256) \<and>
     (\<forall>r. cand_confidence c = Some r \<longrightarrow> 0 \<le> r \<and> r \<le> 1)"

lemma why_stored_trimmed: "trim (build_why_stored c k s b d) = build_why_stored c k s b d"
proof -
  have "trimmed_by trim_char (build_why_stored c k s b d)"
    by (simp add: build_why_stored_def trimmed_by_def trim_char_def)
  then show ?thesis unfolding trim_def by (rule strip_by_same)
qed

lemma admissible_request:
  assumes "admissible_candidate c" "8 \<le> length (trim mid)" "length mid \<le> 128"
    and "classify_candidate (ms_classifier ms) c = Inr k" "cl_decision k \<noteq> Do_not_store"
  shows "\<exists>q a. build_candidate_create_mutation ms now mid c x dry = Inr (q, a) \<and> an_classification a = k"
proof -
  note f = classified_fields [OF assms(4)]
  note ok = assms(1) [unfolded admissible_candidate_def]
  have body: "strip (cand_body c) \<noteq> []" by (rule f(11))
  have imp: "0 \<le> cl_importance k \<and> cl_importance k \<le> 1" unfolding f(5) using classify_importance_unit by blast
  have why: "trim (cl_why_stored k) = cl_why_stored k" "1 \<le> length (cl_why_stored k)" "length (cl_why_stored k) \<le> 500"
    unfolding f(9) using build_why_stored_bounds why_stored_trimmed by blast+
  have wording: "length (trim (reasoning_summary k)) \<le> 1000"
    unfolding f(10) by (rule trim_short [OF reasoning_summary_bounds])
  let ?p = "candidate_patch c k"
  have title: "bounded_opt 1 160 (patch_title ?p) = Inr (patch_title ?p)"
    unfolding candidate_patch_def using ok by (simp add: bounded_opt_same Suc_le_eq)
  have content: "bounded_opt 1 8000 (patch_body ?p) = Inr (patch_body ?p)"
    unfolding candidate_patch_def using ok body by (simp add: bounded_opt_same Suc_le_eq)
  have stored: "bounded_opt 1 500 (patch_why_stored ?p) = Inr (patch_why_stored ?p)"
    unfolding candidate_patch_def using why by (simp add: bounded_opt_same)
  have patched: "check_patch ?p = Inr ?p"
    using title content stored imp ok
    by (auto simp: check_patch_def candidate_patch_def empty_patch_def in_unit_opt_def in_unit_def bounded_opt_def
        split: option.splits)
  obtain t where aim: "check_target (empty_target\<lparr>target_class := Some (cl_class k),
      target_project_id := cand_project_id c, target_conversation_id := cand_conversation_id c\<rparr>) = Inr t"
    "\<not> has_single_target t" "\<not> has_multi_target t"
    using ok trim_short
    by (auto simp: check_target_def empty_target_def bounded_opt_ok bounded_opt_def [of _ _ None] validate_target_def
        has_single_target_def has_multi_target_def)
  obtain r where situation: "check_context \<lparr>reason = cl_why_stored k, context_source_kind = Some (cand_source_kind c),
      context_source_ref = cand_source_ref c, trigger_event = Some ''memory_service_candidate_ingest'',
      context_notes = Some (reasoning_summary k)\<rparr> = Inr r"
  proof -
    have "bounded 1 500 (cl_why_stored k) = Inr (cl_why_stored k)" using why by (simp add: bounded_iff)
    moreover have "bounded_opt 0 256 (cand_source_ref c) = Inr (map_option trim (cand_source_ref c))"
      using ok trim_short by (intro bounded_opt_ok) auto
    moreover have "bounded_opt 0 160 (Some ''memory_service_candidate_ingest'') = Inr (map_option trim (Some ''memory_service_candidate_ingest''))"
      by (rule bounded_opt_ok) (auto intro!: trim_short)
    moreover have "bounded_opt 0 1000 (Some (reasoning_summary k)) = Inr (map_option trim (Some (reasoning_summary k)))"
      using wording by (intro bounded_opt_ok) simp
    ultimately show ?thesis using that by (simp add: check_context_def)
  qed
  have reviewed: "check_review default_review = Inr default_review"
    by (simp add: check_review_def default_review_def bounded_opt_def validate_review_info_def)
  have mid: "bounded 8 128 mid = Inr (trim mid)" using assms(2,3) trim_short by (simp add: bounded_iff)
  let ?q = "\<lparr>mutation_id = trim mid, mutation_type = Create, actor = cand_actor c,
      mode = select_candidate_mutation_mode c k, target = t, patch = ?p, request_context = r,
      requested_at_utc = now, review = default_review, requested_by = None, dry_run = dry\<rparr>"
  have nonempty: "cl_why_stored k \<noteq> []" using why(2) by auto
  have "validate_request ?q = Inr ?q"
    using aim(2,3) body ok nonempty
    by (auto simp: validate_request_def requires_shape_def requires_create_def requires_content_def requires_fields_def
        Let_def single_target_required_def candidate_patch_def select_candidate_mutation_mode_def)
  then show ?thesis
    by (simp add: build_candidate_create_mutation_def classify_and_score_candidate_def assms(4,5) Let_def
        make_request_def mid aim(1) patched situation reviewed bounded_opt_def)
qed

text \<open>
  Ingestion produces requests, never malformed ones: a candidate whose texts and numbers
  fit the fields of an item and that classification does not drop becomes a create request that
  passes every validator, for every actor.
\<close>

theorem admissible_candidate_becomes_request:
  assumes "admissible_candidate c" "8 \<le> length (trim mid)" "length mid \<le> 128"
    and "classify_candidate (ms_classifier ms) c = Inr k" "cl_decision k \<noteq> Do_not_store"
  shows "\<exists>q a. build_candidate_create_mutation ms now mid c x dry = Inr (q, a) \<and> an_classification a = k"
  using assms by (rule admissible_request)

section \<open>Witnesses\<close>

definition sample_service :: memory_service where
  "sample_service = make_service sample_env 7 (30/100) (72/100) 2 False"

definition assisted_candidate :: memory_candidate where
  "assisted_candidate = sample_candidate\<lparr>cand_actor := User\<rparr>"

lemma sample_candidate_admissible: "admissible_candidate sample_candidate" "admissible_candidate assisted_candidate"
proof -
  have "strip (text_or None ''Untitled memory'') \<noteq> []" "length (strip (text_or None ''Untitled memory'')) \<le> 160"
    "length (strip ''My password is kept in the drawer'') \<le> 8000"
    by code_simp+
  then show "admissible_candidate sample_candidate" "admissible_candidate assisted_candidate"
    by (simp_all add: admissible_candidate_def assisted_candidate_def sample_candidate_def)
qed

lemma sample_candidate_kept:
  "case classify_candidate default_classifier sample_candidate of Inr k \<Rightarrow> cl_decision k \<noteq> Do_not_store | Inl _ \<Rightarrow> False"
  "case classify_candidate default_classifier assisted_candidate of Inr k \<Rightarrow> cl_decision k \<noteq> Do_not_store | Inl _ \<Rightarrow> False"
  by code_simp+

lemma admissible_candidate_becomes_request_witness:
  "\<exists>q a. build_candidate_create_mutation sample_service 100 ''mut_0001'' assisted_candidate None True = Inr (q, a) \<and>
     mode q = Assisted"
proof -
  obtain k where k: "classify_candidate default_classifier assisted_candidate = Inr k" "cl_decision k \<noteq> Do_not_store"
    using sample_candidate_kept(2) by (auto split: sum.splits)
  have "8 \<le> length (trim ''mut_0001'')" "length ''mut_0001'' \<le> 128" by code_simp+
  from admissible_candidate_becomes_request [OF sample_candidate_admissible(2) this, of sample_service k 100 None True] k
  obtain q a where q: "build_candidate_create_mutation sample_service 100 ''mut_0001'' assisted_candidate None True = Inr (q, a)"
    by (auto simp: sample_service_def make_service_def)
  from built_request(4) [OF q] have "mode q = Assisted"
    by (simp add: select_candidate_mutation_mode_def assisted_candidate_def sample_candidate_def)
  with q show ?thesis by blast
qed

lemma sample_candidate_request:
  "\<exists>q a. build_candidate_create_mutation sample_service 100 ''mut_0001'' sample_candidate None False = Inr (q, a)"
proof -
  obtain k where k: "classify_candidate default_classifier sample_candidate = Inr k" "cl_decision k \<noteq> Do_not_store"
    using sample_candidate_kept(1) by (auto split: sum.splits)
  have "8 \<le> length (trim ''mut_0001'')" "length ''mut_0001'' \<le> 128" by code_simp+
  from admissible_request [OF sample_candidate_admissible(1) this, of sample_service k 100 None False] k
  show ?thesis by (auto simp: sample_service_def make_service_def)
qed

lemma assistant_cannot_ingest_private_witness:
  "\<exists>q a. build_candidate_create_mutation sample_service 100 ''mut_0001'' sample_candidate None False = Inr (q, a) \<and>
     files (snd (apply_mutation sample_env 101 ''0002'' q sealed_store)) = files sealed_store"
proof -
  obtain q a where q: "build_candidate_create_mutation sample_service 100 ''mut_0001'' sample_candidate None False = Inr (q, a)"
    using sample_candidate_request by blast
  have "contains_any (casefold (cand_body sample_candidate)) personal_sensitive_keywords" by code_simp
  then have intimate: "explicit_private sample_candidate \<or> explicit_sealed sample_candidate \<or>
      contains_any (casefold (cand_body sample_candidate)) personal_sensitive_keywords" by simp
  have "policies_valid (env_policies sample_env)" by (simp add: sample_env_def sample_policies_valid)
  moreover have "cand_actor sample_candidate = Assistant" by (simp add: sample_candidate_def)
  ultimately have "files (snd (apply_mutation sample_env 101 ''0002'' q sealed_store)) = files sealed_store"
    by (rule assistant_cannot_ingest_private [OF _ sealed_store_ok _ intimate q])
  with q show ?thesis by blast
qed

end
