(* ===== verification/ComputeGovernor.thy ===== *)
theory ComputeGovernor
  imports Machines Complex_Main
begin

text \<open>
  Placement of work on the processor or the accelerator, \<open>app/cognition/compute_governor.py\<close>: the
  ledger of accelerator leases, job reservations, incidents and receipts (\<open>ComputeLedger\<close>, one
  record of rows per table) and the decision \<open>decide_compute\<close>.  Sensor readings, the clock, fresh
  identifiers, the parsing of a deadline and whether the database accepts a call are arguments; a
  call the database refuses changes no row.  Rows selected in the order of their creation time keep
  their insertion order within one second.
\<close>

section \<open>Work, leases and jobs\<close>

record workload =
  workload_id :: string
  owner_user_id :: "string option"
  task_kind :: string
  w_priority :: string
  interactive :: bool
  privacy :: string
  estimated_cpu_percent :: int
  estimated_gpu_percent :: int
  estimated_ram_mb :: int
  estimated_vram_mb :: int
  incremental_vram_mb :: "int option"
  estimated_duration_ms :: int
  batchable :: bool
  deadline_utc :: "string option"
  w_cancellable :: bool
  w_preemptible :: bool
  cpu_fallback_allowed :: bool
  required_model :: "string option"
  required_resources :: "string list"
  hard_vram_limit_mb :: "int option"
  model_to_evict :: "string option"
  estimate_source :: string

datatype row_state = Row_active | Row_preempting | Row_released | Row_expired | Row_cancelled | Row_interrupted

record gpu_lease =
  lease_id :: string
  l_workload_id :: string
  l_owner :: "string option"
  l_task_kind :: string
  l_priority :: string
  l_estimated_vram :: int
  l_incremental_vram :: "int option"
  l_hard_limit :: "int option"
  l_duration :: int
  l_required_model :: "string option"
  l_model_to_evict :: "string option"
  l_actual_vram :: "int option"
  l_deadline :: "string option"
  l_cancellable :: bool
  l_preemptible :: bool
  l_state :: row_state
  l_created :: string
  l_updated :: string
  l_release_reason :: "string option"

record compute_job =
  reservation_id :: string
  j_workload_id :: string
  j_owner :: "string option"
  j_task_kind :: string
  j_priority :: string
  j_deadline :: "string option"
  j_state :: row_state
  j_created :: string
  j_updated :: string
  j_release_reason :: "string option"

record oom_incident =
  incident_id :: string
  i_workload_id :: string
  i_task_kind :: string
  i_device :: string
  i_observed :: "int option"
  i_hard_limit :: "int option"
  i_recovery :: string
  i_created :: string

record gpu_device =
  memory_free_mb :: "int option"
  utilization_percent :: "rat option"
  gpu_temperature :: "rat option"

record resource_snapshot =
  cpu_percent :: "rat option"
  ram_available_mb :: "int option"
  cpu_temperature :: "rat option"
  gpu_reported :: bool
  devices :: "gpu_device list"

datatype placement = On_cpu | On_gpu | On_both | Deferred | Rejected

record compute_decision =
  d_workload_id :: string
  d_placement :: placement
  selected_device :: string
  d_lease :: "string option"
  reasons :: "string list"
  d_snapshot :: resource_snapshot
  fallback :: "string option"
  queue_position :: "int option"
  d_reservation :: "string option"

record compute_ledger =
  leases :: "gpu_lease list"
  jobs :: "compute_job list"
  incidents :: "oom_incident list"
  receipts :: "compute_decision list"
  recovered_here :: bool

record ledger_env =
  now_text :: string
  now_instant :: int
  parse_deadline :: "string \<Rightarrow> int option"
  fresh :: string
  jobs_readable :: bool
  leases_open :: bool
  jobs_open :: bool
  receipts_open :: bool

definition empty_ledger :: compute_ledger where
  "empty_ledger = \<lparr>leases = [], jobs = [], incidents = [], receipts = [], recovered_here = True\<rparr>"

definition held :: "gpu_lease \<Rightarrow> bool" where
  "held l \<longleftrightarrow> l_state l \<in> {Row_active, Row_preempting}"

definition running :: "compute_job \<Rightarrow> bool" where
  "running j \<longleftrightarrow> j_state j = Row_active"

definition priority_rank :: "string \<Rightarrow> int" where
  "priority_rank p = (case map_of [(''background'', 0), (''batch'', 1), (''normal'', 2), (''interactive'', 3),
     (''emergency'', 4)] p of None \<Rightarrow> 1 | Some n \<Rightarrow> n)"

section \<open>The ledger\<close>

definition close_lease :: "row_state \<Rightarrow> string \<Rightarrow> string \<Rightarrow> gpu_lease \<Rightarrow> gpu_lease" where
  "close_lease st now why l = l\<lparr>l_state := st, l_updated := now, l_release_reason := Some why\<rparr>"

definition close_job :: "row_state \<Rightarrow> string \<Rightarrow> string \<Rightarrow> compute_job \<Rightarrow> compute_job" where
  "close_job st now why j = j\<lparr>j_state := st, j_updated := now, j_release_reason := Some why\<rparr>"

definition update_where :: "('a \<Rightarrow> bool) \<Rightarrow> ('a \<Rightarrow> 'a) \<Rightarrow> 'a list \<Rightarrow> 'a list" where
  \<comment> \<open>\<open>UPDATE ... WHERE\<close>\<close>
  "update_where p f rows = map (\<lambda>r. if p r then f r else r) rows"

definition on_leases :: "(gpu_lease list \<Rightarrow> gpu_lease list) \<Rightarrow> compute_ledger \<Rightarrow> compute_ledger" where
  "on_leases f led = led\<lparr>leases := f (leases led)\<rparr>"

definition on_jobs :: "(compute_job list \<Rightarrow> compute_job list) \<Rightarrow> compute_ledger \<Rightarrow> compute_ledger" where
  "on_jobs f led = led\<lparr>jobs := f (jobs led)\<rparr>"

definition initialize :: "ledger_env \<Rightarrow> compute_ledger \<Rightarrow> compute_ledger" where
  "initialize env led =
     (if recovered_here led then led
      else (on_leases (update_where held (close_lease Row_interrupted (now_text env) ''restart_recovery''))
             (on_jobs (update_where running (close_job Row_interrupted (now_text env) ''restart_recovery'')) led))
           \<lparr>recovered_here := True\<rparr>)"

definition overdue :: "ledger_env \<Rightarrow> string option \<Rightarrow> bool" where
  \<comment> \<open>the comparison of two texts in the database\<close>
  "overdue env d \<longleftrightarrow> (case d of None \<Rightarrow> False | Some t \<Rightarrow> t \<le> now_text env)"

definition active_leases :: "ledger_env \<Rightarrow> compute_ledger \<Rightarrow> gpu_lease list \<times> compute_ledger" where
  "active_leases env led = (let
       led' = on_leases (update_where (\<lambda>l. held l \<and> overdue env (l_deadline l))
         (close_lease Row_expired (now_text env) ''deadline_expired'')) (initialize env led)
     in (sort_key l_created (filter held (leases led')), led'))"

definition active_jobs :: "ledger_env \<Rightarrow> compute_ledger \<Rightarrow> compute_job list \<times> compute_ledger" where
  "active_jobs env led = (let
       led' = on_jobs (update_where (\<lambda>j. running j \<and> overdue env (j_deadline j))
         (close_job Row_expired (now_text env) ''deadline_expired'')) (initialize env led)
     in (sort_key j_created (filter running (jobs led')), led'))"

definition new_job :: "ledger_env \<Rightarrow> workload \<Rightarrow> compute_job" where
  "new_job env w = \<lparr>reservation_id = ''computejob_'' @ fresh env, j_workload_id = workload_id w,
     j_owner = owner_user_id w, j_task_kind = task_kind w, j_priority = w_priority w, j_deadline = deadline_utc w,
     j_state = Row_active, j_created = now_text env, j_updated = now_text env, j_release_reason = None\<rparr>"

definition reserve_job :: "ledger_env \<Rightarrow> workload \<Rightarrow> compute_ledger \<Rightarrow> string \<times> compute_ledger" where
  "reserve_job env w led =
     (reservation_id (new_job env w), on_jobs (\<lambda>js. js @ [new_job env w]) (initialize env led))"

definition release_job :: "ledger_env \<Rightarrow> string \<Rightarrow> string \<Rightarrow> compute_ledger \<Rightarrow> bool \<times> compute_ledger" where
  "release_job env i why led = (let led' = initialize env led; p = (\<lambda>j. reservation_id j = i \<and> running j) in
     (list_ex p (jobs led'), on_jobs (update_where p (close_job Row_released (now_text env) (take 160 why))) led'))"

definition demand :: "gpu_lease \<Rightarrow> int" where
  "demand l = (case l_incremental_vram l of None \<Rightarrow> l_estimated_vram l | Some n \<Rightarrow> n)"

definition reserved :: "gpu_lease list \<Rightarrow> int" where
  "reserved ls = sum_list (map demand (filter held ls))"

definition needed :: "workload \<Rightarrow> int" where
  "needed w = max 0 (case incremental_vram_mb w of None \<Rightarrow> estimated_vram_mb w | Some n \<Rightarrow> n)"

definition preemptable_by :: "workload \<Rightarrow> gpu_lease \<Rightarrow> bool" where
  "preemptable_by w l \<longleftrightarrow> l_state l = Row_active \<and> l_preemptible l \<and>
     priority_rank (l_priority l) < priority_rank (w_priority w)"

definition new_lease :: "ledger_env \<Rightarrow> workload \<Rightarrow> gpu_lease" where
  "new_lease env w = \<lparr>lease_id = ''gpulease_'' @ fresh env, l_workload_id = workload_id w, l_owner = owner_user_id w,
     l_task_kind = task_kind w, l_priority = w_priority w, l_estimated_vram = estimated_vram_mb w,
     l_incremental_vram = Some (needed w), l_hard_limit = hard_vram_limit_mb w,
     l_duration = estimated_duration_ms w, l_required_model = required_model w, l_model_to_evict = model_to_evict w,
     l_actual_vram = None, l_deadline = deadline_utc w, l_cancellable = w_cancellable w,
     l_preemptible = w_preemptible w, l_state = Row_active, l_created = now_text env, l_updated = now_text env,
     l_release_reason = None\<rparr>"

definition acquire ::
  "ledger_env \<Rightarrow> workload \<Rightarrow> int \<Rightarrow> compute_ledger \<Rightarrow> (string option \<times> string list) \<times> compute_ledger" where
  "acquire env w available led = (let
       led0 = initialize env led; room = max 0 (available - reserved (leases led0))
     in if needed w > room then
          ((None, map (\<lambda>l. ''preemption_requested:'' @ l_workload_id l)
                    (sort_key l_created (filter (preemptable_by w) (leases led0))) @ [''insufficient_unreserved_vram'']),
           on_leases (update_where (preemptable_by w)
             (close_lease Row_preempting (now_text env) (''preemption_requested_by:'' @ workload_id w))) led0)
        else ((Some (lease_id (new_lease env w)), [''bounded_gpu_lease_acquired'']),
              on_leases (\<lambda>ls. ls @ [new_lease env w]) led0))"

definition release ::
  "ledger_env \<Rightarrow> string \<Rightarrow> string \<Rightarrow> int option \<Rightarrow> compute_ledger \<Rightarrow> bool \<times> compute_ledger" where
  "release env i why actual led = (let led' = initialize env led; p = (\<lambda>l. lease_id l = i \<and> held l) in
     (list_ex p (leases led'),
      on_leases (update_where p (\<lambda>l. (close_lease Row_released (now_text env) (take 160 why) l)
        \<lparr>l_actual_vram := (case actual of None \<Rightarrow> l_actual_vram l | Some n \<Rightarrow> Some n)\<rparr>)) led'))"

definition preemption_requested :: "ledger_env \<Rightarrow> string \<Rightarrow> compute_ledger \<Rightarrow> bool \<times> compute_ledger" where
  "preemption_requested env i led = (let led' = initialize env led in
     (case find (\<lambda>l. lease_id l = i) (leases led') of None \<Rightarrow> False
      | Some l \<Rightarrow> l_state l \<in> {Row_preempting, Row_cancelled, Row_expired}, led'))"

definition cancel_all_leases :: "ledger_env \<Rightarrow> string \<Rightarrow> compute_ledger \<Rightarrow> nat \<times> compute_ledger" where
  "cancel_all_leases env why led = (let led' = initialize env led in
     (length (filter held (leases led')),
      on_jobs (update_where running (close_job Row_cancelled (now_text env) (take 160 why)))
        (on_leases (update_where held (close_lease Row_cancelled (now_text env) (take 160 why))) led')))"

definition safe_task_kind :: "string \<Rightarrow> string" where
  "safe_task_kind kind = (let s = filter (\<lambda>c. alnum_char c \<or> c \<in> {CHR ''_'', CHR ''-''}) (take 80 kind) in
     if s = [] then ''unknown_workload'' else s)"

definition record_oom ::
  "ledger_env \<Rightarrow> string \<Rightarrow> string \<Rightarrow> string \<Rightarrow> int option \<Rightarrow> int option \<Rightarrow> string \<Rightarrow> compute_ledger
     \<Rightarrow> string \<times> compute_ledger" where
  "record_oom env work kind device observed limit recovery led = (let
       i = ''computeincident_'' @ fresh env; led' = initialize env led;
       row = \<lparr>incident_id = i, i_workload_id = take 160 work, i_task_kind = safe_task_kind kind,
         i_device = (if device \<in> {''cpu'', ''cuda:0'', ''none''} then device else ''accelerator''),
         i_observed = observed, i_hard_limit = limit,
         i_recovery = (if recovery \<in> {''lease_released_cpu_fallback_allowed'', ''lease_released_request_failed'',
             ''bounded_probe_recovered''} then recovery else ''lease_released_request_failed''),
         i_created = now_text env\<rparr>
     in (i, led'\<lparr>incidents := incidents led' @ [row]\<rparr>))"

definition recent_oom_history :: "ledger_env \<Rightarrow> int \<Rightarrow> compute_ledger \<Rightarrow> oom_incident list \<times> compute_ledger" where
  "recent_oom_history env limit led = (let led' = initialize env led in
     (take (nat (max 1 (min limit 100)))
       (rev (sort_key i_created (sort_key incident_id (incidents led')))), led'))"

definition is_accelerator_oom_error :: "string option \<Rightarrow> bool" where
  "is_accelerator_oom_error error = (let t = join '' '' (words (casefold (case error of None \<Rightarrow> [] | Some e \<Rightarrow> e))) in
     list_ex (\<lambda>marker. has_infix marker t)
       [''cuda out of memory'', ''cuda error: out of memory'', ''hip out of memory'', ''accelerator out of memory'',
        ''gpu out of memory'', ''outofmemoryerror''])"

definition record_safely :: "ledger_env \<Rightarrow> compute_decision \<Rightarrow> compute_ledger \<Rightarrow> compute_ledger" where
  "record_safely env d led = (if receipts_open env then
     (let led' = initialize env led in led'\<lparr>receipts := receipts led' @ [d]\<rparr>) else led)"

section \<open>The decision\<close>

record compute_options =
  preference :: string
  cpu_percent_ceiling :: int
  ram_mb_ceiling :: int
  vram_mb_ceiling :: int
  max_background_jobs :: int
  stop_active :: bool

definition default_options :: compute_options where
  "default_options = \<lparr>preference = ''automatic'', cpu_percent_ceiling = 85, ram_mb_ceiling = 16384,
     vram_mb_ceiling = 12288, max_background_jobs = 2, stop_active = False\<rparr>"

definition deadline_passed :: "ledger_env \<Rightarrow> workload \<Rightarrow> bool" where
  \<comment> \<open>an unreadable deadline counts as passed\<close>
  "deadline_passed env w \<longleftrightarrow> (case deadline_utc w of None \<Rightarrow> False
     | Some t \<Rightarrow> t \<noteq> [] \<and> (case parse_deadline env t of None \<Rightarrow> True | Some d \<Rightarrow> d \<le> now_instant env))"

definition or_zero :: "'a::zero option \<Rightarrow> 'a" where
  "or_zero v = (case v of None \<Rightarrow> 0 | Some x \<Rightarrow> x)"

definition deferred_if_background :: "workload \<Rightarrow> placement" where
  "deferred_if_background w = (if w_priority w = ''background'' then Deferred else Rejected)"

definition refuse ::
  "resource_snapshot \<Rightarrow> workload \<Rightarrow> placement \<Rightarrow> string list \<Rightarrow> string option \<Rightarrow> int option \<Rightarrow> compute_decision" where
  "refuse snap w p why fb queue = \<lparr>d_workload_id = workload_id w, d_placement = p, selected_device = ''none'',
     d_lease = None, reasons = why, d_snapshot = snap, fallback = fb, queue_position = queue, d_reservation = None\<rparr>"

definition policy_refusal ::
  "ledger_env \<Rightarrow> compute_options \<Rightarrow> resource_snapshot \<Rightarrow> workload \<Rightarrow> compute_decision option" where
  \<comment> \<open>the refusals that do not look at the ledger\<close>
  "policy_refusal env opts snap w = (let
       because = (\<lambda>why. Some (refuse snap w Rejected [''policy_before_optimization'', why] None None))
     in if deadline_passed env w then because ''workload_deadline_expired''
     else if stop_active opts then because ''emergency_stop_active''
     else if ram_mb_ceiling opts < estimated_ram_mb w then because ''ram_ceiling_exceeded''
     else if (case ram_available_mb snap of None \<Rightarrow> False | Some n \<Rightarrow> n < estimated_ram_mb w)
       then because ''insufficient_available_ram''
     else if cpu_percent_ceiling opts < estimated_cpu_percent w then
       Some (refuse snap w (deferred_if_background w)
         [''policy_before_optimization'', ''workload_cpu_ceiling_exceeded''] None
         (if w_priority w = ''background'' then Some 1 else None))
     else None)"

definition background_load :: "ledger_env \<Rightarrow> compute_options \<Rightarrow> compute_ledger \<Rightarrow> int \<times> compute_ledger" where
  "background_load env opts led = (if jobs_readable env then
       (let (js, led') = active_jobs env led
        in (int (length (filter (\<lambda>j. j_priority j = ''background'') js)), led'))
     else (max_background_jobs opts, led))"

definition cpu_busy :: "compute_options \<Rightarrow> resource_snapshot \<Rightarrow> bool" where
  "cpu_busy opts snap \<longleftrightarrow> of_int (cpu_percent_ceiling opts) \<le> or_zero (cpu_percent snap)"

definition cpu_hot :: "resource_snapshot \<Rightarrow> bool" where
  "cpu_hot snap \<longleftrightarrow> (case cpu_temperature snap of None \<Rightarrow> False | Some t \<Rightarrow> 90 \<le> t)"

definition gpu_hot :: "resource_snapshot \<Rightarrow> bool" where
  "gpu_hot snap \<longleftrightarrow> 88 \<le> or_zero (gpu_temperature (hd (devices snap)))"

definition gpu_loaded :: "workload \<Rightarrow> resource_snapshot \<Rightarrow> bool" where
  "gpu_loaded w snap \<longleftrightarrow> w_priority w = ''background'' \<and> 98 \<le> or_zero (utilization_percent (hd (devices snap)))"

definition gpu_present :: "resource_snapshot \<Rightarrow> bool" where
  "gpu_present snap \<longleftrightarrow> gpu_reported snap \<and> devices snap \<noteq> []"

definition wants_gpu :: "compute_options \<Rightarrow> workload \<Rightarrow> bool" where
  "wants_gpu opts w \<longleftrightarrow> preference opts = ''gpu'' \<or> (preference opts = ''automatic'' \<and> 0 < estimated_vram_mb w)"

definition gpu_usable :: "compute_options \<Rightarrow> resource_snapshot \<Rightarrow> workload \<Rightarrow> bool" where
  \<comment> \<open>whether a lease is asked for\<close>
  "gpu_usable opts snap w \<longleftrightarrow> wants_gpu opts w \<and> gpu_present snap \<and> \<not> gpu_hot snap \<and> \<not> gpu_loaded w snap \<and>
     estimated_vram_mb w \<le> vram_mb_ceiling opts"

definition placement_reasons :: "compute_options \<Rightarrow> resource_snapshot \<Rightarrow> workload \<Rightarrow> string list" where
  "placement_reasons opts snap w =
     [''policy_before_optimization''] @ (if cpu_hot snap then [''cpu_thermal_safety_boundary''] else []) @
     (if \<not> gpu_present snap then []
      else if gpu_hot snap then [''gpu_thermal_safety_fallback'']
      else if gpu_loaded w snap then [''interactive_or_existing_gpu_load_wins'']
      else if wants_gpu opts w \<and> vram_mb_ceiling opts < estimated_vram_mb w
        then [''workload_total_vram_ceiling_exceeded'']
      else [])"

definition free_vram :: "compute_options \<Rightarrow> resource_snapshot \<Rightarrow> int" where
  "free_vram opts snap = min (or_zero (memory_free_mb (hd (devices snap)))) (vram_mb_ceiling opts)"

definition ask_lease ::
  "ledger_env \<Rightarrow> compute_options \<Rightarrow> resource_snapshot \<Rightarrow> workload \<Rightarrow> compute_ledger
     \<Rightarrow> (string option \<times> string list) \<times> compute_ledger" where
  "ask_lease env opts snap w led =
     (if \<not> gpu_usable opts snap w then ((None, []), led)
      else if leases_open env then acquire env w (free_vram opts snap) led
      else ((None, [''gpu_lease_ledger_unavailable'']), led))"

definition accept ::
  "resource_snapshot \<Rightarrow> workload \<Rightarrow> placement \<Rightarrow> string \<Rightarrow> string option \<Rightarrow> string list \<Rightarrow> string option \<Rightarrow> string
     \<Rightarrow> compute_decision" where
  "accept snap w p device lease why fb job = \<lparr>d_workload_id = workload_id w, d_placement = p,
     selected_device = device, d_lease = lease, reasons = why, d_snapshot = snap, fallback = fb,
     queue_position = None, d_reservation = Some job\<rparr>"

definition cpu_if_allowed :: "workload \<Rightarrow> string option" where
  "cpu_if_allowed w = (if cpu_fallback_allowed w then Some ''cpu'' else None)"

definition place_on_gpu ::
  "ledger_env \<Rightarrow> resource_snapshot \<Rightarrow> workload \<Rightarrow> string \<Rightarrow> string list \<Rightarrow> compute_ledger
     \<Rightarrow> compute_decision \<times> compute_ledger" where
  "place_on_gpu env snap w i why led = (if jobs_open env then
       (let (job, led') = reserve_job env w led
        in (accept snap w (if estimated_cpu_percent w \<noteq> 0 then On_both else On_gpu) ''cuda:0'' (Some i) why
              (cpu_if_allowed w) job, led'))
     else (refuse snap w Rejected (why @ [''compute_job_ledger_unavailable'']) None None,
           snd (release env i ''compute_job_reservation_failed'' None led)))"

definition place_on_cpu ::
  "ledger_env \<Rightarrow> compute_options \<Rightarrow> resource_snapshot \<Rightarrow> workload \<Rightarrow> string list \<Rightarrow> compute_ledger
     \<Rightarrow> compute_decision \<times> compute_ledger" where
  "place_on_cpu env opts snap w why led =
     (if cpu_fallback_allowed w \<and> \<not> cpu_busy opts snap \<and> \<not> cpu_hot snap then
        (let why' = why @ [if wants_gpu opts w then ''cpu_fallback'' else ''cpu_earned''] in
         if jobs_open env then (let (job, led') = reserve_job env w led
           in (accept snap w On_cpu ''cpu'' None why' None job, led'))
         else (refuse snap w Rejected (why' @ [''compute_job_ledger_unavailable'']) None None, led))
      else if w_priority w = ''background'' then
        (refuse snap w Deferred (why @ [''resource_ceiling_busy'']) (cpu_if_allowed w) (Some 1), led)
      else (refuse snap w Rejected (why @ [''no_safe_compute_path'']) None None, led))"

definition place ::
  "ledger_env \<Rightarrow> compute_options \<Rightarrow> resource_snapshot \<Rightarrow> workload \<Rightarrow> compute_ledger
     \<Rightarrow> compute_decision \<times> compute_ledger" where
  "place env opts snap w led = (let
       why = placement_reasons opts snap w; ((lease, more), led') = ask_lease env opts snap w led
     in case lease of Some i \<Rightarrow> place_on_gpu env snap w i (why @ more) led'
        | None \<Rightarrow> place_on_cpu env opts snap w (why @ more) led')"

definition decide_compute ::
  "ledger_env \<Rightarrow> compute_options \<Rightarrow> resource_snapshot \<Rightarrow> workload \<Rightarrow> compute_ledger
     \<Rightarrow> compute_decision \<times> compute_ledger" where
  "decide_compute env opts snap w led = (let
       (d, led') = (case policy_refusal env opts snap w of
           Some d \<Rightarrow> (d, led)
         | None \<Rightarrow> let (n, led1) = background_load env opts led in
             if w_priority w = ''background'' \<and> max_background_jobs opts \<le> n then
               (refuse snap w Deferred [''policy_before_optimization'',
                  if max_background_jobs opts \<le> 0 then ''background_work_disabled''
                  else ''background_queue_ceiling_reached''] None (Some (n + 1)), led1)
             else place env opts snap w led1)
     in (d, record_safely env d led'))"


section \<open>The ledger as a machine\<close>

datatype compute_op =
    Decide ledger_env compute_options resource_snapshot workload
  | Release_lease ledger_env string string "int option"
  | Release_job ledger_env string string
  | Cancel_all ledger_env string
  | List_leases ledger_env
  | List_jobs ledger_env
  | Record_oom ledger_env string string string "int option" "int option" string
  | Restart_process

primrec compute_step :: "compute_op \<Rightarrow> compute_ledger \<Rightarrow> compute_ledger" where
  "compute_step (Decide env opts snap w) led = snd (decide_compute env opts snap w led)"
| "compute_step (Release_lease env i why actual) led = snd (release env i why actual led)"
| "compute_step (Release_job env i why) led = snd (release_job env i why led)"
| "compute_step (Cancel_all env why) led = snd (cancel_all_leases env why led)"
| "compute_step (List_leases env) led = snd (active_leases env led)"
| "compute_step (List_jobs env) led = snd (active_jobs env led)"
| "compute_step (Record_oom env wid kind device observed limit recovery) led =
     snd (record_oom env wid kind device observed limit recovery led)"
| "compute_step Restart_process led = led\<lparr>recovered_here := False\<rparr>"

text \<open>Memory held by leases stays below \<open>cap\<close>; only a decision asked with a larger ceiling may break that.\<close>

definition vram_ok :: "int \<Rightarrow> compute_ledger \<Rightarrow> bool" where
  "vram_ok cap led \<longleftrightarrow> list_all (\<lambda>l. 0 \<le> demand l) (leases led) \<and> reserved (leases led) \<le> cap"

fun over_ceiling :: "int \<Rightarrow> compute_op \<Rightarrow> compute_ledger \<Rightarrow> bool" where
  "over_ceiling cap (Decide env opts snap w) led \<longleftrightarrow> cap < vram_mb_ceiling opts"
| "over_ceiling cap _ led \<longleftrightarrow> False"

named_theorems ledger_simps \<open>what an operation does to the rows\<close>

lemma close_lease_simps [simp]:
  "demand (close_lease st now why l) = demand l" "lease_id (close_lease st now why l) = lease_id l"
  "l_state (close_lease st now why l) = st"
  by (simp_all add: close_lease_def demand_def split: option.split)

lemma close_job_simps [simp]:
  "reservation_id (close_job st now why j) = reservation_id j" "j_state (close_job st now why j) = st"
  by (simp_all add: close_job_def)

lemma actual_simps [simp]:
  "demand (l\<lparr>l_actual_vram := v\<rparr>) = demand l" "held (l\<lparr>l_actual_vram := v\<rparr>) = held l"
  by (simp_all add: demand_def held_def split: option.split)

lemma new_lease_simps [simp]:
  "demand (new_lease env w) = needed w" "held (new_lease env w)"
  by (simp_all add: new_lease_def demand_def held_def)

lemma running_new_job [simp]: "running (new_job env w)"
  by (simp add: running_def new_job_def)

lemma needed_nonneg [simp]: "0 \<le> needed w"
  by (simp add: needed_def)

lemma on_simps [simp]:
  "leases (on_leases f led) = f (leases led)" "jobs (on_leases f led) = jobs led"
  "jobs (on_jobs g led) = g (jobs led)" "leases (on_jobs g led) = leases led"
  "recovered_here (on_leases f led) = recovered_here led" "recovered_here (on_jobs g led) = recovered_here led"
  by (simp_all add: on_leases_def on_jobs_def)

text \<open>An update that keeps every demand and revives no lease only lowers what is reserved.\<close>

definition tame :: "(gpu_lease \<Rightarrow> gpu_lease) \<Rightarrow> bool" where
  "tame f \<longleftrightarrow> (\<forall>l. demand (f l) = demand l \<and> (held (f l) \<longrightarrow> held l))"

lemma reserved_map:
  assumes "list_all (\<lambda>l. 0 \<le> demand l) ls" "tame f"
  shows "reserved (map f ls) \<le> reserved ls" "list_all (\<lambda>l. 0 \<le> demand l) (map f ls)"
  using assms by (induction ls) (auto simp: reserved_def tame_def)

lemma vram_ok_update:
  assumes "vram_ok cap led" "\<And>l. p l \<Longrightarrow> demand (f l) = demand l \<and> (held (f l) \<longrightarrow> held l)"
  shows "vram_ok cap (on_leases (update_where p f) led)"
proof -
  have "tame (\<lambda>l. if p l then f l else l)" using assms(2) by (simp add: tame_def)
  with reserved_map [of "leases led"] assms(1) show ?thesis
    unfolding vram_ok_def update_where_def on_simps by (meson order_trans)
qed

lemma vram_ok_cong: "leases led' = leases led \<Longrightarrow> vram_ok cap led' = vram_ok cap led"
  by (simp add: vram_ok_def)

lemma held_closed [simp]: "st \<notin> {Row_active, Row_preempting} \<Longrightarrow> \<not> held (close_lease st now why l)"
  by (simp add: held_def)

lemma initialize_vram: "vram_ok cap led \<Longrightarrow> vram_ok cap (initialize env led)"
proof -
  assume v: "vram_ok cap led"
  let ?j = "on_jobs (update_where running (close_job Row_interrupted (now_text env) ''restart_recovery'')) led"
  have "vram_ok cap ?j" using v by (simp add: vram_ok_def)
  then have "vram_ok cap (on_leases (update_where held (close_lease Row_interrupted (now_text env) ''restart_recovery'')) ?j)"
    by (rule vram_ok_update) simp
  with v show ?thesis by (auto simp: initialize_def vram_ok_def)
qed

lemma acquire_vram:
  assumes "vram_ok cap led" "available \<le> cap"
  shows "vram_ok cap (snd (acquire env w available led))"
proof -
  let ?led = "initialize env led"
  note i = initialize_vram [OF assms(1), of env]
  show ?thesis
  proof (cases "needed w > max 0 (available - reserved (leases ?led))")
    case True
    have "vram_ok cap (on_leases (update_where (preemptable_by w) (close_lease Row_preempting (now_text env)
        (''preemption_requested_by:'' @ workload_id w))) ?led)"
      by (rule vram_ok_update [OF i]) (simp add: preemptable_by_def held_def)
    with True show ?thesis by (simp add: acquire_def Let_def)
  next
    case False
    with i assms(2) show ?thesis by (auto simp: acquire_def Let_def vram_ok_def reserved_def)
  qed
qed

lemma release_vram: "vram_ok cap led \<Longrightarrow> vram_ok cap (snd (release env i why actual led))"
  unfolding release_def Let_def snd_conv by (rule vram_ok_update [OF initialize_vram]) simp_all

lemma reserve_job_leases [simp]: "leases (snd (reserve_job env w led)) = leases (initialize env led)"
  by (simp add: reserve_job_def)

lemma reserve_vram: "vram_ok cap led \<Longrightarrow> vram_ok cap (snd (reserve_job env w led))"
  using initialize_vram [of cap led env] by (simp add: vram_ok_def)

lemma record_safely_vram: "vram_ok cap led \<Longrightarrow> vram_ok cap (record_safely env d led)"
  using initialize_vram [of cap led env] by (simp add: record_safely_def Let_def vram_ok_def)

lemma active_jobs_leases [simp]: "leases (snd (active_jobs env led)) = leases (initialize env led)"
  by (simp add: active_jobs_def Let_def)

lemma background_vram: "vram_ok cap led \<Longrightarrow> vram_ok cap (snd (background_load env opts led))"
  using initialize_vram [of cap led env]
  by (simp add: background_load_def vram_ok_def case_prod_beta)

lemma place_vram:
  assumes "vram_ok cap led" "vram_mb_ceiling opts \<le> cap"
  shows "vram_ok cap (snd (place env opts snap w led))"
proof -
  obtain lease more led' where a: "ask_lease env opts snap w led = ((lease, more), led')" by (metis surj_pair)
  have "free_vram opts snap \<le> cap" using assms(2) by (simp add: free_vram_def)
  with assms(1) have "vram_ok cap (snd (ask_lease env opts snap w led))"
    by (simp add: ask_lease_def acquire_vram)
  with a have v: "vram_ok cap led'" by simp
  show ?thesis
    using reserve_vram [OF v, of env w] release_vram [OF v, of env _ _ None] v
    by (simp add: place_def a Let_def place_on_gpu_def place_on_cpu_def case_prod_beta split: option.split)
qed

lemma decide_vram:
  assumes "vram_ok cap led" "vram_mb_ceiling opts \<le> cap"
  shows "vram_ok cap (snd (decide_compute env opts snap w led))"
proof (cases "policy_refusal env opts snap w")
  case (Some d)
  then show ?thesis by (simp add: decide_compute_def record_safely_vram assms(1))
next
  case None
  have "vram_ok cap (snd (background_load env opts led))" by (rule background_vram [OF assms(1)])
  with None assms(2) show ?thesis
    by (simp add: decide_compute_def Let_def case_prod_beta record_safely_vram place_vram)
qed

lemma vram_step: "vram_ok cap led \<Longrightarrow> \<not> over_ceiling cap op led \<Longrightarrow> vram_ok cap (compute_step op led)"
proof (induction op)
  case (Cancel_all env why)
  note i = initialize_vram [OF Cancel_all(1), of env]
  have "vram_ok cap (on_leases (update_where held (close_lease Row_cancelled (now_text env) (take 160 why))) (initialize env led))"
    by (rule vram_ok_update [OF i]) simp
  then show ?case by (simp add: cancel_all_leases_def Let_def vram_ok_def)
next
  case (List_leases env)
  note i = initialize_vram [OF List_leases(1), of env]
  show ?case unfolding compute_step.simps active_leases_def Let_def snd_conv
    by (rule vram_ok_update [OF i]) simp
next
  case (List_jobs env)
  then show ?case using initialize_vram [of cap led env] by (simp add: vram_ok_def)
next
  case (Record_oom env wid kind device observed limit recovery)
  then show ?case using initialize_vram [of cap led env] by (simp add: record_oom_def Let_def vram_ok_def)
next
  case (Release_job env i why)
  then show ?case using initialize_vram [of cap led env] by (simp add: release_job_def Let_def vram_ok_def)
next
  case Restart_process
  then show ?case by (simp add: vram_ok_def)
qed (simp_all add: decide_vram release_vram)

interpretation vram: guarded_machine compute_step "vram_ok cap" "over_ceiling cap" for cap
  by unfold_locales (rule vram_step)

text \<open>
  Claim C6. Accelerator memory is never overcommitted: whatever decisions, releases, cancellations,
  expiries and restarts happen, the memory demanded by the leases that are still held, those asked
  to yield included, never exceeds the ceiling the decisions were asked under.
\<close>

theorem vram_never_overcommitted:
  assumes "0 \<le> cap" "\<not> ended_in compute_step (over_ceiling cap) ops empty_ledger"
  shows "reserved (leases (run compute_step ops empty_ledger)) \<le> cap"
proof -
  have "vram_ok cap empty_ledger" using assms(1) by (simp add: vram_ok_def empty_ledger_def reserved_def)
  from vram.guarded_run [OF this assms(2)] show ?thesis by (simp add: vram_ok_def)
qed

section \<open>What a decision leaves behind\<close>

definition held_ids :: "compute_ledger \<Rightarrow> string set" where
  "held_ids led = lease_id ` set (filter held (leases led))"

definition running_ids :: "compute_ledger \<Rightarrow> string set" where
  "running_ids led = reservation_id ` set (filter running (jobs led))"

definition no_more :: "compute_ledger \<Rightarrow> compute_ledger \<Rightarrow> bool" where
  \<comment> \<open>nothing is held in the second ledger that was not held in the first\<close>
  "no_more led led' \<longleftrightarrow> held_ids led' \<subseteq> held_ids led \<and> running_ids led' \<subseteq> running_ids led"

lemma no_more_trans: "no_more a b \<Longrightarrow> no_more b c \<Longrightarrow> no_more a c"
  by (auto simp: no_more_def)

lemma no_more_refl [simp]: "no_more led led"
  by (simp add: no_more_def)

lemma update_where_held:
  "(\<And>l. p l \<Longrightarrow> lease_id (f l) = lease_id l \<and> (held (f l) \<longrightarrow> held l)) \<Longrightarrow>
     lease_id ` set (filter held (update_where p f ls)) \<subseteq> lease_id ` set (filter held ls)"
  by (induction ls) (auto simp: update_where_def)

lemma update_where_running:
  "(\<And>j. p j \<Longrightarrow> reservation_id (f j) = reservation_id j \<and> (running (f j) \<longrightarrow> running j)) \<Longrightarrow>
     reservation_id ` set (filter running (update_where p f js)) \<subseteq> reservation_id ` set (filter running js)"
  by (induction js) (auto simp: update_where_def)

lemma running_closed [simp]: "st \<noteq> Row_active \<Longrightarrow> \<not> running (close_job st now why j)"
  by (simp add: running_def)

lemma no_more_leases:
  "(\<And>l. p l \<Longrightarrow> lease_id (f l) = lease_id l \<and> (held (f l) \<longrightarrow> held l)) \<Longrightarrow>
     no_more led (on_leases (update_where p f) led)"
  unfolding no_more_def held_ids_def running_ids_def on_simps by (intro conjI subset_refl update_where_held) auto

lemma no_more_jobs:
  "(\<And>j. p j \<Longrightarrow> reservation_id (f j) = reservation_id j \<and> (running (f j) \<longrightarrow> running j)) \<Longrightarrow>
     no_more led (on_jobs (update_where p f) led)"
  unfolding no_more_def held_ids_def running_ids_def on_simps by (intro conjI subset_refl update_where_running) auto

lemma no_more_flag [simp]: "no_more led (led'\<lparr>recovered_here := b\<rparr>) = no_more led led'"
  "no_more led (led'\<lparr>receipts := r\<rparr>) = no_more led led'"
  by (simp_all add: no_more_def held_ids_def running_ids_def)

lemma initialize_no_more [simp]: "no_more led (initialize env led)"
  unfolding initialize_def
  by (auto intro!: no_more_trans [OF no_more_jobs no_more_leases])

lemma recovered_initialize [simp]: "recovered_here (initialize env led)"
  by (simp add: initialize_def)

lemma initialize_again [simp]: "recovered_here led \<Longrightarrow> initialize env led = led"
  by (simp add: initialize_def)

lemma record_safely_ids:
  "no_more led led' \<Longrightarrow> no_more led (record_safely env d led')"
  "recovered_here led' \<Longrightarrow> held_ids (record_safely env d led') = held_ids led'"
  "recovered_here led' \<Longrightarrow> running_ids (record_safely env d led') = running_ids led'"
  by (auto simp: record_safely_def Let_def held_ids_def running_ids_def intro: no_more_trans)

lemma background_no_more [simp]: "no_more led (snd (background_load env opts led))"
  unfolding background_load_def active_jobs_def Let_def
  by (auto intro!: no_more_trans [OF initialize_no_more no_more_jobs])

lemma acquire_refused_no_more:
  "acquire env w available led = ((None, why), led') \<Longrightarrow> no_more led led'"
  unfolding acquire_def Let_def
  by (auto split: if_splits intro!: no_more_trans [OF initialize_no_more no_more_leases]
      simp: preemptable_by_def held_def)

lemma acquired_facts:
  assumes "acquire env w available led = ((Some i, why), led')"
  shows "i \<in> held_ids led'" "held_ids led' \<subseteq> insert i (held_ids led)" "running_ids led' \<subseteq> running_ids led"
    "recovered_here led'"
proof -
  from assms have l: "led' = on_leases (\<lambda>ls. ls @ [new_lease env w]) (initialize env led)" "i = lease_id (new_lease env w)"
    by (auto simp: acquire_def Let_def split: if_splits)
  have n: "no_more led (initialize env led)" by simp
  have h: "held_ids led' = insert i (held_ids (initialize env led))" by (simp add: l held_ids_def)
  show "i \<in> held_ids led'" by (simp add: h)
  show "held_ids led' \<subseteq> insert i (held_ids led)" using n by (auto simp: h no_more_def)
  show "running_ids led' \<subseteq> running_ids led" using n by (simp add: l running_ids_def no_more_def)
  show "recovered_here led'" by (simp add: l)
qed

lemma closed_by_id:
  "(\<And>l. \<not> held (f l)) \<Longrightarrow> lease_id ` set (filter held (update_where (\<lambda>l. lease_id l = i \<and> held l) f ls)) \<subseteq>
     lease_id ` set (filter held ls) - {i}"
  by (induction ls) (auto simp: update_where_def)

lemma release_facts:
  assumes "recovered_here led"
  shows "held_ids (snd (release env i why actual led)) \<subseteq> held_ids led - {i}"
    "running_ids (snd (release env i why actual led)) = running_ids led"
proof -
  show "held_ids (snd (release env i why actual led)) \<subseteq> held_ids led - {i}"
    unfolding release_def Let_def snd_conv held_ids_def on_simps initialize_again [OF assms]
    by (rule closed_by_id) simp
  show "running_ids (snd (release env i why actual led)) = running_ids led"
    by (simp add: release_def Let_def running_ids_def assms)
qed

lemma reserved_facts:
  assumes "reserve_job env w led = (job, led')"
  shows "job \<in> running_ids led'" "recovered_here led'" "held_ids led' \<subseteq> held_ids led"
    "recovered_here led \<Longrightarrow> held_ids led' = held_ids led"
proof -
  from assms have l: "led' = on_jobs (\<lambda>js. js @ [new_job env w]) (initialize env led)"
    "job = reservation_id (new_job env w)" by (simp_all add: reserve_job_def)
  have h: "held_ids led' = held_ids (initialize env led)" by (simp add: l held_ids_def)
  have n: "no_more led (initialize env led)" by simp
  show "job \<in> running_ids led'" by (simp add: l running_ids_def)
  show "recovered_here led'" by (simp add: l)
  show "held_ids led' \<subseteq> held_ids led" using n h by (simp add: no_more_def)
  show "recovered_here led \<Longrightarrow> held_ids led' = held_ids led" using h by simp
qed

definition granted :: "compute_decision \<Rightarrow> bool" where
  "granted d \<longleftrightarrow> d_placement d \<notin> {Deferred, Rejected}"

lemma refuse_simps [simp]:
  "d_placement (refuse snap w p why fb queue) = p" "d_lease (refuse snap w p why fb queue) = None"
  "d_reservation (refuse snap w p why fb queue) = None" "selected_device (refuse snap w p why fb queue) = ''none''"
  by (simp_all add: refuse_def)

lemma accept_simps [simp]:
  "d_placement (accept snap w p device lease why fb job) = p" "d_lease (accept snap w p device lease why fb job) = lease"
  "d_reservation (accept snap w p device lease why fb job) = Some job"
  "selected_device (accept snap w p device lease why fb job) = device"
  by (simp_all add: accept_def)

lemma policy_refusal_Some:
  "policy_refusal env opts snap w = Some d \<Longrightarrow>
     \<not> granted d \<and> d_lease d = None \<and> d_reservation d = None \<and> selected_device d = ''none''"
  by (auto simp: policy_refusal_def Let_def granted_def deferred_if_background_def split: if_splits)

lemma policy_refusal_None:
  "policy_refusal env opts snap w = None \<Longrightarrow>
     \<not> deadline_passed env w \<and> \<not> stop_active opts \<and> estimated_ram_mb w \<le> ram_mb_ceiling opts \<and>
     estimated_cpu_percent w \<le> cpu_percent_ceiling opts \<and>
     (\<forall>n. ram_available_mb snap = Some n \<longrightarrow> estimated_ram_mb w \<le> n)"
  by (auto simp: policy_refusal_def Let_def split: if_splits)

definition empty_handed :: "compute_decision \<Rightarrow> bool" where
  "empty_handed d \<longleftrightarrow> d_lease d = None \<and> d_reservation d = None \<and> selected_device d = ''none''"

definition backed :: "compute_options \<Rightarrow> resource_snapshot \<Rightarrow> workload \<Rightarrow> compute_decision \<Rightarrow> compute_ledger \<Rightarrow> bool" where
  \<comment> \<open>what the rows hold for a granted decision, and what the sensors said\<close>
  "backed opts snap w d led \<longleftrightarrow>
     (\<exists>job. d_reservation d = Some job \<and> job \<in> running_ids led) \<and>
     (if d_placement d = On_cpu then
        d_lease d = None \<and> selected_device d = ''cpu'' \<and> cpu_fallback_allowed w \<and> \<not> cpu_hot snap \<and> \<not> cpu_busy opts snap
      else (\<exists>i. d_lease d = Some i \<and> i \<in> held_ids led) \<and> selected_device d = ''cuda:0'' \<and> gpu_usable opts snap w)"

lemma place_on_cpu_facts:
  assumes "place_on_cpu env opts snap w why led = (d, led')"
  shows "granted d \<Longrightarrow> backed opts snap w d led' \<and> recovered_here led'"
    "\<not> granted d \<Longrightarrow> empty_handed d \<and> led' = led"
  using assms reserved_facts(1,2) [of env w led]
  by (auto simp: place_on_cpu_def Let_def granted_def backed_def empty_handed_def split: if_splits prod.splits)

lemma place_on_gpu_facts:
  assumes "place_on_gpu env snap w i why led = (d, led')" "recovered_here led" "i \<in> held_ids led" "gpu_usable opts snap w"
  shows "granted d \<Longrightarrow> backed opts snap w d led' \<and> recovered_here led'"
    "\<not> granted d \<Longrightarrow> empty_handed d \<and> held_ids led' \<subseteq> held_ids led - {i} \<and> running_ids led' = running_ids led"
  using assms reserved_facts(1,2,4) [of env w led] release_facts [of led env i "''compute_job_reservation_failed''" None]
  by (auto simp: place_on_gpu_def granted_def backed_def empty_handed_def split: if_splits prod.splits)

lemma ask_lease_facts:
  assumes "ask_lease env opts snap w led = ((lease, why), led')"
  shows "lease = None \<Longrightarrow> no_more led led'"
    "lease = Some i \<Longrightarrow> gpu_usable opts snap w \<and> i \<in> held_ids led' \<and> held_ids led' \<subseteq> insert i (held_ids led) \<and>
       running_ids led' \<subseteq> running_ids led \<and> recovered_here led'"
  using assms acquired_facts [of env w "free_vram opts snap" led i why led']
    acquire_refused_no_more [of env w "free_vram opts snap" led why led']
  by (auto simp: ask_lease_def split: if_splits)

lemma place_facts:
  assumes "place env opts snap w led = (d, led')"
  shows "granted d \<Longrightarrow> backed opts snap w d led' \<and> recovered_here led'"
    "\<not> granted d \<Longrightarrow> empty_handed d \<and> no_more led led'"
proof -
  obtain lease more led1 where a: "ask_lease env opts snap w led = ((lease, more), led1)" by (metis surj_pair)
  note f = ask_lease_facts [OF a]
  have "(granted d \<longrightarrow> backed opts snap w d led' \<and> recovered_here led') \<and> (\<not> granted d \<longrightarrow> empty_handed d \<and> no_more led led')"
  proof (cases lease)
    case None
    with assms a have "place_on_cpu env opts snap w (placement_reasons opts snap w @ more) led1 = (d, led')"
      by (simp add: place_def Let_def)
    from place_on_cpu_facts [OF this] f(1) [OF None] show ?thesis by auto
  next
    case (Some i)
    with assms a have p: "place_on_gpu env snap w i (placement_reasons opts snap w @ more) led1 = (d, led')"
      by (simp add: place_def Let_def)
    from f(2) [OF Some] have l: "gpu_usable opts snap w" "i \<in> held_ids led1" "recovered_here led1"
      "held_ids led1 \<subseteq> insert i (held_ids led)" "running_ids led1 \<subseteq> running_ids led" by blast+
    from place_on_gpu_facts [OF p l(3,2,1)] l(4,5) show ?thesis by (auto simp: no_more_def)
  qed
  then show "granted d \<Longrightarrow> backed opts snap w d led' \<and> recovered_here led'"
    "\<not> granted d \<Longrightarrow> empty_handed d \<and> no_more led led'" by blast+
qed

lemma backed_record: "recovered_here led \<Longrightarrow> backed opts snap w d (record_safely env x led) = backed opts snap w d led"
  by (simp add: backed_def record_safely_ids)

text \<open>
  A refusal costs nothing: a decision that rejects or defers work names no device, lease
  or job, and afterwards no lease is held and no job runs that was not there before, even when a
  lease had been taken and the job could not be registered.
\<close>

theorem refused_work_holds_nothing:
  assumes "decide_compute env opts snap w led = (d, led')" "d_placement d \<in> {Deferred, Rejected}"
  shows "d_lease d = None \<and> d_reservation d = None \<and> selected_device d = ''none'' \<and>
    held_ids led' \<subseteq> held_ids led \<and> running_ids led' \<subseteq> running_ids led"
proof -
  let ?b = "background_load env opts led"
  have g: "\<not> granted d" using assms(2) by (simp add: granted_def)
  show ?thesis
  proof (cases "policy_refusal env opts snap w")
    case (Some d')
    with assms(1) have "d' = d" "led' = record_safely env d led" by (auto simp: decide_compute_def)
    with policy_refusal_Some [OF Some] record_safely_ids(1) [where env = env and d = d, OF no_more_refl [of led]]
    show ?thesis by (simp add: no_more_def)
  next
    case None
    obtain d1 led1 where p: "place env opts snap w (snd ?b) = (d1, led1)" by (metis surj_pair)
    have b: "no_more led (snd ?b)" by simp
    show ?thesis
    proof (cases "w_priority w = ''background'' \<and> max_background_jobs opts \<le> fst ?b")
      case True
      with assms(1) None have "empty_handed d" "led' = record_safely env d (snd ?b)"
        by (auto simp: decide_compute_def Let_def case_prod_beta empty_handed_def)
      with record_safely_ids(1) [where env = env and d = d, OF b] show ?thesis by (simp add: no_more_def empty_handed_def)
    next
      case False
      with assms(1) None p have "d1 = d" "led' = record_safely env d led1"
        by (auto simp: decide_compute_def Let_def case_prod_beta)
      with place_facts(2) [OF p] g no_more_trans [OF b, of led1] record_safely_ids(1) [where led = led and led' = led1]
      show ?thesis by (simp add: no_more_def empty_handed_def)
    qed
  qed
qed

text \<open>
  Granted work is backed and safe: a decision that places work comes with a running job
  in the ledger; on the accelerator also with a held lease, and then the accelerator was present,
  cool enough and within the ceiling; on the processor only when fallback is allowed and the
  processor is neither hot nor busy; and never while the stop is active, after the deadline or
  above the memory and processor ceilings.
\<close>

theorem granted_work_is_backed:
  assumes "decide_compute env opts snap w led = (d, led')" "d_placement d \<notin> {Deferred, Rejected}"
  shows "backed opts snap w d led' \<and> \<not> stop_active opts \<and> \<not> deadline_passed env w \<and>
    estimated_ram_mb w \<le> ram_mb_ceiling opts \<and> estimated_cpu_percent w \<le> cpu_percent_ceiling opts \<and>
    (\<forall>n. ram_available_mb snap = Some n \<longrightarrow> estimated_ram_mb w \<le> n)"
proof -
  let ?b = "background_load env opts led"
  have g: "granted d" using assms(2) by (simp add: granted_def)
  with assms(1) policy_refusal_Some have None: "policy_refusal env opts snap w = None"
    by (auto simp: decide_compute_def split: option.splits)
  obtain d1 led1 where p: "place env opts snap w (snd ?b) = (d1, led1)" by (metis surj_pair)
  have "\<not> (w_priority w = ''background'' \<and> max_background_jobs opts \<le> fst ?b)"
    using assms None by (auto simp: decide_compute_def Let_def case_prod_beta)
  with assms(1) None p have d: "d1 = d" "led' = record_safely env d led1"
    by (auto simp: decide_compute_def Let_def case_prod_beta)
  with place_facts(1) [OF p] g have "backed opts snap w d led1" "recovered_here led1" by simp_all
  then have "backed opts snap w d led'" by (simp add: d(2) backed_record)
  with policy_refusal_None [OF None] show ?thesis by blast
qed

text \<open>
  Cancelling everything, as the emergency stop does, leaves no lease held and no job running, and
  the owner of a cancelled lease is told to yield.
\<close>

lemma cancel_all_leaves_nothing:
  "held_ids (snd (cancel_all_leases env why led)) = {} \<and> running_ids (snd (cancel_all_leases env why led)) = {}"
  by (auto simp: cancel_all_leases_def Let_def held_ids_def running_ids_def update_where_def)

section \<open>Witnesses\<close>

definition sample_ledger_env :: ledger_env where
  "sample_ledger_env = \<lparr>now_text = ''2026-01-01T00:00:00Z'', now_instant = 100, parse_deadline = (\<lambda>_. None),
     fresh = ''0001'', jobs_readable = True, leases_open = True, jobs_open = True, receipts_open = True\<rparr>"

definition sample_work :: workload where
  "sample_work = \<lparr>workload_id = ''w1'', owner_user_id = None, task_kind = ''chat'', w_priority = ''normal'',
     interactive = True, privacy = ''normal'', estimated_cpu_percent = 10, estimated_gpu_percent = 50,
     estimated_ram_mb = 512, estimated_vram_mb = 4000, incremental_vram_mb = None, estimated_duration_ms = 1000,
     batchable = False, deadline_utc = None, w_cancellable = True, w_preemptible = True, cpu_fallback_allowed = False,
     required_model = None, required_resources = [], hard_vram_limit_mb = None, model_to_evict = None,
     estimate_source = ''declared_by_workload_owner''\<rparr>"

definition sample_snapshot :: resource_snapshot where
  "sample_snapshot = \<lparr>cpu_percent = Some 20, ram_available_mb = Some 8000, cpu_temperature = Some 60,
     gpu_reported = True, devices = [\<lparr>memory_free_mb = Some 6000, utilization_percent = Some 10,
       gpu_temperature = Some 70\<rparr>]\<rparr>"

lemma vram_never_overcommitted_witness:
  "reserved (leases (run compute_step
     [Decide sample_ledger_env default_options sample_snapshot sample_work,
      Decide sample_ledger_env default_options sample_snapshot sample_work] empty_ledger)) \<le> 12288"
  by (rule vram_never_overcommitted) (simp_all add: default_options_def)

lemma sample_decisions:
  "d_placement (fst (decide_compute sample_ledger_env default_options sample_snapshot sample_work empty_ledger)) = On_both"
  "d_placement (fst (decide_compute (sample_ledger_env\<lparr>jobs_open := False\<rparr>) default_options sample_snapshot sample_work
     empty_ledger)) = Rejected"
  by code_simp+

lemma granted_work_is_backed_witness:
  "\<exists>d led. decide_compute sample_ledger_env default_options sample_snapshot sample_work empty_ledger = (d, led) \<and>
     backed default_options sample_snapshot sample_work d led"
proof -
  obtain d led where d: "decide_compute sample_ledger_env default_options sample_snapshot sample_work empty_ledger = (d, led)"
    by (metis surj_pair)
  with sample_decisions(1) have "d_placement d \<notin> {Deferred, Rejected}" by simp
  from granted_work_is_backed [OF d this] d show ?thesis by blast
qed

lemma refused_work_holds_nothing_witness:
  "held_ids (snd (decide_compute (sample_ledger_env\<lparr>jobs_open := False\<rparr>) default_options sample_snapshot sample_work
     empty_ledger)) = {}"
proof -
  let ?x = "decide_compute (sample_ledger_env\<lparr>jobs_open := False\<rparr>) default_options sample_snapshot sample_work empty_ledger"
  have "?x = (fst ?x, snd ?x)" by simp
  from refused_work_holds_nothing [OF this] sample_decisions(2) show ?thesis
    by (simp add: held_ids_def empty_ledger_def)
qed

end
