(* ===== verification/ResourceGuard.thy ===== *)
theory ResourceGuard
  imports Machines Complex_Main
begin

text \<open>
  The active safety supervision of a request, \<open>app/cognition/resource_guard.py\<close>.  Two threads
  share the guard: the sampler stores and inspects every sample, the watchdog inspects the last one
  again so that a stalled sampler cannot suspend cancellation.  One step is one pass of either
  loop, the deadline of \<open>start\<close>, or \<open>close\<close>; any interleaving of the threads is a list of steps.
  A reading is a rational number, absent (\<open>None\<close>), or unusable (not a number, infinite, a truth
  value).  The clock of a pass and what the sensors answer are arguments.
\<close>

section \<open>Samples and policies\<close>

datatype reading = Absent | Unusable | Reading rat

definition finite_reading :: "reading \<Rightarrow> bool" where
  "finite_reading r \<longleftrightarrow> (case r of Reading _ \<Rightarrow> True | _ \<Rightarrow> False)"

definition value_of :: "reading \<Rightarrow> rat" where
  "value_of r = (case r of Reading x \<Rightarrow> x | _ \<Rightarrow> 0)"

record resource_sample =
  monotonic_s :: reading
  cpu_c :: reading
  gpu_c :: reading
  ram_mb :: reading
  gpu_used_mb :: reading

record guard_policy =
  cpu_cutoff_c :: rat
  gpu_cutoff_c :: rat
  minimum_ram_mb :: rat
  stale_after_s :: rat
  sample_interval_s :: rat
  require_gpu :: bool
  maximum_gpu_used_mb :: reading

definition default_policy :: guard_policy where
  "default_policy = \<lparr>cpu_cutoff_c = 90, gpu_cutoff_c = 85, minimum_ram_mb = 1024, stale_after_s = 3,
     sample_interval_s = 1/4, require_gpu = False, maximum_gpu_used_mb = Absent\<rparr>"

definition make_policy :: "guard_policy \<Rightarrow> string + guard_policy" where
  "make_policy p =
     (if \<not> (0 < cpu_cutoff_c p \<and> cpu_cutoff_c p \<le> 90 \<and> 0 < gpu_cutoff_c p \<and> gpu_cutoff_c p \<le> 85 \<and>
          0 \<le> minimum_ram_mb p \<and> 0 < stale_after_s p \<and> stale_after_s p \<le> 3 \<and>
          0 < sample_interval_s p \<and> sample_interval_s p \<le> stale_after_s p)
      then Inl ''invalid_resource_guard_policy''
      else if maximum_gpu_used_mb p \<noteq> Absent \<and>
          (\<not> finite_reading (maximum_gpu_used_mb p) \<or> value_of (maximum_gpu_used_mb p) \<le> 0)
      then Inl ''invalid_gpu_memory_boundary''
      else Inr p)"

section \<open>The guard\<close>

record guard =
  policy :: guard_policy
  last_sample :: "resource_sample option"
  trip_reason :: "string option"
  is_closed :: bool
  is_ready :: bool
  started :: rat
  peak_cpu :: "rat option"
  peak_gpu :: "rat option"
  peak_gpu_used :: "rat option"
  sample_count :: nat
  trip_calls :: "string list"

definition new_guard :: "rat \<Rightarrow> guard_policy \<Rightarrow> guard" where
  "new_guard now p = \<lparr>policy = p, last_sample = None, trip_reason = None, is_closed = False, is_ready = False,
     started = now, peak_cpu = None, peak_gpu = None, peak_gpu_used = None, sample_count = 0, trip_calls = []\<rparr>"

definition trip :: "string \<Rightarrow> guard \<Rightarrow> guard" where
  "trip why g = (if trip_reason g \<noteq> None \<or> is_closed g then g
     else g\<lparr>trip_reason := Some why, is_ready := True, trip_calls := trip_calls g @ [why]\<rparr>)"

definition danger :: "guard_policy \<Rightarrow> rat \<Rightarrow> resource_sample \<Rightarrow> string option" where
  \<comment> \<open>the branches of \<open>_inspect\<close> on a sample\<close>
  "danger p now s =
     (if \<not> finite_reading (monotonic_s s) \<or> \<not> (0 \<le> now - value_of (monotonic_s s) \<and>
          now - value_of (monotonic_s s) < stale_after_s p) then Some ''resource_telemetry_stale''
      else if \<not> finite_reading (cpu_c s) then Some ''cpu_telemetry_unavailable''
      else if cpu_cutoff_c p \<le> value_of (cpu_c s) then Some ''cpu_thermal_cutoff''
      else if (require_gpu p \<or> gpu_c s \<noteq> Absent) \<and> \<not> finite_reading (gpu_c s)
        then Some ''gpu_telemetry_unavailable''
      else if gpu_c s \<noteq> Absent \<and> gpu_cutoff_c p \<le> value_of (gpu_c s) then Some ''gpu_thermal_cutoff''
      else if \<not> finite_reading (ram_mb s) then Some ''ram_telemetry_unavailable''
      else if value_of (ram_mb s) < minimum_ram_mb p then Some ''ram_safety_reserve''
      else if maximum_gpu_used_mb p \<noteq> Absent \<and> \<not> finite_reading (gpu_used_mb s)
        then Some ''gpu_memory_telemetry_unavailable''
      else if maximum_gpu_used_mb p \<noteq> Absent \<and> value_of (maximum_gpu_used_mb p) \<le> value_of (gpu_used_mb s)
        then Some ''gpu_memory_safety_boundary''
      else None)"

definition inspect :: "rat \<Rightarrow> resource_sample option \<Rightarrow> guard \<Rightarrow> guard" where
  "inspect now v g = (case v of
       None \<Rightarrow> if stale_after_s (policy g) \<le> now - started g then trip ''resource_telemetry_stale'' g else g
     | Some s \<Rightarrow> (case danger (policy g) now s of None \<Rightarrow> g | Some why \<Rightarrow> trip why g))"

definition raise_peak :: "reading \<Rightarrow> rat option \<Rightarrow> rat option" where
  \<comment> \<open>\<open>max(reading, peak or reading)\<close>: a peak of zero counts as none\<close>
  "raise_peak r peak = (case r of
       Reading x \<Rightarrow> Some (max x (case peak of None \<Rightarrow> x | Some y \<Rightarrow> if y = 0 then x else y))
     | _ \<Rightarrow> peak)"

definition store_sample :: "resource_sample \<Rightarrow> guard \<Rightarrow> guard" where
  "store_sample s g = g\<lparr>last_sample := Some s, sample_count := sample_count g + 1,
     peak_cpu := raise_peak (cpu_c s) (peak_cpu g), peak_gpu := raise_peak (gpu_c s) (peak_gpu g),
     peak_gpu_used := raise_peak (gpu_used_mb s) (peak_gpu_used g)\<rparr>"

definition sample_pass :: "rat \<Rightarrow> resource_sample option \<Rightarrow> guard \<Rightarrow> guard" where
  \<comment> \<open>one pass of \<open>_sample_loop\<close>; no sample stands for a sampler that failed\<close>
  "sample_pass now v g =
     (if is_closed g then g
      else case v of None \<Rightarrow> trip ''resource_telemetry_unavailable'' g
        | Some s \<Rightarrow> (inspect now (Some s) (store_sample s g))\<lparr>is_ready := True\<rparr>)"

definition watch_pass :: "rat \<Rightarrow> guard \<Rightarrow> guard" where
  "watch_pass now g = (if is_closed g then g else inspect now (last_sample g) g)"

definition start_deadline :: "guard \<Rightarrow> guard" where
  \<comment> \<open>the end of \<open>start\<close>, when its waiting time is over\<close>
  "start_deadline g = (if is_ready g then g else trip ''resource_telemetry_stale'' g)"

definition close :: "guard \<Rightarrow> guard" where
  "close g = g\<lparr>is_closed := True\<rparr>"

datatype guard_op = Sample_pass rat "resource_sample option" | Watch_pass rat | Start_deadline | Close

primrec guard_step :: "guard_op \<Rightarrow> guard \<Rightarrow> guard" where
  "guard_step (Sample_pass now v) g = sample_pass now v g"
| "guard_step (Watch_pass now) g = watch_pass now g"
| "guard_step Start_deadline g = start_deadline g"
| "guard_step Close g = close g"

section \<open>What the guard guarantees\<close>

definition calls_ok :: "guard \<Rightarrow> bool" where
  \<comment> \<open>the owner was told once, with the reason kept\<close>
  "calls_ok g \<longleftrightarrow> trip_calls g = (case trip_reason g of None \<Rightarrow> [] | Some why \<Rightarrow> [why])"

lemma trip_simps [simp]:
  "policy (trip why g) = policy g" "is_closed (trip why g) = is_closed g" "started (trip why g) = started g"
  "last_sample (trip why g) = last_sample g"
  by (simp_all add: trip_def)

lemma inspect_simps [simp]: "policy (inspect now v g) = policy g" "is_closed (inspect now v g) = is_closed g"
  by (simp_all add: inspect_def split: option.split)

lemma store_simps [simp]:
  "policy (store_sample s g) = policy g" "is_closed (store_sample s g) = is_closed g"
  "trip_reason (store_sample s g) = trip_reason g" "trip_calls (store_sample s g) = trip_calls g"
  "started (store_sample s g) = started g"
  by (simp_all add: store_sample_def)

lemma trip_calls_ok: "calls_ok g \<Longrightarrow> calls_ok (trip why g)"
  by (auto simp: calls_ok_def trip_def)

lemma inspect_calls_ok: "calls_ok g \<Longrightarrow> calls_ok (inspect now v g)"
  by (simp add: inspect_def trip_calls_ok split: option.split)

lemma ready_calls_ok [simp]: "calls_ok (g\<lparr>is_ready := b\<rparr>) = calls_ok g" "calls_ok (store_sample s g) = calls_ok g"
  by (simp_all add: calls_ok_def)

lemma guard_calls_step: "calls_ok g \<Longrightarrow> calls_ok (guard_step op g)"
proof (cases op)
  case Close
  then show "calls_ok g \<Longrightarrow> ?thesis" by (simp add: close_def calls_ok_def)
qed (auto simp: sample_pass_def watch_pass_def start_deadline_def trip_calls_ok inspect_calls_ok split: option.split)

interpretation calls: invariant_machine guard_step calls_ok
  by unfold_locales (rule guard_calls_step)

lemma trip_keeps: "trip_reason g = Some why \<Longrightarrow> trip w g = g"
  by (simp add: trip_def)

lemma inspect_keeps: "trip_reason g = Some why \<Longrightarrow> trip_reason (inspect now v g) = Some why"
  by (simp add: inspect_def trip_keeps split: option.split)

lemma tripped_step: "trip_reason g = Some why \<Longrightarrow> trip_reason (guard_step op g) = Some why"
  by (cases op)
    (simp_all add: sample_pass_def watch_pass_def start_deadline_def close_def inspect_keeps trip_keeps
      split: option.split)

interpretation tripped: invariant_machine guard_step "\<lambda>g. trip_reason g = Some why" for why
  by unfold_locales (rule tripped_step)

lemma trip_trips: "\<not> is_closed g \<Longrightarrow> trip_reason (trip why g) \<noteq> None"
  by (auto simp: trip_def)

lemma trip_fresh: "\<not> is_closed g \<Longrightarrow> trip_reason g = None \<Longrightarrow> trip_reason (trip why g) = Some why"
  by (simp add: trip_def)

lemma policy_step: "policy (guard_step op g) = policy g"
  by (cases op)
    (simp_all add: sample_pass_def watch_pass_def start_deadline_def close_def store_sample_def split: option.split)

lemma policy_run: "policy (run guard_step ops g) = policy g"
  by (induction ops arbitrary: g) (simp_all add: policy_step)

text \<open>
  One bad sample is enough: in every interleaving of sampler and watchdog, a sample that
  is stale, lacks a required reading or reaches a limit trips the guard before the pass ends unless
  the guard is closed; no later cool sample takes that back, and the owner of the work is told
  exactly once, with the first reason.
\<close>

theorem bad_sample_trips_for_good:
  assumes "g = run guard_step before (new_guard t p)" "\<not> is_closed g" "danger p now s = Some why"
  shows "\<exists>first. trip_reason (run guard_step (Sample_pass now (Some s) # after) g) = Some first \<and>
    trip_calls (run guard_step (Sample_pass now (Some s) # after) g) = [first] \<and>
    (trip_reason g = None \<longrightarrow> first = why)"
proof -
  let ?h = "guard_step (Sample_pass now (Some s)) g"
  have c: "calls_ok (new_guard t p)" by (simp add: calls_ok_def new_guard_def)
  have pol: "policy g = p" by (simp add: assms(1) policy_run new_guard_def)
  have h: "trip_reason ?h = trip_reason (trip why (store_sample s g))"
    using assms(2,3) pol by (simp add: sample_pass_def inspect_def)
  then obtain first where f: "trip_reason ?h = Some first" "trip_reason g = None \<longrightarrow> first = why"
    using trip_trips [of "store_sample s g" why] trip_fresh [of "store_sample s g" why] assms(2) by auto
  have "trip_reason (run guard_step after ?h) = Some first" by (rule tripped.inv_run [OF f(1)])
  moreover have "calls_ok (run guard_step (before @ Sample_pass now (Some s) # after) (new_guard t p))"
    by (rule calls.inv_run [OF c])
  then have "calls_ok (run guard_step after ?h)" using assms(1) by simp
  ultimately show ?thesis using f(2) by (simp add: calls_ok_def)
qed

lemma danger_None:
  assumes "danger p now s = None"
  shows "\<exists>x. monotonic_s s = Reading x \<and> 0 \<le> now - x \<and> now - x < stale_after_s p"
    "\<exists>x. cpu_c s = Reading x \<and> x < cpu_cutoff_c p" "\<exists>x. ram_mb s = Reading x \<and> minimum_ram_mb p \<le> x"
    "gpu_c s = Absent \<and> \<not> require_gpu p \<or> (\<exists>x. gpu_c s = Reading x \<and> x < gpu_cutoff_c p)"
    "maximum_gpu_used_mb p = Absent \<or> (\<exists>x. gpu_used_mb s = Reading x \<and> x < value_of (maximum_gpu_used_mb p))"
  using assms
  by (auto simp: danger_def finite_reading_def value_of_def split: if_splits reading.splits)

lemma make_policy_ok: "make_policy p = Inr q \<Longrightarrow> q = p \<and> cpu_cutoff_c p \<le> 90 \<and> gpu_cutoff_c p \<le> 85 \<and> stale_after_s p \<le> 3"
  by (auto simp: make_policy_def split: if_splits)

text \<open>
  An untripped guard means fresh and cool: whenever a watchdog pass of an open guard with
  an accepted policy leaves the guard untripped, either it is younger than three seconds and has
  no sample yet, or its last sample is less than three seconds old with the processor below 90
  degrees, any accelerator below 85 degrees and the memory reserve available.
\<close>

theorem untripped_guard_is_fresh:
  assumes "make_policy p = Inr p'" "g = run guard_step ops (new_guard t p')" "\<not> is_closed g"
    and "trip_reason (guard_step (Watch_pass now) g) = None"
  shows "(last_sample g = None \<and> now - started g < 3) \<or>
    (\<exists>s taken cpu ram. last_sample g = Some s \<and> monotonic_s s = Reading taken \<and> 0 \<le> now - taken \<and> now - taken < 3 \<and>
       cpu_c s = Reading cpu \<and> cpu < 90 \<and> ram_mb s = Reading ram \<and> minimum_ram_mb p \<le> ram \<and>
       (gpu_c s = Absent \<or> (\<exists>gpu. gpu_c s = Reading gpu \<and> gpu < 85)))"
proof -
  note q = make_policy_ok [OF assms(1)]
  have pol: "policy g = p" by (simp add: assms(2) policy_run new_guard_def q)
  show ?thesis
  proof (cases "last_sample g")
    case None
    with assms(3,4) pol trip_trips [OF assms(3), of "''resource_telemetry_stale''"] have "now - started g < stale_after_s p"
      by (auto simp: watch_pass_def inspect_def split: if_splits)
    with None q show ?thesis by auto
  next
    case (Some s)
    have "danger p now s = None"
    proof (cases "danger p now s")
      case (Some why)
      with assms(3,4) pol \<open>last_sample g = Some s\<close> trip_trips [OF assms(3), of why] show ?thesis
        by (simp add: watch_pass_def inspect_def)
    qed
    note d = danger_None [OF this]
    from d(1) q obtain taken where "monotonic_s s = Reading taken" "0 \<le> now - taken" "now - taken < 3" by force
    moreover from d(2) q obtain cpu where "cpu_c s = Reading cpu" "cpu < 90" by force
    moreover from d(3) obtain ram where "ram_mb s = Reading ram" "minimum_ram_mb p \<le> ram" by blast
    moreover from d(4) q have "gpu_c s = Absent \<or> (\<exists>gpu. gpu_c s = Reading gpu \<and> gpu < 85)" by force
    ultimately show ?thesis using Some by blast
  qed
qed

section \<open>Witnesses\<close>

definition cool_sample :: resource_sample where
  "cool_sample = \<lparr>monotonic_s = Reading 10, cpu_c = Reading 60, gpu_c = Absent, ram_mb = Reading 4096, gpu_used_mb = Absent\<rparr>"

definition hot_sample :: resource_sample where
  "hot_sample = cool_sample\<lparr>cpu_c := Reading 95\<rparr>"

lemma bad_sample_trips_for_good_witness:
  "\<exists>first. trip_calls (run guard_step [Sample_pass 11 (Some hot_sample), Sample_pass 12 (Some cool_sample)]
     (new_guard 9 default_policy)) = [first]"
proof -
  have "danger default_policy 11 hot_sample = Some ''cpu_thermal_cutoff''" by code_simp
  moreover have "new_guard 9 default_policy = run guard_step [] (new_guard 9 default_policy)" by simp
  moreover have "\<not> is_closed (new_guard 9 default_policy)" by (simp add: new_guard_def)
  ultimately show ?thesis using bad_sample_trips_for_good by blast
qed

lemma untripped_guard_is_fresh_witness:
  "last_sample (run guard_step [Sample_pass 11 (Some cool_sample)] (new_guard 9 default_policy)) = Some cool_sample \<and>
   (\<exists>cpu. cpu_c cool_sample = Reading cpu \<and> cpu < 90)"
proof -
  let ?g = "run guard_step [Sample_pass 11 (Some cool_sample)] (new_guard 9 default_policy)"
  have "make_policy default_policy = Inr default_policy" "\<not> is_closed ?g"
    "trip_reason (guard_step (Watch_pass 12) ?g) = None" "last_sample ?g = Some cool_sample"
    by code_simp+
  with untripped_guard_is_fresh [OF _ refl, of default_policy default_policy "[Sample_pass 11 (Some cool_sample)]" 9 12]
  show ?thesis by auto
qed

end
