(* ===== verification/PolicyGate.thy ===== *)
theory PolicyGate
  imports Prelude
begin

text \<open>
  The review of a plan before it runs, \<open>core/policy_gate.py\<close>.  The dictionary of the plan is a
  record of the entries the gate reads, after the coercions (\<open>bool\<close>, \<open>str\<close>) it applies to them;
  the review keeps the flags, the reasons and whether a boundary was touched, in the order of the
  code.
\<close>

section \<open>The review\<close>

record gate_plan =
  requires_tools :: bool
  touches_external_network :: bool
  writes_files :: bool
  reads_private_memory :: bool
  execution_allowed :: bool
  bounded_math_execution_candidate :: bool
  bounded_data_execution_candidate :: bool
  bounded_scientific_execution_candidate :: bool
  bounded_scientific_workflow_candidate :: bool
  repo_context_candidate :: bool
  code_patch_plan_candidate :: bool
  hard_blocked_request :: bool
  governed_public_research_candidate :: bool
  plan_risk_level :: string
  memory_context_source :: string
  plan_memory_class :: string
  forced_memory_class :: string
  memory_class_boundary_sensitive :: bool
  memory_class_requires_boundary_check :: bool
  plan_steps :: "string list"

record gate_review =
  boundary_flags :: "string list"
  approval_reasons :: "string list"
  boundary_touched :: bool

record gate_verdict =
  gate_allowed :: bool
  approval_required :: bool
  verdict_reasons :: "string list"
  verdict_flags :: "string list"
  checked_step_count :: nat

definition sensitive_memory_classes :: "string list" where
  "sensitive_memory_classes = [''sealed_private_memory'', ''audit_memory'']"

definition is_local_session_memory_source :: "string \<Rightarrow> bool" where
  "is_local_session_memory_source s \<longleftrightarrow> starts_with ''local_session_journal_scaffold'' s"

definition append_once :: "string list \<Rightarrow> string \<Rightarrow> string list" where
  "append_once xs x = (if x \<in> set xs then xs else xs @ [x])"

definition flag :: "string \<Rightarrow> gate_review \<Rightarrow> gate_review" where
  "flag f r = r\<lparr>boundary_flags := append_once (boundary_flags r) f\<rparr>"

definition because :: "string \<Rightarrow> gate_review \<Rightarrow> gate_review" where
  "because why r = r\<lparr>approval_reasons := approval_reasons r @ [why]\<rparr>"

definition bind_approval :: "gate_review \<Rightarrow> gate_review" where
  "bind_approval r = r\<lparr>boundary_touched := True\<rparr>"

definition touch :: "string \<Rightarrow> string \<Rightarrow> gate_review \<Rightarrow> gate_review" where
  \<comment> \<open>a flag and a reason for a boundary that needs approval\<close>
  "touch f why r = bind_approval (because why (flag f r))"

definition permit :: "string \<Rightarrow> string \<Rightarrow> gate_review \<Rightarrow> gate_review" where
  \<comment> \<open>a flag and a reason for a bounded activity that needs none\<close>
  "permit f why r = because why (flag f r)"

definition onlyif :: "bool \<Rightarrow> ('a \<Rightarrow> 'a) \<Rightarrow> 'a \<Rightarrow> 'a" where
  "onlyif b f r = (if b then f r else r)"

definition initial_review :: gate_review where
  "initial_review = \<lparr>boundary_flags = [], approval_reasons = [''governed local response generation may proceed when no approval-bound boundary is touched; broader tool use, outward action, and side-effecting execution remain disabled during scaffold phase''], boundary_touched = False\<rparr>"

definition review_actions :: "gate_plan \<Rightarrow> gate_review \<Rightarrow> gate_review" where
  "review_actions p r = (let
       r1 = onlyif (requires_tools p \<and> \<not> governed_public_research_candidate p)
         (touch ''tool_usage'' ''plan requests tool usage'') r;
       r2 = onlyif (hard_blocked_request p) (touch ''hard_blocked_request''
         ''request combines private/vault context with an outward or mutation-bound action'') r1;
       r3 = onlyif (touches_external_network p)
         (if governed_public_research_candidate p \<and> \<not> hard_blocked_request p
          then permit ''governed_public_research'' ''public research may proceed only through the Internet master, egress classifier, scrubber, and bounded ResearchPort''
          else touch ''external_network'' ''plan touches external network'') r2
     in onlyif (writes_files p) (touch ''file_writes'' ''plan writes files'') r3)"

definition review_memory :: "gate_plan \<Rightarrow> gate_review \<Rightarrow> gate_review" where
  "review_memory p r = (let
       near = is_local_session_memory_source (memory_context_source p);
       class = strip (plan_memory_class p); forced = strip (forced_memory_class p);
       r1 = onlyif (reads_private_memory p)
         (if near then permit ''local_session_memory'' ''plan reads local session journal memory''
          else if class = ''sealed_private_memory''
            then touch ''sealed_private_memory'' ''plan uses sealed private memory class''
          else if class = ''audit_memory'' then touch ''audit_memory'' ''plan uses audit memory class''
          else touch ''private_memory'' ''plan reads private memory'') r;
       r2 = onlyif (forced \<noteq> [] \<and> \<not> near)
         (\<lambda>s. onlyif (forced = ''audit_memory'')
             (touch ''audit_memory'' ''forced memory class audit_memory is approval-bound'')
           (onlyif (forced = ''sealed_private_memory'')
             (touch ''sealed_private_memory'' ''forced memory class sealed_private_memory is approval-bound'')
           (because (''plan memory class was forced to '' @ forced) s))) r1;
       r3 = onlyif (memory_class_boundary_sensitive p \<and> class \<in> set sensitive_memory_classes)
         (touch class (''plan memory class '' @ class @ '' is boundary-sensitive'')) r2
     in onlyif (memory_class_requires_boundary_check p)
          (because ''selected memory class requires boundary check'') r3)"

definition review_bounded :: "gate_plan \<Rightarrow> gate_review \<Rightarrow> gate_review" where
  "review_bounded p r = (let
       r1 = onlyif (bounded_math_execution_candidate p) (permit ''bounded_local_math_execution''
         ''bounded local math execution is allowed as non-side-effecting local computation'') r;
       r2 = onlyif (bounded_data_execution_candidate p) (permit ''bounded_local_data_execution''
         ''bounded local data execution is allowed as read-only local CSV/XLSX inspection of an attached file'') r1;
       r3 = onlyif (bounded_scientific_execution_candidate p) (permit ''bounded_local_scientific_execution''
         ''bounded local scientific execution may use only an already approved account/project workspace through the governed ScientificForge bridge'') r2;
       r4 = onlyif (bounded_scientific_workflow_candidate p) (permit ''bounded_local_scientific_workflow''
         ''typed ScientificForge workflow remains subject to server-owned source, compute, STOP and numerical validation'') r3;
       r5 = onlyif (repo_context_candidate p) (permit ''bounded_repo_context''
         ''read-only approved repo context gathering is allowed as local non-side-effecting inspection'') r4
     in onlyif (code_patch_plan_candidate p) (permit ''code_patch_plan''
         ''proposal-only patch planning is allowed; patch application remains approval-bound and not live'') r5)"

definition review_risk :: "gate_plan \<Rightarrow> gate_review \<Rightarrow> gate_review" where
  "review_risk p r = (let
       r1 = onlyif (plan_risk_level p = ''high'') (touch ''high_risk'' ''plan is marked high risk'') r;
       r2 = onlyif (execution_allowed p) (touch ''execution_requested''
         ''plan requested execution even though scaffold blocks it'') r1
     in onlyif (boundary_flags r2 = [] \<and> \<not> execution_allowed p \<and> plan_risk_level p = ''low'')
          (\<lambda>s. s\<lparr>boundary_flags := [''low_risk_nonexecuting_path'']\<rparr>) r2)"

definition review_plan :: "gate_plan \<Rightarrow> gate_review" where
  "review_plan p = review_risk p (review_bounded p (review_memory p (review_actions p initial_review)))"

definition evaluate_plan :: "gate_plan \<Rightarrow> gate_verdict" where
  "evaluate_plan p = (let r = review_plan p in
     \<lparr>gate_allowed = \<not> boundary_touched r, approval_required = boundary_touched r,
      verdict_reasons = approval_reasons r, verdict_flags = boundary_flags r,
      checked_step_count = length (plan_steps p)\<rparr>)"

section \<open>What the gate lets through\<close>

named_theorems gate_simps \<open>effects of a review step\<close>

lemma touched_simps [gate_simps]:
  "boundary_touched (touch f why r)" "boundary_touched (permit f why r) = boundary_touched r"
  "boundary_touched (because why r) = boundary_touched r"
  "boundary_touched (onlyif b g r) = (if b then boundary_touched (g r) else boundary_touched r)"
  by (simp_all add: touch_def permit_def because_def flag_def bind_approval_def onlyif_def)

definition needs_approval :: "gate_plan \<Rightarrow> bool" where
  \<comment> \<open>the boundaries that need approval, as one condition on the plan\<close>
  "needs_approval p \<longleftrightarrow> (let near = is_local_session_memory_source (memory_context_source p) in
     writes_files p \<or> hard_blocked_request p \<or> execution_allowed p \<or> plan_risk_level p = ''high'' \<or>
     ((requires_tools p \<or> touches_external_network p) \<and> \<not> governed_public_research_candidate p) \<or>
     (\<not> near \<and> (reads_private_memory p \<or> strip (forced_memory_class p) \<in> set sensitive_memory_classes)) \<or>
     (memory_class_boundary_sensitive p \<and> strip (plan_memory_class p) \<in> set sensitive_memory_classes))"

lemma actions_touched: "boundary_touched (review_actions p r) \<longleftrightarrow> boundary_touched r \<or> writes_files p \<or>
    hard_blocked_request p \<or> ((requires_tools p \<or> touches_external_network p) \<and> \<not> governed_public_research_candidate p)"
  by (auto simp: review_actions_def Let_def gate_simps)

lemma memory_touched: "boundary_touched (review_memory p r) \<longleftrightarrow> boundary_touched r \<or>
    (\<not> is_local_session_memory_source (memory_context_source p) \<and>
      (reads_private_memory p \<or> strip (forced_memory_class p) \<in> set sensitive_memory_classes)) \<or>
    (memory_class_boundary_sensitive p \<and> strip (plan_memory_class p) \<in> set sensitive_memory_classes)"
  by (auto simp: review_memory_def Let_def gate_simps sensitive_memory_classes_def)

lemma bounded_touched: "boundary_touched (review_bounded p r) = boundary_touched r"
  by (simp add: review_bounded_def Let_def gate_simps)

lemma risk_touched: "boundary_touched (review_risk p r) \<longleftrightarrow>
    boundary_touched r \<or> plan_risk_level p = ''high'' \<or> execution_allowed p"
  by (auto simp: review_risk_def Let_def gate_simps onlyif_def touch_def because_def flag_def bind_approval_def)

lemma append_once_distinct: "distinct xs \<Longrightarrow> distinct (append_once xs x)"
  by (simp add: append_once_def)

lemma distinct_simps [gate_simps]:
  "distinct (boundary_flags r) \<Longrightarrow> distinct (boundary_flags (touch f why r))"
  "distinct (boundary_flags r) \<Longrightarrow> distinct (boundary_flags (permit f why r))"
  "distinct (boundary_flags (because why r)) = distinct (boundary_flags r)"
  by (simp_all add: touch_def permit_def because_def flag_def bind_approval_def append_once_distinct)

lemma distinct_onlyif:
  "distinct (boundary_flags r) \<Longrightarrow> (\<And>s. distinct (boundary_flags s) \<Longrightarrow> distinct (boundary_flags (g s))) \<Longrightarrow>
     distinct (boundary_flags (onlyif b g r))"
  by (simp add: onlyif_def)

lemma review_distinct: "distinct (boundary_flags (review_plan p))"
proof -
  have a: "distinct (boundary_flags (review_actions p initial_review))"
    unfolding review_actions_def Let_def
    by (auto intro!: distinct_onlyif simp: gate_simps initial_review_def)
  have m: "distinct (boundary_flags (review_memory p r))" if "distinct (boundary_flags r)" for r
    unfolding review_memory_def Let_def using that
    by (auto intro!: distinct_onlyif simp: gate_simps)
  have b: "distinct (boundary_flags (review_bounded p r))" if "distinct (boundary_flags r)" for r
    unfolding review_bounded_def Let_def using that
    by (auto intro!: distinct_onlyif simp: gate_simps)
  have "distinct (boundary_flags (review_risk p r))" if "distinct (boundary_flags r)" for r
    unfolding review_risk_def Let_def using that
    by (auto intro!: distinct_onlyif simp: gate_simps)
  with a m b show ?thesis by (simp add: review_plan_def)
qed

text \<open>
  The gate lets a plan through exactly when it touches no boundary that needs approval:
  no file write, no execution, no high risk, no hard block, tools and network only for governed
  public research, private memory only from the local session journal; bounded local computation
  never needs approval, and no flag is reported twice.
\<close>

theorem gate_allows_iff_no_boundary:
  "(gate_allowed (evaluate_plan p) \<longleftrightarrow> \<not> needs_approval p) \<and>
   (approval_required (evaluate_plan p) \<longleftrightarrow> needs_approval p) \<and>
   distinct (verdict_flags (evaluate_plan p)) \<and> checked_step_count (evaluate_plan p) = length (plan_steps p)"
  using review_distinct [of p]
  by (auto simp: evaluate_plan_def review_plan_def Let_def needs_approval_def actions_touched memory_touched
      bounded_touched risk_touched initial_review_def)

end
