(* ===== verification/CognitionModels.thy ===== *)
theory CognitionModels
  imports Decimals "HOL-Library.Product_Lexorder"
begin

text \<open>
  What the services of the cognition path share: the words of a text, the reasoning gears in their
  order, and the candidates that the sources offer (\<open>app/cognition/models.py\<close>).
\<close>

section \<open>Words\<close>

definition word_piece :: "char \<Rightarrow> bool" where
  \<comment> \<open>the class \<open>[\w'-]\<close>\<close>
  "word_piece c \<longleftrightarrow> alnum_char c \<or> c = CHR ''_'' \<or> (of_char c :: nat) = 39 \<or> c = CHR ''-''"

definition find_words :: "string \<Rightarrow> string list" where
  \<comment> \<open>the maximal runs of that class, which is what \<open>findall\<close> returns\<close>
  "find_words s = filter (\<lambda>w. w \<noteq> []) (split_by (\<lambda>c. \<not> word_piece c) s)"

definition first_only :: "'a list \<Rightarrow> 'a list" where
  \<comment> \<open>\<open>list(dict.fromkeys(xs))\<close>: the first of each, in order\<close>
  "first_only xs = rev (remdups (rev xs))"

lemma set_first_only [simp]: "set (first_only xs) = set xs"
  by (simp add: first_only_def)

lemma distinct_first_only [simp]: "distinct (first_only xs)"
  by (simp add: first_only_def)

section \<open>Gears\<close>

datatype gear = Reflex | Quick | Standard | Deep | Deliberative | Research_engineering

primrec gear_index :: "gear \<Rightarrow> nat" where
  "gear_index Reflex = 0"
| "gear_index Quick = 1"
| "gear_index Standard = 2"
| "gear_index Deep = 3"
| "gear_index Deliberative = 4"
| "gear_index Research_engineering = 5"

definition gear_names :: "(string \<times> gear) list" where
  "gear_names = [(''reflex'', Reflex), (''quick'', Quick), (''standard'', Standard), (''deep'', Deep),
     (''deliberative'', Deliberative), (''research_engineering'', Research_engineering)]"

lemma gear_index_inject: "gear_index g = gear_index h \<longleftrightarrow> g = h"
  by (cases g; cases h) simp_all

instantiation gear :: linorder
begin

definition less_eq_gear :: "gear \<Rightarrow> gear \<Rightarrow> bool" where
  "less_eq_gear g h \<longleftrightarrow> gear_index g \<le> gear_index h"

definition less_gear :: "gear \<Rightarrow> gear \<Rightarrow> bool" where
  "less_gear g h \<longleftrightarrow> gear_index g < gear_index h"

instance
  by standard (auto simp: less_eq_gear_def less_gear_def gear_index_inject)

end

lemma Reflex_least [simp]: "Reflex \<le> g" "g \<le> Reflex \<longleftrightarrow> g = Reflex"
  by (cases g; simp add: less_eq_gear_def)+

section \<open>Candidates\<close>

text \<open>
  The entries of a candidate's provenance that the workspace reads: numbers with \<open>None\<close> as 0, and
  the truth values of the flags.
\<close>

record provenance =
  recurrence_count :: rat
  pv_pinned :: bool
  unresolved_commitment :: bool
  user_emphasis :: bool
  pv_stakes :: rat
  pv_novelty :: rat
  contradiction :: bool
  contradiction_notes :: bool

datatype cognition_privacy = Privacy_normal | Privacy_private | Privacy_sealed

record cognition_candidate =
  candidate_id :: string
  source_type :: string
  source_id :: string
  cc_owner :: "string option"
  cc_space :: "string option"
  privacy :: cognition_privacy
  cc_form :: string
  cc_scope :: string
  content_excerpt :: string
  cc_observed_at :: "string option"
  cc_valid_from :: "string option"
  cc_valid_until :: "string option"
  cc_confidence :: "rat option"
  source_authority :: string
  cc_provenance :: provenance
  estimated_tokens :: int
  cc_project :: "string option"
  cc_conversation :: "string option"
  cc_status :: string
  user_confirmed :: bool
  cc_importance :: rat
  lexical_score :: rat
  semantic_score :: rat
  rank_score :: rat
  rank_reasons :: "string list"
  untrusted :: bool

record excluded_candidate =
  ex_id :: string
  ex_source :: string
  ex_reason :: string

definition estimate_tokens :: "string \<Rightarrow> int" where
  "estimate_tokens text = (let compact = strip text in
     if compact = [] then 0 else max 1 (int ((utf8_length compact + 3) div 4)))"

lemma estimate_tokens_bounds: "0 \<le> estimate_tokens text" "estimate_tokens text \<le> int ((utf8_length (strip text) + 3) div 4)"
proof -
  have "strip text \<noteq> [] \<Longrightarrow> 1 \<le> utf8_length (strip text)"
    by (cases "strip text") (auto simp: utf8_length_def)
  then show "0 \<le> estimate_tokens text" "estimate_tokens text \<le> int ((utf8_length (strip text) + 3) div 4)"
    by (auto simp: estimate_tokens_def Let_def)
qed

definition contradicts :: "cognition_candidate \<Rightarrow> bool" where
  "contradicts c \<longleftrightarrow> contradiction (cc_provenance c) \<or> contradiction_notes (cc_provenance c)"

end
