(* ===== verification/Uncertainty.thy ===== *)
theory Uncertainty
  imports CognitionModels
begin

text \<open>
  Conflict and uncertainty signals (\<open>app/cognition/uncertainty.py\<close>): the assessment after retrieval,
  its extension by what the run finds out later, and the operational self model drawn from it.
\<close>

record uncertainty =
  un_score :: rat
  un_band :: string
  conflict_count :: nat
  low_confidence_count :: nat
  stale_count :: nat
  source_failure_count :: nat
  retrieval_insufficient :: bool
  escalation_recommended :: bool
  un_reasons :: "string list"
  low_retrieval_agreement :: bool
  un_model_disagreement :: bool
  un_tool_mismatch :: bool
  un_low_evidence_quality :: bool
  un_ambiguous_intent :: bool
  un_verifier_failure :: bool

definition when_true :: "bool \<Rightarrow> 'a \<Rightarrow> 'a list" where
  "when_true b x = (if b then [x] else [])"

definition only_if :: "bool \<Rightarrow> rat \<Rightarrow> rat" where
  "only_if b r = (if b then r else 0)"

definition count_where :: "('a \<Rightarrow> bool) \<Rightarrow> 'a list \<Rightarrow> nat" where
  "count_where p xs = length (filter p xs)"

definition band_of :: "rat \<Rightarrow> string" where
  "band_of s = (if 65/100 \<le> s then ''high'' else if 30/100 \<le> s then ''moderate'' else ''low'')"

definition stale_reasons :: "string list" where
  "stale_reasons = [''not_yet_valid'', ''no_longer_valid'', ''inactive_or_superseded'']"

definition assess_uncertainty :: "cognition_candidate list \<Rightarrow> excluded_candidate list \<Rightarrow> bool \<Rightarrow> uncertainty" where
  "assess_uncertainty items rejected query_present = (let
       conflicts = count_where contradicts items;
       low = count_where (\<lambda>c. case cc_confidence c of None \<Rightarrow> False | Some x \<Rightarrow> x < 55/100) items;
       stale = count_where (\<lambda>e. ex_reason e \<in> set stale_reasons) rejected;
       failures = count_where (\<lambda>e. ex_reason e = ''source_unavailable'') rejected;
       insufficient = (query_present \<and> items = []);
       disagree = (2 \<le> length items \<and> max 1 ((length items + 1) div 2) \<le> low);
       score = min 1 (only_if insufficient (40/100) + only_if disagree (20/100)
         + min (35/100) (of_nat conflicts * (20/100)) + min (20/100) (of_nat low * (7/100))
         + min (15/100) (of_nat failures * (5/100)) + min (10/100) (of_nat stale * (25/1000)))
     in \<lparr>un_score = round_to 4 score, un_band = band_of score, conflict_count = conflicts, low_confidence_count = low,
         stale_count = stale, source_failure_count = failures, retrieval_insufficient = insufficient,
         escalation_recommended = (conflicts \<noteq> 0 \<or> disagree \<or> 65/100 \<le> score),
         un_reasons = when_true (conflicts \<noteq> 0) ''authorized_sources_conflict'' @ when_true (low \<noteq> 0) ''low_confidence_sources''
           @ when_true (stale \<noteq> 0) ''stale_or_invalid_sources_excluded'' @ when_true (failures \<noteq> 0) ''cognition_source_degraded''
           @ when_true insufficient ''authorized_retrieval_insufficient'' @ when_true disagree ''low_retrieval_agreement'',
         low_retrieval_agreement = disagree, un_model_disagreement = False, un_tool_mismatch = False,
         un_low_evidence_quality = False, un_ambiguous_intent = False, un_verifier_failure = False\<rparr>)"

definition reread :: "uncertainty \<Rightarrow> uncertainty" where
  \<comment> \<open>an assessment that comes back as the mapping of its payload\<close>
  "reread u = u\<lparr>low_retrieval_agreement := False\<rparr>"

definition extend_uncertainty :: "uncertainty \<Rightarrow> bool \<Rightarrow> bool \<Rightarrow> bool \<Rightarrow> rat \<Rightarrow> bool \<Rightarrow> uncertainty" where
  "extend_uncertainty base disagreement mismatch low_evidence ambiguity failure = (let
       a = (un_model_disagreement base \<or> disagreement); b = (un_tool_mismatch base \<or> mismatch);
       c = (un_low_evidence_quality base \<or> low_evidence); d = (un_ambiguous_intent base \<or> 65/100 \<le> ambiguity);
       e = (un_verifier_failure base \<or> failure);
       score = min 1 (un_score base + only_if a (25/100) + only_if b (20/100) + only_if c (25/100)
         + only_if d (20/100) + only_if e (35/100))
     in base\<lparr>un_score := round_to 4 score, un_band := band_of score,
          escalation_recommended := escalation_recommended base \<or> a \<or> b \<or> c \<or> d \<or> e,
          un_reasons := first_only (un_reasons base @ when_true a ''model_disagreement'' @ when_true b ''tool_mismatch''
            @ when_true c ''low_evidence_quality'' @ when_true d ''ambiguous_user_intent'' @ when_true e ''verifier_failure''),
          un_model_disagreement := a, un_tool_mismatch := b, un_low_evidence_quality := c, un_ambiguous_intent := d,
          un_verifier_failure := e\<rparr>)"

definition safe_recovery :: "bool \<Rightarrow> uncertainty \<Rightarrow> string list" where
  "safe_recovery stop_active u =
     when_true stop_active ''operator_reset_required''
     @ when_true (source_failure_count u \<noteq> 0) ''retry_degraded_source_or_continue_with_caveat''
     @ when_true (retrieval_insufficient u) ''request_clarification_or_authorized_retrieval''
     @ when_true (un_ambiguous_intent u) ''request_intent_clarification''
     @ when_true (un_tool_mismatch u) ''retry_or_use_authorized_alternative_tool''
     @ when_true (un_verifier_failure u \<or> un_model_disagreement u) ''increase_verification_or_return_provisional_result''"

section \<open>Scores\<close>

lemma band_of_mono: "r \<le> s \<Longrightarrow> band_of r = ''high'' \<Longrightarrow> band_of s = ''high''"
  by (auto simp: band_of_def split: if_splits)

lemma only_if_nonneg [simp]: "0 \<le> r \<Longrightarrow> 0 \<le> only_if b r"
  by (simp add: only_if_def)

lemma round_to_ge: "round_to n s = s \<Longrightarrow> s \<le> r \<Longrightarrow> s \<le> round_to n r"
  using round_to_mono [of s r n] by simp

lemma round_to_idem [simp]: "round_to n (round_to n r) = round_to n r"
  by (simp add: round_to_def)

lemma round_to_65: "round_to 4 (13/20) = 13/20"
proof -
  have "(13/20 :: rat) * 10 ^ 4 = of_int 6500" by simp
  then show ?thesis unfolding round_to_def by (simp only: half_even_of_int) simp
qed

lemma assess_score:
  fixes items :: "cognition_candidate list" and rejected :: "excluded_candidate list" and q :: bool
  defines "u \<equiv> assess_uncertainty items rejected q"
  shows "\<exists>s. 0 \<le> s \<and> s \<le> 1 \<and> un_score u = round_to 4 s \<and> un_band u = band_of s"
  unfolding u_def assess_uncertainty_def Let_def
  by (intro exI [where x = "min 1 _"] conjI) (simp_all add: add_nonneg_nonneg)

text \<open>
  Later signals never make an assessment calmer: the score stays between 0 and 1 and does not
  fall, a high band stays high, an escalation once recommended stays recommended, every signal found
  recommends one and is named among the reasons, and no earlier reason is dropped.
\<close>

theorem extended_uncertainty_never_falls:
  fixes items :: "cognition_candidate list" and rejected :: "excluded_candidate list"
    and q disagreement mismatch low_evidence failure :: bool and ambiguity :: rat
  defines "u \<equiv> assess_uncertainty items rejected q"
  defines "u' \<equiv> extend_uncertainty u disagreement mismatch low_evidence ambiguity failure"
  shows "0 \<le> un_score u \<and> un_score u \<le> un_score u' \<and> un_score u' \<le> 1 \<and>
    (un_band u = ''high'' \<longrightarrow> un_band u' = ''high'') \<and> (escalation_recommended u \<longrightarrow> escalation_recommended u') \<and>
    set (un_reasons u) \<subseteq> set (un_reasons u') \<and>
    (disagreement \<longrightarrow> ''model_disagreement'' \<in> set (un_reasons u')) \<and> (mismatch \<longrightarrow> ''tool_mismatch'' \<in> set (un_reasons u')) \<and>
    (low_evidence \<longrightarrow> ''low_evidence_quality'' \<in> set (un_reasons u')) \<and>
    (65/100 \<le> ambiguity \<longrightarrow> ''ambiguous_user_intent'' \<in> set (un_reasons u')) \<and>
    (failure \<longrightarrow> ''verifier_failure'' \<in> set (un_reasons u')) \<and>
    (disagreement \<or> mismatch \<or> low_evidence \<or> 65/100 \<le> ambiguity \<or> failure \<longrightarrow> escalation_recommended u')"
proof -
  obtain s where s: "0 \<le> s" "s \<le> 1" "un_score u = round_to 4 s" "un_band u = band_of s"
    using assess_score [of items rejected q] unfolding u_def by blast
  define t where "t = min 1 (un_score u + only_if (un_model_disagreement u \<or> disagreement) (25/100)
    + only_if (un_tool_mismatch u \<or> mismatch) (20/100) + only_if (un_low_evidence_quality u \<or> low_evidence) (25/100)
    + only_if (un_ambiguous_intent u \<or> 65/100 \<le> ambiguity) (20/100) + only_if (un_verifier_failure u \<or> failure) (35/100))"
  from round_to_unit [OF s(1,2), of 4] s(3) have unit: "0 \<le> un_score u" "un_score u \<le> 1" by simp_all
  then have t: "un_score u \<le> t" "t \<le> 1" "0 \<le> t" by (simp_all add: t_def add_increasing2)
  have u': "un_score u' = round_to 4 t" "un_band u' = band_of t"
    by (simp_all add: u'_def extend_uncertainty_def Let_def t_def)
  have "un_score u \<le> round_to 4 t" by (rule round_to_ge [OF _ t(1)]) (simp only: s(3) round_to_idem)
  moreover have "un_band u = ''high'' \<Longrightarrow> un_band u' = ''high''"
    using round_to_mono [of "65/100" s 4] t(1) s(3,4) by (auto simp: u'(2) band_of_def round_to_65 split: if_splits)
  moreover have "escalation_recommended u' \<longleftrightarrow> escalation_recommended u \<or> un_model_disagreement u \<or> disagreement \<or>
      un_tool_mismatch u \<or> mismatch \<or> un_low_evidence_quality u \<or> low_evidence \<or> un_ambiguous_intent u \<or>
      65/100 \<le> ambiguity \<or> un_verifier_failure u \<or> failure"
    by (auto simp: u'_def extend_uncertainty_def Let_def)
  moreover have "set (un_reasons u') = set (un_reasons u) \<union> set (when_true (un_model_disagreement u \<or> disagreement) ''model_disagreement'')
      \<union> set (when_true (un_tool_mismatch u \<or> mismatch) ''tool_mismatch'')
      \<union> set (when_true (un_low_evidence_quality u \<or> low_evidence) ''low_evidence_quality'')
      \<union> set (when_true (un_ambiguous_intent u \<or> 65/100 \<le> ambiguity) ''ambiguous_user_intent'')
      \<union> set (when_true (un_verifier_failure u \<or> failure) ''verifier_failure'')"
    by (auto simp: u'_def extend_uncertainty_def Let_def)
  ultimately show ?thesis
    using unit round_to_unit [OF t(3,2), of 4] by (auto simp: u'(1) when_true_def)
qed

lemma extended_uncertainty_never_falls_witness:
  "escalation_recommended (extend_uncertainty (assess_uncertainty [] [] True) True False False 0 False) \<and>
   2/5 \<le> un_score (extend_uncertainty (assess_uncertainty [] [] True) True False False 0 False)"
proof -
  have "(4/10 :: rat) * 10 ^ 4 = of_int 4000" by simp
  then have "round_to 4 (4/10) = 4/10" unfolding round_to_def by (simp only: half_even_of_int) simp
  then have "un_score (assess_uncertainty [] [] True) = 2/5"
    by (simp add: assess_uncertainty_def Let_def count_where_def only_if_def)
  with extended_uncertainty_never_falls [of "[]" "[]" True True False False 0 False] show ?thesis by auto
qed

text \<open>
  The payload of an assessment does not come back as it was: whether sources disagreed is lost.
\<close>

lemma reread_forgets_disagreement:
  "low_retrieval_agreement (reread (u\<lparr>low_retrieval_agreement := True\<rparr>)) = False"
  by (simp add: reread_def)

end
