(* ===== verification/CognitionGovernor.thy ===== *)
theory CognitionGovernor
  imports CognitionModels
begin

text \<open>
  The adaptive cognition governor (\<open>app/cognition/governor.py\<close>): it chooses how much effort a request
  gets, and resolves what the autonomy level of the user allows.  The properties are the sentence it
  opens with: it selects effort, never authority.  The digest of the input is not modelled; of model
  health, resources and temperatures only what the decision reads is kept.
\<close>

section \<open>Autonomy\<close>

definition bounded_level :: "int \<Rightarrow> int" where
  "bounded_level v = max 1 (min 5 v)"

definition level_label :: "int \<Rightarrow> string" where
  "level_label l = (if l = 1 then ''directed'' else if l = 2 then ''assisted'' else if l = 3 then ''collaborative''
     else if l = 4 then ''proactive'' else ''stewarded_initiative'')"

type_synonym overrides = "(string \<times> int) list"

definition effective_autonomy :: "int \<Rightarrow> overrides \<Rightarrow> string option \<Rightarrow> int" where
  "effective_autonomy level overrides active = (case active of
       Some d \<Rightarrow> (case map_of overrides d of
           Some l \<Rightarrow> if d \<noteq> [] then min (bounded_level level) (bounded_level l) else bounded_level level
         | None \<Rightarrow> bounded_level level)
     | None \<Rightarrow> bounded_level level)"

definition domain_names :: "string list" where
  "domain_names = [''memory_capture'', ''scientific_promotion'', ''web_initiative'', ''project_initiative'',
     ''background_cognition'', ''coding_execution'', ''external_mutations'']"

definition domain_level :: "int \<Rightarrow> overrides \<Rightarrow> string \<Rightarrow> int" where
  "domain_level level overrides d = min (bounded_level level)
     (bounded_level (case map_of overrides d of None \<Rightarrow> bounded_level level | Some l \<Rightarrow> l))"

definition resolve_domains :: "int \<Rightarrow> overrides \<Rightarrow> (string \<times> int) list" where
  "resolve_domains level overrides = map (\<lambda>d. (d, domain_level level overrides d)) domain_names"

definition resolve_policy :: "int \<Rightarrow> overrides \<Rightarrow> (string \<times> bool) list" where
  "resolve_policy level overrides = (let
       l = bounded_level level;
       memory = domain_level level overrides ''memory_capture'';
       science = domain_level level overrides ''scientific_promotion'';
       web = domain_level level overrides ''web_initiative'';
       project = domain_level level overrides ''project_initiative'';
       background = domain_level level overrides ''background_cognition'';
       coding = domain_level level overrides ''coding_execution''
     in [(''direct_user_instructions'', True), (''local_context_retrieval'', True), (''objective_audit_recording'', True),
         (''explicit_memory_operations'', True), (''user_requested_tools'', True), (''safety_checks'', True),
         (''propose_next_steps'', 2 \<le> l), (''create_memory_candidates'', 2 \<le> memory),
         (''identify_contradictions'', 2 \<le> l), (''suggest_research'', 2 \<le> web),
         (''routine_safe_local_maintenance'', 2 \<le> l), (''capture_objective_events'', 2 \<le> memory),
         (''initiate_bounded_web_research'', 3 \<le> web), (''pursue_bounded_local_substeps'', 3 \<le> project),
         (''promote_reversible_nonpersonal_conclusions'', 3 \<le> science),
         (''run_bounded_background_cognition'', 3 \<le> background), (''maintain_project_continuity'', 3 \<le> project),
         (''adapt_models_gears_resources'', 3 \<le> l),
         (''broaden_bounded_investigations'', 4 \<le> web), (''maintain_multiple_project_threads'', 4 \<le> project),
         (''schedule_visible_background_jobs'', 4 \<le> background), (''create_ideas_inbox_entries'', 4 \<le> project),
         (''prepare_safe_corrective_actions'', 4 \<le> l), (''use_larger_reasoning_budgets'', 4 \<le> l),
         (''sustain_multistage_research_engineering'', 5 \<le> l \<and> 5 \<le> max web coding),
         (''resume_approved_project_goals_after_explicit_restart_review'', 5 \<le> project),
         (''allocate_compute_for_approved_sustained_work'', 5 \<le> l),
         (''make_reversible_nonpersonal_learning_promotions'', 5 \<le> science),
         (''self_increase_authority'', False), (''bypass_approval'', False), (''unlock_sealed_memory'', False),
         (''bypass_internet_master'', False), (''send_sensitive_data_without_approval'', False),
         (''mutate_external_systems_without_approval'', False), (''destructive_actions_without_approval'', False),
         (''silent_publish_or_push'', False)])"

section \<open>The input and the first gear\<close>

record governor_input =
  gi_request_id :: string
  gi_message :: string
  gi_mode :: string
  intent_primary :: string
  autonomy_level :: int
  domain_overrides :: overrides
  active_domain :: "string option"
  requested_gear :: string
  preferred_gear :: string
  privacy_state :: string
  internet_enabled :: bool
  gi_stop_active :: bool
  gi_conflict_count :: int
  gi_uncertainty :: rat
  gi_verification_failed :: bool
  gi_retrieval_insufficient :: bool
  tool_required :: bool
  research_required :: bool
  time_budget_ms :: "int option"
  context_window :: int
  context_size :: int
  complexity_score :: "rat option"
  ambiguity_score :: "rat option"
  novelty_score :: "rat option"
  gi_stakes :: string
  subproblem_count :: int
  retrieval_confidence :: "rat option"
  evidence_quality :: "rat option"
  expected_data_size :: int
  provider_healthy :: bool
  gpu_reported :: bool
  gpu_device_temps :: "rat list"
  thermal_temps :: "rat list"
  queue_depth :: int

definition high_stakes_words :: "string list" where
  "high_stakes_words = [''diagnosis'', ''medical'', ''medication'', ''dosage'', ''legal'', ''lawsuit'', ''contract'',
     ''investment'', ''financial'', ''suicide'', ''self-harm'', ''emergency'', ''explosive'', ''weapon'', ''security'',
     ''credential'']"

definition research_words :: "string list" where
  "research_words = [''research'', ''sources'', ''cite'', ''latest'', ''current'', ''web'', ''internet'']"

definition engineering_words :: "string list" where
  "engineering_words = [''code'', ''debug'', ''repository'', ''build'', ''deploy'', ''database'', ''schema'',
     ''benchmark'', ''architecture'', ''migration'', ''package'', ''gpu'', ''cuda'']"

definition deliberate_words :: "string list" where
  "deliberate_words = [''audit'', ''compare'', ''tradeoff'', ''prove'', ''verify'', ''threat'', ''policy'',
     ''governance'', ''privacy'', ''ownership'', ''contradiction'', ''uncertainty'']"

definition mentions :: "string list \<Rightarrow> string list \<Rightarrow> bool" where
  "mentions ws vocabulary \<longleftrightarrow> list_ex (\<lambda>w. w \<in> set vocabulary) ws"

definition initial_gear :: "governor_input \<Rightarrow> gear \<times> string list" where
  "initial_gear v = (let
       text = casefold (gi_message v); ws = find_words text; start = [''cheapest_adequate_start''];
       mode = casefold (gi_mode v); primary = casefold (intent_primary v)
     in if gi_stop_active v then (Reflex, [''emergency_posture''])
        else if research_required v \<or> mentions ws research_words \<or> mode = ''researcher'' \<or> primary = ''research''
          then (Research_engineering, start @ [''research_evidence_demand''])
        else if tool_required v \<or> mentions ws engineering_words \<or> mode \<in> {''coder'', ''coding'', ''sysadmin'', ''ops''}
          then (Research_engineering, start @ [''engineering_or_tool_demand''])
        else if mentions ws high_stakes_words then (Deliberative, start @ [''high_stakes_floor''])
        else if mentions ws deliberate_words \<or> 220 < length ws then (Deliberative, start @ [''multi_constraint_deliberation''])
        else if 100 < length ws \<or> list_ex (\<lambda>t. has_infix t text) [''analyze'', ''reason through'', ''plan'']
          then (Deep, start @ [''complex_request''])
        else if length ws \<le> 10 \<and> CHR ''?'' \<notin> set text \<and> char_of (10 :: nat) \<notin> set text
          then (Reflex, start @ [''bounded_simple_request''])
        else if length ws \<le> 35 then (Quick, start @ [''short_bounded_request''])
        else (Standard, start @ [''ordinary_request'']))"

datatype reflex_reply = Reply_greeting | Reply_welcome | Reply_introduction

definition reflex_response :: "string \<Rightarrow> reflex_reply option" where
  \<comment> \<open>the three texts contain a typographic apostrophe and are named\<close>
  "reflex_response message = (let
       normalized = strip_by (\<lambda>c. c \<in> set '' .!?'') (join '' '' (words (casefold message)))
     in if normalized \<in> {''hi'', ''hello'', ''hey'', ''good morning'', ''good afternoon'', ''good evening''} then Some Reply_greeting
        else if normalized \<in> {''thanks'', ''thank you'', ''thank you elysia''} then Some Reply_welcome
        else if normalized \<in> {''who are you'', ''what are you''} then Some Reply_introduction
        else None)"

section \<open>Floors\<close>

text \<open>A rule is a condition, the gear it asks for at least, and the name it is reported under.\<close>

type_synonym rule = "bool \<times> gear \<times> string"

definition raise_to :: "gear \<Rightarrow> gear \<Rightarrow> gear" where
  "raise_to g least = max g least"

definition raise_all :: "rule list \<Rightarrow> gear \<Rightarrow> gear" where
  "raise_all rules g = fold (\<lambda>(c, least, n) g. if c then raise_to g least else g) rules g"

definition reported :: "rule list \<Rightarrow> string list" where
  "reported rules = map (\<lambda>(c, least, n). n) (filter (\<lambda>(c, least, n). c) rules)"

definition at_least_opt :: "rat \<Rightarrow> rat option \<Rightarrow> bool" where
  "at_least_opt bound v \<longleftrightarrow> (case v of None \<Rightarrow> False | Some x \<Rightarrow> bound \<le> x)"

definition below_opt :: "rat \<Rightarrow> rat option \<Rightarrow> bool" where
  "below_opt bound v \<longleftrightarrow> (case v of None \<Rightarrow> False | Some x \<Rightarrow> x < bound)"

definition context_pressure :: "governor_input \<Rightarrow> rat" where
  "context_pressure v = of_int (max 0 (context_size v)) / of_int (max 1024 (context_window v))"

definition decision_rules :: "governor_input \<Rightarrow> rule list" where
  "decision_rules v = [
     (mentions (find_words (casefold (gi_message v))) high_stakes_words, Deliberative, ''high_stakes_review_floor''),
     (gi_conflict_count v \<noteq> 0, Deep, ''authorized_source_conflict''),
     (65/100 \<le> gi_uncertainty v, Deep, ''high_uncertainty''),
     (gi_verification_failed v, Deliberative, ''verification_failure''),
     (gi_retrieval_insufficient v, Deep, ''retrieval_insufficient''),
     (research_required v \<or> tool_required v, Research_engineering, ''research_or_tool_requirement''),
     (at_least_opt (7/10) (ambiguity_score v), Deep, ''high_request_ambiguity''),
     (at_least_opt (8/10) (complexity_score v), Deep, ''high_request_complexity''),
     (5 \<le> subproblem_count v, Deep, ''multiple_subproblems''),
     (at_least_opt (75/100) (novelty_score v), Deep, ''high_task_novelty''),
     (casefold (gi_stakes v) \<in> {''high'', ''critical'', ''protected''}, Deliberative, ''declared_high_stakes_floor''),
     (80/100 \<le> context_pressure v, Deep, ''selected_model_context_pressure''),
     (100000 \<le> expected_data_size v, Deep, ''large_data_workload''),
     (below_opt (4/10) (retrieval_confidence v), Deep, ''low_retrieval_confidence''),
     (below_opt (45/100) (evidence_quality v), Deliberative, ''low_evidence_quality'')]"

definition gear_override :: "governor_input \<Rightarrow> gear option" where
  "gear_override v = (case map_of gear_names (requested_gear v) of
       Some g \<Rightarrow> Some g
     | None \<Rightarrow> map_of gear_names (preferred_gear v))"

definition starting_gear :: "governor_input \<Rightarrow> gear \<times> string list" where
  "starting_gear v = (let
       (initial, reasons) = initial_gear v;
       (chosen, reasons') = (case gear_override v of None \<Rightarrow> (initial, reasons)
         | Some g \<Rightarrow> (g, reasons @ [''explicit_effort_override'']))
     in if chosen = Reflex \<and> \<not> gi_stop_active v \<and> reflex_response (gi_message v) = None
        then (Quick, reasons' @ [''no_exact_reflex_response_requires_model''])
        else (chosen, reasons'))"

section \<open>Budgets of a gear\<close>

primrec context_share_of :: "gear \<Rightarrow> rat" where
  "context_share_of Reflex = 5/100"
| "context_share_of Quick = 10/100"
| "context_share_of Standard = 20/100"
| "context_share_of Deep = 30/100"
| "context_share_of Deliberative = 35/100"
| "context_share_of Research_engineering = 45/100"

primrec recent_turns :: "gear \<Rightarrow> int" where
  "recent_turns Reflex = 4"
| "recent_turns Quick = 8"
| "recent_turns Standard = 14"
| "recent_turns Deep = 20"
| "recent_turns Deliberative = 28"
| "recent_turns Research_engineering = 24"

primrec verification_of :: "gear \<Rightarrow> string" where
  "verification_of Reflex = ''deterministic''"
| "verification_of Quick = ''basic''"
| "verification_of Standard = ''standard''"
| "verification_of Deep = ''enhanced''"
| "verification_of Deliberative = ''independent_review''"
| "verification_of Research_engineering = ''evidence_and_tool_review''"

primrec model_hint :: "gear \<Rightarrow> string" where
  "model_hint Reflex = ''none_or_light''"
| "model_hint Quick = ''light''"
| "model_hint Standard = ''general''"
| "model_hint Deep = ''general_strong''"
| "model_hint Deliberative = ''general_strong''"
| "model_hint Research_engineering = ''specialist_or_general_strong''"

primrec breadth_of :: "gear \<Rightarrow> string" where
  "breadth_of Reflex = ''none''"
| "breadth_of Quick = ''focused''"
| "breadth_of Standard = ''balanced''"
| "breadth_of Deep = ''broad''"
| "breadth_of Deliberative = ''broad''"
| "breadth_of Research_engineering = ''research''"

primrec research_budget_of :: "gear \<Rightarrow> int \<times> int" where
  \<comment> \<open>queries and fetches\<close>
  "research_budget_of Reflex = (0, 0)"
| "research_budget_of Quick = (0, 0)"
| "research_budget_of Standard = (1, 1)"
| "research_budget_of Deep = (2, 3)"
| "research_budget_of Deliberative = (3, 4)"
| "research_budget_of Research_engineering = (6, 8)"

primrec tool_budget_of :: "gear \<Rightarrow> int \<times> int" where
  \<comment> \<open>calls and seconds\<close>
  "tool_budget_of Reflex = (0, 0)"
| "tool_budget_of Quick = (1, 10)"
| "tool_budget_of Standard = (3, 30)"
| "tool_budget_of Deep = (6, 90)"
| "tool_budget_of Deliberative = (8, 180)"
| "tool_budget_of Research_engineering = (12, 300)"

primrec output_budget :: "gear \<Rightarrow> int" where
  "output_budget Reflex = 0"
| "output_budget Quick = 256"
| "output_budget Standard = 512"
| "output_budget Deep = 1024"
| "output_budget Deliberative = 1536"
| "output_budget Research_engineering = 2048"

section \<open>The decision\<close>

record governor_decision =
  gd_request_id :: string
  selected_gear :: gear
  gd_initial_gear :: gear
  override_applied :: bool
  effective_level :: int
  autonomy_label :: string
  domain_levels :: "(string \<times> int) list"
  capability_policy :: "(string \<times> bool) list"
  context_share :: rat
  recent_turn_limit :: int
  verification_depth :: string
  research_allowed :: bool
  tool_execution_allowed :: bool
  model_role_hint :: string
  workload_kind :: string
  progress_posture :: string
  retrieval_breadth :: string
  context_token_budget :: int
  output_token_budget :: int
  research_budget :: "int \<times> int"
  tool_budget :: "int \<times> int"
  device_preference :: string
  model_constraints :: "string list"
  early_exit_eligible :: bool
  escalation_conditions :: "string list"
  gd_reasons :: "string list"
  authority_increased :: bool

definition final_gear :: "governor_input \<Rightarrow> gear" where
  "final_gear v = (if gi_stop_active v then Reflex else raise_all (decision_rules v) (fst (starting_gear v)))"

definition final_escalation :: "governor_input \<Rightarrow> string list" where
  "final_escalation v = (if gi_stop_active v then [''emergency_stop_blocks_new_work''] else reported (decision_rules v))"

definition thermal_hot :: "governor_input \<Rightarrow> bool" where
  "thermal_hot v \<longleftrightarrow> list_ex (\<lambda>t. 88 \<le> t) (if thermal_temps v = [] then gpu_device_temps v else thermal_temps v)"

definition gpu_usable :: "governor_input \<Rightarrow> bool" where
  "gpu_usable v \<longleftrightarrow> gpu_reported v \<and> gpu_device_temps v \<noteq> [] \<and> \<not> thermal_hot v"

definition onlist :: "bool \<Rightarrow> 'a \<Rightarrow> 'a list" where
  "onlist b x = (if b then [x] else [])"

definition decision_reasons :: "governor_input \<Rightarrow> string list" where
  "decision_reasons v = first_only (snd (starting_gear v) @ final_escalation v
     @ onlist (0 < queue_depth v) ''bounded_compute_queue_present''
     @ (if thermal_hot v then [''gpu_thermal_ceiling_requires_cpu_fallback'']
        else onlist (\<not> gpu_usable v) ''gpu_unavailable_cpu_fallback'')
     @ onlist (time_budget_ms v \<noteq> None) ''explicit_time_budget_applied''
     @ onlist (privacy_state v \<in> {''private'', ''sealed''}) ''private_local_only_model_boundary'')"

definition decision_constraints :: "governor_input \<Rightarrow> gear \<Rightarrow> string list" where
  "decision_constraints v g = [''local_first'', ''no_silent_cloud'', ''role_hint:'' @ model_hint g]
     @ onlist (\<not> provider_healthy v) ''provider_degraded_use_deterministic_or_local_fallback''
     @ onlist (privacy_state v \<in> {''private'', ''sealed''}) (privacy_state v @ ''_content_local_only'')
     @ onlist (80/100 \<le> context_pressure v) ''selected_model_context_window_is_binding''
     @ onlist (0 < queue_depth v) ''respect_existing_compute_queue_and_leases''"

definition time_limited_tokens :: "int option \<Rightarrow> int" where
  "time_limited_tokens budget = (case budget of None \<Rightarrow> 2048 | Some ms \<Rightarrow> max 64 (min 2048 (ms div 8)))"

definition context_budget :: "governor_input \<Rightarrow> gear \<Rightarrow> int" where
  "context_budget v g = (let b = max 256 \<lfloor>of_int (max 1024 (context_window v)) * context_share_of g\<rfloor>
     in if 0 < context_size v then min b (max 256 (context_window v - context_size v)) else b)"

definition decide_cognition :: "governor_input \<Rightarrow> governor_decision" where
  "decide_cognition v = (let
       g = final_gear v;
       level = effective_autonomy (autonomy_level v) (domain_overrides v) (active_domain v);
       policy = resolve_policy level (domain_overrides v)
     in \<lparr>gd_request_id = gi_request_id v, selected_gear = g, gd_initial_gear = fst (initial_gear v),
         override_applied = gear_override v \<noteq> None, effective_level = level, autonomy_label = level_label level,
         domain_levels = resolve_domains level (domain_overrides v), capability_policy = policy,
         context_share = context_share_of g, recent_turn_limit = recent_turns g, verification_depth = verification_of g,
         research_allowed = (\<not> gi_stop_active v \<and> internet_enabled v \<and>
           ((research_required v \<and> 1 \<le> level) \<or>
            (\<not> research_required v \<and> map_of policy ''initiate_bounded_web_research'' = Some True))),
         tool_execution_allowed = (\<not> gi_stop_active v \<and> ((tool_required v \<and> 1 \<le> level) \<or> 2 \<le> level)),
         model_role_hint = model_hint g,
         workload_kind = (if g = Reflex then ''no_model'' else if g = Research_engineering then ''research_or_engineering''
           else ''language_model''),
         progress_posture = (if g \<in> {Reflex, Quick} then ''silent'' else ''visible''),
         retrieval_breadth = breadth_of g, context_token_budget = context_budget v g,
         output_token_budget = min (output_budget g) (time_limited_tokens (time_budget_ms v)),
         research_budget = research_budget_of g, tool_budget = tool_budget_of g,
         device_preference = (if g = Reflex \<or> \<not> gpu_usable v then ''cpu'' else ''automatic''),
         model_constraints = decision_constraints v g,
         early_exit_eligible = (g \<in> {Reflex, Quick, Standard} \<and> final_escalation v = [] \<and>
           gi_uncertainty v < 35/100 \<and> \<not> gi_verification_failed v),
         escalation_conditions = final_escalation v, gd_reasons = decision_reasons v, authority_increased = False\<rparr>)"

section \<open>Escalation after retrieval, tools and verification\<close>

record escalation_signals =
  es_conflict_count :: int
  es_uncertainty :: rat
  es_verification_failed :: bool
  es_retrieval_insufficient :: bool
  model_disagreement :: bool
  tool_mismatch :: bool
  low_evidence_quality :: bool
  ambiguous_intent :: bool

definition escalation_rules :: "escalation_signals \<Rightarrow> rule list" where
  "escalation_rules s = [
     (es_conflict_count s \<noteq> 0, Deep, ''authorized_source_conflict''),
     (65/100 \<le> es_uncertainty s, Deep, ''high_uncertainty''),
     (es_retrieval_insufficient s, Deep, ''retrieval_insufficient''),
     (es_verification_failed s, Deliberative, ''verification_failure''),
     (model_disagreement s, Deliberative, ''model_disagreement''),
     (tool_mismatch s, Deep, ''tool_mismatch''),
     (low_evidence_quality s, Deliberative, ''low_evidence_quality''),
     (ambiguous_intent s, Deep, ''ambiguous_user_intent'')]"

definition escalate_decision :: "escalation_signals \<Rightarrow> governor_decision \<Rightarrow> governor_decision" where
  "escalate_decision s d = (let
       g = raise_all (escalation_rules s) (selected_gear d);
       conditions = first_only (escalation_conditions d @ reported (escalation_rules s))
     in if g = selected_gear d \<and> conditions = [] then d
        else d\<lparr>selected_gear := g, context_share := context_share_of g,
          context_token_budget := max 256 \<lfloor>of_int (context_token_budget d) / max (1/100) (context_share d) * context_share_of g\<rfloor>,
          output_token_budget := output_budget g, recent_turn_limit := recent_turns g,
          verification_depth := verification_of g, retrieval_breadth := breadth_of g,
          research_budget := research_budget_of g, tool_budget := tool_budget_of g, early_exit_eligible := False,
          escalation_conditions := conditions, gd_reasons := first_only (gd_reasons d @ conditions)\<rparr>)"

section \<open>Gears are raised, never lowered\<close>

lemma raise_all_simps:
  "raise_all [] g = g"
  "raise_all ((c, least, n) # rules) g = raise_all rules (if c then max g least else g)"
  by (simp_all add: raise_all_def raise_to_def)

lemma raise_all_le_iff:
  "raise_all rules g \<le> most \<longleftrightarrow> g \<le> most \<and> (\<forall>least n. (True, least, n) \<in> set rules \<longrightarrow> least \<le> most)"
proof (induction rules arbitrary: g)
  case (Cons r rules)
  obtain c low m where r: "r = (c, low, m)" by (rule prod_cases3)
  show ?case unfolding r raise_all_simps Cons.IH by (cases c) auto
qed (simp add: raise_all_simps)

lemma raise_all_mono: "g \<le> raise_all rules g"
  using raise_all_le_iff [of rules g "raise_all rules g"] by simp

lemma raise_all_none: "reported rules = [] \<Longrightarrow> raise_all rules g = g"
  by (induction rules arbitrary: g) (auto simp: raise_all_simps reported_def split: if_splits)

lemma starting_gear_reflex:
  "\<not> gi_stop_active v \<Longrightarrow> fst (starting_gear v) = Reflex \<Longrightarrow> reflex_response (gi_message v) \<noteq> None"
  by (auto simp: starting_gear_def Let_def split: prod.splits if_splits)

text \<open>
  What a request must get at least, stated on its own: the words of high stakes, the declared
  stakes, a failed verification or weak evidence ask for a review; a conflict, uncertainty, ambiguity, complexity,
  size or thin retrieval ask for depth; the effort asked for is the explicit or the preferred gear, else
  the automatic choice, and it is no exact reply unless there is one.
\<close>

definition asks_for_review :: "governor_input \<Rightarrow> bool" where
  "asks_for_review v \<longleftrightarrow>
     (\<exists>w \<in> set (find_words (casefold (gi_message v))). w \<in> {''diagnosis'', ''medical'', ''medication'', ''dosage'',
        ''legal'', ''lawsuit'', ''contract'', ''investment'', ''financial'', ''suicide'', ''self-harm'', ''emergency'',
        ''explosive'', ''weapon'', ''security'', ''credential''}) \<or>
     casefold (gi_stakes v) = ''high'' \<or> casefold (gi_stakes v) = ''critical'' \<or> casefold (gi_stakes v) = ''protected'' \<or>
     gi_verification_failed v \<or> (case evidence_quality v of None \<Rightarrow> False | Some q \<Rightarrow> q < 9/20)"

definition asks_for_depth :: "governor_input \<Rightarrow> bool" where
  "asks_for_depth v \<longleftrightarrow> gi_conflict_count v \<noteq> 0 \<or> 13/20 \<le> gi_uncertainty v \<or> gi_retrieval_insufficient v \<or>
     (case ambiguity_score v of None \<Rightarrow> False | Some a \<Rightarrow> 7/10 \<le> a) \<or>
     (case complexity_score v of None \<Rightarrow> False | Some a \<Rightarrow> 4/5 \<le> a) \<or>
     (case novelty_score v of None \<Rightarrow> False | Some a \<Rightarrow> 3/4 \<le> a) \<or>
     (case retrieval_confidence v of None \<Rightarrow> False | Some a \<Rightarrow> a < 2/5) \<or>
     4 < subproblem_count v \<or> 100000 \<le> expected_data_size v \<or>
     4 * max 1024 (context_window v) \<le> 5 * max 0 (context_size v)"

definition effort_asked :: "governor_input \<Rightarrow> gear" where
  "effort_asked v = (let g = (case (map_of gear_names (requested_gear v), map_of gear_names (preferred_gear v)) of
         (Some g, _) \<Rightarrow> g | (None, Some g) \<Rightarrow> g | (None, None) \<Rightarrow> fst (initial_gear v))
     in if g = Reflex \<and> reflex_response (gi_message v) = None then Quick else g)"

lemma starting_gear_asked: "\<not> gi_stop_active v \<Longrightarrow> fst (starting_gear v) = effort_asked v"
  by (auto simp: starting_gear_def effort_asked_def gear_override_def Let_def split: prod.splits option.splits)

lemma effort_asked_reflex: "effort_asked v = Reflex \<Longrightarrow> reflex_response (gi_message v) \<noteq> None"
  by (auto simp: effort_asked_def Let_def split: if_splits)

lemma context_pressure_high:
  "80/100 \<le> context_pressure v \<longleftrightarrow> 4 * max 1024 (context_window v) \<le> 5 * max 0 (context_size v)"
proof -
  let ?w = "max 1024 (context_window v)" and ?c = "max 0 (context_size v)"
  have "80/100 \<le> context_pressure v \<longleftrightarrow> rat_of_int (4 * ?w) \<le> rat_of_int (5 * ?c)"
    unfolding context_pressure_def by (subst pos_le_divide_eq) (simp_all add: field_simps del: of_int_max)
  then show ?thesis by (simp only: of_int_le_iff)
qed

lemma rules_bound:
  "(\<forall>least n. (True, least, n) \<in> set [] \<longrightarrow> least \<le> g) \<longleftrightarrow> True"
  "(\<forall>least n. (True, least, n) \<in> set ((c, l, m) # rules) \<longrightarrow> least \<le> g) \<longleftrightarrow>
     (c \<longrightarrow> l \<le> g) \<and> (\<forall>least n. (True, least, n) \<in> set rules \<longrightarrow> least \<le> g)"
  by auto

lemma decision_rules_floors:
  "(\<forall>least n. (True, least, n) \<in> set (decision_rules v) \<longrightarrow> least \<le> g) \<longleftrightarrow>
     (research_required v \<or> tool_required v \<longrightarrow> Research_engineering \<le> g) \<and>
     (asks_for_review v \<longrightarrow> Deliberative \<le> g) \<and> (asks_for_depth v \<longrightarrow> Deep \<le> g)"
proof -
  have words: "mentions ws high_stakes_words \<longleftrightarrow> (\<exists>w \<in> set ws. w \<in> {''diagnosis'', ''medical'', ''medication'', ''dosage'',
        ''legal'', ''lawsuit'', ''contract'', ''investment'', ''financial'', ''suicide'', ''self-harm'', ''emergency'',
        ''explosive'', ''weapon'', ''security'', ''credential''})" for ws
    by (simp add: mentions_def high_stakes_words_def list_ex_iff)
  have numerals: "(65/100 :: rat) = 13/20" "(8/10 :: rat) = 4/5" "(75/100 :: rat) = 3/4" "(4/10 :: rat) = 2/5"
    "(45/100 :: rat) = 9/20" by simp_all
  have five: "5 \<le> subproblem_count v \<longleftrightarrow> 4 < subproblem_count v" by linarith
  show ?thesis
    unfolding decision_rules_def context_pressure_high words rules_bound at_least_opt_def below_opt_def numerals five
      asks_for_review_def asks_for_depth_def insert_iff empty_iff by argo
qed

lemma gears_ordered [simp]:
  "Deep \<le> Deliberative" "Deep \<le> Research_engineering" "Deliberative \<le> Research_engineering"
  "\<not> Deliberative \<le> Deep" "\<not> Research_engineering \<le> Deep" "\<not> Research_engineering \<le> Deliberative"
  by (simp_all add: less_eq_gear_def)

definition floor_asked :: "governor_input \<Rightarrow> gear" where
  "floor_asked v = (if research_required v \<or> tool_required v then Research_engineering
     else if asks_for_review v then Deliberative else if asks_for_depth v then Deep else Reflex)"

lemma floor_asked_le_iff:
  "floor_asked v \<le> g \<longleftrightarrow> (research_required v \<or> tool_required v \<longrightarrow> Research_engineering \<le> g) \<and>
     (asks_for_review v \<longrightarrow> Deliberative \<le> g) \<and> (asks_for_depth v \<longrightarrow> Deep \<le> g)"
  by (cases g) (simp_all add: floor_asked_def less_eq_gear_def)

lemma final_gear_is_max:
  assumes "\<not> gi_stop_active v"
  shows "final_gear v = max (effort_asked v) (floor_asked v)"
proof -
  have "final_gear v \<le> g \<longleftrightarrow> max (effort_asked v) (floor_asked v) \<le> g" for g
    unfolding max.bounded_iff floor_asked_le_iff decision_rules_floors [symmetric]
    using assms by (simp add: final_gear_def raise_all_le_iff starting_gear_asked)
  then show ?thesis by (meson order.antisym order.refl)
qed

lemma decision_of_gear:
  "selected_gear (decide_cognition v) = final_gear v"
  "workload_kind (decide_cognition v) = (if final_gear v = Reflex then ''no_model''
     else if final_gear v = Research_engineering then ''research_or_engineering'' else ''language_model'')"
  "verification_depth (decide_cognition v) = verification_of (final_gear v)"
  "early_exit_eligible (decide_cognition v) \<longrightarrow> final_gear v \<in> {Reflex, Quick, Standard}"
  by (simp_all add: decide_cognition_def Let_def)

text \<open>
  Claim C26. The gear is the effort asked for, raised to every floor that applies: without the stop it is
  the greater of the effort asked for (the explicit gear, else the preferred one, else the automatic
  choice) and the floor, which is research engineering where research or a tool is
  required, deliberative where the words, the declared stakes, a failed verification or weak
  evidence ask for a review, deep where conflict, uncertainty, size or thin retrieval ask for depth.
  So no override escapes a high-stakes floor: such a request gets a model, an independent or an evidence
  review and no early exit. Under the stop there is neither model, research nor tool.
\<close>

theorem gear_meets_every_floor:
  "let d = decide_cognition v in
    if gi_stop_active v then selected_gear d = Reflex \<and> workload_kind d = ''no_model'' \<and> \<not> research_allowed d \<and>
      \<not> tool_execution_allowed d \<and> output_token_budget d = 0
    else selected_gear d = max (effort_asked v) (if research_required v \<or> tool_required v then Research_engineering
           else if asks_for_review v then Deliberative else if asks_for_depth v then Deep else Reflex) \<and>
      (asks_for_review v \<longrightarrow> Deliberative \<le> selected_gear d \<and> workload_kind d \<noteq> ''no_model'' \<and>
         verification_depth d \<in> {''independent_review'', ''evidence_and_tool_review''} \<and> \<not> early_exit_eligible d) \<and>
      (workload_kind d = ''no_model'' \<longrightarrow> reflex_response (gi_message v) \<noteq> None)"
proof (cases "gi_stop_active v")
  case True
  then show ?thesis
    by (auto simp: decide_cognition_def final_gear_def Let_def time_limited_tokens_def split: option.split)
next
  case False
  note g = final_gear_is_max [OF False]
  have review: "asks_for_review v \<Longrightarrow> Deliberative \<le> final_gear v"
    unfolding g by (simp add: le_max_iff_disj floor_asked_def)
  have reply: "final_gear v = Reflex \<Longrightarrow> reflex_response (gi_message v) \<noteq> None"
    unfolding g using effort_asked_reflex [of v] by (auto simp: max_def split: if_splits)
  have "Deliberative \<le> h \<Longrightarrow> h \<in> {Deliberative, Research_engineering}" for h
    by (cases h) (simp_all add: less_eq_gear_def)
  from this [OF review] have deep: "asks_for_review v \<Longrightarrow> final_gear v \<in> {Deliberative, Research_engineering}" .
  have "asks_for_review v \<longrightarrow> Deliberative \<le> final_gear v \<and> workload_kind (decide_cognition v) \<noteq> ''no_model'' \<and>
      verification_depth (decide_cognition v) \<in> {''independent_review'', ''evidence_and_tool_review''} \<and>
      \<not> early_exit_eligible (decide_cognition v)"
  proof
    assume r: "asks_for_review v"
    have "\<not> early_exit_eligible (decide_cognition v)"
      using deep [OF r] decision_of_gear(4) [of v] by auto
    moreover have "workload_kind (decide_cognition v) \<noteq> ''no_model'' \<and>
        verification_depth (decide_cognition v) \<in> {''independent_review'', ''evidence_and_tool_review''}"
      using deep [OF r] unfolding decision_of_gear(2,3) by auto
    ultimately show "Deliberative \<le> final_gear v \<and> workload_kind (decide_cognition v) \<noteq> ''no_model'' \<and>
        verification_depth (decide_cognition v) \<in> {''independent_review'', ''evidence_and_tool_review''} \<and>
        \<not> early_exit_eligible (decide_cognition v)"
      using review [OF r] by blast
  qed
  moreover have "workload_kind (decide_cognition v) = ''no_model'' \<longrightarrow> reflex_response (gi_message v) \<noteq> None"
    unfolding decision_of_gear(2) using reply by (auto split: if_splits)
  ultimately show ?thesis
    using False g unfolding Let_def decision_of_gear(1) floor_asked_def by simp
qed

section \<open>Effort is not authority\<close>

definition granted :: "governor_decision \<Rightarrow> string \<Rightarrow> bool" where
  "granted d c \<longleftrightarrow> map_of (capability_policy d) c = Some True"

definition never_granted :: "string list" where
  "never_granted = [''self_increase_authority'', ''bypass_approval'', ''unlock_sealed_memory'',
     ''bypass_internet_master'', ''send_sensitive_data_without_approval'',
     ''mutate_external_systems_without_approval'', ''destructive_actions_without_approval'', ''silent_publish_or_push'']"

definition as_trusted :: "overrides \<Rightarrow> overrides \<Rightarrow> bool" where
  \<comment> \<open>every domain ceiling of the second is at least as low in the first\<close>
  "as_trusted os os' \<longleftrightarrow> (\<forall>d. case map_of os' d of None \<Rightarrow> True
     | Some l \<Rightarrow> (case map_of os d of None \<Rightarrow> False | Some k \<Rightarrow> k \<le> l))"

lemma bounded_level_mono: "k \<le> l \<Longrightarrow> bounded_level k \<le> bounded_level l"
  by (simp add: bounded_level_def)

lemma bounded_level_idem [simp]: "bounded_level (bounded_level l) = bounded_level l"
  by (simp add: bounded_level_def)

lemma as_trusted_cases:
  assumes "as_trusted os os'"
  obtains "map_of os' d = None" | k l where "map_of os d = Some k" "map_of os' d = Some l" "k \<le> l"
proof (cases "map_of os' d")
  case (Some l)
  with spec [OF assms [unfolded as_trusted_def], of d] that(2) show thesis by (auto split: option.splits)
qed

lemma domain_level_mono:
  assumes "as_trusted os os'" "bounded_level k \<le> bounded_level l"
  shows "domain_level k os d \<le> domain_level l os' d"
  using as_trusted_cases [OF assms(1), of d]
  by cases (use assms(2) in \<open>auto simp: domain_level_def min_le_iff_disj bounded_level_mono split: option.splits\<close>)

lemma effective_autonomy_bounded [simp]: "bounded_level (effective_autonomy l os d) = effective_autonomy l os d"
  by (auto simp: effective_autonomy_def bounded_level_def split: option.splits)

lemma effective_autonomy_mono:
  assumes "as_trusted os os'" "k \<le> l" "d' = None \<or> d' = d"
  shows "effective_autonomy k os d \<le> effective_autonomy l os' d'"
proof -
  have top: "effective_autonomy k os d \<le> bounded_level k" for d
    by (auto simp: effective_autonomy_def split: option.splits)
  from assms(2) have kl: "bounded_level k \<le> bounded_level l" by (rule bounded_level_mono)
  show ?thesis
  proof (cases d')
    case None
    with top kl show ?thesis by (auto simp: effective_autonomy_def intro: order_trans)
  next
    case (Some x)
    with assms(3) have d: "d = Some x" by simp
    from as_trusted_cases [OF assms(1), of x] show ?thesis
      by cases (use kl top [of d] Some d in \<open>auto simp: effective_autonomy_def min_le_iff_disj bounded_level_mono split: option.splits\<close>)
  qed
qed

lemma map_of_implies:
  assumes "list_all2 (\<lambda>(n, a) (m, b). n = m \<and> (a \<longrightarrow> b)) xs ys" "map_of xs c = Some True"
  shows "map_of ys c = Some True"
  using assms by (induction rule: list_all2_induct) (auto split: if_splits)

lemma resolve_policy_mono:
  assumes "as_trusted os os'" "bounded_level k \<le> bounded_level l" "map_of (resolve_policy k os) c = Some True"
  shows "map_of (resolve_policy l os') c = Some True"
proof (rule map_of_implies [OF _ assms(3)])
  have d: "n \<le> domain_level k os x \<Longrightarrow> n \<le> domain_level l os' x" for n x
    by (rule order_trans [OF _ domain_level_mono [OF assms(1,2)]])
  have l: "n \<le> bounded_level k \<Longrightarrow> n \<le> bounded_level l" for n by (rule order_trans [OF _ assms(2)])
  show "list_all2 (\<lambda>(n, a) (m, b). n = m \<and> (a \<longrightarrow> b)) (resolve_policy k os) (resolve_policy l os')"
    unfolding resolve_policy_def Let_def by (auto simp: le_max_iff_disj intro: d l)
qed

lemma policy_never:
  assumes "c \<in> set never_granted"
  shows "map_of (resolve_policy l os) c = Some False"
  using assms unfolding never_granted_def resolve_policy_def Let_def by auto

text \<open>
  Claim C25. The governor selects effort, never authority.  What a decision allows depends on nothing
  but the autonomy level and its domain ceilings, and only grows with them: lowering the level, adding
  a ceiling or naming an active domain can only take capabilities and tools away, whatever gear,
  mode, uncertainty or budget the two requests have; and no input is granted one of the eight
  reserved powers, research without the Internet switch, or tools and research under the stop.
\<close>

theorem effort_never_authority:
  assumes "autonomy_level v \<le> autonomy_level w" "as_trusted (domain_overrides v) (domain_overrides w)"
    and "active_domain w = None \<or> active_domain w = active_domain v"
  shows "(granted (decide_cognition v) c \<longrightarrow> granted (decide_cognition w) c) \<and>
    effective_level (decide_cognition v) \<le> effective_level (decide_cognition w) \<and>
    effective_level (decide_cognition v) \<in> {1..5} \<and>
    (c \<in> set never_granted \<longrightarrow> \<not> granted (decide_cognition w) c) \<and>
    (research_allowed (decide_cognition w) \<longrightarrow> internet_enabled w \<and> \<not> gi_stop_active w) \<and>
    (tool_execution_allowed (decide_cognition w) \<longrightarrow> \<not> gi_stop_active w) \<and>
    \<not> authority_increased (decide_cognition w)"
proof -
  have e: "effective_autonomy (autonomy_level v) (domain_overrides v) (active_domain v)
      \<le> effective_autonomy (autonomy_level w) (domain_overrides w) (active_domain w)"
    by (rule effective_autonomy_mono [OF assms(2,1,3)])
  have "effective_autonomy l os d \<in> {1..5}" for l os d
    using effective_autonomy_bounded [of l os d] unfolding bounded_level_def by (auto simp: max_def min_def split: if_splits)
  moreover have "granted (decide_cognition v) c \<Longrightarrow> granted (decide_cognition w) c"
    unfolding granted_def decide_cognition_def Let_def governor_decision.simps
    by (rule resolve_policy_mono [OF assms(2)]) (simp_all only: effective_autonomy_bounded e)
  moreover have "c \<in> set never_granted \<Longrightarrow> \<not> granted (decide_cognition w) c"
    using policy_never by (simp add: granted_def decide_cognition_def Let_def)
  ultimately show ?thesis using e by (auto simp: decide_cognition_def Let_def)
qed

text \<open>
  Escalation only adds care: whatever signals come back from retrieval, tools and
  verification, the gear does not fall, every signal raised is reported beside the earlier ones, an
  escalated decision never exits early, and level, capabilities, research and tool permissions and
  the device stay what they were.
\<close>

theorem escalation_only_raises:
  shows "let e = escalate_decision s d in
    selected_gear d \<le> selected_gear e \<and>
    (\<forall>least n. (True, least, n) \<in> set (escalation_rules s) \<longrightarrow> least \<le> selected_gear e \<and> n \<in> set (escalation_conditions e)) \<and>
    set (escalation_conditions d) \<subseteq> set (escalation_conditions e) \<and> set (gd_reasons d) \<subseteq> set (gd_reasons e) \<and>
    (early_exit_eligible e \<longrightarrow> e = d \<and> reported (escalation_rules s) = []) \<and>
    capability_policy e = capability_policy d \<and> domain_levels e = domain_levels d \<and> effective_level e = effective_level d \<and>
    research_allowed e = research_allowed d \<and> tool_execution_allowed e = tool_execution_allowed d \<and>
    model_constraints e = model_constraints d"
proof -
  have rep: "(True, least, n) \<in> set rs \<Longrightarrow> n \<in> set (reported rs)" for least n rs
    by (force simp: reported_def)
  then have quiet: "reported rs = [] \<Longrightarrow> (True, least, n) \<notin> set rs" for least n rs by force
  let ?g = "raise_all (escalation_rules s) (selected_gear d)"
  have up: "selected_gear d \<le> ?g" "\<And>least n. (True, least, n) \<in> set (escalation_rules s) \<Longrightarrow> least \<le> ?g"
    using raise_all_le_iff [of "escalation_rules s" "selected_gear d" ?g] by auto
  have none: "first_only (escalation_conditions d @ reported (escalation_rules s)) = [] \<Longrightarrow> reported (escalation_rules s) = []"
    by (metis append_is_Nil_conv set_empty set_first_only)
  show ?thesis
    using up rep none quiet by (auto simp: escalate_decision_def Let_def)
qed

section \<open>Witnesses, and what an escalation forgets\<close>

definition sample_input :: governor_input where
  "sample_input = \<lparr>gi_request_id = ''r'', gi_message = ''hello'', gi_mode = ''default'', intent_primary = [],
     autonomy_level = 3, domain_overrides = [], active_domain = None, requested_gear = ''automatic'',
     preferred_gear = ''automatic'', privacy_state = ''normal'', internet_enabled = True, gi_stop_active = False,
     gi_conflict_count = 0, gi_uncertainty = 0, gi_verification_failed = False, gi_retrieval_insufficient = False,
     tool_required = False, research_required = False, time_budget_ms = None, context_window = 32768, context_size = 0,
     complexity_score = None, ambiguity_score = None, novelty_score = None, gi_stakes = ''ordinary'',
     subproblem_count = 1, retrieval_confidence = None, evidence_quality = None, expected_data_size = 0,
     provider_healthy = True, gpu_reported = False, gpu_device_temps = [], thermal_temps = [], queue_depth = 0\<rparr>"

lemma effort_never_authority_witness:
  "granted (decide_cognition sample_input) ''adapt_models_gears_resources'' \<and>
   \<not> granted (decide_cognition (sample_input\<lparr>autonomy_level := 2, gi_mode := ''coder''\<rparr>)) ''unlock_sealed_memory''"
proof -
  have "granted (decide_cognition (sample_input\<lparr>gi_mode := ''coder''\<rparr>)) ''adapt_models_gears_resources''"
    by (simp add: granted_def decide_cognition_def Let_def resolve_policy_def effective_autonomy_def bounded_level_def
        sample_input_def)
  moreover have "as_trusted [] []" by (simp add: as_trusted_def)
  ultimately show ?thesis
    using effort_never_authority [of "sample_input\<lparr>gi_mode := ''coder''\<rparr>" sample_input "''adapt_models_gears_resources''"]
      effort_never_authority [of "sample_input\<lparr>autonomy_level := 2, gi_mode := ''coder''\<rparr>"
        "sample_input\<lparr>autonomy_level := 2, gi_mode := ''coder''\<rparr>" "''unlock_sealed_memory''"]
    by (simp add: sample_input_def never_granted_def)
qed

definition no_signals :: escalation_signals where
  "no_signals = \<lparr>es_conflict_count = 0, es_uncertainty = 0, es_verification_failed = False,
     es_retrieval_insufficient = False, model_disagreement = False, tool_mismatch = False,
     low_evidence_quality = False, ambiguous_intent = False\<rparr>"

lemma escalation_only_raises_witness:
  "Deliberative \<le> selected_gear (escalate_decision (no_signals\<lparr>es_verification_failed := True\<rparr>) (decide_cognition sample_input))"
proof -
  have "(True, Deliberative, ''verification_failure'') \<in> set (escalation_rules (no_signals\<lparr>es_verification_failed := True\<rparr>))"
    by (simp add: escalation_rules_def no_signals_def)
  with escalation_only_raises [of "no_signals\<lparr>es_verification_failed := True\<rparr>" "decide_cognition sample_input"]
  show ?thesis by (auto simp: Let_def)
qed

text \<open>
  Escalation computes its budgets from the gear alone: the room left in the context window, the
  explicit time budget and the emergency stop, which the first decision respects, no longer bound it.
\<close>

lemma floor_triple: "\<lfloor>rat_of_int k * 3\<rfloor> = 3 * k"
  by (metis floor_of_int mult.commute of_int_mult of_int_numeral)

lemma escalated_deep:
  assumes "selected_gear d = Quick" "context_share d = 10/100"
  shows "selected_gear (escalate_decision (no_signals\<lparr>tool_mismatch := True\<rparr>) d) = Deep"
    and "output_token_budget (escalate_decision (no_signals\<lparr>tool_mismatch := True\<rparr>) d) = 1024"
    and "context_token_budget (escalate_decision (no_signals\<lparr>tool_mismatch := True\<rparr>) d) = max 256 (3 * context_token_budget d)"
  using assms by (simp_all add: escalate_decision_def Let_def escalation_rules_def no_signals_def raise_all_simps
      reported_def first_only_def max_def less_eq_gear_def floor_triple)

lemma escalation_forgets_limits:
  assumes "v = sample_input\<lparr>requested_gear := ''quick'', time_budget_ms := Some 512, context_size := 1500, context_window := 2000\<rparr>"
  shows "output_token_budget (decide_cognition v) = 64"
    and "output_token_budget (escalate_decision (no_signals\<lparr>tool_mismatch := True\<rparr>) (decide_cognition v)) = 1024"
    and "context_token_budget (escalate_decision (no_signals\<lparr>tool_mismatch := True\<rparr>) (decide_cognition v)) = 768"
    and "context_window v - context_size v = 500"
proof -
  have cf: "casefold ''hello'' = ''hello''" "casefold ''default'' = ''default''" "casefold ''ordinary'' = ''ordinary''"
    "casefold [] = []" "find_words ''hello'' = [''hello'']" by code_simp+
  have g: "final_gear v = Quick"
    by (simp add: assms final_gear_def starting_gear_def gear_override_def gear_names_def initial_gear_def Let_def
        sample_input_def decision_rules_def raise_all_simps cf mentions_def high_stakes_words_def research_words_def
        engineering_words_def at_least_opt_def below_opt_def context_pressure_def split: prod.split)
  then have d: "selected_gear (decide_cognition v) = Quick" "context_share (decide_cognition v) = 10/100"
    "context_token_budget (decide_cognition v) = 256" "output_token_budget (decide_cognition v) = 64"
    by (simp_all add: decide_cognition_def Let_def context_budget_def time_limited_tokens_def assms sample_input_def)
  from d(4) show "output_token_budget (decide_cognition v) = 64" .
  from escalated_deep [OF d(1,2)] d(3)
  show "output_token_budget (escalate_decision (no_signals\<lparr>tool_mismatch := True\<rparr>) (decide_cognition v)) = 1024"
    "context_token_budget (escalate_decision (no_signals\<lparr>tool_mismatch := True\<rparr>) (decide_cognition v)) = 768"
    by simp_all
  show "context_window v - context_size v = 500" by (simp add: assms)
qed

lemma gear_meets_every_floor_witness:
  "Deliberative \<le> selected_gear (decide_cognition (sample_input\<lparr>gi_message := ''medication dosage'', requested_gear := ''reflex''\<rparr>)) \<and>
   \<not> early_exit_eligible (decide_cognition (sample_input\<lparr>gi_message := ''medication dosage'', requested_gear := ''reflex''\<rparr>))"
proof -
  let ?v = "sample_input\<lparr>gi_message := ''medication dosage'', requested_gear := ''reflex''\<rparr>"
  have "''dosage'' \<in> set (find_words (casefold ''medication dosage''))" by code_simp
  then have "asks_for_review ?v" unfolding asks_for_review_def by auto
  with gear_meets_every_floor [of ?v] show ?thesis by (auto simp: Let_def sample_input_def)
qed

end
