(* ===== verification/HybridRetrieval.thy ===== *)
theory HybridRetrieval
  imports CognitionModels "HOL-Library.Multiset"
begin

text \<open>
  Reciprocal-rank fusion of lexical and semantic search (\<open>app/cognition/hybrid_retrieval.py\<close>).  The two
  projections are arguments, functions of the number of rows asked for; the columns of a row that
  the fusion only carries along are a type parameter.
\<close>

record 'a memory_row =
  row_id :: string
  row_importance :: rat
  row_columns :: 'a

record 'a semantic_row =
  sr_id :: string
  sr_score :: rat
  sr_row :: "'a memory_row"

record 'a fused_row =
  fr_row :: "'a memory_row"
  lexical_rank :: "nat option"
  semantic_rank :: "nat option"
  fr_semantic_score :: rat
  fusion_score :: rat
  retrieval_method :: string

record 'a hybrid_result =
  hr_rows :: "'a fused_row list"
  semantic_state :: string

definition rrf_k :: rat where "rrf_k = 60"

definition lexical_weight :: rat where "lexical_weight = 40/100"

definition semantic_weight :: rat where "semantic_weight = 60/100"

definition max_rrf :: rat where "max_rrf = (lexical_weight + semantic_weight) / (rrf_k + 1)"

definition ranks_of :: "('r \<Rightarrow> string) \<Rightarrow> 'r list \<Rightarrow> (string \<times> nat) list" where
  \<comment> \<open>a dictionary: the rank of the last row with an identifier\<close>
  "ranks_of ident rows = fold (\<lambda>(k, r). AList.update (ident r) k) (enumerate 1 rows) []"

definition merged_rows :: "'a memory_row list \<Rightarrow> 'a semantic_row list \<Rightarrow> (string \<times> 'a memory_row) list" where
  "merged_rows lexical semantic = fold (\<lambda>s d. if map_of d (sr_id s) = None then AList.update (sr_id s) (sr_row s) d else d) semantic
     (fold (\<lambda>r. AList.update (row_id r) r) lexical [])"

definition rank_share :: "rat \<Rightarrow> nat option \<Rightarrow> rat" where
  "rank_share weight rank = (case rank of None \<Rightarrow> 0 | Some k \<Rightarrow> weight / (rrf_k + of_nat k))"

definition fuse_score :: "nat option \<Rightarrow> nat option \<Rightarrow> rat" where
  "fuse_score lexical semantic = clamp ((rank_share lexical_weight lexical + rank_share semantic_weight semantic) / max_rrf)"

definition fuse_row ::
  "(string \<times> nat) list \<Rightarrow> (string \<times> nat) list \<Rightarrow> (string \<times> rat) list \<Rightarrow> string \<times> 'a memory_row \<Rightarrow> 'a fused_row" where
  "fuse_row lexical semantic scores kr = (let (i, r) = kr; l = map_of lexical i; s = map_of semantic i in
     \<lparr>fr_row = r, lexical_rank = l, semantic_rank = s,
      fr_semantic_score = (case map_of scores i of None \<Rightarrow> 0 | Some x \<Rightarrow> x), fusion_score = fuse_score l s,
      retrieval_method = (if l \<noteq> None \<and> s \<noteq> None then ''fts5_qwen_qdrant_hybrid''
        else if s \<noteq> None then ''qwen_qdrant_semantic'' else ''sqlite_fts5_bm25'')\<rparr>)"

definition fuse_key :: "'a fused_row \<Rightarrow> rat \<times> rat \<times> string" where
  "fuse_key f = (- fusion_score f, - row_importance (fr_row f), row_id (fr_row f))"

definition fuse :: "'a memory_row list \<Rightarrow> 'a semantic_row list \<Rightarrow> 'a fused_row list" where
  "fuse lexical semantic = sort_key fuse_key (map (fuse_row (ranks_of row_id lexical) (ranks_of sr_id semantic)
     (fold (\<lambda>s. AList.update (sr_id s) (sr_score s)) semantic [])) (merged_rows lexical semantic))"

text \<open>What the semantic projection is: not configured, with a broken configuration, or a search that may fail.\<close>

datatype 'a semantic_source = Not_installed | Config_error | Semantic_search "nat \<Rightarrow> 'a semantic_row list option"

definition search_normal ::
  "(nat \<Rightarrow> 'a memory_row list) \<Rightarrow> 'a semantic_source \<Rightarrow> int \<Rightarrow> int \<Rightarrow> 'a hybrid_result" where
  "search_normal lexical semantic limit offset = (let
       requested = nat (max 1 (min 500 (limit + max 0 offset)));
       (srows, state) = (case semantic of Not_installed \<Rightarrow> ([], ''optional_not_installed'')
         | Config_error \<Rightarrow> ([], ''degraded_fts_fallback'')
         | Semantic_search f \<Rightarrow> (case f requested of None \<Rightarrow> ([], ''degraded_fts_fallback'') | Some rs \<Rightarrow> (rs, ''ready'')));
       fused = fuse (lexical requested) srows
     in \<lparr>hr_rows = take (nat (max 1 (min 500 limit))) (drop (nat (max 0 offset)) fused), semantic_state = state\<rparr>)"

section \<open>The merged rows\<close>

lemma merged_dict: "dict_ok (merged_rows ls ss)"
proof -
  have "dict_ok d \<Longrightarrow> dict_ok (fold (\<lambda>r. AList.update (row_id r) r) ls d)" for ls :: "'a memory_row list" and d
    by (induction ls arbitrary: d) (simp_all add: dict_simps)
  moreover have "dict_ok d \<Longrightarrow> dict_ok (fold (\<lambda>s d. if map_of d (sr_id s) = None then AList.update (sr_id s) (sr_row s) d else d) ss d)"
    for ss :: "'a semantic_row list" and d
    by (induction ss arbitrary: d) (simp_all add: dict_simps)
  ultimately show ?thesis by (simp add: merged_rows_def dict_simps)
qed

lemma lexical_keys: "fst ` set (fold (\<lambda>r. AList.update (row_id r) r) ls d) = row_id ` set ls \<union> fst ` set d"
  by (induction ls arbitrary: d) (auto simp: dom_update)

lemma merged_keys: "fst ` set (merged_rows ls ss) = row_id ` set ls \<union> sr_id ` set ss"
proof -
  have "fst ` set (fold (\<lambda>s d. if map_of d (sr_id s) = None then AList.update (sr_id s) (sr_row s) d else d) ss d)
      = sr_id ` set ss \<union> fst ` set d" for d :: "(string \<times> 'a memory_row) list"
    by (induction ss arbitrary: d) (auto simp: dom_update map_of_eq_None_iff)
  then show ?thesis by (auto simp: merged_rows_def lexical_keys)
qed

definition rows_consistent :: "'a semantic_row list \<Rightarrow> bool" where
  \<comment> \<open>the record of a semantic row is the one of its identifier\<close>
  "rows_consistent ss \<longleftrightarrow> (\<forall>s \<in> set ss. row_id (sr_row s) = sr_id s)"

definition filed_right :: "'a memory_row set \<Rightarrow> (string \<times> 'a memory_row) list \<Rightarrow> bool" where
  "filed_right A d \<longleftrightarrow> (\<forall>kv \<in> set d. row_id (snd kv) = fst kv \<and> snd kv \<in> A)"

lemma filed_update: "filed_right A d \<Longrightarrow> row_id r = i \<Longrightarrow> r \<in> A \<Longrightarrow> filed_right A (AList.update i r d)"
  unfolding filed_right_def using dict_update_set [of _ _ i r d] by fastforce

lemma filed_lexical: "filed_right A d \<Longrightarrow> set ls \<subseteq> A \<Longrightarrow> filed_right A (fold (\<lambda>r. AList.update (row_id r) r) ls d)"
  by (induction ls arbitrary: d) (simp_all add: filed_update)

lemma filed_semantic:
  "filed_right A d \<Longrightarrow> sr_row ` set ss \<subseteq> A \<Longrightarrow> rows_consistent ss \<Longrightarrow>
     filed_right A (fold (\<lambda>s d. if map_of d (sr_id s) = None then AList.update (sr_id s) (sr_row s) d else d) ss d)"
  by (induction ss arbitrary: d) (simp_all add: filed_update rows_consistent_def)

lemma merged_identified:
  assumes "rows_consistent ss"
  shows "filed_right (set ls \<union> sr_row ` set ss) (merged_rows ls ss)"
  unfolding merged_rows_def using assms
  by (intro filed_semantic filed_lexical) (auto simp: filed_right_def)

section \<open>Scores\<close>

lemma fuse_score_unit: "0 \<le> fuse_score l s \<and> fuse_score l s \<le> 1"
  by (simp add: fuse_score_def)

lemma fuse_score_mono:
  assumes "case l of None \<Rightarrow> True | Some k \<Rightarrow> \<exists>k' \<le> k. l' = Some k'" "case s of None \<Rightarrow> True | Some k \<Rightarrow> \<exists>k' \<le> k. s' = Some k'"
  shows "fuse_score l s \<le> fuse_score l' s'"
proof -
  have share: "rank_share w a \<le> rank_share w b" if "0 \<le> w" "case a of None \<Rightarrow> True | Some k \<Rightarrow> \<exists>k' \<le> k. b = Some k'"
    for w and a b :: "nat option"
    using that by (auto simp: rank_share_def rrf_k_def intro!: divide_left_mono split: option.splits)
  show ?thesis unfolding fuse_score_def
    by (intro clamp_mono divide_right_mono add_mono share assms)
      (simp_all add: lexical_weight_def semantic_weight_def max_rrf_def rrf_k_def)
qed

section \<open>The fused list\<close>

lemma fuse_member:
  assumes "q \<in> set (fuse ls ss)"
  obtains i r where "(i, r) \<in> set (merged_rows ls ss)" "fr_row q = r" "lexical_rank q = map_of (ranks_of row_id ls) i"
    "semantic_rank q = map_of (ranks_of sr_id ss) i" "fusion_score q = fuse_score (lexical_rank q) (semantic_rank q)"
  using assms by (auto simp: fuse_def fuse_row_def Let_def)

lemma fuse_sorted: "sorted (map fuse_key (fuse ls ss))"
  by (simp add: fuse_def)

lemma fuse_distinct:
  assumes "rows_consistent ss"
  shows "distinct (map (\<lambda>r. row_id (fr_row r)) (fuse ls ss))"
proof -
  let ?g = "\<lambda>r :: 'a fused_row. row_id (fr_row r)"
  let ?ys = "map (fuse_row (ranks_of row_id ls) (ranks_of sr_id ss) (fold (\<lambda>s. AList.update (sr_id s) (sr_score s)) ss []))
    (merged_rows ls ss)"
  have "mset (map ?g (sort_key fuse_key ?ys)) = mset (map ?g ?ys)" by (simp only: mset_map mset_sort)
  moreover have "map ?g ?ys = map fst (merged_rows ls ss)"
    using merged_identified [OF assms, of ls] by (auto simp: fuse_row_def filed_right_def Let_def split: prod.split)
  ultimately have "mset (map ?g (fuse ls ss)) = mset (map fst (merged_rows ls ss))"
    unfolding fuse_def by (rule trans [OF _ arg_cong [of _ _ mset]])
  then have "distinct (map (\<lambda>r. row_id (fr_row r)) (fuse ls ss)) \<longleftrightarrow> distinct (map fst (merged_rows ls ss))"
    by (rule mset_eq_imp_distinct_iff)
  with merged_dict [of ls ss] show ?thesis by (simp add: dict_ok_def)
qed

lemma page_of_sorted: "sorted (map k xs) \<Longrightarrow> sorted (map k (take n (drop m xs)))"
  unfolding take_map [symmetric] drop_map [symmetric] by (simp add: sorted_wrt_take sorted_wrt_drop)

lemma page_of_distinct: "distinct (map k xs) \<Longrightarrow> distinct (map k (take n (drop m xs)))"
  unfolding take_map [symmetric] drop_map [symmetric] by simp

lemma page_subset: "r \<in> set (take n (drop m xs)) \<Longrightarrow> r \<in> set xs"
  by (meson in_set_dropD in_set_takeD)

text \<open>
  The fused result is a ranking of what the two searches returned: the rows carry distinct
  identifiers, each row is one that a projection returned, at most the limit of them, ordered by
  fused score, then importance, then identifier; scores lie between 0 and 1; a row ranked at least as
  well in both searches scores at least as well; and without a semantic answer the lexical rows are
  returned alone, with the state saying why.
\<close>

theorem fusion_ranks_returned_rows:
  fixes f :: "nat \<Rightarrow> 'a semantic_row list option" and limit offset :: int
  defines "n \<equiv> nat (max 1 (min 500 (limit + max 0 offset)))"
  assumes "case f n of None \<Rightarrow> True | Some ss \<Rightarrow> rows_consistent ss"
  shows "let res = search_normal lexical (Semantic_search f) limit offset; rows = hr_rows res in
    distinct (map (\<lambda>r. row_id (fr_row r)) rows) \<and> length rows \<le> nat (max 1 (min 500 limit)) \<and> sorted (map fuse_key rows) \<and>
    (\<forall>r \<in> set rows. 0 \<le> fusion_score r \<and> fusion_score r \<le> 1 \<and>
       (fr_row r \<in> set (lexical n) \<or> (\<exists>ss. f n = Some ss \<and> fr_row r \<in> sr_row ` set ss))) \<and>
    (\<forall>r \<in> set rows. \<forall>q \<in> set rows.
       (case lexical_rank q of None \<Rightarrow> True | Some k \<Rightarrow> \<exists>k' \<le> k. lexical_rank r = Some k') \<and>
       (case semantic_rank q of None \<Rightarrow> True | Some k \<Rightarrow> \<exists>k' \<le> k. semantic_rank r = Some k') \<longrightarrow> fusion_score q \<le> fusion_score r) \<and>
    (f n = None \<longleftrightarrow> semantic_state res = ''degraded_fts_fallback'')"
proof -
  define ss where "ss = (case f n of None \<Rightarrow> [] | Some ss \<Rightarrow> ss)"
  define rows where "rows = take (nat (max 1 (min 500 limit))) (drop (nat (max 0 offset)) (fuse (lexical n) ss))"
  have ok: "rows_consistent ss" using assms(2) by (auto simp: ss_def rows_consistent_def split: option.splits)
  have res: "hr_rows (search_normal lexical (Semantic_search f) limit offset) = rows"
    "semantic_state (search_normal lexical (Semantic_search f) limit offset) = ''degraded_fts_fallback'' \<longleftrightarrow> f n = None"
    by (auto simp: search_normal_def Let_def rows_def ss_def n_def split: option.splits)
  have "fr_row r \<in> set (lexical n) \<or> (\<exists>ss. f n = Some ss \<and> fr_row r \<in> sr_row ` set ss)" "fusion_score r = fuse_score (lexical_rank r) (semantic_rank r)"
    if "r \<in> set rows" for r
  proof -
    from that have "r \<in> set (fuse (lexical n) ss)" unfolding rows_def by (rule page_subset)
    then obtain i where i: "(i, fr_row r) \<in> set (merged_rows (lexical n) ss)" "fusion_score r = fuse_score (lexical_rank r) (semantic_rank r)"
      by (rule fuse_member) simp
    from i(2) show "fusion_score r = fuse_score (lexical_rank r) (semantic_rank r)" .
    from merged_identified [OF ok, of "lexical n"] i(1) have "fr_row r \<in> set (lexical n) \<union> sr_row ` set ss"
      by (auto simp: filed_right_def)
    then show "fr_row r \<in> set (lexical n) \<or> (\<exists>ss. f n = Some ss \<and> fr_row r \<in> sr_row ` set ss)"
      by (cases "f n") (auto simp: ss_def)
  qed
  moreover have "distinct (map (\<lambda>r. row_id (fr_row r)) rows)" "sorted (map fuse_key rows)" "length rows \<le> nat (max 1 (min 500 limit))"
    unfolding rows_def by (simp_all add: page_of_distinct fuse_distinct ok page_of_sorted fuse_sorted)
  ultimately show ?thesis unfolding Let_def res by (auto simp: fuse_score_unit intro: fuse_score_mono)
qed

lemma fusion_ranks_returned_rows_witness:
  "distinct (map (\<lambda>r. row_id (fr_row r)) (hr_rows (search_normal (\<lambda>n. [\<lparr>row_id = ''a'', row_importance = 0, row_columns = ()\<rparr>])
     (Semantic_search (\<lambda>n. Some [\<lparr>sr_id = ''b'', sr_score = 1, sr_row = \<lparr>row_id = ''b'', row_importance = 0, row_columns = ()\<rparr>\<rparr>])) 10 0)))"
proof -
  have "rows_consistent [\<lparr>sr_id = ''b'', sr_score = 1, sr_row = \<lparr>row_id = ''b'', row_importance = 0, row_columns = ()\<rparr>\<rparr>]"
    by (simp add: rows_consistent_def)
  then show ?thesis
    using fusion_ranks_returned_rows [of "\<lambda>n. Some [\<lparr>sr_id = ''b'', sr_score = 1, sr_row = \<lparr>row_id = ''b'', row_importance = 0, row_columns = ()\<rparr>\<rparr>]"
      10 0 "\<lambda>n. [\<lparr>row_id = ''a'', row_importance = 0, row_columns = ()\<rparr>]"]
    by (simp add: Let_def)
qed

section \<open>Pages\<close>

text \<open>
  Each page is cut from a fusion of its own, over as many rows as the page reaches; a row that enters
  a deeper search can move up.  So pages of one ranking can repeat a row and leave another out.
\<close>

definition plain_row :: "string \<Rightarrow> unit memory_row" where
  "plain_row i = \<lparr>row_id = i, row_importance = 0, row_columns = ()\<rparr>"

definition plain_lexical :: "nat \<Rightarrow> unit memory_row list" where
  "plain_lexical n = take n [plain_row ''a'', plain_row ''c'']"

definition plain_semantic :: "unit semantic_source" where
  "plain_semantic = Semantic_search (\<lambda>n. Some (take n [\<lparr>sr_id = ''b'', sr_score = 1, sr_row = plain_row ''b''\<rparr>,
     \<lparr>sr_id = ''a'', sr_score = 1, sr_row = plain_row ''a''\<rparr>]))"

lemma pages_repeat_and_skip:
  "map (\<lambda>r. row_id (fr_row r)) (hr_rows (search_normal plain_lexical plain_semantic 1 0)) = [''b'']"
  "map (\<lambda>r. row_id (fr_row r)) (hr_rows (search_normal plain_lexical plain_semantic 1 1)) = [''b'']"
  by code_simp+

end
