(* ===== verification/ComponentGraph.thy ===== *)
theory ComponentGraph
  imports Prelude
begin

text \<open>
  The component and profile graph of the installer (\<open>app/install/component_graph_service.py\<close>): its
  validation, the inheritance of profiles and the closure of the required components.  The graph
  is the loaded YAML with the field types that the validation itself checks by \<open>isinstance\<close>.
\<close>

section \<open>The graph\<close>

record component =
  component_id :: string
  owning_profile :: string
  required_components :: "string list"
  optional_components :: "string list"
  conflicts :: "string list"
  capability_ids :: "string list"
  text_fields :: "(string \<times> string) list"

record profile =
  display_name :: string
  extends :: "string list"
  profile_required :: "string list"
  profile_optional :: "string list"

record component_graph =
  graph_version :: int
  contract_version :: string
  authority_of :: string
  components :: "(string \<times> component) list"
  profiles :: "(string \<times> profile) list"
  constraints :: "(string \<times> bool) list"

datatype graph_error =
    Unsupported_version | Not_authoritative | Components_required | Profiles_required
  | Id_mismatch string | No_owner string | Bad_reference string | Self_required string | Untruthful_text string
  | Conflicting_owners string | Capabilities_incomplete | Bad_inheritance string | Unknown_in_profile string
  | Inheritance_cycle | Missing_profile | Constraints_weak | Unknown_profile | Unsupported_component | Key_error string

definition profile_ids :: "string list" where
  "profile_ids = [''core'', ''workstation_research'', ''creator_perception'', ''developer_codev'',
     ''scientific_engineering_mega'', ''complete_v1_mega'', ''custom'']"

definition local_capabilities :: "string list" where
  "local_capabilities = [''ELY-ID-001'', ''ELY-MEM-001'', ''ELY-MEM-002'', ''ELY-MEM-003'', ''ELY-MEM-004'', ''ELY-MEM-005'',
     ''ELY-MEM-006'', ''ELY-MEM-007'', ''ELY-MEM-008'', ''ELY-MEM-009'', ''ELY-MEM-010'', ''ELY-MEM-011'', ''ELY-MEM-012'',
     ''ELY-MEM-013'', ''ELY-MEM-014'', ''ELY-RET-001'', ''ELY-RET-002'', ''ELY-COG-001'', ''ELY-COG-002'', ''ELY-COG-003'',
     ''ELY-RES-001'', ''ELY-PROJ-001'', ''ELY-PROJ-002'', ''ELY-PROJ-003'', ''ELY-PROJ-004'', ''ELY-CRE-001'', ''ELY-CRE-002'',
     ''ELY-CRE-003'', ''ELY-CRE-004'', ''ELY-CON-001'', ''ELY-CODE-001'', ''ELY-ADM-001'', ''ELY-UI-001'', ''ELY-INS-001'',
     ''CODEV-001'', ''CODEV-002'', ''CODEV-003'', ''X-ID-001'', ''X-MKT-001'', ''X-ART-001'', ''X-PKG-001'', ''X-BLANK-001'']"

definition text_field_names :: "string list" where
  "text_field_names = [''exact_version_digest'', ''runtime_environment'', ''license_provenance_record'', ''network_behavior'',
     ''privilege_requirements'', ''health_probe'', ''cancellation_stop_behavior'', ''update_behavior'', ''uninstall_behavior'',
     ''data_preservation_behavior'']"

definition append_new :: "'a list \<Rightarrow> 'a list \<Rightarrow> 'a list" where
  \<comment> \<open>append each that is not there yet\<close>
  "append_new acc xs = fold (\<lambda>x acc. if x \<in> set acc then acc else acc @ [x]) xs acc"

lemma append_new_simps [simp]:
  "append_new acc [] = acc"
  "append_new acc (x # xs) = append_new (if x \<in> set acc then acc else acc @ [x]) xs"
  by (simp_all add: append_new_def)

lemma set_append_new [simp]: "set (append_new acc xs) = set acc \<union> set xs"
  by (induction xs arbitrary: acc) auto

lemma distinct_append_new [simp]: "distinct acc \<Longrightarrow> distinct (append_new acc xs)"
  by (induction xs arbitrary: acc) auto

lemma append_new_prefix: "\<exists>zs. append_new acc xs = acc @ zs"
proof (induction xs arbitrary: acc)
  case (Cons x xs)
  show ?case using Cons.IH [of acc] Cons.IH [of "acc @ [x]"] by auto
qed simp

section \<open>Inheritance of profiles\<close>

lemma bindR_cong [fundef_cong]: "m = m' \<Longrightarrow> (\<And>a. m' = Inr a \<Longrightarrow> f a = g a) \<Longrightarrow> bindR m f = bindR m' g"
  by (cases m') simp_all

text \<open>
  A profile met on its own trail is a cycle.  The recursion ends because the trail holds distinct
  profiles of the graph.
\<close>

function profile_chain :: "(string \<times> profile) list \<Rightarrow> string list \<Rightarrow> string \<Rightarrow> graph_error + string list"
  and parents_chain :: "(string \<times> profile) list \<Rightarrow> string list \<Rightarrow> string list \<Rightarrow> string list \<Rightarrow> graph_error + string list" where
  "profile_chain ps trail p = (if p \<in> set trail then Inl Inheritance_cycle
     else case map_of ps p of None \<Rightarrow> Inl Missing_profile
       | Some prof \<Rightarrow> bindR (parents_chain ps (trail @ [p]) (extends prof) []) (\<lambda>resolved. Inr (append_new resolved [p])))"
| "parents_chain ps trail [] resolved = Inr resolved"
| "parents_chain ps trail (q # qs) resolved =
     bindR (profile_chain ps trail q) (\<lambda>items. parents_chain ps trail qs (append_new resolved items))"
  by pat_completeness auto

lemma fewer_left:
  assumes "map_of ps p = Some prof" "p \<notin> set trail"
  shows "card (fst ` set ps - insert p (set trail)) < card (fst ` set ps - set trail)"
proof -
  from assms(1) have "p \<in> fst ` set ps" by (force dest: map_of_SomeD)
  with assms(2) show ?thesis by (intro psubset_card_mono) auto
qed

termination profile_chain
  by (relation "inv_image (less_than <*lex*> less_than) (\<lambda>x. case x of
       Inl (ps, trail, p) \<Rightarrow> (card (fst ` set ps - set trail), 0)
     | Inr (ps, trail, qs, acc) \<Rightarrow> (card (fst ` set ps - set trail), Suc (length qs)))")
    (auto simp: fewer_left)

declare profile_chain.simps [simp del]

section \<open>Validation\<close>

definition first_error :: "('a \<Rightarrow> graph_error option) \<Rightarrow> 'a list \<Rightarrow> graph_error + unit" where
  "first_error f xs = (case filter (\<lambda>x. f x \<noteq> None) xs of [] \<Rightarrow> Inr () | x # _ \<Rightarrow> Inl (the (f x)))"

definition component_error :: "string list \<Rightarrow> string \<times> component \<Rightarrow> graph_error option" where
  "component_error known kc = (let (k, c) = kc in
     if component_id c \<noteq> k then Some (Id_mismatch k)
     else if owning_profile c \<notin> set profile_ids - {''custom'', ''complete_v1_mega''} then Some (No_owner k)
     else if \<not> set (required_components c) \<subseteq> set known then Some (Bad_reference k)
     else if k \<in> set (required_components c) then Some (Self_required k)
     else if \<not> set (optional_components c) \<subseteq> set known then Some (Bad_reference k)
     else if k \<in> set (optional_components c) then Some (Self_required k)
     else if list_ex (\<lambda>f. case map_of (text_fields c) f of None \<Rightarrow> True | Some t \<Rightarrow> strip t = []) text_field_names
       then Some (Untruthful_text k)
     else None)"

fun claim_capabilities :: "string \<Rightarrow> string list \<Rightarrow> (string \<times> string) list \<Rightarrow> graph_error + (string \<times> string) list" where
  "claim_capabilities owner [] owners = Inr owners"
| "claim_capabilities owner (c # cs) owners =
     (if map_of owners c \<notin> {None, Some owner} then Inl (Conflicting_owners c)
      else claim_capabilities owner cs (AList.update c owner owners))"

fun check_components :: "string list \<Rightarrow> (string \<times> component) list \<Rightarrow> (string \<times> string) list \<Rightarrow> graph_error + (string \<times> string) list" where
  "check_components known [] owners = Inr owners"
| "check_components known (kc # kcs) owners = (case component_error known kc of
       Some e \<Rightarrow> Inl e
     | None \<Rightarrow> bindR (claim_capabilities (owning_profile (snd kc)) (capability_ids (snd kc)) owners) (check_components known kcs))"

fun check_profiles :: "component_graph \<Rightarrow> (string \<times> profile) list \<Rightarrow> graph_error + unit" where
  "check_profiles g [] = Inr ()"
| "check_profiles g ((k, p) # kps) =
     (if \<not> set (extends p) \<subseteq> fst ` set (profiles g) then Inl (Bad_inheritance k)
      else if \<not> set (profile_required p @ profile_optional p) \<subseteq> fst ` set (components g) then Inl (Unknown_in_profile k)
      else bindR (profile_chain (profiles g) [] k) (\<lambda>_. check_profiles g kps))"

definition constraint_keys :: "string list" where
  "constraint_keys = [''core_components_mandatory'', ''reject_unknown_components'', ''reject_conflicts'', ''no_source_forks'',
     ''memory_and_governance_mandatory'']"

definition validate_graph :: "component_graph \<Rightarrow> graph_error + unit" where
  "validate_graph g =
     bindR (raise_if (graph_version g \<noteq> 1 \<or> contract_version g \<noteq> ''elysia-component-profile-graph-1.0'') Unsupported_version) (\<lambda>_.
     bindR (raise_if (authority_of g \<noteq> ''authoritative'') Not_authoritative) (\<lambda>_.
     bindR (raise_if (components g = []) Components_required) (\<lambda>_.
     bindR (raise_if (fst ` set (profiles g) \<noteq> set profile_ids) Profiles_required) (\<lambda>_.
     bindR (check_components (map fst (components g)) (components g) []) (\<lambda>owners.
     bindR (raise_if (fst ` set owners \<noteq> set local_capabilities) Capabilities_incomplete) (\<lambda>_.
     bindR (check_profiles g (profiles g)) (\<lambda>_.
     raise_if (\<not> list_all (\<lambda>k. map_of (constraints g) k = Some True) constraint_keys \<or>
       map_of (constraints g) ''profile_selection_grants_operation_approval'' \<noteq> Some False) Constraints_weak)))))))"

section \<open>Resolution\<close>

function close_requirements :: "(string \<times> component) list \<Rightarrow> nat \<Rightarrow> string list \<Rightarrow> graph_error + string list" where
  "close_requirements cs index resolved =
     (if index < length resolved then
        (case map_of cs (resolved ! index) of None \<Rightarrow> Inl (Key_error (resolved ! index))
         | Some c \<Rightarrow> close_requirements cs (Suc index) (append_new resolved (required_components c)))
      else Inr resolved)"
  by pat_completeness auto

definition universe :: "(string \<times> component) list \<Rightarrow> string set" where
  "universe cs = (\<Union>kc \<in> set cs. set (required_components (snd kc)))"

definition unresolved :: "(string \<times> component) list \<Rightarrow> nat \<Rightarrow> string list \<Rightarrow> nat" where
  "unresolved cs index resolved = card (universe cs - set resolved) + (length resolved - index)"

lemma finite_universe [simp]: "finite (universe cs)"
  by (simp add: universe_def)

lemma append_new_grows:
  assumes "set xs \<subseteq> U" "finite U"
  shows "card (U - set (append_new acc xs)) + length (append_new acc xs) = card (U - set acc) + length acc"
  using assms
proof (induction xs arbitrary: acc)
  case (Cons x xs)
  have IH: "card (U - set (append_new as xs)) + length (append_new as xs) = card (U - set as) + length as" for as
    by (rule Cons.IH) (use Cons.prems in auto)
  show ?case
  proof (cases "x \<in> set acc")
    case True
    with IH [of acc] show ?thesis by (simp only: append_new_simps if_True)
  next
    case False
    with Cons.prems(1) have "U - set acc = insert x (U - set (acc @ [x]))" by auto
    moreover have "x \<notin> U - set (acc @ [x])" by simp
    ultimately have "card (U - set acc) = Suc (card (U - set (acc @ [x])))" using Cons.prems(2) by (metis card_insert_disjoint finite_Diff)
    with IH [of "acc @ [x]"] False show ?thesis by (simp only: append_new_simps if_False length_append_singleton)
  qed
qed (simp only: append_new_simps)

lemma length_append_new: "length acc \<le> length (append_new acc xs)"
  using append_new_prefix [of acc xs] by auto

lemma required_in_universe: "map_of cs k = Some c \<Longrightarrow> set (required_components c) \<subseteq> universe cs"
  unfolding universe_def by (force dest: map_of_SomeD)

lemma unresolved_step:
  assumes "index < length resolved" "map_of cs k = Some c"
  shows "unresolved cs (Suc index) (append_new resolved (required_components c)) < unresolved cs index resolved"
  using append_new_grows [OF required_in_universe [OF assms(2)] finite_universe, of resolved] assms(1)
    length_append_new [of resolved "required_components c"]
  unfolding unresolved_def by linarith

termination close_requirements
  by (relation "measure (\<lambda>(cs, index, resolved). unresolved cs index resolved)") (auto simp: unresolved_step)

declare close_requirements.simps [simp del]

definition profile_components :: "component_graph \<Rightarrow> string list \<Rightarrow> string list" where
  "profile_components g chain = fold (\<lambda>q acc. append_new acc (case map_of (profiles g) q of None \<Rightarrow> [] | Some p \<Rightarrow> profile_required p)) chain []"

definition resolve_profile_components :: "component_graph \<Rightarrow> string \<Rightarrow> string list \<Rightarrow> graph_error + string list" where
  "resolve_profile_components g p custom =
     bindR (validate_graph g) (\<lambda>_.
     bindR (raise_if (map_of (profiles g) p = None) Unknown_profile) (\<lambda>_.
     bindR (profile_chain (profiles g) [] p) (\<lambda>chain.
     let base = profile_components g chain in
     bindR (if p = ''custom'' then
              (case map_of (profiles g) ''custom'' of None \<Rightarrow> Inl (Key_error ''custom'')
               | Some c \<Rightarrow> if \<not> set custom \<subseteq> set (profile_optional c) then Inl Unsupported_component
                   else Inr (append_new base custom))
            else Inr base) (close_requirements (components g) 0))))"

section \<open>Reachability\<close>

definition extends_rel :: "(string \<times> profile) list \<Rightarrow> (string \<times> string) set" where
  "extends_rel ps = {(p, q). \<exists>prof. map_of ps p = Some prof \<and> q \<in> set (extends prof)}"

definition requires_rel :: "(string \<times> component) list \<Rightarrow> (string \<times> string) set" where
  "requires_rel cs = {(k, r). \<exists>c. map_of cs k = Some c \<and> r \<in> set (required_components c)}"

lemma rtrancl_first_step: "(x, y) \<in> R\<^sup>* \<longleftrightarrow> x = y \<or> (\<exists>z. (x, z) \<in> R \<and> (z, y) \<in> R\<^sup>*)"
  by (meson converse_rtranclE converse_rtrancl_into_rtrancl rtrancl.rtrancl_refl)

lemma reach_unfold: "R\<^sup>* `` {x} = insert x (R\<^sup>* `` (R `` {x}))"
proof (rule set_eqI)
  fix y
  have "y \<in> R\<^sup>* `` {x} \<longleftrightarrow> (x, y) \<in> R\<^sup>*" by (simp only: Image_singleton_iff)
  also have "\<dots> \<longleftrightarrow> x = y \<or> (\<exists>z. (x, z) \<in> R \<and> (z, y) \<in> R\<^sup>*)" by (rule rtrancl_first_step)
  also have "\<dots> \<longleftrightarrow> y \<in> insert x (R\<^sup>* `` (R `` {x}))" by (auto simp only: insert_iff Image_iff singleton_iff)
  finally show "y \<in> R\<^sup>* `` {x} \<longleftrightarrow> y \<in> insert x (R\<^sup>* `` (R `` {x}))" .
qed

lemma chain_is_ancestors:
  "profile_chain ps trail p = Inr xs \<Longrightarrow> set xs = (extends_rel ps)\<^sup>* `` {p} \<and> distinct xs"
  "parents_chain ps trail qs acc = Inr ys \<Longrightarrow> set ys = set acc \<union> (extends_rel ps)\<^sup>* `` set qs \<and> (distinct acc \<longrightarrow> distinct ys)"
proof (induction ps trail p and ps trail qs acc arbitrary: xs and ys rule: profile_chain_parents_chain.induct)
  case (1 ps trail p)
  from "1.prems" obtain prof resolved where p: "p \<notin> set trail" "map_of ps p = Some prof"
    "parents_chain ps (trail @ [p]) (extends prof) [] = Inr resolved" "xs = append_new resolved [p]"
    unfolding profile_chain.simps [of ps trail p]
    by (auto simp: bindR_eq_Inr_iff simp del: append_new_simps split: if_splits option.splits)
  from "1.IH" [OF p(1,2,3)] have "set resolved = (extends_rel ps)\<^sup>* `` set (extends prof)" "distinct resolved" by simp_all
  moreover have "extends_rel ps `` {p} = set (extends prof)" using p(2) by (auto simp: extends_rel_def)
  ultimately show ?case using reach_unfold [of "extends_rel ps" p] unfolding p(4) by (simp del: append_new_simps)
next
  case (3 ps trail q qs resolved)
  from "3.prems" obtain items where i: "profile_chain ps trail q = Inr items" "parents_chain ps trail qs (append_new resolved items) = Inr ys"
    by (auto simp: bindR_eq_Inr_iff)
  from "3.IH"(1) [OF i(1)] "3.IH"(2) [OF i] show ?case by auto
qed auto

lemma close_requirements_ok:
  assumes "close_requirements cs index resolved = Inr xs"
    and "set base \<subseteq> set resolved" "set resolved \<subseteq> (requires_rel cs)\<^sup>* `` set base" "distinct resolved" "index \<le> length resolved"
    and "requires_rel cs `` set (take index resolved) \<subseteq> set resolved"
  shows "set xs = (requires_rel cs)\<^sup>* `` set base \<and> distinct xs \<and> (\<exists>zs. xs = resolved @ zs)"
  using assms
proof (induction cs index resolved rule: close_requirements.induct)
  case (1 cs index resolved)
  show ?case
  proof (cases "index < length resolved")
    case False
    with "1.prems" have xs: "xs = resolved" "requires_rel cs `` set resolved \<subseteq> set resolved"
      by (simp_all add: close_requirements.simps [of cs index resolved])
    have "(requires_rel cs)\<^sup>* `` set base \<subseteq> set resolved"
    proof
      fix y assume "y \<in> (requires_rel cs)\<^sup>* `` set base"
      then obtain x where "x \<in> set base" "(x, y) \<in> (requires_rel cs)\<^sup>*" by blast
      from this(2,1) show "y \<in> set resolved"
        by (induction rule: rtrancl_induct) (use "1.prems"(2) xs(2) in auto)
    qed
    with "1.prems" xs(1) show ?thesis by auto
  next
    case True
    then obtain c where c: "map_of cs (resolved ! index) = Some c"
      "close_requirements cs (Suc index) (append_new resolved (required_components c)) = Inr xs"
      using "1.prems"(1) by (auto simp: close_requirements.simps [of cs index resolved] split: option.splits)
    obtain zs where zs: "append_new resolved (required_components c) = resolved @ zs" using append_new_prefix by blast
    have step: "requires_rel cs `` {resolved ! index} = set (required_components c)"
      using c(1) by (auto simp: requires_rel_def)
    have "set (take (Suc index) (resolved @ zs)) = insert (resolved ! index) (set (take index resolved))"
      using True by (simp add: take_Suc_conv_app_nth)
    then have front: "requires_rel cs `` set (take (Suc index) (resolved @ zs)) \<subseteq> set (append_new resolved (required_components c))"
      using "1.prems"(6) step by auto
    have "resolved ! index \<in> (requires_rel cs)\<^sup>* `` set base" using "1.prems"(3) True nth_mem by blast
    then have "set (required_components c) \<subseteq> (requires_rel cs)\<^sup>* `` set base"
      using step by (auto intro: rtrancl_into_rtrancl)
    with "1.prems" have "set base \<subseteq> set (append_new resolved (required_components c))"
      "set (append_new resolved (required_components c)) \<subseteq> (requires_rel cs)\<^sup>* `` set base"
      "distinct (append_new resolved (required_components c))" by (auto simp del: append_new_simps)
    moreover have "Suc index \<le> length (append_new resolved (required_components c))" using zs True by simp
    moreover have "requires_rel cs `` set (take (Suc index) (append_new resolved (required_components c)))
        \<subseteq> set (append_new resolved (required_components c))" using front zs by simp
    ultimately have "set xs = (requires_rel cs)\<^sup>* `` set base \<and> distinct xs \<and>
        (\<exists>zs. xs = append_new resolved (required_components c) @ zs)" by (rule "1.IH" [OF True c])
    with zs show ?thesis by auto
  qed
qed

section \<open>A valid graph always resolves\<close>

definition graph_closed :: "component_graph \<Rightarrow> bool" where
  \<comment> \<open>what the validation leaves true of references\<close>
  "graph_closed g \<longleftrightarrow> (\<forall>(k, c) \<in> set (components g). set (required_components c) \<subseteq> fst ` set (components g)) \<and>
     (\<forall>(k, p) \<in> set (profiles g). set (profile_required p @ profile_optional p) \<subseteq> fst ` set (components g) \<and>
        (\<exists>xs. profile_chain (profiles g) [] k = Inr xs))"

lemma check_components_refs:
  "check_components known kcs owners = Inr owners' \<Longrightarrow> (k, c) \<in> set kcs \<Longrightarrow> set (required_components c) \<subseteq> set known"
  by (induction known kcs owners arbitrary: owners' rule: check_components.induct)
    (auto simp: bindR_eq_Inr_iff component_error_def Let_def split: option.splits if_splits)

lemma check_profiles_refs:
  "check_profiles g kps = Inr u \<Longrightarrow> (k, p) \<in> set kps \<Longrightarrow>
     set (profile_required p @ profile_optional p) \<subseteq> fst ` set (components g) \<and> (\<exists>xs. profile_chain (profiles g) [] k = Inr xs)"
  by (induction g kps arbitrary: u rule: check_profiles.induct) (auto simp: bindR_eq_Inr_iff split: if_splits)

lemma validate_closed:
  assumes "validate_graph g = Inr u"
  shows "graph_closed g"
proof -
  from assms obtain owners v where c: "check_components (map fst (components g)) (components g) [] = Inr owners"
    and p: "check_profiles g (profiles g) = Inr v"
    by (auto simp: validate_graph_def bindR_eq_Inr_iff)
  from check_components_refs [OF c] check_profiles_refs [OF p] show ?thesis
    unfolding graph_closed_def by fastforce
qed

lemma close_requirements_total:
  assumes "graph_closed g" "set resolved \<subseteq> fst ` set (components g)"
  shows "\<exists>xs. close_requirements (components g) index resolved = Inr xs"
  using assms(2)
proof (induction "components g" index resolved rule: close_requirements.induct)
  case (1 index resolved)
  show ?case
  proof (cases "index < length resolved")
    case True
    with "1.prems" have "resolved ! index \<in> fst ` set (components g)" using nth_mem by blast
    then obtain c where c: "map_of (components g) (resolved ! index) = Some c"
      by (metis map_of_eq_None_iff option.exhaust)
    with assms(1) have "set (required_components c) \<subseteq> fst ` set (components g)"
      by (force simp: graph_closed_def dest: map_of_SomeD)
    with "1.hyps" [OF True c] "1.prems" c True show ?thesis
      by (simp add: close_requirements.simps [of _ index resolved])
  qed (simp add: close_requirements.simps [of _ index resolved])
qed

definition required_of :: "component_graph \<Rightarrow> string \<Rightarrow> string set" where
  "required_of g q = (case map_of (profiles g) q of None \<Rightarrow> {} | Some p \<Rightarrow> set (profile_required p))"

definition selectable :: "component_graph \<Rightarrow> string \<Rightarrow> string list \<Rightarrow> bool" where
  "selectable g p custom \<longleftrightarrow> (case map_of (profiles g) p of None \<Rightarrow> False
     | Some prof \<Rightarrow> p = ''custom'' \<longrightarrow> set custom \<subseteq> set (profile_optional prof))"

lemma profile_components_set:
  "set (profile_components g chain) = (\<Union>q \<in> set chain. required_of g q) \<and> distinct (profile_components g chain)"
proof -
  have "distinct acc \<Longrightarrow> set (fold (\<lambda>q acc. append_new acc (case map_of (profiles g) q of None \<Rightarrow> [] | Some p \<Rightarrow> profile_required p)) chain acc)
      = set acc \<union> (\<Union>q \<in> set chain. required_of g q) \<and>
      distinct (fold (\<lambda>q acc. append_new acc (case map_of (profiles g) q of None \<Rightarrow> [] | Some p \<Rightarrow> profile_required p)) chain acc)" for acc
    by (induction chain arbitrary: acc) (auto simp: required_of_def split: option.split)
  from this [of "[]"] show ?thesis by (simp add: profile_components_def)
qed

lemma required_known:
  assumes "graph_closed g"
  shows "required_of g q \<subseteq> fst ` set (components g)"
proof (cases "map_of (profiles g) q")
  case (Some p)
  then have "(q, p) \<in> set (profiles g)" by (rule map_of_SomeD)
  with assms have "set (profile_required p @ profile_optional p) \<subseteq> fst ` set (components g)" by (auto simp: graph_closed_def)
  with Some show ?thesis by (simp add: required_of_def)
qed (simp add: required_of_def)

text \<open>
  Claim C27. Resolving a profile always ends, and ends with exactly what the profile needs: it succeeds
  precisely when the graph is valid, the profile known and a custom selection made of components the
  custom profile offers, whatever cycles the requirements of components contain; the result lists
  without repetition the components reachable by requirements from those of the profile, of all
  profiles it inherits from, and of the custom selection.
\<close>

theorem resolution_is_closure:
  "case resolve_profile_components g p custom of
     Inl e \<Rightarrow> \<not> (validate_graph g = Inr () \<and> selectable g p custom)
   | Inr xs \<Rightarrow> validate_graph g = Inr () \<and> selectable g p custom \<and> distinct xs \<and>
       set xs = (requires_rel (components g))\<^sup>* ``
         ((\<Union>q \<in> (extends_rel (profiles g))\<^sup>* `` {p}. required_of g q) \<union> (if p = ''custom'' then set custom else {}))"
proof (cases "validate_graph g = Inr () \<and> selectable g p custom")
  case False
  then show ?thesis
    by (auto simp: resolve_profile_components_def selectable_def bindR_eq_Inr_iff Let_def split: sum.split option.splits if_splits)
next
  case True
  then have valid: "validate_graph g = Inr ()" and ok: "graph_closed g" by (auto intro: validate_closed)
  from True obtain prof where prof: "map_of (profiles g) p = Some prof" "p = ''custom'' \<Longrightarrow> set custom \<subseteq> set (profile_optional prof)"
    by (auto simp: selectable_def split: option.splits)
  from ok map_of_SomeD [OF prof(1)] have prof_ok: "set (profile_required prof @ profile_optional prof) \<subseteq> fst ` set (components g)"
    and "\<exists>xs. profile_chain (profiles g) [] p = Inr xs" by (auto simp: graph_closed_def)
  then obtain chain where chain: "profile_chain (profiles g) [] p = Inr chain" by blast
  define base where "base = (if p = ''custom'' then append_new (profile_components g chain) custom else profile_components g chain)"
  have base: "set base = (\<Union>q \<in> (extends_rel (profiles g))\<^sup>* `` {p}. required_of g q) \<union> (if p = ''custom'' then set custom else {})"
    "distinct base"
    using profile_components_set [of g chain] chain_is_ancestors(1) [OF chain] by (auto simp: base_def)
  have "p = ''custom'' \<Longrightarrow> set custom \<subseteq> fst ` set (components g)"
    using prof(2) prof_ok by (metis Un_subset_iff set_append subset_trans)
  with required_known [OF ok] have "set base \<subseteq> fst ` set (components g)" by (auto simp: base(1))
  with close_requirements_total [OF ok] obtain xs where xs: "close_requirements (components g) 0 base = Inr xs" by blast
  have "set xs = (requires_rel (components g))\<^sup>* `` set base \<and> distinct xs \<and> (\<exists>zs. xs = base @ zs)"
    by (rule close_requirements_ok [OF xs]) (use base(2) in auto)
  moreover have "resolve_profile_components g p custom = Inr xs"
    using prof xs by (auto simp: resolve_profile_components_def valid chain Let_def base_def)
  ultimately show ?thesis using True base(1) by simp
qed

section \<open>Owners of capabilities\<close>

lemma claim_capabilities_ok:
  assumes "claim_capabilities owner cs owners = Inr owners'"
  shows "(\<forall>c \<in> set cs. map_of owners' c = Some owner) \<and> (\<forall>x v. map_of owners x = Some v \<longrightarrow> map_of owners' x = Some v) \<and>
    fst ` set owners' = fst ` set owners \<union> set cs"
  using assms
proof (induction owner cs owners arbitrary: owners' rule: claim_capabilities.induct)
  case (2 owner c cs owners)
  from "2.prems" have free: "map_of owners c \<in> {None, Some owner}"
    and rest: "claim_capabilities owner cs (AList.update c owner owners) = Inr owners'" by (auto split: if_splits)
  from "2.IH" [OF _ rest] free have cs: "\<forall>x \<in> set cs. map_of owners' x = Some owner"
    and keep: "\<And>x v. map_of (AList.update c owner owners) x = Some v \<Longrightarrow> map_of owners' x = Some v"
    and dom: "fst ` set owners' = fst ` set (AList.update c owner owners) \<union> set cs" by simp_all
  have "map_of owners' c = Some owner" by (rule keep) (simp add: map_of_dict_update)
  moreover have "map_of owners' x = Some v" if "map_of owners x = Some v" for x v
    using that free by (intro keep) (auto simp: map_of_dict_update)
  ultimately show ?case using cs dom by (auto simp: dom_update)
qed simp

lemma check_components_owners:
  assumes "check_components known kcs owners = Inr owners'"
  shows "(\<forall>kc \<in> set kcs. \<forall>x \<in> set (capability_ids (snd kc)). map_of owners' x = Some (owning_profile (snd kc))) \<and>
    (\<forall>x v. map_of owners x = Some v \<longrightarrow> map_of owners' x = Some v) \<and>
    fst ` set owners' = fst ` set owners \<union> (\<Union>kc \<in> set kcs. set (capability_ids (snd kc)))"
  using assms
proof (induction known kcs owners arbitrary: owners' rule: check_components.induct)
  case (2 known kc kcs owners)
  from "2.prems" obtain mid where none: "component_error known kc = None"
    and mid: "claim_capabilities (owning_profile (snd kc)) (capability_ids (snd kc)) owners = Inr mid"
    and rest: "check_components known kcs mid = Inr owners'"
    by (auto simp: bindR_eq_Inr_iff split: option.splits)
  from "2.IH" [OF none mid rest] claim_capabilities_ok [OF mid] show ?case by auto
qed simp

text \<open>
  In a valid graph each local capability is somebody's responsibility and nobody else's: the
  capabilities the components provide are exactly the released ones, all components that provide one
  are owned by the same concrete profile, and no component requires itself.
\<close>

theorem capabilities_have_one_owner:
  assumes "validate_graph g = Inr ()"
  shows "(\<Union>kc \<in> set (components g). set (capability_ids (snd kc))) = set local_capabilities \<and>
    (\<forall>kc \<in> set (components g). \<forall>kd \<in> set (components g).
       set (capability_ids (snd kc)) \<inter> set (capability_ids (snd kd)) \<noteq> {} \<longrightarrow> owning_profile (snd kc) = owning_profile (snd kd)) \<and>
    (\<forall>kc \<in> set (components g). fst kc \<notin> set (required_components (snd kc)) \<and>
       owning_profile (snd kc) \<in> set profile_ids - {''custom'', ''complete_v1_mega''})"
proof -
  from assms obtain owners where c: "check_components (map fst (components g)) (components g) [] = Inr owners"
    and o: "fst ` set owners = set local_capabilities"
    by (auto simp: validate_graph_def bindR_eq_Inr_iff)
  have "check_components known kcs ow = Inr ow' \<Longrightarrow> kc \<in> set kcs \<Longrightarrow> fst kc \<notin> set (required_components (snd kc)) \<and>
       owning_profile (snd kc) \<in> set profile_ids - {''custom'', ''complete_v1_mega''}" for known kcs ow ow' kc
    by (induction known kcs ow arbitrary: ow' rule: check_components.induct)
      (auto simp: bindR_eq_Inr_iff component_error_def Let_def split: option.splits if_splits prod.splits)
  with c have "\<forall>kc \<in> set (components g). fst kc \<notin> set (required_components (snd kc)) \<and>
       owning_profile (snd kc) \<in> set profile_ids - {''custom'', ''complete_v1_mega''}" by blast
  moreover from check_components_owners [OF c] have
    all: "\<forall>kc \<in> set (components g). \<forall>x \<in> set (capability_ids (snd kc)). map_of owners x = Some (owning_profile (snd kc))"
    and "fst ` set owners = (\<Union>kc \<in> set (components g). set (capability_ids (snd kc)))" by simp_all
  moreover from all have "\<forall>kc \<in> set (components g). \<forall>kd \<in> set (components g).
       set (capability_ids (snd kc)) \<inter> set (capability_ids (snd kd)) \<noteq> {} \<longrightarrow> owning_profile (snd kc) = owning_profile (snd kd)"
    by (metis disjoint_iff option.inject)
  ultimately show ?thesis using o by simp
qed

definition sample_graph :: component_graph where
  "sample_graph = \<lparr>graph_version = 1, contract_version = ''elysia-component-profile-graph-1.0'', authority_of = ''authoritative'',
     components = [(''base'', \<lparr>component_id = ''base'', owning_profile = ''core'', required_components = [],
       optional_components = [], conflicts = [], capability_ids = local_capabilities,
       text_fields = map (\<lambda>f. (f, ''declared'')) text_field_names\<rparr>)],
     profiles = map (\<lambda>p. (p, \<lparr>display_name = p, extends = [], profile_required = [''base''], profile_optional = []\<rparr>)) profile_ids,
     constraints = (''profile_selection_grants_operation_approval'', False) # map (\<lambda>k. (k, True)) constraint_keys\<rparr>"

lemma sample_graph_valid: "validate_graph sample_graph = Inr ()"
  by code_simp

lemma capabilities_have_one_owner_witness:
  "(\<Union>kc \<in> set (components sample_graph). set (capability_ids (snd kc))) = set local_capabilities"
  using capabilities_have_one_owner [OF sample_graph_valid] by blast

end
