(* ===== verification/CodingApprovals.thy ===== *)
theory CodingApprovals
  imports Actions
begin

text \<open>
  Exact one-time approvals of coding operations (\<open>app/api/coding_operation_service.py\<close>).  The path guard
  is an argument, since it reads the file system and the approved repositories; so are the clock in
  whole seconds, fresh identifiers and tokens, the calling client and whether the audit can be
  written.  The lock makes each call one step.
\<close>

section \<open>Records\<close>

record guarded_path =
  gp_allowed :: bool
  gp_root :: string
  gp_relative :: "string option"
  gp_reason :: "string option"

type_synonym path_guard = "string \<Rightarrow> string \<Rightarrow> guarded_path" \<comment> \<open>workspace root and target\<close>

record approve_payload =
  ap_kind :: string
  ap_summary :: string
  ap_workspace :: string
  ap_files :: "string list"
  ap_source :: "string option"
  ap_plan :: string
  ap_class :: string
  ap_seconds :: int
  ap_approved :: bool

record operation_approval =
  oa_status :: string
  oa_id :: string
  oa_token :: "string option"
  oa_kind :: string
  oa_files :: "string list"
  oa_source :: "string option"
  oa_plan :: string
  oa_class :: string

record approval_entry =
  ae_approval :: operation_approval
  ae_token :: "string option"
  ae_root :: string
  ae_expires :: int
  ae_consumed :: "int option"
  ae_actor :: string
  ae_revoked :: "int option"
  ae_revoked_reason :: string

type_synonym approvals = "(string \<times> approval_entry) list"

record call_env =
  ce_now :: int
  ce_fresh :: string
  ce_token :: string
  ce_actor :: string
  ce_guard :: path_guard
  ce_audit_fails :: bool

record operation_ask =
  ask_id :: "string option"
  ask_token :: "string option"
  ask_kind :: string
  ask_workspace :: string
  ask_files :: "string list"
  ask_source :: "string option"
  ask_plan :: string
  ask_class :: string

datatype coding_failure = Audit_write_failed

section \<open>Operations\<close>

definition or_text :: "string option \<Rightarrow> string \<Rightarrow> string" where
  "or_text v other = (if truthy v then the v else other)"

fun normalize_each :: "path_guard \<Rightarrow> string \<Rightarrow> string list \<Rightarrow> string + string list" where
  "normalize_each guard ws [] = Inr []"
| "normalize_each guard ws (f # fs) = (let g = guard ws f in
     if \<not> gp_allowed g \<or> \<not> truthy (gp_relative g) then Inl (or_text (gp_reason g) ''approval_file_not_allowed'')
     else bindR (normalize_each guard ws fs) (\<lambda>rs. Inr (the (gp_relative g) # rs)))"

definition normalize_exact_files :: "path_guard \<Rightarrow> string \<Rightarrow> string list \<Rightarrow> string + string \<times> string list" where
  "normalize_exact_files guard ws fs = (let root = guard ws ''.'' in
     if \<not> gp_allowed root then Inl (or_text (gp_reason root) ''workspace_root_not_approved'')
     else bindR (normalize_each guard ws fs) (\<lambda>rs. Inr (gp_root root, sorted_set rs)))"

definition file_entry :: "string \<Rightarrow> operation_approval \<Rightarrow> string option \<Rightarrow> string \<Rightarrow> int \<Rightarrow> string \<Rightarrow> approval_entry" where
  "file_entry i a token root expires actor = \<lparr>ae_approval = a, ae_token = token, ae_root = root, ae_expires = expires,
     ae_consumed = None, ae_actor = actor, ae_revoked = None, ae_revoked_reason = []\<rparr>"

definition approve_operation :: "call_env \<Rightarrow> approve_payload \<Rightarrow> (approvals, coding_failure, operation_approval) action" where
  "approve_operation env p s = (let
       i = ''approval_'' @ ce_fresh env;
       expires = ce_now env + (if ap_approved p then ap_seconds p else 30);
       normal = normalize_exact_files (ce_guard env) (ap_workspace p) (ap_files p);
       files = (case normal of Inl e \<Rightarrow> [] | Inr (root, fs) \<Rightarrow> fs);
       root = (case normal of Inl e \<Rightarrow> ''/'' | Inr (root, fs) \<Rightarrow> root);
       base = (\<lambda>status token. \<lparr>oa_status = status, oa_id = i, oa_token = token, oa_kind = ap_kind p, oa_files = files,
         oa_source = ap_source p, oa_plan = ap_plan p, oa_class = ap_class p\<rparr>);
       denied = ((case normal of Inl e \<Rightarrow> True | Inr r \<Rightarrow> False) \<or> (ap_class p \<noteq> ''command_check'' \<and> files = []) \<or>
         ap_plan p = [] \<or> ap_class p = []);
       token = ''op_'' @ ce_token env
     in if denied then (Inr (base ''denied'' None), AList.update i (file_entry i (base ''denied'' None) None root expires []) s)
        else if \<not> ap_approved p then
          (Inr (base ''approval_required'' None), AList.update i (file_entry i (base ''approval_required'' None) None root expires []) s)
        else (if ce_audit_fails env then Inl Audit_write_failed else Inr (base ''approved'' (Some token)),
          AList.update i (file_entry i (base ''approved'' (Some token)) (Some token) root expires (ce_actor env)) s))"

definition mismatch :: "call_env \<Rightarrow> operation_ask \<Rightarrow> approval_entry \<Rightarrow> string option" where
  "mismatch env q e = (let a = ae_approval e in
     case normalize_exact_files (ce_guard env) (ask_workspace q) (ask_files q) of
       Inl err \<Rightarrow> Some err
     | Inr (root, fs) \<Rightarrow>
         if root \<noteq> ae_root e then Some ''approval_workspace_mismatch''
         else if oa_kind a \<noteq> ask_kind q then Some ''approval_operation_kind_mismatch''
         else if oa_files a \<noteq> fs then Some ''approval_exact_files_mismatch''
         else if oa_source a \<noteq> ask_source q then Some ''approval_source_hash_mismatch''
         else if oa_plan a \<noteq> ask_plan q then Some ''approval_plan_hash_mismatch''
         else if oa_class a \<noteq> ask_class q then Some ''approval_mutation_class_mismatch''
         else None)"

definition consumption_refusal :: "call_env \<Rightarrow> operation_ask \<Rightarrow> approvals \<Rightarrow> string option" where
  "consumption_refusal env q s = (if \<not> truthy (ask_id q) then Some ''approval_id_required''
     else case map_of s (the (ask_id q)) of
       None \<Rightarrow> Some ''unknown_or_unapproved_approval_id''
     | Some e \<Rightarrow>
         if ae_revoked e \<noteq> None then Some ''approval_revoked''
         else if ae_token e = None then Some ''unknown_or_unapproved_approval_id''
         else if \<not> truthy (ask_token q) \<or> ask_token q \<noteq> ae_token e then Some ''approval_token_mismatch''
         else if ae_actor e \<noteq> ce_actor env then Some ''approval_actor_mismatch''
         else if ae_expires e \<le> ce_now env then Some ''approval_expired''
         else if ae_consumed e \<noteq> None then Some ''approval_already_used''
         else mismatch env q e)"

definition spend_entry :: "int \<Rightarrow> approval_entry \<Rightarrow> approval_entry" where
  "spend_entry now e = e\<lparr>ae_consumed := Some now\<rparr>"

definition consume_operation_approval :: "call_env \<Rightarrow> operation_ask \<Rightarrow> (approvals, coding_failure, string option) action" where
  \<comment> \<open>returns the reason of a refusal, \<open>None\<close> when the approval is consumed\<close>
  "consume_operation_approval env q s = (case consumption_refusal env q s of
       Some reason \<Rightarrow> (Inr (Some reason), s)
     | None \<Rightarrow> (if ce_audit_fails env then Inl Audit_write_failed else Inr None,
         AList.update (the (ask_id q)) (spend_entry (ce_now env) (the (map_of s (the (ask_id q))))) s))"

definition outstanding :: "approval_entry \<Rightarrow> bool" where
  "outstanding e \<longleftrightarrow> ae_token e \<noteq> None \<and> ae_consumed e = None \<and> ae_revoked e = None"

definition normalized_reason :: "string \<Rightarrow> string" where
  "normalized_reason reason = (let r = take 160 (join '' '' (words (if reason = [] then ''emergency_stop'' else reason)))
     in if r = [] then ''emergency_stop'' else r)"

definition revoke_entry :: "int \<Rightarrow> string \<Rightarrow> approval_entry \<Rightarrow> approval_entry" where
  "revoke_entry now reason e = (if outstanding e
     then e\<lparr>ae_revoked := Some now, ae_revoked_reason := normalized_reason reason, ae_token := None\<rparr> else e)"

definition revoke_all_approvals :: "int \<Rightarrow> string \<Rightarrow> approvals \<Rightarrow> nat \<times> approvals" where
  "revoke_all_approvals now reason s =
     (length (filter (\<lambda>(k, e). outstanding e) s), map (\<lambda>(k, e). (k, revoke_entry now reason e)) s)"

definition result_refusal :: "string \<Rightarrow> string option \<Rightarrow> approvals \<Rightarrow> string option" where
  \<comment> \<open>\<open>record_operation_result\<close>: why a reported result is rejected\<close>
  "result_refusal i token s = (case map_of s i of
       None \<Rightarrow> Some ''Unknown approval record.''
     | Some e \<Rightarrow> if ae_token e = None then Some ''Unknown approval record.''
         else if \<not> truthy token \<or> token \<noteq> ae_token e then Some ''Approval token did not match.''
         else if ae_consumed e = None then Some ''Approval was not consumed by a governed executor.''
         else None)"

section \<open>Histories\<close>

datatype coding_op =
    Approve_op call_env approve_payload
  | Consume_op call_env operation_ask
  | Revoke_all_op int string

primrec coding_step :: "coding_op \<Rightarrow> approvals \<Rightarrow> approvals" where
  "coding_step (Approve_op env p) s = snd (approve_operation env p s)"
| "coding_step (Consume_op env q) s = snd (consume_operation_approval env q s)"
| "coding_step (Revoke_all_op now reason) s = snd (revoke_all_approvals now reason s)"

definition consumes_op :: "coding_op \<Rightarrow> approvals \<Rightarrow> string option" where
  "consumes_op op s = (case op of Consume_op env q \<Rightarrow>
     if consumption_refusal env q s = None then Some (the (ask_id q)) else None | _ \<Rightarrow> None)"

definition mints_op :: "coding_op \<Rightarrow> string option" where
  "mints_op op = (case op of Approve_op env p \<Rightarrow> Some (''approval_'' @ ce_fresh env) | _ \<Rightarrow> None)"

definition approvals_ok :: "approvals \<Rightarrow> bool" where
  "approvals_ok s \<longleftrightarrow> dict_ok s \<and> (\<forall>kv \<in> set s. oa_id (ae_approval (snd kv)) = fst kv \<and>
     (ae_token (snd kv) \<noteq> None \<longrightarrow> oa_status (ae_approval (snd kv)) = ''approved'' \<and> ae_revoked (snd kv) = None))"

definition spent_op :: "string \<Rightarrow> approvals \<Rightarrow> bool" where
  "spent_op i s \<longleftrightarrow> (case map_of s i of None \<Rightarrow> True | Some e \<Rightarrow> ae_consumed e \<noteq> None \<or> ae_token e = None)"

section \<open>Approvals are drawn at most once\<close>

lemma map_of_revoked: "map_of (snd (revoke_all_approvals now reason s)) i = map_option (revoke_entry now reason) (map_of s i)"
  by (simp add: revoke_all_approvals_def map_of_map)

lemma revoke_entry_keeps:
  "ae_approval (revoke_entry now reason e) = ae_approval e"
  "ae_token (revoke_entry now reason e) = Some t \<Longrightarrow> revoke_entry now reason e = e"
  by (auto simp: revoke_entry_def split: if_splits)

lemma not_outstanding_revoked: "\<not> outstanding (revoke_entry now reason e)"
  by (simp add: revoke_entry_def outstanding_def)

lemma approve_entry:
  obtains e where "snd (approve_operation env p s) = AList.update (''approval_'' @ ce_fresh env) e s"
    "oa_id (ae_approval e) = ''approval_'' @ ce_fresh env" "ae_consumed e = None" "ae_revoked e = None"
    "ae_token e \<noteq> None \<Longrightarrow> ap_approved p \<and> ae_token e = Some (''op_'' @ ce_token env) \<and> oa_status (ae_approval e) = ''approved'' \<and>
       ae_actor e = ce_actor env \<and> ae_expires e = ce_now env + ap_seconds p \<and> oa_kind (ae_approval e) = ap_kind p \<and>
       oa_source (ae_approval e) = ap_source p \<and> oa_plan (ae_approval e) = ap_plan p \<and> oa_class (ae_approval e) = ap_class p \<and>
       normalize_exact_files (ce_guard env) (ap_workspace p) (ap_files p) = Inr (ae_root e, oa_files (ae_approval e))"
  by (rule that [of "the (map_of (snd (approve_operation env p s)) (''approval_'' @ ce_fresh env))"])
    (auto simp: approve_operation_def Let_def file_entry_def map_of_dict_update split: sum.splits prod.splits if_splits)

lemma consume_effect:
  "snd (consume_operation_approval env q s) =
     (if consumption_refusal env q s = None
      then AList.update (the (ask_id q)) (spend_entry (ce_now env) (the (map_of s (the (ask_id q))))) s else s)"
  by (simp add: consume_operation_approval_def split: option.split)

lemma consumable_entry:
  assumes "consumption_refusal env q s = None"
  obtains i e where "ask_id q = Some i" "map_of s i = Some e" "outstanding e" "ask_token q = ae_token e" "ae_actor e = ce_actor env"
    "ce_now env < ae_expires e" "mismatch env q e = None"
  using assms
  by (auto simp: consumption_refusal_def outstanding_def truthy_def split: option.splits if_splits)

lemma approvals_ok_step: "approvals_ok s \<Longrightarrow> approvals_ok (coding_step op s)"
proof (cases op)
  case (Approve_op env p)
  assume ok: "approvals_ok s"
  obtain e where e: "snd (approve_operation env p s) = AList.update (''approval_'' @ ce_fresh env) e s"
    "oa_id (ae_approval e) = ''approval_'' @ ce_fresh env" "ae_revoked e = None"
    "ae_token e \<noteq> None \<Longrightarrow> oa_status (ae_approval e) = ''approved''"
    by (rule approve_entry [of env p s]) blast
  from ok e show ?thesis unfolding Approve_op coding_step.simps e(1) approvals_ok_def
    by (auto simp: dict_simps dest!: dict_update_set)
next
  case (Consume_op env q)
  assume ok: "approvals_ok s"
  show ?thesis
  proof (cases "consumption_refusal env q s")
    case None
    then obtain i e where i: "ask_id q = Some i" "map_of s i = Some e" by (rule consumable_entry)
    from map_of_SomeD [OF i(2)] ok have "oa_id (ae_approval e) = i" by (auto simp: approvals_ok_def)
    moreover from map_of_SomeD [OF i(2)] ok
    have "ae_token e \<noteq> None \<Longrightarrow> oa_status (ae_approval e) = ''approved'' \<and> ae_revoked e = None" by (auto simp: approvals_ok_def)
    ultimately show ?thesis using ok None i unfolding Consume_op coding_step.simps consume_effect approvals_ok_def
      by (auto simp: dict_simps spend_entry_def dest!: dict_update_set)
  qed (use ok Consume_op in \<open>simp add: consume_effect\<close>)
next
  case (Revoke_all_op now reason)
  assume ok: "approvals_ok s"
  have "map fst (snd (revoke_all_approvals now reason s)) = map fst s"
    unfolding revoke_all_approvals_def snd_conv by (induction s) auto
  with ok have "dict_ok (snd (revoke_all_approvals now reason s))" by (simp add: approvals_ok_def dict_ok_def)
  moreover have "oa_id (ae_approval e') = k \<and>
      (ae_token e' \<noteq> None \<longrightarrow> oa_status (ae_approval e') = ''approved'' \<and> ae_revoked e' = None)"
    if entry: "(k, e') \<in> set (snd (revoke_all_approvals now reason s))" for k e'
  proof -
    from entry obtain e where e: "(k, e) \<in> set s" "e' = revoke_entry now reason e" by (auto simp: revoke_all_approvals_def)
    with ok have "oa_id (ae_approval e) = k" "ae_token e \<noteq> None \<longrightarrow> oa_status (ae_approval e) = ''approved'' \<and> ae_revoked e = None"
      by (auto simp: approvals_ok_def)
    with e(2) revoke_entry_keeps [of now reason e] show ?thesis by (cases "ae_token e'") auto
  qed
  ultimately show ?thesis using Revoke_all_op by (auto simp: approvals_ok_def)
qed

interpretation coding_approvals: single_use coding_step approvals_ok consumes_op spent_op mints_op
proof
  fix s op i
  assume "approvals_ok s" "consumes_op op s = Some i"
  then show "spent_op i (coding_step op s)"
    by (auto simp: consumes_op_def spent_op_def consume_effect map_of_dict_update spend_entry_def split: coding_op.splits if_splits)
next
  fix s op i
  assume "approvals_ok s" and spent: "spent_op i s" and other: "mints_op op \<noteq> Some i"
  show "spent_op i (coding_step op s)"
  proof (cases op)
    case (Approve_op env p)
    obtain e where "snd (approve_operation env p s) = AList.update (''approval_'' @ ce_fresh env) e s" by (rule approve_entry)
    with spent other Approve_op show ?thesis by (simp add: spent_op_def mints_op_def map_of_dict_update)
  next
    case (Consume_op env q)
    with spent show ?thesis by (simp add: consume_effect spent_op_def map_of_dict_update spend_entry_def split: option.splits)
  next
    case (Revoke_all_op now reason)
    with spent show ?thesis by (auto simp: map_of_revoked spent_op_def revoke_entry_def split: option.splits)
  qed
next
  fix s op i
  assume "approvals_ok s" "spent_op i s"
  then show "consumes_op op s \<noteq> Some i"
    by (auto simp: consumes_op_def spent_op_def outstanding_def elim!: consumable_entry split: coding_op.splits if_splits)
qed (rule approvals_ok_step)

abbreviation coding_history :: "coding_op list \<Rightarrow> approvals" where
  "coding_history ops \<equiv> run coding_step ops []"

text \<open>
  Claim C24. A coding approval is good for one operation: whatever approvals, consumptions and
  revocations come in whatever order, an approval whose identifier was minted once is consumed
  successfully at most once.
\<close>

theorem coding_approval_used_once:
  assumes "length (filter (\<lambda>op. mints_op op = Some i) ops) \<le> 1"
  shows "draws coding_step consumes_op i ops [] \<le> 1"
  by (rule coding_approvals.draws_of_fresh [OF _ _ assms]) (simp_all add: approvals_ok_def dict_simps spent_op_def)

section \<open>Consumed exactly as approved\<close>

definition is_revoke_all :: "coding_op \<Rightarrow> bool" where
  "is_revoke_all op \<longleftrightarrow> (case op of Revoke_all_op now reason \<Rightarrow> True | _ \<Rightarrow> False)"

lemma entry_unchanged:
  assumes "map_of (coding_step op s) i = Some e" "outstanding e" "mints_op op \<noteq> Some i"
  shows "map_of s i = Some e \<and> \<not> is_revoke_all op"
proof (cases op)
  case (Approve_op env p)
  obtain f where "snd (approve_operation env p s) = AList.update (''approval_'' @ ce_fresh env) f s" by (rule approve_entry)
  with assms Approve_op show ?thesis by (simp add: mints_op_def map_of_dict_update is_revoke_all_def)
next
  case (Consume_op env q)
  with assms show ?thesis
    by (auto simp: consume_effect map_of_dict_update spend_entry_def outstanding_def is_revoke_all_def split: if_splits)
next
  case (Revoke_all_op now reason)
  with assms not_outstanding_revoked show ?thesis by (auto simp: map_of_revoked)
qed

lemma outstanding_was_approved:
  assumes "map_of (coding_history ops) i = Some e" "outstanding e"
  shows "\<exists>pre env p post. ops = pre @ Approve_op env p # post \<and> i = ''approval_'' @ ce_fresh env \<and>
    snd (approve_operation env p (coding_history pre)) = AList.update i e (coding_history pre) \<and>
    (\<forall>op \<in> set post. mints_op op \<noteq> Some i \<and> \<not> is_revoke_all op)"
  using assms(1)
proof (induction ops rule: rev_induct)
  case (snoc op ops)
  show ?case
  proof (cases "mints_op op = Some i")
    case True
    then obtain env p where op: "op = Approve_op env p" and i: "i = ''approval_'' @ ce_fresh env"
      by (auto simp: mints_op_def split: coding_op.splits)
    obtain f where f: "snd (approve_operation env p (coding_history ops)) = AList.update (''approval_'' @ ce_fresh env) f (coding_history ops)"
      by (rule approve_entry)
    with snoc.prems op i have "f = e" by (simp add: map_of_dict_update)
    with f i op have "ops @ [op] = ops @ Approve_op env p # [] \<and> i = ''approval_'' @ ce_fresh env \<and>
      snd (approve_operation env p (coding_history ops)) = AList.update i e (coding_history ops)" by simp
    then show ?thesis by (intro exI [of _ ops] exI [of _ env] exI [of _ p] exI [of _ "[]"]) simp
  next
    case False
    from snoc.prems have "map_of (coding_step op (coding_history ops)) i = Some e" by simp
    from entry_unchanged [OF this assms(2) False] have same: "map_of (coding_history ops) i = Some e" "\<not> is_revoke_all op" by simp_all
    from snoc.IH [OF same(1)] obtain pre env p post where "ops = pre @ Approve_op env p # post" "i = ''approval_'' @ ce_fresh env"
      "snd (approve_operation env p (coding_history pre)) = AList.update i e (coding_history pre)"
      "\<forall>op \<in> set post. mints_op op \<noteq> Some i \<and> \<not> is_revoke_all op" by blast
    with False same(2) have "ops @ [op] = pre @ Approve_op env p # (post @ [op])"
      "\<forall>op \<in> set (post @ [op]). mints_op op \<noteq> Some i \<and> \<not> is_revoke_all op" by auto
    with \<open>i = _\<close> \<open>snd _ = _\<close> show ?thesis by blast
  qed
qed simp

text \<open>
  A successful consumption goes back to an explicit approval of the same client under this very
  identifier and token, for the same kind of operation, source, plan and class, in the same workspace
  and for the same files as the path guard resolves them, whose time has not run out and after which
  no emergency stop revoked approvals.
\<close>

lemma consumed_exactly_as_approved:
  assumes "consumption_refusal env q (coding_history ops) = None"
  shows "\<exists>pre env' p post. ops = pre @ Approve_op env' p # post \<and> ap_approved p \<and>
    ask_id q = Some (''approval_'' @ ce_fresh env') \<and> ask_token q = Some (''op_'' @ ce_token env') \<and> ce_actor env' = ce_actor env \<and>
    ce_now env < ce_now env' + ap_seconds p \<and> ap_kind p = ask_kind q \<and> ap_source p = ask_source q \<and> ap_plan p = ask_plan q \<and>
    ap_class p = ask_class q \<and>
    normalize_exact_files (ce_guard env') (ap_workspace p) (ap_files p) = normalize_exact_files (ce_guard env) (ask_workspace q) (ask_files q) \<and>
    (\<forall>op \<in> set post. \<not> is_revoke_all op)"
proof -
  from assms obtain i e where e: "ask_id q = Some i" "map_of (coding_history ops) i = Some e" "outstanding e" "ask_token q = ae_token e"
    "ae_actor e = ce_actor env" "ce_now env < ae_expires e" "mismatch env q e = None" by (rule consumable_entry)
  from outstanding_was_approved [OF e(2,3)] obtain pre env' p post where o: "ops = pre @ Approve_op env' p # post"
    "i = ''approval_'' @ ce_fresh env'" "snd (approve_operation env' p (coding_history pre)) = AList.update i e (coding_history pre)"
    "\<forall>op \<in> set post. mints_op op \<noteq> Some i \<and> \<not> is_revoke_all op" by blast
  obtain f where f: "snd (approve_operation env' p (coding_history pre)) = AList.update (''approval_'' @ ce_fresh env') f (coding_history pre)"
    "ae_token f \<noteq> None \<Longrightarrow> ap_approved p \<and> ae_token f = Some (''op_'' @ ce_token env') \<and> oa_status (ae_approval f) = ''approved'' \<and>
       ae_actor f = ce_actor env' \<and> ae_expires f = ce_now env' + ap_seconds p \<and> oa_kind (ae_approval f) = ap_kind p \<and>
       oa_source (ae_approval f) = ap_source p \<and> oa_plan (ae_approval f) = ap_plan p \<and> oa_class (ae_approval f) = ap_class p \<and>
       normalize_exact_files (ce_guard env') (ap_workspace p) (ap_files p) = Inr (ae_root f, oa_files (ae_approval f))"
    by (rule approve_entry [of env' p "coding_history pre"]) blast
  have "f = e" using arg_cong [OF trans [OF f(1) [symmetric] o(3)], of "\<lambda>d. map_of d i"] o(2) by (simp add: map_of_dict_update)
  with f(2) e(3) have p: "ap_approved p" "ae_token e = Some (''op_'' @ ce_token env')" "ae_actor e = ce_actor env'"
    "ae_expires e = ce_now env' + ap_seconds p" "oa_kind (ae_approval e) = ap_kind p" "oa_source (ae_approval e) = ap_source p"
    "oa_plan (ae_approval e) = ap_plan p" "oa_class (ae_approval e) = ap_class p"
    "normalize_exact_files (ce_guard env') (ap_workspace p) (ap_files p) = Inr (ae_root e, oa_files (ae_approval e))"
    by (auto simp: outstanding_def)
  from e(7) have "normalize_exact_files (ce_guard env) (ask_workspace q) (ask_files q) = Inr (ae_root e, oa_files (ae_approval e))"
    "oa_kind (ae_approval e) = ask_kind q" "oa_source (ae_approval e) = ask_source q" "oa_plan (ae_approval e) = ask_plan q"
    "oa_class (ae_approval e) = ask_class q"
    by (auto simp: mismatch_def Let_def split: sum.splits prod.splits if_splits)
  with p e o show ?thesis by (intro exI [of _ pre] exI [of _ env'] exI [of _ p] exI [of _ post]) simp
qed

section \<open>An approval stays usable\<close>

lemma entry_stays:
  assumes "map_of s i = Some e" "\<not> is_revoke_all op" "mints_op op \<noteq> Some i" "consumes_op op s \<noteq> Some i"
  shows "map_of (coding_step op s) i = Some e"
proof (cases op)
  case (Approve_op env p)
  obtain f where "snd (approve_operation env p s) = AList.update (''approval_'' @ ce_fresh env) f s" by (rule approve_entry)
  with assms Approve_op show ?thesis by (simp add: mints_op_def map_of_dict_update)
next
  case (Consume_op env q)
  with assms show ?thesis by (auto simp: consume_effect map_of_dict_update consumes_op_def)
qed (use assms in \<open>simp add: is_revoke_all_def\<close>)

lemma entry_stays_run:
  "map_of s i = Some e \<Longrightarrow> \<forall>op \<in> set ops. \<not> is_revoke_all op \<and> mints_op op \<noteq> Some i \<Longrightarrow> draws coding_step consumes_op i ops s = 0 \<Longrightarrow>
     map_of (run coding_step ops s) i = Some e"
  by (induction ops arbitrary: s) (auto simp: entry_stays split: if_splits)

definition ask_of :: "approve_payload \<Rightarrow> operation_approval \<Rightarrow> operation_ask" where
  "ask_of p a = \<lparr>ask_id = Some (oa_id a), ask_token = oa_token a, ask_kind = ap_kind p, ask_workspace = ap_workspace p,
     ask_files = ap_files p, ask_source = ap_source p, ask_plan = ap_plan p, ask_class = ap_class p\<rparr>"

text \<open>
  An approval does its job: once the operator approved an operation, the client that asked
  can carry out exactly this operation once at any moment before the time runs out, whatever other
  approvals are given and used meanwhile, unless an emergency stop revoked them or it was used.
\<close>

lemma approved_operation_can_be_used:
  assumes "approve_operation env p s = (Inr a, s')" "oa_status a = ''approved''"
    and "\<forall>op \<in> set ops. \<not> is_revoke_all op \<and> mints_op op \<noteq> Some (oa_id a)" "draws coding_step consumes_op (oa_id a) ops s' = 0"
    and "ce_actor env' = ce_actor env" "ce_now env' < ce_now env + ap_seconds p" "\<not> ce_audit_fails env'"
    and "normalize_exact_files (ce_guard env') (ap_workspace p) (ap_files p) = normalize_exact_files (ce_guard env) (ap_workspace p) (ap_files p)"
  shows "fst (consume_operation_approval env' (ask_of p a) (run coding_step ops s')) = Inr None"
proof -
  let ?i = "''approval_'' @ ce_fresh env"
  from assms(1,2) obtain root fs where n: "normalize_exact_files (ce_guard env) (ap_workspace p) (ap_files p) = Inr (root, fs)"
    and a: "a = \<lparr>oa_status = ''approved'', oa_id = ?i, oa_token = Some (''op_'' @ ce_token env), oa_kind = ap_kind p, oa_files = fs,
      oa_source = ap_source p, oa_plan = ap_plan p, oa_class = ap_class p\<rparr>"
    and s': "s' = AList.update ?i (file_entry ?i a (Some (''op_'' @ ce_token env)) root (ce_now env + ap_seconds p) (ce_actor env)) s"
    by (auto simp: approve_operation_def Let_def split: if_splits sum.splits)
  from s' have "map_of s' ?i = Some (file_entry ?i a (Some (''op_'' @ ce_token env)) root (ce_now env + ap_seconds p) (ce_actor env))"
    by (simp add: map_of_dict_update)
  from entry_stays_run [OF this] assms(3,4) a
  have "map_of (run coding_step ops s') ?i = Some (file_entry ?i a (Some (''op_'' @ ce_token env)) root (ce_now env + ap_seconds p) (ce_actor env))"
    by simp
  then have "consumption_refusal env' (ask_of p a) (run coding_step ops s') = None"
    using assms(5,6,8) n by (simp add: consumption_refusal_def ask_of_def a file_entry_def mismatch_def Let_def)
  with assms(7) show ?thesis by (simp add: consume_operation_approval_def)
qed

section \<open>Witnesses\<close>

definition open_guard :: path_guard where
  "open_guard ws f = \<lparr>gp_allowed = True, gp_root = ws, gp_relative = Some f, gp_reason = None\<rparr>"

definition sample_call :: "int \<Rightarrow> string \<Rightarrow> call_env" where
  "sample_call now fresh = \<lparr>ce_now = now, ce_fresh = fresh, ce_token = fresh, ce_actor = ''client'', ce_guard = open_guard,
     ce_audit_fails = False\<rparr>"

definition sample_payload :: approve_payload where
  "sample_payload = \<lparr>ap_kind = ''patch_apply'', ap_summary = [], ap_workspace = ''/w'', ap_files = [''a''], ap_source = Some ''s'',
     ap_plan = ''p'', ap_class = ''text_patch'', ap_seconds = 600, ap_approved = True\<rparr>"

definition sample_op_ask :: operation_ask where
  "sample_op_ask = \<lparr>ask_id = Some ''approval_1'', ask_token = Some ''op_1'', ask_kind = ''patch_apply'', ask_workspace = ''/w'',
     ask_files = [''a''], ask_source = Some ''s'', ask_plan = ''p'', ask_class = ''text_patch''\<rparr>"

lemma sample_consumable:
  "consumption_refusal (sample_call 5 ''2'') sample_op_ask (coding_history [Approve_op (sample_call 0 ''1'') sample_payload]) = None"
  by code_simp

lemma coding_approval_used_once_witness:
  "draws coding_step consumes_op ''approval_1'' [Approve_op (sample_call 0 ''1'') sample_payload,
     Consume_op (sample_call 5 ''2'') sample_op_ask, Consume_op (sample_call 6 ''3'') sample_op_ask] [] \<le> 1"
  by (rule coding_approval_used_once) (simp add: mints_op_def sample_call_def)

end
