(* ===== verification/CodingDiffs.thy ===== *)
theory CodingDiffs
  imports Json
begin

text \<open>
  Unified diffs of one file (\<open>_apply_unified_diff\<close> of \<open>app/api/coding_patch_service.py\<close>), and the
  round trip with diffs in the format of \<open>difflib.unified_diff\<close>.
\<close>

section \<open>Lines\<close>

definition lf :: char where "lf = CHR 0x0A"

definition cr :: char where "cr = CHR 0x0D"

definition line_break :: "char \<Rightarrow> bool" where
  \<comment> \<open>\<open>str.splitlines\<close> below 256\<close>
  "line_break c \<longleftrightarrow> (let n = (of_char c :: nat) in (10 \<le> n \<and> n \<le> 13) \<or> (28 \<le> n \<and> n \<le> 30) \<or> n = 133)"

fun split_lines :: "string \<Rightarrow> string list" where
  \<comment> \<open>\<open>splitlines(keepends=True)\<close>\<close>
  "split_lines [] = []"
| "split_lines [c] = [[c]]"
| "split_lines (c # d # cs) =
     (if c = cr \<and> d = lf then [c, d] # split_lines cs
      else if line_break c then [c] # split_lines (d # cs)
      else (case split_lines (d # cs) of [] \<Rightarrow> [[c]] | l # ls \<Rightarrow> (c # l) # ls))"

section \<open>Unified diffs\<close>

definition no_newline_marker :: string where
  "no_newline_marker = CHR 0x5C # '' No newline at end of file''"

definition remove_final_lf :: "string \<Rightarrow> string" where
  "remove_final_lf l = (if l \<noteq> [] \<and> last l = lf then butlast l else l)"

fun strip_markers :: "string list \<Rightarrow> string list \<Rightarrow> string + string list" where
  \<comment> \<open>the lines kept so far, last first\<close>
  "strip_markers kept [] = Inr (rev kept)"
| "strip_markers kept (l # ls) =
     (if starts_with no_newline_marker l then
        (case kept of [] \<Rightarrow> Inl ''invalid_no_newline_marker''
         | k # ks \<Rightarrow> if k \<noteq> [] \<and> hd k \<in> {CHR '' '', CHR ''+'', CHR ''-''} then strip_markers (remove_final_lf k # ks) ls
             else Inl ''invalid_no_newline_marker'')
      else strip_markers (l # kept) ls)"

fun parse_digits :: "nat \<Rightarrow> bool \<Rightarrow> string \<Rightarrow> nat option" where
  "parse_digits v after_digit [] = (if after_digit then Some v else None)"
| "parse_digits v after_digit (c # cs) = (let n = (of_char c :: nat) in
     if 48 \<le> n \<and> n \<le> 57 then parse_digits (10 * v + (n - 48)) True cs
     else if c = CHR ''_'' \<and> after_digit then parse_digits v False cs
     else None)"

definition python_int :: "string \<Rightarrow> int option" where
  \<comment> \<open>\<open>int(text)\<close>\<close>
  "python_int text = (case strip text of
       [] \<Rightarrow> None
     | c # cs \<Rightarrow> if c = CHR ''-'' then map_option (\<lambda>n. - int n) (parse_digits 0 False cs)
         else if c = CHR ''+'' then map_option int (parse_digits 0 False cs)
         else map_option int (parse_digits 0 False (c # cs)))"

definition hunk_start :: "string \<Rightarrow> nat option" where
  "hunk_start header = (case split_on CHR '' '' header of
       a # spec # rest \<Rightarrow> (let t = hd (split_on CHR '','' spec); u = (if starts_with ''-'' t then tl t else t) in
         map_option (\<lambda>k. nat (max (k - 1) 0)) (python_int u))
     | _ \<Rightarrow> None)"

definition slice :: "nat \<Rightarrow> nat \<Rightarrow> 'a list \<Rightarrow> 'a list" where
  "slice i j xs = drop i (take j xs)"

fun apply_hunks :: "string list \<Rightarrow> nat \<Rightarrow> bool \<Rightarrow> string list \<Rightarrow> string + string list" where
  \<comment> \<open>the lines of the result from here on; \<open>inside\<close> a hunk after the first header\<close>
  "apply_hunks orig i inside [] = Inr (drop i orig)"
| "apply_hunks orig i inside (l # ls) =
     (if starts_with ''@@'' l then
        (case hunk_start l of None \<Rightarrow> Inl ''invalid_unified_diff_header''
         | Some s \<Rightarrow> bindR (apply_hunks orig s True ls) (\<lambda>r. Inr (slice i s orig @ r)))
      else if \<not> inside then apply_hunks orig i inside ls
      else (case l of
          [] \<Rightarrow> Inl ''invalid_unified_diff_line''
        | c # e \<Rightarrow>
            if c = CHR '' '' then
              (if i < length orig \<and> orig ! i = e then bindR (apply_hunks orig (Suc i) inside ls) (\<lambda>r. Inr (e # r))
               else Inl ''patch_context_mismatch'')
            else if c = CHR ''-'' then
              (if i < length orig \<and> orig ! i = e then apply_hunks orig (Suc i) inside ls else Inl ''patch_remove_mismatch'')
            else if c = CHR ''+'' then bindR (apply_hunks orig i inside ls) (\<lambda>r. Inr (e # r))
            else if c = CHR 0x5C then apply_hunks orig i inside ls
            else Inl ''invalid_unified_diff_line''))"

definition apply_unified_diff :: "string \<Rightarrow> string \<Rightarrow> string + string" where
  "apply_unified_diff original diff =
     bindR (strip_markers [] (split_lines diff)) (\<lambda>ls.
     bindR (apply_hunks (split_lines original) 0 False ls) (\<lambda>r. Inr (concat r)))"

section \<open>Edits and the diff that expresses them\<close>

datatype edit = Keep string | Remove string | Add string

primrec old_line :: "edit \<Rightarrow> string list" where
  "old_line (Keep l) = [l]"
| "old_line (Remove l) = [l]"
| "old_line (Add l) = []"

primrec new_line :: "edit \<Rightarrow> string list" where
  "new_line (Keep l) = [l]"
| "new_line (Remove l) = []"
| "new_line (Add l) = [l]"

primrec edit_mark :: "edit \<Rightarrow> char" where
  "edit_mark (Keep l) = CHR '' ''"
| "edit_mark (Remove l) = CHR ''-''"
| "edit_mark (Add l) = CHR ''+''"

primrec edit_line :: "edit \<Rightarrow> string" where
  "edit_line (Keep l) = l"
| "edit_line (Remove l) = l"
| "edit_line (Add l) = l"

text \<open>A script is a list of hunks, each after some lines it leaves alone, and the lines after the last.\<close>

type_synonym hunk = "string list \<times> edit list"

definition old_of :: "edit list \<Rightarrow> string list" where
  "old_of es = concat (map old_line es)"

definition new_of :: "edit list \<Rightarrow> string list" where
  "new_of es = concat (map new_line es)"

fun old_text :: "hunk list \<Rightarrow> string list \<Rightarrow> string list" where
  "old_text [] tail = tail"
| "old_text ((skipped, es) # hs) tail = skipped @ old_of es @ old_text hs tail"

fun new_text :: "hunk list \<Rightarrow> string list \<Rightarrow> string list" where
  "new_text [] tail = tail"
| "new_text ((skipped, es) # hs) tail = skipped @ new_of es @ new_text hs tail"

definition format_range :: "nat \<Rightarrow> nat \<Rightarrow> string" where
  \<comment> \<open>how \<open>difflib\<close> writes the range of \<open>n\<close> lines from the 0-based line \<open>start\<close>\<close>
  "format_range start n = (if n = 1 then digits_of (Suc start)
     else digits_of (if n = 0 then start else Suc start) @ '','' @ digits_of n)"

definition render_line :: "edit \<Rightarrow> string" where
  \<comment> \<open>with the marker when the line has no newline\<close>
  "render_line e = (if edit_line e \<noteq> [] \<and> last (edit_line e) = lf then edit_mark e # edit_line e
     else edit_mark e # edit_line e @ [lf] @ no_newline_marker @ [lf])"

definition hunk_header :: "nat \<Rightarrow> nat \<Rightarrow> edit list \<Rightarrow> string" where
  "hunk_header i j es = ''@@ -'' @ format_range i (length (old_of es)) @ '' +'' @ format_range j (length (new_of es)) @ '' @@'' @ [lf]"

fun render_hunks :: "nat \<Rightarrow> nat \<Rightarrow> hunk list \<Rightarrow> string" where
  \<comment> \<open>\<open>a\<close> lines of the old text and \<open>b\<close> of the new one precede\<close>
  "render_hunks a b [] = []"
| "render_hunks a b ((skipped, es) # hs) = (let i = a + length skipped; j = b + length skipped in
     hunk_header i j es @ concat (map render_line es) @ render_hunks (i + length (old_of es)) (j + length (new_of es)) hs)"

definition render_diff :: "string \<Rightarrow> hunk list \<Rightarrow> string" where
  "render_diff path hs = ''--- a/'' @ path @ [lf] @ ''+++ b/'' @ path @ [lf] @ render_hunks 0 0 hs"

section \<open>Lines of a text\<close>

definition plain :: "string \<Rightarrow> bool" where
  "plain l \<longleftrightarrow> (\<forall>c \<in> set l. \<not> line_break c)"

definition ended :: "string \<Rightarrow> bool" where
  "ended l \<longleftrightarrow> l \<noteq> [] \<and> last l = lf \<and> plain (butlast l)"

fun lines_ok :: "string list \<Rightarrow> bool" where
  \<comment> \<open>every line ends in a line feed, the last may lack it\<close>
  "lines_ok [] = True"
| "lines_ok [l] \<longleftrightarrow> ended l \<or> (l \<noteq> [] \<and> plain l)"
| "lines_ok (l # m # ls) \<longleftrightarrow> ended l \<and> lines_ok (m # ls)"

lemma break_chars: "line_break lf" "line_break cr" "lf \<noteq> cr"
  by (simp_all add: lf_def cr_def line_break_def)

lemma plain_simps [simp]: "plain []" "plain (c # l) \<longleftrightarrow> \<not> line_break c \<and> plain l" "plain (l @ m) \<longleftrightarrow> plain l \<and> plain m"
  by (auto simp: plain_def)

lemma split_lines_nonempty: "split_lines (c # cs) \<noteq> []"
  by (cases cs) (simp_all split: list.splits)

lemma split_plain_end: "plain l \<Longrightarrow> split_lines (l @ lf # rest) = (l @ [lf]) # split_lines rest"
proof (induction l)
  case Nil
  then show ?case using break_chars by (cases rest) auto
next
  case (Cons c l)
  then have "split_lines (c # l @ lf # rest) = (case split_lines (l @ lf # rest) of [] \<Rightarrow> [[c]] | m # ls \<Rightarrow> (c # m) # ls)"
    using break_chars by (cases "l @ lf # rest") auto
  with Cons show ?case by simp
qed

lemma split_plain: "plain l \<Longrightarrow> l \<noteq> [] \<Longrightarrow> split_lines l = [l]"
proof (induction l rule: split_lines.induct)
  case (3 c d cs)
  then show ?case using break_chars by auto
qed simp_all

lemma split_ended: "ended l \<Longrightarrow> split_lines (l @ rest) = l # split_lines rest"
  using split_plain_end [of "butlast l" rest] append_butlast_last_id [of l] unfolding ended_def
  by (metis append.assoc append_Cons append_Nil)

lemma split_lines_concat: "lines_ok ls \<Longrightarrow> split_lines (concat ls) = ls"
proof (induction ls rule: lines_ok.induct)
  case (2 l)
  then show ?case using split_ended [of l "[]"] split_plain [of l] by auto
qed (simp_all add: split_ended)

lemma split_all_ended: "\<forall>l \<in> set ls. ended l \<Longrightarrow> split_lines (concat ls @ rest) = ls @ split_lines rest"
  by (induction ls) (simp_all add: split_ended)

section \<open>Reading back a rendered diff\<close>

definition hunk_marks :: "edit list \<Rightarrow> string list" where
  "hunk_marks es = map (\<lambda>e. edit_mark e # edit_line e) es"

definition raw_line :: "edit \<Rightarrow> string list" where
  \<comment> \<open>the lines of \<open>render_line\<close>\<close>
  "raw_line e = (if edit_line e \<noteq> [] \<and> last (edit_line e) = lf then [edit_mark e # edit_line e]
     else [edit_mark e # edit_line e @ [lf], no_newline_marker @ [lf]])"

fun raw_hunks :: "nat \<Rightarrow> nat \<Rightarrow> hunk list \<Rightarrow> string list" where
  "raw_hunks a b [] = []"
| "raw_hunks a b ((skipped, es) # hs) = (let i = a + length skipped; j = b + length skipped in
     hunk_header i j es # concat (map raw_line es) @ raw_hunks (i + length (old_of es)) (j + length (new_of es)) hs)"

fun marked_hunks :: "nat \<Rightarrow> nat \<Rightarrow> hunk list \<Rightarrow> string list" where
  "marked_hunks a b [] = []"
| "marked_hunks a b ((skipped, es) # hs) = (let i = a + length skipped; j = b + length skipped in
     hunk_header i j es # hunk_marks es @ marked_hunks (i + length (old_of es)) (j + length (new_of es)) hs)"

definition edit_ok :: "edit \<Rightarrow> bool" where
  "edit_ok e \<longleftrightarrow> ended (edit_line e) \<or> plain (edit_line e)"

definition hunks_ok :: "hunk list \<Rightarrow> bool" where
  "hunks_ok hs \<longleftrightarrow> (\<forall>h \<in> set hs. \<forall>e \<in> set (snd h). edit_ok e)"

lemma mark_not_break: "\<not> line_break (edit_mark e)"
  by (cases e) (simp_all add: line_break_def)

lemma digit_code: "k < 10 \<Longrightarrow> (of_char (char_of (48 + k) :: char) :: nat) = 48 + k" for k :: nat
  by (simp add: of_char_of)

definition digit :: "char \<Rightarrow> bool" where
  "digit c \<longleftrightarrow> 48 \<le> (of_char c :: nat) \<and> (of_char c :: nat) \<le> 57"

lemma digits_are_digits: "\<forall>c \<in> set (digits_of n). digit c"
proof (induction n rule: digits_of.induct)
  case (1 n)
  show ?case
  proof (cases "n < 10")
    case True
    then show ?thesis by (simp add: digits_of.simps [of n] digit_code digit_def)
  next
    case False
    then show ?thesis using "1.IH" by (simp add: digits_of.simps [of n] digit_code digit_def)
  qed
qed

lemma digit_plain: "digit c \<Longrightarrow> \<not> line_break c \<and> \<not> space_char c \<and> c \<notin> {CHR ''-'', CHR ''+'', CHR '','', CHR '' ''}"
  by (auto simp: digit_def line_break_def space_char_def Let_def)

lemma digits_nonempty: "digits_of n \<noteq> []"
  by (simp add: digits_of.simps [of n])

lemma parse_digits_all:
  "\<forall>c \<in> set ds. digit c \<Longrightarrow> ds \<noteq> [] \<or> b \<Longrightarrow>
     parse_digits v b ds = Some (foldl (\<lambda>v c. 10 * v + ((of_char c :: nat) - 48)) v ds)"
  by (induction ds arbitrary: v b) (simp_all add: Let_def digit_def)

lemma digits_value: "foldl (\<lambda>v c. 10 * v + ((of_char c :: nat) - 48)) 0 (digits_of n) = n"
proof (induction n rule: digits_of.induct)
  case (1 n)
  show ?case
  proof (cases "n < 10")
    case True
    then show ?thesis by (simp add: digits_of.simps [of n] digit_code)
  next
    case False
    then show ?thesis using "1.IH" by (simp add: digits_of.simps [of n] digit_code)
  qed
qed

lemma strip_no_space: "\<forall>c \<in> set s. \<not> space_char c \<Longrightarrow> strip s = s"
proof -
  assume s: "\<forall>c \<in> set s. \<not> space_char c"
  then have "dropWhile space_char s = s" by (cases s) simp_all
  moreover from s have "dropWhile space_char (rev s) = rev s" by (cases "rev s") (auto dest: arg_cong [of _ _ set])
  ultimately show ?thesis by (simp add: strip_def strip_by_def)
qed

lemma python_int_digits: "python_int (digits_of n) = Some (int n)"
proof -
  obtain c cs where d: "digits_of n = c # cs" using digits_nonempty by (cases "digits_of n") auto
  have "strip (digits_of n) = digits_of n" using digits_are_digits digit_plain by (blast intro: strip_no_space)
  moreover have "digit c" using digits_are_digits [of n] d by simp
  then have "c \<noteq> CHR ''-''" "c \<noteq> CHR ''+''" using digit_plain by auto
  moreover have "parse_digits 0 False (digits_of n) = Some n"
    using parse_digits_all [OF digits_are_digits, of n False 0] digits_nonempty digits_value by simp
  ultimately show ?thesis by (simp add: python_int_def d)
qed

lemma split_on_no: "c \<notin> set s \<Longrightarrow> split_on c s = [s]"
  by (induction s) auto

lemma split_on_join: "c \<notin> set s \<Longrightarrow> split_on c (s @ c # t) = s # split_on c t"
  by (induction s) auto

lemma format_range_first:
  "0 < n \<Longrightarrow> hd (split_on CHR '','' (CHR ''-'' # format_range i n)) = CHR ''-'' # digits_of (Suc i)"
proof -
  assume n: "0 < n"
  have d: "CHR '','' \<notin> set (CHR ''-'' # digits_of k)" for k using digits_are_digits [of k] digit_plain by auto
  show ?thesis
  proof (cases "n = 1")
    case True
    then show ?thesis using split_on_no [OF d [of "Suc i"]] by (simp add: format_range_def)
  next
    case False
    with n show ?thesis using split_on_join [OF d [of "Suc i"], of "digits_of n"] by (simp add: format_range_def)
  qed
qed

lemma format_range_no_space: "CHR '' '' \<notin> set (format_range i n)" "plain (format_range i n)"
  using digits_are_digits digit_plain
  by (auto simp: format_range_def plain_def line_break_def)

lemma hunk_start_rendered:
  assumes "old_of es \<noteq> [] \<or> i = 0"
  shows "hunk_start (hunk_header i j es) = Some i"
proof -
  let ?r = "format_range i (length (old_of es))"
  let ?rest = "CHR ''+'' # format_range j (length (new_of es)) @ '' @@'' @ [lf]"
  have "split_on CHR '' '' (''@@'' @ CHR '' '' # (CHR ''-'' # ?r) @ CHR '' '' # ?rest) =
      ''@@'' # (CHR ''-'' # ?r) # split_on CHR '' '' ?rest"
    using format_range_no_space(1) by (subst split_on_join; simp add: split_on_join)
  then have h: "split_on CHR '' '' (hunk_header i j es) = ''@@'' # (CHR ''-'' # ?r) # split_on CHR '' '' ?rest"
    by (simp add: hunk_header_def)
  show ?thesis
  proof (cases "old_of es = []")
    case False
    then have "hd (split_on CHR '','' (CHR ''-'' # ?r)) = CHR ''-'' # digits_of (Suc i)"
      by (intro format_range_first) simp
    then show ?thesis unfolding hunk_start_def h list.case Let_def by (simp add: starts_with_def python_int_digits)
  next
    case True
    with assms have "i = 0" by simp
    have "CHR '','' \<notin> set (CHR ''-'' # digits_of 0)" using digits_are_digits [of 0] digit_plain by auto
    from split_on_join [OF this, of "digits_of 0"] True \<open>i = 0\<close>
    have "hd (split_on CHR '','' (CHR ''-'' # ?r)) = CHR ''-'' # digits_of 0" by (simp add: format_range_def)
    then show ?thesis unfolding hunk_start_def h list.case Let_def by (simp add: starts_with_def python_int_digits \<open>i = 0\<close>)
  qed
qed

lemma header_plain: "ended (hunk_header i j es)" "starts_with ''@@'' (hunk_header i j es)"
proof -
  have "hunk_header i j es = (''@@ -'' @ format_range i (length (old_of es)) @ '' +'' @ format_range j (length (new_of es)) @ '' @@'') @ [lf]"
    by (simp add: hunk_header_def)
  then show "ended (hunk_header i j es)"
    unfolding ended_def by (simp add: butlast_append format_range_no_space) (simp add: line_break_def)
qed (simp add: hunk_header_def starts_with_def)

lemma render_line_raw: "render_line e = concat (raw_line e)"
  by (simp add: render_line_def raw_line_def)

lemma ended_snoc: "ended (l @ [lf]) \<longleftrightarrow> plain l"
  by (simp add: ended_def)

lemma raw_line_ended: "edit_ok e \<Longrightarrow> l \<in> set (raw_line e) \<Longrightarrow> ended l"
proof -
  assume ok: "edit_ok e" and l: "l \<in> set (raw_line e)"
  show "ended l"
  proof (cases "edit_line e \<noteq> [] \<and> last (edit_line e) = lf")
    case True
    then obtain b where b: "edit_line e = b @ [lf]" by (metis append_butlast_last_id)
    with ok have "plain b" by (auto simp: edit_ok_def ended_snoc)
    with b True l ended_snoc [of "edit_mark e # b"] mark_not_break show ?thesis by (simp add: raw_line_def)
  next
    case False
    with ok have p: "plain (edit_line e)" by (auto simp: edit_ok_def ended_def)
    have "plain no_newline_marker" by (simp add: no_newline_marker_def line_break_def)
    with p False l ended_snoc [of "edit_mark e # edit_line e"] ended_snoc [of no_newline_marker] mark_not_break
    show ?thesis by (auto simp: raw_line_def)
  qed
qed

lemma render_hunks_raw: "render_hunks a b hs = concat (raw_hunks a b hs)"
proof (induction hs arbitrary: a b)
  case (Cons h hs)
  have "concat (map render_line es) = concat (concat (map raw_line es))" for es
    by (induction es) (simp_all add: render_line_raw)
  with Cons show ?case by (cases h) (simp add: Let_def)
qed simp

lemma raw_hunks_ended: "hunks_ok hs \<Longrightarrow> \<forall>l \<in> set (raw_hunks a b hs). ended l"
proof (induction hs arbitrary: a b)
  case (Cons h hs)
  obtain skipped es where h: "h = (skipped, es)" by (cases h)
  from Cons.prems h have "\<forall>e \<in> set es. edit_ok e" "hunks_ok hs" by (auto simp: hunks_ok_def)
  with Cons.IH header_plain(1) h show ?case by (auto simp: Let_def dest: raw_line_ended)
qed simp

lemma strip_raw_line:
  "strip_markers kept (raw_line e @ rest) = strip_markers ((edit_mark e # edit_line e) # kept) rest"
  by (cases e) (auto simp: raw_line_def starts_with_def no_newline_marker_def remove_final_lf_def)

lemma strip_raw_lines:
  "strip_markers kept (concat (map raw_line es) @ rest) = strip_markers (rev (hunk_marks es) @ kept) rest"
  by (induction es arbitrary: kept) (simp_all add: strip_raw_line hunk_marks_def)

lemma strip_other_line: "\<not> starts_with no_newline_marker l \<Longrightarrow> strip_markers kept (l # ls) = strip_markers (l # kept) ls"
  by simp

lemma strip_raw_hunks: "strip_markers kept (raw_hunks a b hs) = Inr (rev kept @ marked_hunks a b hs)"
proof (induction hs arbitrary: a b kept)
  case (Cons h hs)
  have "\<not> starts_with no_newline_marker (hunk_header i j es)" for i j es
    by (simp add: hunk_header_def starts_with_def no_newline_marker_def)
  with Cons show ?case by (cases h) (simp add: Let_def strip_other_line strip_raw_lines del: strip_markers.simps(2))
qed simp

lemma apply_marks:
  "drop i orig = old_of es @ more \<Longrightarrow>
     apply_hunks orig i True (hunk_marks es @ rest) =
     bindR (apply_hunks orig (i + length (old_of es)) True rest) (\<lambda>r. Inr (new_of es @ r))"
proof (induction es arbitrary: i)
  case Nil
  then show ?case by (simp add: hunk_marks_def old_of_def new_of_def bindR_def split: sum.split)
next
  case (Cons e es)
  have next_line: "i < length orig \<and> orig ! i = l \<and> drop (Suc i) orig = xs" if "drop i orig = l # xs" for l xs
    using that by (metis Cons_nth_drop_Suc drop_all le_less_linear list.distinct(1) list.inject)
  show ?case
  proof (cases e)
    case (Keep l)
    with Cons.prems next_line [of l "old_of es @ more"] Cons.IH [of "Suc i"] show ?thesis
      by (simp add: hunk_marks_def old_of_def new_of_def starts_with_def bindR_def split: sum.split)
  next
    case (Remove l)
    with Cons.prems next_line [of l "old_of es @ more"] Cons.IH [of "Suc i"] show ?thesis
      by (simp add: hunk_marks_def old_of_def new_of_def starts_with_def bindR_def split: sum.split)
  next
    case (Add l)
    with Cons.prems Cons.IH [of i] show ?thesis
      by (simp add: hunk_marks_def old_of_def new_of_def starts_with_def bindR_def split: sum.split)
  qed
qed

definition positioned :: "hunk list \<Rightarrow> bool" where
  \<comment> \<open>every hunk touches a line of the old text, or it is the first and opens the text\<close>
  "positioned hs \<longleftrightarrow> (\<forall>h \<in> set (tl hs). old_of (snd h) \<noteq> []) \<and>
     (hs \<noteq> [] \<longrightarrow> old_of (snd (hd hs)) \<noteq> [] \<or> fst (hd hs) = [])"

lemma apply_marked_hunks:
  assumes "\<forall>h \<in> set (tl hs). old_of (snd h) \<noteq> []" "hs \<noteq> [] \<longrightarrow> old_of (snd (hd hs)) \<noteq> [] \<or> a + length (fst (hd hs)) = 0"
    and "drop a orig = old_text hs tail"
  shows "apply_hunks orig a inside (marked_hunks a b hs) = Inr (new_text hs tail)"
  using assms
proof (induction hs arbitrary: a b inside)
  case (Cons h hs)
  obtain skipped es where h: "h = (skipped, es)" by (cases h)
  let ?i = "a + length skipped" let ?j = "b + length skipped"
  let ?rest = "marked_hunks (?i + length (old_of es)) (?j + length (new_of es)) hs"
  from Cons.prems(2) h have "old_of es \<noteq> [] \<or> ?i = 0" by simp
  then have start: "hunk_start (hunk_header ?i ?j es) = Some ?i" by (rule hunk_start_rendered)
  from Cons.prems(3) h have d: "drop a orig = skipped @ old_of es @ old_text hs tail" by simp
  then have di: "drop ?i orig = old_of es @ old_text hs tail" by (metis add.commute append_eq_conv_conj drop_drop)
  then have dn: "drop (?i + length (old_of es)) orig = old_text hs tail"
    by (metis add.commute append_eq_conv_conj drop_drop)
  have "slice a ?i orig = take (length skipped) (drop a orig)" by (simp add: slice_def drop_take)
  with d have sl: "slice a ?i orig = skipped" by simp
  have "\<forall>h \<in> set (tl hs). old_of (snd h) \<noteq> []" "hs \<noteq> [] \<longrightarrow> old_of (snd (hd hs)) \<noteq> [] \<or> (?i + length (old_of es)) + length (fst (hd hs)) = 0"
    using Cons.prems(1) by (cases hs; simp)+
  then have rest: "apply_hunks orig (?i + length (old_of es)) True ?rest = Inr (new_text hs tail)"
    using dn by (rule Cons.IH)
  show ?case
    using header_plain(2) [of ?i ?j es] start sl apply_marks [OF di, of ?rest] rest
    by (simp add: h Let_def bindR_def)
qed simp

text \<open>
  Diffs do what they show: applying the diff of an edit script to the old text of the
  script gives exactly its new text, final line without newline included, whenever the lines
  break only at line feeds and every hunk after the start has a line of the old text.
\<close>

theorem render_roundtrip:
  assumes "lines_ok (old_text hs tail)" "hunks_ok hs" "positioned hs" "plain path"
  shows "apply_unified_diff (concat (old_text hs tail)) (render_diff path hs) = Inr (concat (new_text hs tail))"
proof -
  let ?h = "[''--- a/'' @ path @ [lf], ''+++ b/'' @ path @ [lf]]"
  have heads: "\<forall>l \<in> set ?h. ended l" using assms(4) by (auto simp: ended_def butlast_append line_break_def)
  have "render_diff path hs = concat (?h @ raw_hunks 0 0 hs) @ []" by (simp add: render_diff_def render_hunks_raw)
  then have "split_lines (render_diff path hs) = ?h @ raw_hunks 0 0 hs"
    using split_all_ended [of "?h @ raw_hunks 0 0 hs" "[]"] heads raw_hunks_ended [OF assms(2)] by auto
  moreover have "strip_markers [] (?h @ raw_hunks 0 0 hs) = Inr (?h @ marked_hunks 0 0 hs)"
    by (simp add: strip_raw_hunks starts_with_def no_newline_marker_def)
  moreover have "apply_hunks orig 0 False (?h @ ls) = apply_hunks orig 0 False ls" for orig ls
    by (simp add: starts_with_def)
  moreover have "apply_hunks (old_text hs tail) 0 False (marked_hunks 0 0 hs) = Inr (new_text hs tail)"
    using assms(3) unfolding positioned_def by (intro apply_marked_hunks) auto
  ultimately show ?thesis using split_lines_concat [OF assms(1)] by (simp add: apply_unified_diff_def)
qed

section \<open>Examples\<close>

definition sample_script :: "hunk list" where
  "sample_script = [([''a'' @ [lf]], [Keep (''b'' @ [lf]), Remove (''c'' @ [lf]), Add (''x'' @ [lf]), Add ''y''])]"

lemma sample_script_applies:
  "apply_unified_diff (concat (old_text sample_script [])) (render_diff ''f'' sample_script) = Inr (''a'' @ [lf] @ ''b'' @ [lf] @ ''x'' @ [lf] @ ''y'')"
  by code_simp

lemma insertion_hunk_lands_early:
  \<comment> \<open>a hunk that only inserts after the first line, as \<open>diff -U0\<close> writes it, is put before it\<close>
  "apply_unified_diff (''a'' @ [lf] @ ''b'' @ [lf]) (''@@ -1,0 +2 @@'' @ [lf] @ ''+x'' @ [lf]) = Inr (''x'' @ [lf] @ ''a'' @ [lf] @ ''b'' @ [lf])"
  by code_simp

lemma hunks_out_of_order_repeat_lines:
  "apply_unified_diff (''a'' @ [lf] @ ''b'' @ [lf]) (''@@ -2 +2 @@'' @ [lf] @ '' b'' @ [lf] @ ''@@ -1 +1 @@'' @ [lf] @ '' a'' @ [lf]) =
     Inr (''a'' @ [lf] @ ''b'' @ [lf] @ ''a'' @ [lf] @ ''b'' @ [lf])"
  by code_simp

lemma form_feed_breaks_own_diff:
  \<comment> \<open>a line that ends at a form feed: the marker the planner adds is refused\<close>
  "apply_unified_diff (''a'' @ [CHR 0x0C] @ ''b'' @ [lf]) (render_diff ''f'' [([], [Remove (''a'' @ [CHR 0x0C]), Keep (''b'' @ [lf])])]) =
     Inl ''invalid_no_newline_marker''"
  by code_simp

end
