(* ===== verification/CodingPatches.thy ===== *)
theory CodingPatches
  imports CodingApprovals CodingDiffs
begin

text \<open>
  Applying a patch to one file of a workspace (\<open>apply_patch_with_approval\<close> of
  \<open>app/api/coding_patch_service.py\<close>) and the approval modes (\<open>coding_approval_modes.py\<close>).  The path
  guard, the file type adapters, the secret scanner, SHA-256 and what the file system answers to the
  backup (\<open>coding_backup_service.py\<close>) and the replacement are arguments; the file store, in
  which the backups are kept beside the files, is part of the state.
\<close>

section \<open>Approval modes\<close>

datatype approval_mode = Read_only | Plan_only | Path_preview | Apply_with_approval | Test_with_approval

record mode_policy =
  can_read_approved_file :: bool
  can_inspect_paths :: bool
  can_propose_patch :: bool
  can_apply_patch :: bool
  can_run_tests :: bool

fun mode_policy_of :: "approval_mode \<Rightarrow> mode_policy" where
  "mode_policy_of Read_only = \<lparr>can_read_approved_file = True, can_inspect_paths = False, can_propose_patch = False,
     can_apply_patch = False, can_run_tests = False\<rparr>"
| "mode_policy_of Plan_only = \<lparr>can_read_approved_file = True, can_inspect_paths = False, can_propose_patch = False,
     can_apply_patch = False, can_run_tests = False\<rparr>"
| "mode_policy_of Path_preview = \<lparr>can_read_approved_file = True, can_inspect_paths = True, can_propose_patch = False,
     can_apply_patch = False, can_run_tests = False\<rparr>"
| "mode_policy_of Apply_with_approval = \<lparr>can_read_approved_file = True, can_inspect_paths = True, can_propose_patch = True,
     can_apply_patch = True, can_run_tests = False\<rparr>"
| "mode_policy_of Test_with_approval = \<lparr>can_read_approved_file = True, can_inspect_paths = True, can_propose_patch = True,
     can_apply_patch = True, can_run_tests = True\<rparr>"

fun mode_name :: "approval_mode \<Rightarrow> string" where
  "mode_name Read_only = ''read_only''"
| "mode_name Plan_only = ''plan_only''"
| "mode_name Path_preview = ''path_preview''"
| "mode_name Apply_with_approval = ''apply_with_approval''"
| "mode_name Test_with_approval = ''test_with_approval''"

definition approval_modes :: "approval_mode list" where
  "approval_modes = [Read_only, Plan_only, Path_preview, Apply_with_approval, Test_with_approval]"

definition normalize_approval_mode :: "string option \<Rightarrow> approval_mode" where
  "normalize_approval_mode raw = (let m = lower (strip (or_text raw ''plan_only''));
       m = (if m = ''ask_first'' \<or> m = ''patch_preview'' then ''apply_with_approval'' else m) in
     case find (\<lambda>x. mode_name x = m) approval_modes of None \<Rightarrow> Plan_only | Some x \<Rightarrow> x)"

definition approval_mode_policy :: "string option \<Rightarrow> mode_policy" where
  "approval_mode_policy raw = mode_policy_of (normalize_approval_mode raw)"

section \<open>Applying\<close>

record patch_payload =
  pp_workspace :: string
  pp_target :: string
  pp_diff :: string
  pp_expected :: string
  pp_hash :: string
  pp_mode :: "string option"
  pp_id :: "string option"
  pp_token :: "string option"
  pp_approved :: bool

text \<open>
  How the backup and the replacement end: both done, the replacement not confirmed durable, the replacement
  refused after the backup, the receipt of the backup not encodable, or no backup made.
\<close>

datatype write_outcome = Written | Uncertain | Conflict | Backup_audit_rejected | Backup_refused

record patch_env =
  pe_call :: call_env
  pe_guard :: path_guard \<comment> \<open>for an existing file\<close>
  pe_readable :: "string \<Rightarrow> string \<Rightarrow> bool" \<comment> \<open>within the size limit, UTF-8, no link\<close>
  pe_adapter :: "string \<Rightarrow> string \<Rightarrow> string option \<Rightarrow> string option" \<comment> \<open>file, its text, the new text: why it may not be patched\<close>
  pe_sha :: "string \<Rightarrow> string"
  pe_secrets :: "string \<Rightarrow> bool"
  pe_backup :: string \<comment> \<open>the fresh part of the backup's receipt id\<close>
  pe_write :: write_outcome

record patch_result =
  pr_status :: string
  pr_reason :: "string option"
  pr_mutated :: bool
  pr_new_hash :: "string option"
  pr_backup :: "string option"

type_synonym file_store = "((string \<times> string) \<times> string) list" \<comment> \<open>workspace root and relative path, text\<close>

definition patch_blocked :: "string \<Rightarrow> string option \<Rightarrow> patch_result" where
  "patch_blocked status reason = \<lparr>pr_status = status, pr_reason = reason, pr_mutated = False, pr_new_hash = None, pr_backup = None\<rparr>"

definition backup_place :: "patch_env \<Rightarrow> string \<times> string \<Rightarrow> string \<times> string" where
  "backup_place env place = (let
       name = filter (\<lambda>c. alnum_char c \<or> c \<in> set ''._-'') (last (split_on CHR ''/'' (snd place)))
     in (fst place, ''.elysia_backups/backup_'' @ pe_backup env @ ''_'' @ (if name = [] then ''file'' else name) @ ''.bak''))"

definition create_coding_backup :: "patch_env \<Rightarrow> string \<times> string \<Rightarrow> file_store \<Rightarrow> file_store option" where
  \<comment> \<open>the link that names the backup refuses an existing file\<close>
  "create_coding_backup env place files = (case map_of files place of None \<Rightarrow> None
     | Some current \<Rightarrow>
         if pe_write env = Backup_refused \<or> map_of files (backup_place env place) \<noteq> None then None
         else Some (AList.update (backup_place env place) current files))"

definition patch_ask :: "patch_payload \<Rightarrow> string \<Rightarrow> operation_ask" where
  "patch_ask p current_hash = \<lparr>ask_id = pp_id p, ask_token = pp_token p, ask_kind = ''patch_apply'', ask_workspace = pp_workspace p,
     ask_files = [pp_target p], ask_source = Some current_hash, ask_plan = pp_hash p, ask_class = ''text_patch''\<rparr>"

definition check_patch :: "patch_env \<Rightarrow> patch_payload \<Rightarrow> file_store \<Rightarrow> patch_result + (string \<times> string) \<times> string" where
  \<comment> \<open>up to the approval: the file and its new text\<close>
  "check_patch env p files =
     (if \<not> can_apply_patch (approval_mode_policy (pp_mode p)) then
        Inl (patch_blocked ''blocked_by_approval_mode''
          (Some (mode_name (normalize_approval_mode (pp_mode p)) @ ''_does_not_allow_patch_apply'')))
      else if \<not> pp_approved p then Inl (patch_blocked ''approval_required'' (Some ''operator_approval_required''))
      else let g = pe_guard env (pp_workspace p) (pp_target p) in
        if \<not> gp_allowed g then Inl (patch_blocked ''blocked'' (gp_reason g))
        else let rel = the (gp_relative g); place = (gp_root g, rel) in
        (case map_of files place of
           None \<Rightarrow> Inl (patch_blocked ''blocked'' (Some ''unsafe_or_unreadable_source''))
         | Some current \<Rightarrow>
             if \<not> pe_readable env (gp_root g) rel then Inl (patch_blocked ''blocked'' (Some ''unsafe_or_unreadable_source''))
             else if pe_adapter env rel current None \<noteq> None then Inl (patch_blocked ''blocked'' (pe_adapter env rel current None))
             else if pe_sha env current \<noteq> pp_expected p then Inl (patch_blocked ''blocked'' (Some ''current_content_hash_mismatch''))
             else if take 32 (pe_sha env (pp_diff p)) \<noteq> pp_hash p then Inl (patch_blocked ''blocked'' (Some ''patch_hash_mismatch''))
             else (case apply_unified_diff current (pp_diff p) of
                Inl reason \<Rightarrow> Inl (patch_blocked ''blocked'' (Some reason))
              | Inr updated \<Rightarrow>
                  if pe_adapter env rel current (Some updated) \<noteq> None
                  then Inl (patch_blocked ''blocked'' (pe_adapter env rel current (Some updated)))
                  else if pe_secrets env updated then Inl (patch_blocked ''blocked'' (Some ''proposed_content_contains_possible_secret''))
                  else Inr (place, updated))))"

definition apply_patch_with_approval ::
  "patch_env \<Rightarrow> patch_payload \<Rightarrow> approvals \<times> file_store \<Rightarrow> (coding_failure + patch_result) \<times> (approvals \<times> file_store)" where
  "apply_patch_with_approval env p state = (case state of (s, files) \<Rightarrow>
     (case check_patch env p files of Inl r \<Rightarrow> (Inr r, s, files)
     | Inr (place, updated) \<Rightarrow>
         (case consume_operation_approval (pe_call env) (patch_ask p (pp_expected p)) s of
            (Inl e, s') \<Rightarrow> (Inl e, s', files)
          | (Inr (Some reason), s') \<Rightarrow> (Inr (patch_blocked ''approval_required'' (Some reason)), s', files)
          | (Inr None, s') \<Rightarrow>
              (case create_coding_backup env place files of
                 None \<Rightarrow> (Inr (patch_blocked ''blocked'' (Some ''workspace_write_conflict'')), s', files)
               | Some kept \<Rightarrow> let backup = Some (snd (backup_place env place)) in
                   (case pe_write env of
                      Backup_audit_rejected \<Rightarrow> (Inl Audit_write_failed, s', kept)
                    | Uncertain \<Rightarrow> (Inr \<lparr>pr_status = ''verification_required'', pr_reason = Some ''write_durability_unconfirmed'',
                        pr_mutated = True, pr_new_hash = None, pr_backup = backup\<rparr>, s', AList.update place updated kept)
                    | Written \<Rightarrow> (Inr \<lparr>pr_status = ''applied'', pr_reason = None, pr_mutated = True,
                        pr_new_hash = Some (pe_sha env updated), pr_backup = backup\<rparr>, s', AList.update place updated kept)
                    | _ \<Rightarrow> (Inr (patch_blocked ''blocked'' (Some ''workspace_write_conflict'')), s', kept))))))"

section \<open>What a changed file shows\<close>

lemma check_patch_passed:
  assumes "check_patch env p files = Inr (place, updated)"
  obtains g rel current where "g = pe_guard env (pp_workspace p) (pp_target p)" "gp_allowed g" "rel = the (gp_relative g)"
    "place = (gp_root g, rel)" "can_apply_patch (approval_mode_policy (pp_mode p))" "pp_approved p" "map_of files place = Some current"
    "pe_sha env current = pp_expected p" "take 32 (pe_sha env (pp_diff p)) = pp_hash p"
    "apply_unified_diff current (pp_diff p) = Inr updated" "pe_adapter env rel current (Some updated) = None" "\<not> pe_secrets env updated"
  using assms by (auto simp: check_patch_def Let_def split: if_splits option.splits sum.splits)

lemma backup_made:
  assumes "create_coding_backup env place files = Some kept"
  obtains current where "map_of files place = Some current" "map_of files (backup_place env place) = None"
    "kept = AList.update (backup_place env place) current files" "place \<noteq> backup_place env place"
proof -
  from assms obtain current where c: "map_of files place = Some current" "map_of files (backup_place env place) = None"
    "kept = AList.update (backup_place env place) current files"
    by (auto simp: create_coding_backup_def split: option.splits if_splits)
  then have "place \<noteq> backup_place env place" by (metis option.distinct(1))
  with c show thesis by (rule that)
qed

lemma patch_outcome:
  assumes "apply_patch_with_approval env p (s, files) = (r, s', files')"
  obtains (kept) "files' = files" "\<And>out. r = Inr out \<Longrightarrow> \<not> pr_mutated out \<and> pr_new_hash out = None \<and> pr_status out \<noteq> ''applied''"
  | (backed) place updated where "check_patch env p files = Inr (place, updated)" "create_coding_backup env place files = Some files'"
      "consumption_refusal (pe_call env) (patch_ask p (pp_expected p)) s = None"
      "\<And>out. r = Inr out \<Longrightarrow> \<not> pr_mutated out \<and> pr_new_hash out = None \<and> pr_status out \<noteq> ''applied''"
  | (written) place updated kept out where "check_patch env p files = Inr (place, updated)" "create_coding_backup env place files = Some kept"
      "consumption_refusal (pe_call env) (patch_ask p (pp_expected p)) s = None"
      "files' = AList.update place updated kept" "r = Inr out"
      "pr_mutated out" "pr_new_hash out \<in> {None, Some (pe_sha env updated)}" "pr_backup out = Some (snd (backup_place env place))"
proof (cases "check_patch env p files")
  case (Inl b)
  then have "\<not> pr_mutated b \<and> pr_new_hash b = None \<and> pr_status b \<noteq> ''applied''"
    by (auto simp: check_patch_def Let_def patch_blocked_def split: if_splits option.splits sum.splits)
  with assms Inl kept show ?thesis by (auto simp: apply_patch_with_approval_def)
next
  case (Inr c)
  obtain place updated where c: "check_patch env p files = Inr (place, updated)" using Inr by (cases c) simp
  obtain rc s1 where consumed: "consume_operation_approval (pe_call env) (patch_ask p (pp_expected p)) s = (rc, s1)" by (metis prod.exhaust)
  show ?thesis
  proof (cases "rc = Inr None")
    case False
    with assms c consumed kept show ?thesis
      by (cases rc; cases "projr rc") (auto simp: apply_patch_with_approval_def patch_blocked_def)
  next
    case True
    with consumed have granted: "consumption_refusal (pe_call env) (patch_ask p (pp_expected p)) s = None"
      by (auto simp: consume_operation_approval_def split: option.splits if_splits)
    show ?thesis
    proof (cases "create_coding_backup env place files")
      case None
      with assms c consumed True kept show ?thesis by (auto simp: apply_patch_with_approval_def patch_blocked_def)
    next
      case (Some store)
      show ?thesis
      proof (cases "pe_write env = Uncertain \<or> pe_write env = Written")
        case True
        with assms c consumed \<open>rc = Inr None\<close> Some have "files' = AList.update place updated store"
          "\<exists>out. r = Inr out \<and> pr_mutated out \<and> pr_new_hash out \<in> {None, Some (pe_sha env updated)} \<and>
             pr_backup out = Some (snd (backup_place env place))"
          by (auto simp: apply_patch_with_approval_def)
        with c granted Some show ?thesis by (metis written)
      next
        case False
        with assms c consumed \<open>rc = Inr None\<close> Some have "files' = store"
          "\<And>out. r = Inr out \<Longrightarrow> \<not> pr_mutated out \<and> pr_new_hash out = None \<and> pr_status out \<noteq> ''applied''"
          by (cases "pe_write env"; auto simp: apply_patch_with_approval_def patch_blocked_def)+
        with c granted Some show ?thesis by (metis backed)
      qed
    qed
  qed
qed

text \<open>
  Claim C20. A file changes only as the operator approved it: when applying a patch changes the file
  store, then a backup of the file the path guard resolved is added under a name that was free and
  at most that file is replaced, by the result of the diff on its
  text, in a mode that allows it; the file is the one with the expected hash, the new text passed
  the adapter and the secret scan; and the history holds an explicit approval of this client for
  patching exactly these files with this source hash and the hash of this diff, neither expired
  nor followed by an emergency stop. Where the file is replaced the result says so and names the backup.
\<close>

theorem file_changes_as_approved:
  assumes "apply_patch_with_approval env p (coding_history ops, files) = (r, s', files')" "files' \<noteq> files"
  shows "let g = pe_guard env (pp_workspace p) (pp_target p); rel = the (gp_relative g); b = backup_place env (gp_root g, rel)
   in \<exists>current updated.
    gp_allowed g \<and> normalize_approval_mode (pp_mode p) \<in> {Apply_with_approval, Test_with_approval} \<and> pp_approved p \<and>
    map_of files (gp_root g, rel) = Some current \<and> pe_sha env current = pp_expected p \<and>
    apply_unified_diff current (pp_diff p) = Inr updated \<and> pe_adapter env rel current (Some updated) = None \<and> \<not> pe_secrets env updated \<and>
    map_of files b = None \<and>
    (files' = AList.update (gp_root g, rel) updated (AList.update b current files) \<and>
        (\<exists>out. r = Inr out \<and> pr_mutated out \<and> pr_backup out = Some (snd b)) \<or>
     files' = AList.update b current files \<and> (\<forall>out. r = Inr out \<longrightarrow> \<not> pr_mutated out)) \<and>
    (\<exists>pre env' q post. ops = pre @ Approve_op env' q # post \<and> ap_approved q \<and> pp_id p = Some (''approval_'' @ ce_fresh env') \<and>
       pp_token p = Some (''op_'' @ ce_token env') \<and> ce_actor env' = ce_actor (pe_call env) \<and>
       ce_now (pe_call env) < ce_now env' + ap_seconds q \<and> ap_kind q = ''patch_apply'' \<and>
       ap_source q = Some (pe_sha env current) \<and> ap_plan q = take 32 (pe_sha env (pp_diff p)) \<and> ap_class q = ''text_patch'' \<and>
       normalize_exact_files (ce_guard env') (ap_workspace q) (ap_files q) =
         normalize_exact_files (ce_guard (pe_call env)) (pp_workspace p) [pp_target p] \<and>
       (\<forall>op \<in> set post. \<not> is_revoke_all op))"
proof -
  obtain place updated kept where c: "check_patch env p files = Inr (place, updated)"
    "consumption_refusal (pe_call env) (patch_ask p (pp_expected p)) (coding_history ops) = None"
    and k: "create_coding_backup env place files = Some kept"
    and w: "files' = AList.update place updated kept \<and> (\<exists>out. r = Inr out \<and> pr_mutated out \<and> pr_backup out = Some (snd (backup_place env place)))
      \<or> files' = kept \<and> (\<forall>out. r = Inr out \<longrightarrow> \<not> pr_mutated out)"
    using assms(2) by (cases rule: patch_outcome [OF assms(1)]) blast+
  from c(1) obtain g rel current where g: "g = pe_guard env (pp_workspace p) (pp_target p)" "gp_allowed g" "rel = the (gp_relative g)"
    "place = (gp_root g, rel)" "can_apply_patch (approval_mode_policy (pp_mode p))" "pp_approved p" "map_of files place = Some current"
    "pe_sha env current = pp_expected p" "take 32 (pe_sha env (pp_diff p)) = pp_hash p"
    "apply_unified_diff current (pp_diff p) = Inr updated" "pe_adapter env rel current (Some updated) = None" "\<not> pe_secrets env updated"
    by (rule check_patch_passed)
  from k g(7) have b: "map_of files (backup_place env (gp_root g, rel)) = None"
    "kept = AList.update (backup_place env (gp_root g, rel)) current files" unfolding g(4) by (auto elim!: backup_made)
  have "normalize_approval_mode (pp_mode p) \<in> {Apply_with_approval, Test_with_approval}"
    using g(5) unfolding approval_mode_policy_def by (cases "normalize_approval_mode (pp_mode p)") simp_all
  with g b w consumed_exactly_as_approved [OF c(2)] show ?thesis
    unfolding Let_def by - (rule exI [of _ current], rule exI [of _ updated], simp add: patch_ask_def)
qed


section \<open>Examples\<close>

definition sample_file :: string where
  "sample_file = ''a'' @ [lf] @ ''b'' @ [lf]"

definition sample_diff :: string where
  "sample_diff = render_diff ''a'' [([], [Keep (''a'' @ [lf]), Remove (''b'' @ [lf]), Add (''c'' @ [lf])])]"

definition sample_patch_payload :: "string \<Rightarrow> patch_payload" where
  "sample_patch_payload mode = \<lparr>pp_workspace = ''/w'', pp_target = ''a'', pp_diff = sample_diff, pp_expected = ''s'', pp_hash = ''s'',
     pp_mode = Some mode, pp_id = Some ''approval_1'', pp_token = Some ''op_1'', pp_approved = True\<rparr>"

definition sample_patch_env :: patch_env where
  "sample_patch_env = \<lparr>pe_call = sample_call 5 ''2'', pe_guard = open_guard, pe_readable = (\<lambda>root f. True), pe_adapter = (\<lambda>f t u. None),
     pe_sha = (\<lambda>t. ''s''), pe_secrets = (\<lambda>t. False), pe_backup = ''1'', pe_write = Written\<rparr>"

definition patch_op :: coding_op where
  "patch_op = Approve_op (sample_call 0 ''1'') (sample_payload\<lparr>ap_plan := ''s''\<rparr>)"

lemma sample_patch_applied:
  "apply_patch_with_approval sample_patch_env (sample_patch_payload ''ask_first'') (coding_history [patch_op], [((''/w'', ''a''), sample_file)]) =
     (Inr \<lparr>pr_status = ''applied'', pr_reason = None, pr_mutated = True, pr_new_hash = Some ''s'',
        pr_backup = Some ''.elysia_backups/backup_1_a.bak''\<rparr>,
      snd (consume_operation_approval (sample_call 5 ''2'') (patch_ask (sample_patch_payload ''ask_first'') ''s'') (coding_history [patch_op])),
      [((''/w'', ''a''), ''a'' @ [lf] @ ''c'' @ [lf]), ((''/w'', ''.elysia_backups/backup_1_a.bak''), sample_file)])"
  by code_simp

lemma file_changes_as_approved_witness:
  "\<exists>updated. apply_unified_diff sample_file sample_diff = Inr updated \<and>
     (\<exists>pre env' q post. [patch_op] = pre @ Approve_op env' q # post \<and> ap_kind q = ''patch_apply'' \<and> ap_source q = Some ''s'')"
  using file_changes_as_approved [OF sample_patch_applied]
  by (fastforce simp: Let_def sample_patch_env_def open_guard_def sample_patch_payload_def sample_file_def lf_def)


lemma plan_mode_applies_nothing:
  "fst (apply_patch_with_approval sample_patch_env (sample_patch_payload ''plan_only'') (coding_history [patch_op], [((''/w'', ''a''), sample_file)])) =
     Inr (patch_blocked ''blocked_by_approval_mode'' (Some ''plan_only_does_not_allow_patch_apply''))"
  by code_simp

end
