(* ===== verification/PathGuard.thy ===== *)
theory PathGuard
  imports CodingApprovals CodevContracts Json
begin

text \<open>
  The path guard of the coding bridge (\<open>app/api/coding_path_guard_service.py\<close>) with the registry of
  approved repositories (\<open>app/api/coding_repo_registry.py\<close>) and the extensions of the file type
  registries it consults.  The file system is an argument: the symbolic link at a path, if any, and
  what \<open>stat\<close> finds there.  So are home directories, the current directory, the digest of paths, the
  policy and the configured repositories, as their files are read.  Labels and times of the registry
  are left out; a file that cannot be written fails the call.
\<close>

section \<open>Paths of \<open>pathlib\<close>\<close>

record py_path =
  pp_root :: string
  pp_parts :: "string list"

datatype path_error = Unknown_home | Link_loop

definition parse_path :: "string \<Rightarrow> py_path" where
  \<comment> \<open>\<open>Path(s)\<close>: exactly two leading slashes are kept\<close>
  "parse_path s = \<lparr>pp_root = (if starts_with ''//'' s \<and> \<not> starts_with ''///'' s then ''//'' else if starts_with ''/'' s then ''/'' else []),
     pp_parts = filter (\<lambda>c. c \<noteq> [] \<and> c \<noteq> ''.'') (split_on CHR ''/'' s)\<rparr>"

definition path_text :: "py_path \<Rightarrow> string" where
  "path_text p = (if pp_root p = [] \<and> pp_parts p = [] then ''.'' else pp_root p @ join ''/'' (pp_parts p))"

definition posix_text :: "string list \<Rightarrow> string" where
  \<comment> \<open>\<open>as_posix\<close> of a relative path\<close>
  "posix_text parts = path_text \<lparr>pp_root = [], pp_parts = parts\<rparr>"

definition is_absolute :: "py_path \<Rightarrow> bool" where
  "is_absolute p \<longleftrightarrow> pp_root p \<noteq> []"

definition join_path :: "py_path \<Rightarrow> py_path \<Rightarrow> py_path" where
  "join_path p q = (if is_absolute q then q else p\<lparr>pp_parts := pp_parts p @ pp_parts q\<rparr>)"

definition path_name :: "py_path \<Rightarrow> string" where
  "path_name p = (if pp_parts p = [] then [] else last (pp_parts p))"

definition name_suffix :: "string \<Rightarrow> string" where
  "name_suffix name = (let ext = rev (takeWhile (\<lambda>c. c \<noteq> CHR ''.'') (rev name)) in
     if CHR ''.'' \<notin> set name \<or> ext = [] \<or> length ext + 1 = length name then [] else CHR ''.'' # ext)"

definition relative_to :: "py_path \<Rightarrow> py_path \<Rightarrow> string list option" where
  \<comment> \<open>\<open>None\<close> where \<open>relative_to\<close> raises\<close>
  "relative_to p root = (if pp_root p = pp_root root \<and> take (length (pp_parts root)) (pp_parts p) = pp_parts root
     then Some (drop (length (pp_parts root)) (pp_parts p)) else None)"

definition normal_parts :: "string list \<Rightarrow> string list" where
  \<comment> \<open>\<open>normpath\<close> of an absolute path\<close>
  "normal_parts parts = foldl (\<lambda>done_parts c. if c = ''..'' then butlast done_parts else done_parts @ [c]) [] parts"

section \<open>The file system\<close>

datatype node = Missing | Regular nat | Directory | Special \<comment> \<open>a regular file with its number of links\<close>

record disk =
  dk_link :: "py_path \<Rightarrow> py_path option" \<comment> \<open>the target of the symbolic link at a path\<close>
  dk_node :: "py_path \<Rightarrow> node" \<comment> \<open>as \<open>stat\<close> follows links\<close>
  dk_hops :: nat \<comment> \<open>links followed before a path counts as a loop\<close>
  dk_cwd :: py_path
  dk_home :: "string \<Rightarrow> string option" \<comment> \<open>\<open>os.path.expanduser\<close> of a first part; \<open>None\<close> when unknown\<close>

definition prefixes_of :: "py_path \<Rightarrow> py_path list" where
  "prefixes_of p = map (\<lambda>k. p\<lparr>pp_parts := take (Suc k) (pp_parts p)\<rparr>) [0..<length (pp_parts p)]"

definition contains_symlink :: "disk \<Rightarrow> py_path \<Rightarrow> bool" where
  "contains_symlink d p \<longleftrightarrow> list_ex (\<lambda>q. dk_link d q \<noteq> None) (prefixes_of p)"

definition expanduser :: "disk \<Rightarrow> py_path \<Rightarrow> path_error + py_path" where
  "expanduser d p = (if is_absolute p \<or> pp_parts p = [] \<or> \<not> starts_with ''~'' (hd (pp_parts p)) then Inr p
     else case dk_home d (hd (pp_parts p)) of None \<Rightarrow> Inl Unknown_home
     | Some h \<Rightarrow> Inr (let home = parse_path h in home\<lparr>pp_parts := pp_parts home @ tl (pp_parts p)\<rparr>))"

definition absolute_path :: "disk \<Rightarrow> py_path \<Rightarrow> py_path" where
  \<comment> \<open>\<open>os.path.abspath\<close>\<close>
  "absolute_path d p = (let q = join_path (dk_cwd d) p in q\<lparr>pp_parts := normal_parts (pp_parts q)\<rparr>)"

fun walk_links :: "(py_path \<Rightarrow> py_path option) \<Rightarrow> nat \<Rightarrow> py_path \<Rightarrow> string list \<Rightarrow> py_path option" where
  "walk_links links hops here [] = Some here"
| "walk_links links hops here (c # todo) =
     (if c = ''..'' then walk_links links hops (here\<lparr>pp_parts := butlast (pp_parts here)\<rparr>) todo
      else let next_path = here\<lparr>pp_parts := pp_parts here @ [c]\<rparr> in
        case links next_path of None \<Rightarrow> walk_links links hops next_path todo
        | Some target \<Rightarrow> (case hops of 0 \<Rightarrow> None
          | Suc h \<Rightarrow> walk_links links h (if is_absolute target then \<lparr>pp_root = ''/'', pp_parts = []\<rparr> else here) (pp_parts target @ todo)))"

definition resolve_path :: "disk \<Rightarrow> py_path \<Rightarrow> path_error + py_path" where
  \<comment> \<open>\<open>Path.resolve(strict=False)\<close>; the result is below a single slash\<close>
  "resolve_path d p = (case walk_links (dk_link d) (dk_hops d) \<lparr>pp_root = ''/'', pp_parts = []\<rparr> (pp_parts (join_path (dk_cwd d) p)) of
       None \<Rightarrow> Inl Link_loop | Some q \<Rightarrow> Inr q)"

definition home_path :: "disk \<Rightarrow> path_error + py_path" where
  "home_path d = bindR (expanduser d (parse_path ''~'')) (resolve_path d)"

definition broad_roots :: "py_path \<Rightarrow> string \<Rightarrow> py_path list" where
  \<comment> \<open>of the home directory and an anchor\<close>
  "broad_roots home anchor = [\<lparr>pp_root = anchor, pp_parts = []\<rparr>, home, parse_path ''/home'', parse_path ''/tmp'']"

section \<open>The registry of approved repositories\<close>

record repo_entry =
  re_root :: string
  re_approved :: bool
  re_revoked :: bool
  re_profile :: "string option"

type_synonym repo_registry = "(string \<times> repo_entry option) list option" \<comment> \<open>\<open>None\<close> when the file is invalid; an entry may be no object\<close>

record guard_env =
  ge_disk :: disk
  ge_registry :: repo_registry
  ge_profile :: string
  ge_digest :: "string \<Rightarrow> string" \<comment> \<open>the first 24 digits of SHA-256\<close>
  ge_config :: "(string \<times> (bool \<times> bool \<times> string) option) list" \<comment> \<open>\<open>allowed\<close>, \<open>coding_workspace_allowed\<close> and root of the configured repositories\<close>
  ge_repo_root :: py_path
  ge_runtime :: string \<comment> \<open>\<open>ELYSIA_CODING_APPROVED_ROOTS\<close>\<close>
  ge_scoped :: "py_path option" \<comment> \<open>the workspace of the Codev grant in use\<close>

definition repos_of :: "repo_registry \<Rightarrow> (string \<times> repo_entry option) list" where
  "repos_of r = (case r of None \<Rightarrow> [] | Some d \<Rightarrow> d)"

definition under :: "py_path \<Rightarrow> py_path \<Rightarrow> bool" where
  \<comment> \<open>\<open>p == root or root in p.parents\<close>\<close>
  "under p root \<longleftrightarrow> relative_to p root \<noteq> None"

definition denies :: "(string \<Rightarrow> string) \<Rightarrow> py_path \<Rightarrow> string \<times> repo_entry option \<Rightarrow> bool" where
  "denies digest root kv = (case snd kv of None \<Rightarrow> False
     | Some e \<Rightarrow> (let denied = parse_path (re_root e) in
         re_revoked e \<and> is_absolute denied \<and> digest (path_text denied) = fst kv \<and> under root denied))"

definition repository_revoked :: "(string \<Rightarrow> string) \<Rightarrow> repo_registry \<Rightarrow> py_path \<Rightarrow> bool" where
  "repository_revoked digest r root = (case r of None \<Rightarrow> True | Some d \<Rightarrow> list_ex (denies digest root) d)"


definition revoke_repo_approval :: "string \<Rightarrow> string option \<Rightarrow> string \<Rightarrow> repo_registry \<Rightarrow> string + bool \<times> repo_registry" where
  "revoke_repo_approval h root profile r = (case r of None \<Rightarrow> Inl ''repository_registry_requires_recovery''
     | Some d \<Rightarrow> (case map_of d h of
           Some (Some e) \<Rightarrow> Inr (True, Some (AList.update h (Some (e\<lparr>re_approved := False, re_revoked := True\<rparr>)) d))
         | _ \<Rightarrow> (case root of None \<Rightarrow> Inr (False, r)
             | Some p \<Rightarrow> Inr (True, Some (AList.update h
                 (Some \<lparr>re_root = p, re_approved = False, re_revoked = True, re_profile = Some profile\<rparr>) d)))))"

definition approved_entry :: "guard_env \<Rightarrow> string \<times> repo_entry option \<Rightarrow> path_error + (string \<times> py_path) list" where
  "approved_entry env kv = (case snd kv of None \<Rightarrow> Inr []
     | Some e \<Rightarrow>
         if \<not> re_approved e \<or> re_revoked e \<or> re_profile e \<notin> {None, Some (ge_profile env)} then Inr []
         else bindR (expanduser (ge_disk env) (parse_path (re_root e))) (\<lambda>root.
           if \<not> is_absolute root \<or> dk_node (ge_disk env) root \<noteq> Directory \<or> contains_symlink (ge_disk env) root then Inr []
           else bindR (resolve_path (ge_disk env) root) (\<lambda>resolved.
             bindR (home_path (ge_disk env)) (\<lambda>home.
             Inr (if fst kv \<noteq> ge_digest env (path_text resolved) \<or> resolved \<in> set (broad_roots home (pp_root resolved)) then []
               else [(''user_'' @ fst kv, resolved)])))))"

definition approved_roots :: "guard_env \<Rightarrow> path_error + (string \<times> py_path) list" where
  \<comment> \<open>\<open>list_approved_repo_roots\<close>\<close>
  "approved_roots env = bindR (mapR (approved_entry env) (repos_of (ge_registry env))) (\<lambda>rs. Inr (concat rs))"

section \<open>The configured roots and the authority of a root\<close>

definition configured_entry :: "guard_env \<Rightarrow> string \<times> (bool \<times> bool \<times> string) option \<Rightarrow> path_error + (string \<times> py_path) list" where
  "configured_entry env kv = (case snd kv of Some (allowed, coding, root) \<Rightarrow>
       if \<not> allowed \<or> \<not> coding then Inr []
       else bindR (expanduser (ge_disk env) (parse_path root)) (\<lambda>raw.
         bindR (resolve_path (ge_disk env) (join_path (ge_repo_root env) raw)) (\<lambda>resolved. Inr [(fst kv, resolved)]))
     | None \<Rightarrow> Inr [])"

definition runtime_entry :: "guard_env \<Rightarrow> nat \<times> string \<Rightarrow> path_error + (string \<times> py_path) list" where
  "runtime_entry env ir = (if strip (snd ir) = [] then Inr []
     else bindR (expanduser (ge_disk env) (parse_path (snd ir))) (\<lambda>raw.
       bindR (resolve_path (ge_disk env) raw) (\<lambda>resolved. Inr [(''runtime_'' @ digits_of (fst ir), resolved)])))"

definition configured_workspace_roots :: "guard_env \<Rightarrow> path_error + (string \<times> py_path) list" where
  "configured_workspace_roots env =
     bindR (mapR (configured_entry env) (ge_config env)) (\<lambda>cs.
     bindR (mapR (runtime_entry env) (enumerate 0 (split_on CHR '':'' (ge_runtime env)))) (\<lambda>rs.
     bindR (approved_roots env) (\<lambda>us. Inr (concat cs @ concat rs @ us))))"

record coding_policy =
  cp_blocked_parts :: "string list"
  cp_ignored_names :: "string list"
  cp_blocked_files :: "string list"
  cp_ignored_globs :: "string list"
  cp_binary :: "string list"

definition folded :: "string list \<Rightarrow> string list" where
  "folded items = map (\<lambda>i. casefold (strip i)) items"

definition normalized_parts :: "string \<Rightarrow> string list" where
  "normalized_parts relative = filter (\<lambda>p. p \<noteq> [] \<and> p \<noteq> ''.'') (split_on CHR ''/'' (map (\<lambda>c. if c = CHR 0x5C then CHR ''/'' else c) relative))"

fun blocked_from :: "string list \<Rightarrow> string list \<Rightarrow> string list \<Rightarrow> string list \<Rightarrow> string option" where
  "blocked_from blocked ignored before [] = None"
| "blocked_from blocked ignored before (part # rest) = (let prefix = join ''/'' (before @ [part]) in
     if part \<in> set blocked \<or> prefix \<in> set blocked then Some ''blocked_path_part''
     else if part \<in> set ignored \<or> prefix \<in> set ignored then Some ''ignored_path''
     else blocked_from blocked ignored (before @ [part]) rest)"

definition blocked_path_reason :: "coding_policy \<Rightarrow> string \<Rightarrow> string option" where
  "blocked_path_reason pol relative =
     blocked_from (folded (cp_blocked_parts pol)) (folded (cp_ignored_names pol)) [] (map casefold (normalized_parts relative))"

type_synonym root_authority = "py_path \<times> string \<times> string" \<comment> \<open>approved root, its key, the root below it\<close>

fun first_approved :: "coding_policy \<Rightarrow> py_path \<Rightarrow> (string \<times> py_path) list \<Rightarrow> string + root_authority" where
  "first_approved pol root [] = Inl ''workspace_root_not_approved''"
| "first_approved pol root ((key, approved) # rest) =
     (if starts_with ''user_'' key \<and> root \<noteq> approved then first_approved pol root rest
      else case relative_to root approved of None \<Rightarrow> first_approved pol root rest
      | Some rel \<Rightarrow> if blocked_path_reason pol (posix_text rel) \<noteq> None then Inl ''workspace_root_blocked''
          else Inr (approved, key, posix_text rel))"

definition authorize_workspace_root :: "guard_env \<Rightarrow> coding_policy \<Rightarrow> py_path \<Rightarrow> path_error + string + root_authority" where
  "authorize_workspace_root env pol root =
     (if repository_revoked (ge_digest env) (ge_registry env) root then Inr (Inl ''workspace_root_revoked'')
      else if dk_node (ge_disk env) root \<noteq> Directory then Inr (Inl ''workspace_root_not_directory'')
      else if contains_symlink (ge_disk env) root then Inr (Inl ''workspace_root_symlink'')
      else bindR (home_path (ge_disk env)) (\<lambda>home.
        if root \<in> set (broad_roots home (pp_root root)) then Inr (Inl ''workspace_root_too_broad'')
        else case ge_scoped env of
          Some scoped \<Rightarrow> Inr (if root \<noteq> scoped then Inl ''workspace_outside_client_grant'' else Inr (root, ''codev_session_grant'', ''.''))
        | None \<Rightarrow> bindR (configured_workspace_roots env) (\<lambda>roots. Inr (first_approved pol root roots))))"

section \<open>Shell patterns\<close>

text \<open>
  \<open>fnmatch.fnmatch\<close> on a POSIX system: case is kept.
\<close>

datatype glob_token = Star | Any | Literal char | One_of bool string \<comment> \<open>a class, negated or not\<close>

fun until_bracket :: "string \<Rightarrow> (string \<times> string) option" where
  "until_bracket [] = None"
| "until_bracket (c # cs) = (if c = CHR '']'' then Some ([], cs)
     else case until_bracket cs of None \<Rightarrow> None | Some (body, rest) \<Rightarrow> Some (c # body, rest))"

definition class_body :: "string \<Rightarrow> (string \<times> string) option" where
  \<comment> \<open>a bracket in first place, after a negation or not, is a member\<close>
  "class_body p = (let skip = (if starts_with ''!]'' p then 2 else if starts_with ''!'' p \<or> starts_with '']'' p then 1 else 0) in
     case until_bracket (drop skip p) of None \<Rightarrow> None | Some (body, rest) \<Rightarrow> Some (take skip p @ body, rest))"

lemma until_bracket_shorter: "until_bracket s = Some (body, rest) \<Longrightarrow> length rest < length s"
  by (induction s arbitrary: body) (force split: if_splits option.splits)+

lemma class_body_shorter: "class_body p = Some (body, rest) \<Longrightarrow> length rest < length p"
  unfolding class_body_def Let_def
  by (auto split: option.splits dest!: until_bracket_shorter)

function glob_tokens :: "string \<Rightarrow> glob_token list" where
  "glob_tokens [] = []"
| "glob_tokens (c # cs) = (if c = CHR ''*'' then Star # glob_tokens cs
     else if c = CHR ''?'' then Any # glob_tokens cs
     else if c = CHR ''['' then (case class_body cs of None \<Rightarrow> Literal c # glob_tokens cs
       | Some (body, rest) \<Rightarrow> (if starts_with ''!'' body then One_of True (tl body) else One_of False body) # glob_tokens rest)
     else Literal c # glob_tokens cs)"
  by pat_completeness auto
termination glob_tokens
  by (relation "measure length") (auto dest: class_body_shorter)

fun in_class :: "char \<Rightarrow> string \<Rightarrow> bool" where
  "in_class c (a # h # b # rest) = (if h = CHR ''-''
     then (of_char a \<le> (of_char c :: nat) \<and> of_char c \<le> (of_char b :: nat)) \<or> in_class c rest
     else c = a \<or> in_class c (h # b # rest))"
| "in_class c members \<longleftrightarrow> c \<in> set members"

fun token_matches :: "glob_token \<Rightarrow> char \<Rightarrow> bool" where
  "token_matches (Literal a) c \<longleftrightarrow> a = c"
| "token_matches (One_of negated members) c \<longleftrightarrow> in_class c members \<noteq> negated"
| "token_matches t c \<longleftrightarrow> True"

fun glob_matches :: "glob_token list \<Rightarrow> string \<Rightarrow> bool" where
  "glob_matches [] s \<longleftrightarrow> s = []"
| "glob_matches (Star # ts) [] \<longleftrightarrow> glob_matches ts []"
| "glob_matches (Star # ts) (c # cs) \<longleftrightarrow> glob_matches ts (c # cs) \<or> glob_matches (Star # ts) cs"
| "glob_matches (t # ts) [] \<longleftrightarrow> False"
| "glob_matches (t # ts) (c # cs) \<longleftrightarrow> token_matches t c \<and> glob_matches ts cs"

definition fnmatch :: "string \<Rightarrow> string \<Rightarrow> bool" where
  "fnmatch name pattern = glob_matches (glob_tokens pattern) name"

section \<open>File types\<close>

definition data_extensions :: "string list" where
  "data_extensions = [''.csv'', ''.tsv'', ''.jsonl'', ''.parquet'', ''.sqlite'', ''.sqlite3'', ''.db'', ''.duckdb'', ''.geojson'', ''.gpkg'',
     ''.shp'', ''.kml'', ''.kmz'', ''.tif'', ''.tiff'', ''.nc'', ''.netcdf'', ''.h5'', ''.hdf5'', ''.zarr'']"

definition visual_extensions :: "string list" where
  "visual_extensions = [''.png'', ''.jpg'', ''.jpeg'', ''.webp'', ''.gif'', ''.bmp'', ''.tif'', ''.tiff'', ''.svg'']"

definition media_extensions :: "string list" where
  "media_extensions = [''.wav'', ''.mp3'', ''.flac'', ''.ogg'', ''.m4a'', ''.mp4'', ''.mov'', ''.mkv'', ''.webm'']"

definition archive_extensions :: "string list" where
  "archive_extensions = [''.zip'', ''.tar'', ''.tar.gz'', ''.tgz'', ''.7z'', ''.rar'', ''.whl'', ''.jar'', ''.vsix'', ''.appimage'', ''.deb'']"

definition database_extensions :: "string list" where
  "database_extensions = [''.sqlite'', ''.sqlite3'', ''.db'', ''.duckdb'']"

definition binary_extensions :: "string list" where
  "binary_extensions = [''.exe'', ''.dll'', ''.so'', ''.o'', ''.bin'', ''.class'', ''.wasm'']"

definition engineering_extensions :: "string list" where
  "engineering_extensions = [''.stl'', ''.obj'', ''.dae'', ''.step'', ''.stp'', ''.iges'', ''.igs'', ''.dxf'', ''.urdf'', ''.sdf'',
     ''.gcode'', ''.nc'', ''.tap'', ''.cnc'', ''.blend'', ''.f3d'', ''.f3z'']"

definition supported_documents :: "string list" where
  "supported_documents = [''.pdf'', ''.docx'', ''.xlsx'', ''.pptx'', ''.odt'', ''.ods'', ''.odp'']"

definition document_extensions :: "string list" where
  "document_extensions = supported_documents @ [''.docm'', ''.xlsm'', ''.pptm'', ''.dotm'', ''.xltm'', ''.potm''] @ [''.doc'', ''.xls'', ''.ppt'']"

definition matches_blocked_glob :: "string \<Rightarrow> string list \<Rightarrow> bool" where
  "matches_blocked_glob relative globs = (let name = path_name (parse_path relative); suffix = lower (name_suffix name) in
     if name = ''.env.example'' \<or> ends_with ''.env.example'' name then False
     else if suffix \<in> set data_extensions then False
     else if suffix \<in> set (database_extensions @ binary_extensions @ engineering_extensions) then False
     else list_ex (\<lambda>pattern. fnmatch name pattern \<or> fnmatch relative pattern) globs)"

definition type_reason :: "coding_policy \<Rightarrow> string \<Rightarrow> string option" where
  \<comment> \<open>the last tests of \<open>guard_workspace_path\<close>, on the name of the target: why its type is refused; what the registries
     support is a matter of the suffix alone\<close>
  "type_reason pol name = (let suffix = lower (name_suffix name) in
     if suffix \<in> set document_extensions \<and> suffix \<notin> set supported_documents then Some ''unsupported_or_blocked_document_type''
     else if suffix \<in> set data_extensions then None
     else if suffix \<in> set visual_extensions then None
     else if suffix \<in> set media_extensions then None
     else if list_ex (\<lambda>e. ends_with e (lower name)) archive_extensions then None
     else if suffix \<in> set database_extensions then None
     else if suffix \<in> set binary_extensions then None
     else if suffix \<in> set engineering_extensions then None
     else if suffix \<in> set (map lower (cp_binary pol)) \<and> suffix \<notin> set supported_documents then Some ''binary_or_unsupported_file''
     else None)"

section \<open>The guard\<close>

record guarded_target = guarded_path +
  gt_root :: py_path
  gt_target :: py_path
  gt_approved :: "(py_path \<times> string) option"

definition guarded :: "py_path \<Rightarrow> py_path \<Rightarrow> string option \<Rightarrow> string option \<Rightarrow> (py_path \<times> string) option \<Rightarrow> guarded_target" where
  "guarded root target relative reason approved = \<lparr>gp_allowed = (reason = None), gp_root = path_text root, gp_relative = relative,
     gp_reason = reason, gt_root = root, gt_target = target, gt_approved = approved\<rparr>"

definition effective_relative :: "string \<Rightarrow> string \<Rightarrow> string" where
  "effective_relative root_relative relative = join ''/'' (filter (\<lambda>p. p \<noteq> [] \<and> p \<noteq> ''.'') [root_relative, relative])"

definition target_reason :: "coding_policy \<Rightarrow> bool \<Rightarrow> bool \<Rightarrow> node \<Rightarrow> string \<Rightarrow> string \<Rightarrow> string \<Rightarrow> string option" where
  \<comment> \<open>why a target inside the workspace is refused: of the node, the root below the approved root, the relative path and the name\<close>
  "target_reason pol require_existing allow_directory found root_relative relative name =
     (if relative \<in> {[], ''.''} \<and> \<not> allow_directory then Some ''workspace_root_not_file''
      else if require_existing \<and> found = Missing then Some ''missing_path''
      else if (case found of Regular links \<Rightarrow> links \<noteq> 1 | _ \<Rightarrow> False) then Some ''hardlink_not_allowed''
      else if found = Directory \<and> \<not> allow_directory then Some ''directory_not_allowed''
      else if found \<noteq> Missing \<and> \<not> allow_directory \<and> (case found of Regular links \<Rightarrow> False | _ \<Rightarrow> True) then Some ''regular_file_required''
      else case blocked_path_reason pol (effective_relative root_relative relative) of Some r \<Rightarrow> Some r
      | None \<Rightarrow>
          if casefold name \<in> set (folded (cp_blocked_files pol)) then Some ''blocked_file_name''
          else if matches_blocked_glob relative (map strip (cp_ignored_globs pol)) then Some ''blocked_glob''
          else type_reason pol name)"

definition guard_target :: "guard_env \<Rightarrow> coding_policy \<Rightarrow> bool \<Rightarrow> bool \<Rightarrow> py_path \<Rightarrow> root_authority \<Rightarrow> string \<Rightarrow> path_error + guarded_target" where
  "guard_target env pol require_existing allow_directory root auth target_path =
     (let d = ge_disk env; approved = Some (fst auth, fst (snd auth)) in
      bindR (expanduser d (parse_path target_path)) (\<lambda>raw. let lexical = absolute_path d (join_path root raw) in
        case relative_to lexical root of None \<Rightarrow> Inr (guarded root lexical None (Some ''outside_workspace'') approved)
        | Some lexical_relative \<Rightarrow>
            if contains_symlink d lexical then Inr (guarded root lexical (Some (posix_text lexical_relative)) (Some ''symlink_not_allowed'') approved)
            else bindR (resolve_path d lexical) (\<lambda>target. case relative_to target root of
                None \<Rightarrow> Inr (guarded root target None (Some ''outside_workspace'') approved)
              | Some rel \<Rightarrow> Inr (guarded root target (Some (posix_text rel))
                  (target_reason pol require_existing allow_directory (dk_node d target) (snd (snd auth)) (posix_text rel) (path_name target)) approved))))"

definition guard_workspace_path :: "guard_env \<Rightarrow> coding_policy \<Rightarrow> bool \<Rightarrow> bool \<Rightarrow> string \<Rightarrow> string \<Rightarrow> path_error + guarded_target" where
  "guard_workspace_path env pol require_existing allow_directory workspace_root target_path =
     (let d = ge_disk env in bindR (expanduser d (parse_path workspace_root)) (\<lambda>raw_root.
      if contains_symlink d (absolute_path d raw_root) then Inr (guarded raw_root raw_root None (Some ''workspace_root_symlink'') None)
      else bindR (resolve_path d raw_root) (\<lambda>root. bindR (authorize_workspace_root env pol root) (\<lambda>a. case a of
          Inl reason \<Rightarrow> Inr (guarded root root None (Some reason) None)
        | Inr auth \<Rightarrow> guard_target env pol require_existing allow_directory root auth target_path))))"

section \<open>Paths without links resolve to themselves\<close>

definition link_free :: "disk \<Rightarrow> py_path \<Rightarrow> bool" where
  \<comment> \<open>absolute, normal and without a link on the way\<close>
  "link_free d p \<longleftrightarrow> pp_root p = ''/'' \<and> ''..'' \<notin> set (pp_parts p) \<and> \<not> contains_symlink d p"

lemma normal_parts_aux: "''..'' \<notin> set acc \<Longrightarrow>
    ''..'' \<notin> set (foldl (\<lambda>done_parts c. if c = ''..'' then butlast done_parts else done_parts @ [c]) acc parts)"
  by (induction parts arbitrary: acc) (auto dest: in_set_butlastD)

lemma normal_parts_normal: "''..'' \<notin> set (normal_parts parts)"
  unfolding normal_parts_def by (rule normal_parts_aux) simp

lemma normal_parts_same_aux: "''..'' \<notin> set parts \<Longrightarrow>
    foldl (\<lambda>done_parts c. if c = ''..'' then butlast done_parts else done_parts @ [c]) acc parts = acc @ parts"
  by (induction parts arbitrary: acc) auto

lemma normal_parts_same: "''..'' \<notin> set parts \<Longrightarrow> normal_parts parts = parts"
  unfolding normal_parts_def using normal_parts_same_aux [of parts "[]"] by simp

lemma absolute_path_simps:
  "pp_root (absolute_path d p) = (if is_absolute p then pp_root p else pp_root (dk_cwd d))"
  "''..'' \<notin> set (pp_parts (absolute_path d p))"
  by (simp_all add: absolute_path_def join_path_def Let_def normal_parts_normal)

lemma walk_links_free:
  "''..'' \<notin> set todo \<Longrightarrow> \<forall>k < length todo. links (here\<lparr>pp_parts := pp_parts here @ take (Suc k) todo\<rparr>) = None \<Longrightarrow>
     walk_links links hops here todo = Some (here\<lparr>pp_parts := pp_parts here @ todo\<rparr>)"
proof (induction todo arbitrary: here)
  case (Cons c todo)
  have "links (here\<lparr>pp_parts := pp_parts here @ [c]\<rparr>) = None" using Cons.prems(2) by (elim allE [of _ 0]) simp
  moreover have "walk_links links hops (here\<lparr>pp_parts := pp_parts here @ [c]\<rparr>) todo =
      Some (here\<lparr>pp_parts := pp_parts here @ c # todo\<rparr>)"
  proof (subst Cons.IH)
    show "\<forall>k < length todo. links (here\<lparr>pp_parts := pp_parts here @ [c]\<rparr>
        \<lparr>pp_parts := pp_parts (here\<lparr>pp_parts := pp_parts here @ [c]\<rparr>) @ take (Suc k) todo\<rparr>) = None"
      using Cons.prems(2) by (auto dest: spec [of _ "Suc _"])
  qed (use Cons.prems(1) in simp_all)
  moreover have "c \<noteq> ''..''" using Cons.prems(1) by auto
  ultimately show ?case by (simp add: Let_def)
qed simp

lemma resolve_link_free: "link_free d p \<Longrightarrow> resolve_path d p = Inr p"
  unfolding resolve_path_def
  by (cases p, subst walk_links_free)
    (auto simp: link_free_def contains_symlink_def prefixes_of_def list_ex_iff join_path_def is_absolute_def)

lemma walk_links_root: "walk_links links hops here todo = Some q \<Longrightarrow> pp_root here = ''/'' \<Longrightarrow> pp_root q = ''/''"
  by (induction links hops here todo rule: walk_links.induct) (auto simp: Let_def split: if_splits option.splits nat.splits)

lemma resolve_root: "resolve_path d p = Inr q \<Longrightarrow> pp_root q = ''/''"
  by (auto simp: resolve_path_def dest: walk_links_root split: option.splits)

section \<open>What an answer of the guard means\<close>

lemma relative_to_Some: "relative_to p root = Some rel \<longleftrightarrow> pp_root p = pp_root root \<and> pp_parts p = pp_parts root @ rel"
  unfolding relative_to_def by (auto simp: append_eq_conv_conj) (metis append_take_drop_id)

lemma relative_to_same [simp]: "relative_to p p = Some []"
  by (simp add: relative_to_def)

lemma guard_target_cases:
  assumes "guard_target env pol req dir root auth tgt = Inr g" "pp_root root = ''/''"
  obtains (refused) "\<not> gp_allowed g" "gt_root g = root"
  | (judged) rel where "link_free (ge_disk env) (gt_target g)" "relative_to (gt_target g) root = Some rel" "gt_root g = root"
      "gp_root g = path_text root" "gp_relative g = Some (posix_text rel)"
      "gp_reason g = target_reason pol req dir (dk_node (ge_disk env) (gt_target g)) (snd (snd auth)) (posix_text rel) (path_name (gt_target g))"
      "gp_allowed g \<longleftrightarrow> gp_reason g = None" "gt_approved g = Some (fst auth, fst (snd auth))"
proof -
  let ?d = "ge_disk env"
  obtain raw where raw: "expanduser ?d (parse_path tgt) = Inr raw"
    using assms(1) by (auto simp: guard_target_def Let_def bindR_eq_Inr_iff)
  let ?lex = "absolute_path ?d (join_path root raw)"
  show thesis
  proof (cases "relative_to ?lex root")
    case None
    with assms(1) raw have "\<not> gp_allowed g" "gt_root g = root" by (auto simp: guard_target_def Let_def guarded_def)
    then show thesis by (rule refused)
  next
    case (Some rel)
    show thesis
    proof (cases "contains_symlink ?d ?lex")
      case True
      with assms(1) raw Some have "\<not> gp_allowed g" "gt_root g = root" by (auto simp: guard_target_def Let_def guarded_def)
      then show thesis by (rule refused)
    next
      case False
      with Some assms(2) have p: "link_free ?d ?lex"
        using absolute_path_simps(2) [of ?d "join_path root raw"] by (auto simp: link_free_def relative_to_Some)
      from assms(1) raw Some False resolve_link_free [OF p]
      have g: "g = guarded root ?lex (Some (posix_text rel))
          (target_reason pol req dir (dk_node ?d ?lex) (snd (snd auth)) (posix_text rel) (path_name ?lex)) (Some (fst auth, fst (snd auth)))"
        by (simp add: guard_target_def Let_def)
      have t: "gt_target g = ?lex" by (simp add: g guarded_def)
      show thesis by (rule judged [of rel]) (use p Some in \<open>simp_all add: t\<close>, simp_all add: g guarded_def)
    qed
  qed
qed

lemma blocked_from_None: "blocked_from blocked ignored before parts = None \<longleftrightarrow>
    (\<forall>k < length parts. parts ! k \<notin> set blocked \<union> set ignored \<and> join ''/'' (before @ take (Suc k) parts) \<notin> set blocked \<union> set ignored)"
proof (induction parts arbitrary: before)
  case (Cons part parts)
  show ?case by (simp add: Cons.IH Let_def All_less_Suc2)
qed simp

lemma split_on_append: "split_on c (s @ c # t) = split_on c s @ split_on c t"
  by (induction c s rule: split_on.induct) (auto split: list.splits)

lemma normalized_parts_dot: "r \<in> {[], ''.''} \<Longrightarrow> normalized_parts r = []"
  by (auto simp: normalized_parts_def)

lemma effective_parts: "normalized_parts (effective_relative rr rel) = normalized_parts rr @ normalized_parts rel"
proof -
  have "normalized_parts (rr @ CHR ''/'' # rel) = normalized_parts rr @ normalized_parts rel"
    by (simp add: normalized_parts_def split_on_append)
  then show ?thesis by (auto simp: effective_relative_def normalized_parts_dot)
qed

lemma blocked_path_reason_None:
  assumes "blocked_path_reason pol r = None" "part \<in> set (normalized_parts r)"
  shows "casefold part \<notin> set (folded (cp_blocked_parts pol @ cp_ignored_names pol))"
proof -
  from assms(2) obtain k where k: "k < length (map casefold (normalized_parts r))" "map casefold (normalized_parts r) ! k = casefold part"
    by (auto simp: in_set_conv_nth)
  from assms(1) k show ?thesis unfolding blocked_path_reason_def blocked_from_None
    by (auto simp: folded_def)
qed

lemma first_approved_Inr:
  "first_approved pol root roots = Inr (approved, key, below) \<Longrightarrow> (key, approved) \<in> set roots \<and>
     (\<exists>rel. relative_to root approved = Some rel \<and> below = posix_text rel) \<and> blocked_path_reason pol below = None \<and>
     (starts_with ''user_'' key \<longrightarrow> root = approved)"
  by (induction pol root roots rule: first_approved.induct) (auto split: if_splits option.splits)

definition root_trusted :: "guard_env \<Rightarrow> py_path \<Rightarrow> py_path \<times> string \<Rightarrow> bool" where
  \<comment> \<open>not denied, a directory reached without links, narrower than the home directory, and granted or approved\<close>
  "root_trusted env root ak \<longleftrightarrow> \<not> repository_revoked (ge_digest env) (ge_registry env) root \<and>
     dk_node (ge_disk env) root = Directory \<and> \<not> contains_symlink (ge_disk env) root \<and>
     (\<exists>home. home_path (ge_disk env) = Inr home \<and> root \<notin> set (broad_roots home (pp_root root))) \<and>
     (case ge_scoped env of Some scoped \<Rightarrow> root = scoped \<and> fst ak = root
      | None \<Rightarrow> \<exists>roots. configured_workspace_roots env = Inr roots \<and> (snd ak, fst ak) \<in> set roots \<and> under root (fst ak) \<and>
          (starts_with ''user_'' (snd ak) \<longrightarrow> root = fst ak))"

lemma authorize_trusted:
  assumes "authorize_workspace_root env pol root = Inr (Inr (approved, key, below))"
  shows "root_trusted env root (approved, key)"
  using assms unfolding authorize_workspace_root_def root_trusted_def
  by (auto simp: bindR_eq_Inr_iff under_def split: if_splits option.splits dest!: first_approved_Inr)

lemma guard_allowed:
  assumes "guard_workspace_path env pol req dir ws tgt = Inr g" "gp_allowed g"
  obtains auth where "authorize_workspace_root env pol (gt_root g) = Inr (Inr auth)" "pp_root (gt_root g) = ''/''"
    "guard_target env pol req dir (gt_root g) auth tgt = Inr g"
proof -
  obtain raw where raw: "expanduser (ge_disk env) (parse_path ws) = Inr raw"
    "\<not> contains_symlink (ge_disk env) (absolute_path (ge_disk env) raw)"
    using assms by (auto simp: guard_workspace_path_def Let_def bindR_eq_Inr_iff guarded_def split: if_splits)
  with assms obtain root where root: "resolve_path (ge_disk env) raw = Inr root"
    by (auto simp: guard_workspace_path_def Let_def bindR_eq_Inr_iff)
  with assms raw obtain a where a: "authorize_workspace_root env pol root = Inr a"
    "(case a of Inl reason \<Rightarrow> Inr (guarded root root None (Some reason) None) | Inr auth \<Rightarrow> guard_target env pol req dir root auth tgt) = Inr g"
    by (auto simp: guard_workspace_path_def Let_def bindR_eq_Inr_iff simp del: split_paired_Ex)
  then obtain auth where auth: "authorize_workspace_root env pol root = Inr (Inr auth)" "guard_target env pol req dir root auth tgt = Inr g"
    using assms(2) by (cases a) (auto simp: guarded_def)
  from root have r: "pp_root root = ''/''" by (rule resolve_root)
  have "gt_root g = root" by (rule guard_target_cases [OF auth(2) r])
  with auth r show thesis by (intro that) simp_all
qed

definition node_usable :: "bool \<Rightarrow> bool \<Rightarrow> node \<Rightarrow> bool" where
  "node_usable require_existing allow_directory found = (case found of Missing \<Rightarrow> \<not> require_existing
     | Regular links \<Rightarrow> links = 1 | _ \<Rightarrow> allow_directory)"

definition name_permitted :: "coding_policy \<Rightarrow> string \<Rightarrow> string \<Rightarrow> bool" where
  "name_permitted pol relative name \<longleftrightarrow>
     (\<forall>part \<in> set (normalized_parts relative). casefold part \<notin> set (folded (cp_blocked_parts pol @ cp_ignored_names pol))) \<and>
     casefold name \<notin> set (folded (cp_blocked_files pol)) \<and> \<not> matches_blocked_glob relative (map strip (cp_ignored_globs pol)) \<and>
     type_reason pol name = None"

lemma target_reason_None:
  assumes "target_reason pol req dir found below relative name = None"
  shows "node_usable req dir found" "name_permitted pol relative name"
proof -
  from assms show "node_usable req dir found"
    by (auto simp: target_reason_def node_usable_def split: if_splits node.splits)
  from assms have b: "blocked_path_reason pol (effective_relative below relative) = None"
    and "casefold name \<notin> set (folded (cp_blocked_files pol))"
    "\<not> matches_blocked_glob relative (map strip (cp_ignored_globs pol))" "type_reason pol name = None"
    by (auto simp: target_reason_def split: if_splits option.splits)
  then show "name_permitted pol relative name"
    using blocked_path_reason_None [OF b] by (auto simp: name_permitted_def effective_parts)
qed

text \<open>
  Claim C34.  What the guard allows is confined: the target lies below the workspace root, is reached without
  symbolic links or parent steps, is no hard-linked, special or (unless allowed) directory node, and no part of
  it is blocked or ignored by the policy; the root is not revoked, is a directory reached without links, no
  whole home directory, and is the directory of the grant in use or below an approved root.
\<close>

theorem guard_confines:
  assumes "guard_workspace_path env pol req dir ws tgt = Inr g" "gp_allowed g"
  shows "\<exists>rel ak. relative_to (gt_target g) (gt_root g) = Some rel \<and> gp_relative g = Some (posix_text rel) \<and> ''..'' \<notin> set rel \<and>
    \<not> contains_symlink (ge_disk env) (gt_target g) \<and> node_usable req dir (dk_node (ge_disk env) (gt_target g)) \<and>
    name_permitted pol (posix_text rel) (path_name (gt_target g)) \<and> gt_approved g = Some ak \<and> root_trusted env (gt_root g) ak"
proof -
  from assms obtain auth where auth: "authorize_workspace_root env pol (gt_root g) = Inr (Inr auth)" "pp_root (gt_root g) = ''/''"
    "guard_target env pol req dir (gt_root g) auth tgt = Inr g" by (rule guard_allowed)
  have trusted: "root_trusted env (gt_root g) (fst auth, fst (snd auth))"
    using auth(1) by (intro authorize_trusted [where below = "snd (snd auth)"]) simp
  show ?thesis
  proof (cases rule: guard_target_cases [OF auth(3,2)])
    case 1
    with assms(2) show ?thesis by simp
  next
    case (2 rel)
    with assms(2) trusted show ?thesis
      by (intro exI [of _ rel] exI [of _ "(fst auth, fst (snd auth))"])
        (auto simp: link_free_def relative_to_Some dest: target_reason_None)
  qed
qed

section \<open>Canonical paths are answered with themselves\<close>

lemma join_split: "join [c] (split_on c s) = s"
proof (induction s)
  case (Cons x xs)
  obtain y ys where "split_on c xs = y # ys" using split_on_nonempty [of c xs] by (cases "split_on c xs") auto
  with Cons show ?case by (cases ys) auto
qed simp

definition home_free :: "string \<Rightarrow> bool" where
  "home_free s \<longleftrightarrow> \<not> starts_with ''~'' s"

lemma canonical_path:
  assumes "relative_path s = Inr s" "home_free s"
  shows "parse_path s = \<lparr>pp_root = [], pp_parts = split_on CHR ''/'' s\<rparr>" "''..'' \<notin> set (split_on CHR ''/'' s)"
    "posix_text (split_on CHR ''/'' s) = s" "expanduser d (parse_path s) = Inr (parse_path s)"
proof -
  note parts = relative_path_parts [OF assms(1)]
  from parts(3) have f: "filter (\<lambda>c. c \<noteq> [] \<and> c \<noteq> ''.'') (split_on CHR ''/'' s) = split_on CHR ''/'' s"
    by (subst filter_id_conv) auto
  have r: "\<not> starts_with ''//'' s" using parts(2) by (cases s) (auto simp: starts_with_def)
  from parts(2) f r show p: "parse_path s = \<lparr>pp_root = [], pp_parts = split_on CHR ''/'' s\<rparr>" by (simp add: parse_path_def)
  from parts(3) show "''..'' \<notin> set (split_on CHR ''/'' s)" by auto
  from parts(1) show "posix_text (split_on CHR ''/'' s) = s"
    using join_split [of "CHR ''/''" s] by (cases s) (auto simp: posix_text_def path_text_def split: list.splits if_splits)
  have "\<not> starts_with ''~'' (hd (split_on CHR ''/'' s))"
    using assms(2) by (cases s) (auto simp: home_free_def starts_with_def split: list.splits)
  then show "expanduser d (parse_path s) = Inr (parse_path s)" by (simp add: p expanduser_def)
qed

definition root_text :: "disk \<Rightarrow> string \<Rightarrow> bool" where
  \<comment> \<open>a root as the selection of a workspace stores it\<close>
  "root_text d s \<longleftrightarrow> path_text (parse_path s) = s \<and> link_free d (parse_path s)"

lemma absolute_link_free: "link_free d p \<Longrightarrow> absolute_path d p = p"
  by (cases p) (simp add: link_free_def absolute_path_def join_path_def is_absolute_def normal_parts_same)

lemma guard_same_root:
  assumes "guard_workspace_path env pol req dir ws tgt = Inr g" "gp_allowed g" "root_text (ge_disk env) ws"
  shows "gt_root g = parse_path ws"
proof -
  let ?r = "parse_path ws"
  from assms(3) have p: "link_free (ge_disk env) ?r" by (simp add: root_text_def)
  then have r: "pp_root ?r = ''/''" "\<not> contains_symlink (ge_disk env) ?r" by (simp_all add: link_free_def)
  then have "expanduser (ge_disk env) ?r = Inr ?r" by (simp add: expanduser_def is_absolute_def)
  with assms(1) r absolute_link_free [OF p] resolve_link_free [OF p] obtain a where a: "authorize_workspace_root env pol ?r = Inr a"
    "(case a of Inl reason \<Rightarrow> Inr (guarded ?r ?r None (Some reason) None) | Inr auth \<Rightarrow> guard_target env pol req dir ?r auth tgt) = Inr g"
    by (auto simp: guard_workspace_path_def Let_def bindR_eq_Inr_iff simp del: split_paired_Ex)
  show ?thesis
  proof (cases a)
    case (Inl e)
    with a(2) show ?thesis by (auto simp: guarded_def)
  next
    case (Inr auth)
    with a(2) have "guard_target env pol req dir ?r auth tgt = Inr g" by simp
    from guard_target_cases [OF this r(1)] show ?thesis by metis
  qed
qed

text \<open>
  On a root stored by a selection and a canonical relative path that does not start with a tilde, what the
  guard allows is exactly that place: it answers the root and the path it was asked about, and the target is the path
  below the root.
\<close>

lemma guard_same_place:
  assumes "guard_workspace_path env pol req dir ws path = Inr g" "gp_allowed g" "root_text (ge_disk env) ws"
    "relative_path path = Inr path" "home_free path"
  shows "gp_root g = ws \<and> gp_relative g = Some path \<and>
    gt_target g = (parse_path ws)\<lparr>pp_parts := pp_parts (parse_path ws) @ split_on CHR ''/'' path\<rparr>"
proof -
  note root = guard_same_root [OF assms(1-3)]
  let ?r = "parse_path ws"
  note c = canonical_path [OF assms(4,5)]
  from assms(3) have p: "link_free (ge_disk env) ?r" by (simp add: root_text_def)
  from assms(1,2) obtain auth where auth: "pp_root (gt_root g) = ''/''" "guard_target env pol req dir (gt_root g) auth path = Inr g"
    by (rule guard_allowed)
  let ?t = "?r\<lparr>pp_parts := pp_parts ?r @ split_on CHR ''/'' path\<rparr>"
  have lex: "absolute_path (ge_disk env) (join_path ?r (parse_path path)) = ?t"
    using p c(2) by (cases ?r) (simp add: link_free_def absolute_path_def join_path_def is_absolute_def c(1) normal_parts_same)
  have t: "relative_to ?t ?r = Some (split_on CHR ''/'' path)" by (simp add: relative_to_Some)
  have "\<not> contains_symlink (ge_disk env) ?t"
    using auth(2) assms(2) c(4) lex t by (auto simp: root guard_target_def Let_def guarded_def)
  then have "link_free (ge_disk env) ?t" using p c(2) by (simp add: link_free_def)
  from resolve_link_free [OF this] show ?thesis
    using auth(2) c(3,4) lex t \<open>\<not> contains_symlink _ _\<close> assms(3)
    by (auto simp: root guard_target_def Let_def guarded_def root_text_def)
qed

section \<open>Denied repositories\<close>













text \<open>
  Outside such histories, an entry whose root does not fit its key (an edited file) makes a revocation report success
  and deny nothing: the entry is marked, and the check skips it.
\<close>

lemma revoked_entry_skipped:
  assumes "map_of d (dg root) = Some (Some e)" "dg (path_text (parse_path (re_root e))) \<noteq> dg root"
    "\<not> list_ex (denies dg p) (filter (\<lambda>kv. fst kv \<noteq> dg root) d)" "distinct (map fst d)"
  shows "\<exists>r. revoke_repo_approval (dg root) (Some root) profile (Some d) = Inr (True, r) \<and> \<not> repository_revoked dg r p"
proof -
  let ?e = "Some (e\<lparr>re_approved := False, re_revoked := True\<rparr>)"
  have "\<not> denies dg p kv" if "kv \<in> set (AList.update (dg root) ?e d)" for kv
  proof (cases "fst kv = dg root")
    case True
    from assms(4) have "distinct (map fst (AList.update (dg root) ?e d))" by (rule distinct_update)
    moreover have "(dg root, snd kv) \<in> set (AList.update (dg root) ?e d)" using that True by (metis prod.collapse)
    ultimately have "map_of (AList.update (dg root) ?e d) (dg root) = Some (snd kv)" by (rule map_of_is_SomeI)
    then have "snd kv = ?e" by (simp add: update_conv')
    with assms(2) True show ?thesis by (simp add: denies_def Let_def)
  next
    case False
    with that have "kv \<in> set d" by (induction d) (auto split: if_splits)
    with assms(3) False show ?thesis by (cases kv) (auto simp: list_ex_iff)
  qed
  with assms(1) show ?thesis by (auto simp: revoke_repo_approval_def repository_revoked_def list_ex_iff)
qed

section \<open>Where names escape the patterns\<close>

text \<open>
  Blocked parts and file names are compared after folding case, patterns are not: \<open>*.pem\<close> does not see \<open>PEM\<close>.  A name with
  the extension of a registered data, database, binary or engineering type is exempt from every pattern, so the
  pattern \<open>*.sqlite\<close> of the shipped policy never applies, nor \<open>*id_rsa*\<close> to \<open>id_rsa.bin\<close>.
\<close>

lemma glob_keeps_case: "matches_blocked_glob ''server.pem'' [''*.pem''] \<and> \<not> matches_blocked_glob ''server.PEM'' [''*.pem'']"
  by code_simp

lemma registered_types_escape_patterns:
  assumes "lower (name_suffix (path_name (parse_path relative))) \<in> set (data_extensions @ database_extensions @ binary_extensions @ engineering_extensions)"
  shows "\<not> matches_blocked_glob relative globs"
  using assms by (auto simp: matches_blocked_glob_def Let_def)

section \<open>Instances\<close>

definition sample_disk :: disk where
  "sample_disk = \<lparr>dk_link = (\<lambda>p. None),
     dk_node = (\<lambda>p. if p = parse_path ''/home/u/w'' then Directory else if p = parse_path ''/home/u/w/a.py'' then Regular 1 else Missing),
     dk_hops = 40, dk_cwd = parse_path ''/'', dk_home = (\<lambda>s. if s = ''~'' then Some ''/home/u'' else None)\<rparr>"

definition sample_guard_env :: guard_env where
  "sample_guard_env = \<lparr>ge_disk = sample_disk, ge_registry = Some [], ge_profile = ''u'', ge_digest = id, ge_config = [],
     ge_repo_root = parse_path ''/opt/elysia'', ge_runtime = [], ge_scoped = Some (parse_path ''/home/u/w'')\<rparr>"

definition sample_policy :: coding_policy where
  "sample_policy = \<lparr>cp_blocked_parts = [''.git'', ''memory''], cp_ignored_names = [''dist''], cp_blocked_files = [''.env''],
     cp_ignored_globs = [''*.pem'', ''.env.*''], cp_binary = [''.bin'']\<rparr>"

definition sample_target :: guarded_target where
  "sample_target = guarded (parse_path ''/home/u/w'') (parse_path ''/home/u/w/a.py'') (Some ''a.py'') None
     (Some (parse_path ''/home/u/w'', ''codev_session_grant''))"

lemma sample_guarded: "guard_workspace_path sample_guard_env sample_policy True False ''/home/u/w'' ''a.py'' = Inr sample_target"
  by code_simp

text \<open>
  The guard expands a leading tilde of a target: a path of a plan that names a directory \<open>~\<close> of the workspace is answered
  with another file of it.
\<close>

lemma tilde_path_redirected:
  "relative_path ''~/w/a.py'' = Inr ''~/w/a.py'' \<and>
   guard_workspace_path sample_guard_env sample_policy True False ''/home/u/w'' ''~/w/a.py'' = Inr sample_target"
  by code_simp

lemma guard_confines_witness:
  "\<exists>rel ak. relative_to (gt_target sample_target) (gt_root sample_target) = Some rel \<and> root_trusted sample_guard_env (gt_root sample_target) ak"
  using guard_confines [OF sample_guarded] by (auto simp: sample_target_def guarded_def)



end
