(* ===== verification/CodevNative.thy ===== *)
theory CodevNative
  imports CodevState CodingPatches PathGuard
begin

text \<open>
  Native workspaces (\<open>core/codev/workspaces.py\<close>): the selection of a directory, its grant and
  snapshot, planning a patch and applying an approved plan file by file through the coding
  approvals and patches.  What the path guard, \<open>lstat\<close>, the secret scanner and the file adapters
  answer, the edit scripts of \<open>difflib\<close>, clock and fresh identifiers are arguments.
\<close>

section \<open>Workspaces\<close>

record apply_receipt =
  ar_operation_id :: string
  ar_plan_id :: string
  ar_status :: string
  ar_base_revision :: int
  ar_resulting_revision :: int
  ar_inspected :: "string list"
  ar_changed :: "string list"
  ar_verification :: string
  ar_created_at :: time

record native_workspace =
  nw_actor :: actor
  nw_root :: string
  nw_identity :: string
  nw_revision :: int
  nw_base_revision :: int
  nw_base_hash :: "string option"
  nw_snapshot :: string
  nw_files :: "workspace_file list"
  nw_receipts :: "apply_receipt list"

record native =
  n_codev :: codev
  n_workspaces :: "(string \<times> native_workspace) list"
  n_approvals :: approvals
  n_store :: file_store

record native_env =
  ne_codev :: codev_env
  ne_now :: time
  ne_fresh :: string
  ne_candidate :: "string \<Rightarrow> string + string" \<comment> \<open>refusal or the directory\<close>
  ne_owned :: "string \<Rightarrow> bool"
  ne_identity :: "string \<Rightarrow> string option" \<comment> \<open>device and inode; \<open>None\<close> when \<open>lstat\<close> raises\<close>
  ne_scope :: "string \<Rightarrow> guarded_path" \<comment> \<open>the guard on the root itself\<close>
  ne_guard :: path_guard
  ne_decodes :: "string \<Rightarrow> string \<Rightarrow> bool" \<comment> \<open>the bytes are UTF-8\<close>
  ne_secrets :: "string \<Rightarrow> bool"
  ne_adapter :: "string \<Rightarrow> string \<Rightarrow> string option \<Rightarrow> string option"
  ne_script :: "string \<Rightarrow> string \<Rightarrow> hunk list"
  ne_patch :: "nat \<Rightarrow> patch_env" \<comment> \<open>of the change at a position of the plan\<close>

type_synonym 'a native_action = "(native, codev_error, 'a) action"

definition native_auth :: "native \<Rightarrow> authority" where
  "native_auth n = c_auth (n_codev n)"

definition native_grants :: "native \<Rightarrow> grant_store" where
  "native_grants n = a_grants (native_auth n)"

definition put_native :: "string \<Rightarrow> native_workspace \<Rightarrow> native \<Rightarrow> native" where
  "put_native w v n = n\<lparr>n_workspaces := AList.update w v (n_workspaces n)\<rparr>"

definition guard_reason :: "guarded_path \<Rightarrow> codev_error" where
  "guard_reason g = GrantDenied (case gp_reason g of None \<Rightarrow> ''None'' | Some r \<Rightarrow> r)"

definition select_workspace :: "native_env \<Rightarrow> actor \<Rightarrow> string \<Rightarrow> string native_action" where
  \<comment> \<open>the identifier of the descriptor\<close>
  "select_workspace env a path n =
     (if client_kind a \<noteq> Native then (Inl (GrantDenied ''native_workspace_selection_required''), n)
      else case ne_candidate env path of Inl e \<Rightarrow> (Inl (GrantDenied e), n)
      | Inr root \<Rightarrow> (case ne_identity env root of None \<Rightarrow> (Inl (OSError ''lstat''), n)
        | Some identity \<Rightarrow>
            if \<not> ne_owned env root then (Inl (GrantDenied ''workspace_root_not_owned_by_local_user''), n)
            else if 128 \<le> length (n_workspaces n) then (Inl (GrantDenied ''workspace_capacity_reached''), n)
            else (case workspace_hash (ne_codev env) [] of Inl e \<Rightarrow> (Inl e, n)
              | Inr h \<Rightarrow> let w = ''workspace_'' @ ne_fresh env in (Inr w, put_native w
                  \<lparr>nw_actor = a, nw_root = root, nw_identity = identity, nw_revision = 0, nw_base_revision = 0, nw_base_hash = None,
                   nw_snapshot = h, nw_files = [], nw_receipts = []\<rparr> n))))"

definition own_workspace :: "actor \<Rightarrow> string \<Rightarrow> native \<Rightarrow> codev_error + native_workspace" where
  "own_workspace a w n = (case map_of (n_workspaces n) w of
       None \<Rightarrow> Inl (GrantDenied ''workspace_not_found_for_client'')
     | Some v \<Rightarrow> if nw_actor v = a then Inr v else Inl (GrantDenied ''workspace_not_found_for_client''))"

definition get_workspace :: "native_env \<Rightarrow> actor \<Rightarrow> string \<Rightarrow> native \<Rightarrow> codev_error + native_workspace" where
  "get_workspace env a w n = bindR (own_workspace a w n) (\<lambda>v.
     case ne_identity env (nw_root v) of None \<Rightarrow> Inl (GrantDenied ''workspace_unavailable'')
     | Some i \<Rightarrow> if i = nw_identity v then Inr v else Inl (GrantDenied ''workspace_directory_changed''))"

definition in_root :: "native_env \<Rightarrow> native_workspace \<Rightarrow> codev_error + unit" where
  \<comment> \<open>\<open>_scope\<close>\<close>
  "in_root env v = raise_if (\<not> gp_allowed (ne_scope env (nw_root v))) (guard_reason (ne_scope env (nw_root v)))"

section \<open>Snapshots\<close>

definition native_file :: "native_env \<Rightarrow> native_workspace \<Rightarrow> file_store \<Rightarrow> string \<Rightarrow> codev_error + workspace_file" where
  "native_file env v store path = (let g = ne_guard env (nw_root v) path in
     if \<not> gp_allowed g then Inl (guard_reason g)
     else case map_of store (nw_root v, path) of None \<Rightarrow> Inl (OSError path)
     | Some t \<Rightarrow>
         Inr (if 131072 < utf8_length t
              then \<lparr>wf_path = path, wf_content_hash = None, wf_size = int (utf8_length t), wf_availability = Av_oversized,
                wf_text = None, wf_provenance = ''local_file''\<rparr>
              else let av = (if \<not> ne_decodes env (nw_root v) path \<or> CHR 0x00 \<in> set t then Av_binary
                  else if ne_secrets env t then Av_excluded else Av_text)
                in \<lparr>wf_path = path, wf_content_hash = Some (sha256 (ne_codev env) t), wf_size = int (utf8_length t), wf_availability = av,
                  wf_text = (if av = Av_text then Some t else None), wf_provenance = ''local_file''\<rparr>))"

definition selected_paths :: "workspace_grant option \<Rightarrow> string list" where
  "selected_paths g = (case g of None \<Rightarrow> []
     | Some g \<Rightarrow> if ''read'' \<in> set (scopes g) \<and> \<not> revoked g then g_files g else [])"

definition read_selected :: "native_env \<Rightarrow> string \<Rightarrow> native_workspace \<Rightarrow> native \<Rightarrow> codev_error + workspace_file list" where
  "read_selected env w v n = (let g = get_grant (nw_actor v) w (native_grants n) in
     bindR (in_root env v) (\<lambda>_. mapR (\<lambda>path.
       bindR (require (ne_now env) (nw_actor v) w ''read'' [path] (map_option epoch g) None (native_grants n)) (\<lambda>_.
       native_file env v (n_store n) path)) (selected_paths g)))"

definition refreshed :: "workspace_file list \<Rightarrow> string \<Rightarrow> native_workspace \<Rightarrow> native_workspace" where
  "refreshed files digest v = (let
       r = (if digest \<noteq> nw_snapshot v then nw_revision v + 1 else nw_revision v);
       fresh = (nw_base_hash v = None \<and> files \<noteq> [])
     in v\<lparr>nw_revision := r, nw_snapshot := digest, nw_base_hash := (if fresh then Some digest else nw_base_hash v),
       nw_base_revision := (if fresh then r else nw_base_revision v), nw_files := files\<rparr>)"

definition refresh :: "native_env \<Rightarrow> string \<Rightarrow> native_workspace \<Rightarrow> native_workspace native_action" where
  "refresh env w v n = (case bindR (read_selected env w v n) (\<lambda>files. bindR (workspace_hash (ne_codev env) files) (\<lambda>h. Inr (files, h))) of
       Inl e \<Rightarrow> (Inl e, n)
     | Inr (files, h) \<Rightarrow> (Inr (refreshed files h v), put_native w (refreshed files h v) n))"

definition snapshot :: "native_env \<Rightarrow> actor \<Rightarrow> string \<Rightarrow> native_workspace native_action" where
  "snapshot env a w n = (case get_workspace env a w n of Inl e \<Rightarrow> (Inl e, n)
     | Inr v \<Rightarrow> (case require (ne_now env) a w ''metadata'' [] None None (native_grants n) of Inl e \<Rightarrow> (Inl e, n)
       | Inr g \<Rightarrow> refresh env w v n))"

definition shown_files :: "native_env \<Rightarrow> string \<Rightarrow> native_workspace \<Rightarrow> native \<Rightarrow> workspace_file list" where
  \<comment> \<open>\<open>_descriptor\<close>: files are shown under a live grant only\<close>
  "shown_files env w v n = (case get_grant (nw_actor v) w (native_grants n) of None \<Rightarrow> []
     | Some g \<Rightarrow> if \<not> revoked g \<and> ne_now env < g_expires_at g then nw_files v else [])"

section \<open>Granting and revoking\<close>

fun guard_each :: "native_env \<Rightarrow> native_workspace \<Rightarrow> string list \<Rightarrow> codev_error + unit" where
  "guard_each env v [] = Inr ()"
| "guard_each env v (p # ps) = bindR (relative_path p) (\<lambda>path.
     if gp_allowed (ne_guard env (nw_root v) path) then guard_each env v ps else Inl (guard_reason (ne_guard env (nw_root v) path)))"

definition on_codev_auth :: "(authority \<Rightarrow> authority) \<Rightarrow> native \<Rightarrow> native" where
  "on_codev_auth f n = n\<lparr>n_codev := (n_codev n)\<lparr>c_auth := f (native_auth n)\<rparr>\<rparr>"

definition grant_workspace :: "native_env \<Rightarrow> issue_request \<Rightarrow> workspace_grant native_action" where
  "grant_workspace env r n = (let a = ir_actor r; w = ir_workspace_id r in
     case bindR (get_workspace env a w n) (\<lambda>v. bindR (in_root env v) (\<lambda>_. bindR (guard_each env v (ir_files r)) (\<lambda>_. Inr v))) of
       Inl e \<Rightarrow> (Inl e, n)
     | Inr v \<Rightarrow> (case issue (ne_now env) (ne_fresh env) r (native_grants n) of (Inl e, gs) \<Rightarrow> (Inl e, n)
       | (Inr g, gs) \<Rightarrow> (case refresh env w v (on_codev_auth (\<lambda>s. s\<lparr>a_grants := gs\<rparr>) n) of
             (Inl e, n') \<Rightarrow> (Inl e, n')
           | (Inr v', n') \<Rightarrow> (Inr g, n'))))"

definition revoke_native :: "actor \<Rightarrow> string \<Rightarrow> unit native_action" where
  "revoke_native a w n = (case own_workspace a w n of Inl e \<Rightarrow> (Inl e, n)
     | Inr v \<Rightarrow> (Inr (), put_native w (v\<lparr>nw_files := []\<rparr>)
         (n\<lparr>n_codev := cancel_workspace_chats a w (discard_plans a (Some w) (on_grants (\<lambda>gs. snd (revoke a w gs)) (n_codev n)))\<rparr>)))"

section \<open>Planning\<close>

definition plan_change :: "native_env \<Rightarrow> native_workspace \<Rightarrow> string \<times> string \<Rightarrow> codev_error + file_change list" where
  "plan_change env v pe = (let (path, updated) = pe in
     case map_of (map (\<lambda>f. (wf_path f, f)) (rev (nw_files v))) path of
       None \<Rightarrow> Inl (GrantDenied ''approved_text_source_unavailable'')
     | Some f \<Rightarrow> (case wf_text f of None \<Rightarrow> Inl (GrantDenied ''approved_text_source_unavailable'')
       | Some original \<Rightarrow>
           if 131072 < utf8_length updated \<or> ne_secrets env updated then Inl (GrantDenied ''proposed_content_limit_or_secret'')
           else (case ne_adapter env path original (Some updated) of Some reason \<Rightarrow> Inl (GrantDenied reason)
             | None \<Rightarrow> Inr (if updated = original then []
                 else [\<lparr>c_path = path, base_hash = (case wf_content_hash f of None \<Rightarrow> [] | Some h \<Rightarrow> h), new_text = updated,
                   new_hash = sha256 (ne_codev env) updated, diff = render_diff path (ne_script env original updated)\<rparr>]))))"

definition plan_of :: "native_env \<Rightarrow> actor \<Rightarrow> string \<Rightarrow> native_workspace \<Rightarrow> int \<Rightarrow> string \<Rightarrow> file_change list \<Rightarrow> change_plan" where
  "plan_of env a w v ep summary cs = \<lparr>plan_id = ''plan_'' @ ne_fresh env, p_workspace_id = w, p_actor = a, base_revision = nw_revision v,
     p_workspace_hash = nw_snapshot v, p_grant_epoch = ep, plan_hash = replicate 64 CHR ''0'', p_summary = take 2000 summary, changes = cs,
     command_id = None, command_argv = [], cwd_label = last (split_on CHR ''/'' (nw_root v)), network_policy = ''none'',
     expected_checks = [''Exact source hash'', ''File type and syntax guard'', ''Secret scan'', ''Post-write hash''],
     risks = [''Each file requires its current source hash. Multi-file failure is reported as partial.''],
     p_expires_at = ne_now env + seconds 300, recovery_note = ''A private exact-byte backup precedes each replacement.''\<rparr>"

definition plan_patch :: "native_env \<Rightarrow> actor \<Rightarrow> string \<Rightarrow> (string \<times> string) list \<Rightarrow> int \<Rightarrow> string \<Rightarrow> change_plan native_action" where
  "plan_patch env a w edits rv summary n =
     (case bindR (get_workspace env a w n) (\<lambda>v. bindR (require (ne_now env) a w ''propose'' (map fst edits) None None (native_grants n))
         (\<lambda>g. Inr (v, g))) of Inl e \<Rightarrow> (Inl e, n)
      | Inr (v, g) \<Rightarrow> (case refresh env w v n of (Inl e, n') \<Rightarrow> (Inl e, n')
        | (Inr v', n') \<Rightarrow>
            if nw_revision v' \<noteq> rv then (Inl (GrantDenied ''workspace_revision_conflict''), n')
            else if edits = [] \<or> 20 < length edits then (Inl (GrantDenied ''bounded_change_set_required''), n')
            else (case mapR (plan_change env v') edits of Inl e \<Rightarrow> (Inl e, n')
              | Inr css \<Rightarrow> (case register (ne_codev env) (ne_now env) (plan_of env a w v' (epoch g) summary (concat css)) (native_auth n') of
                    (r, auth) \<Rightarrow> (r, on_codev_auth (\<lambda>_. auth) n')))))"

section \<open>Applying\<close>

definition patch_prefix :: "string \<Rightarrow> string" where
  "patch_prefix digest = take 32 digest"

definition approval_for :: "native_env \<Rightarrow> string \<Rightarrow> change_plan \<Rightarrow> file_change \<Rightarrow> approve_payload" where
  "approval_for env root p c = \<lparr>ap_kind = ''patch_apply'', ap_summary = p_summary p, ap_workspace = root, ap_files = [c_path c],
     ap_source = Some (base_hash c), ap_plan = patch_prefix (sha256 (ne_codev env) (diff c)), ap_class = ''text_patch'', ap_seconds = 600,
     ap_approved = True\<rparr>"

definition patch_for :: "native_env \<Rightarrow> string \<Rightarrow> operation_approval \<Rightarrow> file_change \<Rightarrow> patch_payload" where
  "patch_for env root child c = \<lparr>pp_workspace = root, pp_target = c_path c, pp_diff = diff c, pp_expected = base_hash c,
     pp_hash = patch_prefix (sha256 (ne_codev env) (diff c)), pp_mode = Some ''apply_with_approval'', pp_id = Some (oa_id child),
     pp_token = oa_token child, pp_approved = True\<rparr>"

text \<open>One change: whether it was applied and verified, and whether the file was reported as changed.\<close>

definition apply_change :: "native_env \<Rightarrow> nat \<Rightarrow> actor \<Rightarrow> string \<Rightarrow> string \<Rightarrow> change_plan \<Rightarrow> file_change \<Rightarrow> native \<Rightarrow> (bool \<times> bool) \<times> native" where
  "apply_change env k a w root p c n =
     (case require (ne_now env) a w ''apply'' [c_path c] (Some (p_grant_epoch p)) None (native_grants n) of
        Inl e \<Rightarrow> ((False, False), n)
      | Inr g \<Rightarrow>
          (case approve_operation (pe_call (ne_patch env k)) (approval_for env root p c) (n_approvals n) of
             (Inl e, s) \<Rightarrow> ((False, False), n\<lparr>n_approvals := s\<rparr>)
           | (Inr child, s) \<Rightarrow>
               (case apply_patch_with_approval (ne_patch env k) (patch_for env root child c) (s, n_store n) of
                  (Inl e, s', store) \<Rightarrow> ((False, False), n\<lparr>n_approvals := s', n_store := store\<rparr>)
                | (Inr r, s', store) \<Rightarrow>
                    ((pr_status r = ''applied'' \<and>
                       (case map_of store (root, c_path c) of None \<Rightarrow> False
                        | Some t \<Rightarrow> utf8_length t \<le> 131072 \<and> sha256 (ne_codev env) t = new_hash c), pr_mutated r),
                     n\<lparr>n_approvals := s', n_store := store\<rparr>))))"

fun apply_changes :: "native_env \<Rightarrow> nat \<Rightarrow> actor \<Rightarrow> string \<Rightarrow> string \<Rightarrow> change_plan \<Rightarrow> file_change list \<Rightarrow> native \<Rightarrow> (bool \<times> string list) \<times> native" where
  \<comment> \<open>stops at the first change that fails; whether all were verified, and the files reported as changed\<close>
  "apply_changes env k a w root p [] n = ((True, []), n)"
| "apply_changes env k a w root p (c # cs) n = (case apply_change env k a w root p c n of
       ((ok, mutated), n') \<Rightarrow> (let here = (if mutated then [c_path c] else []) in
         if ok then (case apply_changes env (Suc k) a w root p cs n' of ((all_ok, changed), n'') \<Rightarrow> ((all_ok, here @ changed), n''))
         else ((False, here), n')))"

definition receipt_of :: "native_env \<Rightarrow> change_plan \<Rightarrow> int \<Rightarrow> bool \<Rightarrow> string list \<Rightarrow> apply_receipt" where
  "receipt_of env p rv verified changed = \<lparr>ar_operation_id = ''operation_'' @ ne_fresh env, ar_plan_id = plan_id p,
     ar_status = (if length changed = length (changes p) \<and> verified then ''completed'' else if changed \<noteq> [] then ''partial'' else ''failed''),
     ar_base_revision = base_revision p, ar_resulting_revision = rv, ar_inspected = map c_path (changes p), ar_changed = changed,
     ar_verification = (if verified then ''passed'' else ''required''), ar_created_at = ne_now env\<rparr>"

definition remember_apply :: "apply_receipt \<Rightarrow> native_workspace \<Rightarrow> native_workspace" where
  "remember_apply r v = (let kept = filter (\<lambda>x. ar_operation_id x \<noteq> ar_operation_id r) (nw_receipts v)
     in v\<lparr>nw_receipts := drop (length kept - 39) kept @ [r]\<rparr>)"

definition apply_plan :: "native_env \<Rightarrow> native_env \<Rightarrow> actor \<Rightarrow> string \<Rightarrow> string \<Rightarrow> string \<Rightarrow> string \<Rightarrow> apply_receipt native_action" where
  \<comment> \<open>the second environment is what the snapshot after the changes reads\<close>
  "apply_plan env after a w pid aid token n =
     (case bindR (get_workspace env a w n) (\<lambda>v. bindR (in_root env v) (\<lambda>_. Inr v)) of Inl e \<Rightarrow> (Inl e, n)
      | Inr v \<Rightarrow> (case refresh env w v n of (Inl e, n1) \<Rightarrow> (Inl e, n1)
        | (Inr v1, n1) \<Rightarrow> (case get_plan (ne_now env) a pid (native_auth n1) of Inl e \<Rightarrow> (Inl e, n1)
          | Inr q \<Rightarrow>
              if p_workspace_id q \<noteq> w then (Inl (GrantDenied ''approval_workspace_mismatch''), n1)
              else (case consume (ne_codev env) (ne_now env) a aid token pid (nw_revision v1) (nw_snapshot v1) (native_auth n1) of
                  (Inl e, auth) \<Rightarrow> (Inl e, on_codev_auth (\<lambda>_. auth) n1)
                | (Inr p, auth) \<Rightarrow> (let n2 = on_codev_auth (\<lambda>_. auth) n1 in
                    if truthy (command_id p) then (Inl (GrantDenied ''wrong_operation_class''), n2)
                    else (case apply_changes env 0 a w (nw_root v1) p (changes p) n2 of ((verified, changed), n3) \<Rightarrow>
                      (let (out, n4) = refresh after w v1 n3;
                           v2 = (case out of Inl e \<Rightarrow> v1 | Inr v' \<Rightarrow> v');
                           r = receipt_of env p (nw_revision v2) (verified \<and> (case out of Inl e \<Rightarrow> False | Inr v' \<Rightarrow> True)) changed
                       in (Inr r, put_native w (remember_apply r v2) n4))))))))"

section \<open>What applying a plan does to the files\<close>

text \<open>
  What the path guard answers for a canonical path is the file itself, as the guard of \<open>PathGuard\<close> does below a
  root without links.  The digests of the two services are the same function.
\<close>

definition canonical_name :: "string \<Rightarrow> bool" where
  "canonical_name path \<longleftrightarrow> safe_file path \<and> home_free path"

lemma registered_names:
  "authority_ok env s \<Longrightarrow> kp \<in> set (a_plans s) \<Longrightarrow> c \<in> set (changes (snd kp)) \<Longrightarrow> home_free (c_path c) \<Longrightarrow>
     canonical_name (c_path c)"
  by (auto simp: authority_ok_def plan_ok_def canonical_name_def)

definition in_backups :: "string \<Rightarrow> string \<times> string \<Rightarrow> bool" where
  "in_backups root place \<longleftrightarrow> fst place = root \<and> starts_with ''.elysia_backups/'' (snd place)"

lemma backup_in_backups [simp]: "in_backups root (backup_place e (root, path))"
  by (simp add: in_backups_def backup_place_def Let_def starts_with_def)

text \<open>No path of a plan lies in the backup directory: its name is denied.\<close>

lemma canonical_no_backup:
  assumes "canonical_name path"
  shows "\<not> in_backups root (root, path)"
proof
  assume "in_backups root (root, path)"
  then obtain rest where p: "path = ''.elysia_backups/'' @ rest"
    unfolding in_backups_def starts_with_def by (metis append_take_drop_id snd_conv)
  have "casefold path = ''.elysia_backups'' @ CHR ''/'' # casefold rest"
    unfolding p casefold_def by (simp add: fold_char_def)
  then have "''.elysia_backups'' \<in> set (split_on CHR ''/'' (casefold path))"
    by (simp add: split_on_append)
  moreover have "denied_part ''.elysia_backups''" by (simp add: denied_part_def denied_parts_def)
  ultimately have "list_ex denied_part (split_on CHR ''/'' (casefold path))" by (auto simp: list_ex_iff)
  moreover from assms have "denied_path path = Inr False" "relative_path path = Inr path"
    by (simp_all add: canonical_name_def safe_file_def)
  ultimately show False by (simp add: denied_path_def)
qed

definition guard_exact :: "native_env \<Rightarrow> string \<Rightarrow> bool" where
  "guard_exact env root \<longleftrightarrow> (\<forall>k path. (let g = pe_guard (ne_patch env k) root path in
     canonical_name path \<and> gp_allowed g \<longrightarrow> gp_root g = root \<and> gp_relative g = Some path) \<and> pe_sha (ne_patch env k) = sha256 (ne_codev env))"

definition guard_of :: "guard_env \<Rightarrow> coding_policy \<Rightarrow> bool \<Rightarrow> bool \<Rightarrow> path_guard" where
  \<comment> \<open>\<open>guard_workspace_path\<close> as the services call it; where it raises, the request fails\<close>
  "guard_of genv pol req dir ws path = (case guard_workspace_path genv pol req dir ws path of
       Inr g \<Rightarrow> guarded_path.truncate g
     | Inl e \<Rightarrow> \<lparr>gp_allowed = False, gp_root = [], gp_relative = None, gp_reason = Some ''RuntimeError''\<rparr>)"

lemma guard_of_exact:
  assumes "\<And>k. pe_guard (ne_patch env k) = guard_of (genv k) pol req dir" "\<And>k. pe_sha (ne_patch env k) = sha256 (ne_codev env)"
    and "\<And>k. root_text (ge_disk (genv k)) root"
  shows "guard_exact env root"
  unfolding guard_exact_def
proof (intro allI)
  fix k path
  have "gp_root g = root \<and> gp_relative g = Some path"
    if "guard_workspace_path (genv k) pol req dir root path = Inr g" "gp_allowed g" "canonical_name path" for g
    using guard_same_place [OF that(1,2) assms(3)] that(3) by (simp add: canonical_name_def safe_file_def)
  then show "(let g = pe_guard (ne_patch env k) root path in
     canonical_name path \<and> gp_allowed g \<longrightarrow> gp_root g = root \<and> gp_relative g = Some path) \<and> pe_sha (ne_patch env k) = sha256 (ne_codev env)"
    by (auto simp: assms(1,2) guard_of_def guarded_path.truncate_def Let_def split: sum.splits)
qed

text \<open>
  What lies between two stores: places outside a set are the same or were free and are in the
  backup directory; a change is done when its diff was applied to the text with the hash of the
  plan, and a new backup holds that text.
\<close>

definition only_backups :: "string \<Rightarrow> (string \<times> string) set \<Rightarrow> file_store \<Rightarrow> file_store \<Rightarrow> bool" where
  "only_backups root targets before after \<longleftrightarrow> (\<forall>place. place \<notin> targets \<longrightarrow>
     map_of after place = map_of before place \<or> (map_of before place = None \<and> in_backups root place))"

definition change_done :: "native_env \<Rightarrow> string \<Rightarrow> file_change \<Rightarrow> file_store \<Rightarrow> file_store \<Rightarrow> bool" where
  "change_done env root c before after \<longleftrightarrow> (\<exists>current t. map_of before (root, c_path c) = Some current \<and>
     sha256 (ne_codev env) current = base_hash c \<and> apply_unified_diff current (diff c) = Inr t \<and>
     map_of after (root, c_path c) = Some t \<and>
     (\<exists>b. in_backups root b \<and> map_of before b = None \<and> map_of after b = Some current))"

lemma only_backups_refl [simp]: "only_backups root targets s s"
  by (simp add: only_backups_def)

lemma only_backups_mono: "only_backups root T s t \<Longrightarrow> T \<subseteq> T' \<Longrightarrow> only_backups root T' s t"
  unfolding only_backups_def by blast

lemma only_backups_trans: "only_backups root T s t \<Longrightarrow> only_backups root T t u \<Longrightarrow> only_backups root T s u"
  unfolding only_backups_def by metis

lemma only_backups_kept: "only_backups root T s t \<Longrightarrow> map_of s place = Some x \<Longrightarrow> place \<notin> T \<Longrightarrow> map_of t place = Some x"
  unfolding only_backups_def by (metis option.distinct(1))

lemma only_backups_free: "only_backups root T s t \<Longrightarrow> map_of t place = None \<Longrightarrow> place \<notin> T \<Longrightarrow> map_of s place = None"
  unfolding only_backups_def by metis

lemma patch_store_effect:
  assumes "apply_patch_with_approval (ne_patch env k) (patch_for env root child c) (s, n_store n) = (r, s', store)"
    and "guard_exact env root" "canonical_name (c_path c)"
  shows "(\<exists>out. r = Inr out \<and> pr_mutated out) \<Longrightarrow>
      change_done env root c (n_store n) store \<and> only_backups root {(root, c_path c)} (n_store n) store"
    and "\<not> (\<exists>out. r = Inr out \<and> pr_mutated out) \<Longrightarrow> only_backups root {} (n_store n) store"
    and "r = Inr out \<Longrightarrow> pr_status out = ''applied'' \<Longrightarrow> pr_mutated out"
proof -
  let ?b = "backup_place (ne_patch env k) (root, c_path c)"
  have checked: "place = (root, c_path c) \<and> (\<exists>current. map_of (n_store n) (root, c_path c) = Some current \<and>
      sha256 (ne_codev env) current = base_hash c \<and> apply_unified_diff current (diff c) = Inr updated)"
    if "check_patch (ne_patch env k) (patch_for env root child c) (n_store n) = Inr (place, updated)" for place updated
  proof -
    from that obtain current where c: "place = (gp_root (pe_guard (ne_patch env k) root (c_path c)),
        the (gp_relative (pe_guard (ne_patch env k) root (c_path c))))" "gp_allowed (pe_guard (ne_patch env k) root (c_path c))"
      "map_of (n_store n) place = Some current" "pe_sha (ne_patch env k) current = base_hash c"
      "apply_unified_diff current (diff c) = Inr updated"
      by (auto simp: patch_for_def elim!: check_patch_passed)
    with assms(2,3) have "place = (root, c_path c)" by (auto simp: guard_exact_def Let_def)
    moreover from assms(2) have "pe_sha (ne_patch env k) = sha256 (ne_codev env)" by (simp add: guard_exact_def)
    ultimately show ?thesis using c by auto
  qed
  have backed_up: "\<exists>current. map_of (n_store n) (root, c_path c) = Some current \<and> map_of (n_store n) ?b = None \<and>
      map_of kept = (map_of (n_store n))(?b \<mapsto> current) \<and> ?b \<noteq> (root, c_path c)"
    if "create_coding_backup (ne_patch env k) (root, c_path c) (n_store n) = Some kept" for kept
    using that by (rule backup_made) (auto simp: update_conv' simp del: fun_upd_apply)
  show "(\<exists>out. r = Inr out \<and> pr_mutated out) \<Longrightarrow>
      change_done env root c (n_store n) store \<and> only_backups root {(root, c_path c)} (n_store n) store"
  proof (cases rule: patch_outcome [OF assms(1)])
    case (3 place updated kept out)
    from checked [OF 3(1)] obtain current where c: "place = (root, c_path c)" "map_of (n_store n) (root, c_path c) = Some current"
      "sha256 (ne_codev env) current = base_hash c" "apply_unified_diff current (diff c) = Inr updated" by blast
    from backed_up 3(2) c(1,2) have k: "map_of (n_store n) ?b = None" "map_of kept = (map_of (n_store n))(?b \<mapsto> current)"
      "?b \<noteq> (root, c_path c)" by auto
    have after: "map_of store = (map_of (n_store n))(?b \<mapsto> current, (root, c_path c) \<mapsto> updated)"
      unfolding 3(4) c(1) by (simp add: update_conv' k(2) del: fun_upd_apply)
    have "change_done env root c (n_store n) store"
      unfolding change_done_def using c k(1,3) after
      by (intro exI [of _ current] exI [of _ updated] conjI exI [of _ ?b]) simp_all
    moreover have "only_backups root {(root, c_path c)} (n_store n) store"
      unfolding only_backups_def using k(1) after by simp
    ultimately show ?thesis by blast
  qed auto
  show "\<not> (\<exists>out. r = Inr out \<and> pr_mutated out) \<Longrightarrow> only_backups root {} (n_store n) store"
  proof (cases rule: patch_outcome [OF assms(1)])
    case (2 place updated)
    from checked [OF 2(1)] have "place = (root, c_path c)" by blast
    with backed_up 2(2) show ?thesis unfolding only_backups_def by (metis backup_in_backups fun_upd_apply)
  qed auto
  show "r = Inr out \<Longrightarrow> pr_status out = ''applied'' \<Longrightarrow> pr_mutated out"
    by (cases rule: patch_outcome [OF assms(1)]) auto
qed

lemma apply_change_effect:
  assumes "apply_change env k a w root p c n = ((ok, mutated), n')" "guard_exact env root" "canonical_name (c_path c)"
  shows "mutated \<Longrightarrow> change_done env root c (n_store n) (n_store n') \<and> only_backups root {(root, c_path c)} (n_store n) (n_store n')"
    and "\<not> mutated \<Longrightarrow> only_backups root {} (n_store n) (n_store n')"
    and "ok \<Longrightarrow> mutated \<and> (\<exists>t. map_of (n_store n') (root, c_path c) = Some t \<and> sha256 (ne_codev env) t = new_hash c)"
    and "n_codev n' = n_codev n" "n_workspaces n' = n_workspaces n"
proof -
  have *: "(mutated \<longrightarrow> change_done env root c (n_store n) (n_store n') \<and> only_backups root {(root, c_path c)} (n_store n) (n_store n')) \<and>
    (\<not> mutated \<longrightarrow> only_backups root {} (n_store n) (n_store n')) \<and>
    (ok \<longrightarrow> mutated \<and> (\<exists>t. map_of (n_store n') (root, c_path c) = Some t \<and> sha256 (ne_codev env) t = new_hash c)) \<and>
    n_codev n' = n_codev n \<and> n_workspaces n' = n_workspaces n"
  proof (cases "\<exists>g child s. require (ne_now env) a w ''apply'' [c_path c] (Some (p_grant_epoch p)) None (native_grants n) = Inr g \<and>
      approve_operation (pe_call (ne_patch env k)) (approval_for env root p c) (n_approvals n) = (Inr child, s)")
    case False
    with assms(1) show ?thesis
      by (auto simp: apply_change_def split: sum.splits prod.splits)
  next
    case True
    then obtain g child s where g: "require (ne_now env) a w ''apply'' [c_path c] (Some (p_grant_epoch p)) None (native_grants n) = Inr g"
      "approve_operation (pe_call (ne_patch env k)) (approval_for env root p c) (n_approvals n) = (Inr child, s)" by blast
    obtain r s' store where r: "apply_patch_with_approval (ne_patch env k) (patch_for env root child c) (s, n_store n) = (r, s', store)"
      by (metis prod.exhaust)
    note effect = patch_store_effect [OF r assms(2,3)]
    show ?thesis
    proof (cases r)
      case (Inl e)
      with effect(2) assms(1) g r show ?thesis by (auto simp: apply_change_def)
    next
      case (Inr out)
      with effect assms(1) g r show ?thesis by (auto simp: apply_change_def split: option.splits)
    qed
  qed
  then show "mutated \<Longrightarrow> change_done env root c (n_store n) (n_store n') \<and> only_backups root {(root, c_path c)} (n_store n) (n_store n')"
    "\<not> mutated \<Longrightarrow> only_backups root {} (n_store n) (n_store n')"
    "n_codev n' = n_codev n" "n_workspaces n' = n_workspaces n"
    "ok \<Longrightarrow> mutated \<and> (\<exists>t. map_of (n_store n') (root, c_path c) = Some t \<and> sha256 (ne_codev env) t = new_hash c)" by simp_all
qed

definition plan_progress :: "native_env \<Rightarrow> string \<Rightarrow> file_change list \<Rightarrow> bool \<Rightarrow> string list \<Rightarrow> file_store \<Rightarrow> file_store \<Rightarrow> bool" where
  \<comment> \<open>some first changes were applied, besides them only backups were added, and all were applied when all were verified\<close>
  "plan_progress env root cs all_ok changed before after \<longleftrightarrow> (\<exists>j \<le> length cs. changed = map c_path (take j cs) \<and>
     only_backups root ((\<lambda>path. (root, path)) ` set changed) before after \<and>
     (distinct (map c_path cs) \<longrightarrow> (\<forall>c \<in> set (take j cs). change_done env root c before after)) \<and>
     (all_ok \<longrightarrow> j = length cs \<and> (distinct (map c_path cs) \<longrightarrow>
        (\<forall>c \<in> set cs. \<exists>t. map_of after (root, c_path c) = Some t \<and> sha256 (ne_codev env) t = new_hash c))))"

text \<open>A change stays done, and is done for an earlier store, when other files and backups come between.\<close>

lemma change_done_stays:
  assumes "change_done env root c s t" "only_backups root T t u" "(root, c_path c) \<notin> T" "\<forall>place \<in> T. \<not> in_backups root place"
  shows "change_done env root c s u"
proof -
  from assms(1) obtain current x b where c: "map_of s (root, c_path c) = Some current"
    "sha256 (ne_codev env) current = base_hash c" "apply_unified_diff current (diff c) = Inr x"
    "map_of t (root, c_path c) = Some x" "in_backups root b" "map_of s b = None" "map_of t b = Some current"
    unfolding change_done_def by blast
  from c(5) assms(4) have "b \<notin> T" by blast
  with c assms(2,3) show ?thesis unfolding change_done_def by (blast dest: only_backups_kept)
qed

lemma change_done_earlier:
  assumes "change_done env root c t u" "only_backups root T s t" "(root, c_path c) \<notin> T" "\<forall>place \<in> T. \<not> in_backups root place"
    and "\<not> in_backups root (root, c_path c)"
  shows "change_done env root c s u"
proof -
  from assms(1) obtain current x b where c: "map_of t (root, c_path c) = Some current"
    "sha256 (ne_codev env) current = base_hash c" "apply_unified_diff current (diff c) = Inr x"
    "map_of u (root, c_path c) = Some x" "in_backups root b" "map_of t b = None" "map_of u b = Some current"
    unfolding change_done_def by blast
  from c(5) assms(4) have "b \<notin> T" by blast
  with assms(2) c(6) have "map_of s b = None" by (rule only_backups_free)
  moreover have "map_of s (root, c_path c) = Some current"
    using c(1) assms(2,3,5) unfolding only_backups_def by metis
  ultimately show ?thesis unfolding change_done_def using c by blast
qed

lemma apply_changes_effect:
  assumes "apply_changes env k a w root p cs n = ((all_ok, changed), n')" "guard_exact env root" "\<forall>c \<in> set cs. canonical_name (c_path c)"
  shows "plan_progress env root cs all_ok changed (n_store n) (n_store n') \<and> n_codev n' = n_codev n \<and> n_workspaces n' = n_workspaces n"
  using assms(1,3)
proof (induction cs arbitrary: k n all_ok changed)
  case Nil
  then show ?case by (simp add: plan_progress_def)
next
  case (Cons c cs)
  obtain ok mutated n1 where step: "apply_change env k a w root p c n = ((ok, mutated), n1)" by (metis prod.exhaust)
  from Cons.prems(2) have names: "\<forall>d \<in> set (c # cs). canonical_name (c_path d)" by simp
  then have "canonical_name (c_path c)" by simp
  note effect = apply_change_effect [OF step assms(2) this]
  show ?case
  proof (cases ok)
    case False
    with Cons.prems(1) step have r: "all_ok = False" "changed = (if mutated then [c_path c] else [])" "n' = n1" by (auto simp: Let_def)
    have "plan_progress env root (c # cs) all_ok changed (n_store n) (n_store n')"
    proof (cases mutated)
      case True
      with r effect(1) show ?thesis unfolding plan_progress_def by (intro exI [of _ 1]) auto
    next
      case False
      with r effect(2) show ?thesis unfolding plan_progress_def by (intro exI [of _ 0]) auto
    qed
    with r effect(4,5) show ?thesis by simp
  next
    case True
    with effect(3) obtain t where t: mutated "map_of (n_store n1) (root, c_path c) = Some t" "sha256 (ne_codev env) t = new_hash c" by blast
    from Cons.prems(1) step True t(1) obtain rest where rest: "apply_changes env (Suc k) a w root p cs n1 = ((all_ok, rest), n')" "changed = c_path c # rest"
      by (auto simp: Let_def split: prod.splits)
    from names have "\<forall>c \<in> set cs. canonical_name (c_path c)" by simp
    from Cons.IH [OF rest(1) this] obtain j where j: "j \<le> length cs" "rest = map c_path (take j cs)"
      "only_backups root ((\<lambda>path. (root, path)) ` set rest) (n_store n1) (n_store n')"
      "distinct (map c_path cs) \<longrightarrow> (\<forall>c \<in> set (take j cs). change_done env root c (n_store n1) (n_store n'))"
      "all_ok \<longrightarrow> j = length cs \<and> (distinct (map c_path cs) \<longrightarrow>
        (\<forall>c \<in> set cs. \<exists>t. map_of (n_store n') (root, c_path c) = Some t \<and> sha256 (ne_codev env) t = new_hash c))"
      and same: "n_codev n' = n_codev n1" "n_workspaces n' = n_workspaces n1"
      unfolding plan_progress_def by blast
    from effect(1) [OF t(1)] have one: "change_done env root c (n_store n) (n_store n1)"
      "only_backups root {(root, c_path c)} (n_store n) (n_store n1)" by simp_all
    have clean: "\<not> in_backups root (root, c_path d)" if "d \<in> set (c # cs)" for d
      using names that canonical_no_backup by blast
    then have targets: "\<forall>place \<in> (\<lambda>path. (root, path)) ` set rest. \<not> in_backups root place"
      unfolding j(2) by (auto dest: in_set_takeD)
    have apart: "(root, c_path c) \<notin> (\<lambda>path. (root, path)) ` set rest" if "distinct (map c_path (c # cs))"
      using that unfolding j(2) by (auto dest: in_set_takeD)
    have "change_done env root d (n_store n) (n_store n')" if d: "distinct (map c_path (c # cs))" "d \<in> set (take (Suc j) (c # cs))" for d
    proof (cases "d = c")
      case True
      with change_done_stays [OF one(1) j(3) apart [OF d(1)] targets] show ?thesis by simp
    next
      case False
      with d(2) have later: "d \<in> set (take j cs)" by simp
      from in_set_takeD [OF later] d(1) have other: "(root, c_path d) \<notin> {(root, c_path c)}" by (auto simp: image_iff)
      from later j(4) d(1) have "change_done env root d (n_store n1) (n_store n')" by simp
      from change_done_earlier [OF this one(2) other] clean [of c] clean [of d] in_set_takeD [OF later] show ?thesis by simp
    qed
    moreover have "\<exists>t. map_of (n_store n') (root, c_path d) = Some t \<and> sha256 (ne_codev env) t = new_hash d"
      if "all_ok" "distinct (map c_path (c # cs))" "d \<in> set (c # cs)" for d
    proof (cases "d = c")
      case True
      with t(2,3) only_backups_kept [OF j(3) t(2) apart [OF that(2)]] show ?thesis by blast
    qed (use that j(5) in auto)
    moreover have "only_backups root ((\<lambda>path. (root, path)) ` set changed) (n_store n) (n_store n')"
      unfolding rest(2)
      by (rule only_backups_trans [OF only_backups_mono [OF one(2)] only_backups_mono [OF j(3)]]) auto
    ultimately have "plan_progress env root (c # cs) all_ok changed (n_store n) (n_store n')"
      unfolding plan_progress_def using j(1,2,5) rest(2) by (intro exI [of _ "Suc j"]) auto
    with same effect(4,5) show ?thesis by simp
  qed
qed

lemma refresh_effect:
  assumes "refresh env w v n = (r, n')"
  shows "n_store n' = n_store n" "n_codev n' = n_codev n" "n_approvals n' = n_approvals n"
    "r = Inr v' \<Longrightarrow> nw_root v' = nw_root v \<and> nw_actor v' = nw_actor v"
  using assms by (auto simp: refresh_def put_native_def refreshed_def Let_def split: sum.splits)

lemma get_workspace_own: "get_workspace env a w n = Inr v \<Longrightarrow> own_workspace a w n = Inr v"
  by (auto simp: get_workspace_def bindR_eq_Inr_iff split: option.splits if_splits)

lemma receipt_simps [simp]:
  "ar_changed (receipt_of env p rv verified changed) = changed" "ar_plan_id (receipt_of env p rv verified changed) = plan_id p"
  "ar_inspected (receipt_of env p rv verified changed) = map c_path (changes p)"
  "ar_status (receipt_of env p rv verified changed) = ''completed'' \<Longrightarrow> verified"
  "ar_status (receipt_of env p rv verified changed) = ''failed'' \<Longrightarrow> changed = []"
  by (auto simp: receipt_of_def split: if_splits)

lemma consumed_plan_stored:
  "consume env now a aid token pid rv h s = (Inr p, auth) \<Longrightarrow> (pid, p) \<in> set (a_plans s)"
  by (auto simp: consume_def consume_check_def get_plan_def Let_def bindR_eq_Inr_iff dest: map_of_SomeD split: sum.splits option.splits if_splits prod.splits)

lemma apply_plan_steps:
  assumes "apply_plan env after a w pid aid token n = (Inr r, n')"
  obtains v v1 n1 p auth n2 verified changed n3 rv ok where "own_workspace a w n = Inr v" "refresh env w v n = (Inr v1, n1)"
    "consume (ne_codev env) (ne_now env) a aid token pid (nw_revision v1) (nw_snapshot v1) (native_auth n1) = (Inr p, auth)"
    "n2 = on_codev_auth (\<lambda>_. auth) n1" "apply_changes env 0 a w (nw_root v1) p (changes p) n2 = ((verified, changed), n3)"
    "n_store n' = n_store n3" "n_codev n' = n_codev n3" "r = receipt_of env p rv (verified \<and> ok) changed"
proof -
  from assms obtain v where v: "get_workspace env a w n = Inr v"
    by (cases "get_workspace env a w n") (auto simp: apply_plan_def)
  from assms v have root: "in_root env v = Inr ()"
    by (cases "in_root env v") (auto simp: apply_plan_def)
  from assms v root obtain v1 n1 where r1: "refresh env w v n = (Inr v1, n1)"
    by (auto simp: apply_plan_def split: sum.splits prod.splits)
  from assms v root r1 obtain p auth where c:
    "consume (ne_codev env) (ne_now env) a aid token pid (nw_revision v1) (nw_snapshot v1) (native_auth n1) = (Inr p, auth)"
    by (auto simp: apply_plan_def split: sum.splits prod.splits if_splits)
  let ?n2 = "on_codev_auth (\<lambda>_. auth) n1"
  obtain verified changed n3 where ch: "apply_changes env 0 a w (nw_root v1) p (changes p) ?n2 = ((verified, changed), n3)"
    by (metis prod.exhaust)
  obtain out n4 where r2: "refresh after w v1 n3 = (out, n4)" by (metis prod.exhaust)
  have outcome: "r = receipt_of env p (nw_revision (case out of Inl e \<Rightarrow> v1 | Inr v' \<Rightarrow> v')) (verified \<and> (case out of Inl e \<Rightarrow> False | Inr v' \<Rightarrow> True)) changed"
    "n_store n' = n_store n4" "n_codev n' = n_codev n4"
    using assms v root r1 c ch r2 by (auto simp: apply_plan_def Let_def put_native_def split: sum.splits if_splits)
  show ?thesis
    by (rule that [OF get_workspace_own [OF v] r1 c refl ch _ _ outcome(1)])
      (simp_all add: outcome(2,3) refresh_effect(1,2) [OF r2])
qed

lemma consume_spends:
  assumes "consume env now a aid token pid rv h s = (Inr p, s')"
  shows "(\<exists>r. map_of (a_approvals s') aid = Some r \<and> consumed (approval r)) \<and> map_of (a_plans s') pid = None"
proof -
  from assms obtain r where "s' = s\<lparr>a_approvals := AList.update aid (r\<lparr>approval := (approval r)\<lparr>consumed := True\<rparr>\<rparr>) (a_approvals s),
      a_plans := AList.delete pid (a_plans s)\<rparr>"
    by (auto simp: consume_def split: sum.splits prod.splits)
  then show ?thesis by (simp add: update_conv' delete_conv')
qed

text \<open>
  Claim C23. A receipt tells the truth about the files. Applying a plan accepts an approval of that
  plan at the refreshed snapshot, and in the state it returns the approval is consumed and the plan gone. A first part
  of the plan's changes was applied, exactly the files the receipt names: where the plan
  names each path once, each of them holds the result of its reviewed diff on the text with the hash
  the plan was made for, and that former text is in a new backup. Nothing else happened to the files
  but that backups were added under free names. When the receipt says completed all files
  of the plan have the hashes of the plan; when it says failed no file was changed. The conditions: the
  registered plans name paths that registration accepts (the invariant of the authority) and that do
  not start with a tilde, and the guard answers for such a path the file of that name, as the path guard
  does below a root without links.
\<close>

theorem plan_receipt_is_true:
  assumes "apply_plan env after a w pid aid token n = (Inr r, n')" "\<And>v. own_workspace a w n = Inr v \<Longrightarrow> guard_exact env (nw_root v)"
    "\<forall>kp \<in> set (a_plans (native_auth n)). \<forall>c \<in> set (changes (snd kp)). canonical_name (c_path c)"
  shows "\<exists>v v1 n1 p auth. own_workspace a w n = Inr v \<and> refresh env w v n = (Inr v1, n1) \<and>
    consume (ne_codev env) (ne_now env) a aid token pid (nw_revision v1) (nw_snapshot v1) (native_auth n1) = (Inr p, auth) \<and>
    native_auth n' = auth \<and> (\<exists>x. map_of (a_approvals (native_auth n')) aid = Some x \<and> consumed (approval x)) \<and>
    map_of (a_plans (native_auth n')) pid = None \<and>
    ar_plan_id r = plan_id p \<and> ar_inspected r = map c_path (changes p) \<and>
    plan_progress env (nw_root v) (changes p) (ar_status r = ''completed'') (ar_changed r) (n_store n) (n_store n') \<and>
    (ar_status r = ''failed'' \<longrightarrow> ar_changed r = [])"
proof -
  obtain v v1 n1 p auth n2 verified changed n3 rv ok where o: "own_workspace a w n = Inr v" "refresh env w v n = (Inr v1, n1)"
    "consume (ne_codev env) (ne_now env) a aid token pid (nw_revision v1) (nw_snapshot v1) (native_auth n1) = (Inr p, auth)"
    "n2 = on_codev_auth (\<lambda>_. auth) n1" "apply_changes env 0 a w (nw_root v1) p (changes p) n2 = ((verified, changed), n3)"
    "n_store n' = n_store n3" "n_codev n' = n_codev n3" "r = receipt_of env p rv (verified \<and> ok) changed"
    by (rule apply_plan_steps [OF assms(1)]) blast
  have store: "n_store n2 = n_store n" using refresh_effect(1) [OF o(2)] o(4) by (simp add: on_codev_auth_def)
  have root: "nw_root v1 = nw_root v" using refresh_effect(4) [OF o(2)] by simp
  have names: "\<forall>c \<in> set (changes p). canonical_name (c_path c)"
    using consumed_plan_stored [OF o(3)] assms(3) refresh_effect(2) [OF o(2)] by (auto simp: native_auth_def)
  have "guard_exact env (nw_root v1)" using assms(2) [OF o(1)] root by simp
  note applied = apply_changes_effect [OF o(5) this names]
  then have "plan_progress env (nw_root v) (changes p) verified changed (n_store n) (n_store n')"
    using store root o(6) by simp
  then have "plan_progress env (nw_root v) (changes p) (ar_status r = ''completed'') (ar_changed r) (n_store n) (n_store n')"
    using o(8) receipt_simps(4) [of env p rv "verified \<and> ok" changed] unfolding plan_progress_def receipt_simps by auto
  moreover have auth: "native_auth n' = auth"
    using applied o(4,7) by (simp add: native_auth_def on_codev_auth_def)
  moreover from o(8) have "ar_plan_id r = plan_id p \<and> ar_inspected r = map c_path (changes p) \<and> (ar_status r = ''failed'' \<longrightarrow> ar_changed r = [])"
    using receipt_simps(5) [of env p rv "verified \<and> ok" changed] by simp
  moreover have "(\<exists>x. map_of (a_approvals (native_auth n')) aid = Some x \<and> consumed (approval x)) \<and>
      map_of (a_plans (native_auth n')) pid = None"
    unfolding auth by (rule consume_spends [OF o(3)])
  ultimately show ?thesis using o(1-3) by blast
qed

section \<open>A planned diff says what it does\<close>

definition lf_text :: "string \<Rightarrow> bool" where
  \<comment> \<open>the lines break at line feeds only\<close>
  "lf_text t \<longleftrightarrow> lines_ok (split_lines t)"

definition difflib_ok :: "(string \<Rightarrow> string \<Rightarrow> hunk list) \<Rightarrow> bool" where
  \<comment> \<open>the documented contract: the hunks, with the lines between and after them, lead from the one text to the other\<close>
  "difflib_ok script \<longleftrightarrow> (\<forall>x y. lf_text x \<and> lf_text y \<and> x \<noteq> y \<longrightarrow> (\<exists>tail. split_lines x = old_text (script x y) tail \<and>
     split_lines y = CodingDiffs.new_text (script x y) tail \<and> hunks_ok (script x y) \<and> positioned (script x y)))"

lemma concat_split_lines: "concat (split_lines t) = t"
proof (induction t rule: split_lines.induct)
  case (3 c d cs)
  then show ?case using split_lines_nonempty [of d cs] by (auto split: list.splits)
qed simp_all

text \<open>
  Claim C22. What is reviewed is what is applied: the diff of a planned change, applied to the text it
  was planned for, gives exactly the new text of the plan, when both texts break their lines at
  line feeds.
\<close>

theorem planned_diff_applies:
  assumes "plan_change env v (path, updated) = Inr [c]" "difflib_ok (ne_script env)" "plain path"
    and "map_of (map (\<lambda>f. (wf_path f, f)) (rev (nw_files v))) path = Some f" "wf_text f = Some original"
    and "lf_text original" "lf_text updated"
  shows "apply_unified_diff original (diff c) = Inr (CodevPlans.new_text c) \<and> CodevPlans.new_text c = updated \<and> c_path c = path"
proof -
  from assms(1,4,5) have c: "updated \<noteq> original" "diff c = render_diff path (ne_script env original updated)" "CodevPlans.new_text c = updated" "c_path c = path"
    by (auto simp: plan_change_def split: if_splits option.splits)
  from assms(2,6,7) c(1) obtain tail where t: "split_lines original = old_text (ne_script env original updated) tail"
    "split_lines updated = CodingDiffs.new_text (ne_script env original updated) tail" "hunks_ok (ne_script env original updated)"
    "positioned (ne_script env original updated)" unfolding difflib_ok_def by metis
  show ?thesis
    using render_roundtrip [OF _ t(3,4) assms(3), of tail] t(1,2) assms(6) concat_split_lines [of original] concat_split_lines [of updated]
    by (simp add: c lf_text_def)
qed

section \<open>An approved plan goes through\<close>

definition change_passes :: "native_env \<Rightarrow> nat \<Rightarrow> string \<Rightarrow> file_change \<Rightarrow> string \<Rightarrow> bool" where
  \<comment> \<open>no service has an objection to this change of this text, and the disk takes it\<close>
  "change_passes env k root c t \<longleftrightarrow> (let e = ne_patch env k; g = pe_guard e root (c_path c); path = c_path c in
     gp_allowed g \<and> gp_root g = root \<and> gp_relative g = Some path \<and> pe_readable e root path \<and>
     pe_adapter e path t None = None \<and> pe_adapter e path t (Some (CodevPlans.new_text c)) = None \<and> \<not> pe_secrets e (CodevPlans.new_text c) \<and>
     pe_sha e = sha256 (ne_codev env) \<and> pe_write e = Written \<and> \<not> ce_audit_fails (pe_call e) \<and>
     (\<exists>place. normalize_exact_files (ce_guard (pe_call e)) root [path] = Inr (place, [path])))"

definition change_ready :: "native_env \<Rightarrow> string \<Rightarrow> file_store \<Rightarrow> file_change \<Rightarrow> bool" where
  \<comment> \<open>the file still is what the plan was made for\<close>
  "change_ready env root store c \<longleftrightarrow> (\<exists>t. map_of store (root, c_path c) = Some t \<and> sha256 (ne_codev env) t = base_hash c \<and>
     apply_unified_diff t (diff c) = Inr (CodevPlans.new_text c) \<and> sha256 (ne_codev env) (CodevPlans.new_text c) = new_hash c \<and>
     utf8_length (CodevPlans.new_text c) \<le> 131072 \<and> sha256 (ne_codev env) (diff c) \<noteq> [] \<and> (\<forall>k. change_passes env k root c t))"

lemma approve_for_change:
  assumes "change_passes env k root c t" "sha256 (ne_codev env) (diff c) \<noteq> []"
  obtains child s' where "approve_operation (pe_call (ne_patch env k)) (approval_for env root p c) s = (Inr child, s')" "oa_status child = ''approved''"
    "consume_operation_approval (pe_call (ne_patch env k)) (patch_ask (patch_for env root child c) (base_hash c)) s' =
      (Inr None, snd (consume_operation_approval (pe_call (ne_patch env k)) (patch_ask (patch_for env root child c) (base_hash c)) s'))"
proof -
  from assms obtain place where n: "normalize_exact_files (ce_guard (pe_call (ne_patch env k))) root [c_path c] = Inr (place, [c_path c])"
    and audit: "\<not> ce_audit_fails (pe_call (ne_patch env k))" by (auto simp: change_passes_def Let_def)
  from assms(2) have "patch_prefix (sha256 (ne_codev env) (diff c)) \<noteq> []" by (simp add: patch_prefix_def)
  with n audit obtain child s' where a: "approve_operation (pe_call (ne_patch env k)) (approval_for env root p c) s = (Inr child, s')"
    "oa_status child = ''approved''" by (auto simp: approve_operation_def approval_for_def Let_def)
  have "ask_of (approval_for env root p c) child = patch_ask (patch_for env root child c) (base_hash c)"
    by (simp add: ask_of_def approval_for_def patch_ask_def patch_for_def)
  moreover have "fst (consume_operation_approval (pe_call (ne_patch env k)) (ask_of (approval_for env root p c) child) (run coding_step [] s')) = Inr None"
    by (rule approved_operation_can_be_used [OF a]) (use audit in \<open>simp_all add: approval_for_def\<close>)
  ultimately have "fst (consume_operation_approval (pe_call (ne_patch env k)) (patch_ask (patch_for env root child c) (base_hash c)) s') = Inr None"
    by simp
  with that a show ?thesis by (metis prod.collapse)
qed

lemma apply_ready_change:
  assumes "change_ready env root (n_store n) c" "require (ne_now env) a w ''apply'' [c_path c] (Some (p_grant_epoch p)) None (native_grants n) = Inr g"
    and "map_of (n_store n) (backup_place (ne_patch env k) (root, c_path c)) = None"
  shows "\<exists>s t. map_of (n_store n) (root, c_path c) = Some t \<and> apply_change env k a w root p c n =
    ((True, True), n\<lparr>n_approvals := s, n_store := AList.update (root, c_path c) (CodevPlans.new_text c)
       (AList.update (backup_place (ne_patch env k) (root, c_path c)) t (n_store n))\<rparr>)"
proof -
  let ?b = "backup_place (ne_patch env k) (root, c_path c)"
  from assms(1) obtain t where t: "map_of (n_store n) (root, c_path c) = Some t" "sha256 (ne_codev env) t = base_hash c"
    "apply_unified_diff t (diff c) = Inr (CodevPlans.new_text c)" "sha256 (ne_codev env) (CodevPlans.new_text c) = new_hash c"
    "utf8_length (CodevPlans.new_text c) \<le> 131072" "sha256 (ne_codev env) (diff c) \<noteq> []" "change_passes env k root c t"
    unfolding change_ready_def by blast
  obtain child s' where a: "approve_operation (pe_call (ne_patch env k)) (approval_for env root p c) (n_approvals n) = (Inr child, s')"
    "consume_operation_approval (pe_call (ne_patch env k)) (patch_ask (patch_for env root child c) (base_hash c)) s' =
      (Inr None, snd (consume_operation_approval (pe_call (ne_patch env k)) (patch_ask (patch_for env root child c) (base_hash c)) s'))"
    by (rule approve_for_change [OF t(7,6)]) blast
  have "normalize_approval_mode (Some ''apply_with_approval'') = Apply_with_approval" by code_simp
  then have "check_patch (ne_patch env k) (patch_for env root child c) (n_store n) = Inr ((root, c_path c), CodevPlans.new_text c)"
    using t by (simp add: check_patch_def patch_for_def approval_mode_policy_def change_passes_def Let_def patch_prefix_def)
  moreover have written: "pe_write (ne_patch env k) = Written" using t(7) by (simp add: change_passes_def Let_def)
  then have "create_coding_backup (ne_patch env k) (root, c_path c) (n_store n) = Some (AList.update ?b t (n_store n))"
    using t(1) assms(3) by (simp add: create_coding_backup_def)
  ultimately have "\<exists>s r. apply_patch_with_approval (ne_patch env k) (patch_for env root child c) (s', n_store n) =
      (Inr r, s, AList.update (root, c_path c) (CodevPlans.new_text c) (AList.update ?b t (n_store n))) \<and>
      pr_status r = ''applied'' \<and> pr_mutated r"
    using a(2) written by (auto simp: apply_patch_with_approval_def patch_for_def Let_def split: sum.splits option.splits prod.splits)
  then show ?thesis using assms(2) a(1) t(1,4,5) by (auto simp: apply_change_def map_of_dict_update)
qed

fun backup_names :: "native_env \<Rightarrow> string \<Rightarrow> nat \<Rightarrow> file_change list \<Rightarrow> (string \<times> string) list" where
  \<comment> \<open>where the backups of the changes from a position on go\<close>
  "backup_names env root k [] = []"
| "backup_names env root k (c # cs) = backup_place (ne_patch env k) (root, c_path c) # backup_names env root (Suc k) cs"

lemma change_ready_cong:
  "map_of s (root, c_path c) = map_of s' (root, c_path c) \<Longrightarrow> change_ready env root s c = change_ready env root s' c"
  by (simp add: change_ready_def)

lemma apply_ready_changes:
  assumes "\<forall>c \<in> set cs. change_ready env root (n_store n) c" "distinct (map c_path cs)"
    and "\<forall>c \<in> set cs. \<exists>g. require (ne_now env) a w ''apply'' [c_path c] (Some (p_grant_epoch p)) None (native_grants n) = Inr g"
    and "distinct (backup_names env root k cs)" "\<forall>b \<in> set (backup_names env root k cs). map_of (n_store n) b = None"
  shows "\<exists>n'. apply_changes env k a w root p cs n = ((True, map c_path cs), n') \<and>
    (\<forall>(c, b) \<in> set (zip cs (backup_names env root k cs)). map_of (n_store n') (root, c_path c) = Some (CodevPlans.new_text c) \<and>
       map_of (n_store n') b = map_of (n_store n) (root, c_path c)) \<and>
    (\<forall>place. place \<notin> (\<lambda>c. (root, c_path c)) ` set cs \<and> place \<notin> set (backup_names env root k cs) \<longrightarrow>
       map_of (n_store n') place = map_of (n_store n) place)"
  using assms
proof (induction cs arbitrary: k n)
  case (Cons c cs)
  let ?b = "backup_place (ne_patch env k) (root, c_path c)" and ?bs = "backup_names env root (Suc k) cs"
  from Cons.prems obtain g where "change_ready env root (n_store n) c"
    "require (ne_now env) a w ''apply'' [c_path c] (Some (p_grant_epoch p)) None (native_grants n) = Inr g"
    "map_of (n_store n) ?b = None" by auto
  from apply_ready_change [OF this] obtain s t where t: "map_of (n_store n) (root, c_path c) = Some t"
    and raw: "apply_change env k a w root p c n = ((True, True), n\<lparr>n_approvals := s,
      n_store := AList.update (root, c_path c) (CodevPlans.new_text c) (AList.update ?b t (n_store n))\<rparr>)" by blast
  define m where "m = n\<lparr>n_approvals := s,
      n_store := AList.update (root, c_path c) (CodevPlans.new_text c) (AList.update ?b t (n_store n))\<rparr>"
  note step = raw [folded m_def]
  have store: "map_of (n_store m) = (map_of (n_store n))(?b \<mapsto> t, (root, c_path c) \<mapsto> CodevPlans.new_text c)"
    by (simp add: m_def update_conv' del: fun_upd_apply)
  have free: "map_of (n_store n) ?b = None" "\<forall>b \<in> set ?bs. map_of (n_store n) b = None" "?b \<notin> set ?bs"
    using Cons.prems(4,5) by simp_all
  have there: "map_of (n_store n) (root, c_path d) \<noteq> None" if "d \<in> set (c # cs)" for d
    using Cons.prems(1) that unfolding change_ready_def by auto
  have other: "map_of (n_store m) (root, c_path d) = map_of (n_store n) (root, c_path d)" if "d \<in> set cs" for d
  proof -
    from that Cons.prems(2) have "c_path d \<noteq> c_path c" by (metis distinct.simps(2) image_eqI list.simps(9) set_map)
    moreover have "(root, c_path d) \<noteq> ?b" using there [of d] that free(1) by auto
    ultimately show ?thesis unfolding store by simp
  qed
  have "\<forall>d \<in> set cs. change_ready env root (n_store m) d"
    using Cons.prems(1) change_ready_cong [OF other] by simp
  moreover have "native_grants m = native_grants n" by (simp add: m_def native_grants_def native_auth_def)
  moreover have "\<forall>b \<in> set ?bs. map_of (n_store m) b = None"
    using free there [of c] unfolding store by auto
  ultimately obtain n' where n': "apply_changes env (Suc k) a w root p cs m = ((True, map c_path cs), n')"
    "\<forall>(c, b) \<in> set (zip cs ?bs). map_of (n_store n') (root, c_path c) = Some (CodevPlans.new_text c) \<and>
       map_of (n_store n') b = map_of (n_store m) (root, c_path c)"
    "\<forall>place. place \<notin> (\<lambda>c. (root, c_path c)) ` set cs \<and> place \<notin> set ?bs \<longrightarrow> map_of (n_store n') place = map_of (n_store m) place"
    using Cons.IH [of m "Suc k"] Cons.prems(2-4) by auto
  have "(root, c_path c) \<notin> (\<lambda>c. (root, c_path c)) ` set cs" "(root, c_path c) \<notin> set ?bs"
    using Cons.prems(2) free(2) t by auto
  with n'(3) have target: "map_of (n_store n') (root, c_path c) = Some (CodevPlans.new_text c)" by (simp add: store)
  have apart: "?b \<noteq> (root, c_path d)" if "d \<in> set (c # cs)" for d
  proof
    assume "?b = (root, c_path d)"
    with free(1) have "map_of (n_store n) (root, c_path d) = None" by (rule subst [where P = "\<lambda>x. map_of (n_store n) x = None", rotated])
    with there [OF that] show False by contradiction
  qed
  have away: "?b \<notin> (\<lambda>c. (root, c_path c)) ` set cs" "?b \<noteq> (root, c_path c)"
    using apart by (force, force)
  have "map_of (n_store n') ?b = map_of (n_store m) ?b" using n'(3) away(1) free(3) by blast
  then have backup: "map_of (n_store n') ?b = Some t" using away(2) by (simp add: store)
  have rest: "map_of (n_store n') (root, c_path d) = Some (CodevPlans.new_text d) \<and>
      map_of (n_store n') e = map_of (n_store n) (root, c_path d)" if "(d, e) \<in> set (zip cs ?bs)" for d e
    using n'(2) that other [of d] set_zip_leftD [OF that] by auto
  have all: "\<forall>(d, e) \<in> set (zip (c # cs) (backup_names env root k (c # cs))).
      map_of (n_store n') (root, c_path d) = Some (CodevPlans.new_text d) \<and> map_of (n_store n') e = map_of (n_store n) (root, c_path d)"
    using target backup t rest by auto
  have ran: "apply_changes env k a w root p (c # cs) n = ((True, map c_path (c # cs)), n')" using step n'(1) by simp
  have others: "\<forall>place. place \<notin> (\<lambda>c. (root, c_path c)) ` set (c # cs) \<and> place \<notin> set (backup_names env root k (c # cs)) \<longrightarrow>
      map_of (n_store n') place = map_of (n_store n) place"
    using n'(3) unfolding store by simp
  show ?case by (intro exI [of _ n'] conjI ran all others)
qed simp

lemma apply_plan_runs:
  assumes "get_workspace env a w n = Inr v" "in_root env v = Inr ()" "refresh env w v n = (Inr v1, n1)"
    and "get_plan (ne_now env) a pid (native_auth n1) = Inr q" "p_workspace_id q = w"
    and "consume (ne_codev env) (ne_now env) a aid token pid (nw_revision v1) (nw_snapshot v1) (native_auth n1) = (Inr p, auth)"
    and "\<not> truthy (command_id p)"
    and "apply_changes env 0 a w (nw_root v1) p (changes p) (on_codev_auth (\<lambda>_. auth) n1) = ((verified, changed), n3)"
  obtains v2 n4 where "n_store n4 = n_store n3" "n_codev n4 = n_codev n3"
    "apply_plan env after a w pid aid token n =
      (Inr (receipt_of env p (nw_revision v2) (verified \<and> (\<exists>v'. fst (refresh after w v1 n3) = Inr v')) changed),
       put_native w (remember_apply (receipt_of env p (nw_revision v2) (verified \<and> (\<exists>v'. fst (refresh after w v1 n3) = Inr v')) changed) v2) n4)"
proof -
  obtain out n4 where r2: "refresh after w v1 n3 = (out, n4)" by (metis prod.exhaust)
  have ok: "(case out of Inl e \<Rightarrow> False | Inr v' \<Rightarrow> True) = (\<exists>v'. fst (refresh after w v1 n3) = Inr v')"
    using r2 by (cases out) auto
  show ?thesis
    by (rule that [OF refresh_effect(1,2) [OF r2], of "case out of Inl e \<Rightarrow> v1 | Inr v' \<Rightarrow> v'"])
      (unfold ok [symmetric], use assms r2 in \<open>simp add: apply_plan_def Let_def\<close>)
qed

lemma refresh_reads:
  "n_store m = n_store n \<Longrightarrow> n_codev m = n_codev n \<Longrightarrow> fst (refresh env w v m) = fst (refresh env w v n)"
  by (simp add: refresh_def read_selected_def native_grants_def native_auth_def split: sum.split)

text \<open>
  Claim C28. Approval is enough: when the approval of a plan for native edits on distinct files is accepted at the
  refreshed snapshot, every file still has the text the plan was made for and its reviewed diff
  gives the new text of the plan, the grant still covers the files, no guard, adapter, scanner or
  disk objects and the names of the backups are free, then applying the plan
  writes the new text of every change and, beside it, a backup with the former text of each file,
  and touches no other file; and the receipt says completed exactly when the workspace can be read
  back afterwards.
\<close>

theorem approved_plan_completes:
  assumes "get_workspace env a w n = Inr v" "in_root env v = Inr ()" "refresh env w v n = (Inr v1, n1)"
    and "get_plan (ne_now env) a pid (native_auth n1) = Inr q" "p_workspace_id q = w"
    and "consume (ne_codev env) (ne_now env) a aid token pid (nw_revision v1) (nw_snapshot v1) (native_auth n1) = (Inr p, auth)"
    and "\<not> truthy (command_id p)" "distinct (map c_path (changes p))"
    and "\<forall>c \<in> set (changes p). change_ready env (nw_root v) (n_store n) c"
    and "\<forall>c \<in> set (changes p). \<exists>g. require (ne_now env) a w ''apply'' [c_path c] (Some (p_grant_epoch p)) None (a_grants auth) = Inr g"
    and "distinct (backup_names env (nw_root v) 0 (changes p))" "\<forall>b \<in> set (backup_names env (nw_root v) 0 (changes p)). map_of (n_store n) b = None"
  shows "\<exists>r n'. apply_plan env after a w pid aid token n = (Inr r, n') \<and> ar_changed r = map c_path (changes p) \<and>
    (\<forall>(c, b) \<in> set (zip (changes p) (backup_names env (nw_root v) 0 (changes p))).
       map_of (n_store n') (nw_root v, c_path c) = Some (CodevPlans.new_text c) \<and>
       map_of (n_store n') b = map_of (n_store n) (nw_root v, c_path c)) \<and>
    (\<forall>place. place \<notin> (\<lambda>c. (nw_root v, c_path c)) ` set (changes p) \<and> place \<notin> set (backup_names env (nw_root v) 0 (changes p)) \<longrightarrow>
       map_of (n_store n') place = map_of (n_store n) place) \<and>
    (ar_status r = ''completed'' \<longleftrightarrow> (\<exists>v'. fst (refresh after w v1 n') = Inr v'))"
proof -
  let ?n2 = "on_codev_auth (\<lambda>_. auth) n1"
  have store: "n_store ?n2 = n_store n" using refresh_effect(1) [OF assms(3)] by (simp add: on_codev_auth_def)
  have root: "nw_root v1 = nw_root v" using refresh_effect(4) [OF assms(3)] by simp
  have grants: "native_grants ?n2 = a_grants auth" by (simp add: native_grants_def native_auth_def on_codev_auth_def)
  obtain n3 where n3: "apply_changes env 0 a w (nw_root v) p (changes p) ?n2 = ((True, map c_path (changes p)), n3)"
    "\<forall>(c, b) \<in> set (zip (changes p) (backup_names env (nw_root v) 0 (changes p))).
       map_of (n_store n3) (nw_root v, c_path c) = Some (CodevPlans.new_text c) \<and>
       map_of (n_store n3) b = map_of (n_store n) (nw_root v, c_path c)"
    "\<forall>place. place \<notin> (\<lambda>c. (nw_root v, c_path c)) ` set (changes p) \<and> place \<notin> set (backup_names env (nw_root v) 0 (changes p)) \<longrightarrow>
       map_of (n_store n3) place = map_of (n_store n) place"
    using apply_ready_changes [of "changes p" env "nw_root v" ?n2 a w p 0, unfolded store grants, OF assms(9,8,10-12)]
    by (elim exE conjE)
  let ?ok = "True \<and> (\<exists>v'. fst (refresh after w v1 n3) = Inr v')"
  have "apply_changes env 0 a w (nw_root v1) p (changes p) ?n2 = ((True, map c_path (changes p)), n3)" using n3(1) root by simp
  from apply_plan_runs [OF assms(1-7) this] obtain v2 n4 where run: "n_store n4 = n_store n3" "n_codev n4 = n_codev n3"
    "apply_plan env after a w pid aid token n = (Inr (receipt_of env p (nw_revision v2) ?ok (map c_path (changes p))),
       put_native w (remember_apply (receipt_of env p (nw_revision v2) ?ok (map c_path (changes p))) v2) n4)" by blast
  let ?r = "receipt_of env p (nw_revision v2) ?ok (map c_path (changes p))"
  let ?n' = "put_native w (remember_apply ?r v2) n4"
  have same: "n_store ?n' = n_store n3" "n_codev ?n' = n_codev n3" using run(1,2) by (simp_all add: put_native_def)
  have settled: "ar_status ?r = ''completed'' \<longleftrightarrow> (\<exists>v'. fst (refresh after w v1 ?n') = Inr v')"
    unfolding refresh_reads [OF same] by (simp add: receipt_of_def)
  show ?thesis
    by (intro exI [of _ ?r] exI [of _ ?n'] conjI run(3) settled receipt_simps(1); unfold same(1); rule n3(2,3))
qed

section \<open>Examples\<close>

definition whole_script :: "string \<Rightarrow> string \<Rightarrow> hunk list" where
  \<comment> \<open>the simplest script: all old lines out, all new lines in\<close>
  "whole_script x y = [([], map Remove (split_lines x) @ map Add (split_lines y))]"

lemma whole_old: "old_of (map Remove xs @ map Add ys) = xs"
proof -
  have "concat (map old_line (map Remove xs)) = xs" "concat (map old_line (map Add ys)) = []" by (induction xs; simp) (induction ys; simp)
  then show ?thesis by (simp only: old_of_def map_append concat_append append_Nil2)
qed

lemma whole_new: "new_of (map Remove xs @ map Add ys) = ys"
proof -
  have "concat (map new_line (map Remove xs)) = []" "concat (map new_line (map Add ys)) = ys" by (induction xs; simp) (induction ys; simp)
  then show ?thesis by (simp only: new_of_def map_append concat_append append_Nil)
qed

lemma lines_ok_edit: "lines_ok ls \<Longrightarrow> l \<in> set ls \<Longrightarrow> ended l \<or> plain l"
  by (induction ls rule: lines_ok.induct) auto

lemma whole_script_ok: "difflib_ok whole_script"
  unfolding difflib_ok_def
proof (intro allI impI)
  fix x y
  assume xy: "lf_text x \<and> lf_text y \<and> x \<noteq> y"
  have "edit_ok e" if "e \<in> set (map Remove (split_lines x) @ map Add (split_lines y))" for e
  proof -
    from xy lines_ok_edit have "\<forall>l \<in> set (split_lines x) \<union> set (split_lines y). ended l \<or> plain l"
      unfolding lf_text_def by blast
    with that show ?thesis by (auto simp: edit_ok_def)
  qed
  then have "hunks_ok (whole_script x y)" by (simp add: hunks_ok_def whole_script_def)
  moreover have "positioned (whole_script x y)" by (simp add: positioned_def whole_script_def)
  ultimately show "\<exists>tail. split_lines x = old_text (whole_script x y) tail \<and> split_lines y = CodingDiffs.new_text (whole_script x y) tail \<and>
      hunks_ok (whole_script x y) \<and> positioned (whole_script x y)"
    by (intro exI [of _ "[]"]) (simp add: whole_script_def whole_old whole_new)
qed

definition example_patch_env :: "nat \<Rightarrow> patch_env" where
  "example_patch_env k = sample_patch_env\<lparr>pe_call := sample_call 5 (digits_of k)\<rparr>"

definition example_env :: native_env where
  "example_env = \<lparr>ne_codev = \<lparr>sha256 = (\<lambda>t. ''s''), isoformat = (\<lambda>t. [])\<rparr>, ne_now = 5, ne_fresh = ''1'', ne_candidate = Inr,
     ne_owned = (\<lambda>root. True), ne_identity = (\<lambda>root. Some ''i''), ne_scope = (\<lambda>root. open_guard root ''.''), ne_guard = open_guard,
     ne_decodes = (\<lambda>root f. True), ne_secrets = (\<lambda>t. False), ne_adapter = (\<lambda>f t u. None), ne_script = whole_script,
     ne_patch = example_patch_env\<rparr>"

definition example_change :: file_change where
  "example_change = \<lparr>c_path = ''a.py'', base_hash = ''s'', new_text = ''a'' @ [lf] @ ''c'' @ [lf], new_hash = ''s'',
     diff = render_diff ''a.py'' [([''a'' @ [lf]], [Remove (''b'' @ [lf]), Add (''c'' @ [lf])])]\<rparr>"

definition example_plan :: change_plan where
  "example_plan = sample_plan\<lparr>base_revision := 0, p_workspace_hash := ''s'', plan_hash := ''s'', changes := [example_change]\<rparr>"

definition example_workspace :: native_workspace where
  "example_workspace = \<lparr>nw_actor = sample_actor, nw_root = ''/w'', nw_identity = ''i'', nw_revision = 0, nw_base_revision = 0,
     nw_base_hash = Some ''s'', nw_snapshot = ''s'', nw_files = [\<lparr>wf_path = ''a.py'', wf_content_hash = Some ''s'', wf_size = 4,
       wf_availability = Av_text, wf_text = Some sample_file, wf_provenance = ''local_file''\<rparr>], nw_receipts = []\<rparr>"

definition example_native :: native where
  "example_native = \<lparr>n_codev = empty_codev\<lparr>c_auth := \<lparr>a_grants = snd (issue 0 ''f'' (sample_request 0) []),
     a_plans = [(''p'', example_plan)], a_approvals = [(''approval_x'', sample_approval\<lparr>approval := (approval sample_approval)
       \<lparr>revision := 0, ap_workspace_hash := ''s'', ap_plan_hash := ''s''\<rparr>, token_hash := ''s''\<rparr>)]\<rparr>\<rparr>,
     n_workspaces = [(''w'', example_workspace)], n_approvals = [], n_store = [((''/w'', ''a.py''), sample_file)]\<rparr>"

definition example_auth :: authority where
  "example_auth = snd (consume (ne_codev example_env) 5 sample_actor ''approval_x'' ''tok'' ''p'' 0 ''s'' (native_auth example_native))"

lemma example_get: "get_workspace example_env sample_actor ''w'' example_native = Inr example_workspace"
  by (simp add: get_workspace_def own_workspace_def example_native_def example_workspace_def example_env_def)

lemma example_hash: "workspace_hash (ne_codev example_env) (nw_files example_workspace) = Inr ''s''"
proof -
  have "relative_path ''a.py'' = Inr ''a.py''" by code_simp
  then show ?thesis by (simp add: workspace_hash_def example_workspace_def example_env_def sample_file_def utf8_length_def lf_def)
qed

lemma example_file: "native_file example_env example_workspace (n_store example_native) ''a.py'' = Inr (hd (nw_files example_workspace))"
  by (simp add: native_file_def example_workspace_def example_native_def example_env_def open_guard_def Let_def sample_file_def
      utf8_length_def lf_def)

lemma example_grants: "native_grants example_native = [(grant_key sample_actor ''w'', issue_grant 0 ''f'' (sample_request 0) [''a.py''])]"
  by (simp add: native_grants_def native_auth_def example_native_def sample_issue)

lemma example_grant: "get_grant sample_actor ''w'' (native_grants example_native) = Some (issue_grant 0 ''f'' (sample_request 0) [''a.py''])"
  by (simp add: example_grants get_grant_def) (simp add: sample_request_def)

lemma sample_grant_fields:
  "g_files (issue_grant 0 ''f'' (sample_request 0) [''a.py'']) = [''a.py'']" "epoch (issue_grant 0 ''f'' (sample_request 0) [''a.py'']) = 1"
  "\<not> revoked (issue_grant 0 ''f'' (sample_request 0) [''a.py''])" "g_expires_at (issue_grant 0 ''f'' (sample_request 0) [''a.py'']) = 60000000"
  "set (scopes (issue_grant 0 ''f'' (sample_request 0) [''a.py''])) = {''read'', ''propose'', ''apply''}"
  by (simp_all add: sample_request_def seconds_def)

lemma example_require:
  "scope \<in> {''read'', ''propose'', ''apply''} \<Longrightarrow> require (ne_now example_env) sample_actor ''w'' scope [''a.py''] (Some 1) None (native_grants example_native) =
     Inr (issue_grant 0 ''f'' (sample_request 0) [''a.py''])"
  unfolding require_def example_grant by (auto simp: sample_grant_fields example_env_def truthy_def simp del: issue_grant_simps)

lemma example_refresh: "refresh example_env ''w'' example_workspace example_native = (Inr example_workspace, example_native)"
proof -
  have "nw_actor example_workspace = sample_actor" by (simp add: example_workspace_def)
  then have read: "read_selected example_env ''w'' example_workspace example_native = Inr (nw_files example_workspace)"
    using example_require [of "''read''"] example_file
    by (simp add: read_selected_def example_grant selected_paths_def sample_grant_fields in_root_def del: issue_grant_simps)
       (simp add: example_env_def open_guard_def example_workspace_def)
  have "refreshed (nw_files example_workspace) ''s'' example_workspace = example_workspace"
    by (simp add: refreshed_def example_workspace_def)
  moreover have "put_native ''w'' example_workspace example_native = example_native"
    by (simp add: put_native_def example_native_def)
  ultimately show ?thesis using read example_hash by (simp add: refresh_def)
qed

lemma example_plan_found: "get_plan (ne_now example_env) sample_actor ''p'' (native_auth example_native) = Inr example_plan"
  by (simp add: get_plan_def native_auth_def example_native_def example_env_def example_plan_def sample_plan_def)

lemma example_consume:
  "consume (ne_codev example_env) (ne_now example_env) sample_actor ''approval_x'' ''tok'' ''p'' (nw_revision example_workspace)
     (nw_snapshot example_workspace) (native_auth example_native) = (Inr example_plan, example_auth)"
proof -
  have "require (ne_now example_env) sample_actor ''w'' ''apply'' [''a.py''] (Some 1) None (a_grants (native_auth example_native)) =
     Inr (issue_grant 0 ''f'' (sample_request 0) [''a.py''])" using example_require [of "''apply''"] by (simp add: native_grants_def)
  then have "consume_check (ne_codev example_env) (ne_now example_env) sample_actor ''approval_x'' ''tok'' ''p'' (nw_revision example_workspace)
     (nw_snapshot example_workspace) (native_auth example_native) = Inr (snd (hd (a_approvals (native_auth example_native))), example_plan)"
    using example_plan_found
    by (simp add: consume_check_def Let_def native_auth_def example_native_def sample_approval_def example_workspace_def example_env_def
      example_plan_def sample_plan_def operation_scope_def)
  then show ?thesis unfolding example_auth_def by (simp add: consume_def example_workspace_def) (simp add: example_env_def)
qed
lemma example_diff: "apply_unified_diff sample_file (diff example_change) = Inr (CodevPlans.new_text example_change)"
proof -
  let ?hs = "[([''a'' @ [lf]], [Remove (''b'' @ [lf]), Add (''c'' @ [lf])])]"
  have "apply_unified_diff (concat (old_text ?hs [])) (render_diff ''a.py'' ?hs) = Inr (concat (CodingDiffs.new_text ?hs []))"
    by (rule render_roundtrip; code_simp)
  then show ?thesis by (simp add: example_change_def sample_file_def old_of_def new_of_def)
qed

lemma example_ready: "change_ready example_env ''/w'' (n_store example_native) example_change"
proof -
  have "map_of (n_store example_native) (''/w'', c_path example_change) = Some sample_file"
    by (simp add: example_native_def example_change_def)
  moreover have "c_path example_change = ''a.py''" by (simp add: example_change_def)
  then have "change_passes example_env k ''/w'' example_change sample_file" for k
    by (simp add: change_passes_def example_env_def example_patch_env_def sample_patch_env_def open_guard_def sample_call_def Let_def
        normalize_exact_files_def sorted_set_def)
  moreover have "utf8_length (CodevPlans.new_text example_change) \<le> 131072"
    by (simp add: example_change_def utf8_length_def lf_def)
  ultimately show ?thesis using example_diff unfolding change_ready_def
    by (intro exI [of _ sample_file]) (simp add: example_env_def example_change_def)
qed

lemma example_plan_fields:
  "changes example_plan = [example_change]" "p_workspace_id example_plan = ''w''" "\<not> truthy (command_id example_plan)"
  "p_grant_epoch example_plan = 1" "c_path example_change = ''a.py''"
  by (simp_all add: example_plan_def sample_plan_def example_change_def)

lemma example_new_text: "CodevPlans.new_text example_change = [CHR ''a'', lf, CHR ''c'', lf]"
  by (simp add: example_change_def)

lemma example_root: "nw_root example_workspace = ''/w''" "in_root example_env example_workspace = Inr ()"
  by (simp_all add: in_root_def example_env_def open_guard_def example_workspace_def)

lemma example_backup: "backup_names example_env ''/w'' 0 [example_change] = [(''/w'', ''.elysia_backups/backup_1_a.py.bak'')]"
proof -
  have "backup_place sample_patch_env (''/w'', ''a.py'') = (''/w'', ''.elysia_backups/backup_1_a.py.bak'')" by code_simp
  then show ?thesis
    by (simp add: example_plan_fields example_env_def example_patch_env_def backup_place_def Let_def)
qed

lemma approved_plan_completes_witness:
  "\<exists>r n'. apply_plan example_env example_env sample_actor ''w'' ''p'' ''approval_x'' ''tok'' example_native = (Inr r, n') \<and>
     ar_changed r = [''a.py''] \<and> map_of (n_store n') (''/w'', ''a.py'') = Some (''a'' @ [lf] @ ''c'' @ [lf]) \<and>
     map_of (n_store n') (''/w'', ''.elysia_backups/backup_1_a.py.bak'') = Some sample_file"
proof -
  have "a_grants example_auth = native_grants example_native"
    by (simp add: example_auth_def consume_def native_grants_def split: sum.split prod.split)
  then have granted: "\<exists>g. require (ne_now example_env) sample_actor ''w'' ''apply'' [c_path example_change] (Some (p_grant_epoch example_plan)) None
      (a_grants example_auth) = Inr g"
    using example_require [of "''apply''"] by (simp add: example_plan_fields)
  have store: "map_of (n_store example_native) (''/w'', ''a.py'') = Some sample_file"
    "map_of (n_store example_native) (''/w'', ''.elysia_backups/backup_1_a.py.bak'') = None"
    by (simp_all add: example_native_def)
  have "\<exists>r n'. apply_plan example_env example_env sample_actor ''w'' ''p'' ''approval_x'' ''tok'' example_native = (Inr r, n') \<and>
     ar_changed r = map c_path (changes example_plan) \<and>
     (\<forall>(c, b) \<in> set (zip (changes example_plan) (backup_names example_env (nw_root example_workspace) 0 (changes example_plan))).
        map_of (n_store n') (nw_root example_workspace, c_path c) = Some (CodevPlans.new_text c) \<and>
        map_of (n_store n') b = map_of (n_store example_native) (nw_root example_workspace, c_path c)) \<and>
     (\<forall>place. place \<notin> (\<lambda>c. (nw_root example_workspace, c_path c)) ` set (changes example_plan) \<and>
        place \<notin> set (backup_names example_env (nw_root example_workspace) 0 (changes example_plan)) \<longrightarrow>
        map_of (n_store n') place = map_of (n_store example_native) place) \<and>
     (ar_status r = ''completed'' \<longleftrightarrow> (\<exists>v'. fst (refresh example_env ''w'' example_workspace n') = Inr v'))"
    by (rule approved_plan_completes [OF example_get example_root(2) example_refresh example_plan_found example_plan_fields(2)
          example_consume example_plan_fields(3)])
      (unfold example_plan_fields(1) example_root(1) example_backup, use granted example_ready store(2) in \<open>simp_all\<close>)
  then show ?thesis
    unfolding example_plan_fields(1) example_root(1) example_backup
    using example_new_text by (auto simp: example_plan_fields(5) store(1))
qed

lemma example_guard_exact: "guard_exact example_env root"
  by (simp add: guard_exact_def example_env_def example_patch_env_def sample_patch_env_def open_guard_def Let_def)

lemma example_names: "\<forall>kp \<in> set (a_plans (native_auth example_native)). \<forall>c \<in> set (changes (snd kp)). canonical_name (c_path c)"
proof -
  have "canonical_name ''a.py''" unfolding canonical_name_def safe_file_def by (intro conjI; code_simp)
  then show ?thesis by (simp add: native_auth_def example_native_def example_plan_def sample_plan_def example_change_def)
qed

lemma example_applied: "\<exists>r n'. apply_plan example_env example_env sample_actor ''w'' ''p'' ''approval_x'' ''tok'' example_native = (Inr r, n')"
proof -
  obtain verified changed n3 where "apply_changes example_env 0 sample_actor ''w'' (nw_root example_workspace) example_plan (changes example_plan)
      (on_codev_auth (\<lambda>_. example_auth) example_native) = ((verified, changed), n3)" by (metis prod.exhaust)
  from apply_plan_runs [OF example_get example_root(2) example_refresh example_plan_found example_plan_fields(2) example_consume
      example_plan_fields(3) this] show ?thesis by blast
qed

lemma plan_receipt_is_true_witness:
  "\<exists>r n'. apply_plan example_env example_env sample_actor ''w'' ''p'' ''approval_x'' ''tok'' example_native = (Inr r, n') \<and>
     plan_progress example_env ''/w'' [example_change] (ar_status r = ''completed'') (ar_changed r) (n_store example_native) (n_store n') \<and>
     ar_inspected r = [''a.py''] \<and> native_auth n' = example_auth \<and> map_of (a_plans (native_auth n')) ''p'' = None \<and>
     (\<exists>x. map_of (a_approvals (native_auth n')) ''approval_x'' = Some x \<and> consumed (approval x))"
proof -
  obtain r n' where run: "apply_plan example_env example_env sample_actor ''w'' ''p'' ''approval_x'' ''tok'' example_native = (Inr r, n')"
    using example_applied by blast
  have own: "own_workspace sample_actor ''w'' example_native = Inr example_workspace"
    by (rule get_workspace_own [OF example_get])
  have "plan_progress example_env ''/w'' [example_change] (ar_status r = ''completed'') (ar_changed r) (n_store example_native) (n_store n') \<and>
     ar_inspected r = [''a.py''] \<and> native_auth n' = example_auth \<and> map_of (a_plans (native_auth n')) ''p'' = None \<and>
     (\<exists>x. map_of (a_approvals (native_auth n')) ''approval_x'' = Some x \<and> consumed (approval x))"
  proof -
    obtain v v1 n1 p auth where a: "own_workspace sample_actor ''w'' example_native = Inr v"
      "refresh example_env ''w'' v example_native = (Inr v1, n1)"
      "consume (ne_codev example_env) (ne_now example_env) sample_actor ''approval_x'' ''tok'' ''p'' (nw_revision v1) (nw_snapshot v1)
        (native_auth n1) = (Inr p, auth)"
      and rest: "native_auth n' = auth" "map_of (a_plans (native_auth n')) ''p'' = None" "ar_inspected r = map c_path (changes p)"
        "plan_progress example_env (nw_root v) (changes p) (ar_status r = ''completed'') (ar_changed r) (n_store example_native) (n_store n')"
        "\<exists>x. map_of (a_approvals (native_auth n')) ''approval_x'' = Some x \<and> consumed (approval x)"
      using plan_receipt_is_true [OF run example_guard_exact example_names] by (elim exE conjE) (rule that, assumption+, blast)
    from a own example_refresh example_consume have "v = example_workspace" "p = example_plan" "auth = example_auth" by simp_all
    with rest show ?thesis by (simp add: example_plan_fields example_root)
  qed
  with run show ?thesis by blast
qed

lemma planned_diff_applies_witness:
  "\<exists>c. plan_change example_env example_workspace (''a.py'', ''x'' @ [lf]) = Inr [c] \<and> apply_unified_diff sample_file (diff c) = Inr (''x'' @ [lf])"
proof -
  obtain c where c: "plan_change example_env example_workspace (''a.py'', ''x'' @ [lf]) = Inr [c]"
    by (simp add: plan_change_def example_workspace_def example_env_def utf8_length_def sample_file_def lf_def)
  have "apply_unified_diff sample_file (diff c) = Inr (CodevPlans.new_text c) \<and> CodevPlans.new_text c = ''x'' @ [lf] \<and> c_path c = ''a.py''"
  proof (rule planned_diff_applies [OF c])
    show "difflib_ok (ne_script example_env)" using whole_script_ok by (simp add: example_env_def)
    show "plain ''a.py''" by (simp add: line_break_def)
    show "map_of (map (\<lambda>f. (wf_path f, f)) (rev (nw_files example_workspace))) ''a.py'' = Some (hd (nw_files example_workspace))"
      "wf_text (hd (nw_files example_workspace)) = Some sample_file" by (simp_all add: example_workspace_def)
    show "lf_text sample_file" "lf_text (''x'' @ [lf])" by code_simp+
  qed
  with c show ?thesis by auto
qed
end
