(* ===== verification/Journal.thy ===== *)
theory Journal
  imports CodingDiffs
begin

text \<open>
  The journal of runtime sessions: the effective policy built from the configuration
  (\<open>core/journal_policy.py\<close>) and the writer that obeys it (\<open>core/journal_writer.py\<close>).  A value of the
  configuration, of a policy or of an entry is a JSON value, a mapping an association list; \<open>str\<close> of a list or
  mapping, the date and the place of the journal are arguments.
\<close>

section \<open>Loose values\<close>

type_synonym config = "(string \<times> json) list"

definition value_at :: "config \<Rightarrow> string \<Rightarrow> json \<Rightarrow> json" where
  "value_at d k other = (case map_of d k of None \<Rightarrow> other | Some v \<Rightarrow> v)"

fun truth :: "json \<Rightarrow> bool" where
  "truth JNull \<longleftrightarrow> False"
| "truth (JBool b) \<longleftrightarrow> b"
| "truth (JInt i) \<longleftrightarrow> i \<noteq> 0"
| "truth (JStr s) \<longleftrightarrow> s \<noteq> []"
| "truth (JList xs) \<longleftrightarrow> xs \<noteq> []"
| "truth (JObj d) \<longleftrightarrow> d \<noteq> []"

definition bool_text :: "bool \<Rightarrow> string" where
  "bool_text b = (if b then ''True'' else ''False'')"

fun str_of :: "(json \<Rightarrow> string) \<Rightarrow> json \<Rightarrow> string" where
  "str_of repr JNull = ''None''"
| "str_of repr (JBool b) = bool_text b"
| "str_of repr (JInt i) = string_of_int i"
| "str_of repr (JStr s) = s"
| "str_of repr v = repr v"

definition str_or :: "(json \<Rightarrow> string) \<Rightarrow> json \<Rightarrow> string \<Rightarrow> string" where
  \<comment> \<open>\<open>str(v or other)\<close>\<close>
  "str_or repr v other = (if truth v then str_of repr v else other)"

definition coerce_bool :: "json \<Rightarrow> bool \<Rightarrow> bool" where
  "coerce_bool v other = (case v of JBool b \<Rightarrow> b | JNull \<Rightarrow> other
     | JStr s \<Rightarrow> (let lowered = lower (strip s) in
         if lowered \<in> {''true'', ''1'', ''yes'', ''on''} then True
         else if lowered \<in> {''false'', ''0'', ''no'', ''off''} then False
         else s \<noteq> [])
     | _ \<Rightarrow> truth v)"

definition coerce_int :: "json \<Rightarrow> int \<Rightarrow> int" where
  "coerce_int v other = (case v of JInt i \<Rightarrow> i | JBool b \<Rightarrow> of_bool b
     | JStr s \<Rightarrow> (case python_int s of None \<Rightarrow> other | Some i \<Rightarrow> i) | _ \<Rightarrow> other)"

definition canonical_autonomy_level :: "json \<Rightarrow> int" where
  "canonical_autonomy_level v = max 1 (min 5 (coerce_int v 1))"

definition as_mapping :: "json \<Rightarrow> config" where
  "as_mapping v = (case v of JObj d \<Rightarrow> d | _ \<Rightarrow> [])"

definition coerce_string_list :: "(json \<Rightarrow> string) \<Rightarrow> json \<Rightarrow> string list" where
  "coerce_string_list repr v = (case v of JNull \<Rightarrow> []
     | JList items \<Rightarrow> filter (\<lambda>s. strip s \<noteq> []) (map (str_of repr) items)
     | _ \<Rightarrow> (let text = strip (str_of repr v) in if text = [] then [] else [text]))"

definition journal_modes :: "string list" where
  "journal_modes = [''minimal'', ''standard'', ''detailed'', ''skip'']"

definition legacy_modes :: "(string \<times> string) list" where
  "legacy_modes = [(''scaffold_minimal'', ''minimal''), (''scaffold_memory_minimal'', ''standard''), (''scaffold_local_memory_minimal'', ''standard'')]"

definition normalize_journal_mode :: "(json \<Rightarrow> string) \<Rightarrow> json \<Rightarrow> string" where
  "normalize_journal_mode repr v = (let raw = lower (strip (str_or repr v ''minimal''));
       mode = (case map_of legacy_modes raw of None \<Rightarrow> raw | Some m \<Rightarrow> m)
     in if mode \<in> set journal_modes then mode else ''minimal'')"

section \<open>The effective policy\<close>

definition merge_policy_layer :: "config \<Rightarrow> json \<Rightarrow> config" where
  "merge_policy_layer base overrides = (case overrides of JObj d \<Rightarrow> foldl (\<lambda>b kv. AList.update (fst kv) (snd kv) b) base d | _ \<Rightarrow> base)"

definition scaffold_journaling :: "config \<Rightarrow> config" where
  "scaffold_journaling configs = as_mapping (value_at (as_mapping (value_at (as_mapping (value_at configs ''memory'' (JObj [])))
     ''memory_policy'' (JObj []))) ''scaffold_journaling'' (JObj []))"

definition resolve_effective_journal_mode :: "(json \<Rightarrow> string) \<Rightarrow> config \<Rightarrow> string" where
  "resolve_effective_journal_mode repr pol = (case map_of pol ''journal_mode'' of Some v \<Rightarrow> normalize_journal_mode repr v
     | None \<Rightarrow> normalize_journal_mode repr (value_at pol ''default_journal_mode'' (JStr ''minimal'')))"

definition set_all :: "(string \<times> json) list \<Rightarrow> config \<Rightarrow> config" where
  "set_all kvs d = foldl (\<lambda>b kv. AList.update (fst kv) (snd kv) b) d kvs"

definition switches :: "(string \<times> bool) list" where
  \<comment> \<open>what an entry includes, with the default\<close>
  "switches = [(''include_plan_summary'', False), (''include_retrieval_summary'', False), (''include_boundary_flags'', False),
     (''include_memory_class'', False), (''include_policy_summary'', True), (''redact_sensitive_content'', True)]"

definition finalize_journal_policy :: "(json \<Rightarrow> string) \<Rightarrow> config \<Rightarrow> string \<Rightarrow> int \<Rightarrow> string list \<Rightarrow> config" where
  "finalize_journal_policy repr pol mode level applied = (let
       enabled = coerce_bool (value_at pol ''journaling_enabled'' (value_at pol ''journal_write_allowed'' (JBool True))) True;
       allowed = coerce_bool (value_at pol ''journal_write_allowed'' (JBool enabled)) enabled;
       journal_mode = resolve_effective_journal_mode repr pol;
       coerced = set_all ([(''journaling_enabled'', JBool enabled), (''journal_write_allowed'', JBool allowed), (''journal_mode'', JStr journal_mode)] @
         map (\<lambda>kd. (fst kd, JBool (coerce_bool (value_at pol (fst kd) JNull) (snd kd)))) switches) pol;
       skipped = (if \<not> allowed \<or> journal_mode = ''skip''
         then set_all [(''journal_write_allowed'', JBool False), (''journal_mode'', JStr ''skip'')] coerced else coerced);
       note_text = join '' '' ([''Effective journal policy built from normalized scaffold_journaling config.'', ''mode='' @ mode,
         ''autonomy_level='' @ string_of_int level] @ (if applied = [] then [] else [''boundary_overrides='' @ join '', '' applied]))
     in set_all [(''applied_boundary_overrides'', json_strs applied), (''note'', JStr note_text)] skipped)"

fun apply_boundary_overrides :: "config \<Rightarrow> string list \<Rightarrow> config \<Rightarrow> config \<times> string list" where
  "apply_boundary_overrides overrides [] pol = (pol, [])"
| "apply_boundary_overrides overrides (flag # flags) pol = (let over = value_at overrides flag (JObj []) in
     if as_mapping over \<noteq> []
     then (let (final, applied) = apply_boundary_overrides overrides flags (merge_policy_layer pol over) in (final, flag # applied))
     else apply_boundary_overrides overrides flags pol)"

definition base_policy :: "(json \<Rightarrow> string) \<Rightarrow> config \<Rightarrow> config" where
  "base_policy repr sj = (let enabled = JBool (coerce_bool (value_at sj ''journaling_enabled'' (JBool True)) True) in
     [(''journaling_enabled'', enabled), (''default_journal_mode'', JStr (str_or repr (value_at sj ''default_journal_mode'' (JStr ''minimal'')) ''minimal'')),
      (''journal_write_allowed'', enabled)] @
     map (\<lambda>kd. (fst kd, JBool (coerce_bool (value_at sj (fst kd) (JBool (snd kd))) (snd kd)))) switches)"

definition layered_policy :: "(json \<Rightarrow> string) \<Rightarrow> config \<Rightarrow> string \<Rightarrow> int \<Rightarrow> config" where
  \<comment> \<open>before the boundary overrides\<close>
  "layered_policy repr sj mode level = (let
       modes = as_mapping (value_at sj ''mode_overrides'' (JObj []));
       levels = as_mapping (value_at sj ''autonomy_overrides'' (JObj []));
       p1 = merge_policy_layer (base_policy repr sj) (value_at modes ''default'' (JObj []));
       p2 = merge_policy_layer p1 (value_at modes mode (JObj []))
     in merge_policy_layer p2 (value_at levels (string_of_int level) (JObj [])))"

definition build_journal_policy :: "(json \<Rightarrow> string) \<Rightarrow> config \<Rightarrow> string \<Rightarrow> json \<Rightarrow> json \<Rightarrow> config" where
  \<comment> \<open>of the configuration, the mode, the autonomy level and the boundary flags\<close>
  "build_journal_policy repr configs mode autonomy flags = (let
       sj = scaffold_journaling configs;
       level = canonical_autonomy_level autonomy;
       (pol, applied) = apply_boundary_overrides (as_mapping (value_at sj ''boundary_overrides'' (JObj [])))
         (coerce_string_list repr flags) (layered_policy repr sj mode level)
     in finalize_journal_policy repr pol mode level applied)"

section \<open>The writer\<close>

record writer_policy =
  wp_allowed :: bool
  wp_mode :: string
  wp_plan :: bool
  wp_retrieval :: bool
  wp_flags :: bool
  wp_class :: bool
  wp_policy :: bool
  wp_redact :: bool
  wp_note :: string

definition normalize_runtime_journal_policy :: "(json \<Rightarrow> string) \<Rightarrow> json \<Rightarrow> writer_policy" where
  "normalize_runtime_journal_policy repr policy = (let raw = as_mapping policy;
       allowed = coerce_bool (value_at raw ''journal_write_allowed'' (value_at raw ''journaling_enabled'' (JBool True))) True;
       mode = normalize_journal_mode repr (value_at raw ''journal_mode'' (value_at raw ''default_journal_mode'' (JStr ''minimal'')));
       skip = (\<not> allowed \<or> mode = ''skip'')
     in \<lparr>wp_allowed = \<not> skip, wp_mode = (if skip then ''skip'' else mode),
         wp_plan = coerce_bool (value_at raw ''include_plan_summary'' JNull) False,
         wp_retrieval = coerce_bool (value_at raw ''include_retrieval_summary'' JNull) False,
         wp_flags = coerce_bool (value_at raw ''include_boundary_flags'' JNull) False,
         wp_class = coerce_bool (value_at raw ''include_memory_class'' JNull) False,
         wp_policy = coerce_bool (value_at raw ''include_policy_summary'' JNull) True,
         wp_redact = coerce_bool (value_at raw ''redact_sensitive_content'' JNull) True,
         wp_note = str_or repr (value_at raw ''note'' (JStr [])) []\<rparr>)"

definition summarize_message :: "string \<Rightarrow> string" where
  "summarize_message message = (let cleaned = join '' '' (words message) in
     if length cleaned \<le> 120 then cleaned else take 117 cleaned @ ''...'')"

definition sensitive_flags :: "string list" where
  "sensitive_flags = [''sealed_private_memory'', ''sensitive_personal_content'']"

definition should_redact :: "(json \<Rightarrow> string) \<Rightarrow> config \<Rightarrow> writer_policy \<Rightarrow> bool" where
  "should_redact repr entry p \<longleftrightarrow> wp_redact p \<and>
     set (coerce_string_list repr (value_at entry ''boundary_flags'' (JList []))) \<inter> set sensitive_flags \<noteq> {}"

definition safe_message_summary :: "(json \<Rightarrow> string) \<Rightarrow> config \<Rightarrow> bool \<Rightarrow> string" where
  "safe_message_summary repr entry redact = (if redact then ''Withheld by journal policy due to sensitive boundary flags.''
     else let explicit_summary = strip (str_or repr (value_at entry ''message_summary'' (JStr [])) []);
              raw = strip (str_or repr (value_at entry ''message'' (JStr [])) [])
       in if explicit_summary \<noteq> [] then summarize_message explicit_summary
          else if raw \<noteq> [] then summarize_message raw
          else ''No message summary recorded.'')"

definition maybe_redact :: "(json \<Rightarrow> string) \<Rightarrow> json \<Rightarrow> bool \<Rightarrow> string" where
  "maybe_redact repr v redact = (if redact then ''Withheld by journal policy.''
     else let text = strip (str_or repr v []) in if text = [] then ''none'' else text)"

definition memory_class_lines :: "(json \<Rightarrow> string) \<Rightarrow> config \<Rightarrow> bool \<Rightarrow> string list" where
  "memory_class_lines repr entry redact = (let
       chosen = maybe_redact repr (value_at entry ''memory_class'' (JStr ''unspecified'')) redact;
       class_source = maybe_redact repr (value_at entry ''memory_class_source'' (JStr ''unknown'')) redact;
       primary = maybe_redact repr (value_at entry ''primary_memory_class'' (JStr ''unspecified'')) redact;
       forced = maybe_redact repr (value_at entry ''forced_memory_class'' (JStr [])) redact;
       sensitive = coerce_bool (value_at entry ''memory_class_boundary_sensitive'' (JBool False)) False;
       checked = coerce_bool (value_at entry ''memory_class_requires_boundary_check'' (JBool False)) False
     in [''## Memory class reasoning'', ''- Selected memory class: '' @ chosen, ''- Memory class source: '' @ class_source,
         ''- Primary memory class: '' @ primary, ''- Forced memory class: '' @ forced,
         ''- Boundary-sensitive memory class: '' @ bool_text sensitive, ''- Memory class requires boundary check: '' @ bool_text checked,
         (if redact then ''- Memory-class explanation detail was reduced because boundary handling required redaction.''
          else if forced \<noteq> ''none'' then ''- Boundary handling influenced the selected memory class.''
          else if class_source = ''primary_memory_class'' then ''- The selected memory class followed the runtime primary memory-class policy.''
          else if class_source = ''context_memory_class'' then ''- The selected memory class was carried in from context.''
          else if class_source = ''retrieval_mode_local_session_memory'' then ''- The selected memory class followed local session retrieval context.''
          else ''- The selected memory class followed scaffold runtime memory-class reasoning.''), []])"

definition model_routing_lines :: "(json \<Rightarrow> string) \<Rightarrow> config \<Rightarrow> bool \<Rightarrow> string list" where
  "model_routing_lines repr entry redact = (let
       role = maybe_redact repr (value_at entry ''selected_model_role'' (JStr ''none'')) redact;
       target = maybe_redact repr (value_at entry ''selected_model_target'' (JStr ''none'')) redact;
       runtime = maybe_redact repr (value_at entry ''selected_model_runtime'' (JStr ''unknown'')) redact;
       local = coerce_bool (value_at entry ''model_route_stayed_local'' (JBool True)) True;
       allowed = coerce_bool (value_at entry ''model_route_allowed'' (JBool False)) False
     in [''## Model routing reasoning'', ''- Selected model role: '' @ role, ''- Selected model target: '' @ target,
         ''- Selected model runtime: '' @ runtime, ''- Model route stayed local: '' @ bool_text local, ''- Model route allowed: '' @ bool_text allowed] @
        (if redact then [''- Model-routing explanation detail was reduced because boundary handling required redaction.'']
         else [(if local then ''- The selected model route remained inside the local-first core.''
                else ''- The selected model route allowed an explicitly bounded non-local path.''),
               (if allowed then ''- The selected model route passed current scaffold approval requirements.''
                else ''- The selected model route did not meet current scaffold approval requirements.'')]) @ [[]])"

definition routing_fields :: "string list" where
  "routing_fields = [''selected_model_role'', ''selected_model_target'', ''selected_model_runtime'', ''model_route_stayed_local'', ''model_route_allowed'']"

definition has_model_routing :: "config \<Rightarrow> bool" where
  "has_model_routing entry \<longleftrightarrow> list_ex (\<lambda>field. map_of entry field \<noteq> None) routing_fields"

definition comma_or_none :: "string list \<Rightarrow> string" where
  "comma_or_none xs = (let text = join '', '' xs in if text = [] then ''none'' else text)"

definition header_lines :: "string \<Rightarrow> writer_policy \<Rightarrow> string list" where
  \<comment> \<open>of the date\<close>
  "header_lines date p = [''# Runtime Session Note'', [], ''Date: '' @ date, ''Category: session'', []] @
     (if wp_policy p then [''## Journal policy'', ''- Journal write allowed: '' @ bool_text (wp_allowed p), ''- Journal mode: '' @ wp_mode p,
        ''- Redact sensitive content: '' @ bool_text (wp_redact p),
        ''- Policy note: '' @ (if strip (wp_note p) = [] then ''Writer obeyed the effective runtime journal policy.'' else strip (wp_note p)), []] else [])"

definition fact_lines :: "(json \<Rightarrow> string) \<Rightarrow> config \<Rightarrow> bool \<Rightarrow> string list" where
  "fact_lines repr entry redact = [''## Context'', ''Scaffold runtime handled a user message without real execution.'', [], ''## Key facts'',
     ''- Message summary: '' @ safe_message_summary repr entry redact, ''- Intent: '' @ str_of repr (value_at entry ''intent'' (JStr ''unknown'')),
     ''- Mode: '' @ str_of repr (value_at entry ''mode'' (JStr ''unknown'')),
     ''- Skill count: '' @ string_of_int (coerce_int (value_at entry ''skill_count'' (JInt 0)) 0),
     ''- Config groups: '' @ comma_or_none (coerce_string_list repr (value_at entry ''config_groups'' (JList [])))]"

definition retrieval_lines :: "(json \<Rightarrow> string) \<Rightarrow> config \<Rightarrow> bool \<Rightarrow> string list" where
  "retrieval_lines repr entry redact = [''## Retrieval summary'',
     ''- Retrieved memory count: '' @ string_of_int (coerce_int (value_at entry ''retrieved_memory_count'' (JInt 0)) 0),
     ''- Uses memory context: '' @ bool_text (coerce_bool (value_at entry ''uses_memory_context'' (JBool False)) False),
     ''- Reads private memory: '' @ bool_text (coerce_bool (value_at entry ''reads_private_memory'' (JBool False)) False),
     ''- Memory context source: '' @ maybe_redact repr (value_at entry ''memory_context_source'' (JStr ''unknown'')) redact, []]"

definition closing_lines :: "string \<Rightarrow> bool \<Rightarrow> string list" where
  "closing_lines mode verified =
     (if mode = ''minimal'' then [''## Decision or takeaway'', ''Runtime scaffold completed its non-executing path successfully.'', [],
        ''## Uncertainty'', ''This minimal entry preserves continuity while avoiding unnecessary detail.'', [],
        ''## Follow-up'', ''Later phases may refine how this session is categorized and retained.'']
      else if mode = ''standard'' then [''## Decision or takeaway'',
        ''Runtime scaffold completed its non-executing path successfully under policy-governed journaling.'', [],
        ''## Verification'', ''- Verification passed: '' @ bool_text verified, [], ''## Uncertainty'',
        ''This entry reflects scaffold policy handling with explicit memory-class selection, and model-routing narration remains scaffold-level.'', [],
        ''## Follow-up'', ''Later phases may connect this more explicitly to richer planner rationale, refusals, model-routing intent, and long-term continuity.'']
      else [''## Decision or takeaway'', ''Runtime scaffold completed its non-executing path successfully under detailed policy-governed journaling.'', [],
        ''## Verification'', ''- Verification passed: '' @ bool_text verified, [], ''## Journal reasoning'',
        ''- This entry was expanded because the effective policy requested detailed journaling.'',
        ''- Sensitive details may still be redacted when boundary handling requires it.'',
        ''- Memory-class selection is now recorded more explicitly so the journal better reflects runtime policy reasoning.'',
        ''- Model-routing selection is now recorded more explicitly when runtime provides it.'', [], ''## Uncertainty'',
        ''This remains scaffold journaling even though planner, runtime, policy, verifier, and model routing now carry richer reasoning.'', [],
        ''## Follow-up'', ''Later phases may attach explicit planner rationale, refusals, model-routing rationale, and deeper memory-class justification to this record.''])"

definition build_journal_lines :: "(json \<Rightarrow> string) \<Rightarrow> string \<Rightarrow> config \<Rightarrow> writer_policy \<Rightarrow> string list" where
  "build_journal_lines repr date entry p = (let redact = should_redact repr entry p in
     header_lines date p @ fact_lines repr entry redact @
     (if wp_class p then [[]] @ memory_class_lines repr entry redact @
        (if has_model_routing entry then model_routing_lines repr entry redact else []) else []) @
     (if wp_retrieval p then retrieval_lines repr entry redact else [[]]) @
     (if wp_flags p then [''## Boundary handling'',
        ''- Boundary flags: '' @ comma_or_none (coerce_string_list repr (value_at entry ''boundary_flags'' (JList []))), []] else []) @
     (if wp_plan p then [''## Plan summary'', maybe_redact repr (value_at entry ''plan_summary'' (JStr ''No plan summary recorded.'')) redact, []] else []) @
     closing_lines (wp_mode p) (coerce_bool (value_at entry ''verified'' (JBool False)) False))"

record journal_receipt =
  jr_path :: string
  jr_allowed :: bool
  jr_mode :: string
  jr_note :: string

type_synonym journal = "(string \<times> string) list" \<comment> \<open>the text of each file\<close>

definition lf_char :: char where
  "lf_char = CHR 0x0A"

definition write_session_journal_entry :: "(json \<Rightarrow> string) \<Rightarrow> string \<Rightarrow> string \<Rightarrow> config \<Rightarrow> json \<Rightarrow> journal \<Rightarrow> journal_receipt \<times> journal" where
  \<comment> \<open>of the directory, the date, the entry and the policy; a disk that refuses raises before anything is written\<close>
  "write_session_journal_entry repr dir date entry policy j = (let p = normalize_runtime_journal_policy repr policy in
     if \<not> wp_allowed p then (\<lparr>jr_path = [], jr_allowed = False, jr_mode = wp_mode p,
         jr_note = (if wp_note p \<noteq> [] then wp_note p else ''Journal writing was skipped by runtime journal policy.'')\<rparr>, j)
     else (let path = dir @ ''/'' @ date @ ''_runtime-session.md'';
               text = ''---'' @ [lf_char] @ join [lf_char] (build_journal_lines repr date entry p) @ [lf_char] @ ''---'' @ [lf_char]
       in (\<lparr>jr_path = path, jr_allowed = True, jr_mode = wp_mode p,
         jr_note = (if wp_note p \<noteq> [] then wp_note p else ''Journal entry written according to runtime journal policy.'')\<rparr>,
         AList.update path ((case map_of j path of None \<Rightarrow> [] | Some t \<Rightarrow> t) @ text) j)))"

section \<open>Layers\<close>

lemma map_of_set_all: "map_of (set_all kvs d) k = (case map_of (rev kvs) k of Some v \<Rightarrow> Some v | None \<Rightarrow> map_of d k)"
  unfolding set_all_def by (induction kvs arbitrary: d) (auto simp: update_conv' split: option.splits)

lemma merge_policy_layer_mapping: "merge_policy_layer base v = set_all (as_mapping v) base"
  by (simp add: merge_policy_layer_def set_all_def as_mapping_def split: json.split)

lemma map_of_merge_all:
  "(\<And>u. (k, u) \<in> set (as_mapping over) \<Longrightarrow> u = v) \<Longrightarrow>
     map_of (merge_policy_layer base over) k = (if k \<in> fst ` set (as_mapping over) then Some v else map_of base k)"
  unfolding merge_policy_layer_mapping map_of_set_all
  by (force simp: map_of_eq_None_iff dest: map_of_SomeD split: option.splits)

lemma map_of_boundary_overrides:
  "\<forall>flag \<in> set flags. \<forall>u. (k, u) \<in> set (as_mapping (value_at overrides flag (JObj []))) \<longrightarrow> u = v \<Longrightarrow>
     map_of (fst (apply_boundary_overrides overrides flags pol)) k =
       (if \<exists>flag \<in> set flags. k \<in> fst ` set (as_mapping (value_at overrides flag (JObj []))) then Some v else map_of pol k)"
proof (induction flags arbitrary: pol)
  case (Cons flag flags)
  let ?over = "value_at overrides flag (JObj [])"
  let ?pol = "if as_mapping ?over = [] then pol else merge_policy_layer pol ?over"
  have one: "map_of ?pol k = (if k \<in> fst ` set (as_mapping ?over) then Some v else map_of pol k)"
    using map_of_merge_all [of k ?over v pol] Cons.prems by simp
  have "fst (apply_boundary_overrides overrides (flag # flags) pol) = fst (apply_boundary_overrides overrides flags ?pol)"
    by (simp add: Let_def split: prod.split)
  moreover have "map_of (fst (apply_boundary_overrides overrides flags ?pol)) k =
      (if \<exists>f \<in> set flags. k \<in> fst ` set (as_mapping (value_at overrides f (JObj []))) then Some v else map_of ?pol k)"
    by (rule Cons.IH) (use Cons.prems in simp)
  ultimately show ?case using one by simp
qed simp

lemma coerce_bool_JBool [simp]: "coerce_bool (JBool b) other = b"
  by (simp add: coerce_bool_def)

lemma normal_mode: "normalize_journal_mode repr v \<in> set journal_modes"
  by (simp add: normalize_journal_mode_def Let_def journal_modes_def)

lemma resolved_mode: "resolve_effective_journal_mode repr pol \<in> set journal_modes"
  by (simp add: resolve_effective_journal_mode_def normal_mode split: option.split)

lemma normal_mode_same: "m \<in> set journal_modes \<Longrightarrow> normalize_journal_mode repr (JStr m) = m"
proof -
  have "list_all (\<lambda>m. lower (strip m) = m \<and> m \<noteq> [] \<and> map_of legacy_modes m = None) journal_modes" by code_simp
  then show "m \<in> set journal_modes \<Longrightarrow> normalize_journal_mode repr (JStr m) = m"
    by (auto simp: normalize_journal_mode_def str_or_def list_all_iff Let_def)
qed

text \<open>The decisions of a finished policy.\<close>

definition writing_allowed :: "config \<Rightarrow> bool" where
  "writing_allowed pol = coerce_bool (value_at pol ''journal_write_allowed'' (JBool (coerce_bool (value_at pol ''journaling_enabled''
     (value_at pol ''journal_write_allowed'' (JBool True))) True))) (coerce_bool (value_at pol ''journaling_enabled''
     (value_at pol ''journal_write_allowed'' (JBool True))) True)"

lemma decided_lookup:
  assumes "d = set_all [(''applied_boundary_overrides'', x), (''note'', y)] (if skipping
     then set_all [(''journal_write_allowed'', JBool False), (''journal_mode'', JStr ''skip'')] e else e)"
    and "e = set_all ([(''journaling_enabled'', a), (''journal_write_allowed'', b), (''journal_mode'', c)] @ map (\<lambda>kd. (fst kd, f kd)) switches) pol"
  shows "map_of d ''journal_write_allowed'' = Some (if skipping then JBool False else b)"
    and "map_of d ''journal_mode'' = Some (if skipping then JStr ''skip'' else c)"
    and "list_all (\<lambda>kd. map_of d (fst kd) = Some (f kd)) switches"
  unfolding assms by (cases skipping; simp add: map_of_set_all switches_def)+

lemma finalized_values:
  assumes "pol' = finalize_journal_policy repr pol mode level applied"
  shows "map_of pol' ''journal_write_allowed'' = Some (JBool (writing_allowed pol \<and> resolve_effective_journal_mode repr pol \<noteq> ''skip''))"
    and "map_of pol' ''journal_mode'' = Some (JStr (if writing_allowed pol then resolve_effective_journal_mode repr pol else ''skip''))"
    and "(key, other) \<in> set switches \<Longrightarrow> map_of pol' key = Some (JBool (coerce_bool (value_at pol key JNull) other))"
proof -
  note found = decided_lookup [OF _ refl, OF assms [unfolded finalize_journal_policy_def Let_def]]
  show "map_of pol' ''journal_write_allowed'' = Some (JBool (writing_allowed pol \<and> resolve_effective_journal_mode repr pol \<noteq> ''skip''))"
    using found(1) by (simp add: writing_allowed_def)
  show "map_of pol' ''journal_mode'' = Some (JStr (if writing_allowed pol then resolve_effective_journal_mode repr pol else ''skip''))"
    using found(2) by (auto simp: writing_allowed_def)
  show "(key, other) \<in> set switches \<Longrightarrow> map_of pol' key = Some (JBool (coerce_bool (value_at pol key JNull) other))"
    using found(3) by (auto simp: list_all_iff)
qed

lemma switches_members:
  "(''include_plan_summary'', False) \<in> set switches" "(''include_retrieval_summary'', False) \<in> set switches"
  "(''include_boundary_flags'', False) \<in> set switches" "(''include_memory_class'', False) \<in> set switches"
  "(''include_policy_summary'', True) \<in> set switches" "(''redact_sensitive_content'', True) \<in> set switches"
  by (simp_all add: switches_def)

definition policy_agrees :: "config \<Rightarrow> writer_policy \<Rightarrow> bool" where
  "policy_agrees pol w \<longleftrightarrow> map_of pol ''journal_write_allowed'' = Some (JBool (wp_allowed w)) \<and> map_of pol ''journal_mode'' = Some (JStr (wp_mode w)) \<and>
    map_of pol ''include_plan_summary'' = Some (JBool (wp_plan w)) \<and> map_of pol ''include_retrieval_summary'' = Some (JBool (wp_retrieval w)) \<and>
    map_of pol ''include_boundary_flags'' = Some (JBool (wp_flags w)) \<and> map_of pol ''include_memory_class'' = Some (JBool (wp_class w)) \<and>
    map_of pol ''include_policy_summary'' = Some (JBool (wp_policy w)) \<and> map_of pol ''redact_sensitive_content'' = Some (JBool (wp_redact w)) \<and>
    (wp_allowed w \<longleftrightarrow> wp_mode w \<noteq> ''skip'') \<and> wp_mode w \<in> set journal_modes"

text \<open>
   The writer obeys the built policy: reading it back, the writer finds the permission, the mode and every switch
  that the builder decided; the mode is one of the four, and an entry is written exactly when it is not skip.
\<close>

theorem writer_obeys_policy:
  "policy_agrees (build_journal_policy repr configs mode autonomy flags)
     (normalize_runtime_journal_policy repr (JObj (build_journal_policy repr configs mode autonomy flags)))"
proof -
  define pol where "pol = build_journal_policy repr configs mode autonomy flags"
  define w where "w = normalize_runtime_journal_policy repr (JObj pol)"
  obtain p level applied where pol: "pol = finalize_journal_policy repr p mode level applied"
    unfolding pol_def build_journal_policy_def Let_def case_prod_beta by blast
  note vals = finalized_values [OF pol]
  let ?m = "resolve_effective_journal_mode repr p"
  have skip: "normalize_journal_mode repr (JStr ''skip'') = ''skip''" by (rule normal_mode_same) (simp add: journal_modes_def)
  have m: "normalize_journal_mode repr (JStr ?m) = ?m" by (rule normal_mode_same) (rule resolved_mode)
  have sw: "map_of pol key = Some (JBool (coerce_bool (value_at p key JNull) other))" if "(key, other) \<in> set switches" for key other
    using vals(3) [OF that] .
  have w: "wp_allowed w = (writing_allowed p \<and> ?m \<noteq> ''skip'')" "wp_mode w = (if writing_allowed p then ?m else ''skip'')"
    using skip m by (auto simp: w_def normalize_runtime_journal_policy_def Let_def as_mapping_def value_at_def vals)
  have "map_of pol ''include_plan_summary'' = Some (JBool (wp_plan w)) \<and> map_of pol ''include_retrieval_summary'' = Some (JBool (wp_retrieval w)) \<and>
    map_of pol ''include_boundary_flags'' = Some (JBool (wp_flags w)) \<and> map_of pol ''include_memory_class'' = Some (JBool (wp_class w)) \<and>
    map_of pol ''include_policy_summary'' = Some (JBool (wp_policy w)) \<and> map_of pol ''redact_sensitive_content'' = Some (JBool (wp_redact w))"
    using sw [of "''include_plan_summary''" False] sw [of "''include_retrieval_summary''" False] sw [of "''include_boundary_flags''" False]
      sw [of "''include_memory_class''" False] sw [of "''include_policy_summary''" True] sw [of "''redact_sensitive_content''" True] switches_members
    by (simp add: w_def normalize_runtime_journal_policy_def Let_def as_mapping_def value_at_def)
  moreover have "?m \<in> set journal_modes" "''skip'' \<in> set journal_modes" by (rule resolved_mode) (simp add: journal_modes_def)
  ultimately have "policy_agrees pol w" unfolding policy_agrees_def using vals(1,2) w by auto
  then show ?thesis by (simp add: pol_def w_def)
qed

section \<open>A boundary has the last word\<close>

definition override_of :: "config \<Rightarrow> string \<Rightarrow> config" where
  \<comment> \<open>the override of a boundary flag\<close>
  "override_of configs flag = as_mapping (value_at (as_mapping (value_at (scaffold_journaling configs) ''boundary_overrides'' (JObj []))) flag (JObj []))"

text \<open>
  Claim C32.  When a raised boundary flag has an override that forbids writing, and no other raised flag has one that
  permits it, nothing is written, whatever the base, mode and autonomy layers say and whatever the entry holds.
\<close>

theorem boundary_forbids_writing:
  assumes "flag \<in> set (coerce_string_list repr flags)"
    and "(''journal_write_allowed'', JBool False) \<in> set (override_of configs flag)"
    and "\<forall>f \<in> set (coerce_string_list repr flags). \<forall>u. (''journal_write_allowed'', u) \<in> set (override_of configs f) \<longrightarrow> u = JBool False"
  shows "snd (write_session_journal_entry repr dir date entry (JObj (build_journal_policy repr configs mode autonomy flags)) j) = j"
proof -
  let ?pol = "build_journal_policy repr configs mode autonomy flags"
  define overrides where "overrides = as_mapping (value_at (scaffold_journaling configs) ''boundary_overrides'' (JObj []))"
  let ?base = "layered_policy repr (scaffold_journaling configs) mode (canonical_autonomy_level autonomy)"
  obtain p applied where p: "apply_boundary_overrides overrides (coerce_string_list repr flags) ?base = (p, applied)" by fastforce
  then have pol: "?pol = finalize_journal_policy repr p mode (canonical_autonomy_level autonomy) applied"
    by (simp add: build_journal_policy_def Let_def overrides_def)
  note over = override_of_def [of configs, folded overrides_def]
  have "\<exists>f \<in> set (coerce_string_list repr flags). ''journal_write_allowed'' \<in> fst ` set (as_mapping (value_at overrides f (JObj [])))"
    by (rule bexI [OF _ assms(1)], rule image_eqI [OF _ assms(2) [unfolded over]]) simp
  with map_of_boundary_overrides [OF assms(3) [unfolded over], of ?base] p
  have "map_of p ''journal_write_allowed'' = Some (JBool False)" by simp
  then have "\<not> writing_allowed p" by (simp add: writing_allowed_def value_at_def)
  with finalized_values(1) [OF pol] have "map_of ?pol ''journal_write_allowed'' = Some (JBool False)" by simp
  then show ?thesis
    by (simp add: write_session_journal_entry_def normalize_runtime_journal_policy_def Let_def as_mapping_def value_at_def)
qed

section \<open>What is withheld is withheld\<close>

definition withheld_fields :: "string list" where
  "withheld_fields = [''message_summary'', ''message'', ''memory_class'', ''memory_class_source'', ''primary_memory_class'', ''forced_memory_class'',
     ''selected_model_role'', ''selected_model_target'', ''selected_model_runtime'', ''memory_context_source'', ''plan_summary'']"

definition same_but_withheld :: "config \<Rightarrow> config \<Rightarrow> bool" where
  "same_but_withheld e e' \<longleftrightarrow> (\<forall>k. (map_of e k = None) = (map_of e' k = None) \<and> (k \<notin> set withheld_fields \<longrightarrow> map_of e k = map_of e' k))"

lemma same_value: "same_but_withheld e e' \<Longrightarrow> k \<notin> set withheld_fields \<Longrightarrow> value_at e k v = value_at e' k v"
  by (simp add: same_but_withheld_def value_at_def)

lemma same_routing: "same_but_withheld e e' \<Longrightarrow> has_model_routing e = has_model_routing e'"
  unfolding same_but_withheld_def has_model_routing_def list_ex_iff by simp

lemma same_redaction: "same_but_withheld e e' \<Longrightarrow> should_redact repr e p = should_redact repr e' p"
  using same_value [of e e' "''boundary_flags''"] by (simp add: should_redact_def withheld_fields_def)

lemma same_redacted_lines:
  assumes "same_but_withheld e e'"
  shows "memory_class_lines repr e True = memory_class_lines repr e' True" "model_routing_lines repr e True = model_routing_lines repr e' True"
    "fact_lines repr e True = fact_lines repr e' True" "retrieval_lines repr e True = retrieval_lines repr e' True"
  using same_value [OF assms]
  by (simp_all add: memory_class_lines_def model_routing_lines_def fact_lines_def retrieval_lines_def safe_message_summary_def maybe_redact_def
      withheld_fields_def)

text \<open>
  Claim C31.  Redaction leaks nothing: when the policy redacts and the entry bears a sensitive boundary flag, two entries
  that differ only in the message, its summary, the plan, the memory classes, the context source and the chosen model
  leave the same receipt and the same journal.
\<close>

theorem redacted_entries_look_alike:
  assumes "same_but_withheld e e'" "should_redact repr e (normalize_runtime_journal_policy repr policy)"
  shows "write_session_journal_entry repr dir date e policy j = write_session_journal_entry repr dir date e' policy j"
proof -
  have "build_journal_lines repr date e p = build_journal_lines repr date e' p" if "should_redact repr e p" for p
    using that same_redaction [OF assms(1)] same_value [OF assms(1)] same_routing [OF assms(1)] same_redacted_lines [OF assms(1)]
    by (simp add: build_journal_lines_def Let_def maybe_redact_def withheld_fields_def)
  with assms(2) show ?thesis by (simp add: write_session_journal_entry_def Let_def)
qed

section \<open>Instances\<close>

definition sample_repr :: "json \<Rightarrow> string" where
  "sample_repr v = ''...''"

definition journal_configs :: "config \<Rightarrow> config" where
  "journal_configs sj = [(''memory'', JObj [(''memory_policy'', JObj [(''scaffold_journaling'', JObj sj)])])]"

definition sealed_forbids :: config where
  "sealed_forbids = journal_configs [(''journaling_enabled'', JBool True),
     (''boundary_overrides'', JObj [(''sealed_private_memory'', JObj [(''journal_write_allowed'', JBool False)])])]"

lemma boundary_forbids_writing_witness:
  "snd (write_session_journal_entry sample_repr ''/j'' ''2026-01-01'' [] (JObj (build_journal_policy sample_repr sealed_forbids ''default'' (JInt 1)
     (JList [JStr ''sealed_private_memory'']))) []) = []"
proof -
  have flags: "coerce_string_list sample_repr (JList [JStr ''sealed_private_memory'']) = [''sealed_private_memory'']" by code_simp
  have over: "override_of sealed_forbids ''sealed_private_memory'' = [(''journal_write_allowed'', JBool False)]" by code_simp
  show ?thesis
  proof (rule boundary_forbids_writing)
    show "''sealed_private_memory'' \<in> set (coerce_string_list sample_repr (JList [JStr ''sealed_private_memory'']))" unfolding flags by simp
    show "(''journal_write_allowed'', JBool False) \<in> set (override_of sealed_forbids ''sealed_private_memory'')" unfolding over by simp
    show "\<forall>f \<in> set (coerce_string_list sample_repr (JList [JStr ''sealed_private_memory''])).
        \<forall>u. (''journal_write_allowed'', u) \<in> set (override_of sealed_forbids f) \<longrightarrow> u = JBool False"
      unfolding flags using over by simp
  qed
qed

definition sealed_entry :: "string \<Rightarrow> config" where
  "sealed_entry message = [(''message'', JStr message), (''boundary_flags'', JList [JStr ''sealed_private_memory''])]"

lemma redacted_entries_look_alike_witness:
  "write_session_journal_entry sample_repr ''/j'' ''2026-01-01'' (sealed_entry ''my secret'') (JObj []) [] =
   write_session_journal_entry sample_repr ''/j'' ''2026-01-01'' (sealed_entry ''another'') (JObj []) []"
proof (rule redacted_entries_look_alike)
  show "same_but_withheld (sealed_entry ''my secret'') (sealed_entry ''another'')"
    by (auto simp: same_but_withheld_def sealed_entry_def withheld_fields_def)
  show "should_redact sample_repr (sealed_entry ''my secret'') (normalize_runtime_journal_policy sample_repr (JObj []))"
    by code_simp
qed

text \<open>
  An override that only says \<open>journaling_enabled: false\<close> has no effect on writing, since the base layer always sets
  \<open>journal_write_allowed\<close>; and a sensitive flag with a space around it counts as raised but does not redact.
\<close>

lemma disabling_in_a_layer_still_writes:
  "map_of (build_journal_policy repr (journal_configs [(''journaling_enabled'', JBool True), (''mode_overrides'',
     JObj [(''writer'', JObj [(''journaling_enabled'', JBool False)])])]) ''writer'' (JInt 1) JNull) ''journal_write_allowed'' = Some (JBool True)"
  by code_simp

lemma spaced_flag_not_redacted:
  "coerce_string_list sample_repr (JList [JStr '' sealed_private_memory'']) = ['' sealed_private_memory''] \<and>
   \<not> should_redact sample_repr [(''boundary_flags'', JList [JStr '' sealed_private_memory''])] (normalize_runtime_journal_policy sample_repr (JObj []))"
  by code_simp

end
