(* ===== verification/SessionMemory.thy ===== *)
theory SessionMemory
  imports Journal
begin

text \<open>
  What a session recalls of the journal: the retrieval policy (\<open>core/retrieval_policy.py\<close>), the recent
  session notes (\<open>core/memory_manager.py\<close>) and the context they enter (\<open>core/context_gatherer.py\<close>).  Resolved
  paths, faults on reading, the date and the directory of the journal are arguments.
\<close>

section \<open>The retrieval policy\<close>

definition as_bool :: "json \<Rightarrow> bool \<Rightarrow> bool" where
  "as_bool v other = (case v of JBool b \<Rightarrow> b
     | JStr s \<Rightarrow> (let lowered = lower (strip s) in
         if lowered \<in> {''true'', ''1'', ''yes'', ''on''} then True
         else if lowered \<in> {''false'', ''0'', ''no'', ''off''} then False else other)
     | _ \<Rightarrow> other)"

definition int_of :: "json \<Rightarrow> int option" where
  \<comment> \<open>\<open>int(v)\<close>; \<open>None\<close> when it raises\<close>
  "int_of v = (case v of JInt i \<Rightarrow> Some i | JBool b \<Rightarrow> Some (of_bool b) | JStr s \<Rightarrow> python_int s | _ \<Rightarrow> None)"

definition as_int :: "json \<Rightarrow> int \<Rightarrow> int" where
  "as_int v other = (case int_of v of None \<Rightarrow> other | Some i \<Rightarrow> if i < 1 then other else i)"

definition inner :: "config \<Rightarrow> string \<Rightarrow> string + config" where
  \<comment> \<open>\<open>d.get(k, {})\<close> whose result is asked for a key next: anything but a mapping raises\<close>
  "inner d k = (case value_at d k (JObj []) of JObj e \<Rightarrow> Inr e | _ \<Rightarrow> Inl ''AttributeError'')"

definition scaffold_retrieval :: "config \<Rightarrow> string + config" where
  "scaffold_retrieval configs = bindR (inner configs ''memory'') (\<lambda>group. bindR (inner group ''memory_policy'') (\<lambda>policy.
     Inr (as_mapping (value_at policy ''scaffold_retrieval'' (JObj [])))))"

definition is_mapping :: "json \<Rightarrow> bool" where
  "is_mapping v = (case v of JObj d \<Rightarrow> True | _ \<Rightarrow> False)"

definition valid_mode_overrides :: "config \<Rightarrow> config" where
  "valid_mode_overrides sr = filter (\<lambda>kv. is_mapping (snd kv)) (as_mapping (value_at sr ''mode_overrides'' (JObj [])))"

definition digits :: "string \<Rightarrow> bool" where
  \<comment> \<open>\<open>str.isdigit\<close> below 256: with the superscripts\<close>
  "digits s \<longleftrightarrow> s \<noteq> [] \<and> list_all (\<lambda>c. (let n = (of_char c :: nat) in (48 \<le> n \<and> n \<le> 57) \<or> n \<in> {178, 179, 185})) s"

definition valid_autonomy_overrides :: "config \<Rightarrow> config" where
  "valid_autonomy_overrides sr = filter (\<lambda>kv. digits (fst kv) \<and> is_mapping (snd kv)) (as_mapping (value_at sr ''autonomy_overrides'' (JObj [])))"

definition mode_override :: "config \<Rightarrow> string \<Rightarrow> config" where
  "mode_override sr mode = as_mapping (value_at (valid_mode_overrides sr) mode (JObj []))"

definition autonomy_override :: "config \<Rightarrow> json \<Rightarrow> config" where
  \<comment> \<open>of the level of the session\<close>
  "autonomy_override sr level = (let l = (case int_of level of None \<Rightarrow> 1 | Some i \<Rightarrow> max 1 (min 5 i)) in
     as_mapping (value_at (valid_autonomy_overrides sr) (string_of_int l) (JObj [])))"

record recall_policy =
  rp_enabled :: bool
  rp_exclude :: "string list"
  rp_mode :: string
  rp_note :: string
  rp_limit :: int

definition default_session_limit :: int where
  "default_session_limit = 3"

definition journal_path :: "string \<Rightarrow> string \<Rightarrow> string" where
  \<comment> \<open>of the directory and the date\<close>
  "journal_path dir date = dir @ ''/'' @ date @ ''_runtime-session.md''"

definition effective_retrieval :: "config \<Rightarrow> string \<Rightarrow> json \<Rightarrow> config" where
  "effective_retrieval sr mode level =
     set_all (autonomy_override sr level) (set_all (mode_override sr mode)
       (filter (\<lambda>kv. fst kv \<notin> {''mode_overrides'', ''autonomy_overrides''}) sr))"

definition build_retrieval_policy :: "string \<Rightarrow> string \<Rightarrow> json \<Rightarrow> string \<Rightarrow> config \<Rightarrow> string + recall_policy" where
  \<comment> \<open>of the directory, the date, the autonomy level, the mode and the configuration\<close>
  "build_retrieval_policy dir date level mode configs = bindR (scaffold_retrieval configs) (\<lambda>sr. let
       eff = effective_retrieval sr mode level;
       enabled = as_bool (value_at eff ''local_session_memory_enabled'' JNull) True;
       exclude_today = as_bool (value_at eff ''exclude_current_day_journal'' JNull) True;
       limit = as_int (value_at eff ''session_memory_limit'' JNull) default_session_limit
     in Inr (if \<not> enabled then \<lparr>rp_enabled = False, rp_exclude = [], rp_mode = ''local_session_journal_scaffold_disabled'',
           rp_note = ''Local session memory retrieval is disabled by scaffold retrieval policy.'', rp_limit = 0\<rparr>
         else if exclude_today then \<lparr>rp_enabled = True, rp_exclude = [journal_path dir date],
           rp_mode = ''local_session_journal_scaffold_excluding_current_day'',
           rp_note = ''Recent session memory retrieved from local scaffold journal entries while excluding the current day session journal path.'',
           rp_limit = limit\<rparr>
         else \<lparr>rp_enabled = True, rp_exclude = [], rp_mode = ''local_session_journal_scaffold'',
           rp_note = ''Recent session memory retrieved from local scaffold journal entries.'', rp_limit = limit\<rparr>))"

section \<open>Recent session notes\<close>

datatype read_fault = Os_error | Decode_error

record recall_env =
  re_dir :: string
  re_resolved :: "string \<Rightarrow> string"
  re_fault :: "string \<Rightarrow> read_fault option"

record memory_item_shown =
  ms_path :: string
  ms_title :: string
  ms_preview :: string

definition normalize_text :: "nat \<Rightarrow> string \<Rightarrow> string" where
  \<comment> \<open>\<open>normalize_preview\<close> and \<open>normalize_message\<close>, of their limit\<close>
  "normalize_text limit text = (let cleaned = join '' '' (words text) in
     if length cleaned \<le> limit then cleaned else take (limit - 3) cleaned @ ''...'')"

definition name_in :: "string \<Rightarrow> string \<Rightarrow> string" where
  \<comment> \<open>the part of a path below the directory\<close>
  "name_in dir path = drop (length dir + 1) path"

definition session_file :: "string \<Rightarrow> string \<Rightarrow> bool" where
  \<comment> \<open>what \<open>glob("*_runtime-session.md")\<close> finds\<close>
  "session_file dir path \<longleftrightarrow> starts_with (dir @ ''/'') path \<and> CHR ''/'' \<notin> set (name_in dir path) \<and>
     ends_with ''_runtime-session.md'' (name_in dir path)"

definition sorted_session_files :: "string \<Rightarrow> journal \<Rightarrow> string list" where
  \<comment> \<open>the newest name first; names of a directory differ, so the time of modification never decides\<close>
  "sorted_session_files dir j = rev (sort_key (name_in dir) (filter (session_file dir) (map fst j)))"

fun collect_notes :: "recall_env \<Rightarrow> int \<Rightarrow> string list \<Rightarrow> journal \<Rightarrow> memory_item_shown list \<Rightarrow> string list \<Rightarrow> string + memory_item_shown list" where
  "collect_notes env limit excluded j results [] = Inr results"
| "collect_notes env limit excluded j results (path # paths) =
     (if re_resolved env path \<in> set excluded then collect_notes env limit excluded j results paths
      else case re_fault env path of
        Some Os_error \<Rightarrow> collect_notes env limit excluded j results paths
      | Some Decode_error \<Rightarrow> Inl ''UnicodeDecodeError''
      | None \<Rightarrow> (let results' = results @ [\<lparr>ms_path = re_resolved env path, ms_title = name_in (re_dir env) path,
            ms_preview = normalize_text 160 (case map_of j path of None \<Rightarrow> [] | Some t \<Rightarrow> t)\<rparr>] in
          if limit \<le> int (length results') then Inr results' else collect_notes env limit excluded j results' paths))"

definition get_recent_session_memory :: "recall_env \<Rightarrow> int \<Rightarrow> string list \<Rightarrow> journal \<Rightarrow> string + memory_item_shown list" where
  "get_recent_session_memory env limit exclude j = (if limit \<le> 0 then Inr []
     else collect_notes env limit (map (re_resolved env) exclude) j [] (sorted_session_files (re_dir env) j))"

section \<open>The context\<close>

record session_context =
  sc_summary :: string
  sc_layers :: "string list"
  sc_groups :: "string list"
  sc_count :: nat
  sc_items :: "memory_item_shown list"
  sc_excluded :: "string list"
  sc_mode :: string
  sc_note :: string

definition gather_context :: "recall_env \<Rightarrow> string \<Rightarrow> string list \<Rightarrow> config \<Rightarrow> recall_policy \<Rightarrow> journal \<Rightarrow> string + session_context" where
  \<comment> \<open>the list of context items repeats these fields\<close>
  "gather_context env message layers configs p j =
     bindR (if rp_enabled p then get_recent_session_memory env (rp_limit p) (rp_exclude p) j else Inr []) (\<lambda>items.
     Inr \<lparr>sc_summary = normalize_text 120 message, sc_layers = layers, sc_groups = sort (map fst configs), sc_count = length items,
       sc_items = items, sc_excluded = rp_exclude p, sc_mode = rp_mode p, sc_note = rp_note p\<rparr>)"

section \<open>What is recalled\<close>

lemma collect_skips:
  "collect_notes env limit excluded j results paths =
   collect_notes env limit excluded j results (filter (\<lambda>p. re_resolved env p \<notin> set excluded) paths)"
  by (induction env limit excluded j results paths rule: collect_notes.induct) (auto simp: Let_def split: option.splits read_fault.splits)

lemma collect_same_text:
  "(\<And>p. p \<in> set paths \<Longrightarrow> map_of j p = map_of j' p) \<Longrightarrow>
     collect_notes env limit excluded j results paths = collect_notes env limit excluded j' results paths"
  by (induction paths arbitrary: results) (auto simp: Let_def split: option.splits read_fault.splits)

lemma collect_bounded:
  "collect_notes env limit excluded j results paths = Inr items \<Longrightarrow> int (length results) < limit \<Longrightarrow> int (length items) \<le> limit"
  by (induction env limit excluded j results paths rule: collect_notes.induct)
    (auto simp: Let_def split: if_splits option.splits read_fault.splits)

lemma sorted_filtered: "filter P (sorted_session_files dir j) = rev (sort_key (name_in dir) (filter P (filter (session_file dir) (map fst j))))"
  by (simp only: sorted_session_files_def filter_sort rev_filter [symmetric])

lemma filter_swap: "filter P (filter Q xs) = filter Q (filter P xs)"
  by (induction xs) auto

lemma journal_written:
  "snd (write_session_journal_entry repr dir date entry policy j) = j \<or>
   (\<exists>t. snd (write_session_journal_entry repr dir date entry policy j) = AList.update (journal_path dir date) t j)"
proof (cases "wp_allowed (normalize_runtime_journal_policy repr policy)")
  case True
  then show ?thesis unfolding write_session_journal_entry_def Let_def journal_path_def by simp blast
qed (simp add: write_session_journal_entry_def Let_def)

lemma recall_ignores_excluded:
  assumes "\<And>p. re_resolved env p \<notin> set (map (re_resolved env) exclude) \<Longrightarrow> map_of j p = map_of j' p"
    and "filter (\<lambda>p. re_resolved env p \<notin> set (map (re_resolved env) exclude)) (map fst j) =
      filter (\<lambda>p. re_resolved env p \<notin> set (map (re_resolved env) exclude)) (map fst j')"
  shows "get_recent_session_memory env limit exclude j = get_recent_session_memory env limit exclude j'"
proof -
  let ?P = "\<lambda>p. re_resolved env p \<notin> set (map (re_resolved env) exclude)"
  have "filter ?P (filter (session_file (re_dir env)) (map fst j)) = filter ?P (filter (session_file (re_dir env)) (map fst j'))"
    using arg_cong [OF assms(2), of "filter (session_file (re_dir env))"] by (simp only: filter_swap [of ?P])
  then have files: "filter ?P (sorted_session_files (re_dir env) j) = filter ?P (sorted_session_files (re_dir env) j')"
    unfolding sorted_filtered by simp
  have "collect_notes env limit (map (re_resolved env) exclude) j [] (filter ?P (sorted_session_files (re_dir env) j)) =
      collect_notes env limit (map (re_resolved env) exclude) j' [] (filter ?P (sorted_session_files (re_dir env) j))"
    by (rule collect_same_text) (use assms(1) in simp)
  then show ?thesis
    unfolding get_recent_session_memory_def
    using collect_skips [of env limit "map (re_resolved env) exclude" j "[]" "sorted_session_files (re_dir env) j"]
      collect_skips [of env limit "map (re_resolved env) exclude" j' "[]" "sorted_session_files (re_dir env) j'"] files by simp
qed

text \<open>
  Claim C33.  A session does not recall what it just wrote: under a retrieval policy built on the same day that excludes the
  current day, the context is the same before and after a journal entry of that day, whatever the entry, its policy and
  the journal.
\<close>

theorem todays_entry_not_recalled:
  assumes "build_retrieval_policy (re_dir env) date level mode configs = Inr p" "rp_enabled p \<longrightarrow> rp_exclude p \<noteq> []"
  shows "gather_context env message layers configs p (snd (write_session_journal_entry repr (re_dir env) date entry policy j)) =
    gather_context env message layers configs p j"
proof -
  have ex: "rp_enabled p \<Longrightarrow> rp_exclude p = [journal_path (re_dir env) date]"
    using assms by (auto simp: build_retrieval_policy_def Let_def bindR_eq_Inr_iff split: if_splits)
  let ?today = "journal_path (re_dir env) date"
  consider "snd (write_session_journal_entry repr (re_dir env) date entry policy j) = j"
    | t where "snd (write_session_journal_entry repr (re_dir env) date entry policy j) = AList.update ?today t j"
    using journal_written by blast
  then show ?thesis
  proof cases
    case 2
    have "get_recent_session_memory env limit [?today] (AList.update ?today t j) = get_recent_session_memory env limit [?today] j" for limit
      by (rule recall_ignores_excluded) (auto simp: update_conv' AList.update_keys)
    with 2 ex show ?thesis by (simp add: gather_context_def)
  qed simp
qed

lemma recall_bounded: "get_recent_session_memory env limit exclude j = Inr items \<Longrightarrow> int (length items) \<le> max 0 limit"
  by (auto simp: get_recent_session_memory_def split: if_splits dest: collect_bounded)

lemma policy_limit: "build_retrieval_policy dir date level mode configs = Inr p \<Longrightarrow> if rp_enabled p then 1 \<le> rp_limit p else rp_limit p = 0"
  by (auto simp: build_retrieval_policy_def Let_def bindR_eq_Inr_iff as_int_def default_session_limit_def split: if_splits option.splits)

lemma undecodable_note_fails_recall:
  "re_fault env path = Some Decode_error \<Longrightarrow> re_resolved env path \<notin> set excluded \<Longrightarrow>
     collect_notes env limit excluded j results (path # paths) = Inl ''UnicodeDecodeError''"
  by simp

section \<open>Instances\<close>

definition sample_recall :: recall_env where
  "sample_recall = \<lparr>re_dir = ''/j'', re_resolved = id, re_fault = (\<lambda>p. None)\<rparr>"

definition sample_recall_policy :: recall_policy where
  "sample_recall_policy = \<lparr>rp_enabled = True, rp_exclude = [journal_path ''/j'' ''2026-01-02''], rp_mode = ''local_session_journal_scaffold_excluding_current_day'',
       rp_note = ''Recent session memory retrieved from local scaffold journal entries while excluding the current day session journal path.'', rp_limit = 3\<rparr>"

lemma todays_entry_not_recalled_witness:
  "gather_context sample_recall ''hi'' [] [] sample_recall_policy
      (snd (write_session_journal_entry sample_repr (re_dir sample_recall) ''2026-01-02'' [] (JObj []) [(''/j/2026-01-01_runtime-session.md'', ''x'')])) =
   gather_context sample_recall ''hi'' [] [] sample_recall_policy
      [(''/j/2026-01-01_runtime-session.md'', ''x'')]"
  by (rule todays_entry_not_recalled [where level = JNull and mode = "''default''" and configs = "[]"])
    (simp_all add: build_retrieval_policy_def scaffold_retrieval_def inner_def value_at_def as_mapping_def effective_retrieval_def
      autonomy_override_def mode_override_def valid_mode_overrides_def valid_autonomy_overrides_def set_all_def as_bool_def as_int_def int_of_def
      default_session_limit_def sample_recall_def sample_recall_policy_def Let_def)

end
