(* ===== verification/Router.thy ===== *)
theory Router
  imports CognitionGovernor CodevBrowser
begin

text \<open>
  The deterministic classification of a request (\<open>core/router.py\<close>): intents by phrases, the features the
  governor reads, and the mode of the session.  Scores are rationals, rounded as the code rounds them.
\<close>

section \<open>Phrases\<close>

datatype intent = Tutoring | Writing | Research | Coding

definition all_intents :: "intent list" where
  \<comment> \<open>in the order of \<open>_INTENT_PHRASES\<close>\<close>
  "all_intents = [Tutoring, Writing, Research, Coding]"

fun intent_phrases :: "intent \<Rightarrow> string list" where
  "intent_phrases Tutoring = [''derive'', ''derivative'', ''explain'', ''learn'', ''teach'', ''step by step'', ''walk me through'', ''show me how'']"
| "intent_phrases Writing = [''write'', ''draft'', ''revise'', ''edit'', ''rewrite'', ''proofread'', ''compose'']"
| "intent_phrases Research = [''research'', ''summarize'', ''analyze'', ''sources'', ''evidence'', ''cite'', ''investigate'', ''literature review'', ''search the web'']"
| "intent_phrases Coding = [''code'', ''coder'', ''coder mode'', ''coding'', ''debug'', ''debugging'', ''repo'', ''repository'', ''patch'', ''aider'', ''worker'',
     ''dry-run validation'', ''traceback'', ''pytest'', ''typescript'', ''python file'']"

fun intent_name :: "intent \<Rightarrow> string" where
  "intent_name Tutoring = ''tutoring''"
| "intent_name Writing = ''writing''"
| "intent_name Research = ''research''"
| "intent_name Coding = ''coding''"

definition high_stakes_markers :: "string list" where
  "high_stakes_markers = [''medical'', ''diagnosis'', ''medication'', ''dosage'', ''legal'', ''lawsuit'', ''contract'', ''financial'', ''investment'',
     ''security'', ''credential'', ''self-harm'', ''suicide'', ''emergency'', ''weapon'', ''explosive'']"

definition novelty_markers :: "string list" where
  "novelty_markers = [''novel'', ''new architecture'', ''invent'', ''unprecedented'', ''hypothesis'', ''experimental'', ''unknown'', ''open question'', ''original approach'']"

definition complexity_markers :: "string list" where
  "complexity_markers = [''tradeoff'', ''architecture'', ''benchmark'', ''prove'', ''audit'']"

definition phrase_present :: "string \<Rightarrow> string \<Rightarrow> bool" where
  \<comment> \<open>the phrases begin and end with word characters, so \<open>\b\<close> is a boundary of the word\<close>
  "phrase_present text phrase = (if CHR '' '' \<in> set phrase \<or> CHR ''-'' \<in> set phrase then has_infix phrase text
     else any_suffix (word_at phrase) None text)"

definition intent_score :: "string \<Rightarrow> intent \<Rightarrow> nat" where
  "intent_score lowered i = length (filter (phrase_present lowered) (intent_phrases i))"

section \<open>Counting\<close>

definition pronouns :: "string list" where
  "pronouns = [''this'', ''that'', ''it'', ''them'', ''these'', ''those'']"

definition clause_markers :: "string list" where
  \<comment> \<open>in the order of the alternation\<close>
  "clause_markers = [''and then'', ''then'', ''also'', ''while'', ''but'', ''however'', ''plus'']"

fun count_matches :: "(char option \<Rightarrow> string \<Rightarrow> nat) \<Rightarrow> nat \<Rightarrow> char option \<Rightarrow> string \<Rightarrow> nat" where
  \<comment> \<open>non-overlapping matches from left to right; the first argument gives the length of the match at a position, or 0\<close>
  "count_matches m skip prev [] = 0"
| "count_matches m skip prev (c # cs) = (case skip of
       Suc k \<Rightarrow> count_matches m k (Some c) cs
     | 0 \<Rightarrow> (case m prev (c # cs) of 0 \<Rightarrow> count_matches m 0 (Some c) cs | Suc n \<Rightarrow> Suc (count_matches m n (Some c) cs)))"

definition marker_at :: "char option \<Rightarrow> string \<Rightarrow> nat" where
  "marker_at prev s = (case find (\<lambda>w. word_at w prev s) clause_markers of None \<Rightarrow> 0 | Some w \<Rightarrow> length w)"

definition decimal_digit :: "char \<Rightarrow> bool" where
  "decimal_digit c \<longleftrightarrow> c \<in> set ''0123456789''"

definition item_at :: "string \<Rightarrow> nat" where
  \<comment> \<open>\<open>\s*(?:\d+[.)]|[-*])\s+\<close>: the length of the match, or 0\<close>
  "item_at s = (let lead = length (takeWhile space_char s); rest = drop lead s;
       ds = length (takeWhile decimal_digit rest);
       mark = (case drop ds rest of [] \<Rightarrow> 0 | c # cs \<Rightarrow>
         if 0 < ds then (if c \<in> {CHR ''.'', CHR '')''} then ds + 1 else 0) else if c \<in> {CHR ''-'', CHR ''*''} then 1 else 0);
       trail = length (takeWhile space_char (drop mark rest))
     in if mark = 0 \<or> trail = 0 then 0 else lead + mark + trail)"

definition step_at :: "char option \<Rightarrow> string \<Rightarrow> nat" where
  \<comment> \<open>\<open>(?:^|\n)\<close> before an item; without \<open>MULTILINE\<close> the caret is the start of the message only\<close>
  "step_at prev s = (if prev = None \<and> item_at s \<noteq> 0 then item_at s
     else case s of [] \<Rightarrow> 0 | c # cs \<Rightarrow> if c = CHR 0x0A \<and> item_at cs \<noteq> 0 then 1 + item_at cs else 0)"

definition sentence_count :: "string \<Rightarrow> nat" where
  "sentence_count message = length (filter (\<lambda>s. strip s \<noteq> []) (split_by (\<lambda>c. c \<in> {CHR ''.'', CHR ''!'', CHR ''?''}) message))"

definition count_char :: "char \<Rightarrow> string \<Rightarrow> nat" where
  "count_char c s = length (filter (\<lambda>d. d = c) s)"

section \<open>Features\<close>

record features =
  f_ambiguity :: rat
  f_complexity :: rat
  f_novelty :: rat
  f_subproblems :: int
  f_stakes :: string
  f_competing :: nat

definition top_two :: "nat list \<Rightarrow> nat \<times> nat" where
  \<comment> \<open>the two largest scores, 0 where there are fewer\<close>
  "top_two scores = (case rev (sort scores) of [] \<Rightarrow> (0, 0) | [a] \<Rightarrow> (a, 0) | a # b # _ \<Rightarrow> (a, b))"

definition ambiguity_of :: "string \<Rightarrow> nat list \<Rightarrow> rat" where
  "ambiguity_of message scores = (let lowered = casefold message;
       (lead, second) = top_two (filter (\<lambda>s. s \<noteq> 0) scores);
       vague = (list_ex (phrase_present lowered) pronouns \<and> length (find_words lowered) \<le> 8 \<and> \<not> list_ex (\<lambda>s. 2 \<le> s) scores)
     in 5/100 + (if 2 \<le> length (filter (\<lambda>s. 0 < s) scores) then 30/100 else 0) +
        (if lead \<noteq> 0 \<and> second \<noteq> 0 \<and> int lead - int second \<le> 1 then 30/100 else 0) +
        (if vague then 35/100 else 0) + (if 1 < count_char CHR ''?'' message then 10/100 else 0))"

definition subproblems_of :: "string \<Rightarrow> int" where
  "subproblems_of message = max 1 (min 12 (int (sentence_count message + count_matches marker_at 0 None (casefold message) +
     count_matches step_at 0 None message)))"

definition request_features :: "string \<Rightarrow> nat list \<Rightarrow> features" where
  "request_features message scores = (let lowered = casefold message; ws = find_words lowered; sub = subproblems_of message in
     \<lparr>f_ambiguity = round_to 4 (min 1 (ambiguity_of message scores)),
      f_complexity = round_to 4 (min 1 (8/100 + min (46/100) (rat_of_nat (length ws) / 220) + min (24/100) (of_int (max 0 (sub - 1)) * 6/100) +
        (if list_ex (\<lambda>m. has_infix m lowered) complexity_markers then 14/100 else 0))),
      f_novelty = round_to 4 (min 1 (12/100 + min (32/100) (rat_of_nat (card (set ws)) / 180) +
        (if list_ex (\<lambda>m. has_infix m lowered) novelty_markers then 50/100 else 0))),
      f_subproblems = sub,
      f_stakes = (if list_ex (phrase_present lowered) high_stakes_markers then ''high'' else ''ordinary''),
      f_competing = length (filter (\<lambda>s. 0 < s) scores)\<rparr>)"

section \<open>Classification\<close>

record classification =
  cl_primary :: string
  cl_confidence :: rat
  cl_scores :: "(string \<times> nat) list"
  cl_features :: features
  cl_authority_granted :: bool

fun intent_priority :: "intent \<Rightarrow> nat" where
  "intent_priority Tutoring = 4"
| "intent_priority Writing = 3"
| "intent_priority Research = 2"
| "intent_priority Coding = 1"

definition ahead :: "(intent \<Rightarrow> nat) \<Rightarrow> intent \<Rightarrow> intent \<Rightarrow> bool" where
  \<comment> \<open>the key of \<open>max\<close>\<close>
  "ahead score i k \<longleftrightarrow> score k < score i \<or> (score k = score i \<and> intent_priority k < intent_priority i)"

definition leading_intent :: "(intent \<Rightarrow> nat) \<Rightarrow> intent" where
  "leading_intent score = foldl (\<lambda>best i. if ahead score i best then i else best) (hd all_intents) (tl all_intents)"

definition confidence_of :: "nat list \<Rightarrow> bool \<Rightarrow> rat \<Rightarrow> rat" where
  \<comment> \<open>of the scores, whether the intent is conversation, and the ambiguity\<close>
  "confidence_of scores conversation ambiguity = (let (lead, second) = top_two scores;
       c = (if conversation then 68/100 else min (96/100) (58/100 + rat_of_nat lead * 12/100 + rat_of_nat (lead - second) * 8/100))
     in round_to 4 (if 65/100 \<le> ambiguity then min c (55/100) else c))"

definition classify_intent :: "string \<Rightarrow> classification" where
  "classify_intent message = (let score = intent_score (casefold message); scores = map score all_intents;
       best = leading_intent score; conversation = (score best = 0); f = request_features message scores
     in \<lparr>cl_primary = (if conversation then ''conversation'' else intent_name best),
         cl_confidence = confidence_of scores conversation (f_ambiguity f),
         cl_scores = map (\<lambda>i. (intent_name i, score i)) all_intents, cl_features = f, cl_authority_granted = False\<rparr>)"

section \<open>The mode\<close>

definition normalized_session_mode :: "string option \<Rightarrow> string" where
  \<comment> \<open>of \<open>active_mode\<close>; the default mode leaves the choice to the classifier\<close>
  "normalized_session_mode active = (let raw = lower (strip (case active of None \<Rightarrow> [] | Some m \<Rightarrow> m));
       mode = (if raw = ''coding'' then ''coder'' else raw)
     in if mode = ''default'' then [] else if mode \<in> {''default'', ''tutor'', ''researcher'', ''writer'', ''coder''} then mode else [])"

definition choose_mode :: "string \<Rightarrow> string option \<Rightarrow> string" where
  "choose_mode primary active = (if normalized_session_mode active \<noteq> [] then normalized_session_mode active
     else if primary = ''tutoring'' then ''tutor''
     else if primary = ''research'' then ''researcher''
     else if primary = ''writing'' then ''writer''
     else if primary \<in> {''coding'', ''debugging''} then ''coder''
     else ''default'')"

section \<open>What a classification is\<close>

lemma leading_is_greatest: "score i \<le> score (leading_intent score) \<and>
    (score i = score (leading_intent score) \<longrightarrow> intent_priority i \<le> intent_priority (leading_intent score))"
  by (cases i) (simp_all add: leading_intent_def all_intents_def ahead_def)

lemma unit_rounded: "0 \<le> r \<Longrightarrow> 0 \<le> round_to 4 (min 1 r) \<and> round_to 4 (min 1 r) \<le> 1"
  by (rule round_to_unit) simp_all

lemma features_bounded:
  "0 \<le> f_ambiguity (request_features m s) \<and> f_ambiguity (request_features m s) \<le> 1"
  "0 \<le> f_complexity (request_features m s) \<and> f_complexity (request_features m s) \<le> 1"
  "0 \<le> f_novelty (request_features m s) \<and> f_novelty (request_features m s) \<le> 1"
  "1 \<le> f_subproblems (request_features m s) \<and> f_subproblems (request_features m s) \<le> 12"
  unfolding request_features_def Let_def features.simps
  by (rule unit_rounded, simp add: ambiguity_of_def Let_def split: prod.split)
    (rule unit_rounded, simp add: subproblems_of_def, rule unit_rounded, simp, simp add: subproblems_of_def)

lemma half_rounded: "round_to 4 (1/2) = (1/2 :: rat)"
proof -
  have "(1/2 :: rat) * 10 ^ 4 = of_int 5000" by simp
  then show ?thesis unfolding round_to_def by (simp only: half_even_of_int) simp
qed

lemma upper_half_rounded: "1/2 \<le> c \<Longrightarrow> c \<le> 1 \<Longrightarrow> 1/2 \<le> round_to 4 c \<and> round_to 4 c \<le> 1"
  using round_to_mono [of "1/2" c 4] round_to_mono [of c 1 4] unfolding half_rounded round_to_01 by blast

lemma confidence_bounded: "1/2 \<le> confidence_of scores conv a \<and> confidence_of scores conv a \<le> 1"
proof -
  obtain lead second where t: "top_two scores = (lead, second)" by fastforce
  define c where "c = (if conv then 68/100 else min (96/100) (58/100 + rat_of_nat lead * 12/100 + rat_of_nat (lead - second) * 8/100))"
  have c: "1/2 \<le> c" "c \<le> 1" unfolding c_def by (simp_all add: min_def)
  have "confidence_of scores conv a = round_to 4 (if 65/100 \<le> a then min c (55/100) else c)"
    unfolding confidence_of_def t Let_def prod.case c_def [symmetric] ..
  then show ?thesis by (simp only:, intro upper_half_rounded) (use c in \<open>simp_all add: min_def\<close>)
qed

theorem classification_sound:
  "(\<forall>i. intent_score (casefold m) i \<le> intent_score (casefold m) (leading_intent (intent_score (casefold m)))) \<and>
   cl_primary (classify_intent m) \<in> {''conversation'', intent_name (leading_intent (intent_score (casefold m)))} \<and>
   1/2 \<le> cl_confidence (classify_intent m) \<and> cl_confidence (classify_intent m) \<le> 1 \<and>
   0 \<le> f_ambiguity (cl_features (classify_intent m)) \<and> f_ambiguity (cl_features (classify_intent m)) \<le> 1 \<and>
   0 \<le> f_complexity (cl_features (classify_intent m)) \<and> f_complexity (cl_features (classify_intent m)) \<le> 1 \<and>
   0 \<le> f_novelty (cl_features (classify_intent m)) \<and> f_novelty (cl_features (classify_intent m)) \<le> 1 \<and>
   1 \<le> f_subproblems (cl_features (classify_intent m)) \<and> f_subproblems (cl_features (classify_intent m)) \<le> 12 \<and>
   \<not> cl_authority_granted (classify_intent m)"
  using leading_is_greatest confidence_bounded features_bounded by (simp add: classify_intent_def Let_def)

lemma explicit_mode_wins: "normalized_session_mode active \<noteq> [] \<Longrightarrow> choose_mode primary active = normalized_session_mode active"
  by (simp add: choose_mode_def)

lemma mode_known: "choose_mode primary active \<in> {''default'', ''tutor'', ''researcher'', ''writer'', ''coder''}"
  by (simp add: choose_mode_def normalized_session_mode_def Let_def)

text \<open>
  The governor works on what was routed: a request classified as research starts at its highest gear.
\<close>

lemma routed_research_is_reasoned:
  assumes "cl_primary (classify_intent (gi_message v)) = ''research''" "intent_primary v = cl_primary (classify_intent (gi_message v))"
    "\<not> gi_stop_active v"
  shows "fst (initial_gear v) = Research_engineering"
proof -
  have "casefold ''research'' = ''research''" by code_simp
  with assms show ?thesis by (simp add: initial_gear_def Let_def)
qed

lemma modes_chosen: "choose_mode ''tutoring'' (Some '' Coding '') = ''coder'' \<and> choose_mode ''tutoring'' (Some ''default'') = ''tutor'' \<and>
   choose_mode ''debugging'' (Some ''sysadmin'') = ''coder''"
  by code_simp

lemma phrases_are_whole_words: "phrase_present ''no codes'' ''code'' = False \<and> phrase_present ''the code.'' ''code'' \<and> phrase_present ''xself-harmx'' ''self-harm''"
  by code_simp

lemma items_counted: "count_matches step_at 0 None (''1. a'' @ [CHR 0x0A] @ ''- b'' @ [CHR 0x0A] @ ''*c'') = 2 \<and>
   count_matches marker_at 0 None ''and then also the thens'' = 2"
  by code_simp

end
