(* ===== verification/ApiGate.thy ===== *)
theory ApiGate
  imports EmergencyControl
begin

text \<open>
  The gate in front of the local HTTP interface: the credential of local clients
  (\<open>app/install/local_auth.py\<close>) and the middleware that a request passes before any route
  (\<open>app/api/main.py\<close>): locality, credential, emergency posture, managed policy.  Fresh tokens, the faults of the
  credential file, which addresses are loopback and what the managed policy answers are arguments.
\<close>

section \<open>The credential\<close>

datatype runtime_mode = Mode_source | Mode_packaged | Mode_test

datatype auth_failure = Local_auth_error string | Unhandled string

datatype credential_file = Absent | Unreadable | Undecodable | Credential string

record local_auth_policy =
  la_required :: bool
  la_mode :: runtime_mode
  la_source :: string
  la_expected :: "string option"

record auth_env =
  le_fresh :: string
  le_writable :: bool

definition mutating_methods :: "string list" where
  "mutating_methods = [''POST'', ''PUT'', ''PATCH'', ''DELETE'']"

definition read_credential :: "credential_file \<Rightarrow> auth_failure + string option" where
  "read_credential f = (case f of Undecodable \<Rightarrow> Inl (Unhandled ''UnicodeDecodeError'')
     | Credential text \<Rightarrow> (let v = strip text in Inr (if 32 \<le> length v then Some v else None))
     | _ \<Rightarrow> Inr None)"

definition credential_text :: "string \<Rightarrow> credential_file" where
  "credential_text v = Credential (v @ [CHR 0x0A])"

definition ensure_local_api_credential :: "auth_env \<Rightarrow> (credential_file, auth_failure, string) action" where
  \<comment> \<open>the file is created exclusively: one that is there and no credential is an error\<close>
  "ensure_local_api_credential env f = (case read_credential f of Inl e \<Rightarrow> (Inl e, f)
     | Inr (Some v) \<Rightarrow> (Inr v, f)
     | Inr None \<Rightarrow>
         if f \<noteq> Absent then (Inl (Local_auth_error ''The local API credential exists but is invalid.''), f)
         else if \<not> le_writable env then (Inl (Local_auth_error ''The local API credential could not be created.''), f)
         else (Inr (le_fresh env), credential_text (le_fresh env)))"

definition rotate_local_api_credential :: "auth_env \<Rightarrow> (credential_file, auth_failure, string) action" where
  "rotate_local_api_credential env f =
     (if \<not> le_writable env then (Inl (Local_auth_error ''The local API credential could not be rotated.''), f)
      else (Inr (le_fresh env), credential_text (le_fresh env)))"

definition auth_requirement :: "runtime_mode \<Rightarrow> string \<Rightarrow> auth_failure + bool \<times> string" where
  \<comment> \<open>of the value of \<open>ELYSIA_API_AUTH_MODE\<close>\<close>
  "auth_requirement mode setting = (let configured = lower (strip setting) in
     if configured \<notin> {[], ''required'', ''development-disabled''}
     then Inl (Local_auth_error ''ELYSIA_API_AUTH_MODE must be required or development-disabled.'')
     else if configured = ''required'' then Inr (True, ''explicit_required'')
     else if configured = ''development-disabled'' then
       (if mode = Mode_packaged then Inl (Local_auth_error ''Packaged mode cannot disable local API authentication.'')
        else Inr (False, ''explicit_source_development''))
     else Inr (mode = Mode_packaged, if mode = Mode_packaged then ''packaged_default'' else ''source_development_default''))"

definition build_local_api_auth_policy :: "auth_env \<Rightarrow> runtime_mode \<Rightarrow> string \<Rightarrow> bool option \<Rightarrow> (credential_file, auth_failure, local_auth_policy) action" where
  "build_local_api_auth_policy env mode setting initialize f = (case auth_requirement mode setting of Inl e \<Rightarrow> (Inl e, f)
     | Inr (required, origin_text) \<Rightarrow>
         (let pol = (\<lambda>credential. \<lparr>la_required = required, la_mode = mode, la_source = origin_text, la_expected = credential\<rparr>) in
          if (case initialize of None \<Rightarrow> required | Some b \<Rightarrow> b)
          then (case ensure_local_api_credential env f of (Inl e, f') \<Rightarrow> (Inl e, f') | (Inr v, f') \<Rightarrow> (Inr (pol (Some v)), f'))
          else (Inr (pol None), f)))"

definition supplied_bearer_credential :: "string option \<Rightarrow> string option" where
  \<comment> \<open>of the authorization header\<close>
  "supplied_bearer_credential header = (let v = strip (case header of None \<Rightarrow> [] | Some h \<Rightarrow> h);
       scheme = takeWhile (\<lambda>c. c \<noteq> CHR '' '') v; credential = strip (drop (length scheme + 1) v)
     in if CHR '' '' \<notin> set v \<or> lower scheme \<noteq> ''bearer'' \<or> credential = [] then None else Some credential)"

definition digests_equal :: "string \<Rightarrow> string \<Rightarrow> auth_failure + bool" where
  \<comment> \<open>\<open>secrets.compare_digest\<close> of texts refuses what is not ASCII\<close>
  "digests_equal a b = (if is_ascii a \<and> is_ascii b then Inr (a = b) else Inl (Unhandled ''TypeError''))"

definition validate_local_api_credential :: "local_auth_policy \<Rightarrow> string option \<Rightarrow> credential_file \<Rightarrow> auth_failure + bool" where
  "validate_local_api_credential pol header f = (if \<not> la_required pol then Inr True
     else bindR (if truthy (la_expected pol) then Inr (la_expected pol) else read_credential f) (\<lambda>expected.
       case (supplied_bearer_credential header, expected) of
         (Some s, Some e) \<Rightarrow> digests_equal s e
       | _ \<Rightarrow> Inr False))"

section \<open>The middleware\<close>

record api_request =
  hr_host :: "string option"
  hr_method :: string
  hr_path :: string
  hr_authorization :: "string option"

record gate_env =
  ga_unix_socket :: bool
  ga_loopback :: "string \<Rightarrow> bool" \<comment> \<open>\<open>ip_address(host).is_loopback\<close>, false where it is no address\<close>
  ga_capability :: "string \<Rightarrow> string + bool" \<comment> \<open>\<open>managed_capability_allowed\<close>, which may raise\<close>
  ga_emergency :: emergency_env

datatype verdict = Blocked nat string | Failed string | Forwarded

definition loopback_hosts :: "string list" where
  "loopback_hosts = [''127.0.0.1'', ''::1'', ''localhost'', ''testclient'']"

definition is_local_client :: "gate_env \<Rightarrow> string option \<Rightarrow> bool" where
  "is_local_client env host = (case host of None \<Rightarrow> True
     | Some h \<Rightarrow> (let n = lower (strip (hd (split_on CHR ''%'' h))) in n \<in> set loopback_hosts \<or> ga_loopback env n))"

definition client_host :: "gate_env \<Rightarrow> api_request \<Rightarrow> string option" where
  "client_host env r = (if ga_unix_socket env \<and> hr_host r = None then Some ''127.0.0.1'' else hr_host r)"

definition mutating :: "api_request \<Rightarrow> bool" where
  "mutating r \<longleftrightarrow> upper (hr_method r) \<in> set mutating_methods"

definition stopping_paths :: "string list" where
  \<comment> \<open>open under the stop: they end, revoke or show something, or concern the account and the stop itself\<close>
  "stopping_paths = [''/coding/command/cancel'', ''/coding/repo/revoke'', ''/codev/grants/revoke'', ''/codev/pairing/revoke'',
     ''/codev/commands/cancel'', ''/codev/chat/cancel'', ''/codev/commands/status'', ''/emergency/stop'', ''/emergency/reset'',
     ''/account/login'', ''/account/logout'', ''/account/create'']"

definition managed_policy_requirements :: "string \<Rightarrow> string \<Rightarrow> string list" where
  "managed_policy_requirements path http_method = (let verb = upper http_method in
     if verb \<notin> set mutating_methods then []
     else if path \<in> {''/coding/command/cancel'', ''/coding/repo/revoke'', ''/codev/grants/revoke'', ''/codev/pairing/revoke'',
       ''/codev/commands/cancel'', ''/codev/chat/cancel'', ''/codev/commands/status''} then []
     else if starts_with ''/coding/'' path \<or> starts_with ''/code/'' path \<or> starts_with ''/codev/'' path \<or> path \<in> {''/coding'', ''/codev''}
     then [''coding_execution'']
     else if starts_with ''/addon-actions/'' path \<or> starts_with ''/addons/'' path then [''addons'']
     else if path = ''/marketplace/link'' \<and> verb = ''POST'' then [''connectors'']
     else if starts_with ''/marketplace/profile-sync/'' path then [''connectors'', ''external_mutations'']
     else if has_infix ''/connectors/'' path \<and> \<not> ends_with ''/disconnect'' path then [''connectors'', ''external_mutations'']
     else [])"

definition policy_verdict :: "gate_env \<Rightarrow> string list \<Rightarrow> verdict" where
  "policy_verdict env requirements = (case mapR (ga_capability env) requirements of
       Inl e \<Rightarrow> Blocked 503 ''managed_profile_policy_unavailable''
     | Inr answers \<Rightarrow> if list_all id answers then Forwarded else Blocked 403 ''managed_profile_policy_guard'')"

definition stop_active :: "(emergency_env \<Rightarrow> (emergency, codev_error, bool) action) \<Rightarrow> emergency_env \<Rightarrow> emergency \<Rightarrow> bool \<times> emergency" where
  \<comment> \<open>an exception counts as the stop\<close>
  "stop_active ask env s = (case ask env s of (Inl e, s') \<Rightarrow> (True, s') | (Inr b, s') \<Rightarrow> (b, s'))"

definition api_gate :: "gate_env \<Rightarrow> local_auth_policy \<Rightarrow> credential_file \<Rightarrow> api_request \<Rightarrow> emergency \<Rightarrow> verdict \<times> emergency" where
  \<comment> \<open>\<open>enforce_local_only_by_default\<close>; a forwarded request goes to its route\<close>
  "api_gate env pol f r s = (let
       rest = (\<lambda>s. (policy_verdict env (managed_policy_requirements (hr_path r) (hr_method r)), s));
       posture = (if mutating r \<and> hr_path r \<notin> set stopping_paths
         then (case stop_active emergency_active (ga_emergency env) s of (active, s') \<Rightarrow>
           if active then (Blocked 423 ''emergency_posture_guard'', s') else rest s')
         else rest s)
     in if \<not> is_local_client env (client_host env r) then (Blocked 403 ''locality_guard'', s)
        else if mutating r \<and> la_required pol then
          (case validate_local_api_credential pol (hr_authorization r) f of Inl e \<Rightarrow> (Failed (case e of Unhandled x \<Rightarrow> x | Local_auth_error x \<Rightarrow> x), s)
           | Inr ok \<Rightarrow> if ok then posture else (Blocked 401 ''local_client_auth_guard'', s))
        else posture)"

section \<open>What passes\<close>

lemma policy_forwards: "policy_verdict env requirements = Forwarded \<longleftrightarrow> (\<forall>c \<in> set requirements. ga_capability env c = Inr True)"
proof (induction requirements)
  case (Cons c cs)
  then show ?case
    by (auto simp: policy_verdict_def bindR_def split: sum.splits if_splits)
qed (simp add: policy_verdict_def)

definition credential_accepted :: "local_auth_policy \<Rightarrow> credential_file \<Rightarrow> string option \<Rightarrow> bool" where
  "credential_accepted pol f header \<longleftrightarrow> (\<exists>v. supplied_bearer_credential header = Some v \<and>
     (if truthy (la_expected pol) then la_expected pol = Some v else read_credential f = Inr (Some v)))"

lemma validated_accepted: "la_required pol \<Longrightarrow> validate_local_api_credential pol header f = Inr True \<Longrightarrow> credential_accepted pol f header"
  by (auto simp: validate_local_api_credential_def credential_accepted_def bindR_eq_Inr_iff digests_equal_def split: if_splits option.splits)

lemma gate_forwards_cases:
  "fst (api_gate env pol f r s) = Forwarded \<longleftrightarrow>
     is_local_client env (client_host env r) \<and>
     (mutating r \<and> la_required pol \<longrightarrow> validate_local_api_credential pol (hr_authorization r) f = Inr True) \<and>
     (mutating r \<and> hr_path r \<notin> set stopping_paths \<longrightarrow> fst (emergency_active (ga_emergency env) s) = Inr False) \<and>
     policy_verdict env (managed_policy_requirements (hr_path r) (hr_method r)) = Forwarded"
  unfolding api_gate_def Let_def stop_active_def
  by (auto split: sum.splits prod.splits if_splits)

text \<open>
  Claim C37.  What the gate forwards: exactly the requests of local clients whose credential is accepted where one is
  required, that find no emergency stop unless their path is exempt, and whose capabilities the managed policy
  allows; every doubt of the checks (an exception of the posture or the policy) is a refusal.
\<close>

theorem gate_forwards_iff:
  "fst (api_gate env pol f r s) = Forwarded \<longleftrightarrow>
     is_local_client env (client_host env r) \<and>
     (mutating r \<and> la_required pol \<longrightarrow> validate_local_api_credential pol (hr_authorization r) f = Inr True) \<and>
     (mutating r \<and> hr_path r \<notin> set stopping_paths \<longrightarrow> fst (emergency_active (ga_emergency env) s) = Inr False) \<and>
     (\<forall>c \<in> set (managed_policy_requirements (hr_path r) (hr_method r)). ga_capability env c = Inr True)"
  unfolding policy_forwards [symmetric] by (rule gate_forwards_cases)

section \<open>Packaged installations\<close>

lemma required_when_packaged: "auth_requirement Mode_packaged setting = Inr (required, origin_text) \<Longrightarrow> required"
  by (auto simp: auth_requirement_def Let_def split: if_splits)

lemma ensured_credential:
  assumes "ensure_local_api_credential env f = (Inr v, f')" "32 \<le> length (le_fresh env)"
  shows "32 \<le> length v"
  using assms by (auto simp: ensure_local_api_credential_def read_credential_def Let_def split: sum.splits option.splits if_splits credential_file.splits)

text \<open>
  Claim C38.  In a packaged installation nothing changes without the credential: whatever the environment says, a
  mutating request that is forwarded bears the credential the policy was initialised with, or else the one in the file,
  of at least 32 characters.
\<close>

theorem packaged_mutation_needs_credential:
  assumes "build_local_api_auth_policy aenv Mode_packaged setting initialize f = (Inr pol, f')" "32 \<le> length (le_fresh aenv)"
    and "fst (api_gate env pol g r s) = Forwarded" "mutating r"
  shows "\<exists>v. supplied_bearer_credential (hr_authorization r) = Some v \<and> 32 \<le> length v \<and>
    (la_expected pol = Some v \<or> la_expected pol = None \<and> read_credential g = Inr (Some v))"
proof -
  obtain required origin_text where a: "auth_requirement Mode_packaged setting = Inr (required, origin_text)"
    using assms(1) by (auto simp: build_local_api_auth_policy_def split: sum.splits)
  have pol: "la_required pol" "la_expected pol = None \<or> (\<exists>v. la_expected pol = Some v \<and> 32 \<le> length v)"
    using assms(1) required_when_packaged [OF a] ensured_credential [OF _ assms(2)] a
    by (auto simp: build_local_api_auth_policy_def Let_def split: sum.splits prod.splits if_splits)
  then have "credential_accepted pol g (hr_authorization r)"
    using assms(3,4) by (auto simp: gate_forwards_cases intro: validated_accepted)
  then obtain v where v: "supplied_bearer_credential (hr_authorization r) = Some v"
    "if truthy (la_expected pol) then la_expected pol = Some v else read_credential g = Inr (Some v)"
    by (auto simp: credential_accepted_def)
  have "read_credential g = Inr (Some v) \<Longrightarrow> 32 \<le> length v"
    by (auto simp: read_credential_def Let_def split: credential_file.splits if_splits)
  with v pol(2) show ?thesis by (auto simp: truthy_def split: if_splits)
qed

section \<open>The stop closes the interface\<close>

text \<open>
  Claim C36.  Once the emergency stop was activated and until an installation owner or administrator ends it, no mutating
  request passes the interface, whatever calls came in between, the end of the process included, provided that the
  gate does not find the state file unreadable (it may fail to decode), or that since the activation the process did
  not end and no status call found it unreadable; only the paths that end, revoke or show something and those of the
  account and of the stop itself stay open.
\<close>

theorem stop_closes_the_interface:
  assumes "activate_emergency_stop eenv text s = (Inr st, t)" "\<not> ended_in emergency_step resumes ops t"
    and "state_read (ga_emergency env) \<noteq> State_unreadable \<or> (\<forall>op \<in> set ops. \<not> forgets_flag op)"
    and "mutating r" "hr_path r \<notin> set stopping_paths"
  shows "fst (api_gate env pol f r (run emergency_step ops t)) \<noteq> Forwarded"
proof -
  note r = stays_reported [OF assms(1,2)]
  have "fst (emergency_active (ga_emergency env) (run emergency_step ops t)) \<noteq> Inr False"
    using query_stopped(1) [OF r(1)] r(2) assms(3) by blast
  then show ?thesis using assms(4,5) by (simp add: gate_forwards_cases)
qed

text \<open>With an unreadable state file the gate opens once the process was restarted, although nobody ended the stop.\<close>

lemma unreadable_stop_opens_the_gate:
  assumes "state_read (ga_emergency env) = State_unreadable" "is_local_client env (client_host env r)"
    and "mutating r \<and> la_required pol \<longrightarrow> validate_local_api_credential pol (hr_authorization r) f = Inr True"
    and "\<forall>c \<in> set (managed_policy_requirements (hr_path r) (hr_method r)). ga_capability env c = Inr True"
  shows "fst (api_gate env pol f r (emergency_step Restart s)) = Forwarded"
  unfolding gate_forwards_cases policy_forwards
  using assms unreadable_stop_is_ignored [OF assms(1) disjI1 [OF refl], of s] by blast

section \<open>What the checks do not see\<close>

text \<open>
  Rotation replaces the file, but a policy that was initialised keeps the credential it read: the old one is accepted, the
  new one refused, until the process ends.  A credential with a character that is not ASCII makes the comparison raise.
\<close>

lemma rotation_keeps_old_credential:
  assumes "la_required pol" "la_expected pol = Some old" "old \<noteq> []" "is_ascii old" "supplied_bearer_credential header = Some old"
    and "rotate_local_api_credential env f = (Inr fresh, f')"
  shows "validate_local_api_credential pol header f' = Inr True"
  using assms by (simp add: validate_local_api_credential_def truthy_def digests_equal_def)

lemma foreign_credential_raises:
  assumes "la_required pol" "la_expected pol = Some e" "e \<noteq> []" "supplied_bearer_credential header = Some v" "\<not> is_ascii v"
  shows "validate_local_api_credential pol header f = Inl (Unhandled ''TypeError'')"
  using assms by (simp add: validate_local_api_credential_def truthy_def digests_equal_def)

section \<open>Instances\<close>

definition sample_token :: string where
  "sample_token = replicate 40 CHR ''t''"

definition sample_auth_env :: auth_env where
  "sample_auth_env = \<lparr>le_fresh = sample_token, le_writable = True\<rparr>"

definition sample_auth_policy :: local_auth_policy where
  "sample_auth_policy = \<lparr>la_required = True, la_mode = Mode_packaged, la_source = ''packaged_default'', la_expected = Some sample_token\<rparr>"

definition sample_gate :: gate_env where
  "sample_gate = \<lparr>ga_unix_socket = False, ga_loopback = (\<lambda>h. False), ga_capability = (\<lambda>c. Inr True), ga_emergency = owner_env\<rparr>"

definition sample_api_post :: api_request where
  "sample_api_post = \<lparr>hr_host = Some ''127.0.0.1'', hr_method = ''post'', hr_path = ''/codev/chat'', hr_authorization = Some (''Bearer '' @ sample_token)\<rparr>"

lemma sample_forwarded: "fst (api_gate sample_gate sample_auth_policy Absent sample_api_post idle) = Forwarded"
  by code_simp

lemma gate_forwards_iff_witness:
  "is_local_client sample_gate (client_host sample_gate sample_api_post) \<and> fst (emergency_active owner_env idle) = Inr False"
proof -
  have "mutating sample_api_post \<and> hr_path sample_api_post \<notin> set stopping_paths" by code_simp
  then show ?thesis using gate_forwards_iff [THEN iffD1, OF sample_forwarded] by (auto simp: sample_gate_def)
qed

lemma packaged_mutation_needs_credential_witness:
  "\<exists>v. supplied_bearer_credential (hr_authorization sample_api_post) = Some v \<and> 32 \<le> length v \<and> la_expected sample_auth_policy = Some v"
proof -
  have b: "build_local_api_auth_policy sample_auth_env Mode_packaged [] None Absent = (Inr sample_auth_policy, credential_text sample_token)"
    by code_simp
  have m: "mutating sample_api_post" by code_simp
  have l: "32 \<le> length (le_fresh sample_auth_env)" by (simp add: sample_auth_env_def sample_token_def)
  have "la_expected sample_auth_policy \<noteq> None" by (simp add: sample_auth_policy_def)
  then show ?thesis using packaged_mutation_needs_credential [OF b l sample_forwarded m] by auto
qed

lemma stop_closes_the_interface_witness:
  "\<exists>st t. activate_emergency_stop member_env ''desktop'' idle = (Inr st, t) \<and>
     fst (api_gate sample_gate sample_auth_policy Absent sample_api_post (run emergency_step [Reset member_env, Restart] t)) \<noteq> Forwarded"
proof -
  have "\<not> stopped idle" by (simp add: idle_def stopped_def)
  then obtain st t where a: "activate_emergency_stop member_env ''desktop'' idle = (Inr st, t)" using activates by blast
  have "\<not> ended_in emergency_step resumes [Reset member_env, Restart] t"
    by (simp add: owner_env_fields may_resume_def)
  moreover have "mutating sample_api_post" "hr_path sample_api_post \<notin> set stopping_paths" by code_simp+
  moreover have "state_read (ga_emergency sample_gate) \<noteq> State_unreadable" by (simp add: sample_gate_def owner_env_fields)
  ultimately show ?thesis using a stop_closes_the_interface [OF a] by blast
qed

end
