(* ===== verification/ReleaseTrust.thy ===== *)
theory ReleaseTrust
  imports Json
begin

text \<open>
  Which update material the installation trusts (\<open>app/install/release_trust.py\<close>): the trust policy, the signed
  release manifest, the transition to a successor key.  Verification of a signature, SHA-256, the parsing of YAML, JSON
  and time stamps, and the files are arguments; what the module checks of the parsed values is written out.
\<close>

section \<open>Texts\<close>

definition ascii_alnum :: "char \<Rightarrow> bool" where
  "ascii_alnum c \<longleftrightarrow> c \<in> set ''ABCDEFGHIJKLMNOPQRSTUVWXYZabcdefghijklmnopqrstuvwxyz0123456789''"

definition name_char :: "char \<Rightarrow> bool" where
  "name_char c \<longleftrightarrow> ascii_alnum c \<or> c \<in> set ''._+-''"

definition exact_name :: "nat \<Rightarrow> string \<Rightarrow> bool" where
  \<comment> \<open>\<open>[A-Za-z0-9][A-Za-z0-9._+-]{0,n}\<close>\<close>
  "exact_name n s = (case s of [] \<Rightarrow> False | c # cs \<Rightarrow> ascii_alnum c \<and> list_all name_char cs \<and> length cs \<le> n)"

definition hex64 :: "string \<Rightarrow> bool" where
  "hex64 s \<longleftrightarrow> length s = 64 \<and> list_all (\<lambda>c. c \<in> set ''0123456789abcdef'') s"

definition some_digits :: "string \<Rightarrow> bool" where
  "some_digits s \<longleftrightarrow> s \<noteq> [] \<and> list_all (\<lambda>c. c \<in> set ''0123456789'') s"

definition version_text :: "string \<Rightarrow> bool" where
  \<comment> \<open>\<open>[0-9]+\.[0-9]+\.[0-9]+(?:[-+][A-Za-z0-9.-]+)?\<close>\<close>
  "version_text s = (let core = takeWhile (\<lambda>c. c \<notin> {CHR ''-'', CHR ''+''}) s; rest = drop (length core) s in
     length (split_on CHR ''.'' core) = 3 \<and> list_all some_digits (split_on CHR ''.'' core) \<and>
     (rest = [] \<or> (tl rest \<noteq> [] \<and> list_all (\<lambda>c. ascii_alnum c \<or> c \<in> {CHR ''.'', CHR ''-''}) (tl rest))))"

definition channels :: "string list" where
  "channels = [''stable'', ''candidate'', ''development'']"

definition length_between :: "nat \<Rightarrow> nat \<Rightarrow> string \<Rightarrow> bool" where
  "length_between lo hi s \<longleftrightarrow> lo \<le> length s \<and> length s \<le> hi"

section \<open>Base64\<close>

definition base64_alphabet :: string where
  "base64_alphabet = ''ABCDEFGHIJKLMNOPQRSTUVWXYZabcdefghijklmnopqrstuvwxyz0123456789+/''"

definition sextet :: "char \<Rightarrow> nat" where
  "sextet c = length (takeWhile (\<lambda>d. d \<noteq> c) base64_alphabet)"

fun base64_bytes :: "nat list \<Rightarrow> nat list" where
  "base64_bytes (a # b # c # d # rest) = (a * 4 + b div 16) # (b mod 16 * 16 + c div 4) # (c mod 4 * 64 + d) # base64_bytes rest"
| "base64_bytes [a, b, c] = [a * 4 + b div 16, b mod 16 * 16 + c div 4]"
| "base64_bytes [a, b] = [a * 4 + b div 16]"
| "base64_bytes _ = []"

definition base64_decode :: "string \<Rightarrow> string option" where
  \<comment> \<open>\<open>b64decode(s, validate=True)\<close>: the alphabet, then exactly the padding the last group needs\<close>
  "base64_decode s = (let text = takeWhile (\<lambda>c. c \<noteq> CHR ''='') s; pads = drop (length text) s; left = length text mod 4 in
     if \<not> list_all (\<lambda>c. c \<in> set base64_alphabet) text \<or> left = 1 \<or> pads \<noteq> replicate ((4 - left) mod 4) CHR ''='' then None
     else Some (map char_of (base64_bytes (map sextet text))))"

section \<open>Records\<close>

record release_manifest =
  rm_contract :: string
  rm_publisher :: string
  rm_product :: string
  rm_release_id :: string
  rm_version :: string
  rm_channel :: string
  rm_key_id :: string
  rm_filename :: string
  rm_sha256 :: string
  rm_size :: int
  rm_graph_sha256 :: string
  rm_min_schema :: int
  rm_max_schema :: int
  rm_schema_target :: "int option"
  rm_migrations :: "string list"
  rm_component_changes :: "string list"
  rm_created :: string
  rm_expires :: string
  rm_inventory :: "(string \<times> string) list"

record trust_policy =
  tp_version :: int
  tp_contract :: string
  tp_state :: string
  tp_algorithm :: string
  tp_publisher :: string
  tp_key_id :: "string option"
  tp_public_key :: "string option"
  tp_not_before :: "string option"
  tp_not_after :: "string option"
  tp_channel :: string
  tp_authority :: string
  tp_silent :: bool
  tp_supersedes :: "string option"
  tp_revoked_at :: "string option"
  tp_revocation :: "string option"
  tp_notes :: "string list"

record trust_transition =
  tt_contract :: string
  tt_id :: string
  tt_publisher :: string
  tt_channel :: string
  tt_previous :: string
  tt_new :: string
  tt_public_key :: string
  tt_created :: string
  tt_activates :: string
  tt_not_after :: string
  tt_expires :: string
  tt_reason :: string

record local_file =
  lf_link :: bool
  lf_regular :: bool
  lf_size :: int
  lf_bytes :: string
  lf_text :: "string option" \<comment> \<open>\<open>None\<close> where reading the text raises\<close>

record trust_env =
  te_files :: "string \<Rightarrow> local_file option" \<comment> \<open>\<open>None\<close> where \<open>lstat\<close> raises\<close>
  te_iso :: "string \<Rightarrow> int option option" \<comment> \<open>\<open>fromisoformat\<close>: \<open>None\<close> where it raises, \<open>Some None\<close> without a zone\<close>
  te_verify :: "string \<Rightarrow> string \<Rightarrow> string \<Rightarrow> bool" \<comment> \<open>Ed25519: key, signature, message\<close>
  te_sha256 :: "string \<Rightarrow> string"
  te_policy :: "string \<Rightarrow> trust_policy option" \<comment> \<open>typed fields, stripped, without extra ones\<close>
  te_manifest :: "string \<Rightarrow> release_manifest option"
  te_transition :: "string \<Rightarrow> trust_transition option"

datatype trust_error =
    Trust_Error string
  | Value_Error string

type_synonym 'a trusted = "trust_error + 'a"

section \<open>Validation\<close>

definition parse_utc :: "trust_env \<Rightarrow> string \<Rightarrow> int trusted" where
  "parse_utc env s = (case te_iso env (concat (map (\<lambda>c. if c = CHR ''Z'' then ''+00:00'' else [c]) s)) of
       None \<Rightarrow> Inl (Trust_Error ''A release trust timestamp is invalid.'')
     | Some None \<Rightarrow> Inl (Trust_Error ''A release trust timestamp must include UTC authority.'')
     | Some (Some t) \<Rightarrow> Inr t)"

definition decode_public_key :: "string \<Rightarrow> string trusted" where
  "decode_public_key s = (case base64_decode s of None \<Rightarrow> Inl (Trust_Error ''The updater public key encoding is invalid.'')
     | Some k \<Rightarrow> if length k \<noteq> 32 then Inl (Trust_Error ''The updater public key length is invalid.'') else Inr k)"

definition safe_inventory_name :: "string \<Rightarrow> bool" where
  "safe_inventory_name s \<longleftrightarrow> s \<noteq> [] \<and> length s \<le> 1024 \<and> \<not> starts_with ''/'' s \<and> CHR 0x5C \<notin> set s \<and>
     list_all (exact_name 255) (split_on CHR ''/'' s)"

definition manifest_fields_ok :: "release_manifest \<Rightarrow> bool" where
  "manifest_fields_ok m \<longleftrightarrow> rm_contract m = ''elysia-release-artifact-manifest-1.0'' \<and> length_between 1 200 (rm_publisher m) \<and>
     rm_product m = ''Elysia'' \<and> exact_name 127 (rm_release_id m) \<and> version_text (rm_version m) \<and> rm_channel m \<in> set channels \<and>
     exact_name 199 (rm_key_id m) \<and> exact_name 255 (rm_filename m) \<and> hex64 (rm_sha256 m) \<and> 0 < rm_size m \<and> hex64 (rm_graph_sha256 m) \<and>
     0 \<le> rm_min_schema m \<and> 0 \<le> rm_max_schema m \<and> (case rm_schema_target m of None \<Rightarrow> True | Some t \<Rightarrow> 0 \<le> t) \<and>
     length (rm_migrations m) \<le> 100 \<and> length (rm_component_changes m) \<le> 500"

definition release_plan_ok :: "release_manifest \<Rightarrow> bool" where
  "release_plan_ok m \<longleftrightarrow>
     (case rm_schema_target m of None \<Rightarrow> rm_migrations m = [] | Some t \<Rightarrow> rm_min_schema m \<le> t \<and> t \<le> rm_max_schema m) \<and>
     list_all (\<lambda>i. i \<noteq> [] \<and> list_all name_char i) (rm_migrations m) \<and> length (rm_inventory m) \<le> 500 \<and>
     list_all (\<lambda>(name, digest). safe_inventory_name name \<and> hex64 digest) (rm_inventory m) \<and>
     (case map_of (rm_inventory m) (rm_filename m) of None \<Rightarrow> True | Some digest \<Rightarrow> digest = rm_sha256 m)"

definition policy_fields_ok :: "trust_policy \<Rightarrow> bool" where
  "policy_fields_ok p \<longleftrightarrow> tp_contract p = ''elysia-update-trust-1.0'' \<and>
     tp_state p \<in> {''active'', ''operator_key_decision_required'', ''revoked''} \<and> tp_algorithm p = ''ed25519'' \<and>
     length_between 1 200 (tp_publisher p) \<and> list_all (\<lambda>v. case v of None \<Rightarrow> True | Some s \<Rightarrow> length s \<le> 200) [tp_key_id p, tp_public_key p, tp_supersedes p] \<and>
     tp_channel p \<in> set channels \<and> tp_authority p = ''local_admin_explicit'' \<and>
     (case tp_revocation p of None \<Rightarrow> True | Some s \<Rightarrow> length s \<le> 500) \<and> length (tp_notes p) \<le> 20"

definition trust_state_ok :: "trust_env \<Rightarrow> trust_policy \<Rightarrow> unit trusted" where
  "trust_state_ok env p =
     bindR (raise_if (tp_silent p) (Value_Error ''Silent updater mutation is constitutionally unavailable.'')) (\<lambda>_.
     bindR (if tp_state p = ''active'' then
         bindR (raise_if (\<not> truthy (tp_key_id p) \<or> \<not> truthy (tp_public_key p) \<or> \<not> truthy (tp_not_before p))
           (Value_Error ''Active updater trust requires an exact key identity and activation time.'')) (\<lambda>_.
         raise_if (truthy (tp_revoked_at p) \<or> truthy (tp_revocation p)) (Value_Error ''Active updater trust cannot carry revocation state.''))
       else if tp_state p = ''operator_key_decision_required'' then
         raise_if (truthy (tp_key_id p) \<or> truthy (tp_public_key p) \<or> truthy (tp_revoked_at p)) (Value_Error ''Pending operator trust cannot grant key authority.'')
       else bindR (raise_if (\<not> truthy (tp_key_id p) \<or> \<not> truthy (tp_public_key p)) (Value_Error ''Revoked trust retains the exact public identity for refusal/audit.'')) (\<lambda>_.
         raise_if (\<not> truthy (tp_revoked_at p) \<or> \<not> truthy (tp_revocation p)) (Value_Error ''Revoked trust requires time and reason.''))) (\<lambda>_.
     bindR (if truthy (tp_public_key p) then bindR (decode_public_key (the (tp_public_key p))) (\<lambda>_. Inr ()) else Inr ()) (\<lambda>_.
     if truthy (tp_not_before p) then bindR (parse_utc env (the (tp_not_before p))) (\<lambda>start.
       if truthy (tp_not_after p) then bindR (parse_utc env (the (tp_not_after p))) (\<lambda>stop.
         raise_if (stop \<le> start) (Value_Error ''Updater trust validity has no positive interval.'')) else Inr ())
     else Inr ())))"

definition transition_fields_ok :: "trust_transition \<Rightarrow> bool" where
  "transition_fields_ok t \<longleftrightarrow> tt_contract t = ''elysia-update-trust-transition-1.0'' \<and> exact_name 127 (tt_id t) \<and>
     length_between 1 200 (tt_publisher t) \<and> tt_channel t \<in> set channels \<and> exact_name 199 (tt_previous t) \<and> exact_name 199 (tt_new t) \<and>
     length_between 1 200 (tt_public_key t) \<and> length_between 1 500 (tt_reason t)"

definition transition_ok :: "trust_env \<Rightarrow> trust_transition \<Rightarrow> unit trusted" where
  "transition_ok env t =
     bindR (raise_if (tt_previous t = tt_new t) (Value_Error ''A trust transition must name a distinct successor key.'')) (\<lambda>_.
     bindR (parse_utc env (tt_created t)) (\<lambda>created. bindR (parse_utc env (tt_activates t)) (\<lambda>activates.
     bindR (parse_utc env (tt_not_after t)) (\<lambda>successor_end. bindR (parse_utc env (tt_expires t)) (\<lambda>transition_end.
     bindR (raise_if (activates < created \<or> successor_end \<le> activates \<or> transition_end \<le> created) (Value_Error ''The trust transition time bounds are invalid.'')) (\<lambda>_.
     bindR (decode_public_key (tt_public_key t)) (\<lambda>_. Inr ())))))))"

section \<open>Canonical texts\<close>

definition ascii_char :: "char \<Rightarrow> string" where
  "ascii_char c = (let n = (of_char c :: nat) in
     if n < 127 then [c] else [CHR 0x5C, CHR ''u'', CHR ''0'', CHR ''0'', hex_digit (n div 16), hex_digit (n mod 16)])"

definition ascii_dumps :: "json \<Rightarrow> string" where
  \<comment> \<open>\<open>json.dumps(value, sort_keys=True, separators=(",", ":"))\<close>, which escapes what is not printable ASCII\<close>
  "ascii_dumps j = concat (map ascii_char (json_dumps j))"

definition release_canonical_bytes :: "release_manifest \<Rightarrow> string" where
  "release_canonical_bytes m = ascii_dumps (JObj
     [(''contract_version'', JStr (rm_contract m)), (''publisher'', JStr (rm_publisher m)), (''product'', JStr (rm_product m)),
      (''release_id'', JStr (rm_release_id m)), (''version'', JStr (rm_version m)), (''channel'', JStr (rm_channel m)),
      (''signing_key_id'', JStr (rm_key_id m)), (''artifact_filename'', JStr (rm_filename m)),
      (''artifact_sha256'', JStr (rm_sha256 m)), (''artifact_size_bytes'', JInt (rm_size m)),
      (''component_graph_sha256'', JStr (rm_graph_sha256 m)), (''minimum_memory_schema'', JInt (rm_min_schema m)),
      (''maximum_memory_schema'', JInt (rm_max_schema m)),
      (''memory_schema_target'', (case rm_schema_target m of None \<Rightarrow> JNull | Some t \<Rightarrow> JInt t)),
      (''memory_migration_ids'', json_strs (rm_migrations m)), (''component_changes'', json_strs (rm_component_changes m)),
      (''created_at_utc'', JStr (rm_created m)), (''expires_at_utc'', JStr (rm_expires m)),
      (''file_inventory'', JObj (map (\<lambda>(k, v). (k, JStr v)) (rm_inventory m)))])"

definition transition_canonical_bytes :: "trust_transition \<Rightarrow> string" where
  "transition_canonical_bytes t = ascii_dumps (JObj
     [(''contract_version'', JStr (tt_contract t)), (''transition_id'', JStr (tt_id t)), (''publisher'', JStr (tt_publisher t)),
      (''channel'', JStr (tt_channel t)), (''previous_key_id'', JStr (tt_previous t)), (''new_key_id'', JStr (tt_new t)),
      (''new_public_key_base64'', JStr (tt_public_key t)), (''created_at_utc'', JStr (tt_created t)),
      (''activates_at_utc'', JStr (tt_activates t)), (''new_not_after_utc'', JStr (tt_not_after t)),
      (''transition_expires_at_utc'', JStr (tt_expires t)), (''reason'', JStr (tt_reason t))])"

section \<open>Files\<close>

definition document_limit :: int where
  "document_limit = 2000000"

definition artifact_limit :: int where
  "artifact_limit = 64 * 1024 * 1024 * 1024"

definition safe_local_file :: "trust_env \<Rightarrow> string \<Rightarrow> string \<Rightarrow> int \<Rightarrow> local_file trusted" where
  "safe_local_file env path description limit = (case te_files env path of
       None \<Rightarrow> Inl (Trust_Error (''The '' @ description @ '' is unavailable.''))
     | Some f \<Rightarrow> if lf_link f \<or> \<not> lf_regular f \<or> lf_size f > limit
         then Inl (Trust_Error (''The '' @ description @ '' is not a safe bounded local file.'')) else Inr f)"

definition read_signature :: "trust_env \<Rightarrow> string \<Rightarrow> string trusted" where
  "read_signature env path = bindR (safe_local_file env path ''detached release signature'' document_limit) (\<lambda>f.
     case lf_text f of
       None \<Rightarrow> Inl (Trust_Error ''The detached release signature encoding is invalid.'')
     | Some text \<Rightarrow>
         if \<not> list_all (\<lambda>c. (of_char c :: nat) < 128) text then Inl (Trust_Error ''The detached release signature encoding is invalid.'')
         else (case base64_decode (strip text) of
             None \<Rightarrow> Inl (Trust_Error ''The detached release signature encoding is invalid.'')
           | Some s \<Rightarrow> if length s \<noteq> 64 then Inl (Trust_Error ''The detached release signature length is invalid.'') else Inr s))"

definition file_text :: "trust_env \<Rightarrow> string \<Rightarrow> string \<Rightarrow> string trusted" where
  "file_text env path description = bindR (safe_local_file env path description document_limit) (\<lambda>f.
     case lf_text f of None \<Rightarrow> Inl (Value_Error ''undecodable'') | Some text \<Rightarrow> Inr text)"

definition validated_policy :: "trust_env \<Rightarrow> trust_policy option \<Rightarrow> trust_policy trusted" where
  "validated_policy env parsed = (case parsed of
       None \<Rightarrow> Inl (Value_Error ''validation'')
     | Some p \<Rightarrow> if policy_fields_ok p then bindR (trust_state_ok env p) (\<lambda>_. Inr p) else Inl (Value_Error ''validation''))"

definition load_trust_policy :: "trust_env \<Rightarrow> string \<Rightarrow> trust_policy trusted" where
  "load_trust_policy env path =
     (case bindR (file_text env path ''updater trust policy'') (\<lambda>text. validated_policy env (te_policy env text)) of
        Inl _ \<Rightarrow> Inl (Trust_Error ''The updater trust policy is invalid.'')
      | Inr p \<Rightarrow> bindR (raise_if (tp_version p \<noteq> 1) (Trust_Error ''The updater trust policy version is unsupported.'')) (\<lambda>_. Inr p))"

definition load_release_manifest :: "trust_env \<Rightarrow> string \<Rightarrow> release_manifest trusted" where
  "load_release_manifest env path =
     (case bindR (file_text env path ''release artifact manifest'') (\<lambda>text. Inr (te_manifest env text)) of
        Inr (Some m) \<Rightarrow> if manifest_fields_ok m \<and> release_plan_ok m then Inr m
          else Inl (Trust_Error ''The release artifact manifest is invalid.'')
      | _ \<Rightarrow> Inl (Trust_Error ''The release artifact manifest is invalid.''))"

definition load_trust_transition :: "trust_env \<Rightarrow> string \<Rightarrow> trust_transition trusted" where
  "load_trust_transition env path =
     (case bindR (file_text env path ''updater trust transition'') (\<lambda>text.
        case te_transition env text of
          None \<Rightarrow> Inl (Value_Error ''validation'')
        | Some t \<Rightarrow> if transition_fields_ok t then bindR (transition_ok env t) (\<lambda>_. Inr t) else Inl (Value_Error ''validation'')) of
        Inl (Trust_Error e) \<Rightarrow> Inl (Trust_Error e)
      | Inl (Value_Error _) \<Rightarrow> Inl (Trust_Error ''The updater trust transition is invalid.'')
      | Inr t \<Rightarrow> Inr t)"

section \<open>Verification\<close>

definition artifact_name :: "string \<Rightarrow> string" where
  "artifact_name path = last (split_on CHR ''/'' path)"

definition policy_is_active :: "trust_policy \<Rightarrow> bool" where
  "policy_is_active p \<longleftrightarrow> tp_state p = ''active'' \<and> truthy (tp_key_id p) \<and> truthy (tp_public_key p)"

definition signed_by :: "trust_env \<Rightarrow> trust_policy \<Rightarrow> string \<Rightarrow> string \<Rightarrow> trust_error \<Rightarrow> unit trusted" where
  "signed_by env p signature_path message refusal =
     bindR (decode_public_key (the (tp_public_key p))) (\<lambda>key. bindR (read_signature env signature_path) (\<lambda>signature.
     raise_if (\<not> te_verify env key signature message) refusal))"

definition within_key_window :: "trust_env \<Rightarrow> trust_policy \<Rightarrow> int \<Rightarrow> unit trusted" where
  "within_key_window env p now =
     bindR (if truthy (tp_not_before p) then bindR (parse_utc env (the (tp_not_before p))) (\<lambda>start.
         raise_if (now < start) (Trust_Error ''The updater verification key is not active yet.'')) else Inr ()) (\<lambda>_.
     if truthy (tp_not_after p) then bindR (parse_utc env (the (tp_not_after p))) (\<lambda>stop.
         raise_if (stop < now) (Trust_Error ''The updater verification key expired.'')) else Inr ())"

definition artifact_matches :: "trust_env \<Rightarrow> string \<Rightarrow> local_file \<Rightarrow> release_manifest \<Rightarrow> unit trusted" where
  "artifact_matches env path f m =
     bindR (raise_if (artifact_name path \<noteq> rm_filename m) (Trust_Error ''The artifact filename does not match the signed manifest.'')) (\<lambda>_.
     bindR (raise_if (lf_size f \<noteq> rm_size m) (Trust_Error ''The artifact size does not match the signed manifest.'')) (\<lambda>_.
     raise_if (te_sha256 env (lf_bytes f) \<noteq> rm_sha256 m) (Trust_Error ''The artifact hash does not match the signed manifest.'')))"

definition verify_release_artifact :: "trust_env \<Rightarrow> string \<Rightarrow> string \<Rightarrow> string \<Rightarrow> string \<Rightarrow> int \<Rightarrow> release_manifest trusted" where
  "verify_release_artifact env artifact_path manifest_path signature_path policy_path now =
     bindR (safe_local_file env artifact_path ''release artifact'' artifact_limit) (\<lambda>artifact.
     bindR (safe_local_file env manifest_path ''release artifact manifest'' document_limit) (\<lambda>_.
     bindR (safe_local_file env signature_path ''detached release signature'' document_limit) (\<lambda>_.
     bindR (safe_local_file env policy_path ''updater trust policy'' document_limit) (\<lambda>_.
     bindR (load_trust_policy env policy_path) (\<lambda>p.
     bindR (raise_if (\<not> policy_is_active p) (Trust_Error ''No approved active updater verification key is configured.'')) (\<lambda>_.
     bindR (load_release_manifest env manifest_path) (\<lambda>m.
     bindR (raise_if (rm_publisher m \<noteq> tp_publisher p \<or> rm_channel m \<noteq> tp_channel p)
       (Trust_Error ''The release publisher or channel does not match updater trust.'')) (\<lambda>_.
     bindR (raise_if (tp_key_id p \<noteq> Some (rm_key_id m))
       (Trust_Error ''The release signing key identity does not match updater trust.'')) (\<lambda>_.
     bindR (within_key_window env p now) (\<lambda>_.
     bindR (parse_utc env (rm_expires m)) (\<lambda>expiry.
     bindR (raise_if (expiry < now) (Trust_Error ''The signed release manifest expired.'')) (\<lambda>_.
     bindR (raise_if (rm_max_schema m < rm_min_schema m) (Trust_Error ''The signed memory compatibility range is invalid.'')) (\<lambda>_.
     bindR (signed_by env p signature_path (release_canonical_bytes m)
       (Trust_Error ''The release signature is invalid or uses the wrong key.'')) (\<lambda>_.
     bindR (artifact_matches env artifact_path artifact m) (\<lambda>_. Inr m)))))))))))))))"

definition successor_policy :: "trust_policy \<Rightarrow> trust_transition \<Rightarrow> trust_policy" where
  "successor_policy p t = \<lparr>tp_version = tp_version p, tp_contract = tp_contract p, tp_state = ''active'', tp_algorithm = ''ed25519'',
     tp_publisher = tp_publisher p, tp_key_id = Some (tt_new t), tp_public_key = Some (tt_public_key t),
     tp_not_before = Some (tt_activates t), tp_not_after = Some (tt_not_after t), tp_channel = tp_channel p,
     tp_authority = ''local_admin_explicit'', tp_silent = False, tp_supersedes = tp_key_id p, tp_revoked_at = None,
     tp_revocation = None,
     tp_notes = [''Old-key-authorized transition '' @ tt_id t @ ''.'',
                 ''Installation mutation remains Local-Admin initiated and explicitly approved.'']\<rparr>"

definition verify_trust_transition :: "trust_env \<Rightarrow> string \<Rightarrow> string \<Rightarrow> string \<Rightarrow> int \<Rightarrow> trust_policy trusted" where
  "verify_trust_transition env transition_path signature_path policy_path now =
     bindR (load_trust_policy env policy_path) (\<lambda>p.
     bindR (raise_if (\<not> policy_is_active p) (Trust_Error ''Trust rotation requires one approved active predecessor key.'')) (\<lambda>_.
     bindR (load_trust_transition env transition_path) (\<lambda>t.
     bindR (parse_utc env (tt_expires t)) (\<lambda>expiry.
     bindR (raise_if (expiry < now) (Trust_Error ''The updater trust transition expired.'')) (\<lambda>_.
     bindR (raise_if (tt_publisher t \<noteq> tp_publisher p \<or> tt_channel t \<noteq> tp_channel p \<or> tp_key_id p \<noteq> Some (tt_previous t))
       (Trust_Error ''The updater trust transition is not bound to current authority.'')) (\<lambda>_.
     bindR (signed_by env p signature_path (transition_canonical_bytes t)
       (Trust_Error ''The updater trust transition signature is invalid.'')) (\<lambda>_.
     validated_policy env (Some (successor_policy p t)))))))))"

definition revoked_trust_policy :: "trust_env \<Rightarrow> (int \<Rightarrow> string) \<Rightarrow> trust_policy \<Rightarrow> string \<Rightarrow> string \<Rightarrow> trust_policy trusted" where
  \<comment> \<open>the second argument is \<open>isoformat\<close> with \<open>Z\<close> for the zone\<close>
  "revoked_trust_policy env render p reason revoked_at =
     bindR (raise_if (tp_state p \<noteq> ''active'' \<or> strip reason = []) (Trust_Error ''Only an active exact trust identity can be revoked.'')) (\<lambda>_.
     bindR (parse_utc env revoked_at) (\<lambda>t.
     Inr (p\<lparr>tp_state := ''revoked'', tp_revoked_at := Some (render t), tp_revocation := Some (strip reason),
       tp_notes := tp_notes p @ [''This key no longer authorizes future updater material.'']\<rparr>)))"

definition public_trust_state :: "trust_env \<Rightarrow> string \<Rightarrow> (string \<times> json) list" where
  "public_trust_state env path = (case load_trust_policy env path of
       Inl _ \<Rightarrow> [(''state'', JStr ''invalid''), (''verification_ready'', JBool False), (''private_key_present'', JBool False),
         (''raw_paths_exposed'', JBool False)]
     | Inr p \<Rightarrow> [(''state'', JStr (tp_state p)), (''algorithm'', JStr (tp_algorithm p)), (''publisher'', JStr (tp_publisher p)),
         (''key_id'', json_opt (tp_key_id p)), (''channel'', JStr (tp_channel p)), (''mutation_authority'', JStr (tp_authority p)),
         (''silent_update_allowed'', JBool (tp_silent p)), (''supersedes_key_id'', json_opt (tp_supersedes p)),
         (''revoked_at_utc'', json_opt (tp_revoked_at p)), (''verification_ready'', JBool (policy_is_active p)),
         (''private_key_present'', JBool False), (''raw_paths_exposed'', JBool False)])"

section \<open>What is accepted\<close>

lemma safe_local_file_InrD: "safe_local_file env path d limit = Inr f \<Longrightarrow>
    te_files env path = Some f \<and> \<not> lf_link f \<and> lf_regular f \<and> lf_size f \<le> limit"
  by (auto simp: safe_local_file_def split: option.splits if_splits)

lemma read_signature_InrD: "read_signature env path = Inr s \<Longrightarrow> length s = 64"
  by (auto simp: read_signature_def bindR_eq_Inr_iff split: option.splits if_splits)

lemma signed_by_InrD: "signed_by env p path message e = Inr () \<Longrightarrow>
    \<exists>key signature. decode_public_key (the (tp_public_key p)) = Inr key \<and> read_signature env path = Inr signature \<and>
      te_verify env key signature message"
  by (auto simp: signed_by_def bindR_eq_Inr_iff)

definition policy_valid :: "trust_env \<Rightarrow> trust_policy \<Rightarrow> bool" where
  "policy_valid env p \<longleftrightarrow> policy_fields_ok p \<and> trust_state_ok env p = Inr () \<and> tp_version p = 1"

lemma validated_policy_Inr_iff: "validated_policy env parsed = Inr p \<longleftrightarrow>
    parsed = Some p \<and> policy_fields_ok p \<and> trust_state_ok env p = Inr ()"
  by (auto simp: validated_policy_def bindR_eq_Inr_iff split: option.splits if_splits)

lemma load_trust_policy_InrD: "load_trust_policy env path = Inr p \<Longrightarrow> policy_valid env p"
  by (auto simp: load_trust_policy_def policy_valid_def bindR_eq_Inr_iff validated_policy_Inr_iff split: sum.splits)

lemma valid_active_identity: "policy_valid env p \<Longrightarrow> tp_state p = ''active'' \<Longrightarrow> policy_is_active p \<and> truthy (tp_not_before p)"
  by (simp add: policy_valid_def trust_state_ok_def policy_is_active_def bindR_eq_Inr_iff)

definition in_window :: "trust_env \<Rightarrow> trust_policy \<Rightarrow> int \<Rightarrow> bool" where
  "in_window env p now \<longleftrightarrow>
     (case tp_not_before p of None \<Rightarrow> False | Some s \<Rightarrow> (case parse_utc env s of Inl _ \<Rightarrow> False | Inr t \<Rightarrow> t \<le> now)) \<and>
     (case tp_not_after p of None \<Rightarrow> True | Some s \<Rightarrow> s = [] \<or> (case parse_utc env s of Inl _ \<Rightarrow> False | Inr t \<Rightarrow> now \<le> t))"

lemma within_key_window_InrD: "within_key_window env p now = Inr () \<Longrightarrow> truthy (tp_not_before p) \<Longrightarrow> in_window env p now"
  by (auto simp: within_key_window_def in_window_def truthy_def bindR_eq_Inr_iff split: option.splits if_splits)

lemma load_release_manifest_InrD: "load_release_manifest env path = Inr m \<Longrightarrow> manifest_fields_ok m \<and> release_plan_ok m"
  by (auto simp: load_release_manifest_def split: sum.splits option.splits if_splits)

lemma artifact_matches_InrD: "artifact_matches env path f m = Inr () \<Longrightarrow>
    artifact_name path = rm_filename m \<and> lf_size f = rm_size m \<and> te_sha256 env (lf_bytes f) = rm_sha256 m"
  by (simp add: artifact_matches_def bindR_eq_Inr_iff)

lemma verify_release_artifactD:
  assumes "verify_release_artifact env a mp sp pp now = Inr m"
  shows "\<exists>p f. load_trust_policy env pp = Inr p \<and> policy_is_active p \<and> safe_local_file env a ''release artifact'' artifact_limit = Inr f \<and>
    load_release_manifest env mp = Inr m \<and> rm_publisher m = tp_publisher p \<and> rm_channel m = tp_channel p \<and>
    tp_key_id p = Some (rm_key_id m) \<and> within_key_window env p now = Inr () \<and>
    (\<exists>t. parse_utc env (rm_expires m) = Inr t \<and> now \<le> t) \<and> rm_min_schema m \<le> rm_max_schema m \<and>
    signed_by env p sp (release_canonical_bytes m) (Trust_Error ''The release signature is invalid or uses the wrong key.'') = Inr () \<and>
    artifact_matches env a f m = Inr ()"
  using assms by (auto simp: verify_release_artifact_def bindR_eq_Inr_iff)

text \<open>
  Claim C39.  A release is accepted only under a valid active policy that is inside its window, for the publisher, the
  channel and the key identity of that policy, with a signature of the policy's key over the canonical text of the very
  manifest returned, before that manifest expires, and for a regular file whose name, size and digest the manifest states.
\<close>
theorem accepted_release_is_trusted:
  assumes "verify_release_artifact env a mp sp pp now = Inr m"
  shows "\<exists>p f key signature expiry. load_trust_policy env pp = Inr p \<and> policy_valid env p \<and> tp_state p = ''active'' \<and>
    in_window env p now \<and> rm_publisher m = tp_publisher p \<and> rm_channel m = tp_channel p \<and> tp_key_id p = Some (rm_key_id m) \<and>
    decode_public_key (the (tp_public_key p)) = Inr key \<and> read_signature env sp = Inr signature \<and>
    te_verify env key signature (release_canonical_bytes m) \<and> manifest_fields_ok m \<and> release_plan_ok m \<and>
    parse_utc env (rm_expires m) = Inr expiry \<and> now \<le> expiry \<and>
    te_files env a = Some f \<and> \<not> lf_link f \<and> lf_regular f \<and>
    artifact_name a = rm_filename m \<and> lf_size f = rm_size m \<and> te_sha256 env (lf_bytes f) = rm_sha256 m"
proof -
  obtain p f where p: "load_trust_policy env pp = Inr p" "policy_is_active p"
      and f: "safe_local_file env a ''release artifact'' artifact_limit = Inr f"
      and m: "load_release_manifest env mp = Inr m" "rm_publisher m = tp_publisher p" "rm_channel m = tp_channel p"
        "tp_key_id p = Some (rm_key_id m)" "within_key_window env p now = Inr ()"
      and t: "\<exists>t. parse_utc env (rm_expires m) = Inr t \<and> now \<le> t"
      and s: "signed_by env p sp (release_canonical_bytes m) (Trust_Error ''The release signature is invalid or uses the wrong key.'') = Inr ()"
      and x: "artifact_matches env a f m = Inr ()"
    using verify_release_artifactD [OF assms] by blast
  have v: "policy_valid env p" using p(1) by (rule load_trust_policy_InrD)
  have act: "tp_state p = ''active''" using p(2) by (simp add: policy_is_active_def)
  have "in_window env p now" using within_key_window_InrD [OF m(5)] valid_active_identity [OF v act] by simp
  then show ?thesis
    using p(1) v act m t signed_by_InrD [OF s] safe_local_file_InrD [OF f] load_release_manifest_InrD [OF m(1)]
      artifact_matches_InrD [OF x] by blast
qed

section \<open>The succession of keys\<close>

lemma load_trust_transition_InrD: "load_trust_transition env path = Inr t \<Longrightarrow> transition_fields_ok t \<and> transition_ok env t = Inr ()"
  by (auto simp: load_trust_transition_def bindR_eq_Inr_iff split: sum.splits trust_error.splits option.splits if_splits)

definition authorised :: "trust_env \<Rightarrow> string \<Rightarrow> trust_policy \<Rightarrow> trust_transition \<Rightarrow> bool" where
  "authorised env sp p t \<longleftrightarrow> policy_is_active p \<and> transition_fields_ok t \<and> transition_ok env t = Inr () \<and>
     tt_publisher t = tp_publisher p \<and> tt_channel t = tp_channel p \<and> tp_key_id p = Some (tt_previous t) \<and>
     (\<exists>key signature. decode_public_key (the (tp_public_key p)) = Inr key \<and> read_signature env sp = Inr signature \<and>
       te_verify env key signature (transition_canonical_bytes t))"

lemma authorisedI:
  assumes "policy_is_active p" "load_trust_transition env path = Inr t"
    and "tt_publisher t = tp_publisher p" "tt_channel t = tp_channel p" "tp_key_id p = Some (tt_previous t)"
    and "signed_by env p sp (transition_canonical_bytes t) e = Inr ()"
  shows "authorised env sp p t"
  using assms(1,3-5) load_trust_transition_InrD [OF assms(2)] signed_by_InrD [OF assms(6)] by (simp add: authorised_def)

lemma verify_trust_transitionD:
  assumes "verify_trust_transition env tp sp pp now = Inr q"
  shows "\<exists>p t. load_trust_policy env pp = Inr p \<and> load_trust_transition env tp = Inr t \<and> authorised env sp p t \<and> q = successor_policy p t"
proof -
  from assms obtain p t where "load_trust_policy env pp = Inr p" "policy_is_active p" "load_trust_transition env tp = Inr t"
      "tt_publisher t = tp_publisher p" "tt_channel t = tp_channel p" "tp_key_id p = Some (tt_previous t)"
      "signed_by env p sp (transition_canonical_bytes t) (Trust_Error ''The updater trust transition signature is invalid.'') = Inr ()"
      "q = successor_policy p t"
    by (auto simp: verify_trust_transition_def bindR_eq_Inr_iff validated_policy_Inr_iff)
  then show ?thesis using authorisedI by blast
qed

lemma exact_name_length: "exact_name n s \<Longrightarrow> s \<noteq> [] \<and> length s \<le> Suc n"
  by (auto simp: exact_name_def split: list.splits)

lemma parse_utc_empty_free: "truthy (Some s) \<longleftrightarrow> s \<noteq> []"
  by (simp add: truthy_def)

lemma successor_fields_ok:
  assumes "policy_fields_ok p" "transition_fields_ok t" "tp_key_id p = Some (tt_previous t)"
  shows "policy_fields_ok (successor_policy p t)"
proof -
  have "length (tt_new t) \<le> 200" "length (tt_previous t) \<le> 200" "length (tt_public_key t) \<le> 200"
    using assms(2) exact_name_length by (fastforce simp: transition_fields_ok_def length_between_def)+
  then show ?thesis using assms(1,3) by (simp add: policy_fields_ok_def successor_policy_def)
qed

lemma successor_state_ok:
  assumes "transition_fields_ok t" "transition_ok env t = Inr ()" "tt_activates t \<noteq> []"
  shows "trust_state_ok env (successor_policy p t) = Inr ()"
proof -
  have "tt_new t \<noteq> []" "tt_public_key t \<noteq> []"
    using assms(1) exact_name_length by (fastforce simp: transition_fields_ok_def length_between_def)+
  then show ?thesis using assms(2,3)
    by (auto simp: transition_ok_def trust_state_ok_def successor_policy_def truthy_def bindR_eq_Inr_iff)
qed

definition iso_refuses_empty :: "trust_env \<Rightarrow> bool" where
  \<comment> \<open>\<open>fromisoformat("")\<close> raises\<close>
  "iso_refuses_empty env \<longleftrightarrow> te_iso env [] = None"

lemma transition_times_written: "transition_ok env t = Inr () \<Longrightarrow> iso_refuses_empty env \<Longrightarrow> tt_activates t \<noteq> []"
  by (auto simp: transition_ok_def bindR_eq_Inr_iff parse_utc_def iso_refuses_empty_def split: option.splits)

lemma successor_valid:
  assumes "policy_valid env p" "authorised env' sp p t" "te_iso env' = te_iso env" "iso_refuses_empty env"
  shows "policy_valid env (successor_policy p t)"
proof -
  have same: "\<And>s. parse_utc env' s = parse_utc env s" using assms(3) by (simp add: parse_utc_def)
  have ok: "transition_ok env t = Inr ()" "transition_fields_ok t" "tp_key_id p = Some (tt_previous t)"
    using assms(2) by (simp_all add: authorised_def transition_ok_def same)
  then show ?thesis
    using assms(1) successor_fields_ok [OF _ ok(2,3)] successor_state_ok [OF ok(2,1) transition_times_written [OF ok(1) assms(4)]]
    by (simp add: policy_valid_def) (simp add: successor_policy_def)
qed

text \<open>The trust an installation can reach from a first policy, by transitions accepted one after the other.\<close>

inductive trust_chain :: "(string \<Rightarrow> int option option) \<Rightarrow> (string \<Rightarrow> string \<Rightarrow> string \<Rightarrow> bool) \<Rightarrow> trust_policy \<Rightarrow> trust_policy \<Rightarrow> bool"
  for iso verify p where
  chain_start: "trust_chain iso verify p p"
| chain_next: "trust_chain iso verify p q \<Longrightarrow> te_iso env = iso \<Longrightarrow> te_verify env = verify \<Longrightarrow>
    load_trust_policy env pp = Inr q \<Longrightarrow> verify_trust_transition env tp sp pp now = Inr r \<Longrightarrow> trust_chain iso verify p r"

definition predecessor_signed :: "(string \<Rightarrow> string \<Rightarrow> string \<Rightarrow> bool) \<Rightarrow> trust_policy \<Rightarrow> trust_policy \<Rightarrow> bool" where
  "predecessor_signed verify q r \<longleftrightarrow> (\<exists>t key signature. decode_public_key (the (tp_public_key q)) = Inr key \<and> length signature = 64 \<and>
     verify key signature (transition_canonical_bytes t) \<and> tp_key_id q = Some (tt_previous t) \<and> tt_previous t \<noteq> tt_new t \<and>
     r = successor_policy q t)"

lemma chain_step_signed:
  assumes "load_trust_policy env pp = Inr q" "verify_trust_transition env tp sp pp now = Inr r"
  shows "predecessor_signed (te_verify env) q r \<and> (\<exists>t. authorised env sp q t \<and> r = successor_policy q t)"
proof -
  from verify_trust_transitionD [OF assms(2)] assms(1) obtain t where t: "authorised env sp q t" "r = successor_policy q t"
    by auto
  then have "tt_previous t \<noteq> tt_new t" by (auto simp: authorised_def transition_ok_def bindR_eq_Inr_iff)
  then show ?thesis using t read_signature_InrD unfolding predecessor_signed_def authorised_def by blast
qed

text \<open>
  Claim C40.  However often the trusted key is replaced, the policy stays valid, for the first publisher and channel,
  without silent mutation, and it is either the first one or names as superseded a policy of the chain whose key signed it.
\<close>
theorem trust_never_leaves_its_publisher:
  assumes "trust_chain (te_iso env) (te_verify env) p q" and "policy_valid env p" and "iso_refuses_empty env"
  shows "policy_valid env q \<and> tp_publisher q = tp_publisher p \<and> tp_channel q = tp_channel p \<and> \<not> tp_silent q \<and>
    (q = p \<or> (\<exists>s. trust_chain (te_iso env) (te_verify env) p s \<and> predecessor_signed (te_verify env) s q \<and>
       tp_supersedes q = tp_key_id s))"
  using assms(1)
proof (induction rule: trust_chain.induct)
  case chain_start
  then show ?case using assms(2) by (simp add: policy_valid_def trust_state_ok_def bindR_eq_Inr_iff)
next
  case (chain_next q e pp tp sp now r)
  obtain t where t: "authorised e sp q t" "r = successor_policy q t"
    using chain_step_signed [OF chain_next.hyps(4,5)] by blast
  have "policy_valid env r"
    using chain_next.IH chain_next.hyps(2) assms(3) t successor_valid by metis
  then show ?case
    using chain_next.IH chain_next.hyps(1) chain_step_signed [OF chain_next.hyps(4,5)] chain_next.hyps(3) t(2)
    by (auto simp: successor_policy_def)
qed

section \<open>Revocation\<close>

lemma inactive_policy_accepts_nothing:
  assumes "load_trust_policy env pp = Inr p" "tp_state p \<noteq> ''active''"
  shows "(\<exists>e. verify_release_artifact env a mp sp pp now = Inl e) \<and> (\<exists>e. verify_trust_transition env tp sp pp now = Inl e)"
proof -
  have "verify_release_artifact env a mp sp pp now \<noteq> Inr m" for m
    using verify_release_artifactD [of env a mp sp pp now m] assms by (auto simp: policy_is_active_def)
  moreover have "verify_trust_transition env tp sp pp now \<noteq> Inr q" for q
    using verify_trust_transitionD [of env tp sp pp now q] assms by (auto simp: authorised_def policy_is_active_def)
  ultimately show ?thesis by (meson sum.exhaust)
qed

lemma loaded_text: "load_trust_policy env pp = Inr p \<Longrightarrow> \<exists>text. file_text env pp ''updater trust policy'' = Inr text \<and> te_policy env text = Some p"
  by (auto simp: load_trust_policy_def bindR_eq_Inr_iff validated_policy_Inr_iff split: sum.splits)

text \<open>
  Wherever the file of a policy holds the record that revoking made of it, nothing is accepted any more.
\<close>
theorem revoked_key_accepts_nothing:
  assumes "revoked_trust_policy env render p reason at = Inr r"
    and "file_text env' pp ''updater trust policy'' = Inr text" and "te_policy env' text = Some r"
  shows "(\<exists>e. verify_release_artifact env' a mp sp pp now = Inl e) \<and> (\<exists>e. verify_trust_transition env' tp sp pp now = Inl e)"
proof (cases "load_trust_policy env' pp")
  case (Inl e)
  then show ?thesis
    by (auto simp: verify_release_artifact_def verify_trust_transition_def bindR_def raise_if_def split: sum.splits)
next
  case (Inr q)
  then have "q = r" using loaded_text assms(2,3) by force
  moreover have "tp_state r = ''revoked''" using assms(1) by (auto simp: revoked_trust_policy_def bindR_eq_Inr_iff)
  ultimately show ?thesis using inactive_policy_accepts_nothing [OF Inr] by simp
qed

section \<open>Examples and limits\<close>

definition example_key_text :: string where
  "example_key_text = replicate 43 CHR ''A'' @ ''=''"

definition example_policy :: trust_policy where
  "example_policy = \<lparr>tp_version = 1, tp_contract = ''elysia-update-trust-1.0'', tp_state = ''active'', tp_algorithm = ''ed25519'',
     tp_publisher = ''Harz'', tp_key_id = Some ''k1'', tp_public_key = Some example_key_text, tp_not_before = Some ''a'', tp_not_after = Some ''b'',
     tp_channel = ''stable'', tp_authority = ''local_admin_explicit'', tp_silent = False, tp_supersedes = None, tp_revoked_at = None,
     tp_revocation = None, tp_notes = []\<rparr>"

definition example_manifest :: release_manifest where
  "example_manifest = \<lparr>rm_contract = ''elysia-release-artifact-manifest-1.0'', rm_publisher = ''Harz'', rm_product = ''Elysia'',
     rm_release_id = ''r1'', rm_version = ''1.0.0'', rm_channel = ''stable'', rm_key_id = ''k1'', rm_filename = ''e.deb'',
     rm_sha256 = replicate 64 CHR ''0'', rm_size = 3, rm_graph_sha256 = replicate 64 CHR ''1'', rm_min_schema = 1, rm_max_schema = 2,
     rm_schema_target = None, rm_migrations = [], rm_component_changes = [], rm_created = ''a'', rm_expires = ''b'', rm_inventory = []\<rparr>"

definition example_transition :: trust_transition where
  "example_transition = \<lparr>tt_contract = ''elysia-update-trust-transition-1.0'', tt_id = ''t1'', tt_publisher = ''Harz'', tt_channel = ''stable'',
     tt_previous = ''k1'', tt_new = ''k2'', tt_public_key = example_key_text, tt_created = ''a'', tt_activates = ''b'', tt_not_after = ''c'',
     tt_expires = ''c'', tt_reason = ''rotate''\<rparr>"

definition example_trust_env :: trust_env where
  \<comment> \<open>the times \<open>a\<close>, \<open>b\<close>, \<open>c\<close> are 0, 10, 20; every signature of 64 zero bytes under the zero key verifies\<close>
  "example_trust_env = \<lparr>
     te_files = (\<lambda>path.
       if path = ''d/e.deb'' then Some \<lparr>lf_link = False, lf_regular = True, lf_size = 3, lf_bytes = ''abc'', lf_text = None\<rparr>
       else if path = ''s'' then Some \<lparr>lf_link = False, lf_regular = True, lf_size = 88, lf_bytes = [], lf_text = Some (replicate 86 CHR ''A'' @ ''=='')\<rparr>
       else Some \<lparr>lf_link = False, lf_regular = True, lf_size = 9, lf_bytes = [], lf_text = Some path\<rparr>),
     te_iso = (\<lambda>s. if s = ''a'' then Some (Some 0) else if s = ''b'' then Some (Some 10) else if s = ''c'' then Some (Some 20) else None),
     te_verify = (\<lambda>key signature message. key = replicate 32 CHR 0x00 \<and> signature = replicate 64 CHR 0x00),
     te_sha256 = (\<lambda>bytes. if bytes = ''abc'' then replicate 64 CHR ''0'' else replicate 64 CHR ''2''),
     te_policy = (\<lambda>text. if text = ''p'' then Some example_policy else if text = ''q'' then Some (successor_policy example_policy example_transition) else None),
     te_manifest = (\<lambda>text. if text = ''m'' then Some example_manifest else None),
     te_transition = (\<lambda>text. if text = ''t'' then Some example_transition else None)\<rparr>"

lemma example_release: "verify_release_artifact example_trust_env ''d/e.deb'' ''m'' ''s'' ''p'' 5 = Inr example_manifest"
  by code_simp

lemma example_rotation: "verify_trust_transition example_trust_env ''t'' ''s'' ''p'' 15 = Inr (successor_policy example_policy example_transition)"
  by code_simp

lemma example_expired: "verify_release_artifact example_trust_env ''d/e.deb'' ''m'' ''s'' ''p'' 15 = Inl (Trust_Error ''The updater verification key expired.'')"
  by code_simp

theorem accepted_release_is_trusted_witness:
  "\<exists>p signature. load_trust_policy example_trust_env ''p'' = Inr p \<and> read_signature example_trust_env ''s'' = Inr signature \<and>
     te_verify example_trust_env (replicate 32 CHR 0x00) signature (release_canonical_bytes example_manifest) \<and> tp_publisher p = ''Harz''"
proof -
  have key: "decode_public_key example_key_text = Inr (replicate 32 CHR 0x00)" by code_simp
  have load: "load_trust_policy example_trust_env ''p'' = Inr example_policy" by code_simp
  show ?thesis
    using accepted_release_is_trusted [OF example_release] load key
    by (auto simp: example_policy_def)
qed

lemma example_policy_valid: "policy_valid example_trust_env example_policy"
  by code_simp

lemma example_chain: "trust_chain (te_iso example_trust_env) (te_verify example_trust_env) example_policy (successor_policy example_policy example_transition)"
proof (rule trust_chain.chain_next [OF trust_chain.chain_start refl refl])
  show "load_trust_policy example_trust_env ''p'' = Inr example_policy" by code_simp
  show "verify_trust_transition example_trust_env ''t'' ''s'' ''p'' 15 = Inr (successor_policy example_policy example_transition)"
    by (rule example_rotation)
qed

theorem trust_never_leaves_its_publisher_witness:
  "policy_valid example_trust_env (successor_policy example_policy example_transition) \<and>
   tp_publisher (successor_policy example_policy example_transition) = ''Harz''"
proof -
  have "iso_refuses_empty example_trust_env" by code_simp
  then show ?thesis
    using trust_never_leaves_its_publisher [OF example_chain example_policy_valid] by (simp add: example_policy_def)
qed

lemma expired_key_authorises_successor:
  \<comment> \<open>the key that no longer verifies a release still signs its successor\<close>
  "verify_release_artifact example_trust_env ''d/e.deb'' ''m'' ''s'' ''p'' 15 = Inl (Trust_Error ''The updater verification key expired.'') \<and>
   verify_trust_transition example_trust_env ''t'' ''s'' ''p'' 15 = Inr (successor_policy example_policy example_transition)"
  using example_expired example_rotation by (rule conjI)

theorem revoked_key_accepts_nothing_witness:
  "\<exists>r. revoked_trust_policy example_trust_env (\<lambda>_. ''a'') example_policy ''lost'' ''b'' = Inr r \<and>
     (\<exists>e. verify_trust_transition (example_trust_env\<lparr>te_policy := \<lambda>_. Some r\<rparr>) ''t'' ''s'' ''p'' 15 = Inl e)"
proof -
  obtain r where r: "revoked_trust_policy example_trust_env (\<lambda>_. ''a'') example_policy ''lost'' ''b'' = Inr r"
  proof -
    have "\<not> isl (revoked_trust_policy example_trust_env (\<lambda>_. ''a'') example_policy ''lost'' ''b'')" by code_simp
    then show thesis using that by (cases "revoked_trust_policy example_trust_env (\<lambda>_. ''a'') example_policy ''lost'' ''b''") auto
  qed
  have "file_text (example_trust_env\<lparr>te_policy := \<lambda>_. Some r\<rparr>) ''p'' ''updater trust policy'' = Inr ''p''"
    by (simp add: example_trust_env_def file_text_def safe_local_file_def document_limit_def)
  then show ?thesis using r revoked_key_accepts_nothing [OF r] by fastforce
qed

end
