(* ===== verification/Spec2Isabelle.thy ===== *)
theory Spec2Isabelle
  imports Machines CodevPlans CodevExample MemoryFacade EmergencyControl ComputeGovernor ResourceGuard PolicyGate
    WorkingWorkspace HybridRetrieval ComponentGraph CodevNative SessionMemory
    Router ApiGate ReleaseTrust
begin

text \<open>
  The governed core of Elysia, a local assistant whose every effect passes an authority that can say
  no.  This development models those authorities: the grants, plans, approvals and sessions through
  which Codev clients touch workspaces, the patches they apply, the emergency stop, the compute
  governor and its resource guard, the policy gate of plans, the cognition governor and the context
  it assembles, the component graph of the installer, and the memory subsystem with its boundary.

  \<^bold>\<open>Parts and theories.\<close>

  \<^item> \<open>Prelude\<close> has Python's text and dictionary operations; \<open>Json\<close>, \<open>Decimals\<close> the serialised
    values; \<open>Machines\<close> the contracts of step functions (invariant, guarded, versioned, single use);
    \<open>Actions\<close> methods that update state and may raise; \<open>Protocols\<close> what a
    method keeps while its authority lasts.
  \<^item> \<open>CodevContracts\<close> (\<open>core/codev/contracts.py\<close>, \<open>revisions.py\<close>), \<open>CodevGrants\<close>
    (\<open>grants.py\<close>: \<open>GrantAuthority\<close>) and \<open>CodevPlans\<close> (\<open>approvals.py\<close>: \<open>PlanAuthority\<close>): who may do
    what in which workspace, under which epoch, and single-use approvals of exact plans.
  \<^item> \<open>CodevSessions\<close> (\<open>sessions.py\<close>, \<open>installation.py\<close>): native sessions of the signed-in account.
    \<open>CodevState\<close> is the state the adapters share, with the revocation of an actor; \<open>CodevPairing\<close>
    (\<open>pairing.py\<close>, the transcript of \<open>broker_crypto.py\<close>) the pairing of a browser, its lease and the
    authentication of its requests; \<open>CodevBrowser\<close> (\<open>browser_workspaces.py\<close>) shared workspaces and
    their patches; \<open>CodevBroker\<close> (\<open>actions.py\<close>, \<open>broker.py\<close>) chats, the dispatch and the transport.
    \<open>CodevInvariant\<close> and \<open>CodevMachine\<close> compose them into one machine whose operations are the
    calls of native windows, browser, online service, sweeper and chat monitors in any order;
    \<open>CodevExample\<close> is a concrete history, on which its properties are applied.
  \<^item> \<open>CodingApprovals\<close> (\<open>app/api/coding_operation_service.py\<close>): exact one-time approvals of coding
    operations; \<open>CodingDiffs\<close> the unified diff, \<open>CodingPatches\<close> its guarded application to a file
    (\<open>coding_patch_service.py\<close>) with the backup kept before it (\<open>coding_backup_service.py\<close>), in one of
    the approval modes (\<open>coding_approval_modes.py\<close>).
    \<open>CodevNative\<close> (\<open>core/codev/workspaces.py\<close>) is what a native window does with them: it selects and
    reads a directory under a grant, plans a patch, and applies an approved plan file by file.
    \<open>PathGuard\<close> (\<open>coding_path_guard_service.py\<close>, \<open>coding_repo_registry.py\<close>) decides which paths any of
    them may touch, over paths, links and nodes of a file system given as an argument, and has the
    registry of repositories as a machine of its recordings and revocations.
  \<^item> \<open>CognitionModels\<close>, \<open>CognitionGovernor\<close>, \<open>Uncertainty\<close>, \<open>WorkingWorkspace\<close>, \<open>HybridRetrieval\<close>
    (\<open>models.py\<close>, \<open>governor.py\<close>, \<open>uncertainty.py\<close>, \<open>workspace.py\<close>, \<open>hybrid_retrieval.py\<close> of
    \<open>app/cognition\<close>): the effort a request earns and what it may do, the assessment of what was
    found, the context assembled for the model, the fusion of two searches.
  \<^item> \<open>ComponentGraph\<close> (\<open>app/install/component_graph_service.py\<close>): which components a profile installs.
  \<^item> \<open>EmergencyControl\<close>, \<open>ComputeGovernor\<close>, \<open>ResourceGuard\<close> (\<open>app/cognition\<close>): the stop with its
    persisted state and request registry, the ledger of accelerator leases and jobs with the placement
    decision, the sampler and watchdog of temperatures and memory.
  \<^item> \<open>PolicyGate\<close> (\<open>core/policy_gate.py\<close>): the review of a plan before it runs.
  \<^item> \<open>ApiGate\<close> (\<open>app/install/local_auth.py\<close>, the middleware of \<open>app/api/main.py\<close>): what a request over
    HTTP must pass before any route: locality, credential, emergency stop, managed policy.
    \<open>ReleaseTrust\<close> (\<open>app/install/release_trust.py\<close>): which releases and which successor keys the updater trusts.
  \<^item> \<open>Router\<close> (\<open>core/router.py\<close>): the intent, the features and the mode of a request, which the governor reads.
  \<^item> \<open>Journal\<close> (\<open>core/journal_policy.py\<close>, \<open>journal_writer.py\<close>): what a session may write about
    itself, built from layered configuration, and the entry that obeys it.  \<open>SessionMemory\<close>
    (\<open>retrieval_policy.py\<close>, \<open>memory_manager.py\<close>, \<open>context_gatherer.py\<close>): what later sessions recall of it.
  \<^item> \<open>MemoryItems\<close>, \<open>MemoryRequests\<close>, \<open>MemoryPolicies\<close> (\<open>app/memory/schemas\<close>): the data and its
    validation.  \<open>MemoryBoundary\<close> decides on retrieval, exposure, mutation and promotion;
    \<open>MemoryStore\<close> is the item store on files with its cache; \<open>MemoryMutations\<close> the service that
    judges, records and carries out requests; \<open>MemoryGovernance\<close> its histories;
    \<open>MemoryQueries\<close>, \<open>MemoryClassification\<close>, \<open>MemorySalience\<close>, \<open>MemoryConsolidation\<close> and
    \<open>MemoryFacade\<close> the services on top (\<open>app/memory/services\<close>).

  The mutation service asks the boundary and writes the store; consolidation and the front send
  requests to it.  The broker authenticates a request, confirms the pairing, and lets the handlers
  draw on grants and plans; a revocation reaches grants, plans, shared workspaces and running chats
  together, and the emergency stop reaches requests, leases and sessions.

  \<^bold>\<open>What the lemmas show.\<close>  The step functions of the authorities keep their stores well
  formed; an epoch that was revoked never returns; an approval is drawn at most once and only for the plan
  its actor approved (locales \<open>versioned_ledger\<close>, \<open>single_use\<close>).  Along every
  history of the Codev machine no browser is served before its native approval, and no proof is accepted
  twice (locale \<open>protocol\<close> for the handlers); as long as no identifier of a pairing is claimed
  twice, what holds authority in that machine has a pairing in force.  The file of the stop keeps its
  posture up to an entitled reset, and it is reported while the file can be read or the process keeps its
  flag; a tripped guard stays tripped (\<open>guarded_machine\<close>); accelerator memory is not
  overcommitted. The item store refines a finite map, queries equal their declarative description, and no
  history of requests loses an item or changes a file without a decision that allows it.  Applying a diff to
  the text it was made from gives the text it shows, and a patched file goes back to an approval of exactly
  this file, source and diff; the receipt of a native plan tells what became of the files, and an approved
  plan on unchanged files puts its new texts and the backups of the old ones in place and touches nothing
  else.  What the path guard allows lies below a trusted root and is reached without links, and nothing
  below a repository revoked in a history of the registry is allowed.  A redacted journal entry does not
  depend on what it withholds, a boundary that forbids writing has the last word, and today's entry is not
  recalled today.  Effort is the greater of what was asked for and the floors of the request, and never adds
  authority; the assembled context holds authorised candidates only, within its budget, and accounts for the
  rest. Resolving a profile ends with the closure of its requirements.  The interface forwards exactly what
  passes its four guards, nothing that changes state under the stop; a release is trusted only under a key
  of the chain of signed successors.

  \<^bold>\<open>How code is rendered.\<close>  Module dictionaries are association lists in insertion
  order.  A method is a function from the state to its result and the state left behind; an exception is a
  value and keeps the changes made so far.  Clock readings, fresh identifiers, digests, ISO texts,
  signatures and the answers of services the repository does not contain are arguments; one call reads one
  clock.  A call that waits on the network takes the world before and after it.  A handler that holds a lock
  is one step.  So is a request to the broker, from the check of its pairing to its effect, though the code
  takes the locks of the two one after the other; \<open>late_share_outlives_revocation\<close> runs a share
  whose pairing is revoked in between.  The machine of Codev has the calls of browsers and of native windows
  on pairings and chats; the workspaces that native actors grant themselves in the same authorities are the
  business of \<open>CodevNative\<close>.  Reading the state file of the stop may find it readable,
  unreadable or undecodable, and the files of one release or one path check are one snapshot.  Text is a
  list of characters below code point 256; \<open>utf8_length\<close> counts bytes. Floats are rationals
  with the rounding written out.  A file is replaced atomically or not at all, as the temporary file and
  \<open>os.replace\<close> provide.  Recursion follows lists or strings, or ends by a measure (the profiles
  not yet met, the components not yet selected), so no fuel is needed, and every capacity bound is the
  code's own number.  Only the walk along symbolic links has a bound that is an argument, the hops after
  which the system reports a loop; a path without links resolves whatever the bound.

  \<^bold>\<open>Not modelled, and why.\<close>  SQLite repositories of the memory fabric and its releases, encryption,
  installers, subprocesses, HTTP routes, model back ends and the desktop application: their behaviour
  lies in engines, services and the file system rather than in this code.  The file
  adapters and the secret scanner (regular expressions, file formats, the state of the disk) are
  arguments of the theories that call them; the path guard is an argument too, which \<open>PathGuard\<close>
  supplies (\<open>guard_of_exact\<close>).  The planner and runtime of \<open>core\<close>, which phrase
  prompts and drive model back ends, and the repositories of \<open>app/cognition\<close> are not modelled.  Sockets, threads and the signatures of broker responses are
  left out.
\<close>

end
